(* ===== verification/Json.thy ===== *)
theory Json
  imports Prelude
begin

section \<open>JSON as \<open>encoding/json\<close> reads and writes it\<close>

text \<open>
  The messages of the protocol are JSON texts, and the code hands them to \<open>encoding/json\<close>. The
  theory has the value tree, the scanner (a tokenizer and a pushdown automaton over its tokens, as
  Go's own scanner is one), the printer, and the decoding of a tree into a struct field by field:
  keys are compared up to letter case, a later duplicate wins, \<open>null\<close> leaves a scalar field as it
  is, and a value of another type makes the whole call fail. Numbers keep their literal. Bytes of
  value 128 and above are passed through in strings (Go replaces invalid UTF-8), and Go's limit of
  10000 nested containers is not modelled.
\<close>

datatype json =
    JNull
  | JBool bool
  | JNum string
  | JStr string
  | JArr "json list"
  | JObj "(string \<times> json) list"

subsection \<open>Tokens\<close>

datatype token = TLBrace | TRBrace | TLBrack | TRBrack | TColon | TComma
  | TStr string | TNum string | TTrue | TFalse | TNull

definition json_ws :: "char \<Rightarrow> bool" where
  "json_ws c \<longleftrightarrow> of_char c \<in> {9, 10, 13, 32 :: nat}"

definition hex_val :: "char \<Rightarrow> nat option" where
  "hex_val c = (let n = of_char c :: nat in
     if 48 \<le> n \<and> n \<le> 57 then Some (n - 48)
     else if 97 \<le> n \<and> n \<le> 102 then Some (n - 87)
     else if 65 \<le> n \<and> n \<le> 70 then Some (n - 55) else None)"

definition hex4 :: "char \<Rightarrow> char \<Rightarrow> char \<Rightarrow> char \<Rightarrow> nat option" where
  "hex4 a b c d = (case (hex_val a, hex_val b, hex_val c, hex_val d) of
     (Some p, Some q, Some r, Some s) \<Rightarrow> Some (((p * 16 + q) * 16 + r) * 16 + s) | _ \<Rightarrow> None)"

definition utf8 :: "nat \<Rightarrow> string" where
  "utf8 n =
     (if n < 128 then [char_of n]
      else if n < 2048 then [char_of (192 + n div 64), char_of (128 + n mod 64)]
      else if n < 65536 then
        [char_of (224 + n div 4096), char_of (128 + n div 64 mod 64), char_of (128 + n mod 64)]
      else [char_of (240 + n div 262144), char_of (128 + n div 4096 mod 64),
            char_of (128 + n div 64 mod 64), char_of (128 + n mod 64)])"

definition simple_escape :: "char \<Rightarrow> char option" where
  "simple_escape c =
     (if c = CHR 0x22 \<or> c = CHR 0x5C \<or> c = CHR ''/'' then Some c
      else if c = CHR ''b'' then Some (CHR 0x08) else if c = CHR ''f'' then Some (CHR 0x0C)
      else if c = CHR ''n'' then Some (CHR 0x0A) else if c = CHR ''r'' then Some (CHR 0x0D)
      else if c = CHR ''t'' then Some (CHR 0x09) else None)"

text \<open>An unpaired surrogate is replaced by U+FFFD; a pair is one code point.\<close>

definition code_unit :: "nat \<Rightarrow> string \<Rightarrow> string \<times> string" where
  "code_unit u r =
     (if u < 55296 \<or> 57343 < u then (utf8 u, r)
      else case r of
        s # t # a # b # c # d # r' \<Rightarrow>
          (if s = CHR 0x5C \<and> t = CHR ''u'' \<and> u \<le> 56319 then
             (case hex4 a b c d of
                Some v \<Rightarrow> if 56320 \<le> v \<and> v \<le> 57343
                          then (utf8 (65536 + (u - 55296) * 1024 + (v - 56320)), r')
                          else (utf8 65533, r)
              | None \<Rightarrow> (utf8 65533, r))
           else (utf8 65533, r))
      | _ \<Rightarrow> (utf8 65533, r))"

lemma code_unit_length: "length (snd (code_unit u r)) \<le> length r"
  by (auto simp: code_unit_def split: list.splits option.splits)

text \<open>The characters of a string literal after its opening quote, and the text after it.\<close>

function lex_chars :: "string \<Rightarrow> (string \<times> string) option" where
  "lex_chars [] = None"
| "lex_chars (c # r) =
     (if c = CHR 0x22 then Some ([], r)
      else if (of_char c :: nat) < 32 then None
      else if c = CHR 0x5C then
        (case r of
           [] \<Rightarrow> None
         | e # r' \<Rightarrow>
             if e = CHR ''u'' then
               (case r' of
                  a # b # d # f # r'' \<Rightarrow>
                    (case hex4 a b d f of
                       None \<Rightarrow> None
                     | Some u \<Rightarrow> map_option (map_prod (\<lambda>s. fst (code_unit u r'') @ s) id)
                                   (lex_chars (snd (code_unit u r''))))
                | _ \<Rightarrow> None)
             else (case simple_escape e of
                     None \<Rightarrow> None
                   | Some x \<Rightarrow> map_option (map_prod (\<lambda>s. x # s) id) (lex_chars r')))
      else map_option (map_prod (\<lambda>s. c # s) id) (lex_chars r))"
  by pat_completeness auto
termination
proof (relation "measure length", goal_cases)
  case (2 c r e r' a rest b rest' d rest'' f r'' u)
  then show ?case using code_unit_length [of u r''] by simp
qed auto

lemma lex_chars_length: "lex_chars s = Some (t, r) \<Longrightarrow> length r < length s"
proof (induction s arbitrary: t r rule: lex_chars.induct)
  case (2 c s)
  then show ?case
    using code_unit_length
    by (fastforce split: if_splits list.splits option.splits
        dest: order.strict_trans2 [OF _ code_unit_length])
qed simp

text \<open>A number literal: sign, digits without a leading zero, fraction, exponent.\<close>

definition lex_frac :: "string \<Rightarrow> (string \<times> string) option" where
  "lex_frac s =
     (case s of
        c # r \<Rightarrow>
          if c = CHR ''.'' then
            (if takeWhile is_digit r = [] then None
             else Some (c # takeWhile is_digit r, dropWhile is_digit r))
          else Some ([], s)
      | [] \<Rightarrow> Some ([], []))"

definition lex_exp :: "string \<Rightarrow> (string \<times> string) option" where
  "lex_exp s =
     (case s of
        c # r \<Rightarrow>
          if c = CHR ''e'' \<or> c = CHR ''E'' then
            (let (sg, r') = (case r of d # r'' \<Rightarrow>
                   if d = CHR ''+'' \<or> d = CHR ''-'' then ([d], r'') else ([], r) | [] \<Rightarrow> ([], []))
             in if takeWhile is_digit r' = [] then None
                else Some (c # sg @ takeWhile is_digit r', dropWhile is_digit r'))
          else Some ([], s)
      | [] \<Rightarrow> Some ([], []))"

definition lex_sign :: "string \<Rightarrow> string \<times> string" where
  "lex_sign s = (case s of c # r \<Rightarrow> if c = CHR ''-'' then ([c], r) else ([], s) | [] \<Rightarrow> ([], []))"

definition lex_number :: "string \<Rightarrow> (string \<times> string) option" where
  "lex_number s =
     (let s1 = snd (lex_sign s); ds = takeWhile is_digit s1 in
      if ds = [] \<or> (hd ds = CHR ''0'' \<and> tl ds \<noteq> []) then None
      else (case lex_frac (dropWhile is_digit s1) of
              None \<Rightarrow> None
            | Some (f, s3) \<Rightarrow>
                (case lex_exp s3 of
                   None \<Rightarrow> None | Some (e, s4) \<Rightarrow> Some (fst (lex_sign s) @ ds @ f @ e, s4))))"

lemma lex_sign_append: "fst (lex_sign s) @ snd (lex_sign s) = s"
  by (simp add: lex_sign_def split: list.splits)

lemma lex_frac_append: "lex_frac s = Some (t, r) \<Longrightarrow> s = t @ r"
  by (auto simp: lex_frac_def split: list.splits if_splits)

lemma lex_exp_append: "lex_exp s = Some (t, r) \<Longrightarrow> s = t @ r"
  by (auto simp: lex_exp_def Let_def split: list.splits if_splits)

lemma lex_number_append:
  assumes "lex_number s = Some (t, r)"
  shows "s = t @ r \<and> t \<noteq> []"
proof -
  let ?s1 = "snd (lex_sign s)"
  from assms obtain f s3 e
    where t: "t = fst (lex_sign s) @ takeWhile is_digit ?s1 @ f @ e"
      and ne: "takeWhile is_digit ?s1 \<noteq> []"
      and f: "lex_frac (dropWhile is_digit ?s1) = Some (f, s3)"
      and e: "lex_exp s3 = Some (e, r)"
    by (auto simp: lex_number_def Let_def split: if_splits option.splits)
  have "s = fst (lex_sign s) @ takeWhile is_digit ?s1 @ dropWhile is_digit ?s1"
    by (simp only: takeWhile_dropWhile_id lex_sign_append)
  also have "dropWhile is_digit ?s1 = f @ e @ r"
    using lex_frac_append [OF f] lex_exp_append [OF e] by simp
  finally show ?thesis using t ne by simp
qed

function tokenize :: "string \<Rightarrow> token list option" where
  "tokenize [] = Some []"
| "tokenize (c # r) =
     (if json_ws c then tokenize r
      else if c = CHR 0x7B then map_option ((#) TLBrace) (tokenize r)
      else if c = CHR 0x7D then map_option ((#) TRBrace) (tokenize r)
      else if c = CHR ''['' then map_option ((#) TLBrack) (tokenize r)
      else if c = CHR '']'' then map_option ((#) TRBrack) (tokenize r)
      else if c = CHR '':'' then map_option ((#) TColon) (tokenize r)
      else if c = CHR '','' then map_option ((#) TComma) (tokenize r)
      else if c = CHR 0x22 then
        (case lex_chars r of None \<Rightarrow> None | Some (s, r') \<Rightarrow> map_option ((#) (TStr s)) (tokenize r'))
      else if has_prefix (c # r) ''true'' then map_option ((#) TTrue) (tokenize (drop 3 r))
      else if has_prefix (c # r) ''false'' then map_option ((#) TFalse) (tokenize (drop 4 r))
      else if has_prefix (c # r) ''null'' then map_option ((#) TNull) (tokenize (drop 3 r))
      else (case lex_number (c # r) of
              None \<Rightarrow> None | Some (l, r') \<Rightarrow> map_option ((#) (TNum l)) (tokenize r')))"
  by pat_completeness auto
termination
proof (relation "measure length", goal_cases)
  case (9 c r x s r')
  then show ?case by (auto dest: lex_chars_length)
next
  case (13 c r x l r')
  then have "lex_number (c # r) = Some (l, r')" by simp
  from lex_number_append [OF this] have "c # r = l @ r'" and "0 < length l" by simp_all
  then have "length (c # r) = length l + length r'" by (metis length_append)
  with \<open>0 < length l\<close> show ?case by simp
qed auto

subsection \<open>The automaton over the tokens\<close>

text \<open>A frame is an open container; its elements so far are in reverse order.\<close>

datatype frame = FArr "json list" | FObj "(string \<times> json) list" | FKey string "(string \<times> json) list"

datatype expect = XValue | XFirst | XKey | XFirstKey | XColon | XAfter | XDone json

fun json_complete :: "json \<Rightarrow> frame list \<Rightarrow> (expect \<times> frame list) option" where
  "json_complete v [] = Some (XDone v, [])"
| "json_complete v (FArr vs # st) = Some (XAfter, FArr (v # vs) # st)"
| "json_complete v (FKey k kvs # st) = Some (XAfter, FObj ((k, v) # kvs) # st)"
| "json_complete v (FObj kvs # st) = None"

fun value_token :: "token \<Rightarrow> frame list \<Rightarrow> (expect \<times> frame list) option" where
  "value_token TLBrace st = Some (XFirstKey, FObj [] # st)"
| "value_token TLBrack st = Some (XFirst, FArr [] # st)"
| "value_token (TStr s) st = json_complete (JStr s) st"
| "value_token (TNum l) st = json_complete (JNum l) st"
| "value_token TTrue st = json_complete (JBool True) st"
| "value_token TFalse st = json_complete (JBool False) st"
| "value_token TNull st = json_complete JNull st"
| "value_token _ st = None"

definition json_step :: "token \<Rightarrow> expect \<times> frame list \<Rightarrow> (expect \<times> frame list) option" where
  "json_step t s =
     (case fst s of
        XValue \<Rightarrow> value_token t (snd s)
      | XFirst \<Rightarrow>
          (case snd s of
             FArr vs # st \<Rightarrow>
               if t = TRBrack then json_complete (JArr (rev vs)) st else value_token t (snd s)
           | _ \<Rightarrow> None)
      | XKey \<Rightarrow>
          (case (t, snd s) of
             (TStr k, FObj kvs # st) \<Rightarrow> Some (XColon, FKey k kvs # st) | _ \<Rightarrow> None)
      | XFirstKey \<Rightarrow>
          (case (t, snd s) of
             (TStr k, FObj kvs # st) \<Rightarrow> Some (XColon, FKey k kvs # st)
           | (TRBrace, FObj kvs # st) \<Rightarrow> json_complete (JObj (rev kvs)) st
           | _ \<Rightarrow> None)
      | XColon \<Rightarrow> if t = TColon then Some (XValue, snd s) else None
      | XAfter \<Rightarrow>
          (case snd s of
             FArr vs # st \<Rightarrow>
               if t = TComma then Some (XValue, FArr vs # st)
               else if t = TRBrack then json_complete (JArr (rev vs)) st else None
           | FObj kvs # st \<Rightarrow>
               if t = TComma then Some (XKey, FObj kvs # st)
               else if t = TRBrace then json_complete (JObj (rev kvs)) st else None
           | _ \<Rightarrow> None)
      | XDone v \<Rightarrow> None)"

fun json_run :: "token list \<Rightarrow> expect \<times> frame list \<Rightarrow> (expect \<times> frame list) option" where
  "json_run [] s = Some s"
| "json_run (t # ts) s = (case json_step t s of None \<Rightarrow> None | Some s' \<Rightarrow> json_run ts s')"

definition json_parse :: "string \<Rightarrow> json option" where
  "json_parse s =
     (case tokenize s of
        None \<Rightarrow> None
      | Some ts \<Rightarrow> (case json_run ts (XValue, []) of Some (XDone v, _) \<Rightarrow> Some v | _ \<Rightarrow> None))"

subsection \<open>Printing\<close>

text \<open>The compact text \<open>json.Marshal\<close> writes: its string escapes (with the HTML ones) and the
  tokens of a tree, members in their order.\<close>

definition hex_char :: "nat \<Rightarrow> char" where
  "hex_char n = ''0123456789abcdef'' ! n"

definition esc_char :: "char \<Rightarrow> string" where
  "esc_char c =
     (if c = CHR 0x22 \<or> c = CHR 0x5C then [CHR 0x5C, c]
      else if c = CHR 0x0A then [CHR 0x5C, CHR ''n'']
      else if c = CHR 0x0D then [CHR 0x5C, CHR ''r'']
      else if c = CHR 0x09 then [CHR 0x5C, CHR ''t'']
      else if (of_char c :: nat) < 32 \<or> c \<in> set ''<>&'' then
        [CHR 0x5C, CHR ''u'', CHR ''0'', CHR ''0'', hex_char (of_char c div 16), hex_char (of_char c mod 16)]
      else [c])"

fun tok_text :: "token \<Rightarrow> string" where
  "tok_text TLBrace = [CHR 0x7B]"
| "tok_text TRBrace = [CHR 0x7D]"
| "tok_text TLBrack = ''[''"
| "tok_text TRBrack = '']''"
| "tok_text TColon = '':''"
| "tok_text TComma = '',''"
| "tok_text (TStr s) = CHR 0x22 # concat (map esc_char s) @ [CHR 0x22]"
| "tok_text (TNum l) = l"
| "tok_text TTrue = ''true''"
| "tok_text TFalse = ''false''"
| "tok_text TNull = ''null''"

fun comma_sep :: "token list list \<Rightarrow> token list" where
  "comma_sep [] = []"
| "comma_sep [x] = x"
| "comma_sep (x # xs) = x @ TComma # comma_sep xs"

fun json_tokens :: "json \<Rightarrow> token list" where
  "json_tokens JNull = [TNull]"
| "json_tokens (JBool b) = [if b then TTrue else TFalse]"
| "json_tokens (JNum l) = [TNum l]"
| "json_tokens (JStr s) = [TStr s]"
| "json_tokens (JArr vs) = TLBrack # comma_sep (map json_tokens vs) @ [TRBrack]"
| "json_tokens (JObj kvs) =
     TLBrace # comma_sep (map (\<lambda>(k, v). TStr k # TColon # json_tokens v) kvs) @ [TRBrace]"

definition toks_text :: "token list \<Rightarrow> string" where
  "toks_text ts = concat (map tok_text ts)"

definition json_print :: "json \<Rightarrow> string" where
  "json_print v = toks_text (json_tokens v)"

text \<open>A tree the printer can have been given: its numbers are number literals.\<close>

fun wf_json :: "json \<Rightarrow> bool" where
  "wf_json (JNum l) \<longleftrightarrow> lex_number l = Some (l, [])"
| "wf_json (JArr vs) \<longleftrightarrow> list_all wf_json vs"
| "wf_json (JObj kvs) \<longleftrightarrow> list_all (\<lambda>(k, v). wf_json v) kvs"
| "wf_json _ \<longleftrightarrow> True"

subsection \<open>Reading back what was printed\<close>

lemma comma_sep_Cons: "comma_sep (x # xs) = (if xs = [] then x else x @ TComma # comma_sep xs)"
  by (cases xs) simp_all

lemma json_tokens_hd: "\<exists>t ts. json_tokens v = t # ts \<and> t \<noteq> TRBrack \<and>
    (\<forall>vs st. json_step t (XFirst, FArr vs # st) = json_step t (XValue, FArr vs # st))"
  by (cases v) (auto simp: json_step_def)

lemma json_run_first:
  "json_run (json_tokens v @ ts) (XFirst, FArr vs # st) = json_run (json_tokens v @ ts) (XValue, FArr vs # st)"
  using json_tokens_hd [of v] by auto

text \<open>A tree whose tokens the automaton reads wherever a value is expected.\<close>

definition runs :: "json \<Rightarrow> bool" where
  "runs v \<longleftrightarrow> (\<forall>ts st. json_run (json_tokens v @ ts) (XValue, st)
     = (case json_complete v st of None \<Rightarrow> None | Some s \<Rightarrow> json_run ts s))"

lemma json_run_elems:
  assumes "\<forall>v \<in> set vs. runs v" and "vs \<noteq> []"
  shows "json_run (comma_sep (map json_tokens vs) @ TRBrack # ts) (XValue, FArr us # st)
       = (case json_complete (JArr (rev us @ vs)) st of None \<Rightarrow> None | Some s \<Rightarrow> json_run ts s)"
  using assms
proof (induction vs arbitrary: us)
  case (Cons v vs)
  have v: "json_run (json_tokens v @ ts') (XValue, FArr us # st) = json_run ts' (XAfter, FArr (v # us) # st)"
    for ts' using Cons.prems(1) by (simp add: runs_def)
  have steps: "json_step TComma (XAfter, FArr (v # us) # st) = Some (XValue, FArr (v # us) # st)"
    "json_step TRBrack (XAfter, FArr (v # us) # st) = json_complete (JArr (rev us @ [v])) st"
    by (simp_all add: json_step_def)
  show ?case
  proof (cases "vs = []")
    case True
    then show ?thesis by (simp add: v steps)
  next
    case False
    then have "json_run (comma_sep (map json_tokens vs) @ TRBrack # ts) (XValue, FArr (v # us) # st)
        = (case json_complete (JArr (rev (v # us) @ vs)) st of None \<Rightarrow> None | Some s \<Rightarrow> json_run ts s)"
      using Cons.prems(1) by (intro Cons.IH) simp_all
    then show ?thesis using False by (simp add: comma_sep_Cons v steps)
  qed
qed simp

lemma json_run_members:
  assumes "\<forall>kv \<in> set kvs. runs (snd kv)" and "kvs \<noteq> []" and "x = XKey \<or> x = XFirstKey"
  shows "json_run (comma_sep (map (\<lambda>(k, v). TStr k # TColon # json_tokens v) kvs) @ TRBrace # ts)
           (x, FObj us # st)
       = (case json_complete (JObj (rev us @ kvs)) st of None \<Rightarrow> None | Some s \<Rightarrow> json_run ts s)"
  using assms
proof (induction kvs arbitrary: us x)
  case (Cons kv kvs)
  obtain k v where kv: "kv = (k, v)" by (cases kv)
  have key: "json_step (TStr k) (x, FObj us # st) = Some (XColon, FKey k us # st)"
    using Cons.prems(3) by (auto simp: json_step_def)
  have colon: "json_step TColon (XColon, FKey k us # st) = Some (XValue, FKey k us # st)"
    by (simp add: json_step_def)
  have v: "json_run (json_tokens v @ ts') (XValue, FKey k us # st)
      = json_run ts' (XAfter, FObj ((k, v) # us) # st)" for ts'
    using Cons.prems(1) kv by (simp add: runs_def)
  have after: "json_step TComma (XAfter, FObj ((k, v) # us) # st) = Some (XKey, FObj ((k, v) # us) # st)"
    "json_step TRBrace (XAfter, FObj ((k, v) # us) # st) = json_complete (JObj (rev us @ [(k, v)])) st"
    by (simp_all add: json_step_def)
  show ?case
  proof (cases "kvs = []")
    case True
    then show ?thesis by (simp add: kv key colon v after)
  next
    case False
    then have "json_run (comma_sep (map (\<lambda>(k, v). TStr k # TColon # json_tokens v) kvs) @ TRBrace # ts)
          (XKey, FObj ((k, v) # us) # st)
        = (case json_complete (JObj (rev ((k, v) # us) @ kvs)) st of
             None \<Rightarrow> None | Some s \<Rightarrow> json_run ts s)"
      using Cons.prems(1) by (intro Cons.IH) simp_all
    then show ?thesis using False by (simp add: comma_sep_Cons kv key colon v after)
  qed
qed simp

lemma json_run_tokens: "runs v"
proof (induction v)
  case (JArr vs)
  have "json_run (json_tokens (JArr vs) @ ts) (XValue, st)
      = (case json_complete (JArr vs) st of None \<Rightarrow> None | Some s \<Rightarrow> json_run ts s)" for ts st
  proof (cases vs)
    case Nil
    then show ?thesis by (simp add: json_step_def)
  next
    case (Cons w ws)
    have first: "json_run (json_tokens w @ ts') (XFirst, FArr [] # st)
        = json_run (json_tokens w @ ts') (XValue, FArr [] # st)" for ts'
      by (rule json_run_first)
    have "json_run (comma_sep (map json_tokens vs) @ TRBrack # ts) (XFirst, FArr [] # st)
        = json_run (comma_sep (map json_tokens vs) @ TRBrack # ts) (XValue, FArr [] # st)"
      by (simp add: Cons comma_sep_Cons first)
    also have "\<dots> = (case json_complete (JArr (rev [] @ vs)) st of None \<Rightarrow> None | Some s \<Rightarrow> json_run ts s)"
      using JArr.IH Cons by (intro json_run_elems) auto
    finally show ?thesis by (simp add: json_step_def)
  qed
  then show ?case by (simp only: runs_def) blast
next
  case (JObj kvs)
  have "json_run (json_tokens (JObj kvs) @ ts) (XValue, st)
      = (case json_complete (JObj kvs) st of None \<Rightarrow> None | Some s \<Rightarrow> json_run ts s)" for ts st
  proof (cases "kvs = []")
    case True
    then show ?thesis by (simp add: json_step_def)
  next
    case False
    have "json_run (comma_sep (map (\<lambda>(k, v). TStr k # TColon # json_tokens v) kvs) @ TRBrace # ts)
            (XFirstKey, FObj [] # st)
        = (case json_complete (JObj (rev [] @ kvs)) st of None \<Rightarrow> None | Some s \<Rightarrow> json_run ts s)"
      using JObj.IH False by (intro json_run_members) (auto simp: snds.simps)
    then show ?thesis by (simp add: json_step_def)
  qed
  then show ?case by (simp only: runs_def) blast
qed (simp_all add: runs_def json_step_def)

subsection \<open>Tokenizing the printed text\<close>

lemma hex_table: "list_all (\<lambda>k. hex_val (hex_char k) = Some k) [0..<16]"
  by code_simp

lemma hex4_small:
  assumes "n < 256"
  shows "hex4 (CHR ''0'') (CHR ''0'') (hex_char (n div 16)) (hex_char (n mod 16)) = Some n"
proof -
  have "n div 16 < 16" "n mod 16 < 16" using assms by (simp_all add: div_less_iff_less_mult)
  then have "hex_val (hex_char (n div 16)) = Some (n div 16)"
    "hex_val (hex_char (n mod 16)) = Some (n mod 16)"
    using hex_table by (auto simp: list_all_iff)
  then show ?thesis by (simp add: hex4_def hex_val_def)
qed

lemma append_sections:
  "(@) (x # xs) = (\<lambda>ys. x # xs @ ys)" "(@) (us @ vs) = (\<lambda>ys. us @ vs @ ys)"
  "map_option ((@) []) r = r"
  by (auto intro: option.expand)

lemma lex_chars_esc:
  "lex_chars (esc_char c @ r) = map_option (map_prod (\<lambda>s. c # s) id) (lex_chars r)"
proof -
  let ?n = "of_char c :: nat"
  show ?thesis
  proof (cases "c \<in> {CHR 0x22, CHR 0x5C, CHR 0x0A, CHR 0x0D, CHR 0x09}")
    case True
    then show ?thesis by (auto simp: esc_char_def simple_escape_def)
  next
    case special: False
    show ?thesis
    proof (cases "?n < 32 \<or> c \<in> set ''<>&''")
      case True
      then have n: "?n < 128" by auto
      then have "?n < 256" by simp
      have hex: "hex4 (CHR ''0'') (CHR ''0'') (hex_char (?n div 16)) (hex_char (?n mod 16)) = Some ?n"
        using \<open>?n < 256\<close> by (rule hex4_small)
      have "esc_char c = [CHR 0x5C, CHR ''u'', CHR ''0'', CHR ''0'', hex_char (?n div 16), hex_char (?n mod 16)]"
        using True special by (auto simp: esc_char_def)
      moreover have "code_unit ?n r = ([c], r)"
        using n by (simp add: code_unit_def utf8_def)
      ultimately show ?thesis by (simp add: hex append_sections)
    next
      case False
      with special show ?thesis by (auto simp: esc_char_def)
    qed
  qed
qed

lemma lex_chars_text:
  "lex_chars (concat (map esc_char s) @ CHR 0x22 # r) = Some (s, r)"
  by (induction s) (simp_all add: lex_chars_esc)

text \<open>What may follow a number literal in printed text.\<close>

definition delim :: "string \<Rightarrow> bool" where
  "delim s \<longleftrightarrow> s = [] \<or> hd s \<in> {CHR '','', CHR '']'', CHR 0x7D}"

lemma delim_digits [simp]:
  assumes "delim s"
  shows "takeWhile is_digit (xs @ s) = takeWhile is_digit xs"
    "dropWhile is_digit (xs @ s) = dropWhile is_digit xs @ s"
proof -
  have "takeWhile is_digit s = [] \<and> dropWhile is_digit s = s"
    using assms by (cases s) (auto simp: delim_def is_digit_def)
  then show "takeWhile is_digit (xs @ s) = takeWhile is_digit xs"
    "dropWhile is_digit (xs @ s) = dropWhile is_digit xs @ s"
    by (induction xs) auto
qed

lemma lex_frac_delim: "delim s \<Longrightarrow> lex_frac xs = Some (f, r) \<Longrightarrow> lex_frac (xs @ s) = Some (f, r @ s)"
  by (cases xs; cases s) (auto simp: lex_frac_def delim_def split: if_splits)

lemma lex_exp_delim:
  assumes "delim s" and "lex_exp xs = Some (e, r)"
  shows "lex_exp (xs @ s) = Some (e, r @ s)"
proof (cases xs)
  case Nil
  with assms show ?thesis by (cases s) (auto simp: lex_exp_def delim_def)
next
  case (Cons c ys)
  show ?thesis
  proof (cases "c = CHR ''e'' \<or> c = CHR ''E''")
    case True
    with assms Cons show ?thesis
      by (cases ys) (auto simp: lex_exp_def Let_def split: if_splits)
  next
    case False
    with assms Cons show ?thesis by (auto simp: lex_exp_def)
  qed
qed

lemma lex_number_delim:
  assumes "delim s" and "lex_number l = Some (l, [])"
  shows "lex_number (l @ s) = Some (l, s)"
proof -
  let ?s1 = "snd (lex_sign l)"
  from assms(2) have ne: "l \<noteq> []" using lex_number_append by blast
  then have sg: "lex_sign (l @ s) = (fst (lex_sign l), ?s1 @ s)"
    by (cases l) (auto simp: lex_sign_def)
  from assms(2) obtain f s3 e
    where f: "lex_frac (dropWhile is_digit ?s1) = Some (f, s3)"
      and e: "lex_exp s3 = Some (e, [])"
      and ds: "\<not> (takeWhile is_digit ?s1 = []
        \<or> (hd (takeWhile is_digit ?s1) = CHR ''0'' \<and> tl (takeWhile is_digit ?s1) \<noteq> []))"
      and l: "l = fst (lex_sign l) @ takeWhile is_digit ?s1 @ f @ e"
    by (auto simp: lex_number_def Let_def split: if_splits option.splits)
  show ?thesis
    using ds l lex_frac_delim [OF assms(1) f] lex_exp_delim [OF assms(1) e]
    by (simp add: lex_number_def sg Let_def delim_digits [OF assms(1)])
qed

lemma lex_number_hd:
  assumes "lex_number (c # r) = Some (l, r')"
  shows "c = CHR ''-'' \<or> is_digit c"
  using assms by (auto simp: lex_number_def lex_sign_def Let_def split: if_splits)

lemma tokenize_number:
  assumes "delim s" and "lex_number l = Some (l, [])"
  shows "tokenize (l @ s) = map_option ((#) (TNum l)) (tokenize s)"
proof -
  from assms(2) obtain c r where l: "l = c # r"
    using lex_number_append by (cases l) blast+
  with assms(2) have "c = CHR ''-'' \<or> is_digit c" using lex_number_hd by blast
  then have c: "c \<notin> {CHR 0x7B, CHR 0x7D, CHR ''['', CHR '']'', CHR '':'', CHR '','', CHR 0x22,
      CHR ''t'', CHR ''f'', CHR ''n''}" "\<not> json_ws c"
    by (auto simp: is_digit_def json_ws_def)
  have "lex_number (c # r @ s) = Some (l, s)"
    using lex_number_delim [OF assms] l by simp
  then show ?thesis using c l by (simp add: has_prefix_def)
qed

text \<open>A list of tokens whose text, before a delimiter, tokenizes to itself.\<close>

definition lexes :: "token list \<Rightarrow> bool" where
  "lexes ts \<longleftrightarrow> (\<forall>s. delim s \<longrightarrow> tokenize (toks_text ts @ s) = map_option ((@) ts) (tokenize s))"

lemma toks_text_simps [simp]:
  "toks_text [] = []" "toks_text (t # ts) = tok_text t @ toks_text ts"
  "toks_text (ts @ us) = toks_text ts @ toks_text us"
  by (simp_all add: toks_text_def)

lemma tokenize_punct [simp]:
  "tokenize (tok_text TLBrace @ s) = map_option ((#) TLBrace) (tokenize s)"
  "tokenize (tok_text TRBrace @ s) = map_option ((#) TRBrace) (tokenize s)"
  "tokenize (tok_text TLBrack @ s) = map_option ((#) TLBrack) (tokenize s)"
  "tokenize (tok_text TRBrack @ s) = map_option ((#) TRBrack) (tokenize s)"
  "tokenize (tok_text TColon @ s) = map_option ((#) TColon) (tokenize s)"
  "tokenize (tok_text TComma @ s) = map_option ((#) TComma) (tokenize s)"
  "tokenize (tok_text TTrue @ s) = map_option ((#) TTrue) (tokenize s)"
  "tokenize (tok_text TFalse @ s) = map_option ((#) TFalse) (tokenize s)"
  "tokenize (tok_text TNull @ s) = map_option ((#) TNull) (tokenize s)"
  by (simp_all add: json_ws_def has_prefix_def)

lemma tokenize_str: "tokenize (tok_text (TStr k) @ s) = map_option ((#) (TStr k)) (tokenize s)"
  by (simp add: json_ws_def lex_chars_text)

declare tok_text.simps [simp del] tokenize.simps(2) [simp del]

lemma delim_punct [simp]:
  "delim (tok_text TComma @ s)" "delim (tok_text TRBrack @ s)" "delim (tok_text TRBrace @ s)"
  by (simp_all add: delim_def tok_text.simps)

lemma lexes_comma_sep:
  assumes "\<forall>x \<in> set xs. lexes x"
  shows "lexes (comma_sep xs)"
  using assms
proof (induction xs rule: comma_sep.induct)
  case (3 x y ys)
  then have x: "lexes x" and r: "lexes (comma_sep (y # ys))" by simp_all
  show ?case
    unfolding lexes_def
  proof (intro allI impI)
    fix s assume "delim s"
    then show "tokenize (toks_text (comma_sep (x # y # ys)) @ s)
        = map_option ((@) (comma_sep (x # y # ys))) (tokenize s)"
      using x r by (simp add: lexes_def option.map_comp comp_def append_sections)
  qed
qed (simp_all add: lexes_def append_sections)

lemma lexes_json: "wf_json v \<Longrightarrow> lexes (json_tokens v)"
proof (induction v)
  case (JNum l)
  then show ?case
    by (simp add: lexes_def tok_text.simps tokenize_number append_sections)
next
  case (JArr vs)
  then have "lexes (comma_sep (map json_tokens vs))"
    by (intro lexes_comma_sep) (auto simp: list_all_iff)
  then show ?case by (simp add: lexes_def option.map_comp comp_def append_sections)
next
  case (JObj kvs)
  have "lexes (TStr k # TColon # json_tokens v)" if "(k, v) \<in> set kvs" for k v
  proof -
    have "lexes (json_tokens v)"
      using JObj that by (force simp: list_all_iff snds.simps)
    then show ?thesis by (simp add: lexes_def tokenize_str option.map_comp comp_def append_sections)
  qed
  then have "lexes (comma_sep (map (\<lambda>(k, v). TStr k # TColon # json_tokens v) kvs))"
    by (intro lexes_comma_sep) auto
  then show ?case by (simp add: lexes_def option.map_comp comp_def append_sections)
qed (auto simp: lexes_def tokenize_str append_sections)

theorem json_parse_print: "wf_json v \<Longrightarrow> json_parse (json_print v) = Some v"
proof -
  assume "wf_json v"
  then have "tokenize (toks_text (json_tokens v) @ []) = Some (json_tokens v)"
    using lexes_json by (auto simp: lexes_def delim_def)
  moreover have "json_run (json_tokens v @ []) (XValue, []) = Some (XDone v, [])"
    using json_run_tokens [of v] by (simp only: runs_def json_complete.simps option.case json_run.simps)
  ultimately show ?thesis by (simp add: json_parse_def json_print_def)
qed

subsection \<open>Integers in number literals\<close>

text \<open>\<open>strconv.ParseInt (literal, 10, 64)\<close>, which decoding into an integer field applies.\<close>

definition int_of_lit :: "string \<Rightarrow> int option" where
  "int_of_lit l =
     (let ds = snd (lex_sign l); n = int (read_nat ds); i = (if fst (lex_sign l) = [] then n else - n) in
      if ds \<noteq> [] \<and> list_all is_digit ds \<and> in_int64 i then Some i else None)"

lemma lex_sign_show_nat [simp]: "lex_sign (show_nat n) = ([], show_nat n)"
proof (cases "show_nat n")
  case (Cons c r)
  then have "is_digit c" using show_nat_digits [of n] by simp
  with Cons show ?thesis by (auto simp: lex_sign_def dest: digit_not_minus)
qed simp

lemma show_nat_list_digits [simp]: "list_all is_digit (show_nat n)"
  using show_nat_digits by (simp add: list_all_iff)

lemma int_of_lit_show_int:
  assumes "in_int64 i"
  shows "int_of_lit (show_int i) = Some i"
proof (cases "i < 0")
  case True
  then have "lex_sign (show_int i) = (''-'', show_nat (nat (- i)))"
    by (simp add: show_int_def lex_sign_def)
  with True assms show ?thesis by (simp add: int_of_lit_def)
next
  case False
  then show ?thesis using assms by (simp add: int_of_lit_def show_int_def)
qed

lemma lex_number_show_nat: "lex_number (show_nat n) = Some (show_nat n, [])"
proof -
  have lead: "\<not> (hd (show_nat n) = CHR ''0'' \<and> tl (show_nat n) \<noteq> [])"
  proof (induction n rule: show_nat.induct)
    case (1 n)
    show ?case
    proof (cases "n < 10")
      case True
      then show ?thesis by (subst (2) show_nat.simps) simp
    next
      case False
      have "hd (show_nat n) = hd (show_nat (n div 10))"
        using False by (subst show_nat.simps) simp
      moreover have "hd (show_nat (n div 10)) \<noteq> CHR ''0''"
      proof (cases "n div 10 < 10")
        case True
        then have "hd (show_nat (n div 10)) = digit_char (n div 10)"
          by (subst show_nat.simps) simp
        moreover have "digit_val (digit_char (n div 10)) = n div 10" "0 < n div 10"
          using True False by (simp_all add: digit_char_props div_greater_zero_iff)
        ultimately show ?thesis by (auto simp: digit_val_def)
      next
        case big: False
        then have "show_nat (n div 10)
            = show_nat (n div 10 div 10) @ [digit_char (n div 10 mod 10)]"
          by (subst show_nat.simps) simp
        then have "tl (show_nat (n div 10)) \<noteq> []"
          by (cases "show_nat (n div 10 div 10)") simp_all
        then show ?thesis using "1.IH" False by blast
      qed
      ultimately show ?thesis by simp
    qed
  qed
  have tw: "takeWhile is_digit (show_nat n) = show_nat n" "dropWhile is_digit (show_nat n) = []"
    using show_nat_digits by (simp_all add: takeWhile_eq_all_conv)
  show ?thesis using lead by (auto simp: lex_number_def Let_def tw lex_frac_def lex_exp_def)
qed

lemma lex_number_show_int [simp]: "lex_number (show_int i) = Some (show_int i, [])"
proof (cases "i < 0")
  case True
  have "lex_sign (CHR ''-'' # show_nat m) = (''-'', show_nat m)" for m
    by (simp add: lex_sign_def)
  then have "lex_number (CHR ''-'' # show_nat m) = Some (CHR ''-'' # show_nat m, [])" for m
    using lex_number_show_nat [of m]
    by (auto simp: lex_number_def Let_def split: if_splits option.splits)
  with True show ?thesis by (simp add: show_int_def)
next
  case False
  then show ?thesis by (simp add: show_int_def lex_number_show_nat)
qed

end
