(* ===== verification/Float64.thy ===== *)
theory Float64
  imports Prelude
begin

section \<open>Floating point numbers\<close>

text \<open>
  A Go \<open>float64\<close> is a rational with a 53 bit significand; every arithmetic operation is the exact
  operation followed by \<open>f64\<close>, rounding to nearest with ties to even. The exponent is unbounded:
  overflow is tested where the code can meet it (reading a JSON number) and subnormal numbers are
  not flushed. Negative zero is identified with zero. The theory also has the shortest decimal
  digits that read back as a given number, which both \<open>encoding/json\<close> and \<open>fmt\<close> print, and the
  locale of the laws of rounding that the components rely on.
\<close>

subsection \<open>Rounding\<close>

fun bits :: "nat \<Rightarrow> nat" where
  "bits n = (if n = 0 then 0 else Suc (bits (n div 2)))"

declare bits.simps [simp del]

lemma bits_bounds: "0 < n \<Longrightarrow> 2 ^ (bits n - 1) \<le> n \<and> n < 2 ^ bits n"
proof (induction n rule: bits.induct)
  case (1 n)
  show ?case
  proof (cases "n div 2 = 0")
    case True
    with "1.prems" have "n = 1" by auto
    then show ?thesis by (simp add: bits.simps)
  next
    case False
    then have ih: "2 ^ (bits (n div 2) - 1) \<le> n div 2" "n div 2 < 2 ^ bits (n div 2)"
      using 1 by auto
    have pos: "0 < bits (n div 2)" using False by (subst bits.simps) simp
    have b: "bits n = Suc (bits (n div 2))" using "1.prems" by (subst bits.simps) simp
    have "2 ^ bits (n div 2) = 2 * (2::nat) ^ (bits (n div 2) - 1)"
      using pos by (cases "bits (n div 2)") simp_all
    with ih have "2 ^ bits (n div 2) \<le> n" by linarith
    moreover have "n < 2 * 2 ^ bits (n div 2)" using ih by linarith
    ultimately show ?thesis by (simp add: b)
  qed
qed

text \<open>The exponent of a positive rational: \<open>2 powi e \<le> x < 2 powi (e + 1)\<close>.\<close>

definition exponent :: "rat \<Rightarrow> int" where
  "exponent x =
     (let e = int (bits (nat (fst (quotient_of x)))) - int (bits (nat (snd (quotient_of x))))
      in if 2 powi e \<le> x then e else e - 1)"

lemma exponent_bounds:
  assumes "0 < x"
  shows "2 powi (exponent x) \<le> x" "x < 2 powi (exponent x + 1)"
proof -
  obtain p q where pq: "quotient_of x = (p, q)" by (cases "quotient_of x")
  have q: "0 < q" using quotient_of_denom_pos [OF pq] .
  have x: "x = of_int p / of_int q" using quotient_of_div [OF pq] .
  with assms q have p: "0 < p" by (simp add: zero_less_divide_iff)
  define a where "a = bits (nat p)"
  define b where "b = bits (nat q)"
  have a: "2 ^ (a - 1) \<le> nat p" "nat p < 2 ^ a" and b: "2 ^ (b - 1) \<le> nat q" "nat q < 2 ^ b"
    using bits_bounds [of "nat p"] bits_bounds [of "nat q"] p q by (simp_all add: a_def b_def)
  have apos: "0 < a" and bpos: "0 < b"
    using p q by (simp_all add: a_def b_def bits.simps [of "nat p"] bits.simps [of "nat q"])
  have np: "(of_nat (nat p) :: rat) = of_int p" "(of_nat (nat q) :: rat) = of_int q"
    using p q by (simp_all add: less_imp_le)
  have "of_nat (2 ^ (a - 1)) \<le> (of_nat (nat p) :: rat)" "(of_nat (nat p) :: rat) < of_nat (2 ^ a)"
    "of_nat (2 ^ (b - 1)) \<le> (of_nat (nat q) :: rat)" "(of_nat (nat q) :: rat) < of_nat (2 ^ b)"
    using a b by (simp_all only: of_nat_le_iff of_nat_less_iff)
  then have ra: "(2::rat) ^ (a - 1) \<le> of_int p" "of_int p < (2::rat) ^ a"
    and rb: "(2::rat) ^ (b - 1) \<le> of_int q" "of_int q < (2::rat) ^ b"
    unfolding np by (simp_all only: of_nat_power of_nat_numeral)
  have ta: "(2::rat) ^ a = 2 * 2 ^ (a - 1)" and tb: "(2::rat) ^ b = 2 * 2 ^ (b - 1)"
    using apos bpos by (simp_all flip: power_Suc)
  have pw: "(2::rat) powi (int a - int b) = 2 ^ a / 2 ^ b"
    by (simp add: power_int_diff)
  have pw1: "(2::rat) powi (int a - int b + 1) = 2 ^ a * 2 / 2 ^ b"
    by (simp add: power_int_add power_int_diff)
  have pwm: "(2::rat) powi (int a - int b - 1) = 2 ^ (a - 1) / 2 ^ b"
    by (simp add: power_int_diff ta)
  have up: "x < 2 powi (int a - int b + 1)"
  proof -
    have "x < 2 ^ a / 2 ^ (b - 1)"
      unfolding x using ra rb q by (intro frac_less) (simp_all add: p less_imp_le)
    then show ?thesis by (simp add: pw1 tb)
  qed
  have low: "2 powi (int a - int b - 1) \<le> x"
    unfolding pwm x using ra rb q by (intro frac_le) (simp_all add: p less_imp_le)
  show "2 powi (exponent x) \<le> x" "x < 2 powi (exponent x + 1)"
    using up low by (simp_all add: exponent_def pq Let_def flip: a_def b_def)
qed

lemma exponent_mono:
  assumes "0 < x" "x \<le> y"
  shows "exponent x \<le> exponent y"
proof (rule ccontr)
  assume "\<not> exponent x \<le> exponent y"
  then have "(2::rat) powi (exponent y + 1) \<le> 2 powi (exponent x)"
    by (intro power_int_increasing) simp_all
  also have "\<dots> \<le> x" using exponent_bounds assms by simp
  also have "\<dots> \<le> y" using assms by simp
  finally show False using exponent_bounds [of y] assms by simp
qed

definition round_even :: "rat \<Rightarrow> int" where
  "round_even x =
     (let k = \<lfloor>x\<rfloor>; d = x - of_int k in if d < 1 / 2 \<or> (d = 1 / 2 \<and> even k) then k else k + 1)"

lemma round_even_of_int [simp]: "round_even (of_int k) = k"
  by (simp add: round_even_def)

lemma round_even_mono: "x \<le> y \<Longrightarrow> round_even x \<le> round_even y"
proof -
  assume xy: "x \<le> y"
  then have "\<lfloor>x\<rfloor> \<le> \<lfloor>y\<rfloor>" by (rule floor_mono)
  then consider "\<lfloor>x\<rfloor> = \<lfloor>y\<rfloor>" | "\<lfloor>x\<rfloor> + 1 \<le> \<lfloor>y\<rfloor>" by linarith
  then show ?thesis
  proof cases
    case 1
    then show ?thesis using xy by (simp add: round_even_def Let_def)
  next
    case 2
    then show ?thesis by (simp add: round_even_def Let_def)
  qed
qed

definition f64 :: "rat \<Rightarrow> rat" where
  "f64 x =
     (if x = 0 then 0
      else let s = 2 powi (exponent \<bar>x\<bar> - 52); m = of_int (round_even (\<bar>x\<bar> / s)) * s
           in if x < 0 then - m else m)"

lemma f64_0 [simp]: "f64 0 = 0"
  by (simp add: f64_def)

lemma f64_minus [simp]: "f64 (- x) = - f64 x"
  by (simp add: f64_def Let_def)

lemma f64_pos:
  assumes "0 < x"
  shows "2 powi (exponent x) \<le> f64 x" "f64 x \<le> 2 powi (exponent x + 1)"
proof -
  define s where "s = (2::rat) powi (exponent x - 52)"
  have s: "0 < s" by (simp add: s_def)
  have lo: "2 powi (exponent x) = of_int (2 ^ 52) * s"
    and hi: "2 powi (exponent x + 1) = of_int (2 ^ 53) * s"
    by (simp_all add: s_def power_int_diff power_int_add)
  have v: "f64 x = of_int (round_even (x / s)) * s"
    using assms by (simp add: f64_def s_def Let_def)
  have "of_int (2 ^ 52) \<le> x / s" "x / s \<le> of_int (2 ^ 53)"
    using exponent_bounds [OF assms] s unfolding lo hi by (simp_all add: field_simps)
  then have "round_even (of_int (2 ^ 52)) \<le> round_even (x / s)"
    "round_even (x / s) \<le> round_even (of_int (2 ^ 53))"
    by (simp_all only: round_even_mono)
  then have r: "2 ^ 52 \<le> round_even (x / s)" "round_even (x / s) \<le> 2 ^ 53"
    by (simp_all only: round_even_of_int)
  show "2 powi (exponent x) \<le> f64 x" "f64 x \<le> 2 powi (exponent x + 1)"
    unfolding lo hi v using r s
    by (simp_all only: mult_le_cancel_right_pos of_int_le_iff)
qed

lemma f64_mono_pos:
  assumes "0 < x" "x \<le> y"
  shows "f64 x \<le> f64 y"
proof (cases "exponent x = exponent y")
  case True
  define s where "s = (2::rat) powi (exponent y - 52)"
  have s: "0 < s" by (simp add: s_def)
  then have "x / s \<le> y / s" using assms by (simp add: divide_right_mono)
  then have "round_even (x / s) \<le> round_even (y / s)" by (rule round_even_mono)
  then show ?thesis using assms True s by (simp add: f64_def Let_def flip: s_def)
next
  case False
  then have "exponent x + 1 \<le> exponent y" using exponent_mono [OF assms] by simp
  then have "(2::rat) powi (exponent x + 1) \<le> 2 powi (exponent y)"
    by (intro power_int_increasing) simp_all
  then show ?thesis using f64_pos [of x] f64_pos [of y] assms by linarith
qed

lemma f64_nonneg: "0 \<le> x \<Longrightarrow> 0 \<le> f64 x"
proof (cases "x = 0")
  case False
  assume "0 \<le> x"
  with False have "2 powi (exponent x) \<le> f64 x" by (intro f64_pos) simp
  moreover have "0 \<le> (2::rat) powi (exponent x)" by (intro zero_le_power_int) simp
  ultimately show ?thesis by (rule order.trans [rotated])
qed simp

lemma f64_mono: "x \<le> y \<Longrightarrow> f64 x \<le> f64 y"
proof -
  assume xy: "x \<le> y"
  consider "0 < x" | "x \<le> 0" "0 \<le> y" | "y < 0" by linarith
  then show ?thesis
  proof cases
    case 1
    then show ?thesis using xy by (rule f64_mono_pos)
  next
    case 2
    then have "0 \<le> f64 (- x)" "0 \<le> f64 y" by (simp_all only: f64_nonneg neg_0_le_iff_le)
    then show ?thesis by simp
  next
    case 3
    then have "f64 (- y) \<le> f64 (- x)" using xy by (intro f64_mono_pos) simp_all
    then show ?thesis by simp
  qed
qed

lemma f64_of_nat: "n < 2 ^ 53 \<Longrightarrow> f64 (of_nat n) = of_nat n"
proof (cases "n = 0")
  case False
  assume n: "n < 2 ^ 53"
  define e where "e = exponent (of_nat n :: rat)"
  have b: "2 powi e \<le> (of_nat n :: rat)" "(of_nat n :: rat) < 2 powi (e + 1)"
    using exponent_bounds [of "of_nat n"] False by (simp_all add: e_def)
  have e52: "e \<le> 52"
  proof (rule ccontr)
    assume "\<not> e \<le> 52"
    then have "(2::rat) powi 53 \<le> 2 powi e" by (intro power_int_increasing) simp_all
    with b(1) have "(2::rat) ^ 53 \<le> of_nat n" by (simp add: power_int_def)
    then have "2 ^ 53 \<le> n" by (metis of_nat_le_iff of_nat_numeral of_nat_power)
    with n show False by simp
  qed
  define s where "s = (2::rat) powi (e - 52)"
  have s0: "s \<noteq> 0" by (simp add: s_def)
  have "1 / s = 2 powi (52 - e)"
    by (simp add: s_def power_int_diff)
  also have "\<dots> = of_int (2 ^ nat (52 - e))"
    using e52 by (simp add: power_int_def)
  finally have q: "of_nat n / s = (of_int (int n * 2 ^ nat (52 - e)) :: rat)"
    by (simp add: divide_inverse)
  have "f64 (of_nat n) = of_int (round_even (of_nat n / s)) * s"
    using False by (simp add: f64_def s_def e_def Let_def)
  also have "\<dots> = of_nat n / s * s" unfolding q round_even_of_int by (rule refl)
  also have "\<dots> = of_nat n" using s0 by simp
  finally show ?thesis .
qed simp

lemma f64_of_int: "\<bar>i\<bar> < 2 ^ 53 \<Longrightarrow> f64 (of_int i) = of_int i"
proof (cases "0 \<le> i")
  case True
  moreover assume "\<bar>i\<bar> < 2 ^ 53"
  ultimately show ?thesis using f64_of_nat [of "nat i"] by (simp add: nat_less_iff)
next
  case False
  moreover assume "\<bar>i\<bar> < 2 ^ 53"
  ultimately have "f64 (of_int (- i)) = of_int (- i)"
    using f64_of_nat [of "nat (- i)"] by (simp add: nat_less_iff)
  then show ?thesis by simp
qed

subsection \<open>The laws of rounding\<close>

text \<open>What the components use of rounding: it is monotone and exact on small integers.\<close>

locale rounding =
  fixes rnd :: "rat \<Rightarrow> rat"
  assumes rnd_mono: "x \<le> y \<Longrightarrow> rnd x \<le> rnd y"
    and rnd_int: "\<bar>i\<bar> < 2 ^ 53 \<Longrightarrow> rnd (of_int i) = of_int i"
begin

lemma rnd_zero: "rnd 0 = 0"
  using rnd_int [of 0] by simp

lemma rnd_nonneg: "0 \<le> x \<Longrightarrow> 0 \<le> rnd x"
  using rnd_mono [of 0 x] rnd_zero by simp

lemma rnd_le_int: "x \<le> of_int i \<Longrightarrow> \<bar>i\<bar> < 2 ^ 53 \<Longrightarrow> rnd x \<le> of_int i"
  using rnd_mono rnd_int by metis

lemma rnd_ge_int: "of_int i \<le> x \<Longrightarrow> \<bar>i\<bar> < 2 ^ 53 \<Longrightarrow> of_int i \<le> rnd x"
  using rnd_mono rnd_int by metis

end

interpretation f64: rounding f64
  by unfold_locales (fact f64_mono, fact f64_of_int)

subsection \<open>Shortest decimal digits\<close>

text \<open>The decimal exponent of a positive number, and its rounding to \<open>k\<close> significant digits: the
  digits as a number and the power of ten of the last one.\<close>

definition dec_exponent :: "rat \<Rightarrow> int" where
  "dec_exponent x =
     (let e = exponent x * 30103 div 100000 - 1 in
      if 10 powi (e + 2) \<le> x then e + 2 else if 10 powi (e + 1) \<le> x then e + 1 else e)"

definition round_digits :: "rat \<Rightarrow> nat \<Rightarrow> nat \<times> int" where
  "round_digits x k =
     (let p = dec_exponent x - int k + 1 in (nat (round_even (x / 10 powi p)), p))"

text \<open>The fewest digits, at most 17, that read back as the number.\<close>

definition shortest_digits :: "rat \<Rightarrow> nat \<times> int" where
  "shortest_digits x =
     (case find (\<lambda>k. f64 (of_nat (fst (round_digits x k)) * 10 powi (snd (round_digits x k))) = x) [1..<17] of
        Some k \<Rightarrow> round_digits x k
      | None \<Rightarrow> round_digits x 17)"

definition strip_zeros :: "string \<Rightarrow> string" where
  "strip_zeros s = rev (dropWhile (\<lambda>c. c = CHR ''0'') (rev s))"

text \<open>The digits without trailing zeros and the position of the decimal point in them.\<close>

definition digits_point :: "rat \<Rightarrow> string \<times> int" where
  "digits_point x =
     (let (d, p) = shortest_digits x in (strip_zeros (show_nat d), int (length (show_nat d)) + p))"

definition fixed_text :: "string \<Rightarrow> int \<Rightarrow> string" where
  "fixed_text ds dp =
     (if dp \<le> 0 then ''0.'' @ replicate (nat (- dp)) (CHR ''0'') @ ds
      else if int (length ds) \<le> dp then ds @ replicate (nat (dp - int (length ds))) (CHR ''0'')
      else take (nat dp) ds @ ''.'' @ drop (nat dp) ds)"

definition exp_text :: "nat \<Rightarrow> string \<Rightarrow> int \<Rightarrow> string" where
  "exp_text width ds dp =
     (let e = dp - 1; s = show_nat (nat \<bar>e\<bar>) in
      take 1 ds @ (if length ds \<le> 1 then [] else ''.'' @ drop 1 ds) @ ''e'' @
      (if e < 0 then ''-'' else ''+'') @ replicate (width - length s) (CHR ''0'') @ s)"

text \<open>\<open>encoding/json\<close> and the verb \<open>%v\<close> of \<open>fmt\<close>: they differ in when they use an exponent and in
  its width.\<close>

definition float_json :: "rat \<Rightarrow> string" where
  "float_json x =
     (if x = 0 then ''0''
      else let (ds, dp) = digits_point \<bar>x\<bar> in
        (if x < 0 then ''-'' else []) @
        (if \<bar>x\<bar> < 1 / 10 ^ 6 \<or> 10 ^ 21 \<le> \<bar>x\<bar> then exp_text 1 ds dp else fixed_text ds dp))"

definition float_verb :: "rat \<Rightarrow> string" where
  "float_verb x =
     (if x = 0 then ''0''
      else let (ds, dp) = digits_point \<bar>x\<bar> in
        (if x < 0 then ''-'' else []) @
        (if dp - 1 < - 4 \<or> 6 \<le> dp - 1 then exp_text 2 ds dp else fixed_text ds dp))"

subsection \<open>Reading a number literal\<close>

definition rat_of_lit :: "string \<Rightarrow> rat" where
  "rat_of_lit s =
     (let neg = has_prefix s ''-''; s1 = (if neg then tl s else s);
          ds = takeWhile is_digit s1; s2 = dropWhile is_digit s1;
          fs = (if has_prefix s2 ''.'' then takeWhile is_digit (tl s2) else []);
          s3 = (if has_prefix s2 ''.'' then dropWhile is_digit (tl s2) else s2);
          s4 = tl s3; eneg = has_prefix s4 ''-'';
          es = (if has_prefix s4 ''-'' \<or> has_prefix s4 ''+'' then tl s4 else s4);
          e = (if s3 = [] then 0 else if eneg then - int (read_nat es) else int (read_nat es));
          m = of_nat (read_nat (ds @ fs)) * 10 powi (e - int (length fs))
      in if neg then - m else m)"

text \<open>\<open>strconv.ParseFloat\<close> fails on a literal that rounds to 2 to the 1024 or more.\<close>

definition float_of_lit :: "string \<Rightarrow> rat option" where
  "float_of_lit s = (let x = f64 (rat_of_lit s) in if \<bar>x\<bar> < 2 ^ 1024 then Some x else None)"

end
