(* ===== verification/Decode.thy ===== *)
theory Decode
  imports Json Float64 "HOL-Library.Char_ord" "HOL-Library.List_Lexorder"
begin

section \<open>Go values and JSON trees\<close>

text \<open>
  \<open>json.Marshal\<close> and \<open>json.Unmarshal\<close> between Go values and JSON trees. A value of type
  \<open>interface{}\<close> is a \<open>gval\<close>; a struct that only ever is marshalled appears in one as its name and
  its JSON fields in order. Decoding into a struct goes member by member: the field is looked up by
  its exact name and then up to letter case, a later member overwrites an earlier one, \<open>null\<close>
  leaves a scalar as it is, and a value of the wrong type makes the call fail. A
  \<open>json.RawMessage\<close> is the tree it holds (its spacing is not modelled), \<open>None\<close> the nil slice.
\<close>

datatype gval =
    GNil
  | GBool bool
  | GInt int
  | GFloat rat
  | GStr string
  | GRaw "json option"
  | GList "gval list"
  | GMap "(string \<times> gval) list"
  | GStruct string "(string \<times> gval) list"

abbreviation (input) JInt :: "int \<Rightarrow> json" where
  "JInt i \<equiv> JNum (show_int i)"

subsection \<open>Marshalling\<close>

text \<open>The members of a map are written in the order of their keys.\<close>

fun marshal :: "gval \<Rightarrow> json" where
  "marshal GNil = JNull"
| "marshal (GBool b) = JBool b"
| "marshal (GInt i) = JInt i"
| "marshal (GFloat x) = JNum (float_json x)"
| "marshal (GStr s) = JStr s"
| "marshal (GRaw r) = (case r of None \<Rightarrow> JNull | Some v \<Rightarrow> v)"
| "marshal (GList vs) = JArr (map marshal vs)"
| "marshal (GMap kvs) = JObj (sort_key fst (map (\<lambda>(k, v). (k, marshal v)) kvs))"
| "marshal (GStruct n kvs) = JObj (map (\<lambda>(k, v). (k, marshal v)) kvs)"

text \<open>A field with the option \<open>omitempty\<close>, and one without.\<close>

definition omit_raw :: "string \<Rightarrow> json option \<Rightarrow> (string \<times> json) list" where
  "omit_raw k r = (case r of None \<Rightarrow> [] | Some v \<Rightarrow> [(k, v)])"

definition omit_str :: "string \<Rightarrow> string \<Rightarrow> (string \<times> json) list" where
  "omit_str k s = (if s = [] then [] else [(k, JStr s)])"

definition omit_int :: "string \<Rightarrow> int \<Rightarrow> (string \<times> json) list" where
  "omit_int k i = (if i = 0 then [] else [(k, JInt i)])"

definition omit_bool :: "string \<Rightarrow> bool \<Rightarrow> (string \<times> json) list" where
  "omit_bool k b = (if b then [(k, JBool b)] else [])"

definition omit_any :: "string \<Rightarrow> gval \<Rightarrow> (string \<times> json) list" where
  "omit_any k v = (if v = GNil then [] else [(k, marshal v)])"

definition omit_list :: "string \<Rightarrow> ('a \<Rightarrow> json) \<Rightarrow> 'a list \<Rightarrow> (string \<times> json) list" where
  "omit_list k enc xs = (if xs = [] then [] else [(k, JArr (map enc xs))])"

subsection \<open>Decoding into an interface value\<close>

definition put_assoc :: "string \<Rightarrow> 'a \<Rightarrow> (string \<times> 'a) list \<Rightarrow> (string \<times> 'a) list" where
  "put_assoc k v kvs = (if k \<in> set (map fst kvs)
     then map (\<lambda>(k', v'). (k', if k' = k then v else v')) kvs else kvs @ [(k, v)])"

lemma put_assoc_keys: "set (map fst (put_assoc k v m)) = insert k (set (map fst m))"
  by (auto simp: put_assoc_def image_iff) (force split: if_splits)+

lemma put_assoc_distinct: "distinct (map fst m) \<Longrightarrow> distinct (map fst (put_assoc k v m))"
  by (auto simp: put_assoc_def comp_def case_prod_unfold)

lemma map_of_put_assoc: "map_of (put_assoc k v m) x = (if x = k then Some v else map_of m x)"
proof (cases "k \<in> set (map fst m)")
  case True
  have "map_of (map (\<lambda>(k', v'). (k', if k' = k then v else v')) m) x =
      (if x = k \<and> k \<in> set (map fst m) then Some v else map_of m x)" for m
  proof (induction m)
    case (Cons p m)
    then show ?case by (cases "fst p = k"; cases "x = fst p"; simp add: case_prod_unfold)
  qed simp
  then show ?thesis using True by (simp add: put_assoc_def)
next
  case False
  then have "map_of m k = None" by (simp add: map_of_eq_None_iff)
  then show ?thesis using False by (auto simp: put_assoc_def map_add_def split: option.split)
qed

definition all_some :: "'a option list \<Rightarrow> 'a list option" where
  "all_some xs = (if None \<in> set xs then None else Some (map the xs))"

fun decode_any :: "json \<Rightarrow> gval option" where
  "decode_any JNull = Some GNil"
| "decode_any (JBool b) = Some (GBool b)"
| "decode_any (JNum l) = map_option GFloat (float_of_lit l)"
| "decode_any (JStr s) = Some (GStr s)"
| "decode_any (JArr vs) = map_option GList (all_some (map decode_any vs))"
| "decode_any (JObj kvs) =
     map_option (\<lambda>vs. GMap (fold (\<lambda>(k, v). put_assoc k v) (zip (map fst kvs) vs) []))
       (all_some (map (\<lambda>(k, v). decode_any v) kvs))"

subsection \<open>Decoding into a struct\<close>

definition key_eq :: "string \<Rightarrow> string \<Rightarrow> bool" where
  "key_eq a b \<longleftrightarrow> to_lower a = to_lower b"

type_synonym 'a field = "string \<times> (json \<Rightarrow> 'a \<Rightarrow> 'a option)"

definition find_field :: "'a field list \<Rightarrow> string \<Rightarrow> 'a field option" where
  "find_field fs k =
     (case find (\<lambda>f. fst f = k) fs of Some f \<Rightarrow> Some f | None \<Rightarrow> find (\<lambda>f. key_eq (fst f) k) fs)"

fun decode_members :: "'a field list \<Rightarrow> (string \<times> json) list \<Rightarrow> 'a \<Rightarrow> 'a option" where
  "decode_members fs [] a = Some a"
| "decode_members fs ((k, v) # kvs) a =
     (case find_field fs k of
        None \<Rightarrow> decode_members fs kvs a
      | Some f \<Rightarrow> (case snd f v a of None \<Rightarrow> None | Some a' \<Rightarrow> decode_members fs kvs a'))"

definition decode_struct :: "'a field list \<Rightarrow> 'a \<Rightarrow> json \<Rightarrow> 'a option" where
  "decode_struct fs a v =
     (case v of JObj kvs \<Rightarrow> decode_members fs kvs a | JNull \<Rightarrow> Some a | _ \<Rightarrow> None)"

definition str_field :: "(string \<Rightarrow> 'a \<Rightarrow> 'a) \<Rightarrow> json \<Rightarrow> 'a \<Rightarrow> 'a option" where
  "str_field upd v a = (case v of JStr s \<Rightarrow> Some (upd s a) | JNull \<Rightarrow> Some a | _ \<Rightarrow> None)"

definition bool_field :: "(bool \<Rightarrow> 'a \<Rightarrow> 'a) \<Rightarrow> json \<Rightarrow> 'a \<Rightarrow> 'a option" where
  "bool_field upd v a = (case v of JBool b \<Rightarrow> Some (upd b a) | JNull \<Rightarrow> Some a | _ \<Rightarrow> None)"

definition int_field :: "(int \<Rightarrow> 'a \<Rightarrow> 'a) \<Rightarrow> json \<Rightarrow> 'a \<Rightarrow> 'a option" where
  "int_field upd v a =
     (case v of JNum l \<Rightarrow> map_option (\<lambda>i. upd i a) (int_of_lit l) | JNull \<Rightarrow> Some a | _ \<Rightarrow> None)"

definition any_field :: "(gval \<Rightarrow> 'a \<Rightarrow> 'a) \<Rightarrow> json \<Rightarrow> 'a \<Rightarrow> 'a option" where
  "any_field upd v a = map_option (\<lambda>x. upd x a) (decode_any v)"

definition raw_field :: "(json option \<Rightarrow> 'a \<Rightarrow> 'a) \<Rightarrow> json \<Rightarrow> 'a \<Rightarrow> 'a option" where
  "raw_field upd v a = Some (upd (Some v) a)"

text \<open>A slice of structs, and a pointer to a struct (\<open>null\<close> sets either to nil).\<close>

definition list_field :: "('b list \<Rightarrow> 'a \<Rightarrow> 'a) \<Rightarrow> (json \<Rightarrow> 'b option) \<Rightarrow> json \<Rightarrow> 'a \<Rightarrow> 'a option" where
  "list_field upd dec v a =
     (case v of JArr vs \<Rightarrow> map_option (\<lambda>xs. upd xs a) (all_some (map dec vs))
      | JNull \<Rightarrow> Some (upd [] a) | _ \<Rightarrow> None)"

definition ptr_field :: "('b option \<Rightarrow> 'a \<Rightarrow> 'a) \<Rightarrow> (json \<Rightarrow> 'b option) \<Rightarrow> json \<Rightarrow> 'a \<Rightarrow> 'a option" where
  "ptr_field upd dec v a =
     (if v = JNull then Some (upd None a) else map_option (\<lambda>x. upd (Some x) a) (dec v))"

lemmas field_defs = str_field_def bool_field_def int_field_def any_field_def raw_field_def
  list_field_def ptr_field_def

subsection \<open>Lemmas\<close>

lemma all_some_Some_iff: "all_some xs = Some ys \<longleftrightarrow> xs = map Some ys"
proof
  assume "all_some xs = Some ys"
  then have "None \<notin> set xs" and "ys = map the xs" by (auto simp: all_some_def split: if_splits)
  then show "xs = map Some ys" by (induction xs arbitrary: ys) auto
next
  assume "xs = map Some ys"
  then show "all_some xs = Some ys" by (auto simp: all_some_def comp_def)
qed

lemma all_some_map_Some [simp]: "all_some (map (\<lambda>x. Some (f x)) xs) = Some (map f xs)"
  by (simp add: all_some_Some_iff)

lemma all_some_comp [simp]: "(\<And>x. x \<in> set xs \<Longrightarrow> g (f x) = Some (h x)) \<Longrightarrow>
    all_some (map (g \<circ> f) xs) = Some (map h xs)"
  by (auto simp: all_some_Some_iff)

lemma int_field_int [simp]: "in_int64 i \<Longrightarrow> int_field upd (JInt i) a = Some (upd i a)"
  by (simp add: int_field_def int_of_lit_show_int)

text \<open>An integer literal reads as the float of its value.\<close>

lemma show_nat_take_digits [simp]:
  "takeWhile is_digit (show_nat n) = show_nat n" "dropWhile is_digit (show_nat n) = []"
  using show_nat_digits by (simp_all add: takeWhile_eq_all_conv)

lemma rat_of_lit_show_int [simp]: "rat_of_lit (show_int i) = of_int i"
proof (cases "i < 0")
  case True
  then show ?thesis by (simp add: rat_of_lit_def show_int_def has_prefix_def Let_def)
next
  case False
  have "\<not> has_prefix (show_nat n) ''-''" for n
    using show_nat_no_minus by (auto simp: has_prefix_iff)
  with False show ?thesis by (simp add: rat_of_lit_def show_int_def Let_def has_prefix_def)
qed

lemma float_of_lit_show_int [simp]:
  assumes "\<bar>i\<bar> < 2 ^ 53"
  shows "float_of_lit (show_int i) = Some (of_int i)"
proof -
  have "\<bar>of_int i :: rat\<bar> = of_int \<bar>i\<bar>" by simp
  also have "\<dots> < of_int (2 ^ 53)" using assms by (simp only: of_int_less_iff)
  also have "\<dots> < (2::rat) ^ 1024" by simp
  finally show ?thesis using f64_of_int [OF assms] by (simp add: float_of_lit_def)
qed

lemma decode_members_append:
  "decode_members fs (xs @ ys) a
    = (case decode_members fs xs a of None \<Rightarrow> None | Some a' \<Rightarrow> decode_members fs ys a')"
  by (induction fs xs a rule: decode_members.induct) (auto split: option.splits)

end
