(* ===== verification/Protocol.thy ===== *)
theory Protocol
  imports Decode
begin

section \<open>JSON-RPC messages (\<open>pkg/protocol/jsonrpc.go\<close>)\<close>

text \<open>
  Requests, responses, notifications and errors with their JSON form, the three classifiers, and
  batches: their constructors, parsers, serializers and accessors. Raw data is the text; the
  functions on trees are what \<open>json.Unmarshal\<close> does once the text is scanned.
\<close>

definition JSONRPCVersion :: string where "JSONRPCVersion = ''2.0''"

definition ParseError :: int where "ParseError = - 32700"
definition InvalidRequest :: int where "InvalidRequest = - 32600"
definition MethodNotFound :: int where "MethodNotFound = - 32601"
definition InvalidParams :: int where "InvalidParams = - 32602"
definition InternalError :: int where "InternalError = - 32603"

record rpc_error =
  err_code :: int
  err_message :: string
  err_data :: gval

record request =
  req_jsonrpc :: string
  req_id :: gval
  req_method :: string
  req_params :: "json option"

record response =
  resp_jsonrpc :: string
  resp_id :: gval
  resp_result :: "json option"
  resp_error :: "rpc_error option"

record notification =
  notif_jsonrpc :: string
  notif_method :: string
  notif_params :: "json option"

subsection \<open>Constructors\<close>

text \<open>A nil \<open>interface{}\<close> leaves the raw field nil; every other value is marshalled.\<close>

definition raw_of :: "gval \<Rightarrow> json option" where
  "raw_of v = (if v = GNil then None else Some (marshal v))"

definition NewRequest :: "gval \<Rightarrow> string \<Rightarrow> gval \<Rightarrow> request" where
  "NewRequest i method params =
     \<lparr>req_jsonrpc = JSONRPCVersion, req_id = i, req_method = method, req_params = raw_of params\<rparr>"

definition NewResponse :: "gval \<Rightarrow> gval \<Rightarrow> response" where
  "NewResponse i result =
     \<lparr>resp_jsonrpc = JSONRPCVersion, resp_id = i, resp_result = raw_of result, resp_error = None\<rparr>"

definition NewErrorResponse :: "gval \<Rightarrow> int \<Rightarrow> string \<Rightarrow> gval \<Rightarrow> response" where
  "NewErrorResponse i code message data =
     \<lparr>resp_jsonrpc = JSONRPCVersion, resp_id = i, resp_result = None,
      resp_error = Some \<lparr>err_code = code, err_message = message,
        err_data = (if data = GNil then GNil else GRaw (Some (marshal data)))\<rparr>\<rparr>"

definition NewNotification :: "string \<Rightarrow> gval \<Rightarrow> notification" where
  "NewNotification method params =
     \<lparr>notif_jsonrpc = JSONRPCVersion, notif_method = method, notif_params = raw_of params\<rparr>"

definition rpc_error_string :: "rpc_error option \<Rightarrow> string" where
  "rpc_error_string e = (case e of None \<Rightarrow> []
     | Some e \<Rightarrow> ''jsonrpc: code '' @ show_int (err_code e) @ '', message: '' @ err_message e)"

subsection \<open>JSON form\<close>

definition enc_rpc_error :: "rpc_error \<Rightarrow> json" where
  "enc_rpc_error e = JObj ([(''code'', JInt (err_code e)), (''message'', JStr (err_message e))]
     @ omit_any ''data'' (err_data e))"

definition enc_request :: "request \<Rightarrow> json" where
  "enc_request r = JObj ([(''jsonrpc'', JStr (req_jsonrpc r)), (''id'', marshal (req_id r)),
     (''method'', JStr (req_method r))] @ omit_raw ''params'' (req_params r))"

definition enc_response :: "response \<Rightarrow> json" where
  "enc_response r = JObj ([(''jsonrpc'', JStr (resp_jsonrpc r)), (''id'', marshal (resp_id r))]
     @ omit_raw ''result'' (resp_result r)
     @ (case resp_error r of None \<Rightarrow> [] | Some e \<Rightarrow> [(''error'', enc_rpc_error e)]))"

definition enc_notification :: "notification \<Rightarrow> json" where
  "enc_notification r = JObj ([(''jsonrpc'', JStr (notif_jsonrpc r)),
     (''method'', JStr (notif_method r))] @ omit_raw ''params'' (notif_params r))"

definition rpc_error_fields :: "rpc_error field list" where
  "rpc_error_fields =
     [(''code'', int_field (\<lambda>i a. a\<lparr>err_code := i\<rparr>)),
      (''message'', str_field (\<lambda>s a. a\<lparr>err_message := s\<rparr>)),
      (''data'', any_field (\<lambda>v a. a\<lparr>err_data := v\<rparr>))]"

definition dec_rpc_error :: "json \<Rightarrow> rpc_error option" where
  "dec_rpc_error = decode_struct rpc_error_fields \<lparr>err_code = 0, err_message = [], err_data = GNil\<rparr>"

definition request_fields :: "request field list" where
  "request_fields =
     [(''jsonrpc'', str_field (\<lambda>s a. a\<lparr>req_jsonrpc := s\<rparr>)),
      (''id'', any_field (\<lambda>v a. a\<lparr>req_id := v\<rparr>)),
      (''method'', str_field (\<lambda>s a. a\<lparr>req_method := s\<rparr>)),
      (''params'', raw_field (\<lambda>v a. a\<lparr>req_params := v\<rparr>))]"

definition zero_request :: request where
  "zero_request = \<lparr>req_jsonrpc = [], req_id = GNil, req_method = [], req_params = None\<rparr>"

definition dec_request :: "json \<Rightarrow> request option" where
  "dec_request = decode_struct request_fields zero_request"

definition response_fields :: "response field list" where
  "response_fields =
     [(''jsonrpc'', str_field (\<lambda>s a. a\<lparr>resp_jsonrpc := s\<rparr>)),
      (''id'', any_field (\<lambda>v a. a\<lparr>resp_id := v\<rparr>)),
      (''result'', raw_field (\<lambda>v a. a\<lparr>resp_result := v\<rparr>)),
      (''error'', ptr_field (\<lambda>v a. a\<lparr>resp_error := v\<rparr>) dec_rpc_error)]"

definition zero_response :: response where
  "zero_response = \<lparr>resp_jsonrpc = [], resp_id = GNil, resp_result = None, resp_error = None\<rparr>"

definition dec_response :: "json \<Rightarrow> response option" where
  "dec_response = decode_struct response_fields zero_response"

definition notification_fields :: "notification field list" where
  "notification_fields =
     [(''jsonrpc'', str_field (\<lambda>s a. a\<lparr>notif_jsonrpc := s\<rparr>)),
      (''method'', str_field (\<lambda>s a. a\<lparr>notif_method := s\<rparr>)),
      (''params'', raw_field (\<lambda>v a. a\<lparr>notif_params := v\<rparr>))]"

definition dec_notification :: "json \<Rightarrow> notification option" where
  "dec_notification = decode_struct notification_fields
     \<lparr>notif_jsonrpc = [], notif_method = [], notif_params = None\<rparr>"

subsection \<open>Classifying a message\<close>

text \<open>The anonymous structs the classifiers decode into.\<close>

record probe =
  probe_jsonrpc :: string
  probe_id :: gval
  probe_method :: string

definition dec_probe :: "json \<Rightarrow> probe option" where
  "dec_probe = decode_struct
     [(''jsonrpc'', str_field (\<lambda>s a. a\<lparr>probe_jsonrpc := s\<rparr>)),
      (''id'', any_field (\<lambda>v a. a\<lparr>probe_id := v\<rparr>)),
      (''method'', str_field (\<lambda>s a. a\<lparr>probe_method := s\<rparr>))]
     \<lparr>probe_jsonrpc = [], probe_id = GNil, probe_method = []\<rparr>"

definition is_request :: "json \<Rightarrow> bool" where
  "is_request v = (case dec_probe v of None \<Rightarrow> False
     | Some m \<Rightarrow> probe_jsonrpc m = JSONRPCVersion \<and> probe_id m \<noteq> GNil \<and> probe_method m \<noteq> [])"

definition is_notification :: "json \<Rightarrow> bool" where
  "is_notification v = (case dec_probe v of None \<Rightarrow> False
     | Some m \<Rightarrow> probe_jsonrpc m = JSONRPCVersion \<and> probe_id m = GNil \<and> probe_method m \<noteq> [])"

record result_probe =
  rp_jsonrpc :: string
  rp_id :: gval
  rp_result :: gval
  rp_error :: "rpc_error option"

definition dec_result_probe :: "json \<Rightarrow> result_probe option" where
  "dec_result_probe = decode_struct
     [(''jsonrpc'', str_field (\<lambda>s a. a\<lparr>rp_jsonrpc := s\<rparr>)),
      (''id'', any_field (\<lambda>v a. a\<lparr>rp_id := v\<rparr>)),
      (''result'', any_field (\<lambda>v a. a\<lparr>rp_result := v\<rparr>)),
      (''error'', ptr_field (\<lambda>v a. a\<lparr>rp_error := v\<rparr>) dec_rpc_error)]
     \<lparr>rp_jsonrpc = [], rp_id = GNil, rp_result = GNil, rp_error = None\<rparr>"

definition is_response :: "json \<Rightarrow> bool" where
  "is_response v = (case dec_result_probe v of None \<Rightarrow> False
     | Some m \<Rightarrow> rp_jsonrpc m = JSONRPCVersion \<and> rp_id m \<noteq> GNil
         \<and> (rp_result m \<noteq> GNil \<or> rp_error m \<noteq> None))"

definition on_text :: "(json \<Rightarrow> bool) \<Rightarrow> string \<Rightarrow> bool" where
  "on_text p data = (case json_parse data of None \<Rightarrow> False | Some v \<Rightarrow> p v)"

definition IsRequest :: "string \<Rightarrow> bool" where "IsRequest = on_text is_request"
definition IsResponse :: "string \<Rightarrow> bool" where "IsResponse = on_text is_response"
definition IsNotification :: "string \<Rightarrow> bool" where "IsNotification = on_text is_notification"

subsection \<open>Batches\<close>

text \<open>An item of a batch in the making: a pointer that may be nil, or a value of another type.\<close>

datatype batch_arg = ArgRequest "request option" | ArgNotification "notification option" | ArgOther string

datatype batch_item = BReq request | BNotif notification

datatype batch_error = BatchEmpty | NilRequest nat | NilNotification nat | InvalidItemType nat string
  | NotABatch | UnmarshalBatch | UnmarshalItem nat | InvalidItem nat | BatchNil

fun batch_args :: "nat \<Rightarrow> batch_arg list \<Rightarrow> batch_error + batch_item list" where
  "batch_args i [] = Inr []"
| "batch_args i (a # as) =
     (case (case a of
              ArgRequest (Some r) \<Rightarrow> Inr (BReq r)
            | ArgRequest None \<Rightarrow> Inl (NilRequest i)
            | ArgNotification (Some n) \<Rightarrow> Inr (BNotif n)
            | ArgNotification None \<Rightarrow> Inl (NilNotification i)
            | ArgOther t \<Rightarrow> Inl (InvalidItemType i t)) of
        Inl e \<Rightarrow> Inl e
      | Inr b \<Rightarrow> map_sum id ((#) b) (batch_args (Suc i) as))"

definition NewJSONRPCBatchRequest :: "batch_arg list \<Rightarrow> batch_error + batch_item list" where
  "NewJSONRPCBatchRequest items = (if items = [] then Inl BatchEmpty else batch_args 0 items)"

text \<open>A batch response is a list of pointers to responses; the constructor drops the nil ones.\<close>

definition NewJSONRPCBatchResponse :: "response option list \<Rightarrow> response option list" where
  "NewJSONRPCBatchResponse rs = filter (\<lambda>r. r \<noteq> None) rs"

definition batch_IsEmpty :: "response option list option \<Rightarrow> bool" where
  "batch_IsEmpty br = (case br of None \<Rightarrow> True | Some rs \<Rightarrow> rs = [])"

definition batch_Add :: "response option \<Rightarrow> response option list option \<Rightarrow> response option list option" where
  "batch_Add r br = (case (br, r) of (Some rs, Some x) \<Rightarrow> Some (rs @ [Some x]) | _ \<Rightarrow> br)"

definition is_batch :: "json \<Rightarrow> bool" where
  "is_batch v = (case v of JArr vs \<Rightarrow> decode_any (JArr vs) \<noteq> None | _ \<Rightarrow> False)"

definition IsBatch :: "string \<Rightarrow> bool" where "IsBatch = on_text is_batch"

definition batch_item_of :: "nat \<Rightarrow> json \<Rightarrow> batch_error + batch_item" where
  "batch_item_of i v =
     (if is_request v then
        (case dec_request v of None \<Rightarrow> Inl (UnmarshalItem i) | Some r \<Rightarrow> Inr (BReq r))
      else if is_notification v then
        (case dec_notification v of None \<Rightarrow> Inl (UnmarshalItem i) | Some n \<Rightarrow> Inr (BNotif n))
      else Inl (InvalidItem i))"

fun batch_items :: "nat \<Rightarrow> json list \<Rightarrow> batch_error + batch_item list" where
  "batch_items i [] = Inr []"
| "batch_items i (v # vs) =
     (case batch_item_of i v of
        Inl e \<Rightarrow> Inl e | Inr b \<Rightarrow> map_sum id ((#) b) (batch_items (Suc i) vs))"

definition parse_batch_request :: "json \<Rightarrow> batch_error + batch_item list" where
  "parse_batch_request v =
     (if \<not> is_batch v then Inl NotABatch
      else case v of
        JArr vs \<Rightarrow> if vs = [] then Inl BatchEmpty else batch_items 0 vs
      | _ \<Rightarrow> Inl UnmarshalBatch)"

definition ParseJSONRPCBatchRequest :: "string \<Rightarrow> batch_error + batch_item list" where
  "ParseJSONRPCBatchRequest data =
     (case json_parse data of None \<Rightarrow> Inl NotABatch | Some v \<Rightarrow> parse_batch_request v)"

definition dec_response_ptr :: "json \<Rightarrow> response option option" where
  "dec_response_ptr v = (if v = JNull then Some None else map_option Some (dec_response v))"

definition parse_batch_response :: "json \<Rightarrow> batch_error + response option list" where
  "parse_batch_response v =
     (if \<not> is_batch v then Inl NotABatch
      else case v of
        JArr vs \<Rightarrow> (case all_some (map dec_response_ptr vs) of
                     None \<Rightarrow> Inl UnmarshalBatch | Some rs \<Rightarrow> Inr rs)
      | _ \<Rightarrow> Inl UnmarshalBatch)"

definition ParseJSONRPCBatchResponse :: "string \<Rightarrow> batch_error + response option list" where
  "ParseJSONRPCBatchResponse data =
     (case json_parse data of None \<Rightarrow> Inl NotABatch | Some v \<Rightarrow> parse_batch_response v)"

definition enc_batch_item :: "batch_item \<Rightarrow> json" where
  "enc_batch_item b = (case b of BReq r \<Rightarrow> enc_request r | BNotif n \<Rightarrow> enc_notification n)"

definition batch_request_ToJSON :: "batch_item list option \<Rightarrow> batch_error + string" where
  "batch_request_ToJSON br = (case br of None \<Rightarrow> Inl BatchNil
     | Some items \<Rightarrow> Inr (json_print (JArr (map enc_batch_item items))))"

definition batch_response_ToJSON :: "response option list option \<Rightarrow> batch_error + string" where
  "batch_response_ToJSON br = (case br of None \<Rightarrow> Inl BatchNil
     | Some rs \<Rightarrow> Inr (json_print (JArr (map (case_option JNull enc_response) rs))))"

definition GetRequests :: "batch_item list \<Rightarrow> request list" where
  "GetRequests items = concat (map (\<lambda>b. case b of BReq r \<Rightarrow> [r] | BNotif _ \<Rightarrow> []) items)"

definition GetNotifications :: "batch_item list \<Rightarrow> notification list" where
  "GetNotifications items = concat (map (\<lambda>b. case b of BNotif n \<Rightarrow> [n] | BReq _ \<Rightarrow> []) items)"

definition batch_Len :: "'a list option \<Rightarrow> nat" where
  "batch_Len br = (case br of None \<Rightarrow> 0 | Some xs \<Rightarrow> length xs)"

subsection \<open>What the wire keeps\<close>

text \<open>An identifier comes back as a string or, if it was an integer, as the \<open>float64\<close> of it.\<close>

fun wire_id :: "gval \<Rightarrow> gval" where
  "wire_id (GInt i) = GFloat (of_int i)"
| "wire_id v = v"

definition good_id :: "gval \<Rightarrow> bool" where
  "good_id v \<longleftrightarrow> (\<exists>s. v = GStr s) \<or> (\<exists>i. v = GInt i \<and> \<bar>i\<bar> < 2 ^ 53)"

definition good_raw :: "json option \<Rightarrow> bool" where
  "good_raw r \<longleftrightarrow> (case r of None \<Rightarrow> True | Some v \<Rightarrow> wf_json v \<and> decode_any v \<noteq> None)"

text \<open>Requests and notifications as the constructors make them: version, a method, an identifier.\<close>

fun good_item :: "batch_item \<Rightarrow> bool" where
  "good_item (BReq r) \<longleftrightarrow> req_jsonrpc r = JSONRPCVersion \<and> req_method r \<noteq> [] \<and>
     good_id (req_id r) \<and> good_raw (req_params r)"
| "good_item (BNotif n) \<longleftrightarrow> notif_jsonrpc n = JSONRPCVersion \<and> notif_method n \<noteq> [] \<and>
     good_raw (notif_params n)"

fun wire_item :: "batch_item \<Rightarrow> batch_item" where
  "wire_item (BReq r) = BReq (r\<lparr>req_id := wire_id (req_id r)\<rparr>)"
| "wire_item (BNotif n) = BNotif n"

lemma decode_any_id [simp]: "good_id v \<Longrightarrow> decode_any (marshal v) = Some (wire_id v)"
  by (auto simp: good_id_def)

lemma wire_id_not_nil [simp]: "good_id v \<Longrightarrow> wire_id v \<noteq> GNil"
  by (auto simp: good_id_def)

lemma wf_marshal_id [simp]: "good_id v \<Longrightarrow> wf_json (marshal v)"
  by (auto simp: good_id_def)

lemma key_lower_simps [simp]:
  "key_eq ''id'' ''params'' = False" "key_eq ''method'' ''params'' = False"
  "key_eq ''jsonrpc'' ''params'' = False"
  by (simp_all add: key_eq_def to_lower_def lower_char_def)

lemma dec_enc_request:
  assumes "good_item (BReq r)"
  shows "dec_request (enc_request r) = Some (r\<lparr>req_id := wire_id (req_id r)\<rparr>)"
    "dec_probe (enc_request r) = Some \<lparr>probe_jsonrpc = JSONRPCVersion,
       probe_id = wire_id (req_id r), probe_method = req_method r\<rparr>"
  using assms
  by (auto simp: dec_request_def dec_probe_def enc_request_def decode_struct_def request_fields_def
      find_field_def str_field_def any_field_def raw_field_def zero_request_def omit_raw_def
      split: option.splits)

lemma dec_enc_notification:
  assumes "good_item (BNotif n)"
  shows "dec_notification (enc_notification n) = Some n"
    "dec_probe (enc_notification n) = Some \<lparr>probe_jsonrpc = JSONRPCVersion,
       probe_id = GNil, probe_method = notif_method n\<rparr>"
  using assms
  by (auto simp: dec_notification_def dec_probe_def enc_notification_def decode_struct_def
      notification_fields_def find_field_def str_field_def any_field_def raw_field_def omit_raw_def
      split: option.splits)

lemma batch_item_of_enc: "good_item b \<Longrightarrow> batch_item_of i (enc_batch_item b) = Inr (wire_item b)"
  by (cases b) (auto simp: enc_batch_item_def batch_item_of_def is_request_def is_notification_def
      dec_enc_request dec_enc_notification)

lemma batch_items_enc:
  "list_all good_item bs \<Longrightarrow> batch_items i (map enc_batch_item bs) = Inr (map wire_item bs)"
  by (induction bs arbitrary: i) (simp_all add: batch_item_of_enc)

lemma good_item_wf: "good_item b \<Longrightarrow> wf_json (enc_batch_item b) \<and> decode_any (enc_batch_item b) \<noteq> None"
  by (cases b)
    (auto simp: enc_batch_item_def enc_request_def enc_notification_def omit_raw_def good_raw_def
      all_some_def split: option.splits)

lemma decode_any_JArr: "list_all (\<lambda>v. decode_any v \<noteq> None) vs \<Longrightarrow> decode_any (JArr vs) \<noteq> None"
  by (auto simp: all_some_def list_all_iff)

lemma parse_batch_enc:
  assumes "list_all good_item bs" "bs \<noteq> []"
  shows "parse_batch_request (JArr (map enc_batch_item bs)) = Inr (map wire_item bs)"
proof -
  have "decode_any (JArr (map enc_batch_item bs)) \<noteq> None"
    using assms good_item_wf by (intro decode_any_JArr) (auto simp: list_all_iff)
  then show ?thesis
    using assms by (simp add: parse_batch_request_def is_batch_def batch_items_enc del: decode_any.simps)
qed

text \<open>
  C1. Round trip of a batch: a non-empty batch of requests and notifications with the protocol
  version, a method and an identifier (a string, or an integer below 2 to the 53) is serialized by
  \<open>ToJSON\<close> to a text from which \<open>ParseJSONRPCBatchRequest\<close> recovers the same items in order,
  integer identifiers as the float of the same value.
\<close>

theorem batch_roundtrip:
  assumes "list_all good_item bs" "bs \<noteq> []"
  shows "\<exists>text. batch_request_ToJSON (Some bs) = Inr text
    \<and> ParseJSONRPCBatchRequest text = Inr (map wire_item bs)"
proof -
  have "wf_json (JArr (map enc_batch_item bs))"
    using assms good_item_wf by (auto simp: list_all_iff)
  then have "json_parse (json_print (JArr (map enc_batch_item bs))) = Some (JArr (map enc_batch_item bs))"
    by (rule json_parse_print)
  then show ?thesis
    using parse_batch_enc [OF assms] by (simp add: batch_request_ToJSON_def ParseJSONRPCBatchRequest_def)
qed

definition sample_batch :: "batch_item list" where
  "sample_batch = [BReq (NewRequest (GStr ''req_1'') ''ping'' (GMap [(''timestamp'', GInt 7)])),
     BNotif (NewNotification ''initialized'' GNil), BReq (NewRequest (GInt 2) ''listTools'' GNil)]"

lemma sample_batch_good: "list_all good_item sample_batch" "sample_batch \<noteq> []"
  by (auto simp: sample_batch_def NewRequest_def NewNotification_def JSONRPCVersion_def raw_of_def
      good_id_def good_raw_def all_some_def)

theorem batch_roundtrip_witness:
  "\<exists>text. batch_request_ToJSON (Some sample_batch) = Inr text
    \<and> ParseJSONRPCBatchRequest text = Inr (map wire_item sample_batch)"
  by (rule batch_roundtrip [OF sample_batch_good])

end
