(* ===== verification/Messages.thy ===== *)
theory Messages
  imports Protocol
begin

section \<open>The data of the protocol (\<open>mcp.go\<close>, \<open>tools.go\<close>, \<open>resources.go\<close>, \<open>prompts.go\<close>, \<open>sampling.go\<close>, \<open>completion.go\<close>)\<close>

text \<open>
  A record for every struct the handlers decode or encode, with its zero value, its JSON form (field
  options \<open>omitempty\<close> included) and its decoding. A slice or map without \<open>omitempty\<close> tells nil
  (written \<open>null\<close>) from empty and is an \<open>option\<close>; a \<open>time.Time\<close> is its text on the wire. A map is
  an association list. An embedded struct contributes its members to those of the outer one. A
  second occurrence of a container member replaces the first (Go merges maps).
\<close>

subsection \<open>Fields of the remaining types\<close>

definition dec_str :: "json \<Rightarrow> string option" where
  "dec_str v = (case v of JStr s \<Rightarrow> Some s | JNull \<Rightarrow> Some [] | _ \<Rightarrow> None)"

definition dec_bool :: "json \<Rightarrow> bool option" where
  "dec_bool v = (case v of JBool b \<Rightarrow> Some b | JNull \<Rightarrow> Some False | _ \<Rightarrow> None)"

definition zero_time :: string where
  "zero_time = ''0001-01-01T00:00:00Z''"

definition float_field :: "(rat \<Rightarrow> 'a \<Rightarrow> 'a) \<Rightarrow> json \<Rightarrow> 'a \<Rightarrow> 'a option" where
  "float_field upd v a =
     (case v of JNum l \<Rightarrow> map_option (\<lambda>x. upd x a) (float_of_lit l) | JNull \<Rightarrow> Some a | _ \<Rightarrow> None)"

definition slice_field :: "('b list option \<Rightarrow> 'a \<Rightarrow> 'a) \<Rightarrow> (json \<Rightarrow> 'b option) \<Rightarrow> json \<Rightarrow> 'a \<Rightarrow> 'a option" where
  "slice_field upd dec v a =
     (case v of JArr vs \<Rightarrow> map_option (\<lambda>xs. upd (Some xs) a) (all_some (map dec vs))
      | JNull \<Rightarrow> Some (upd None a) | _ \<Rightarrow> None)"

definition map_field ::
    "((string \<times> 'b) list option \<Rightarrow> 'a \<Rightarrow> 'a) \<Rightarrow> (json \<Rightarrow> 'b option) \<Rightarrow> json \<Rightarrow> 'a \<Rightarrow> 'a option" where
  "map_field upd dec v a =
     (case v of
        JObj kvs \<Rightarrow> map_option (\<lambda>xs. upd (Some (fold (\<lambda>(k, x). put_assoc k x) (zip (map fst kvs) xs) [])) a)
                      (all_some (map (\<lambda>(k, v). dec v) kvs))
      | JNull \<Rightarrow> Some (upd None a) | _ \<Rightarrow> None)"

definition struct_field :: "('b \<Rightarrow> 'a \<Rightarrow> 'a) \<Rightarrow> (json \<Rightarrow> 'b option) \<Rightarrow> json \<Rightarrow> 'a \<Rightarrow> 'a option" where
  "struct_field upd dec v a = (if v = JNull then Some a else map_option (\<lambda>x. upd x a) (dec v))"

text \<open>The fields of an embedded struct, as fields of the outer one.\<close>

definition lift_fields :: "('a \<Rightarrow> 'b) \<Rightarrow> ('b \<Rightarrow> 'a \<Rightarrow> 'a) \<Rightarrow> 'b field list \<Rightarrow> 'a field list" where
  "lift_fields get put fs = map (\<lambda>(n, f). (n, \<lambda>v a. map_option (\<lambda>b. put b a) (f v (get a)))) fs"

definition omit_float :: "string \<Rightarrow> rat \<Rightarrow> (string \<times> json) list" where
  "omit_float k x = (if x = 0 then [] else [(k, JNum (float_json x))])"

definition omit_ptr :: "string \<Rightarrow> ('a \<Rightarrow> json) \<Rightarrow> 'a option \<Rightarrow> (string \<times> json) list" where
  "omit_ptr k enc p = (case p of None \<Rightarrow> [] | Some x \<Rightarrow> [(k, enc x)])"

definition map_json :: "('a \<Rightarrow> json) \<Rightarrow> (string \<times> 'a) list \<Rightarrow> json" where
  "map_json enc kvs = JObj (sort_key fst (map (\<lambda>(k, v). (k, enc v)) kvs))"

definition omit_map :: "string \<Rightarrow> ('a \<Rightarrow> json) \<Rightarrow> (string \<times> 'a) list \<Rightarrow> (string \<times> json) list" where
  "omit_map k enc kvs = (if kvs = [] then [] else [(k, map_json enc kvs)])"

definition enc_raw :: "json option \<Rightarrow> json" where
  "enc_raw r = (case r of None \<Rightarrow> JNull | Some v \<Rightarrow> v)"

definition enc_list :: "('a \<Rightarrow> json) \<Rightarrow> 'a list option \<Rightarrow> json" where
  "enc_list enc xs = (case xs of None \<Rightarrow> JNull | Some ys \<Rightarrow> JArr (map enc ys))"

definition enc_map :: "('a \<Rightarrow> json) \<Rightarrow> (string \<times> 'a) list option \<Rightarrow> json" where
  "enc_map enc m = (case m of None \<Rightarrow> JNull | Some kvs \<Rightarrow> map_json enc kvs)"

subsection \<open>Pagination\<close>

record pagination_params =
  pg_limit :: int
  pg_cursor :: string

definition zero_pagination_params :: pagination_params where
  "zero_pagination_params = \<lparr>pg_limit = 0, pg_cursor = []\<rparr>"

definition members_pagination_params :: "pagination_params \<Rightarrow> (string \<times> json) list" where
  "members_pagination_params x = omit_int ''limit'' (pg_limit x)
     @ omit_str ''cursor'' (pg_cursor x)"

definition enc_pagination_params :: "pagination_params \<Rightarrow> json" where
  "enc_pagination_params x = JObj (members_pagination_params x)"

definition pagination_params_fields :: "pagination_params field list" where
  "pagination_params_fields = [(''limit'', int_field (\<lambda>v a. a\<lparr>pg_limit := v\<rparr>)),
     (''cursor'', str_field (\<lambda>v a. a\<lparr>pg_cursor := v\<rparr>))]"

definition dec_pagination_params :: "json \<Rightarrow> pagination_params option" where
  "dec_pagination_params = decode_struct pagination_params_fields zero_pagination_params"

lemmas pagination_params_defs = enc_pagination_params_def pagination_params_fields_def dec_pagination_params_def zero_pagination_params_def

record pagination_result =
  pgr_items :: "gval list option"
  pgr_total_count :: int
  pgr_next_cursor :: string
  pgr_has_more :: bool

definition zero_pagination_result :: pagination_result where
  "zero_pagination_result = \<lparr>pgr_items = None, pgr_total_count = 0, pgr_next_cursor = [], pgr_has_more = False\<rparr>"

definition members_pagination_result :: "pagination_result \<Rightarrow> (string \<times> json) list" where
  "members_pagination_result x = [(''items'', enc_list marshal (pgr_items x))]
     @ omit_int ''totalCount'' (pgr_total_count x)
     @ omit_str ''nextCursor'' (pgr_next_cursor x)
     @ [(''hasMore'', JBool (pgr_has_more x))]"

definition enc_pagination_result :: "pagination_result \<Rightarrow> json" where
  "enc_pagination_result x = JObj (members_pagination_result x)"

definition pagination_result_fields :: "pagination_result field list" where
  "pagination_result_fields = [(''items'', slice_field (\<lambda>v a. a\<lparr>pgr_items := v\<rparr>) decode_any),
     (''totalCount'', int_field (\<lambda>v a. a\<lparr>pgr_total_count := v\<rparr>)),
     (''nextCursor'', str_field (\<lambda>v a. a\<lparr>pgr_next_cursor := v\<rparr>)),
     (''hasMore'', bool_field (\<lambda>v a. a\<lparr>pgr_has_more := v\<rparr>))]"

definition dec_pagination_result :: "json \<Rightarrow> pagination_result option" where
  "dec_pagination_result = decode_struct pagination_result_fields zero_pagination_result"

lemmas pagination_result_defs = enc_pagination_result_def pagination_result_fields_def dec_pagination_result_def zero_pagination_result_def

subsection \<open>Lifecycle and utilities\<close>

record client_info =
  ci_name :: string
  ci_version :: string
  ci_platform :: string

definition zero_client_info :: client_info where
  "zero_client_info = \<lparr>ci_name = [], ci_version = [], ci_platform = []\<rparr>"

definition enc_client_info :: "client_info \<Rightarrow> json" where
  "enc_client_info x = JObj ([(''name'', JStr (ci_name x))]
     @ [(''version'', JStr (ci_version x))]
     @ omit_str ''platform'' (ci_platform x))"

definition client_info_fields :: "client_info field list" where
  "client_info_fields = [(''name'', str_field (\<lambda>v a. a\<lparr>ci_name := v\<rparr>)),
     (''version'', str_field (\<lambda>v a. a\<lparr>ci_version := v\<rparr>)),
     (''platform'', str_field (\<lambda>v a. a\<lparr>ci_platform := v\<rparr>))]"

definition dec_client_info :: "json \<Rightarrow> client_info option" where
  "dec_client_info = decode_struct client_info_fields zero_client_info"

lemmas client_info_defs = enc_client_info_def client_info_fields_def dec_client_info_def zero_client_info_def

record initialize_params =
  ip_protocol_version :: string
  ip_name :: string
  ip_version :: string
  ip_capabilities :: "(string \<times> bool) list option"
  ip_client_info :: "client_info option"
  ip_trace :: string
  ip_feature_options :: "(string \<times> gval) list"

definition zero_initialize_params :: initialize_params where
  "zero_initialize_params = \<lparr>ip_protocol_version = [], ip_name = [], ip_version = [], ip_capabilities = None, ip_client_info = None, ip_trace = [], ip_feature_options = []\<rparr>"

definition enc_initialize_params :: "initialize_params \<Rightarrow> json" where
  "enc_initialize_params x = JObj ([(''protocolVersion'', JStr (ip_protocol_version x))]
     @ [(''name'', JStr (ip_name x))]
     @ [(''version'', JStr (ip_version x))]
     @ [(''capabilities'', enc_map JBool (ip_capabilities x))]
     @ omit_ptr ''clientInfo'' enc_client_info (ip_client_info x)
     @ omit_str ''trace'' (ip_trace x)
     @ omit_map ''featureOptions'' marshal (ip_feature_options x))"

definition initialize_params_fields :: "initialize_params field list" where
  "initialize_params_fields = [(''protocolVersion'', str_field (\<lambda>v a. a\<lparr>ip_protocol_version := v\<rparr>)),
     (''name'', str_field (\<lambda>v a. a\<lparr>ip_name := v\<rparr>)),
     (''version'', str_field (\<lambda>v a. a\<lparr>ip_version := v\<rparr>)),
     (''capabilities'', map_field (\<lambda>v a. a\<lparr>ip_capabilities := v\<rparr>) dec_bool),
     (''clientInfo'', ptr_field (\<lambda>v a. a\<lparr>ip_client_info := v\<rparr>) dec_client_info),
     (''trace'', str_field (\<lambda>v a. a\<lparr>ip_trace := v\<rparr>)),
     (''featureOptions'', map_field (\<lambda>m. (\<lambda>v a. a\<lparr>ip_feature_options := v\<rparr>) (case m of None \<Rightarrow> [] | Some kvs \<Rightarrow> kvs)) decode_any)]"

definition dec_initialize_params :: "json \<Rightarrow> initialize_params option" where
  "dec_initialize_params = decode_struct initialize_params_fields zero_initialize_params"

lemmas initialize_params_defs = enc_initialize_params_def initialize_params_fields_def dec_initialize_params_def zero_initialize_params_def

record server_info =
  si_name :: string
  si_version :: string
  si_description :: string
  si_homepage :: string

definition zero_server_info :: server_info where
  "zero_server_info = \<lparr>si_name = [], si_version = [], si_description = [], si_homepage = []\<rparr>"

definition enc_server_info :: "server_info \<Rightarrow> json" where
  "enc_server_info x = JObj ([(''name'', JStr (si_name x))]
     @ [(''version'', JStr (si_version x))]
     @ omit_str ''description'' (si_description x)
     @ omit_str ''homepage'' (si_homepage x))"

definition server_info_fields :: "server_info field list" where
  "server_info_fields = [(''name'', str_field (\<lambda>v a. a\<lparr>si_name := v\<rparr>)),
     (''version'', str_field (\<lambda>v a. a\<lparr>si_version := v\<rparr>)),
     (''description'', str_field (\<lambda>v a. a\<lparr>si_description := v\<rparr>)),
     (''homepage'', str_field (\<lambda>v a. a\<lparr>si_homepage := v\<rparr>))]"

definition dec_server_info :: "json \<Rightarrow> server_info option" where
  "dec_server_info = decode_struct server_info_fields zero_server_info"

lemmas server_info_defs = enc_server_info_def server_info_fields_def dec_server_info_def zero_server_info_def

record initialize_result =
  ir_protocol_version :: string
  ir_name :: string
  ir_version :: string
  ir_capabilities :: "(string \<times> bool) list option"
  ir_server_info :: "server_info option"
  ir_feature_options :: "(string \<times> gval) list"

definition zero_initialize_result :: initialize_result where
  "zero_initialize_result = \<lparr>ir_protocol_version = [], ir_name = [], ir_version = [], ir_capabilities = None, ir_server_info = None, ir_feature_options = []\<rparr>"

definition enc_initialize_result :: "initialize_result \<Rightarrow> json" where
  "enc_initialize_result x = JObj ([(''protocolVersion'', JStr (ir_protocol_version x))]
     @ [(''name'', JStr (ir_name x))]
     @ [(''version'', JStr (ir_version x))]
     @ [(''capabilities'', enc_map JBool (ir_capabilities x))]
     @ omit_ptr ''serverInfo'' enc_server_info (ir_server_info x)
     @ omit_map ''featureOptions'' marshal (ir_feature_options x))"

definition initialize_result_fields :: "initialize_result field list" where
  "initialize_result_fields = [(''protocolVersion'', str_field (\<lambda>v a. a\<lparr>ir_protocol_version := v\<rparr>)),
     (''name'', str_field (\<lambda>v a. a\<lparr>ir_name := v\<rparr>)),
     (''version'', str_field (\<lambda>v a. a\<lparr>ir_version := v\<rparr>)),
     (''capabilities'', map_field (\<lambda>v a. a\<lparr>ir_capabilities := v\<rparr>) dec_bool),
     (''serverInfo'', ptr_field (\<lambda>v a. a\<lparr>ir_server_info := v\<rparr>) dec_server_info),
     (''featureOptions'', map_field (\<lambda>m. (\<lambda>v a. a\<lparr>ir_feature_options := v\<rparr>) (case m of None \<Rightarrow> [] | Some kvs \<Rightarrow> kvs)) decode_any)]"

definition dec_initialize_result :: "json \<Rightarrow> initialize_result option" where
  "dec_initialize_result = decode_struct initialize_result_fields zero_initialize_result"

lemmas initialize_result_defs = enc_initialize_result_def initialize_result_fields_def dec_initialize_result_def zero_initialize_result_def

record set_capability_params =
  scp_capability :: string
  scp_value :: bool

definition zero_set_capability_params :: set_capability_params where
  "zero_set_capability_params = \<lparr>scp_capability = [], scp_value = False\<rparr>"

definition enc_set_capability_params :: "set_capability_params \<Rightarrow> json" where
  "enc_set_capability_params x = JObj ([(''capability'', JStr (scp_capability x))]
     @ [(''value'', JBool (scp_value x))])"

definition set_capability_params_fields :: "set_capability_params field list" where
  "set_capability_params_fields = [(''capability'', str_field (\<lambda>v a. a\<lparr>scp_capability := v\<rparr>)),
     (''value'', bool_field (\<lambda>v a. a\<lparr>scp_value := v\<rparr>))]"

definition dec_set_capability_params :: "json \<Rightarrow> set_capability_params option" where
  "dec_set_capability_params = decode_struct set_capability_params_fields zero_set_capability_params"

lemmas set_capability_params_defs = enc_set_capability_params_def set_capability_params_fields_def dec_set_capability_params_def zero_set_capability_params_def

record set_capability_result =
  scr_success :: bool

definition zero_set_capability_result :: set_capability_result where
  "zero_set_capability_result = \<lparr>scr_success = False\<rparr>"

definition enc_set_capability_result :: "set_capability_result \<Rightarrow> json" where
  "enc_set_capability_result x = JObj ([(''success'', JBool (scr_success x))])"

definition set_capability_result_fields :: "set_capability_result field list" where
  "set_capability_result_fields = [(''success'', bool_field (\<lambda>v a. a\<lparr>scr_success := v\<rparr>))]"

definition dec_set_capability_result :: "json \<Rightarrow> set_capability_result option" where
  "dec_set_capability_result = decode_struct set_capability_result_fields zero_set_capability_result"

lemmas set_capability_result_defs = enc_set_capability_result_def set_capability_result_fields_def dec_set_capability_result_def zero_set_capability_result_def

record cancel_params =
  cp_id :: gval

definition zero_cancel_params :: cancel_params where
  "zero_cancel_params = \<lparr>cp_id = GNil\<rparr>"

definition enc_cancel_params :: "cancel_params \<Rightarrow> json" where
  "enc_cancel_params x = JObj ([(''id'', marshal (cp_id x))])"

definition cancel_params_fields :: "cancel_params field list" where
  "cancel_params_fields = [(''id'', any_field (\<lambda>v a. a\<lparr>cp_id := v\<rparr>))]"

definition dec_cancel_params :: "json \<Rightarrow> cancel_params option" where
  "dec_cancel_params = decode_struct cancel_params_fields zero_cancel_params"

lemmas cancel_params_defs = enc_cancel_params_def cancel_params_fields_def dec_cancel_params_def zero_cancel_params_def

record cancel_result =
  cr_cancelled :: bool

definition zero_cancel_result :: cancel_result where
  "zero_cancel_result = \<lparr>cr_cancelled = False\<rparr>"

definition enc_cancel_result :: "cancel_result \<Rightarrow> json" where
  "enc_cancel_result x = JObj ([(''cancelled'', JBool (cr_cancelled x))])"

definition cancel_result_fields :: "cancel_result field list" where
  "cancel_result_fields = [(''cancelled'', bool_field (\<lambda>v a. a\<lparr>cr_cancelled := v\<rparr>))]"

definition dec_cancel_result :: "json \<Rightarrow> cancel_result option" where
  "dec_cancel_result = decode_struct cancel_result_fields zero_cancel_result"

lemmas cancel_result_defs = enc_cancel_result_def cancel_result_fields_def dec_cancel_result_def zero_cancel_result_def

record ping_params =
  pp_timestamp :: int

definition zero_ping_params :: ping_params where
  "zero_ping_params = \<lparr>pp_timestamp = 0\<rparr>"

definition enc_ping_params :: "ping_params \<Rightarrow> json" where
  "enc_ping_params x = JObj (omit_int ''timestamp'' (pp_timestamp x))"

definition ping_params_fields :: "ping_params field list" where
  "ping_params_fields = [(''timestamp'', int_field (\<lambda>v a. a\<lparr>pp_timestamp := v\<rparr>))]"

definition dec_ping_params :: "json \<Rightarrow> ping_params option" where
  "dec_ping_params = decode_struct ping_params_fields zero_ping_params"

lemmas ping_params_defs = enc_ping_params_def ping_params_fields_def dec_ping_params_def zero_ping_params_def

record ping_result =
  pr_timestamp :: int

definition zero_ping_result :: ping_result where
  "zero_ping_result = \<lparr>pr_timestamp = 0\<rparr>"

definition enc_ping_result :: "ping_result \<Rightarrow> json" where
  "enc_ping_result x = JObj ([(''timestamp'', JInt (pr_timestamp x))])"

definition ping_result_fields :: "ping_result field list" where
  "ping_result_fields = [(''timestamp'', int_field (\<lambda>v a. a\<lparr>pr_timestamp := v\<rparr>))]"

definition dec_ping_result :: "json \<Rightarrow> ping_result option" where
  "dec_ping_result = decode_struct ping_result_fields zero_ping_result"

lemmas ping_result_defs = enc_ping_result_def ping_result_fields_def dec_ping_result_def zero_ping_result_def

record set_log_level_params =
  sllp_level :: string

definition zero_set_log_level_params :: set_log_level_params where
  "zero_set_log_level_params = \<lparr>sllp_level = []\<rparr>"

definition enc_set_log_level_params :: "set_log_level_params \<Rightarrow> json" where
  "enc_set_log_level_params x = JObj ([(''level'', JStr (sllp_level x))])"

definition set_log_level_params_fields :: "set_log_level_params field list" where
  "set_log_level_params_fields = [(''level'', str_field (\<lambda>v a. a\<lparr>sllp_level := v\<rparr>))]"

definition dec_set_log_level_params :: "json \<Rightarrow> set_log_level_params option" where
  "dec_set_log_level_params = decode_struct set_log_level_params_fields zero_set_log_level_params"

lemmas set_log_level_params_defs = enc_set_log_level_params_def set_log_level_params_fields_def dec_set_log_level_params_def zero_set_log_level_params_def

record set_log_level_result =
  sllr_success :: bool

definition zero_set_log_level_result :: set_log_level_result where
  "zero_set_log_level_result = \<lparr>sllr_success = False\<rparr>"

definition enc_set_log_level_result :: "set_log_level_result \<Rightarrow> json" where
  "enc_set_log_level_result x = JObj ([(''success'', JBool (sllr_success x))])"

definition set_log_level_result_fields :: "set_log_level_result field list" where
  "set_log_level_result_fields = [(''success'', bool_field (\<lambda>v a. a\<lparr>sllr_success := v\<rparr>))]"

definition dec_set_log_level_result :: "json \<Rightarrow> set_log_level_result option" where
  "dec_set_log_level_result = decode_struct set_log_level_result_fields zero_set_log_level_result"

lemmas set_log_level_result_defs = enc_set_log_level_result_def set_log_level_result_fields_def dec_set_log_level_result_def zero_set_log_level_result_def

subsection \<open>Tools\<close>

record tool_example =
  te_name :: string
  te_description :: string
  te_input :: "json option"
  te_output :: "json option"
  te_extra_context :: string

definition zero_tool_example :: tool_example where
  "zero_tool_example = \<lparr>te_name = [], te_description = [], te_input = None, te_output = None, te_extra_context = []\<rparr>"

definition enc_tool_example :: "tool_example \<Rightarrow> json" where
  "enc_tool_example x = JObj ([(''name'', JStr (te_name x))]
     @ omit_str ''description'' (te_description x)
     @ [(''input'', enc_raw (te_input x))]
     @ [(''output'', enc_raw (te_output x))]
     @ omit_str ''extraContext'' (te_extra_context x))"

definition tool_example_fields :: "tool_example field list" where
  "tool_example_fields = [(''name'', str_field (\<lambda>v a. a\<lparr>te_name := v\<rparr>)),
     (''description'', str_field (\<lambda>v a. a\<lparr>te_description := v\<rparr>)),
     (''input'', raw_field (\<lambda>v a. a\<lparr>te_input := v\<rparr>)),
     (''output'', raw_field (\<lambda>v a. a\<lparr>te_output := v\<rparr>)),
     (''extraContext'', str_field (\<lambda>v a. a\<lparr>te_extra_context := v\<rparr>))]"

definition dec_tool_example :: "json \<Rightarrow> tool_example option" where
  "dec_tool_example = decode_struct tool_example_fields zero_tool_example"

lemmas tool_example_defs = enc_tool_example_def tool_example_fields_def dec_tool_example_def zero_tool_example_def

record tool_annotation =
  ta_type :: string
  ta_value :: "json option"

definition zero_tool_annotation :: tool_annotation where
  "zero_tool_annotation = \<lparr>ta_type = [], ta_value = None\<rparr>"

definition enc_tool_annotation :: "tool_annotation \<Rightarrow> json" where
  "enc_tool_annotation x = JObj ([(''type'', JStr (ta_type x))]
     @ [(''value'', enc_raw (ta_value x))])"

definition tool_annotation_fields :: "tool_annotation field list" where
  "tool_annotation_fields = [(''type'', str_field (\<lambda>v a. a\<lparr>ta_type := v\<rparr>)),
     (''value'', raw_field (\<lambda>v a. a\<lparr>ta_value := v\<rparr>))]"

definition dec_tool_annotation :: "json \<Rightarrow> tool_annotation option" where
  "dec_tool_annotation = decode_struct tool_annotation_fields zero_tool_annotation"

lemmas tool_annotation_defs = enc_tool_annotation_def tool_annotation_fields_def dec_tool_annotation_def zero_tool_annotation_def

record tool =
  tool_name :: string
  tool_description :: string
  tool_input_schema :: "json option"
  tool_output_schema :: "json option"
  tool_examples :: "tool_example list"
  tool_annotations :: "tool_annotation list"
  tool_documentation :: string
  tool_type :: string
  tool_async :: bool
  tool_categories :: "string list"

definition zero_tool :: tool where
  "zero_tool = \<lparr>tool_name = [], tool_description = [], tool_input_schema = None, tool_output_schema = None, tool_examples = [], tool_annotations = [], tool_documentation = [], tool_type = [], tool_async = False, tool_categories = []\<rparr>"

definition enc_tool :: "tool \<Rightarrow> json" where
  "enc_tool x = JObj ([(''name'', JStr (tool_name x))]
     @ omit_str ''description'' (tool_description x)
     @ omit_raw ''inputSchema'' (tool_input_schema x)
     @ omit_raw ''outputSchema'' (tool_output_schema x)
     @ omit_list ''examples'' enc_tool_example (tool_examples x)
     @ omit_list ''annotations'' enc_tool_annotation (tool_annotations x)
     @ omit_str ''documentation'' (tool_documentation x)
     @ omit_str ''type'' (tool_type x)
     @ omit_bool ''async'' (tool_async x)
     @ omit_list ''categories'' JStr (tool_categories x))"

definition tool_fields :: "tool field list" where
  "tool_fields = [(''name'', str_field (\<lambda>v a. a\<lparr>tool_name := v\<rparr>)),
     (''description'', str_field (\<lambda>v a. a\<lparr>tool_description := v\<rparr>)),
     (''inputSchema'', raw_field (\<lambda>v a. a\<lparr>tool_input_schema := v\<rparr>)),
     (''outputSchema'', raw_field (\<lambda>v a. a\<lparr>tool_output_schema := v\<rparr>)),
     (''examples'', list_field (\<lambda>v a. a\<lparr>tool_examples := v\<rparr>) dec_tool_example),
     (''annotations'', list_field (\<lambda>v a. a\<lparr>tool_annotations := v\<rparr>) dec_tool_annotation),
     (''documentation'', str_field (\<lambda>v a. a\<lparr>tool_documentation := v\<rparr>)),
     (''type'', str_field (\<lambda>v a. a\<lparr>tool_type := v\<rparr>)),
     (''async'', bool_field (\<lambda>v a. a\<lparr>tool_async := v\<rparr>)),
     (''categories'', list_field (\<lambda>v a. a\<lparr>tool_categories := v\<rparr>) dec_str)]"

definition dec_tool :: "json \<Rightarrow> tool option" where
  "dec_tool = decode_struct tool_fields zero_tool"

lemmas tool_defs = enc_tool_def tool_fields_def dec_tool_def zero_tool_def

record list_tools_params =
  ltp_category :: string
  ltp_page :: pagination_params

definition zero_list_tools_params :: list_tools_params where
  "zero_list_tools_params = \<lparr>ltp_category = [], ltp_page = zero_pagination_params\<rparr>"

definition enc_list_tools_params :: "list_tools_params \<Rightarrow> json" where
  "enc_list_tools_params x = JObj (omit_str ''category'' (ltp_category x)
     @ members_pagination_params (ltp_page x))"

definition list_tools_params_fields :: "list_tools_params field list" where
  "list_tools_params_fields = [(''category'', str_field (\<lambda>v a. a\<lparr>ltp_category := v\<rparr>))]
     @ lift_fields ltp_page (\<lambda>p a. a\<lparr>ltp_page := p\<rparr>) pagination_params_fields"

definition dec_list_tools_params :: "json \<Rightarrow> list_tools_params option" where
  "dec_list_tools_params = decode_struct list_tools_params_fields zero_list_tools_params"

lemmas list_tools_params_defs = enc_list_tools_params_def list_tools_params_fields_def dec_list_tools_params_def zero_list_tools_params_def

record list_tools_result =
  ltr_tools :: "tool list option"
  ltr_page :: pagination_result

definition zero_list_tools_result :: list_tools_result where
  "zero_list_tools_result = \<lparr>ltr_tools = None, ltr_page = zero_pagination_result\<rparr>"

definition enc_list_tools_result :: "list_tools_result \<Rightarrow> json" where
  "enc_list_tools_result x = JObj ([(''tools'', enc_list enc_tool (ltr_tools x))]
     @ members_pagination_result (ltr_page x))"

definition list_tools_result_fields :: "list_tools_result field list" where
  "list_tools_result_fields = [(''tools'', slice_field (\<lambda>v a. a\<lparr>ltr_tools := v\<rparr>) dec_tool)]
     @ lift_fields ltr_page (\<lambda>p a. a\<lparr>ltr_page := p\<rparr>) pagination_result_fields"

definition dec_list_tools_result :: "json \<Rightarrow> list_tools_result option" where
  "dec_list_tools_result = decode_struct list_tools_result_fields zero_list_tools_result"

lemmas list_tools_result_defs = enc_list_tools_result_def list_tools_result_fields_def dec_list_tools_result_def zero_list_tools_result_def

record call_tool_params =
  ctp_name :: string
  ctp_input :: "json option"
  ctp_context :: "json option"

definition zero_call_tool_params :: call_tool_params where
  "zero_call_tool_params = \<lparr>ctp_name = [], ctp_input = None, ctp_context = None\<rparr>"

definition enc_call_tool_params :: "call_tool_params \<Rightarrow> json" where
  "enc_call_tool_params x = JObj ([(''name'', JStr (ctp_name x))]
     @ omit_raw ''input'' (ctp_input x)
     @ omit_raw ''context'' (ctp_context x))"

definition call_tool_params_fields :: "call_tool_params field list" where
  "call_tool_params_fields = [(''name'', str_field (\<lambda>v a. a\<lparr>ctp_name := v\<rparr>)),
     (''input'', raw_field (\<lambda>v a. a\<lparr>ctp_input := v\<rparr>)),
     (''context'', raw_field (\<lambda>v a. a\<lparr>ctp_context := v\<rparr>))]"

definition dec_call_tool_params :: "json \<Rightarrow> call_tool_params option" where
  "dec_call_tool_params = decode_struct call_tool_params_fields zero_call_tool_params"

lemmas call_tool_params_defs = enc_call_tool_params_def call_tool_params_fields_def dec_call_tool_params_def zero_call_tool_params_def

record call_tool_result =
  ctr_result :: "json option"
  ctr_error :: string
  ctr_partial :: bool
  ctr_operation_id :: string
  ctr_documentation :: string

definition zero_call_tool_result :: call_tool_result where
  "zero_call_tool_result = \<lparr>ctr_result = None, ctr_error = [], ctr_partial = False, ctr_operation_id = [], ctr_documentation = []\<rparr>"

definition enc_call_tool_result :: "call_tool_result \<Rightarrow> json" where
  "enc_call_tool_result x = JObj (omit_raw ''result'' (ctr_result x)
     @ omit_str ''error'' (ctr_error x)
     @ omit_bool ''partial'' (ctr_partial x)
     @ omit_str ''operationId'' (ctr_operation_id x)
     @ omit_str ''documentation'' (ctr_documentation x))"

definition call_tool_result_fields :: "call_tool_result field list" where
  "call_tool_result_fields = [(''result'', raw_field (\<lambda>v a. a\<lparr>ctr_result := v\<rparr>)),
     (''error'', str_field (\<lambda>v a. a\<lparr>ctr_error := v\<rparr>)),
     (''partial'', bool_field (\<lambda>v a. a\<lparr>ctr_partial := v\<rparr>)),
     (''operationId'', str_field (\<lambda>v a. a\<lparr>ctr_operation_id := v\<rparr>)),
     (''documentation'', str_field (\<lambda>v a. a\<lparr>ctr_documentation := v\<rparr>))]"

definition dec_call_tool_result :: "json \<Rightarrow> call_tool_result option" where
  "dec_call_tool_result = decode_struct call_tool_result_fields zero_call_tool_result"

lemmas call_tool_result_defs = enc_call_tool_result_def call_tool_result_fields_def dec_call_tool_result_def zero_call_tool_result_def

subsection \<open>Resources\<close>

record resource =
  res_uri :: string
  res_name :: string
  res_description :: string
  res_type :: string
  res_size :: int
  res_mod_time :: string
  res_metadata :: "(string \<times> string) list"
  res_children :: "string list"
  res_template_uri :: string

definition zero_resource :: resource where
  "zero_resource = \<lparr>res_uri = [], res_name = [], res_description = [], res_type = [], res_size = 0, res_mod_time = zero_time, res_metadata = [], res_children = [], res_template_uri = []\<rparr>"

definition enc_resource :: "resource \<Rightarrow> json" where
  "enc_resource x = JObj ([(''uri'', JStr (res_uri x))]
     @ omit_str ''name'' (res_name x)
     @ omit_str ''description'' (res_description x)
     @ [(''type'', JStr (res_type x))]
     @ omit_int ''size'' (res_size x)
     @ [(''modTime'', JStr (res_mod_time x))]
     @ omit_map ''metadata'' JStr (res_metadata x)
     @ omit_list ''children'' JStr (res_children x)
     @ omit_str ''templateUri'' (res_template_uri x))"

definition resource_fields :: "resource field list" where
  "resource_fields = [(''uri'', str_field (\<lambda>v a. a\<lparr>res_uri := v\<rparr>)),
     (''name'', str_field (\<lambda>v a. a\<lparr>res_name := v\<rparr>)),
     (''description'', str_field (\<lambda>v a. a\<lparr>res_description := v\<rparr>)),
     (''type'', str_field (\<lambda>v a. a\<lparr>res_type := v\<rparr>)),
     (''size'', int_field (\<lambda>v a. a\<lparr>res_size := v\<rparr>)),
     (''modTime'', str_field (\<lambda>v a. a\<lparr>res_mod_time := v\<rparr>)),
     (''metadata'', map_field (\<lambda>m. (\<lambda>v a. a\<lparr>res_metadata := v\<rparr>) (case m of None \<Rightarrow> [] | Some kvs \<Rightarrow> kvs)) dec_str),
     (''children'', list_field (\<lambda>v a. a\<lparr>res_children := v\<rparr>) dec_str),
     (''templateUri'', str_field (\<lambda>v a. a\<lparr>res_template_uri := v\<rparr>))]"

definition dec_resource :: "json \<Rightarrow> resource option" where
  "dec_resource = decode_struct resource_fields zero_resource"

lemmas resource_defs = enc_resource_def resource_fields_def dec_resource_def zero_resource_def

record resource_parameter =
  rp_name :: string
  rp_description :: string
  rp_required :: bool
  rp_type :: string

definition zero_resource_parameter :: resource_parameter where
  "zero_resource_parameter = \<lparr>rp_name = [], rp_description = [], rp_required = False, rp_type = []\<rparr>"

definition enc_resource_parameter :: "resource_parameter \<Rightarrow> json" where
  "enc_resource_parameter x = JObj ([(''name'', JStr (rp_name x))]
     @ omit_str ''description'' (rp_description x)
     @ [(''required'', JBool (rp_required x))]
     @ omit_str ''type'' (rp_type x))"

definition resource_parameter_fields :: "resource_parameter field list" where
  "resource_parameter_fields = [(''name'', str_field (\<lambda>v a. a\<lparr>rp_name := v\<rparr>)),
     (''description'', str_field (\<lambda>v a. a\<lparr>rp_description := v\<rparr>)),
     (''required'', bool_field (\<lambda>v a. a\<lparr>rp_required := v\<rparr>)),
     (''type'', str_field (\<lambda>v a. a\<lparr>rp_type := v\<rparr>))]"

definition dec_resource_parameter :: "json \<Rightarrow> resource_parameter option" where
  "dec_resource_parameter = decode_struct resource_parameter_fields zero_resource_parameter"

lemmas resource_parameter_defs = enc_resource_parameter_def resource_parameter_fields_def dec_resource_parameter_def zero_resource_parameter_def

record resource_example =
  rex_name :: string
  rex_parameters :: "(string \<times> gval) list option"
  rex_uri :: string

definition zero_resource_example :: resource_example where
  "zero_resource_example = \<lparr>rex_name = [], rex_parameters = None, rex_uri = []\<rparr>"

definition enc_resource_example :: "resource_example \<Rightarrow> json" where
  "enc_resource_example x = JObj ([(''name'', JStr (rex_name x))]
     @ [(''parameters'', enc_map marshal (rex_parameters x))]
     @ omit_str ''uri'' (rex_uri x))"

definition resource_example_fields :: "resource_example field list" where
  "resource_example_fields = [(''name'', str_field (\<lambda>v a. a\<lparr>rex_name := v\<rparr>)),
     (''parameters'', map_field (\<lambda>v a. a\<lparr>rex_parameters := v\<rparr>) decode_any),
     (''uri'', str_field (\<lambda>v a. a\<lparr>rex_uri := v\<rparr>))]"

definition dec_resource_example :: "json \<Rightarrow> resource_example option" where
  "dec_resource_example = decode_struct resource_example_fields zero_resource_example"

lemmas resource_example_defs = enc_resource_example_def resource_example_fields_def dec_resource_example_def zero_resource_example_def

record resource_template =
  rt_uri :: string
  rt_name :: string
  rt_description :: string
  rt_type :: string
  rt_parameters :: "resource_parameter list option"
  rt_parameter_defs :: "(string \<times> gval) list"
  rt_examples :: "resource_example list"

definition zero_resource_template :: resource_template where
  "zero_resource_template = \<lparr>rt_uri = [], rt_name = [], rt_description = [], rt_type = [], rt_parameters = None, rt_parameter_defs = [], rt_examples = []\<rparr>"

definition enc_resource_template :: "resource_template \<Rightarrow> json" where
  "enc_resource_template x = JObj ([(''uri'', JStr (rt_uri x))]
     @ omit_str ''name'' (rt_name x)
     @ omit_str ''description'' (rt_description x)
     @ [(''type'', JStr (rt_type x))]
     @ [(''parameters'', enc_list enc_resource_parameter (rt_parameters x))]
     @ omit_map ''parameterDefs'' marshal (rt_parameter_defs x)
     @ omit_list ''examples'' enc_resource_example (rt_examples x))"

definition resource_template_fields :: "resource_template field list" where
  "resource_template_fields = [(''uri'', str_field (\<lambda>v a. a\<lparr>rt_uri := v\<rparr>)),
     (''name'', str_field (\<lambda>v a. a\<lparr>rt_name := v\<rparr>)),
     (''description'', str_field (\<lambda>v a. a\<lparr>rt_description := v\<rparr>)),
     (''type'', str_field (\<lambda>v a. a\<lparr>rt_type := v\<rparr>)),
     (''parameters'', slice_field (\<lambda>v a. a\<lparr>rt_parameters := v\<rparr>) dec_resource_parameter),
     (''parameterDefs'', map_field (\<lambda>m. (\<lambda>v a. a\<lparr>rt_parameter_defs := v\<rparr>) (case m of None \<Rightarrow> [] | Some kvs \<Rightarrow> kvs)) decode_any),
     (''examples'', list_field (\<lambda>v a. a\<lparr>rt_examples := v\<rparr>) dec_resource_example)]"

definition dec_resource_template :: "json \<Rightarrow> resource_template option" where
  "dec_resource_template = decode_struct resource_template_fields zero_resource_template"

lemmas resource_template_defs = enc_resource_template_def resource_template_fields_def dec_resource_template_def zero_resource_template_def

record resource_contents =
  rc_uri :: string
  rc_type :: string
  rc_content :: "json option"
  rc_encoding :: string
  rc_metadata :: "(string \<times> string) list"

definition zero_resource_contents :: resource_contents where
  "zero_resource_contents = \<lparr>rc_uri = [], rc_type = [], rc_content = None, rc_encoding = [], rc_metadata = []\<rparr>"

definition enc_resource_contents :: "resource_contents \<Rightarrow> json" where
  "enc_resource_contents x = JObj ([(''uri'', JStr (rc_uri x))]
     @ [(''type'', JStr (rc_type x))]
     @ [(''content'', enc_raw (rc_content x))]
     @ omit_str ''encoding'' (rc_encoding x)
     @ omit_map ''metadata'' JStr (rc_metadata x))"

definition resource_contents_fields :: "resource_contents field list" where
  "resource_contents_fields = [(''uri'', str_field (\<lambda>v a. a\<lparr>rc_uri := v\<rparr>)),
     (''type'', str_field (\<lambda>v a. a\<lparr>rc_type := v\<rparr>)),
     (''content'', raw_field (\<lambda>v a. a\<lparr>rc_content := v\<rparr>)),
     (''encoding'', str_field (\<lambda>v a. a\<lparr>rc_encoding := v\<rparr>)),
     (''metadata'', map_field (\<lambda>m. (\<lambda>v a. a\<lparr>rc_metadata := v\<rparr>) (case m of None \<Rightarrow> [] | Some kvs \<Rightarrow> kvs)) dec_str)]"

definition dec_resource_contents :: "json \<Rightarrow> resource_contents option" where
  "dec_resource_contents = decode_struct resource_contents_fields zero_resource_contents"

lemmas resource_contents_defs = enc_resource_contents_def resource_contents_fields_def dec_resource_contents_def zero_resource_contents_def

record list_resources_params =
  lrp_uri :: string
  lrp_recursive :: bool
  lrp_page :: pagination_params

definition zero_list_resources_params :: list_resources_params where
  "zero_list_resources_params = \<lparr>lrp_uri = [], lrp_recursive = False, lrp_page = zero_pagination_params\<rparr>"

definition enc_list_resources_params :: "list_resources_params \<Rightarrow> json" where
  "enc_list_resources_params x = JObj (omit_str ''uri'' (lrp_uri x)
     @ omit_bool ''recursive'' (lrp_recursive x)
     @ members_pagination_params (lrp_page x))"

definition list_resources_params_fields :: "list_resources_params field list" where
  "list_resources_params_fields = [(''uri'', str_field (\<lambda>v a. a\<lparr>lrp_uri := v\<rparr>)),
     (''recursive'', bool_field (\<lambda>v a. a\<lparr>lrp_recursive := v\<rparr>))]
     @ lift_fields lrp_page (\<lambda>p a. a\<lparr>lrp_page := p\<rparr>) pagination_params_fields"

definition dec_list_resources_params :: "json \<Rightarrow> list_resources_params option" where
  "dec_list_resources_params = decode_struct list_resources_params_fields zero_list_resources_params"

lemmas list_resources_params_defs = enc_list_resources_params_def list_resources_params_fields_def dec_list_resources_params_def zero_list_resources_params_def

record list_resources_result =
  lrr_resources :: "resource list option"
  lrr_templates :: "resource_template list"
  lrr_page :: pagination_result

definition zero_list_resources_result :: list_resources_result where
  "zero_list_resources_result = \<lparr>lrr_resources = None, lrr_templates = [], lrr_page = zero_pagination_result\<rparr>"

definition enc_list_resources_result :: "list_resources_result \<Rightarrow> json" where
  "enc_list_resources_result x = JObj ([(''resources'', enc_list enc_resource (lrr_resources x))]
     @ omit_list ''templates'' enc_resource_template (lrr_templates x)
     @ members_pagination_result (lrr_page x))"

definition list_resources_result_fields :: "list_resources_result field list" where
  "list_resources_result_fields = [(''resources'', slice_field (\<lambda>v a. a\<lparr>lrr_resources := v\<rparr>) dec_resource),
     (''templates'', list_field (\<lambda>v a. a\<lparr>lrr_templates := v\<rparr>) dec_resource_template)]
     @ lift_fields lrr_page (\<lambda>p a. a\<lparr>lrr_page := p\<rparr>) pagination_result_fields"

definition dec_list_resources_result :: "json \<Rightarrow> list_resources_result option" where
  "dec_list_resources_result = decode_struct list_resources_result_fields zero_list_resources_result"

lemmas list_resources_result_defs = enc_list_resources_result_def list_resources_result_fields_def dec_list_resources_result_def zero_list_resources_result_def

record resource_range =
  rr_start :: int
  rr_end :: int

definition zero_resource_range :: resource_range where
  "zero_resource_range = \<lparr>rr_start = 0, rr_end = 0\<rparr>"

definition enc_resource_range :: "resource_range \<Rightarrow> json" where
  "enc_resource_range x = JObj ([(''start'', JInt (rr_start x))]
     @ omit_int ''end'' (rr_end x))"

definition resource_range_fields :: "resource_range field list" where
  "resource_range_fields = [(''start'', int_field (\<lambda>v a. a\<lparr>rr_start := v\<rparr>)),
     (''end'', int_field (\<lambda>v a. a\<lparr>rr_end := v\<rparr>))]"

definition dec_resource_range :: "json \<Rightarrow> resource_range option" where
  "dec_resource_range = decode_struct resource_range_fields zero_resource_range"

lemmas resource_range_defs = enc_resource_range_def resource_range_fields_def dec_resource_range_def zero_resource_range_def

record read_resource_params =
  rrp_uri :: string
  rrp_template_params :: "(string \<times> gval) list"
  rrp_range :: "resource_range option"

definition zero_read_resource_params :: read_resource_params where
  "zero_read_resource_params = \<lparr>rrp_uri = [], rrp_template_params = [], rrp_range = None\<rparr>"

definition enc_read_resource_params :: "read_resource_params \<Rightarrow> json" where
  "enc_read_resource_params x = JObj ([(''uri'', JStr (rrp_uri x))]
     @ omit_map ''templateParams'' marshal (rrp_template_params x)
     @ omit_ptr ''range'' enc_resource_range (rrp_range x))"

definition read_resource_params_fields :: "read_resource_params field list" where
  "read_resource_params_fields = [(''uri'', str_field (\<lambda>v a. a\<lparr>rrp_uri := v\<rparr>)),
     (''templateParams'', map_field (\<lambda>m. (\<lambda>v a. a\<lparr>rrp_template_params := v\<rparr>) (case m of None \<Rightarrow> [] | Some kvs \<Rightarrow> kvs)) decode_any),
     (''range'', ptr_field (\<lambda>v a. a\<lparr>rrp_range := v\<rparr>) dec_resource_range)]"

definition dec_read_resource_params :: "json \<Rightarrow> read_resource_params option" where
  "dec_read_resource_params = decode_struct read_resource_params_fields zero_read_resource_params"

lemmas read_resource_params_defs = enc_read_resource_params_def read_resource_params_fields_def dec_read_resource_params_def zero_read_resource_params_def

record read_resource_result =
  rrr_contents :: resource_contents

definition zero_read_resource_result :: read_resource_result where
  "zero_read_resource_result = \<lparr>rrr_contents = zero_resource_contents\<rparr>"

definition enc_read_resource_result :: "read_resource_result \<Rightarrow> json" where
  "enc_read_resource_result x = JObj ([(''contents'', enc_resource_contents (rrr_contents x))])"

definition read_resource_result_fields :: "read_resource_result field list" where
  "read_resource_result_fields = [(''contents'', struct_field (\<lambda>v a. a\<lparr>rrr_contents := v\<rparr>) dec_resource_contents)]"

definition dec_read_resource_result :: "json \<Rightarrow> read_resource_result option" where
  "dec_read_resource_result = decode_struct read_resource_result_fields zero_read_resource_result"

lemmas read_resource_result_defs = enc_read_resource_result_def read_resource_result_fields_def dec_read_resource_result_def zero_read_resource_result_def

record subscribe_resource_params =
  srp_uri :: string
  srp_recursive :: bool

definition zero_subscribe_resource_params :: subscribe_resource_params where
  "zero_subscribe_resource_params = \<lparr>srp_uri = [], srp_recursive = False\<rparr>"

definition enc_subscribe_resource_params :: "subscribe_resource_params \<Rightarrow> json" where
  "enc_subscribe_resource_params x = JObj ([(''uri'', JStr (srp_uri x))]
     @ omit_bool ''recursive'' (srp_recursive x))"

definition subscribe_resource_params_fields :: "subscribe_resource_params field list" where
  "subscribe_resource_params_fields = [(''uri'', str_field (\<lambda>v a. a\<lparr>srp_uri := v\<rparr>)),
     (''recursive'', bool_field (\<lambda>v a. a\<lparr>srp_recursive := v\<rparr>))]"

definition dec_subscribe_resource_params :: "json \<Rightarrow> subscribe_resource_params option" where
  "dec_subscribe_resource_params = decode_struct subscribe_resource_params_fields zero_subscribe_resource_params"

lemmas subscribe_resource_params_defs = enc_subscribe_resource_params_def subscribe_resource_params_fields_def dec_subscribe_resource_params_def zero_subscribe_resource_params_def

record subscribe_resource_result =
  srr_success :: bool

definition zero_subscribe_resource_result :: subscribe_resource_result where
  "zero_subscribe_resource_result = \<lparr>srr_success = False\<rparr>"

definition enc_subscribe_resource_result :: "subscribe_resource_result \<Rightarrow> json" where
  "enc_subscribe_resource_result x = JObj ([(''success'', JBool (srr_success x))])"

definition subscribe_resource_result_fields :: "subscribe_resource_result field list" where
  "subscribe_resource_result_fields = [(''success'', bool_field (\<lambda>v a. a\<lparr>srr_success := v\<rparr>))]"

definition dec_subscribe_resource_result :: "json \<Rightarrow> subscribe_resource_result option" where
  "dec_subscribe_resource_result = decode_struct subscribe_resource_result_fields zero_subscribe_resource_result"

lemmas subscribe_resource_result_defs = enc_subscribe_resource_result_def subscribe_resource_result_fields_def dec_subscribe_resource_result_def zero_subscribe_resource_result_def

subsection \<open>Prompts\<close>

record prompt_message =
  pmsg_role :: string
  pmsg_content :: string
  pmsg_name :: string
  pmsg_resource_refs :: "string list"
  pmsg_parameters :: "string list"

definition zero_prompt_message :: prompt_message where
  "zero_prompt_message = \<lparr>pmsg_role = [], pmsg_content = [], pmsg_name = [], pmsg_resource_refs = [], pmsg_parameters = []\<rparr>"

definition enc_prompt_message :: "prompt_message \<Rightarrow> json" where
  "enc_prompt_message x = JObj ([(''role'', JStr (pmsg_role x))]
     @ [(''content'', JStr (pmsg_content x))]
     @ omit_str ''name'' (pmsg_name x)
     @ omit_list ''resourceRefs'' JStr (pmsg_resource_refs x)
     @ omit_list ''parameters'' JStr (pmsg_parameters x))"

definition prompt_message_fields :: "prompt_message field list" where
  "prompt_message_fields = [(''role'', str_field (\<lambda>v a. a\<lparr>pmsg_role := v\<rparr>)),
     (''content'', str_field (\<lambda>v a. a\<lparr>pmsg_content := v\<rparr>)),
     (''name'', str_field (\<lambda>v a. a\<lparr>pmsg_name := v\<rparr>)),
     (''resourceRefs'', list_field (\<lambda>v a. a\<lparr>pmsg_resource_refs := v\<rparr>) dec_str),
     (''parameters'', list_field (\<lambda>v a. a\<lparr>pmsg_parameters := v\<rparr>) dec_str)]"

definition dec_prompt_message :: "json \<Rightarrow> prompt_message option" where
  "dec_prompt_message = decode_struct prompt_message_fields zero_prompt_message"

lemmas prompt_message_defs = enc_prompt_message_def prompt_message_fields_def dec_prompt_message_def zero_prompt_message_def

record prompt_parameter =
  ppar_name :: string
  ppar_description :: string
  ppar_type :: string
  ppar_required :: bool
  ppar_default :: gval

definition zero_prompt_parameter :: prompt_parameter where
  "zero_prompt_parameter = \<lparr>ppar_name = [], ppar_description = [], ppar_type = [], ppar_required = False, ppar_default = GNil\<rparr>"

definition enc_prompt_parameter :: "prompt_parameter \<Rightarrow> json" where
  "enc_prompt_parameter x = JObj ([(''name'', JStr (ppar_name x))]
     @ omit_str ''description'' (ppar_description x)
     @ omit_str ''type'' (ppar_type x)
     @ [(''required'', JBool (ppar_required x))]
     @ omit_any ''default'' (ppar_default x))"

definition prompt_parameter_fields :: "prompt_parameter field list" where
  "prompt_parameter_fields = [(''name'', str_field (\<lambda>v a. a\<lparr>ppar_name := v\<rparr>)),
     (''description'', str_field (\<lambda>v a. a\<lparr>ppar_description := v\<rparr>)),
     (''type'', str_field (\<lambda>v a. a\<lparr>ppar_type := v\<rparr>)),
     (''required'', bool_field (\<lambda>v a. a\<lparr>ppar_required := v\<rparr>)),
     (''default'', any_field (\<lambda>v a. a\<lparr>ppar_default := v\<rparr>))]"

definition dec_prompt_parameter :: "json \<Rightarrow> prompt_parameter option" where
  "dec_prompt_parameter = decode_struct prompt_parameter_fields zero_prompt_parameter"

lemmas prompt_parameter_defs = enc_prompt_parameter_def prompt_parameter_fields_def dec_prompt_parameter_def zero_prompt_parameter_def

record prompt_example =
  pex_name :: string
  pex_description :: string
  pex_parameters :: "(string \<times> gval) list option"
  pex_result :: string

definition zero_prompt_example :: prompt_example where
  "zero_prompt_example = \<lparr>pex_name = [], pex_description = [], pex_parameters = None, pex_result = []\<rparr>"

definition enc_prompt_example :: "prompt_example \<Rightarrow> json" where
  "enc_prompt_example x = JObj ([(''name'', JStr (pex_name x))]
     @ omit_str ''description'' (pex_description x)
     @ [(''parameters'', enc_map marshal (pex_parameters x))]
     @ omit_str ''result'' (pex_result x))"

definition prompt_example_fields :: "prompt_example field list" where
  "prompt_example_fields = [(''name'', str_field (\<lambda>v a. a\<lparr>pex_name := v\<rparr>)),
     (''description'', str_field (\<lambda>v a. a\<lparr>pex_description := v\<rparr>)),
     (''parameters'', map_field (\<lambda>v a. a\<lparr>pex_parameters := v\<rparr>) decode_any),
     (''result'', str_field (\<lambda>v a. a\<lparr>pex_result := v\<rparr>))]"

definition dec_prompt_example :: "json \<Rightarrow> prompt_example option" where
  "dec_prompt_example = decode_struct prompt_example_fields zero_prompt_example"

lemmas prompt_example_defs = enc_prompt_example_def prompt_example_fields_def dec_prompt_example_def zero_prompt_example_def

record prompt =
  prompt_id :: string
  prompt_name :: string
  prompt_description :: string
  prompt_messages :: "prompt_message list option"
  prompt_parameters :: "prompt_parameter list"
  prompt_schema :: "json option"
  prompt_examples :: "prompt_example list"
  prompt_metadata :: "(string \<times> gval) list"
  prompt_tags :: "string list"

definition zero_prompt :: prompt where
  "zero_prompt = \<lparr>prompt_id = [], prompt_name = [], prompt_description = [], prompt_messages = None, prompt_parameters = [], prompt_schema = None, prompt_examples = [], prompt_metadata = [], prompt_tags = []\<rparr>"

definition enc_prompt :: "prompt \<Rightarrow> json" where
  "enc_prompt x = JObj ([(''id'', JStr (prompt_id x))]
     @ omit_str ''name'' (prompt_name x)
     @ omit_str ''description'' (prompt_description x)
     @ [(''messages'', enc_list enc_prompt_message (prompt_messages x))]
     @ omit_list ''parameters'' enc_prompt_parameter (prompt_parameters x)
     @ omit_raw ''schema'' (prompt_schema x)
     @ omit_list ''examples'' enc_prompt_example (prompt_examples x)
     @ omit_map ''metadata'' marshal (prompt_metadata x)
     @ omit_list ''tags'' JStr (prompt_tags x))"

definition prompt_fields :: "prompt field list" where
  "prompt_fields = [(''id'', str_field (\<lambda>v a. a\<lparr>prompt_id := v\<rparr>)),
     (''name'', str_field (\<lambda>v a. a\<lparr>prompt_name := v\<rparr>)),
     (''description'', str_field (\<lambda>v a. a\<lparr>prompt_description := v\<rparr>)),
     (''messages'', slice_field (\<lambda>v a. a\<lparr>prompt_messages := v\<rparr>) dec_prompt_message),
     (''parameters'', list_field (\<lambda>v a. a\<lparr>prompt_parameters := v\<rparr>) dec_prompt_parameter),
     (''schema'', raw_field (\<lambda>v a. a\<lparr>prompt_schema := v\<rparr>)),
     (''examples'', list_field (\<lambda>v a. a\<lparr>prompt_examples := v\<rparr>) dec_prompt_example),
     (''metadata'', map_field (\<lambda>m. (\<lambda>v a. a\<lparr>prompt_metadata := v\<rparr>) (case m of None \<Rightarrow> [] | Some kvs \<Rightarrow> kvs)) decode_any),
     (''tags'', list_field (\<lambda>v a. a\<lparr>prompt_tags := v\<rparr>) dec_str)]"

definition dec_prompt :: "json \<Rightarrow> prompt option" where
  "dec_prompt = decode_struct prompt_fields zero_prompt"

lemmas prompt_defs = enc_prompt_def prompt_fields_def dec_prompt_def zero_prompt_def

record list_prompts_params =
  lpp_tag :: string
  lpp_page :: pagination_params

definition zero_list_prompts_params :: list_prompts_params where
  "zero_list_prompts_params = \<lparr>lpp_tag = [], lpp_page = zero_pagination_params\<rparr>"

definition enc_list_prompts_params :: "list_prompts_params \<Rightarrow> json" where
  "enc_list_prompts_params x = JObj (omit_str ''tag'' (lpp_tag x)
     @ members_pagination_params (lpp_page x))"

definition list_prompts_params_fields :: "list_prompts_params field list" where
  "list_prompts_params_fields = [(''tag'', str_field (\<lambda>v a. a\<lparr>lpp_tag := v\<rparr>))]
     @ lift_fields lpp_page (\<lambda>p a. a\<lparr>lpp_page := p\<rparr>) pagination_params_fields"

definition dec_list_prompts_params :: "json \<Rightarrow> list_prompts_params option" where
  "dec_list_prompts_params = decode_struct list_prompts_params_fields zero_list_prompts_params"

lemmas list_prompts_params_defs = enc_list_prompts_params_def list_prompts_params_fields_def dec_list_prompts_params_def zero_list_prompts_params_def

record list_prompts_result =
  lpr_prompts :: "prompt list option"
  lpr_page :: pagination_result

definition zero_list_prompts_result :: list_prompts_result where
  "zero_list_prompts_result = \<lparr>lpr_prompts = None, lpr_page = zero_pagination_result\<rparr>"

definition enc_list_prompts_result :: "list_prompts_result \<Rightarrow> json" where
  "enc_list_prompts_result x = JObj ([(''prompts'', enc_list enc_prompt (lpr_prompts x))]
     @ members_pagination_result (lpr_page x))"

definition list_prompts_result_fields :: "list_prompts_result field list" where
  "list_prompts_result_fields = [(''prompts'', slice_field (\<lambda>v a. a\<lparr>lpr_prompts := v\<rparr>) dec_prompt)]
     @ lift_fields lpr_page (\<lambda>p a. a\<lparr>lpr_page := p\<rparr>) pagination_result_fields"

definition dec_list_prompts_result :: "json \<Rightarrow> list_prompts_result option" where
  "dec_list_prompts_result = decode_struct list_prompts_result_fields zero_list_prompts_result"

lemmas list_prompts_result_defs = enc_list_prompts_result_def list_prompts_result_fields_def dec_list_prompts_result_def zero_list_prompts_result_def

record get_prompt_params =
  gpp_id :: string

definition zero_get_prompt_params :: get_prompt_params where
  "zero_get_prompt_params = \<lparr>gpp_id = []\<rparr>"

definition enc_get_prompt_params :: "get_prompt_params \<Rightarrow> json" where
  "enc_get_prompt_params x = JObj ([(''id'', JStr (gpp_id x))])"

definition get_prompt_params_fields :: "get_prompt_params field list" where
  "get_prompt_params_fields = [(''id'', str_field (\<lambda>v a. a\<lparr>gpp_id := v\<rparr>))]"

definition dec_get_prompt_params :: "json \<Rightarrow> get_prompt_params option" where
  "dec_get_prompt_params = decode_struct get_prompt_params_fields zero_get_prompt_params"

lemmas get_prompt_params_defs = enc_get_prompt_params_def get_prompt_params_fields_def dec_get_prompt_params_def zero_get_prompt_params_def

record get_prompt_result =
  gpr_prompt :: prompt

definition zero_get_prompt_result :: get_prompt_result where
  "zero_get_prompt_result = \<lparr>gpr_prompt = zero_prompt\<rparr>"

definition enc_get_prompt_result :: "get_prompt_result \<Rightarrow> json" where
  "enc_get_prompt_result x = JObj ([(''prompt'', enc_prompt (gpr_prompt x))])"

definition get_prompt_result_fields :: "get_prompt_result field list" where
  "get_prompt_result_fields = [(''prompt'', struct_field (\<lambda>v a. a\<lparr>gpr_prompt := v\<rparr>) dec_prompt)]"

definition dec_get_prompt_result :: "json \<Rightarrow> get_prompt_result option" where
  "dec_get_prompt_result = decode_struct get_prompt_result_fields zero_get_prompt_result"

lemmas get_prompt_result_defs = enc_get_prompt_result_def get_prompt_result_fields_def dec_get_prompt_result_def zero_get_prompt_result_def

subsection \<open>Completion and roots\<close>

record chat_message =
  msg_role :: string
  msg_content :: string
  msg_name :: string

definition zero_chat_message :: chat_message where
  "zero_chat_message = \<lparr>msg_role = [], msg_content = [], msg_name = []\<rparr>"

definition enc_chat_message :: "chat_message \<Rightarrow> json" where
  "enc_chat_message x = JObj ([(''role'', JStr (msg_role x))]
     @ [(''content'', JStr (msg_content x))]
     @ omit_str ''name'' (msg_name x))"

definition chat_message_fields :: "chat_message field list" where
  "chat_message_fields = [(''role'', str_field (\<lambda>v a. a\<lparr>msg_role := v\<rparr>)),
     (''content'', str_field (\<lambda>v a. a\<lparr>msg_content := v\<rparr>)),
     (''name'', str_field (\<lambda>v a. a\<lparr>msg_name := v\<rparr>))]"

definition dec_chat_message :: "json \<Rightarrow> chat_message option" where
  "dec_chat_message = decode_struct chat_message_fields zero_chat_message"

lemmas chat_message_defs = enc_chat_message_def chat_message_fields_def dec_chat_message_def zero_chat_message_def

record response_format =
  rf_type :: string
  rf_schema :: "json option"
  rf_options :: "(string \<times> gval) list"

definition zero_response_format :: response_format where
  "zero_response_format = \<lparr>rf_type = [], rf_schema = None, rf_options = []\<rparr>"

definition enc_response_format :: "response_format \<Rightarrow> json" where
  "enc_response_format x = JObj ([(''type'', JStr (rf_type x))]
     @ omit_raw ''schema'' (rf_schema x)
     @ omit_map ''options'' marshal (rf_options x))"

definition response_format_fields :: "response_format field list" where
  "response_format_fields = [(''type'', str_field (\<lambda>v a. a\<lparr>rf_type := v\<rparr>)),
     (''schema'', raw_field (\<lambda>v a. a\<lparr>rf_schema := v\<rparr>)),
     (''options'', map_field (\<lambda>m. (\<lambda>v a. a\<lparr>rf_options := v\<rparr>) (case m of None \<Rightarrow> [] | Some kvs \<Rightarrow> kvs)) decode_any)]"

definition dec_response_format :: "json \<Rightarrow> response_format option" where
  "dec_response_format = decode_struct response_format_fields zero_response_format"

lemmas response_format_defs = enc_response_format_def response_format_fields_def dec_response_format_def zero_response_format_def

record model_preferences =
  mp_model :: string
  mp_provider_id :: string
  mp_temperature :: rat
  mp_top_p :: rat
  mp_max_tokens :: int
  mp_stop_sequences :: "string list"
  mp_frequency_penalty :: rat
  mp_presence_penalty :: rat
  mp_response_format :: "response_format option"
  mp_additional_options :: "(string \<times> gval) list"

definition zero_model_preferences :: model_preferences where
  "zero_model_preferences = \<lparr>mp_model = [], mp_provider_id = [], mp_temperature = 0, mp_top_p = 0, mp_max_tokens = 0, mp_stop_sequences = [], mp_frequency_penalty = 0, mp_presence_penalty = 0, mp_response_format = None, mp_additional_options = []\<rparr>"

definition enc_model_preferences :: "model_preferences \<Rightarrow> json" where
  "enc_model_preferences x = JObj (omit_str ''model'' (mp_model x)
     @ omit_str ''providerId'' (mp_provider_id x)
     @ omit_float ''temperature'' (mp_temperature x)
     @ omit_float ''topP'' (mp_top_p x)
     @ omit_int ''maxTokens'' (mp_max_tokens x)
     @ omit_list ''stopSequences'' JStr (mp_stop_sequences x)
     @ omit_float ''frequencyPenalty'' (mp_frequency_penalty x)
     @ omit_float ''presencePenalty'' (mp_presence_penalty x)
     @ omit_ptr ''responseFormat'' enc_response_format (mp_response_format x)
     @ omit_map ''additionalOptions'' marshal (mp_additional_options x))"

definition model_preferences_fields :: "model_preferences field list" where
  "model_preferences_fields = [(''model'', str_field (\<lambda>v a. a\<lparr>mp_model := v\<rparr>)),
     (''providerId'', str_field (\<lambda>v a. a\<lparr>mp_provider_id := v\<rparr>)),
     (''temperature'', float_field (\<lambda>v a. a\<lparr>mp_temperature := v\<rparr>)),
     (''topP'', float_field (\<lambda>v a. a\<lparr>mp_top_p := v\<rparr>)),
     (''maxTokens'', int_field (\<lambda>v a. a\<lparr>mp_max_tokens := v\<rparr>)),
     (''stopSequences'', list_field (\<lambda>v a. a\<lparr>mp_stop_sequences := v\<rparr>) dec_str),
     (''frequencyPenalty'', float_field (\<lambda>v a. a\<lparr>mp_frequency_penalty := v\<rparr>)),
     (''presencePenalty'', float_field (\<lambda>v a. a\<lparr>mp_presence_penalty := v\<rparr>)),
     (''responseFormat'', ptr_field (\<lambda>v a. a\<lparr>mp_response_format := v\<rparr>) dec_response_format),
     (''additionalOptions'', map_field (\<lambda>m. (\<lambda>v a. a\<lparr>mp_additional_options := v\<rparr>) (case m of None \<Rightarrow> [] | Some kvs \<Rightarrow> kvs)) decode_any)]"

definition dec_model_preferences :: "json \<Rightarrow> model_preferences option" where
  "dec_model_preferences = decode_struct model_preferences_fields zero_model_preferences"

lemmas model_preferences_defs = enc_model_preferences_def model_preferences_fields_def dec_model_preferences_def zero_model_preferences_def

record complete_params =
  cpl_prompt_id :: string
  cpl_messages :: "chat_message list"
  cpl_parameters :: "(string \<times> gval) list"
  cpl_resource_refs :: "string list"
  cpl_model_preferences :: "model_preferences option"
  cpl_system_prompt :: string
  cpl_context :: "json option"

definition zero_complete_params :: complete_params where
  "zero_complete_params = \<lparr>cpl_prompt_id = [], cpl_messages = [], cpl_parameters = [], cpl_resource_refs = [], cpl_model_preferences = None, cpl_system_prompt = [], cpl_context = None\<rparr>"

definition enc_complete_params :: "complete_params \<Rightarrow> json" where
  "enc_complete_params x = JObj (omit_str ''promptId'' (cpl_prompt_id x)
     @ omit_list ''messages'' enc_chat_message (cpl_messages x)
     @ omit_map ''parameters'' marshal (cpl_parameters x)
     @ omit_list ''resourceRefs'' JStr (cpl_resource_refs x)
     @ omit_ptr ''modelPreferences'' enc_model_preferences (cpl_model_preferences x)
     @ omit_str ''systemPrompt'' (cpl_system_prompt x)
     @ omit_raw ''context'' (cpl_context x))"

definition complete_params_fields :: "complete_params field list" where
  "complete_params_fields = [(''promptId'', str_field (\<lambda>v a. a\<lparr>cpl_prompt_id := v\<rparr>)),
     (''messages'', list_field (\<lambda>v a. a\<lparr>cpl_messages := v\<rparr>) dec_chat_message),
     (''parameters'', map_field (\<lambda>m. (\<lambda>v a. a\<lparr>cpl_parameters := v\<rparr>) (case m of None \<Rightarrow> [] | Some kvs \<Rightarrow> kvs)) decode_any),
     (''resourceRefs'', list_field (\<lambda>v a. a\<lparr>cpl_resource_refs := v\<rparr>) dec_str),
     (''modelPreferences'', ptr_field (\<lambda>v a. a\<lparr>cpl_model_preferences := v\<rparr>) dec_model_preferences),
     (''systemPrompt'', str_field (\<lambda>v a. a\<lparr>cpl_system_prompt := v\<rparr>)),
     (''context'', raw_field (\<lambda>v a. a\<lparr>cpl_context := v\<rparr>))]"

definition dec_complete_params :: "json \<Rightarrow> complete_params option" where
  "dec_complete_params = decode_struct complete_params_fields zero_complete_params"

lemmas complete_params_defs = enc_complete_params_def complete_params_fields_def dec_complete_params_def zero_complete_params_def

record complete_result =
  cplr_content :: string
  cplr_model :: string
  cplr_finish_reason :: string
  cplr_metadata :: "json option"

definition zero_complete_result :: complete_result where
  "zero_complete_result = \<lparr>cplr_content = [], cplr_model = [], cplr_finish_reason = [], cplr_metadata = None\<rparr>"

definition enc_complete_result :: "complete_result \<Rightarrow> json" where
  "enc_complete_result x = JObj ([(''content'', JStr (cplr_content x))]
     @ omit_str ''model'' (cplr_model x)
     @ omit_str ''finishReason'' (cplr_finish_reason x)
     @ omit_raw ''metadata'' (cplr_metadata x))"

definition complete_result_fields :: "complete_result field list" where
  "complete_result_fields = [(''content'', str_field (\<lambda>v a. a\<lparr>cplr_content := v\<rparr>)),
     (''model'', str_field (\<lambda>v a. a\<lparr>cplr_model := v\<rparr>)),
     (''finishReason'', str_field (\<lambda>v a. a\<lparr>cplr_finish_reason := v\<rparr>)),
     (''metadata'', raw_field (\<lambda>v a. a\<lparr>cplr_metadata := v\<rparr>))]"

definition dec_complete_result :: "json \<Rightarrow> complete_result option" where
  "dec_complete_result = decode_struct complete_result_fields zero_complete_result"

lemmas complete_result_defs = enc_complete_result_def complete_result_fields_def dec_complete_result_def zero_complete_result_def

record root =
  root_id :: string
  root_name :: string
  root_description :: string
  root_resource_ur_is :: "string list option"
  root_tags :: "string list"

definition zero_root :: root where
  "zero_root = \<lparr>root_id = [], root_name = [], root_description = [], root_resource_ur_is = None, root_tags = []\<rparr>"

definition enc_root :: "root \<Rightarrow> json" where
  "enc_root x = JObj ([(''id'', JStr (root_id x))]
     @ omit_str ''name'' (root_name x)
     @ omit_str ''description'' (root_description x)
     @ [(''resourceUris'', enc_list JStr (root_resource_ur_is x))]
     @ omit_list ''tags'' JStr (root_tags x))"

definition root_fields :: "root field list" where
  "root_fields = [(''id'', str_field (\<lambda>v a. a\<lparr>root_id := v\<rparr>)),
     (''name'', str_field (\<lambda>v a. a\<lparr>root_name := v\<rparr>)),
     (''description'', str_field (\<lambda>v a. a\<lparr>root_description := v\<rparr>)),
     (''resourceUris'', slice_field (\<lambda>v a. a\<lparr>root_resource_ur_is := v\<rparr>) dec_str),
     (''tags'', list_field (\<lambda>v a. a\<lparr>root_tags := v\<rparr>) dec_str)]"

definition dec_root :: "json \<Rightarrow> root option" where
  "dec_root = decode_struct root_fields zero_root"

lemmas root_defs = enc_root_def root_fields_def dec_root_def zero_root_def

record list_roots_params =
  lrtp_tag :: string
  lrtp_page :: pagination_params

definition zero_list_roots_params :: list_roots_params where
  "zero_list_roots_params = \<lparr>lrtp_tag = [], lrtp_page = zero_pagination_params\<rparr>"

definition enc_list_roots_params :: "list_roots_params \<Rightarrow> json" where
  "enc_list_roots_params x = JObj (omit_str ''tag'' (lrtp_tag x)
     @ members_pagination_params (lrtp_page x))"

definition list_roots_params_fields :: "list_roots_params field list" where
  "list_roots_params_fields = [(''tag'', str_field (\<lambda>v a. a\<lparr>lrtp_tag := v\<rparr>))]
     @ lift_fields lrtp_page (\<lambda>p a. a\<lparr>lrtp_page := p\<rparr>) pagination_params_fields"

definition dec_list_roots_params :: "json \<Rightarrow> list_roots_params option" where
  "dec_list_roots_params = decode_struct list_roots_params_fields zero_list_roots_params"

lemmas list_roots_params_defs = enc_list_roots_params_def list_roots_params_fields_def dec_list_roots_params_def zero_list_roots_params_def

record list_roots_result =
  lrtr_roots :: "root list option"
  lrtr_page :: pagination_result

definition zero_list_roots_result :: list_roots_result where
  "zero_list_roots_result = \<lparr>lrtr_roots = None, lrtr_page = zero_pagination_result\<rparr>"

definition enc_list_roots_result :: "list_roots_result \<Rightarrow> json" where
  "enc_list_roots_result x = JObj ([(''roots'', enc_list enc_root (lrtr_roots x))]
     @ members_pagination_result (lrtr_page x))"

definition list_roots_result_fields :: "list_roots_result field list" where
  "list_roots_result_fields = [(''roots'', slice_field (\<lambda>v a. a\<lparr>lrtr_roots := v\<rparr>) dec_root)]
     @ lift_fields lrtr_page (\<lambda>p a. a\<lparr>lrtr_page := p\<rparr>) pagination_result_fields"

definition dec_list_roots_result :: "json \<Rightarrow> list_roots_result option" where
  "dec_list_roots_result = decode_struct list_roots_result_fields zero_list_roots_result"

lemmas list_roots_result_defs = enc_list_roots_result_def list_roots_result_fields_def dec_list_roots_result_def zero_list_roots_result_def

end
