(* ===== verification/Notifications.thy ===== *)
theory Notifications
  imports Messages
begin

section \<open>Notifications and sampling messages (\<open>mcp.go\<close>, \<open>tools.go\<close>, \<open>resources.go\<close>, \<open>prompts.go\<close>, \<open>sampling.go\<close>)\<close>

text \<open>The parameters of the notifications a server sends, and the sampling messages.\<close>

subsection \<open>Notifications\<close>

record progress_params =
  prog_id :: gval
  prog_message :: string
  prog_percent :: rat
  prog_completed :: bool

definition zero_progress_params :: progress_params where
  "zero_progress_params = \<lparr>prog_id = GNil, prog_message = [], prog_percent = 0, prog_completed = False\<rparr>"

definition enc_progress_params :: "progress_params \<Rightarrow> json" where
  "enc_progress_params x = JObj ([(''id'', marshal (prog_id x))]
     @ omit_str ''message'' (prog_message x)
     @ omit_float ''percent'' (prog_percent x)
     @ omit_bool ''completed'' (prog_completed x))"

definition progress_params_fields :: "progress_params field list" where
  "progress_params_fields = [(''id'', any_field (\<lambda>v a. a\<lparr>prog_id := v\<rparr>)),
     (''message'', str_field (\<lambda>v a. a\<lparr>prog_message := v\<rparr>)),
     (''percent'', float_field (\<lambda>v a. a\<lparr>prog_percent := v\<rparr>)),
     (''completed'', bool_field (\<lambda>v a. a\<lparr>prog_completed := v\<rparr>))]"

definition dec_progress_params :: "json \<Rightarrow> progress_params option" where
  "dec_progress_params = decode_struct progress_params_fields zero_progress_params"

lemmas progress_params_defs = enc_progress_params_def progress_params_fields_def dec_progress_params_def zero_progress_params_def

record log_params =
  logp_level :: string
  logp_message :: string
  logp_source :: string
  logp_time :: string
  logp_data :: gval

definition zero_log_params :: log_params where
  "zero_log_params = \<lparr>logp_level = [], logp_message = [], logp_source = [], logp_time = zero_time, logp_data = GNil\<rparr>"

definition enc_log_params :: "log_params \<Rightarrow> json" where
  "enc_log_params x = JObj ([(''level'', JStr (logp_level x))]
     @ [(''message'', JStr (logp_message x))]
     @ omit_str ''source'' (logp_source x)
     @ [(''time'', JStr (logp_time x))]
     @ omit_any ''data'' (logp_data x))"

definition log_params_fields :: "log_params field list" where
  "log_params_fields = [(''level'', str_field (\<lambda>v a. a\<lparr>logp_level := v\<rparr>)),
     (''message'', str_field (\<lambda>v a. a\<lparr>logp_message := v\<rparr>)),
     (''source'', str_field (\<lambda>v a. a\<lparr>logp_source := v\<rparr>)),
     (''time'', str_field (\<lambda>v a. a\<lparr>logp_time := v\<rparr>)),
     (''data'', any_field (\<lambda>v a. a\<lparr>logp_data := v\<rparr>))]"

definition dec_log_params :: "json \<Rightarrow> log_params option" where
  "dec_log_params = decode_struct log_params_fields zero_log_params"

lemmas log_params_defs = enc_log_params_def log_params_fields_def dec_log_params_def zero_log_params_def

record tools_changed_params =
  tchg_added :: "tool list"
  tchg_removed :: "string list"
  tchg_modified :: "tool list"

definition zero_tools_changed_params :: tools_changed_params where
  "zero_tools_changed_params = \<lparr>tchg_added = [], tchg_removed = [], tchg_modified = []\<rparr>"

definition enc_tools_changed_params :: "tools_changed_params \<Rightarrow> json" where
  "enc_tools_changed_params x = JObj (omit_list ''added'' enc_tool (tchg_added x)
     @ omit_list ''removed'' JStr (tchg_removed x)
     @ omit_list ''modified'' enc_tool (tchg_modified x))"

definition tools_changed_params_fields :: "tools_changed_params field list" where
  "tools_changed_params_fields = [(''added'', list_field (\<lambda>v a. a\<lparr>tchg_added := v\<rparr>) dec_tool),
     (''removed'', list_field (\<lambda>v a. a\<lparr>tchg_removed := v\<rparr>) dec_str),
     (''modified'', list_field (\<lambda>v a. a\<lparr>tchg_modified := v\<rparr>) dec_tool)]"

definition dec_tools_changed_params :: "json \<Rightarrow> tools_changed_params option" where
  "dec_tools_changed_params = decode_struct tools_changed_params_fields zero_tools_changed_params"

lemmas tools_changed_params_defs = enc_tools_changed_params_def tools_changed_params_fields_def dec_tools_changed_params_def zero_tools_changed_params_def

record resources_changed_params =
  rchg_uri :: string
  rchg_resources :: "resource list"
  rchg_removed :: "string list"
  rchg_added :: "resource list"
  rchg_modified :: "resource list"

definition zero_resources_changed_params :: resources_changed_params where
  "zero_resources_changed_params = \<lparr>rchg_uri = [], rchg_resources = [], rchg_removed = [], rchg_added = [], rchg_modified = []\<rparr>"

definition enc_resources_changed_params :: "resources_changed_params \<Rightarrow> json" where
  "enc_resources_changed_params x = JObj ([(''uri'', JStr (rchg_uri x))]
     @ omit_list ''resources'' enc_resource (rchg_resources x)
     @ omit_list ''removed'' JStr (rchg_removed x)
     @ omit_list ''added'' enc_resource (rchg_added x)
     @ omit_list ''modified'' enc_resource (rchg_modified x))"

definition resources_changed_params_fields :: "resources_changed_params field list" where
  "resources_changed_params_fields = [(''uri'', str_field (\<lambda>v a. a\<lparr>rchg_uri := v\<rparr>)),
     (''resources'', list_field (\<lambda>v a. a\<lparr>rchg_resources := v\<rparr>) dec_resource),
     (''removed'', list_field (\<lambda>v a. a\<lparr>rchg_removed := v\<rparr>) dec_str),
     (''added'', list_field (\<lambda>v a. a\<lparr>rchg_added := v\<rparr>) dec_resource),
     (''modified'', list_field (\<lambda>v a. a\<lparr>rchg_modified := v\<rparr>) dec_resource)]"

definition dec_resources_changed_params :: "json \<Rightarrow> resources_changed_params option" where
  "dec_resources_changed_params = decode_struct resources_changed_params_fields zero_resources_changed_params"

lemmas resources_changed_params_defs = enc_resources_changed_params_def resources_changed_params_fields_def dec_resources_changed_params_def zero_resources_changed_params_def

record resource_updated_params =
  rup_uri :: string
  rup_contents :: resource_contents
  rup_deleted :: bool

definition zero_resource_updated_params :: resource_updated_params where
  "zero_resource_updated_params = \<lparr>rup_uri = [], rup_contents = zero_resource_contents, rup_deleted = False\<rparr>"

definition enc_resource_updated_params :: "resource_updated_params \<Rightarrow> json" where
  "enc_resource_updated_params x = JObj ([(''uri'', JStr (rup_uri x))]
     @ [(''contents'', enc_resource_contents (rup_contents x))]
     @ omit_bool ''deleted'' (rup_deleted x))"

definition resource_updated_params_fields :: "resource_updated_params field list" where
  "resource_updated_params_fields = [(''uri'', str_field (\<lambda>v a. a\<lparr>rup_uri := v\<rparr>)),
     (''contents'', struct_field (\<lambda>v a. a\<lparr>rup_contents := v\<rparr>) dec_resource_contents),
     (''deleted'', bool_field (\<lambda>v a. a\<lparr>rup_deleted := v\<rparr>))]"

definition dec_resource_updated_params :: "json \<Rightarrow> resource_updated_params option" where
  "dec_resource_updated_params = decode_struct resource_updated_params_fields zero_resource_updated_params"

lemmas resource_updated_params_defs = enc_resource_updated_params_def resource_updated_params_fields_def dec_resource_updated_params_def zero_resource_updated_params_def

record prompts_changed_params =
  pchg_added :: "prompt list"
  pchg_removed :: "string list"
  pchg_modified :: "prompt list"

definition zero_prompts_changed_params :: prompts_changed_params where
  "zero_prompts_changed_params = \<lparr>pchg_added = [], pchg_removed = [], pchg_modified = []\<rparr>"

definition enc_prompts_changed_params :: "prompts_changed_params \<Rightarrow> json" where
  "enc_prompts_changed_params x = JObj (omit_list ''added'' enc_prompt (pchg_added x)
     @ omit_list ''removed'' JStr (pchg_removed x)
     @ omit_list ''modified'' enc_prompt (pchg_modified x))"

definition prompts_changed_params_fields :: "prompts_changed_params field list" where
  "prompts_changed_params_fields = [(''added'', list_field (\<lambda>v a. a\<lparr>pchg_added := v\<rparr>) dec_prompt),
     (''removed'', list_field (\<lambda>v a. a\<lparr>pchg_removed := v\<rparr>) dec_str),
     (''modified'', list_field (\<lambda>v a. a\<lparr>pchg_modified := v\<rparr>) dec_prompt)]"

definition dec_prompts_changed_params :: "json \<Rightarrow> prompts_changed_params option" where
  "dec_prompts_changed_params = decode_struct prompts_changed_params_fields zero_prompts_changed_params"

lemmas prompts_changed_params_defs = enc_prompts_changed_params_def prompts_changed_params_fields_def dec_prompts_changed_params_def zero_prompts_changed_params_def

record roots_changed_params =
  rtchg_added :: "root list"
  rtchg_removed :: "string list"
  rtchg_modified :: "root list"

definition zero_roots_changed_params :: roots_changed_params where
  "zero_roots_changed_params = \<lparr>rtchg_added = [], rtchg_removed = [], rtchg_modified = []\<rparr>"

definition enc_roots_changed_params :: "roots_changed_params \<Rightarrow> json" where
  "enc_roots_changed_params x = JObj (omit_list ''added'' enc_root (rtchg_added x)
     @ omit_list ''removed'' JStr (rtchg_removed x)
     @ omit_list ''modified'' enc_root (rtchg_modified x))"

definition roots_changed_params_fields :: "roots_changed_params field list" where
  "roots_changed_params_fields = [(''added'', list_field (\<lambda>v a. a\<lparr>rtchg_added := v\<rparr>) dec_root),
     (''removed'', list_field (\<lambda>v a. a\<lparr>rtchg_removed := v\<rparr>) dec_str),
     (''modified'', list_field (\<lambda>v a. a\<lparr>rtchg_modified := v\<rparr>) dec_root)]"

definition dec_roots_changed_params :: "json \<Rightarrow> roots_changed_params option" where
  "dec_roots_changed_params = decode_struct roots_changed_params_fields zero_roots_changed_params"

lemmas roots_changed_params_defs = enc_roots_changed_params_def roots_changed_params_fields_def dec_roots_changed_params_def zero_roots_changed_params_def

subsection \<open>Sampling\<close>

record sample_params =
  sp_messages :: "chat_message list option"
  sp_model_preferences :: "model_preferences option"
  sp_system_prompt :: string
  sp_include_context :: bool
  sp_resource_refs :: "string list"
  sp_additional_context :: "json option"
  sp_request_id :: string
  sp_max_tokens :: int
  sp_stream :: bool
  sp_options :: "(string \<times> gval) list"

definition zero_sample_params :: sample_params where
  "zero_sample_params = \<lparr>sp_messages = None, sp_model_preferences = None, sp_system_prompt = [], sp_include_context = False, sp_resource_refs = [], sp_additional_context = None, sp_request_id = [], sp_max_tokens = 0, sp_stream = False, sp_options = []\<rparr>"

definition enc_sample_params :: "sample_params \<Rightarrow> json" where
  "enc_sample_params x = JObj ([(''messages'', enc_list enc_chat_message (sp_messages x))]
     @ omit_ptr ''modelPreferences'' enc_model_preferences (sp_model_preferences x)
     @ omit_str ''systemPrompt'' (sp_system_prompt x)
     @ omit_bool ''includeContext'' (sp_include_context x)
     @ omit_list ''resourceRefs'' JStr (sp_resource_refs x)
     @ omit_raw ''additionalContext'' (sp_additional_context x)
     @ omit_str ''requestId'' (sp_request_id x)
     @ omit_int ''maxTokens'' (sp_max_tokens x)
     @ omit_bool ''stream'' (sp_stream x)
     @ omit_map ''options'' marshal (sp_options x))"

definition sample_params_fields :: "sample_params field list" where
  "sample_params_fields = [(''messages'', slice_field (\<lambda>v a. a\<lparr>sp_messages := v\<rparr>) dec_chat_message),
     (''modelPreferences'', ptr_field (\<lambda>v a. a\<lparr>sp_model_preferences := v\<rparr>) dec_model_preferences),
     (''systemPrompt'', str_field (\<lambda>v a. a\<lparr>sp_system_prompt := v\<rparr>)),
     (''includeContext'', bool_field (\<lambda>v a. a\<lparr>sp_include_context := v\<rparr>)),
     (''resourceRefs'', list_field (\<lambda>v a. a\<lparr>sp_resource_refs := v\<rparr>) dec_str),
     (''additionalContext'', raw_field (\<lambda>v a. a\<lparr>sp_additional_context := v\<rparr>)),
     (''requestId'', str_field (\<lambda>v a. a\<lparr>sp_request_id := v\<rparr>)),
     (''maxTokens'', int_field (\<lambda>v a. a\<lparr>sp_max_tokens := v\<rparr>)),
     (''stream'', bool_field (\<lambda>v a. a\<lparr>sp_stream := v\<rparr>)),
     (''options'', map_field (\<lambda>m. (\<lambda>v a. a\<lparr>sp_options := v\<rparr>) (case m of None \<Rightarrow> [] | Some kvs \<Rightarrow> kvs)) decode_any)]"

definition dec_sample_params :: "json \<Rightarrow> sample_params option" where
  "dec_sample_params = decode_struct sample_params_fields zero_sample_params"

lemmas sample_params_defs = enc_sample_params_def sample_params_fields_def dec_sample_params_def zero_sample_params_def

record token_usage =
  tu_prompt_tokens :: int
  tu_completion_tokens :: int
  tu_total_tokens :: int

definition zero_token_usage :: token_usage where
  "zero_token_usage = \<lparr>tu_prompt_tokens = 0, tu_completion_tokens = 0, tu_total_tokens = 0\<rparr>"

definition enc_token_usage :: "token_usage \<Rightarrow> json" where
  "enc_token_usage x = JObj (omit_int ''promptTokens'' (tu_prompt_tokens x)
     @ omit_int ''completionTokens'' (tu_completion_tokens x)
     @ omit_int ''totalTokens'' (tu_total_tokens x))"

definition token_usage_fields :: "token_usage field list" where
  "token_usage_fields = [(''promptTokens'', int_field (\<lambda>v a. a\<lparr>tu_prompt_tokens := v\<rparr>)),
     (''completionTokens'', int_field (\<lambda>v a. a\<lparr>tu_completion_tokens := v\<rparr>)),
     (''totalTokens'', int_field (\<lambda>v a. a\<lparr>tu_total_tokens := v\<rparr>))]"

definition dec_token_usage :: "json \<Rightarrow> token_usage option" where
  "dec_token_usage = decode_struct token_usage_fields zero_token_usage"

lemmas token_usage_defs = enc_token_usage_def token_usage_fields_def dec_token_usage_def zero_token_usage_def

record sample_result =
  spr_content :: string
  spr_model :: string
  spr_finish_reason :: string
  spr_usage :: "token_usage option"
  spr_metadata :: "json option"

definition zero_sample_result :: sample_result where
  "zero_sample_result = \<lparr>spr_content = [], spr_model = [], spr_finish_reason = [], spr_usage = None, spr_metadata = None\<rparr>"

definition enc_sample_result :: "sample_result \<Rightarrow> json" where
  "enc_sample_result x = JObj ([(''content'', JStr (spr_content x))]
     @ omit_str ''model'' (spr_model x)
     @ omit_str ''finishReason'' (spr_finish_reason x)
     @ omit_ptr ''usage'' enc_token_usage (spr_usage x)
     @ omit_raw ''metadata'' (spr_metadata x))"

definition sample_result_fields :: "sample_result field list" where
  "sample_result_fields = [(''content'', str_field (\<lambda>v a. a\<lparr>spr_content := v\<rparr>)),
     (''model'', str_field (\<lambda>v a. a\<lparr>spr_model := v\<rparr>)),
     (''finishReason'', str_field (\<lambda>v a. a\<lparr>spr_finish_reason := v\<rparr>)),
     (''usage'', ptr_field (\<lambda>v a. a\<lparr>spr_usage := v\<rparr>) dec_token_usage),
     (''metadata'', raw_field (\<lambda>v a. a\<lparr>spr_metadata := v\<rparr>))]"

definition dec_sample_result :: "json \<Rightarrow> sample_result option" where
  "dec_sample_result = decode_struct sample_result_fields zero_sample_result"

lemmas sample_result_defs = enc_sample_result_def sample_result_fields_def dec_sample_result_def zero_sample_result_def

record sample_stream_params =
  ssp_request_id :: string
  ssp_content :: string
  ssp_is_final :: bool
  ssp_finish_reason :: string

definition zero_sample_stream_params :: sample_stream_params where
  "zero_sample_stream_params = \<lparr>ssp_request_id = [], ssp_content = [], ssp_is_final = False, ssp_finish_reason = []\<rparr>"

definition enc_sample_stream_params :: "sample_stream_params \<Rightarrow> json" where
  "enc_sample_stream_params x = JObj ([(''requestId'', JStr (ssp_request_id x))]
     @ [(''content'', JStr (ssp_content x))]
     @ omit_bool ''isFinal'' (ssp_is_final x)
     @ omit_str ''finishReason'' (ssp_finish_reason x))"

definition sample_stream_params_fields :: "sample_stream_params field list" where
  "sample_stream_params_fields = [(''requestId'', str_field (\<lambda>v a. a\<lparr>ssp_request_id := v\<rparr>)),
     (''content'', str_field (\<lambda>v a. a\<lparr>ssp_content := v\<rparr>)),
     (''isFinal'', bool_field (\<lambda>v a. a\<lparr>ssp_is_final := v\<rparr>)),
     (''finishReason'', str_field (\<lambda>v a. a\<lparr>ssp_finish_reason := v\<rparr>))]"

definition dec_sample_stream_params :: "json \<Rightarrow> sample_stream_params option" where
  "dec_sample_stream_params = decode_struct sample_stream_params_fields zero_sample_stream_params"

lemmas sample_stream_params_defs = enc_sample_stream_params_def sample_stream_params_fields_def dec_sample_stream_params_def zero_sample_stream_params_def

end
