(* ===== verification/Errors.thy ===== *)
theory Errors
  imports Protocol
begin

section \<open>Structured errors (\<open>pkg/errors\<close>)\<close>

text \<open>
  The error values of the library: error codes and their registry (\<open>codes.go\<close>), the structured
  error with its category, severity, data, context and cause (\<open>types.go\<close>), the constructors
  (\<open>mcp.go\<close>, \<open>validation.go\<close>, \<open>transport.go\<close>) and the conversions to and from JSON-RPC
  (\<open>conversion.go\<close>). An error of type \<open>error\<close> is a \<open>goerr\<close>; a nil one is \<open>None\<close>. The structured
  data of a constructor is a pointer to a struct, a \<open>GStruct\<close> with the JSON fields of the struct.
  The time stamp of a context, which nothing reads, is not modelled.
\<close>

subsection \<open>Formatting\<close>

abbreviation sq :: string where "sq \<equiv> [CHR 0x27]"

definition quoted :: "string \<Rightarrow> string" where
  "quoted s = sq @ s @ sq"

text \<open>The verbs \<open>%v\<close>, \<open>%T\<close> and \<open>%q\<close> on the values the code prints. The text of a pointer to a
  struct, which \<open>%v\<close> never meets here, is its type.\<close>

definition go_list :: "string list \<Rightarrow> string" where
  "go_list xs = ''['' @ str_join '' '' xs @ '']''"

fun go_str :: "gval \<Rightarrow> string" where
  "go_str GNil = ''<nil>''"
| "go_str (GBool b) = (if b then ''true'' else ''false'')"
| "go_str (GInt i) = show_int i"
| "go_str (GFloat x) = float_verb x"
| "go_str (GStr s) = s"
| "go_str (GRaw r) = (case r of None \<Rightarrow> ''[]''
     | Some v \<Rightarrow> go_list (map (\<lambda>c. show_nat (of_char c)) (json_print v)))"
| "go_str (GList vs) = go_list (map go_str vs)"
| "go_str (GMap kvs) = ''map'' @ go_list (map (\<lambda>(k, s). k @ '':'' @ s)
     (sort_key fst (map (\<lambda>(k, v). (k, go_str v)) kvs)))"
| "go_str (GStruct n kvs) = n"

fun go_type :: "gval \<Rightarrow> string" where
  "go_type GNil = ''<nil>''"
| "go_type (GBool b) = ''bool''"
| "go_type (GInt i) = ''int''"
| "go_type (GFloat x) = ''float64''"
| "go_type (GStr s) = ''string''"
| "go_type (GRaw r) = ''json.RawMessage''"
| "go_type (GList vs) = ''[]interface {}''"
| "go_type (GMap kvs) = ''map[string]interface {}''"
| "go_type (GStruct n kvs) = n"

definition show_bool :: "bool \<Rightarrow> string" where
  "show_bool b = (if b then ''true'' else ''false'')"

definition quote_char :: "char \<Rightarrow> string" where
  "quote_char c =
     (if c = CHR 0x22 \<or> c = CHR 0x5C then [CHR 0x5C, c]
      else if c = CHR 0x07 then [CHR 0x5C, CHR ''a''] else if c = CHR 0x08 then [CHR 0x5C, CHR ''b'']
      else if c = CHR 0x0C then [CHR 0x5C, CHR ''f''] else if c = CHR 0x0A then [CHR 0x5C, CHR ''n'']
      else if c = CHR 0x0D then [CHR 0x5C, CHR ''r''] else if c = CHR 0x09 then [CHR 0x5C, CHR ''t'']
      else if c = CHR 0x0B then [CHR 0x5C, CHR ''v'']
      else if (of_char c :: nat) < 32 \<or> (of_char c :: nat) = 127 then
        [CHR 0x5C, CHR ''x'', hex_char (of_char c div 16), hex_char (of_char c mod 16)]
      else [c])"

definition go_quote :: "string \<Rightarrow> string" where
  "go_quote s = [CHR 0x22] @ concat (map quote_char s) @ [CHR 0x22]"

text \<open>\<open>Duration.String\<close>.\<close>

definition frac_text :: "nat \<Rightarrow> nat \<Rightarrow> string" where
  "frac_text width n =
     (let s = show_nat n; p = strip_zeros (replicate (width - length s) (CHR ''0'') @ s)
      in if n = 0 then [] else ''.'' @ p)"

definition show_duration :: "duration \<Rightarrow> string" where
  "show_duration d =
     (let u = nat \<bar>d\<bar>; s = u div 1000000000; ns = u mod 1000000000 in
      if d = 0 then ''0s''
      else (if d < 0 then ''-'' else []) @
        (if u < 1000 then show_nat u @ ''ns''
         else if u < 1000000 then show_nat (u div 1000) @ frac_text 3 (u mod 1000) @ [CHR 0xC2, CHR 0xB5, CHR ''s'']
         else if u < 1000000000 then show_nat (u div 1000000) @ frac_text 6 (u mod 1000000) @ ''ms''
         else (if s < 3600 then [] else show_nat (s div 3600) @ ''h'') @
              (if s < 60 then [] else show_nat (s div 60 mod 60) @ ''m'') @
              show_nat (s mod 60) @ frac_text 9 ns @ ''s''))"

subsection \<open>Error values\<close>

datatype category = CategoryValidation | CategoryAuth | CategoryNotFound | CategoryTransport
  | CategoryProvider | CategoryInternal | CategoryTimeout | CategoryCancelled | CategoryProtocol

datatype severity = SeverityInfo | SeverityWarning | SeverityError | SeverityCritical

fun category_string :: "category \<Rightarrow> string" where
  "category_string CategoryValidation = ''validation''"
| "category_string CategoryAuth = ''auth''"
| "category_string CategoryNotFound = ''not_found''"
| "category_string CategoryTransport = ''transport''"
| "category_string CategoryProvider = ''provider''"
| "category_string CategoryInternal = ''internal''"
| "category_string CategoryTimeout = ''timeout''"
| "category_string CategoryCancelled = ''cancelled''"
| "category_string CategoryProtocol = ''protocol''"

fun severity_string :: "severity \<Rightarrow> string" where
  "severity_string SeverityInfo = ''info''"
| "severity_string SeverityWarning = ''warning''"
| "severity_string SeverityError = ''error''"
| "severity_string SeverityCritical = ''critical''"

record err_context =
  ctx_request_id :: string
  ctx_method :: string
  ctx_session_id :: string
  ctx_parameters :: "(string \<times> gval) list"
  ctx_component :: string
  ctx_operation :: string
  ctx_user_id :: string
  ctx_trace_id :: string

definition empty_context :: err_context where
  "empty_context = \<lparr>ctx_request_id = [], ctx_method = [], ctx_session_id = [], ctx_parameters = [],
     ctx_component = [], ctx_operation = [], ctx_user_id = [], ctx_trace_id = []\<rparr>"

text \<open>The dynamic types of errors the code makes or inspects: a plain text, a wrapped error, the two
  errors of package \<open>context\<close>, the two of \<open>encoding/json\<close>, the two JSON-RPC error objects, an
  authentication error (code and message), a missing object, and the structured error.\<close>

datatype goerr =
    ErrText string
  | ErrWrapped string goerr
  | ErrCanceled
  | ErrDeadline
  | ErrJSONSyntax string
  | ErrJSONType string
  | ErrRPC rpc_error
  | ErrObject rpc_error
  | ErrAuth string string
  | ErrNotFound string string
  | ErrMCP mcp_error
and mcp_error = MCPError
  (mcp_code: int) (mcp_message: string) (mcp_details: string) (mcp_data: gval)
  (mcp_category: category) (mcp_severity: severity)
  (mcp_context: "err_context option") (mcp_cause: "goerr option")

definition mcp_Error :: "mcp_error \<Rightarrow> string" where
  "mcp_Error e = (if mcp_details e \<noteq> [] then mcp_message e @ '': '' @ mcp_details e else mcp_message e)"

fun Error :: "goerr \<Rightarrow> string" where
  "Error (ErrText m) = m"
| "Error (ErrWrapped m e) = m"
| "Error ErrCanceled = ''context canceled''"
| "Error ErrDeadline = ''context deadline exceeded''"
| "Error (ErrJSONSyntax m) = m"
| "Error (ErrJSONType m) = m"
| "Error (ErrRPC e) = rpc_error_string (Some e)"
| "Error (ErrObject e) = ''rpc error: code = '' @ show_int (err_code e) @ '' desc = '' @ err_message e"
| "Error (ErrAuth c m) = m"
| "Error (ErrNotFound t i) = t @ '' not found: '' @ i"
| "Error (ErrMCP e) = mcp_Error e"

fun err_type :: "goerr \<Rightarrow> string" where
  "err_type (ErrText m) = ''*errors.errorString''"
| "err_type (ErrWrapped m e) = ''*fmt.wrapError''"
| "err_type ErrCanceled = ''*errors.errorString''"
| "err_type ErrDeadline = ''context.deadlineExceededError''"
| "err_type (ErrJSONSyntax m) = ''*json.SyntaxError''"
| "err_type (ErrJSONType m) = ''*json.UnmarshalTypeError''"
| "err_type (ErrRPC e) = ''*protocol.Error''"
| "err_type (ErrObject e) = ''*protocol.ErrorObject''"
| "err_type (ErrAuth c m) = ''*auth.AuthError''"
| "err_type (ErrNotFound t i) = ''*server.notFoundError''"
| "err_type (ErrMCP e) = ''*errors.baseError''"

definition WithContext :: "err_context option \<Rightarrow> mcp_error \<Rightarrow> mcp_error" where
  "WithContext ctx e = MCPError (mcp_code e) (mcp_message e) (mcp_details e) (mcp_data e)
     (mcp_category e) (mcp_severity e) ctx (mcp_cause e)"

definition WithDetail :: "string \<Rightarrow> mcp_error \<Rightarrow> mcp_error" where
  "WithDetail d e = MCPError (mcp_code e) (mcp_message e)
     (if mcp_details e \<noteq> [] then mcp_details e @ ''; '' @ d else d) (mcp_data e)
     (mcp_category e) (mcp_severity e) (mcp_context e) (mcp_cause e)"

definition WithData :: "gval \<Rightarrow> mcp_error \<Rightarrow> mcp_error" where
  "WithData v e = MCPError (mcp_code e) (mcp_message e) (mcp_details e) v
     (mcp_category e) (mcp_severity e) (mcp_context e) (mcp_cause e)"

definition Unwrap :: "mcp_error \<Rightarrow> goerr option" where
  "Unwrap e = mcp_cause e"

definition gomit :: "string \<Rightarrow> string \<Rightarrow> (string \<times> gval) list" where
  "gomit k s = (if s = [] then [] else [(k, GStr s)])"

definition context_gval :: "err_context \<Rightarrow> gval" where
  "context_gval c = GStruct ''*errors.Context''
     (gomit ''request_id'' (ctx_request_id c) @ gomit ''method'' (ctx_method c)
      @ gomit ''session_id'' (ctx_session_id c)
      @ (if ctx_parameters c = [] then [] else [(''parameters'', GMap (ctx_parameters c))])
      @ gomit ''component'' (ctx_component c) @ gomit ''operation'' (ctx_operation c)
      @ gomit ''user_id'' (ctx_user_id c) @ gomit ''trace_id'' (ctx_trace_id c))"

definition mcp_ToJSON :: "mcp_error \<Rightarrow> gval" where
  "mcp_ToJSON e = GMap
     ([(''code'', GInt (mcp_code e)), (''message'', GStr (mcp_message e)),
       (''category'', GStr (category_string (mcp_category e))),
       (''severity'', GStr (severity_string (mcp_severity e)))]
      @ gomit ''details'' (mcp_details e)
      @ (if mcp_data e = GNil then [] else [(''data'', mcp_data e)])
      @ (case mcp_context e of None \<Rightarrow> [] | Some c \<Rightarrow> [(''context'', context_gval c)])
      @ (case mcp_cause e of None \<Rightarrow> [] | Some c \<Rightarrow> [(''cause'', GStr (Error c))]))"

definition NewError :: "int \<Rightarrow> string \<Rightarrow> category \<Rightarrow> severity \<Rightarrow> mcp_error" where
  "NewError code message cat sev = MCPError code message [] GNil cat sev (Some empty_context) None"

definition WrapError :: "goerr option \<Rightarrow> int \<Rightarrow> string \<Rightarrow> category \<Rightarrow> severity \<Rightarrow> mcp_error" where
  "WrapError err code message cat sev = MCPError code message [] GNil cat sev (Some empty_context) err"

text \<open>\<open>AsMCPError\<close> is a type assertion: it does not look through wrapped errors.\<close>

definition AsMCPError :: "goerr option \<Rightarrow> mcp_error option" where
  "AsMCPError err = (case err of Some (ErrMCP e) \<Rightarrow> Some e | _ \<Rightarrow> None)"

definition IsMCPError :: "goerr option \<Rightarrow> bool" where
  "IsMCPError err = (AsMCPError err \<noteq> None)"

definition IsCategory :: "goerr option \<Rightarrow> category \<Rightarrow> bool" where
  "IsCategory err c = (case AsMCPError err of Some e \<Rightarrow> mcp_category e = c | None \<Rightarrow> False)"

definition IsCode :: "goerr option \<Rightarrow> int \<Rightarrow> bool" where
  "IsCode err c = (case AsMCPError err of Some e \<Rightarrow> mcp_code e = c | None \<Rightarrow> False)"

lemmas mcp_defs [simp] = WithContext_def WithDetail_def WithData_def NewError_def WrapError_def

end
