(* ===== verification/Rbac.thy ===== *)
theory Rbac
  imports Errors
begin

section \<open>Role based access control (\<open>pkg/auth/rbac.go\<close>)\<close>

text \<open>
  The provider keeps the roles with their permissions and parents, the roles of each user, and the
  permissions of resources. A permission check searches the roles a user has and their ancestors
  depth first with a set of visited roles. The roles are an association list (a finite map); the
  map of resource permissions may be nil, and writing to a nil map panics.
\<close>

record role =
  role_name :: string
  role_description :: string
  role_permissions :: "string list"
  role_parents :: "string list"

record rbac =
  rb_roles :: "(string \<times> role) list"
  rb_user_roles :: "string \<rightharpoonup> string list"
  rb_resource_perms :: "(string \<rightharpoonup> string list) option"
  rb_default_role :: string

record rbac_config =
  rc_default_role :: string
  rc_role_hierarchy :: "(string \<times> string list) list"
  rc_resource_permissions :: "(string \<rightharpoonup> string list) option"

definition stringSliceContains :: "string list \<Rightarrow> string \<Rightarrow> bool" where
  "stringSliceContains xs s \<longleftrightarrow> s \<in> set xs"

definition removeStringFromSlice :: "string list \<Rightarrow> string \<Rightarrow> string list" where
  "removeStringFromSlice xs s = filter (\<lambda>x. x \<noteq> s) xs"

definition matchPermission :: "string \<Rightarrow> string \<Rightarrow> bool" where
  "matchPermission pattern permission =
     (if pattern \<noteq> [] \<and> last pattern = CHR ''*'' then has_prefix permission (butlast pattern)
      else pattern = permission)"

definition user_roles :: "rbac \<Rightarrow> string \<Rightarrow> string list" where
  "user_roles s u = (case rb_user_roles s u of None \<Rightarrow> [] | Some rs \<Rightarrow> rs)"

definition CreateRole :: "string \<Rightarrow> string \<Rightarrow> string list \<Rightarrow> string list \<Rightarrow> rbac \<Rightarrow> goerr option \<times> rbac" where
  "CreateRole name description permissions parents s =
     (if name \<in> set (map fst (rb_roles s)) then (Some (ErrText (''role '' @ name @ '' already exists'')), s)
      else (None, s\<lparr>rb_roles := rb_roles s @ [(name, \<lparr>role_name = name, role_description = description,
              role_permissions = permissions, role_parents = parents\<rparr>)]\<rparr>))"

definition initializeDefaultRoles :: "rbac \<Rightarrow> rbac" where
  "initializeDefaultRoles s =
     (let s1 = snd (CreateRole ''admin'' ''Administrator with full access'' [''*''] [] s);
          s2 = snd (CreateRole ''user'' ''Standard user'' [''read'', ''list'', ''create'', ''update''] [] s1);
          s3 = snd (CreateRole ''guest'' ''Guest user'' [''read'', ''list''] [] s2)
      in snd (CreateRole ''service'' ''Service account'' [''read'', ''write'', ''execute''] [] s3))"

definition NewRBACProvider :: "rbac_config option \<Rightarrow> rbac" where
  "NewRBACProvider config = initializeDefaultRoles
     (case config of
        None \<Rightarrow> \<lparr>rb_roles = [], rb_user_roles = Map.empty, rb_resource_perms = Some Map.empty,
                rb_default_role = ''user''\<rparr>
      | Some c \<Rightarrow> \<lparr>rb_roles = map (\<lambda>(n, ps). (n, \<lparr>role_name = n, role_description = [],
                     role_permissions = [], role_parents = ps\<rparr>)) (rc_role_hierarchy c),
                  rb_user_roles = Map.empty, rb_resource_perms = rc_resource_permissions c,
                  rb_default_role = rc_default_role c\<rparr>)"

definition DeleteRole :: "string \<Rightarrow> rbac \<Rightarrow> goerr option \<times> rbac" where
  "DeleteRole name s =
     (if name = rb_default_role s then (Some (ErrText ''cannot delete default role''), s)
      else (None, s\<lparr>rb_roles := filter (\<lambda>(n, r). n \<noteq> name) (rb_roles s),
                    rb_user_roles := (\<lambda>u. map_option (\<lambda>rs. removeStringFromSlice rs name) (rb_user_roles s u))\<rparr>))"

definition AssignRole :: "string \<Rightarrow> string \<Rightarrow> rbac \<Rightarrow> goerr option \<times> rbac" where
  "AssignRole u name s =
     (if name \<notin> set (map fst (rb_roles s)) then (Some (ErrText (''role '' @ name @ '' does not exist'')), s)
      else if stringSliceContains (user_roles s u) name then (None, s)
      else (None, s\<lparr>rb_user_roles := (rb_user_roles s)(u \<mapsto> user_roles s u @ [name])\<rparr>))"

definition RemoveRole :: "string \<Rightarrow> string \<Rightarrow> rbac \<Rightarrow> goerr option \<times> rbac" where
  "RemoveRole u name s =
     (None, s\<lparr>rb_user_roles := (rb_user_roles s)(u \<mapsto> removeStringFromSlice (user_roles s u) name)\<rparr>)"

definition GetUserRoles :: "rbac \<Rightarrow> string \<Rightarrow> string list" where
  "GetUserRoles s u =
     (if user_roles s u = [] \<and> rb_default_role s \<noteq> [] then [rb_default_role s] else user_roles s u)"

subsection \<open>The search\<close>

definition grants :: "role \<Rightarrow> string \<Rightarrow> bool" where
  "grants r permission \<longleftrightarrow> list_ex (\<lambda>p. p = ''*'' \<or> p = permission \<or> matchPermission p permission) (role_permissions r)"

text \<open>The loop over role names, each handled as \<open>roleHasPermission\<close> does: skipped when visited,
  marked, looked up, its own permissions tried, then the loop over its parents. The set of visited
  roles is shared by all the calls.\<close>

function roles_grant ::
    "(string \<times> role) list \<Rightarrow> string \<Rightarrow> string list \<Rightarrow> string list \<Rightarrow> bool \<times> string list" where
  "roles_grant R p [] vis = (False, vis)"
| "roles_grant R p (n # ns) vis =
     (if n \<in> set vis then roles_grant R p ns vis
      else (case map_of R n of
              None \<Rightarrow> roles_grant R p ns (n # vis)
            | Some r \<Rightarrow>
                if grants r p then (True, n # vis)
                else (case roles_grant R p (role_parents r) (n # vis) of
                        (g, v) \<Rightarrow> if g then (True, v) else roles_grant R p ns v)))"
  by pat_completeness auto

lemma roles_grant_visited:
  "roles_grant_dom (R, p, ns, vis) \<Longrightarrow> set vis \<subseteq> set (snd (roles_grant R p ns vis))"
proof (induction R p ns vis rule: roles_grant.pinduct)
  case (2 R p n ns vis)
  show ?case
  proof (cases "n \<in> set vis \<or> map_of R n = None")
    case True
    then show ?thesis
      using "2.IH"(1,2) by (auto simp: roles_grant.psimps(2) [OF "2.hyps"])
  next
    case False
    then obtain r where r: "map_of R n = Some r" and nv: "n \<notin> set vis" by auto
    obtain g v where gv: "roles_grant R p (role_parents r) (n # vis) = (g, v)"
      by (cases "roles_grant R p (role_parents r) (n # vis)")
    show ?thesis
    proof (cases "grants r p")
      case True
      with r nv show ?thesis by (auto simp: roles_grant.psimps(2) [OF "2.hyps"])
    next
      case no: False
      have a: "set (n # vis) \<subseteq> set v" using "2.IH"(3) [OF nv r no] gv by simp
      show ?thesis
      proof (cases g)
        case True
        with r nv no gv a show ?thesis by (simp add: roles_grant.psimps(2) [OF "2.hyps"])
      next
        case False
        then have "set v \<subseteq> set (snd (roles_grant R p ns v))"
          using "2.IH"(4) [OF nv r no gv [symmetric]] by simp
        with r nv no gv a False show ?thesis by (auto simp: roles_grant.psimps(2) [OF "2.hyps"])
      qed
    qed
  qed
qed (simp add: roles_grant.psimps)

lemma role_count_less:
  assumes "map_of R n = Some r" "n \<notin> set vis" "set (n # vis) \<subseteq> V"
  shows "card (set (map fst R) - V) < card (set (map fst R) - set vis)"
proof -
  have "n \<in> set (map fst R)" using assms(1) by (auto dest!: map_of_SomeD intro: rev_image_eqI)
  then show ?thesis using assms(2,3) by (intro psubset_card_mono) auto
qed

termination roles_grant
proof (relation "measures [\<lambda>(R, p, ns, vis). card (set (map fst R) - set vis), \<lambda>(R, p, ns, vis). length ns]",
    goal_cases)
  case (3 R p n ns vis)
  then have "n \<notin> set (map fst R)" by (auto simp: map_of_eq_None_iff)
  then have "set (map fst R) - set (n # vis) = set (map fst R) - set vis" by auto
  then show ?case by simp
next
  case (4 R p n ns vis r)
  then show ?case using role_count_less [of R n r vis "set (n # vis)"] by simp
next
  case (5 R p n ns vis r g v)
  then have "set (n # vis) \<subseteq> set v"
    using roles_grant_visited [of R p "role_parents r" "n # vis"] by (metis snd_conv)
  with 5 show ?case using role_count_less [of R n r vis "set v"] by simp
qed auto

definition roleHasPermission :: "rbac \<Rightarrow> string \<Rightarrow> string \<Rightarrow> bool" where
  "roleHasPermission s name permission = fst (roles_grant (rb_roles s) permission [name] [])"

definition HasPermission :: "rbac \<Rightarrow> string \<Rightarrow> string \<Rightarrow> bool" where
  "HasPermission s u permission = list_ex (\<lambda>n. roleHasPermission s n permission) (GetUserRoles s u)"

definition CanAccessResource :: "rbac \<Rightarrow> string \<Rightarrow> string \<Rightarrow> bool" where
  "CanAccessResource s u resource =
     (case (case rb_resource_perms s of None \<Rightarrow> None | Some m \<Rightarrow> m resource) of
        None \<Rightarrow> True
      | Some perms \<Rightarrow> list_ex (HasPermission s u) perms)"

definition SetResourcePermissions :: "string \<Rightarrow> string list \<Rightarrow> rbac \<Rightarrow> (goerr, rbac) outcome" where
  "SetResourcePermissions resource perms s =
     (case rb_resource_perms s of
        None \<Rightarrow> Panic ''assignment to entry in nil map''
      | Some m \<Rightarrow> Ok (s\<lparr>rb_resource_perms := Some (m(resource \<mapsto> perms))\<rparr>))"

definition GetResourcePermissions :: "rbac \<Rightarrow> string \<Rightarrow> string list" where
  "GetResourcePermissions s resource =
     (case rb_resource_perms s of None \<Rightarrow> []
      | Some m \<Rightarrow> (case m resource of None \<Rightarrow> [] | Some ps \<Rightarrow> ps))"

text \<open>The middleware helpers, given the identifier of the user in the context, if there is one.\<close>

definition EnforcePermission :: "rbac \<Rightarrow> string \<Rightarrow> string option \<Rightarrow> goerr option" where
  "EnforcePermission s permission user =
     (case user of
        None \<Rightarrow> Some (ErrAuth ''authentication_required'' ''authentication required'')
      | Some u \<Rightarrow>
          if HasPermission s u permission then None
          else Some (ErrAuth ''access_denied'' (''permission denied: requires '' @ permission)))"

definition EnforceRole :: "rbac \<Rightarrow> string list \<Rightarrow> string option \<Rightarrow> goerr option" where
  "EnforceRole s required user =
     (case user of
        None \<Rightarrow> Some (ErrAuth ''authentication_required'' ''authentication required'')
      | Some u \<Rightarrow>
          if list_ex (stringSliceContains (GetUserRoles s u)) required then None
          else Some (ErrAuth ''access_denied'' (''role required: one of '' @ go_list required)))"

subsection \<open>The search is reachability\<close>

definition parent_rel :: "(string \<times> role) list \<Rightarrow> (string \<times> string) set" where
  "parent_rel R = {(a, b). \<exists>r. map_of R a = Some r \<and> b \<in> set (role_parents r)}"

definition granting :: "(string \<times> role) list \<Rightarrow> string \<Rightarrow> string \<Rightarrow> bool" where
  "granting R p n \<longleftrightarrow> (\<exists>r. map_of R n = Some r \<and> grants r p)"

lemma roles_grant_sound:
  "fst (roles_grant R p ns vis) \<Longrightarrow> \<exists>n \<in> set ns. \<exists>m. (n, m) \<in> (parent_rel R)\<^sup>* \<and> granting R p m"
proof (induction R p ns vis rule: roles_grant.induct)
  case (2 R p n ns vis)
  show ?case
  proof (cases "n \<in> set vis \<or> map_of R n = None")
    case True
    with 2 show ?thesis by (auto split: if_splits)
  next
    case False
    then obtain r where r: "map_of R n = Some r" and nv: "n \<notin> set vis" by auto
    obtain g v where gv: "roles_grant R p (role_parents r) (n # vis) = (g, v)"
      by (cases "roles_grant R p (role_parents r) (n # vis)")
    show ?thesis
    proof (cases "grants r p \<or> g")
      case True
      then have "\<exists>m. (n, m) \<in> (parent_rel R)\<^sup>* \<and> granting R p m"
      proof
        assume "grants r p"
        then show ?thesis using r by (auto simp: granting_def)
      next
        assume g: g
        show ?thesis
        proof (cases "grants r p")
          case True
          then show ?thesis using r by (auto simp: granting_def)
        next
          case no: False
          obtain q m where q: "q \<in> set (role_parents r)" "(q, m) \<in> (parent_rel R)\<^sup>*" "granting R p m"
            using "2.IH"(3) [OF nv r no] gv g by auto
          have "(n, q) \<in> parent_rel R" using q(1) r by (auto simp: parent_rel_def)
          with q show ?thesis by (auto intro: converse_rtrancl_into_rtrancl)
        qed
      qed
      then show ?thesis by auto
    next
      case no: False
      then have "fst (roles_grant R p ns v)" using "2.prems" r nv gv by simp
      then show ?thesis using "2.IH"(4) [OF nv r] gv no by auto
    qed
  qed
qed simp

text \<open>When nothing grants, every role searched has its parents searched too.\<close>

definition searched :: "(string \<times> role) list \<Rightarrow> string \<Rightarrow> string list \<Rightarrow> string list \<Rightarrow> string list \<Rightarrow> bool" where
  "searched R p ns vis v \<longleftrightarrow> set vis \<subseteq> set v \<and> set ns \<subseteq> set v \<and>
     (\<forall>n \<in> set v - set vis. \<not> granting R p n \<and> (parent_rel R) `` {n} \<subseteq> set v)"

lemma roles_grant_closed:
  "\<not> fst (roles_grant R p ns vis) \<Longrightarrow> searched R p ns vis (snd (roles_grant R p ns vis))"
proof (induction R p ns vis rule: roles_grant.induct)
  case (2 R p n ns vis)
  consider "n \<in> set vis" | "n \<notin> set vis" "map_of R n = None" | r where "n \<notin> set vis" "map_of R n = Some r"
    by (cases "map_of R n") auto
  then show ?case
  proof cases
    case 1
    with 2 show ?thesis by (auto simp: searched_def)
  next
    case nov: 2
    then have "\<not> granting R p n" "parent_rel R `` {n} = {}" by (auto simp: granting_def parent_rel_def)
    moreover have "searched R p ns (n # vis) (snd (roles_grant R p ns (n # vis)))"
      using 2 nov by simp
    ultimately show ?thesis using nov by (auto simp: searched_def)
  next
    case (3 r)
    obtain g v where gv: "roles_grant R p (role_parents r) (n # vis) = (g, v)"
      by (cases "roles_grant R p (role_parents r) (n # vis)")
    have no: "\<not> grants r p" "\<not> g" using "2.prems" 3 gv by (auto split: if_splits)
    let ?w = "snd (roles_grant R p ns v)"
    have a: "searched R p (role_parents r) (n # vis) v" using "2.IH"(3) [OF 3 no(1)] gv no by simp
    have b: "searched R p ns v ?w"
      using "2.IH"(4) [OF 3 no(1) gv [symmetric] no(2)] "2.prems" 3 gv no by simp
    have n: "\<not> granting R p n" "parent_rel R `` {n} \<subseteq> set v"
      using 3 no a by (auto simp: granting_def parent_rel_def searched_def)
    have "\<not> granting R p x \<and> parent_rel R `` {x} \<subseteq> set ?w" if "x \<in> set ?w - set vis" for x
    proof (cases "x \<in> set v")
      case False
      then show ?thesis using that b by (simp add: searched_def)
    next
      case True
      have "set v \<subseteq> set ?w" using b by (simp add: searched_def)
      moreover have "\<not> granting R p x \<and> parent_rel R `` {x} \<subseteq> set v"
        using True that a n by (cases "x = n") (auto simp: searched_def)
      ultimately show ?thesis by blast
    qed
    then show ?thesis using a b 3 gv no by (auto simp: searched_def)
  qed
qed (simp add: searched_def)

lemma roleHasPermission_iff:
  "roleHasPermission s n p \<longleftrightarrow> (\<exists>m. (n, m) \<in> (parent_rel (rb_roles s))\<^sup>* \<and> granting (rb_roles s) p m)"
proof
  assume "roleHasPermission s n p"
  then show "\<exists>m. (n, m) \<in> (parent_rel (rb_roles s))\<^sup>* \<and> granting (rb_roles s) p m"
    using roles_grant_sound [of "rb_roles s" p "[n]" "[]"] by (simp add: roleHasPermission_def)
next
  assume ex: "\<exists>m. (n, m) \<in> (parent_rel (rb_roles s))\<^sup>* \<and> granting (rb_roles s) p m"
  show "roleHasPermission s n p"
  proof (rule ccontr)
    let ?v = "set (snd (roles_grant (rb_roles s) p [n] []))"
    assume "\<not> roleHasPermission s n p"
    then have c: "n \<in> ?v" "\<forall>x \<in> ?v. \<not> granting (rb_roles s) p x \<and> parent_rel (rb_roles s) `` {x} \<subseteq> ?v"
      using roles_grant_closed [of "rb_roles s" p "[n]" "[]"]
      by (simp_all add: roleHasPermission_def searched_def)
    have "m \<in> ?v" if "(n, m) \<in> (parent_rel (rb_roles s))\<^sup>*" for m
      using that by (induction) (use c in auto)
    with ex c show False by auto
  qed
qed

text \<open>
  The permission check: a user has a permission exactly when one of the user's roles, or a role
  it inherits from through any chain of parents, cyclic hierarchies included, has a permission that
  is the wildcard, the permission itself or a prefix pattern of it.
\<close>

theorem HasPermission_iff:
  "HasPermission s u p \<longleftrightarrow> (\<exists>n \<in> set (GetUserRoles s u). \<exists>m r.
     (n, m) \<in> (parent_rel (rb_roles s))\<^sup>* \<and> map_of (rb_roles s) m = Some r \<and>
     (\<exists>q \<in> set (role_permissions r). q = ''*'' \<or> q = p \<or> matchPermission q p))"
  by (auto simp: HasPermission_def roleHasPermission_iff granting_def grants_def list_ex_iff)

text \<open>
  The default roles: with no configuration, a user assigned the admin role has every permission,
  and a user without roles has exactly read, list, create and update (the default role's).
\<close>

theorem default_roles_permissions:
  "HasPermission (snd (AssignRole u ''admin'' (NewRBACProvider None))) u p \<and>
   (HasPermission (NewRBACProvider None) v p \<longleftrightarrow> p \<in> {''read'', ''list'', ''create'', ''update''})"
proof -
  let ?s = "NewRBACProvider None"
  have roles: "map fst (rb_roles ?s) = [''admin'', ''user'', ''guest'', ''service'']"
    by (simp add: NewRBACProvider_def initializeDefaultRoles_def CreateRole_def Let_def)
  have "roleHasPermission (snd (AssignRole u ''admin'' ?s)) ''admin'' p"
    by (simp add: roleHasPermission_def AssignRole_def NewRBACProvider_def initializeDefaultRoles_def
        CreateRole_def Let_def grants_def user_roles_def stringSliceContains_def)
  moreover have "''admin'' \<in> set (GetUserRoles (snd (AssignRole u ''admin'' ?s)) u)"
    by (simp add: GetUserRoles_def AssignRole_def NewRBACProvider_def initializeDefaultRoles_def
        CreateRole_def Let_def user_roles_def stringSliceContains_def)
  moreover have "HasPermission ?s v p \<longleftrightarrow> roleHasPermission ?s ''user'' p"
    by (simp add: HasPermission_def GetUserRoles_def user_roles_def NewRBACProvider_def
        initializeDefaultRoles_def CreateRole_def Let_def)
  moreover have "roleHasPermission ?s ''user'' p \<longleftrightarrow> p \<in> {''read'', ''list'', ''create'', ''update''}"
    by (auto simp: roleHasPermission_def NewRBACProvider_def initializeDefaultRoles_def
        CreateRole_def Let_def grants_def matchPermission_def)
  ultimately show ?thesis by (auto simp: HasPermission_def list_ex_iff)
qed

text \<open>
  A role of the configured hierarchy that has the name of a default role keeps the default
  permissions from being created: with a hierarchy entry for admin that names no parents, an admin
  has no permission at all.
\<close>

theorem hierarchy_hides_default_role:
  "\<not> HasPermission (snd (AssignRole u ''admin'' (NewRBACProvider (Some
      \<lparr>rc_default_role = ''user'', rc_role_hierarchy = [(''admin'', [])], rc_resource_permissions = None\<rparr>)))) u p"
  by (simp add: HasPermission_def roleHasPermission_def GetUserRoles_def AssignRole_def
      NewRBACProvider_def initializeDefaultRoles_def CreateRole_def Let_def user_roles_def
      stringSliceContains_def grants_def)

subsection \<open>Roles stay roles\<close>

text \<open>The state invariant: role names are distinct and are the names in the roles, and users only have
  roles that were created. Deleting and removing roles keep it; assignment checks for existence.\<close>

definition rbac_inv :: "rbac \<Rightarrow> bool" where
  "rbac_inv s \<longleftrightarrow> distinct (map fst (rb_roles s)) \<and> list_all (\<lambda>(n, r). role_name r = n) (rb_roles s) \<and>
     (\<forall>u. set (user_roles s u) \<subseteq> set (map fst (rb_roles s)))"

datatype rbac_op =
    OpCreateRole string string "string list" "string list"
  | OpDeleteRole string
  | OpAssignRole string string
  | OpRemoveRole string string
  | OpSetResourcePermissions string "string list"

fun rbac_step :: "rbac_op \<Rightarrow> rbac \<Rightarrow> rbac" where
  "rbac_step (OpCreateRole n d ps qs) s = snd (CreateRole n d ps qs s)"
| "rbac_step (OpDeleteRole n) s = snd (DeleteRole n s)"
| "rbac_step (OpAssignRole u n) s = snd (AssignRole u n s)"
| "rbac_step (OpRemoveRole u n) s = snd (RemoveRole u n s)"
| "rbac_step (OpSetResourcePermissions r ps) s =
     (case SetResourcePermissions r ps s of Ok s' \<Rightarrow> s' | _ \<Rightarrow> s)"

lemma CreateRole_inv [inv_intros]: "rbac_inv s \<Longrightarrow> rbac_inv (snd (CreateRole n d ps qs s))"
  by (auto simp: rbac_inv_def CreateRole_def user_roles_def)

lemma distinct_filter_fst: "distinct (map fst xs) \<Longrightarrow> distinct (map fst (filter P xs))"
  by (simp add: distinct_map inj_on_def)

lemma DeleteRole_inv [inv_intros]: "rbac_inv s \<Longrightarrow> rbac_inv (snd (DeleteRole n s))"
proof -
  assume inv: "rbac_inv s"
  show ?thesis
  proof (cases "n = rb_default_role s")
    case True
    with inv show ?thesis by (simp add: DeleteRole_def)
  next
    case False
    let ?s = "snd (DeleteRole n s)"
    have r: "rb_roles ?s = filter (\<lambda>(m, r). m \<noteq> n) (rb_roles s)"
      using False by (simp add: DeleteRole_def)
    have u: "user_roles ?s u = removeStringFromSlice (user_roles s u) n" for u
      using False by (cases "rb_user_roles s u") (simp_all add: DeleteRole_def user_roles_def removeStringFromSlice_def)
    have "set (user_roles ?s u) \<subseteq> set (map fst (rb_roles ?s))" for u
      using inv unfolding u r by (fastforce simp: rbac_inv_def removeStringFromSlice_def)
    then show ?thesis
      using inv unfolding rbac_inv_def r by (auto simp: distinct_filter_fst list_all_iff)
  qed
qed

lemma AssignRole_inv [inv_intros]: "rbac_inv s \<Longrightarrow> rbac_inv (snd (AssignRole u n s))"
  by (auto simp: rbac_inv_def AssignRole_def user_roles_def split: if_splits)

lemma RemoveRole_inv [inv_intros]: "rbac_inv s \<Longrightarrow> rbac_inv (snd (RemoveRole u n s))"
  by (auto simp: rbac_inv_def RemoveRole_def user_roles_def removeStringFromSlice_def
      split: option.splits if_splits)

lemma SetResourcePermissions_inv [inv_intros]:
  "rbac_inv s \<Longrightarrow> rbac_inv (case SetResourcePermissions r ps s of Ok s' \<Rightarrow> s' | _ \<Rightarrow> s)"
  by (auto simp: SetResourcePermissions_def rbac_inv_def user_roles_def split: option.splits)

lemma rbac_step_inv: "rbac_inv s \<Longrightarrow> rbac_inv (rbac_step op s)"
  by (cases op) (simp_all only: rbac_step.simps inv_intros)

lemma NewRBACProvider_inv:
  assumes "case config of None \<Rightarrow> True | Some c \<Rightarrow> distinct (map fst (rc_role_hierarchy c))"
  shows "rbac_inv (NewRBACProvider config)"
proof -
  have "rbac_inv \<lparr>rb_roles = [], rb_user_roles = Map.empty, rb_resource_perms = Some Map.empty,
      rb_default_role = ''user''\<rparr>"
    by (simp add: rbac_inv_def user_roles_def)
  moreover have "rbac_inv \<lparr>rb_roles = map (\<lambda>(n, ps). (n, \<lparr>role_name = n, role_description = [],
      role_permissions = [], role_parents = ps\<rparr>)) h, rb_user_roles = Map.empty, rb_resource_perms = m,
      rb_default_role = d\<rparr>" if "distinct (map fst h)" for h m d
    using that by (auto simp: rbac_inv_def user_roles_def comp_def split_def list_all_iff)
  ultimately show ?thesis
    using assms unfolding NewRBACProvider_def initializeDefaultRoles_def Let_def
    by (cases config) (simp_all add: CreateRole_inv)
qed



end
