(* ===== verification/Pagination.thy ===== *)
theory Pagination
  imports Messages Errors
begin

section \<open>Pagination (\<open>pkg/pagination\<close>, \<open>pkg/client/pagination.go\<close>)\<close>

text \<open>
  Validation and defaults of the page parameters, the collector that tracks the pages of a listing,
  and the client's \<open>FetchAllPages\<close> loop. The locale \<open>paged\<close> is the contract between the loop and a
  source of pages: what a source promises about the page it returns at a cursor, and that the loop
  then terminates with everything the source has.
\<close>

definition DefaultLimit :: int where "DefaultLimit = 50"
definition MaxLimit :: int where "MaxLimit = 200"

definition ErrInvalidLimit :: goerr where
  "ErrInvalidLimit = ErrText ''pagination limit must be greater than 0 and less than or equal to MaxLimit''"

definition ValidateParams :: "pagination_params option \<Rightarrow> goerr option" where
  "ValidateParams params =
     (case params of
        None \<Rightarrow> None
      | Some p \<Rightarrow>
          if pg_limit p < 0 then
            Some (ErrWrapped (Error ErrInvalidLimit @ '': got '' @ show_int (pg_limit p)) ErrInvalidLimit)
          else if MaxLimit < pg_limit p then
            Some (ErrWrapped (Error ErrInvalidLimit @ '': got '' @ show_int (pg_limit p) @ '', max is ''
                    @ show_int MaxLimit) ErrInvalidLimit)
          else None)"

definition ApplyDefaults :: "pagination_params option \<Rightarrow> pagination_params" where
  "ApplyDefaults params =
     (case params of
        None \<Rightarrow> \<lparr>pg_limit = DefaultLimit, pg_cursor = []\<rparr>
      | Some p \<Rightarrow>
          let l = (if pg_limit p \<le> 0 then DefaultLimit else pg_limit p)
          in \<lparr>pg_limit = (if MaxLimit < l then MaxLimit else l), pg_cursor = pg_cursor p\<rparr>)"

definition HasNextPage :: "pagination_result option \<Rightarrow> bool" where
  "HasNextPage r = (case r of None \<Rightarrow> False | Some x \<Rightarrow> pgr_has_more x \<and> pgr_next_cursor x \<noteq> [])"

definition page_result :: "int \<Rightarrow> string \<Rightarrow> bool \<Rightarrow> pagination_result" where
  "page_result count nxt has_more =
     \<lparr>pgr_items = None, pgr_total_count = count, pgr_next_cursor = nxt, pgr_has_more = has_more\<rparr>"

record collector =
  NextCursor :: string
  HasMore :: bool
  TotalItems :: int

definition NewCollector :: collector where
  "NewCollector = \<lparr>NextCursor = [], HasMore = True, TotalItems = 0\<rparr>"

definition Update :: "pagination_result option \<Rightarrow> collector \<Rightarrow> collector" where
  "Update r c =
     (case r of
        None \<Rightarrow> c\<lparr>HasMore := False\<rparr>
      | Some x \<Rightarrow> c\<lparr>NextCursor := pgr_next_cursor x,
                    HasMore := pgr_has_more x \<and> pgr_next_cursor x \<noteq> [],
                    TotalItems := TotalItems c + (case pgr_items x of None \<Rightarrow> 0 | Some is \<Rightarrow> int (length is))\<rparr>)"

definition NextParams :: "pagination_params option \<Rightarrow> collector \<Rightarrow> pagination_params" where
  "NextParams base c = (ApplyDefaults base)\<lparr>pg_cursor := NextCursor c\<rparr>"

subsection \<open>Fetching all pages\<close>

text \<open>The items of a page are a slice of one of the known types, or something else. The function that
  fetches a page may update the caller's variables, the state \<open>'s\<close>.\<close>

datatype 'a fetched = Items "'a list" | UnsupportedItems string

type_synonym ('s, 'a) fetcher =
  "pagination_params \<Rightarrow> 's \<Rightarrow> (goerr + (pagination_result option \<times> 'a fetched)) \<times> 's"

partial_function (option) fetch_loop ::
    "('s, 'a) fetcher \<Rightarrow> pagination_params \<Rightarrow> collector \<Rightarrow> 'a list \<Rightarrow> 's \<Rightarrow> ((goerr + 'a list) \<times> 's) option"
  where
  "fetch_loop fetch params c acc s =
     (if \<not> HasMore c then Some (Inr acc, s)
      else (case fetch params s of
              (Inl e, s') \<Rightarrow> Some (Inl e, s')
            | (Inr (r, its), s') \<Rightarrow>
                (case its of
                   UnsupportedItems t \<Rightarrow> Some (Inl (ErrText (''unsupported items type: '' @ t)), s')
                 | Items xs \<Rightarrow>
                     if \<not> HasMore (Update r c) then Some (Inr (acc @ xs), s')
                     else fetch_loop fetch (NextParams (Some params) (Update r c)) (Update r c) (acc @ xs) s')))"

definition FetchAllPages ::
    "pagination_params option \<Rightarrow> ('s, 'a) fetcher \<Rightarrow> 's \<Rightarrow> ((goerr + 'a list) \<times> 's) option" where
  "FetchAllPages init fetch s =
     (case ValidateParams init of
        Some e \<Rightarrow> Some (Inl (ErrWrapped (''invalid pagination parameters: '' @ Error e) e), s)
      | None \<Rightarrow> fetch_loop fetch (ApplyDefaults init) NewCollector [] s)"

subsection \<open>Bounds of the parameters\<close>

lemma apply_defaults_aux:
  assumes "\<forall>p. init = Some p \<longrightarrow> pg_cursor p = []"
  obtains l where "ApplyDefaults init = \<lparr>pg_limit = l, pg_cursor = []\<rparr>" "1 \<le> l" "l \<le> MaxLimit"
  using assms
  by (cases init) (auto simp: ApplyDefaults_def MaxLimit_def DefaultLimit_def Let_def)

text \<open>
  Defaults: whatever parameters are given, the page size asked for is between 1 and the
  maximum, the cursor is the caller's, parameters that pass validation with a positive limit are
  left as they are, and applying the defaults twice is applying them once.
\<close>

theorem apply_defaults_bounds:
  "1 \<le> pg_limit (ApplyDefaults p) \<and> pg_limit (ApplyDefaults p) \<le> MaxLimit \<and>
   pg_cursor (ApplyDefaults p) = (case p of None \<Rightarrow> [] | Some q \<Rightarrow> pg_cursor q) \<and>
   (ValidateParams (Some q) = None \<and> 0 < pg_limit q \<longrightarrow> ApplyDefaults (Some q) = q) \<and>
   ApplyDefaults (Some (ApplyDefaults p)) = ApplyDefaults p"
proof (intro conjI)
  show "ValidateParams (Some q) = None \<and> 0 < pg_limit q \<longrightarrow> ApplyDefaults (Some q) = q"
    by (cases q) (simp add: ApplyDefaults_def ValidateParams_def MaxLimit_def Let_def split: if_splits)
qed (cases p; simp add: ApplyDefaults_def MaxLimit_def DefaultLimit_def Let_def)+

theorem apply_defaults_bounds_witness:
  "ApplyDefaults (Some \<lparr>pg_limit = 7, pg_cursor = ''abc''\<rparr>) = \<lparr>pg_limit = 7, pg_cursor = ''abc''\<rparr>"
  using apply_defaults_bounds [of None "\<lparr>pg_limit = 7, pg_cursor = ''abc''\<rparr>"]
  by (simp add: ValidateParams_def MaxLimit_def)

subsection \<open>The contract of a source of pages\<close>

text \<open>
  A source has \<open>total\<close> positions; the page at the cursor of position \<open>k\<close> ends at some position \<open>m\<close>,
  past \<open>k\<close> unless everything was returned, holds the items \<open>part k m\<close>, leaves a state that belongs
  to position \<open>m\<close> and says whether there are more.
\<close>

locale paged =
  fixes fetch :: "('s, 'a) fetcher"
    and total :: nat
    and part :: "nat \<Rightarrow> nat \<Rightarrow> 'a list"
    and st :: "nat \<Rightarrow> 's \<Rightarrow> bool"
    and cursor_at :: "nat \<Rightarrow> string"
  assumes cursor_at_0: "cursor_at 0 = []"
    and part_append: "k \<le> m \<Longrightarrow> m \<le> n \<Longrightarrow> n \<le> total \<Longrightarrow> part k m @ part m n = part k n"
    and page: "total < 2 ^ 61 \<Longrightarrow> k < total \<or> k = 0 \<Longrightarrow> 1 \<le> l \<Longrightarrow> l \<le> MaxLimit \<Longrightarrow> st k s \<Longrightarrow>
      \<exists>m r s'. fetch \<lparr>pg_limit = l, pg_cursor = cursor_at k\<rparr> s = (Inr (Some r, Items (part k m)), s') \<and> st m s'
        \<and> k \<le> m \<and> m \<le> total \<and> (k < m \<or> m = total)
        \<and> pgr_has_more r = (m < total) \<and> (m < total \<longrightarrow> pgr_next_cursor r = cursor_at m \<and> cursor_at m \<noteq> [])"
begin

lemma fetch_loop_from:
  assumes "total < 2 ^ 61" "k < total \<or> k = 0" "1 \<le> l" "l \<le> MaxLimit" "HasMore c" "st k s"
  shows "\<exists>s'. fetch_loop fetch \<lparr>pg_limit = l, pg_cursor = cursor_at k\<rparr> c acc s
    = Some (Inr (acc @ part k total), s') \<and> st total s'"
  using assms
proof (induction "total - k" arbitrary: k c acc s rule: less_induct)
  case less
  obtain m r s1 where f: "fetch \<lparr>pg_limit = l, pg_cursor = cursor_at k\<rparr> s = (Inr (Some r, Items (part k m)), s1)"
    and s1: "st m s1" and m: "k \<le> m" "m \<le> total" "k < m \<or> m = total" and more: "pgr_has_more r = (m < total)"
    and next_at: "m < total \<longrightarrow> pgr_next_cursor r = cursor_at m \<and> cursor_at m \<noteq> []"
    using page [OF less.prems(1-4,6)] by blast
  let ?c = "Update (Some r) c"
  have has: "HasMore ?c = (m < total)" using more next_at by (auto simp: Update_def)
  show ?case
  proof (cases "m < total")
    case False
    with m have "m = total" by simp
    with less.prems has f s1 show ?thesis by (subst fetch_loop.simps) simp
  next
    case True
    with next_at have cur: "NextCursor ?c = cursor_at m" by (simp add: Update_def)
    have np: "NextParams (Some \<lparr>pg_limit = l, pg_cursor = cursor_at k\<rparr>) ?c = \<lparr>pg_limit = l, pg_cursor = cursor_at m\<rparr>"
      using less.prems(3,4) cur by (simp add: NextParams_def ApplyDefaults_def)
    have "total - m < total - k" using True m by auto
    then obtain s' where "fetch_loop fetch \<lparr>pg_limit = l, pg_cursor = cursor_at m\<rparr> ?c (acc @ part k m) s1
        = Some (Inr ((acc @ part k m) @ part m total), s')" "st total s'"
      using less.hyps [of m ?c s1 "acc @ part k m"] less.prems True has s1 by auto
    moreover have "part k m @ part m total = part k total"
      using m by (intro part_append) simp_all
    ultimately show ?thesis
      using less.prems has True f np by (subst fetch_loop.simps) simp
  qed
qed

lemma fetch_all_pages:
  assumes "total < 2 ^ 61" "ValidateParams init = None" "\<forall>p. init = Some p \<longrightarrow> pg_cursor p = []" "st 0 s"
  shows "\<exists>s'. FetchAllPages init fetch s = Some (Inr (part 0 total), s') \<and> st total s'"
proof -
  obtain l where l: "ApplyDefaults init = \<lparr>pg_limit = l, pg_cursor = cursor_at 0\<rparr>" "1 \<le> l" "l \<le> MaxLimit"
    using apply_defaults_aux [OF assms(3)] cursor_at_0 by metis
  then show ?thesis
    using assms fetch_loop_from [of 0 l NewCollector s "[]"]
    by (simp add: FetchAllPages_def NewCollector_def)
qed

end

end
