(* ===== verification/Base64.thy ===== *)
theory Base64
  imports Prelude
begin

section \<open>Standard base64, as the pagination cursors use it\<close>

text \<open>
  \<open>base64.StdEncoding\<close> of the Go library: the padded encoding of a byte string and the decoder,
  which skips carriage returns and newlines, and accepts padding only in the last quantum.
\<close>

definition b64_alphabet :: string where
  "b64_alphabet = ''ABCDEFGHIJKLMNOPQRSTUVWXYZabcdefghijklmnopqrstuvwxyz0123456789+/''"

definition b64_char :: "nat \<Rightarrow> char" where
  "b64_char n = b64_alphabet ! n"

fun index_of :: "char \<Rightarrow> string \<Rightarrow> nat option" where
  "index_of c [] = None"
| "index_of c (x # xs) = (if c = x then Some 0 else map_option Suc (index_of c xs))"

definition b64_val :: "char \<Rightarrow> nat option" where
  "b64_val c = index_of c b64_alphabet"

fun b64_encode :: "string \<Rightarrow> string" where
  "b64_encode [] = []"
| "b64_encode [a] =
     (let x = of_char a :: nat in
      [b64_char (x div 4), b64_char (x mod 4 * 16), CHR ''='', CHR ''=''])"
| "b64_encode [a, b] =
     (let x = of_char a :: nat; y = of_char b :: nat in
      [b64_char (x div 4), b64_char (x mod 4 * 16 + y div 16), b64_char (y mod 16 * 4), CHR ''=''])"
| "b64_encode (a # b # c # r) =
     (let x = of_char a :: nat; y = of_char b :: nat; z = of_char c :: nat in
      [b64_char (x div 4), b64_char (x mod 4 * 16 + y div 16), b64_char (y mod 16 * 4 + z div 64),
       b64_char (z mod 64)] @ b64_encode r)"

definition byte1 :: "nat \<Rightarrow> nat \<Rightarrow> char" where
  "byte1 w x = char_of (w * 4 + x div 16)"

definition byte2 :: "nat \<Rightarrow> nat \<Rightarrow> char" where
  "byte2 x y = char_of (x mod 16 * 16 + y div 4)"

definition byte3 :: "nat \<Rightarrow> nat \<Rightarrow> char" where
  "byte3 y z = char_of (y mod 4 * 64 + z)"

fun b64_quanta :: "string \<Rightarrow> string option" where
  "b64_quanta [] = Some []"
| "b64_quanta (w # x # y # z # r) =
     (case (b64_val w, b64_val x) of
        (Some w', Some x') \<Rightarrow>
          if z = CHR ''='' then
            (if r \<noteq> [] then None
             else if y = CHR ''='' then Some [byte1 w' x']
             else (case b64_val y of None \<Rightarrow> None | Some y' \<Rightarrow> Some [byte1 w' x', byte2 x' y']))
          else
            (case (b64_val y, b64_val z) of
               (Some y', Some z') \<Rightarrow>
                 map_option (\<lambda>t. [byte1 w' x', byte2 x' y', byte3 y' z'] @ t) (b64_quanta r)
             | _ \<Rightarrow> None)
      | _ \<Rightarrow> None)"
| "b64_quanta _ = None"

definition b64_decode :: "string \<Rightarrow> string option" where
  "b64_decode s = b64_quanta (filter (\<lambda>c. of_char c \<notin> {10, 13 :: nat}) s)"

subsection \<open>Round trip\<close>

lemma b64_alphabet_all:
  "list_all (\<lambda>n. b64_val (b64_char n) = Some n \<and> b64_char n \<noteq> CHR ''=''
     \<and> of_char (b64_char n) \<notin> {10, 13 :: nat}) [0..<64]"
  by code_simp

lemma b64_char_props:
  assumes "n < 64"
  shows "b64_val (b64_char n) = Some n" "b64_char n \<noteq> CHR ''=''"
    "of_char (b64_char n) \<noteq> (10 :: nat)" "of_char (b64_char n) \<noteq> (13 :: nat)"
  using b64_alphabet_all assms by (auto simp: list_all_iff)

lemma of_char_bound [simp]: "(of_char c :: nat) < 256"
  by (rule nat_of_char_less_256)

lemma quantum_arith:
  fixes x y z :: nat
  assumes "x < 256" "y < 256" "z < 256"
  shows "(x mod 4 * 16 + y div 16) div 16 = x mod 4"
    "(x mod 4 * 16 + y div 16) mod 16 = y div 16"
    "(y mod 16 * 4 + z div 64) div 4 = y mod 16"
    "(y mod 16 * 4 + z div 64) mod 4 = z div 64"
    "y div 16 mod 16 = y div 16" "z div 64 mod 4 = z div 64"
proof -
  have u: "y div 16 < 16" and v: "z div 64 < 4" using assms by (simp_all add: div_less_iff_less_mult)
  from u show "(x mod 4 * 16 + y div 16) div 16 = x mod 4" by simp
  from u show "(x mod 4 * 16 + y div 16) mod 16 = y div 16" by simp
  from v show "(y mod 16 * 4 + z div 64) div 4 = y mod 16" by simp
  from v show "(y mod 16 * 4 + z div 64) mod 4 = z div 64" by simp
  from u v show "y div 16 mod 16 = y div 16" "z div 64 mod 4 = z div 64" by simp_all
qed

lemma byte_quanta [simp]:
  fixes a b c :: char
  defines "x \<equiv> of_char a :: nat" and "y \<equiv> of_char b :: nat" and "z \<equiv> of_char c :: nat"
  shows "byte1 (x div 4) (x mod 4 * 16 + y div 16) = a"
    and "byte1 (x div 4) (x mod 4 * 16) = a"
    and "byte2 (x mod 4 * 16 + y div 16) (y mod 16 * 4 + z div 64) = b"
    and "byte2 (x mod 4 * 16 + y div 16) (y mod 16 * 4) = b"
    and "byte3 (y mod 16 * 4 + z div 64) (z mod 64) = c"
proof -
  have bounds: "x < 256" "y < 256" "z < 256"
    by (simp_all add: x_def y_def z_def)
  note q = quantum_arith [OF bounds]
  have chars: "char_of x = a" "char_of y = b" "char_of z = c"
    by (simp_all add: x_def y_def z_def)
  show "byte1 (x div 4) (x mod 4 * 16 + y div 16) = a" "byte1 (x div 4) (x mod 4 * 16) = a"
    "byte2 (x mod 4 * 16 + y div 16) (y mod 16 * 4 + z div 64) = b"
    "byte2 (x mod 4 * 16 + y div 16) (y mod 16 * 4) = b"
    "byte3 (y mod 16 * 4 + z div 64) (z mod 64) = c"
    by (simp_all add: byte1_def byte2_def byte3_def q chars div_mult_mod_eq)
qed

lemma b64_range:
  fixes a b c :: char
  shows "(of_char a :: nat) div 4 < 64" "(of_char a :: nat) mod 4 * 16 < 64"
    "(of_char a :: nat) mod 4 * 16 + of_char b div 16 < 64"
    "(of_char b :: nat) mod 16 * 4 < 64"
    "(of_char b :: nat) mod 16 * 4 + of_char c div 64 < 64" "(of_char c :: nat) mod 64 < 64"
proof -
  have ab: "(of_char a :: nat) < 64 * 4" "(of_char b :: nat) < 16 * 16" "(of_char c :: nat) < 4 * 64"
    using of_char_bound [of a] of_char_bound [of b] of_char_bound [of c] by simp_all
  have m: "(of_char a :: nat) mod 4 < 4" "(of_char b :: nat) mod 16 < 16" by simp_all
  have d: "(of_char b :: nat) div 16 < 16" "(of_char c :: nat) div 64 < 4"
    using ab by (simp_all add: div_less_iff_less_mult)
  show "(of_char a :: nat) div 4 < 64" using ab by (simp add: div_less_iff_less_mult)
  show "(of_char a :: nat) mod 4 * 16 < 64" "(of_char a :: nat) mod 4 * 16 + of_char b div 16 < 64"
    "(of_char b :: nat) mod 16 * 4 < 64" "(of_char b :: nat) mod 16 * 4 + of_char c div 64 < 64"
    using m d by linarith+
  show "(of_char c :: nat) mod 64 < 64" by simp
qed

lemma b64_quanta_encode: "b64_quanta (b64_encode s) = Some s"
  by (induction s rule: b64_encode.induct)
    (simp_all add: Let_def b64_char_props b64_range del: One_nat_def)

lemma b64_encode_no_newline: "filter (\<lambda>c. of_char c \<notin> {10, 13 :: nat}) (b64_encode s) = b64_encode s"
  by (induction s rule: b64_encode.induct)
    (simp_all add: Let_def b64_char_props b64_range del: One_nat_def)

theorem b64_decode_encode [simp]: "b64_decode (b64_encode s) = Some s"
  unfolding b64_decode_def by (simp only: b64_encode_no_newline b64_quanta_encode)

lemma b64_encode_eq_Nil [simp]: "b64_encode s = [] \<longleftrightarrow> s = []"
  by (cases s rule: b64_encode.cases) (simp_all add: Let_def)

end
