(* ===== verification/ErrorCodes.thy ===== *)
theory ErrorCodes
  imports Errors
begin

section \<open>Error codes and constructors (\<open>codes.go\<close>, \<open>mcp.go\<close>, \<open>validation.go\<close>, \<open>transport.go\<close>)\<close>

text \<open>
  The error codes with the registry of their names, descriptions, categories and severities, and
  the constructors of structured errors. A constructor that reads the text of its cause without a
  guard panics when the cause is nil.
\<close>

subsection \<open>Codes\<close>

abbreviation CodeParseError :: int where "CodeParseError \<equiv> - 32700"
abbreviation CodeInvalidRequest :: int where "CodeInvalidRequest \<equiv> - 32600"
abbreviation CodeMethodNotFound :: int where "CodeMethodNotFound \<equiv> - 32601"
abbreviation CodeInvalidParams :: int where "CodeInvalidParams \<equiv> - 32602"
abbreviation CodeInternalError :: int where "CodeInternalError \<equiv> - 32603"
abbreviation CodeServerInitError :: int where "CodeServerInitError \<equiv> - 32000"
abbreviation CodeServerNotReady :: int where "CodeServerNotReady \<equiv> - 32001"
abbreviation CodeUnauthorized :: int where "CodeUnauthorized \<equiv> - 32100"
abbreviation CodeAuthRequired :: int where "CodeAuthRequired \<equiv> - 32101"
abbreviation CodeInvalidToken :: int where "CodeInvalidToken \<equiv> - 32102"
abbreviation CodeTokenExpired :: int where "CodeTokenExpired \<equiv> - 32103"
abbreviation CodeInsufficientPerms :: int where "CodeInsufficientPerms \<equiv> - 32104"
abbreviation CodeResourceNotFound :: int where "CodeResourceNotFound \<equiv> - 32200"
abbreviation CodeResourceUnavailable :: int where "CodeResourceUnavailable \<equiv> - 32201"
abbreviation CodeResourceConflict :: int where "CodeResourceConflict \<equiv> - 32202"
abbreviation CodeResourceLocked :: int where "CodeResourceLocked \<equiv> - 32203"
abbreviation CodeOperationCancelled :: int where "CodeOperationCancelled \<equiv> - 32300"
abbreviation CodeOperationTimeout :: int where "CodeOperationTimeout \<equiv> - 32301"
abbreviation CodeOperationFailed :: int where "CodeOperationFailed \<equiv> - 32302"
abbreviation CodeOperationNotSupported :: int where "CodeOperationNotSupported \<equiv> - 32303"
abbreviation CodeInvalidCapability :: int where "CodeInvalidCapability \<equiv> - 32400"
abbreviation CodeCapabilityRequired :: int where "CodeCapabilityRequired \<equiv> - 32401"
abbreviation CodeCapabilityMismatch :: int where "CodeCapabilityMismatch \<equiv> - 32402"
abbreviation CodeTransportError :: int where "CodeTransportError \<equiv> - 32500"
abbreviation CodeConnectionFailed :: int where "CodeConnectionFailed \<equiv> - 32501"
abbreviation CodeConnectionLost :: int where "CodeConnectionLost \<equiv> - 32502"
abbreviation CodeConnectionTimeout :: int where "CodeConnectionTimeout \<equiv> - 32503"
abbreviation CodeProviderNotConfigured :: int where "CodeProviderNotConfigured \<equiv> - 32650"
abbreviation CodeProviderUnavailable :: int where "CodeProviderUnavailable \<equiv> - 32651"
abbreviation CodeProviderError :: int where "CodeProviderError \<equiv> - 32652"
abbreviation CodeValidationError :: int where "CodeValidationError \<equiv> - 32750"
abbreviation CodeMissingParameter :: int where "CodeMissingParameter \<equiv> - 32751"
abbreviation CodeInvalidParameter :: int where "CodeInvalidParameter \<equiv> - 32752"
abbreviation CodeParameterTooLarge :: int where "CodeParameterTooLarge \<equiv> - 32753"
abbreviation CodeParameterTooSmall :: int where "CodeParameterTooSmall \<equiv> - 32754"
abbreviation CodeInvalidFormat :: int where "CodeInvalidFormat \<equiv> - 32755"
abbreviation CodeInvalidPagination :: int where "CodeInvalidPagination \<equiv> - 32800"
abbreviation CodeInvalidCursor :: int where "CodeInvalidCursor \<equiv> - 32801"
abbreviation CodeInvalidLimit :: int where "CodeInvalidLimit \<equiv> - 32802"
abbreviation CodeProtocolError :: int where "CodeProtocolError \<equiv> - 32900"
abbreviation CodeVersionMismatch :: int where "CodeVersionMismatch \<equiv> - 32901"
abbreviation CodeInvalidSequence :: int where "CodeInvalidSequence \<equiv> - 32902"
abbreviation CodeUnsupportedFeature :: int where "CodeUnsupportedFeature \<equiv> - 32903"

record code_info =
  info_code :: int
  info_name :: string
  info_description :: string
  info_category :: category
  info_severity :: severity

definition info :: "int \<Rightarrow> string \<Rightarrow> string \<Rightarrow> category \<Rightarrow> severity \<Rightarrow> int \<times> code_info" where
  "info c n d cat sev = (c, \<lparr>info_code = c, info_name = n, info_description = d,
     info_category = cat, info_severity = sev\<rparr>)"

definition errorCodeRegistry :: "(int \<times> code_info) list" where
  "errorCodeRegistry = [
     info CodeParseError ''ParseError'' ''Invalid JSON was received'' CategoryProtocol SeverityError,
     info CodeInvalidRequest ''InvalidRequest'' ''Invalid Request object'' CategoryProtocol SeverityError,
     info CodeMethodNotFound ''MethodNotFound'' ''Method does not exist'' CategoryProtocol SeverityError,
     info CodeInvalidParams ''InvalidParams'' ''Invalid method parameters'' CategoryValidation SeverityError,
     info CodeInternalError ''InternalError'' ''Internal JSON-RPC error'' CategoryInternal SeverityError,
     info CodeServerInitError ''ServerInitError'' ''Server initialization failed'' CategoryInternal SeverityCritical,
     info CodeServerNotReady ''ServerNotReady'' ''Server not ready'' CategoryInternal SeverityError,
     info CodeUnauthorized ''Unauthorized'' ''Client not authorized'' CategoryAuth SeverityError,
     info CodeAuthRequired ''AuthRequired'' ''Authentication required'' CategoryAuth SeverityError,
     info CodeInvalidToken ''InvalidToken'' ''Invalid authentication token'' CategoryAuth SeverityError,
     info CodeTokenExpired ''TokenExpired'' ''Authentication token expired'' CategoryAuth SeverityWarning,
     info CodeInsufficientPerms ''InsufficientPermissions'' ''Insufficient permissions'' CategoryAuth SeverityError,
     info CodeResourceNotFound ''ResourceNotFound'' ''Resource not found'' CategoryNotFound SeverityError,
     info CodeResourceUnavailable ''ResourceUnavailable'' ''Resource unavailable'' CategoryNotFound SeverityWarning,
     info CodeResourceConflict ''ResourceConflict'' ''Resource conflict'' CategoryValidation SeverityError,
     info CodeResourceLocked ''ResourceLocked'' ''Resource locked'' CategoryValidation SeverityWarning,
     info CodeOperationCancelled ''OperationCancelled'' ''Operation cancelled'' CategoryCancelled SeverityInfo,
     info CodeOperationTimeout ''OperationTimeout'' ''Operation timed out'' CategoryTimeout SeverityError,
     info CodeOperationFailed ''OperationFailed'' ''Operation failed'' CategoryInternal SeverityError,
     info CodeOperationNotSupported ''OperationNotSupported'' ''Operation not supported'' CategoryValidation SeverityError,
     info CodeInvalidCapability ''InvalidCapability'' ''Invalid capability'' CategoryValidation SeverityError,
     info CodeCapabilityRequired ''CapabilityRequired'' ''Required capability not enabled'' CategoryValidation SeverityError,
     info CodeCapabilityMismatch ''CapabilityMismatch'' ''Capability version mismatch'' CategoryValidation SeverityError,
     info CodeTransportError ''TransportError'' ''Transport error'' CategoryTransport SeverityError,
     info CodeConnectionFailed ''ConnectionFailed'' ''Connection failed'' CategoryTransport SeverityCritical,
     info CodeConnectionLost ''ConnectionLost'' ''Connection lost'' CategoryTransport SeverityError,
     info CodeConnectionTimeout ''ConnectionTimeout'' ''Connection timeout'' CategoryTransport SeverityError,
     info CodeProviderNotConfigured ''ProviderNotConfigured'' ''Provider not configured'' CategoryProvider SeverityError,
     info CodeProviderUnavailable ''ProviderUnavailable'' ''Provider unavailable'' CategoryProvider SeverityError,
     info CodeProviderError ''ProviderError'' ''Provider error'' CategoryProvider SeverityError,
     info CodeValidationError ''ValidationError'' ''Validation error'' CategoryValidation SeverityError,
     info CodeMissingParameter ''MissingParameter'' ''Required parameter missing'' CategoryValidation SeverityError,
     info CodeInvalidParameter ''InvalidParameter'' ''Invalid parameter value'' CategoryValidation SeverityError,
     info CodeParameterTooLarge ''ParameterTooLarge'' ''Parameter value too large'' CategoryValidation SeverityError,
     info CodeParameterTooSmall ''ParameterTooSmall'' ''Parameter value too small'' CategoryValidation SeverityError,
     info CodeInvalidFormat ''InvalidFormat'' ''Invalid parameter format'' CategoryValidation SeverityError,
     info CodeInvalidPagination ''InvalidPagination'' ''Invalid pagination parameters'' CategoryValidation SeverityError,
     info CodeInvalidCursor ''InvalidCursor'' ''Invalid pagination cursor'' CategoryValidation SeverityError,
     info CodeInvalidLimit ''InvalidLimit'' ''Invalid pagination limit'' CategoryValidation SeverityError,
     info CodeProtocolError ''ProtocolError'' ''Protocol error'' CategoryProtocol SeverityError,
     info CodeVersionMismatch ''VersionMismatch'' ''Protocol version mismatch'' CategoryProtocol SeverityError,
     info CodeInvalidSequence ''InvalidSequence'' ''Invalid message sequence'' CategoryProtocol SeverityError,
     info CodeUnsupportedFeature ''UnsupportedFeature'' ''Unsupported protocol feature'' CategoryProtocol SeverityError]"

definition GetErrorCodeInfo :: "int \<Rightarrow> code_info option" where
  "GetErrorCodeInfo code = map_of errorCodeRegistry code"

definition GetErrorCodeName :: "int \<Rightarrow> string" where
  "GetErrorCodeName code = (case GetErrorCodeInfo code of Some i \<Rightarrow> info_name i | None \<Rightarrow> ''UnknownError'')"

definition GetErrorCodeDescription :: "int \<Rightarrow> string" where
  "GetErrorCodeDescription code =
     (case GetErrorCodeInfo code of Some i \<Rightarrow> info_description i | None \<Rightarrow> ''Unknown error'')"

definition GetErrorCodeCategory :: "int \<Rightarrow> category" where
  "GetErrorCodeCategory code =
     (case GetErrorCodeInfo code of Some i \<Rightarrow> info_category i | None \<Rightarrow> CategoryInternal)"

definition GetErrorCodeSeverity :: "int \<Rightarrow> severity" where
  "GetErrorCodeSeverity code =
     (case GetErrorCodeInfo code of Some i \<Rightarrow> info_severity i | None \<Rightarrow> SeverityError)"

definition IsStandardJSONRPCCode :: "int \<Rightarrow> bool" where
  "IsStandardJSONRPCCode code \<longleftrightarrow> - 32768 \<le> code \<and> code \<le> - 32000"

definition IsMCPSpecificCode :: "int \<Rightarrow> bool" where
  "IsMCPSpecificCode code \<longleftrightarrow> - 32999 \<le> code \<and> code \<le> - 32000"

subsection \<open>Structured data of the constructors\<close>

definition flag :: "string \<Rightarrow> bool \<Rightarrow> string \<times> gval" where
  "flag k b = (k, GBool b)"

definition gomit_any :: "string \<Rightarrow> gval \<Rightarrow> (string \<times> gval) list" where
  "gomit_any k v = (if v = GNil then [] else [(k, v)])"

definition gomit_int :: "string \<Rightarrow> int \<Rightarrow> (string \<times> gval) list" where
  "gomit_int k i = (if i = 0 then [] else [(k, GInt i)])"

definition ResourceErrorData :: "string \<Rightarrow> string \<Rightarrow> string \<Rightarrow> bool \<Rightarrow> string \<Rightarrow> gval" where
  "ResourceErrorData rtype rid uri available reason = GStruct ''*errors.ResourceErrorData''
     ([(''resource_type'', GStr rtype)] @ gomit ''resource_id'' rid @ gomit ''uri'' uri
      @ [flag ''available'' available] @ gomit ''reason'' reason)"

definition ProviderErrorData :: "string \<Rightarrow> string \<Rightarrow> bool \<Rightarrow> bool \<Rightarrow> string \<Rightarrow> gval" where
  "ProviderErrorData ptype operation available configured reason = GStruct ''*errors.ProviderErrorData''
     ([(''provider_type'', GStr ptype)] @ gomit ''operation'' operation
      @ [flag ''available'' available, flag ''configured'' configured] @ gomit ''reason'' reason)"

definition CapabilityErrorData :: "string \<Rightarrow> bool \<Rightarrow> bool \<Rightarrow> string \<Rightarrow> string \<Rightarrow> gval" where
  "CapabilityErrorData cap required supported version reason = GStruct ''*errors.CapabilityErrorData''
     ([(''capability'', GStr cap), flag ''required'' required, flag ''supported'' supported]
      @ gomit ''version'' version @ gomit ''reason'' reason)"

definition OperationErrorData :: "string \<Rightarrow> string \<Rightarrow> string \<Rightarrow> bool \<Rightarrow> gval" where
  "OperationErrorData operation who reason retryable = GStruct ''*errors.OperationErrorData''
     ([(''operation'', GStr operation)] @ gomit ''component'' who @ gomit ''reason'' reason
      @ [flag ''retryable'' retryable])"

definition AuthErrorData :: "string \<Rightarrow> string list \<Rightarrow> string \<Rightarrow> gval" where
  "AuthErrorData token_type perms reason = GStruct ''*errors.AuthErrorData''
     ([flag ''required'' True] @ gomit ''token_type'' token_type
      @ (if perms = [] then [] else [(''permissions'', GList (map GStr perms))])
      @ gomit ''reason'' reason)"

definition ValidationErrorData :: "string \<Rightarrow> gval \<Rightarrow> string \<Rightarrow> string \<Rightarrow> string \<Rightarrow> gval" where
  "ValidationErrorData fld v expected got constraint = GStruct ''*errors.ValidationErrorData''
     ([(''field'', GStr fld)] @ gomit_any ''value'' v @ [(''expected'', GStr expected)]
      @ gomit ''got'' got @ gomit ''constraint'' constraint)"

definition ParameterErrorData :: "string \<Rightarrow> gval \<Rightarrow> string \<Rightarrow> bool \<Rightarrow> string \<Rightarrow> gval" where
  "ParameterErrorData param v typ required reason = GStruct ''*errors.ParameterErrorData''
     ([(''parameter'', GStr param)] @ gomit_any ''value'' v @ gomit ''type'' typ
      @ (if required then [flag ''required'' True] else []) @ gomit ''reason'' reason)"

definition PaginationErrorData :: "string \<Rightarrow> int \<Rightarrow> int \<Rightarrow> string \<Rightarrow> gval" where
  "PaginationErrorData cursor limit off reason = GStruct ''*errors.PaginationErrorData''
     (gomit ''cursor'' cursor @ gomit_int ''limit'' limit @ gomit_int ''offset'' off
      @ [(''reason'', GStr reason)])"

definition TransportErrorData ::
    "string \<Rightarrow> string \<Rightarrow> string \<Rightarrow> bool \<Rightarrow> bool \<Rightarrow> string \<Rightarrow> int \<Rightarrow> gval" where
  "TransportErrorData tr operation endpoint conn retryable reason status =
     GStruct ''*errors.TransportErrorData''
     ([(''transport'', GStr tr)] @ gomit ''operation'' operation @ gomit ''endpoint'' endpoint
      @ [flag ''connected'' conn, flag ''retryable'' retryable] @ gomit ''reason'' reason
      @ gomit_int ''status_code'' status)"

definition ConnectionErrorData :: "string \<Rightarrow> string \<Rightarrow> duration \<Rightarrow> string \<Rightarrow> gval" where
  "ConnectionErrorData tr endpoint timeout reason = GStruct ''*errors.ConnectionErrorData''
     ([(''transport'', GStr tr)] @ gomit ''endpoint'' endpoint @ gomit_int ''timeout'' timeout
      @ [flag ''retryable'' True] @ gomit ''reason'' reason)"

subsection \<open>\<open>mcp.go\<close>\<close>

definition ResourceNotFound :: "string \<Rightarrow> string \<Rightarrow> mcp_error" where
  "ResourceNotFound t i = WithData (ResourceErrorData t i [] False [])
     (NewError CodeResourceNotFound (t @ '' '' @ quoted i @ '' not found'') CategoryNotFound SeverityError)"

definition ResourceNotFoundByURI :: "string \<Rightarrow> mcp_error" where
  "ResourceNotFoundByURI uri = WithData (ResourceErrorData [] [] uri False [])
     (NewError CodeResourceNotFound (''Resource at URI '' @ quoted uri @ '' not found'')
        CategoryNotFound SeverityError)"

definition ResourceUnavailable :: "string \<Rightarrow> string \<Rightarrow> string \<Rightarrow> mcp_error" where
  "ResourceUnavailable t i reason = WithData (ResourceErrorData t i [] False reason)
     (NewError CodeResourceUnavailable
        (t @ '' '' @ quoted i @ '' is temporarily unavailable: '' @ reason) CategoryNotFound SeverityWarning)"

definition ResourceConflict :: "string \<Rightarrow> string \<Rightarrow> string \<Rightarrow> mcp_error" where
  "ResourceConflict t i reason = WithData (ResourceErrorData t i [] True reason)
     (NewError CodeResourceConflict (t @ '' '' @ quoted i @ '' conflict: '' @ reason)
        CategoryValidation SeverityError)"

definition ResourceLocked :: "string \<Rightarrow> string \<Rightarrow> mcp_error" where
  "ResourceLocked t i = WithData (ResourceErrorData t i [] True ''locked'')
     (NewError CodeResourceLocked (t @ '' '' @ quoted i @ '' is locked and cannot be modified'')
        CategoryValidation SeverityWarning)"

definition ProviderNotConfigured :: "string \<Rightarrow> mcp_error" where
  "ProviderNotConfigured t = WithData (ProviderErrorData t [] False False [])
     (NewError CodeProviderNotConfigured (t @ '' provider is not configured'') CategoryProvider SeverityError)"

definition ProviderUnavailable :: "string \<Rightarrow> string \<Rightarrow> mcp_error" where
  "ProviderUnavailable t reason = WithData (ProviderErrorData t [] False True reason)
     (NewError CodeProviderUnavailable (t @ '' provider is unavailable: '' @ reason)
        CategoryProvider SeverityError)"

text \<open>The text \<open>: cause\<close> that follows a message when there is a cause, and the reading of the
  cause's text, which panics on a nil cause.\<close>

definition with_cause :: "string \<Rightarrow> goerr option \<Rightarrow> string" where
  "with_cause m c = (case c of None \<Rightarrow> m | Some e \<Rightarrow> m @ '': '' @ Error e)"

definition cause_text :: "goerr option \<Rightarrow> (string \<Rightarrow> mcp_error) \<Rightarrow> (goerr, mcp_error) outcome" where
  "cause_text c f = (case c of None \<Rightarrow> Panic ''nil pointer dereference'' | Some e \<Rightarrow> Ok (f (Error e)))"

definition ProviderError :: "string \<Rightarrow> string \<Rightarrow> goerr option \<Rightarrow> (goerr, mcp_error) outcome" where
  "ProviderError t operation cause = cause_text cause (\<lambda>reason.
     WithData (ProviderErrorData t operation True True reason)
       (WrapError cause CodeProviderError
          (with_cause (t @ '' provider error during '' @ operation) cause) CategoryProvider SeverityError))"

definition InvalidCapability :: "string \<Rightarrow> string \<Rightarrow> mcp_error" where
  "InvalidCapability cap reason = WithData (CapabilityErrorData cap False False [] reason)
     (NewError CodeInvalidCapability (''Invalid capability '' @ quoted cap @ '': '' @ reason)
        CategoryValidation SeverityError)"

definition CapabilityRequired :: "string \<Rightarrow> mcp_error" where
  "CapabilityRequired cap = WithData (CapabilityErrorData cap True False [] [])
     (NewError CodeCapabilityRequired (''Required capability '' @ quoted cap @ '' is not enabled'')
        CategoryValidation SeverityError)"

definition CapabilityMismatch :: "string \<Rightarrow> string \<Rightarrow> string \<Rightarrow> mcp_error" where
  "CapabilityMismatch cap expected actual =
     WithData (CapabilityErrorData cap False True actual (''expected '' @ expected @ '', got '' @ actual))
     (NewError CodeCapabilityMismatch
        (''Capability '' @ quoted cap @ '' version mismatch: expected '' @ expected @ '', got '' @ actual)
        CategoryValidation SeverityError)"

definition OperationCancelled :: "string \<Rightarrow> mcp_error" where
  "OperationCancelled operation =
     WithData (OperationErrorData operation [] ''cancelled by user or system'' True)
     (NewError CodeOperationCancelled (''Operation '' @ quoted operation @ '' was cancelled'')
        CategoryCancelled SeverityInfo)"

definition OperationTimeout :: "string \<Rightarrow> string \<Rightarrow> mcp_error" where
  "OperationTimeout operation timeout =
     WithData (OperationErrorData operation [] (''timeout after '' @ timeout) True)
     (NewError CodeOperationTimeout (''Operation '' @ quoted operation @ '' timed out after '' @ timeout)
        CategoryTimeout SeverityError)"

definition OperationFailed :: "string \<Rightarrow> string \<Rightarrow> mcp_error" where
  "OperationFailed operation reason = WithData (OperationErrorData operation [] reason False)
     (NewError CodeOperationFailed (''Operation '' @ quoted operation @ '' failed: '' @ reason)
        CategoryInternal SeverityError)"

definition OperationNotSupported :: "string \<Rightarrow> string \<Rightarrow> mcp_error" where
  "OperationNotSupported operation who =
     WithData (OperationErrorData operation who ''not supported'' False)
     (NewError CodeOperationNotSupported
        (''Operation '' @ quoted operation @ '' is not supported''
           @ (if who \<noteq> [] then '' by '' @ who else []))
        CategoryValidation SeverityError)"

definition Unauthorized :: "string \<Rightarrow> mcp_error" where
  "Unauthorized reason = WithData (AuthErrorData [] [] reason)
     (NewError CodeUnauthorized (''Unauthorized: '' @ reason) CategoryAuth SeverityError)"

definition AuthRequired :: "string \<Rightarrow> mcp_error" where
  "AuthRequired token_type = WithData (AuthErrorData token_type [] [])
     (NewError CodeAuthRequired ''Authentication required'' CategoryAuth SeverityError)"

definition InvalidToken :: "string \<Rightarrow> string \<Rightarrow> mcp_error" where
  "InvalidToken token_type reason = WithData (AuthErrorData token_type [] reason)
     (NewError CodeInvalidToken (''Invalid '' @ token_type @ '' token: '' @ reason) CategoryAuth SeverityError)"

definition TokenExpired :: "string \<Rightarrow> mcp_error" where
  "TokenExpired token_type = WithData (AuthErrorData token_type [] ''expired'')
     (NewError CodeTokenExpired (token_type @ '' token has expired'') CategoryAuth SeverityWarning)"

definition InsufficientPermissions :: "string list \<Rightarrow> string \<Rightarrow> mcp_error" where
  "InsufficientPermissions perms reason = WithData (AuthErrorData [] perms reason)
     (NewError CodeInsufficientPerms (''Insufficient permissions: '' @ reason) CategoryAuth SeverityError)"

definition ServerInitError :: "string \<Rightarrow> goerr option \<Rightarrow> mcp_error" where
  "ServerInitError reason cause = WrapError cause CodeServerInitError
     (''Server initialization failed: '' @ reason) CategoryInternal SeverityCritical"

definition ServerNotReady :: "string \<Rightarrow> mcp_error" where
  "ServerNotReady reason =
     NewError CodeServerNotReady (''Server not ready: '' @ reason) CategoryInternal SeverityError"

definition ProtocolError :: "string \<Rightarrow> mcp_error" where
  "ProtocolError reason =
     NewError CodeProtocolError (''Protocol error: '' @ reason) CategoryProtocol SeverityError"

definition VersionMismatch :: "string \<Rightarrow> string \<Rightarrow> mcp_error" where
  "VersionMismatch expected actual = NewError CodeVersionMismatch
     (''Protocol version mismatch: expected '' @ expected @ '', got '' @ actual) CategoryProtocol SeverityError"

definition InvalidSequence :: "string \<Rightarrow> string \<Rightarrow> mcp_error" where
  "InvalidSequence expected actual = NewError CodeInvalidSequence
     (''Invalid message sequence: expected '' @ expected @ '', got '' @ actual) CategoryProtocol SeverityError"

definition UnsupportedFeature :: "string \<Rightarrow> mcp_error" where
  "UnsupportedFeature feature = NewError CodeUnsupportedFeature
     (''Unsupported protocol feature: '' @ feature) CategoryProtocol SeverityError"

subsection \<open>\<open>validation.go\<close>\<close>

definition ValidationError :: "string \<Rightarrow> mcp_error" where
  "ValidationError message = NewError CodeValidationError message CategoryValidation SeverityError"

definition InvalidParameter :: "string \<Rightarrow> gval \<Rightarrow> string \<Rightarrow> mcp_error" where
  "InvalidParameter param v expected =
     (let got = (case v of GNil \<Rightarrow> ''nil''
                 | GStr s \<Rightarrow> if length s < 100 then ''string('' @ go_quote s @ '')'' else ''string''
                 | _ \<Rightarrow> go_type v) in
      WithData (ParameterErrorData param v got False (''expected '' @ expected))
      (NewError CodeInvalidParameter
         (''Invalid parameter '' @ quoted param @ '': expected '' @ expected @ '', got '' @ got)
         CategoryValidation SeverityError))"

definition MissingParameter :: "string \<Rightarrow> mcp_error" where
  "MissingParameter param = WithData (ParameterErrorData param GNil [] True [])
     (NewError CodeMissingParameter (''Missing required parameter: '' @ param) CategoryValidation SeverityError)"

definition InvalidParameterType :: "string \<Rightarrow> gval \<Rightarrow> string \<Rightarrow> mcp_error" where
  "InvalidParameterType param v expected =
     (let actual = (if v = GNil then ''nil'' else go_type v) in
      WithData (ParameterErrorData param v actual False (''expected '' @ expected))
      (NewError CodeInvalidParameter
         (''Invalid type for parameter '' @ quoted param @ '': expected '' @ expected @ '', got '' @ actual)
         CategoryValidation SeverityError))"

definition ParameterTooLarge :: "string \<Rightarrow> gval \<Rightarrow> gval \<Rightarrow> mcp_error" where
  "ParameterTooLarge param v bound =
     WithData (ParameterErrorData param v [] False (''exceeds maximum '' @ go_str bound))
     (NewError CodeParameterTooLarge
        (''Parameter '' @ quoted param @ '' value '' @ go_str v @ '' exceeds maximum allowed value '' @ go_str bound)
        CategoryValidation SeverityError)"

definition ParameterTooSmall :: "string \<Rightarrow> gval \<Rightarrow> gval \<Rightarrow> mcp_error" where
  "ParameterTooSmall param v bound =
     WithData (ParameterErrorData param v [] False (''below minimum '' @ go_str bound))
     (NewError CodeParameterTooSmall
        (''Parameter '' @ quoted param @ '' value '' @ go_str v @ '' is below minimum allowed value '' @ go_str bound)
        CategoryValidation SeverityError)"

definition InvalidFormat :: "string \<Rightarrow> gval \<Rightarrow> string \<Rightarrow> mcp_error" where
  "InvalidFormat param v expected =
     WithData (ParameterErrorData param v [] False (''expected format: '' @ expected))
     (NewError CodeInvalidFormat
        (''Parameter '' @ quoted param @ '' has invalid format: expected '' @ expected)
        CategoryValidation SeverityError)"

definition InvalidPagination :: "string \<Rightarrow> mcp_error" where
  "InvalidPagination reason = WithData (PaginationErrorData [] 0 0 reason)
     (NewError CodeInvalidPagination (''Invalid pagination: '' @ reason) CategoryValidation SeverityError)"

definition InvalidPaginationCursor :: "string \<Rightarrow> string \<Rightarrow> mcp_error" where
  "InvalidPaginationCursor cursor reason = WithData (PaginationErrorData cursor 0 0 reason)
     (NewError CodeInvalidCursor (''Invalid pagination cursor: '' @ reason) CategoryValidation SeverityError)"

definition InvalidPaginationLimit :: "int \<Rightarrow> int \<Rightarrow> mcp_error" where
  "InvalidPaginationLimit limit max_limit =
     (let message = (if limit \<le> 0 then ''Pagination limit must be positive''
        else ''Pagination limit '' @ show_int limit @ '' exceeds maximum allowed limit '' @ show_int max_limit) in
      WithData (PaginationErrorData [] limit 0 message)
      (NewError CodeInvalidLimit message CategoryValidation SeverityError))"

definition InvalidFieldValue :: "string \<Rightarrow> gval \<Rightarrow> string \<Rightarrow> mcp_error" where
  "InvalidFieldValue fld v constraint = WithData (ValidationErrorData fld v [] [] constraint)
     (NewError CodeValidationError (''Invalid value for field '' @ quoted fld @ '': '' @ constraint)
        CategoryValidation SeverityError)"

definition RequiredFieldMissing :: "string \<Rightarrow> mcp_error" where
  "RequiredFieldMissing fld = WithData (ValidationErrorData fld GNil ''required value'' ''missing'' [])
     (NewError CodeValidationError (''Required field '' @ quoted fld @ '' is missing'')
        CategoryValidation SeverityError)"

definition InvalidEnum :: "string \<Rightarrow> gval \<Rightarrow> string list \<Rightarrow> mcp_error" where
  "InvalidEnum fld v valid =
     WithData (ValidationErrorData fld v (''one of '' @ go_list valid) [] ''enumeration'')
     (NewError CodeValidationError
        (''Invalid value for field '' @ quoted fld @ '': must be one of '' @ go_list valid)
        CategoryValidation SeverityError)"

definition StringTooLong :: "string \<Rightarrow> string \<Rightarrow> int \<Rightarrow> mcp_error" where
  "StringTooLong fld v max_length =
     WithData (ValidationErrorData fld (GStr v)
       ([CHR 0xE2, CHR 0x89, CHR 0xA4] @ '' '' @ show_int max_length @ '' characters'')
       (show_nat (length v) @ '' characters'') ''max_length'')
     (NewError CodeValidationError
        (''Field '' @ quoted fld @ '' exceeds maximum length of '' @ show_int max_length @ '' characters'')
        CategoryValidation SeverityError)"

definition StringTooShort :: "string \<Rightarrow> string \<Rightarrow> int \<Rightarrow> mcp_error" where
  "StringTooShort fld v min_length =
     WithData (ValidationErrorData fld (GStr v)
       ([CHR 0xE2, CHR 0x89, CHR 0xA5] @ '' '' @ show_int min_length @ '' characters'')
       (show_nat (length v) @ '' characters'') ''min_length'')
     (NewError CodeValidationError
        (''Field '' @ quoted fld @ '' is below minimum length of '' @ show_int min_length @ '' characters'')
        CategoryValidation SeverityError)"

definition InvalidRegex :: "string \<Rightarrow> string \<Rightarrow> string \<Rightarrow> mcp_error" where
  "InvalidRegex fld v pat = WithData (ValidationErrorData fld (GStr v) pat [] ''regex'')
     (NewError CodeValidationError (''Field '' @ quoted fld @ '' does not match required pattern'')
        CategoryValidation SeverityError)"

definition CombineValidationErrors :: "mcp_error list \<Rightarrow> mcp_error option" where
  "CombineValidationErrors es =
     (case es of [] \<Rightarrow> None | [e] \<Rightarrow> Some e
      | _ \<Rightarrow> Some (WithData (GMap [(''errors'', GList (map mcp_data es)), (''count'', GInt (int (length es)))])
          (NewError CodeValidationError
             (''Multiple validation errors: '' @ go_list (map mcp_message es))
             CategoryValidation SeverityError)))"

subsection \<open>\<open>transport.go\<close>\<close>

definition TransportError :: "string \<Rightarrow> string \<Rightarrow> goerr option \<Rightarrow> (goerr, mcp_error) outcome" where
  "TransportError tr operation cause = cause_text cause (\<lambda>reason.
     WithData (TransportErrorData tr operation [] False True reason 0)
     (WrapError cause CodeTransportError
        (with_cause (tr @ '' transport error'' @ (if operation \<noteq> [] then '' during '' @ operation else [])) cause)
        CategoryTransport SeverityError))"

text \<open>The host that \<open>url.Parse\<close> finds in a non-empty endpoint is \<open>parse_host\<close>, \<open>None\<close> where it fails.\<close>

definition ConnectionFailed :: "(string \<Rightarrow> string option) \<Rightarrow> string \<Rightarrow> string \<Rightarrow> goerr option \<Rightarrow> (goerr, mcp_error) outcome" where
  "ConnectionFailed parse_host tr endpoint cause = cause_text cause (\<lambda>reason.
     WithData (ConnectionErrorData tr
       (if endpoint = [] then [] else case parse_host endpoint of None \<Rightarrow> endpoint | Some host \<Rightarrow> host) 0 reason)
     (WrapError cause CodeConnectionFailed
        (with_cause (''Failed to connect'' @ (if endpoint \<noteq> [] then '' to '' @ endpoint else []) @ '' via '' @ tr) cause)
        CategoryTransport SeverityCritical))"

definition ConnectionLost :: "string \<Rightarrow> string \<Rightarrow> goerr option \<Rightarrow> (goerr, mcp_error) outcome" where
  "ConnectionLost tr endpoint cause = cause_text cause (\<lambda>reason.
     WithData (ConnectionErrorData tr endpoint 0 reason)
     (WrapError cause CodeConnectionLost
        (with_cause (''Lost connection'' @ (if endpoint \<noteq> [] then '' to '' @ endpoint else []) @ '' via '' @ tr) cause)
        CategoryTransport SeverityError))"

definition ConnectionTimeout :: "string \<Rightarrow> string \<Rightarrow> duration \<Rightarrow> mcp_error" where
  "ConnectionTimeout tr endpoint timeout =
     WithData (ConnectionErrorData tr endpoint timeout ''timeout'')
     (NewError CodeConnectionTimeout
        (''Connection timeout'' @ (if endpoint \<noteq> [] then '' to '' @ endpoint else []) @ '' via '' @ tr
           @ (if 0 < timeout then '' after '' @ show_duration timeout else []))
        CategoryTransport SeverityError)"

definition HTTPTransportError ::
    "string \<Rightarrow> string \<Rightarrow> int \<Rightarrow> goerr option \<Rightarrow> (goerr, mcp_error) outcome" where
  "HTTPTransportError operation endpoint status cause = cause_text cause (\<lambda>reason.
     WithData (TransportErrorData ''http'' operation endpoint (0 < status)
       (500 \<le> status \<or> status = 429 \<or> status = 408) reason status)
     (WrapError cause CodeTransportError
        (with_cause ((if 0 < status then ''HTTP '' @ show_int status @ '' error during ''
                      else ''HTTP transport error during '') @ operation
           @ (if endpoint \<noteq> [] then '' to '' @ endpoint else [])) cause)
        CategoryTransport SeverityError))"

definition StdioTransportError :: "string \<Rightarrow> goerr option \<Rightarrow> (goerr, mcp_error) outcome" where
  "StdioTransportError operation cause = cause_text cause (\<lambda>reason.
     WithData (TransportErrorData ''stdio'' operation [] True False reason 0)
     (WrapError cause CodeTransportError (with_cause (''Stdio transport error during '' @ operation) cause)
        CategoryTransport SeverityError))"

definition StreamableHTTPError ::
    "string \<Rightarrow> string \<Rightarrow> string \<Rightarrow> goerr option \<Rightarrow> (goerr, mcp_error) outcome" where
  "StreamableHTTPError operation endpoint stream cause = cause_text cause (\<lambda>reason.
     WithData (if stream \<noteq> []
       then GMap [(''transport'', GStr ''streamable_http''), (''operation'', GStr operation),
              (''endpoint'', GStr endpoint), flag ''connected'' False, flag ''retryable'' True,
              (''reason'', GStr reason), (''stream_id'', GStr stream)]
       else TransportErrorData ''streamable_http'' operation endpoint False True reason 0)
     (WrapError cause CodeTransportError
        (with_cause (''Streamable HTTP error during '' @ operation
           @ (if stream \<noteq> [] then '' (stream: '' @ stream @ '')'' else [])
           @ (if endpoint \<noteq> [] then '' to '' @ endpoint else [])) cause)
        CategoryTransport SeverityError))"

definition EventSourceError :: "string \<Rightarrow> string \<Rightarrow> goerr option \<Rightarrow> mcp_error" where
  "EventSourceError endpoint reason cause =
     WithData (TransportErrorData ''sse'' ''event_stream'' endpoint False True reason 0)
     (WrapError cause CodeTransportError
        (with_cause (''Event source error'' @ (if endpoint \<noteq> [] then '' for '' @ endpoint else [])
           @ '': '' @ reason) cause)
        CategoryTransport SeverityError)"

definition MessageSendError :: "string \<Rightarrow> string \<Rightarrow> goerr option \<Rightarrow> (goerr, mcp_error) outcome" where
  "MessageSendError tr mtype cause = cause_text cause (\<lambda>reason.
     WithData (TransportErrorData tr ''send_message'' [] True True reason 0)
     (WrapError cause CodeTransportError
        (with_cause (''Failed to send '' @ mtype @ '' message via '' @ tr) cause) CategoryTransport SeverityError))"

definition MessageReceiveError :: "string \<Rightarrow> string \<Rightarrow> goerr option \<Rightarrow> (goerr, mcp_error) outcome" where
  "MessageReceiveError tr mtype cause = cause_text cause (\<lambda>reason.
     WithData (TransportErrorData tr ''receive_message'' [] True True reason 0)
     (WrapError cause CodeTransportError
        (with_cause (''Failed to receive '' @ mtype @ '' message via '' @ tr) cause)
        CategoryTransport SeverityError))"

definition TransportNotInitialized :: "string \<Rightarrow> mcp_error" where
  "TransportNotInitialized tr =
     WithData (TransportErrorData tr ''check_initialization'' [] False False ''not initialized'' 0)
     (NewError CodeTransportError (tr @ '' transport is not initialized'') CategoryTransport SeverityError)"

definition TransportAlreadyRunning :: "string \<Rightarrow> mcp_error" where
  "TransportAlreadyRunning tr =
     WithData (TransportErrorData tr ''start'' [] True False ''already running'' 0)
     (NewError CodeTransportError (tr @ '' transport is already running'') CategoryTransport SeverityWarning)"

definition TransportNotRunning :: "string \<Rightarrow> mcp_error" where
  "TransportNotRunning tr =
     WithData (TransportErrorData tr [] [] False False ''not running'' 0)
     (NewError CodeTransportError (tr @ '' transport is not running'') CategoryTransport SeverityError)"

definition InvalidTransportConfiguration :: "string \<Rightarrow> string \<Rightarrow> string \<Rightarrow> mcp_error" where
  "InvalidTransportConfiguration tr param reason =
     WithData (TransportErrorData tr ''configure'' [] False False (''invalid '' @ param @ '': '' @ reason) 0)
     (NewError CodeTransportError
        (''Invalid '' @ tr @ '' transport configuration for parameter '' @ quoted param @ '': '' @ reason)
        CategoryTransport SeverityError)"

definition MessageTooLarge :: "string \<Rightarrow> int \<Rightarrow> int \<Rightarrow> mcp_error" where
  "MessageTooLarge tr msg_size max_size =
     WithData (TransportErrorData tr ''send_message'' [] True False
       (''message size '' @ show_int msg_size @ '' > max '' @ show_int max_size) 0)
     (NewError CodeTransportError
        (''Message size '' @ show_int msg_size @ '' exceeds maximum allowed size '' @ show_int max_size
           @ '' for '' @ tr @ '' transport'')
        CategoryTransport SeverityError)"

definition ResponseTimeout :: "string \<Rightarrow> string \<Rightarrow> duration \<Rightarrow> mcp_error" where
  "ResponseTimeout tr rid timeout =
     WithData (TransportErrorData tr ''wait_response'' [] True True ''response timeout'' 0)
     (NewError CodeOperationTimeout
        (''Response timeout for request '' @ rid @ '' via '' @ tr
           @ (if 0 < timeout then '' after '' @ show_duration timeout else []))
        CategoryTimeout SeverityError)"

end
