(* ===== verification/Providers.thy ===== *)
theory Providers
  imports Pagination Base64 ErrorCodes
begin

section \<open>The base providers (\<open>pkg/server/providers.go\<close>)\<close>

text \<open>
  The in-memory providers of tools, resources, prompts and roots: registration, lookup, filtering,
  and paginated listing with opaque cursors. A provider is a Go map; a listing iterates it in an
  order that Go chooses anew for every call, so each listing takes the order of the keys as an
  argument. Offsets and limits are 64 bit integers. The text that \<open>encoding/base64\<close> or
  \<open>encoding/json\<close> gives for a bad cursor is an argument (\<open>why\<close>): it only ends up in details.
\<close>

subsection \<open>Cursors\<close>

record pagination_cursor =
  cur_offset :: int

definition enc_cursor :: "pagination_cursor \<Rightarrow> json" where
  "enc_cursor c = JObj [(''offset'', JInt (cur_offset c))]"

definition dec_cursor :: "json \<Rightarrow> pagination_cursor option" where
  "dec_cursor = decode_struct [(''offset'', int_field (\<lambda>v a. a\<lparr>cur_offset := v\<rparr>))] \<lparr>cur_offset = 0\<rparr>"

definition encodeCursor :: "int \<Rightarrow> string" where
  "encodeCursor off = b64_encode (json_print (enc_cursor \<lparr>cur_offset = off\<rparr>))"

definition decodeCursor :: "(string \<Rightarrow> string) \<Rightarrow> string \<Rightarrow> mcp_error + int" where
  "decodeCursor why cursor =
     (if cursor = [] then Inr 0
      else case b64_decode cursor of
        None \<Rightarrow> Inl (WithDetail (''Cursor: '' @ cursor @ '', Error: '' @ why cursor)
                  (InvalidPagination ''Invalid cursor format''))
      | Some data \<Rightarrow>
          (case (case json_parse data of None \<Rightarrow> None | Some v \<Rightarrow> dec_cursor v) of
             None \<Rightarrow> Inl (WithDetail (''Cursor: '' @ cursor @ '', Error: '' @ why cursor)
                       (InvalidPagination ''Invalid cursor data''))
           | Some c \<Rightarrow>
               if cur_offset c < 0 then
                 Inl (WithDetail (''Offset: '' @ show_int (cur_offset c))
                   (InvalidPagination ''Cursor offset cannot be negative''))
               else Inr (cur_offset c)))"

lemma cursor_roundtrip_aux:
  assumes "0 \<le> n" "n < 2 ^ 63"
  shows "decodeCursor why (encodeCursor n) = Inr n" "encodeCursor n \<noteq> []"
proof -
  have "in_int64 n" using assms by (simp add: in_int64_def)
  then have "dec_cursor (enc_cursor \<lparr>cur_offset = n\<rparr>) = Some \<lparr>cur_offset = n\<rparr>"
    by (simp add: dec_cursor_def enc_cursor_def decode_struct_def find_field_def)
  moreover have "json_parse (json_print (enc_cursor \<lparr>cur_offset = n\<rparr>)) = Some (enc_cursor \<lparr>cur_offset = n\<rparr>)"
    by (rule json_parse_print) (simp add: enc_cursor_def)
  moreover have "json_print (enc_cursor \<lparr>cur_offset = n\<rparr>) \<noteq> []"
    by (simp add: json_print_def enc_cursor_def tok_text.simps)
  ultimately show "decodeCursor why (encodeCursor n) = Inr n" "encodeCursor n \<noteq> []"
    using assms by (simp_all add: encodeCursor_def decodeCursor_def)
qed

text \<open>
  Round trip of cursors: the offset of every cursor a provider hands out is recovered from it,
  and the cursor is not empty, so it is never mistaken for the first page.
\<close>

theorem cursor_roundtrip:
  assumes "0 \<le> n" "n < 2 ^ 63"
  shows "decodeCursor why (encodeCursor n) = Inr n \<and> encodeCursor n \<noteq> []"
  using cursor_roundtrip_aux [OF assms] by simp

theorem cursor_roundtrip_witness: "decodeCursor (\<lambda>_. []) (encodeCursor 50) = Inr 50 \<and> encodeCursor 50 \<noteq> []"
  by (rule cursor_roundtrip) simp_all

subsection \<open>Slices and pages\<close>

text \<open>The slice expression \<open>xs[lo:hi]\<close> panics unless \<open>0 \<le> lo \<le> hi\<close> (\<open>hi\<close> never exceeds the length here).\<close>

definition go_slice :: "'a list \<Rightarrow> int \<Rightarrow> int \<Rightarrow> ('e, 'a list) outcome" where
  "go_slice xs lo hi =
     (if 0 \<le> lo \<and> lo \<le> hi \<and> hi \<le> int (length xs)
      then Ok (take (nat (hi - lo)) (drop (nat lo) xs))
      else Panic ''slice bounds out of range'')"

record 'a listing =
  lst_items :: "'a list"
  lst_total :: int
  lst_next :: string
  lst_more :: bool

definition page_limit :: "pagination_params option \<Rightarrow> int" where
  "page_limit p = (case p of None \<Rightarrow> 50 | Some q \<Rightarrow> if 0 < pg_limit q then pg_limit q else 50)"

definition page_cursor :: "pagination_params option \<Rightarrow> string" where
  "page_cursor p = (case p of None \<Rightarrow> [] | Some q \<Rightarrow> pg_cursor q)"

text \<open>The part that the listings of tools, prompts and roots share, each with its own message.\<close>

definition page_of ::
    "(string \<Rightarrow> string) \<Rightarrow> string \<Rightarrow> 'a list \<Rightarrow> pagination_params option \<Rightarrow> (mcp_error, 'a listing) outcome" where
  "page_of why what xs p =
     (let total = int (length xs) in
      case decodeCursor why (page_cursor p) of
        Inl e \<Rightarrow> Err (WithDetail (''Cursor: '' @ page_cursor p @ '', Error: '' @ mcp_Error e)
                   (InvalidPagination (''Invalid pagination cursor for '' @ what @ '' list'')))
      | Inr start \<Rightarrow>
          let e0 = wrap64 (start + page_limit p);
              stop = (if total < e0 then total else e0);
              more = stop < total;
              nxt = (if more then encodeCursor stop else [])
          in if start < total then
               bind_outcome (go_slice xs start stop)
                 (\<lambda>ys. Ok \<lparr>lst_items = ys, lst_total = total, lst_next = nxt, lst_more = more\<rparr>)
             else Ok \<lparr>lst_items = [], lst_total = total, lst_next = [], lst_more = False\<rparr>)"

definition select_values :: "('a \<Rightarrow> bool) \<Rightarrow> string list \<Rightarrow> (string \<rightharpoonup> 'a) \<Rightarrow> 'a list" where
  "select_values p keys m = concat (map (\<lambda>k. case m k of None \<Rightarrow> [] | Some v \<Rightarrow> if p v then [v] else []) keys)"

text \<open>The iteration order of a Go map: every key once.\<close>

definition order_of :: "string list \<Rightarrow> (string \<rightharpoonup> 'a) \<Rightarrow> bool" where
  "order_of keys m \<longleftrightarrow> distinct keys \<and> set keys = dom m"

lemma select_values_Cons: "select_values p (k # ks) m =
    (case m k of None \<Rightarrow> [] | Some v \<Rightarrow> if p v then [v] else []) @ select_values p ks m"
  by (simp add: select_values_def)

lemma select_values_length: "length (select_values p keys m) \<le> length keys"
proof (induction keys)
  case (Cons k ks)
  then show ?case by (auto simp: select_values_Cons split: option.splits)
qed (simp add: select_values_def)

lemma select_values_set:
  assumes "order_of keys m"
  shows "set (select_values p keys m) = {v \<in> ran m. p v}"
proof -
  have "set keys = dom m" using assms by (simp add: order_of_def)
  then show ?thesis
    by (auto simp: select_values_def ran_def dom_def split: option.splits if_splits)
qed

lemma select_values_card_aux:
  "distinct keys \<Longrightarrow> length (select_values p keys m) = card {k \<in> set keys. m k \<noteq> None \<and> p (the (m k))}"
proof (induction keys)
  case (Cons k ks)
  let ?A = "{k \<in> set ks. m k \<noteq> None \<and> p (the (m k))}"
  have "{k' \<in> set (k # ks). m k' \<noteq> None \<and> p (the (m k'))} =
      (if m k \<noteq> None \<and> p (the (m k)) then insert k ?A else ?A)" by auto
  moreover have "k \<notin> ?A" "finite ?A" using Cons.prems by auto
  ultimately show ?case
    using Cons by (auto simp: select_values_Cons split: option.splits)
qed (simp add: select_values_def)

lemma select_values_card:
  assumes "order_of keys m"
  shows "length (select_values p keys m) = card {k \<in> dom m. p (the (m k))}"
proof -
  have "{k \<in> set keys. m k \<noteq> None \<and> p (the (m k))} = {k \<in> dom m. p (the (m k))}"
    using assms by (auto simp: order_of_def)
  then show ?thesis using assms select_values_card_aux [of keys p m] by (simp add: order_of_def)
qed

subsection \<open>Tools\<close>

type_synonym tools_provider = "string \<rightharpoonup> tool"

definition RegisterTool :: "tool \<Rightarrow> tools_provider \<Rightarrow> tools_provider" where
  "RegisterTool t m = m(tool_name t \<mapsto> t)"

definition ListTools :: "(string \<Rightarrow> string) \<Rightarrow> string list \<Rightarrow> tools_provider \<Rightarrow> string \<Rightarrow>
    pagination_params option \<Rightarrow> (mcp_error, tool listing) outcome" where
  "ListTools why keys m category p =
     page_of why ''tools''
       (select_values (\<lambda>t. category = [] \<or> category \<in> set (tool_categories t)) keys m) p"

definition CallTool :: "string \<Rightarrow> json option \<Rightarrow> json option \<Rightarrow> call_tool_result" where
  "CallTool name input ctx = zero_call_tool_result
     \<lparr>ctr_result := Some (JObj [(''message'', JStr ''Tool execution not implemented'')])\<rparr>"

subsection \<open>Resources\<close>

record resources_provider =
  rs_resources :: "string \<rightharpoonup> resource"
  rs_templates :: "string \<rightharpoonup> resource_template"
  rs_subscribers :: "string \<rightharpoonup> bool"

definition RegisterResource :: "resource \<Rightarrow> resources_provider \<Rightarrow> resources_provider" where
  "RegisterResource r p = p\<lparr>rs_resources := (rs_resources p)(res_uri r \<mapsto> r)\<rparr>"

definition RegisterTemplate :: "resource_template \<Rightarrow> resources_provider \<Rightarrow> resources_provider" where
  "RegisterTemplate t p = p\<lparr>rs_templates := (rs_templates p)(rt_uri t \<mapsto> t)\<rparr>"

definition hasPrefix :: "string \<Rightarrow> string \<Rightarrow> bool" where
  "hasPrefix s pre = (if length s < length pre then False else take (length pre) s = pre)"

definition uri_matches :: "string \<Rightarrow> bool \<Rightarrow> string \<Rightarrow> bool" where
  "uri_matches uri recursive u \<longleftrightarrow> u = uri \<or> recursive \<and> hasPrefix u (uri @ ''/'')"

record resource_listing =
  rl_resources :: "resource list"
  rl_templates :: "resource_template list"
  rl_total :: int
  rl_next :: string
  rl_more :: bool

text \<open>The page of a listing of resources followed by templates.\<close>

definition resource_page :: "(string \<Rightarrow> string) \<Rightarrow> resource list \<Rightarrow> resource_template list \<Rightarrow>
    pagination_params option \<Rightarrow> (mcp_error, resource_listing) outcome" where
  "resource_page why rs ts p =
     (let nr = int (length rs); nt = int (length ts); total = nr + nt; limit = page_limit p in
      case decodeCursor why (page_cursor p) of
        Inl e \<Rightarrow> Err (WithDetail (''Cursor: '' @ page_cursor p @ '', Error: '' @ mcp_Error e)
                   (InvalidPagination ''Invalid pagination cursor for resources list''))
      | Inr start \<Rightarrow>
          let res_end = min nr (wrap64 (start + limit));
              t_start = max 0 (start - nr);
              t_end = min nt (wrap64 (t_start + limit - (res_end - start)));
              actual = (if res_end = nr \<and> 0 < t_end then nr + t_end else wrap64 (res_end + t_end));
              more = actual < total;
              nxt = (if more then encodeCursor actual else [])
          in bind_outcome (if start < nr then go_slice rs start res_end else Ok [])
               (\<lambda>rs'. bind_outcome (if t_start < nt then go_slice ts t_start t_end else Ok [])
                  (\<lambda>ts'. Ok \<lparr>rl_resources = rs', rl_templates = ts', rl_total = total,
                            rl_next = nxt, rl_more = more\<rparr>)))"

definition ListResources :: "(string \<Rightarrow> string) \<Rightarrow> string list \<Rightarrow> string list \<Rightarrow> resources_provider \<Rightarrow>
    string \<Rightarrow> bool \<Rightarrow> pagination_params option \<Rightarrow> (mcp_error, resource_listing) outcome" where
  "ListResources why rkeys tkeys m uri recursive p =
     resource_page why
       (select_values (\<lambda>r. uri = [] \<or> uri_matches uri recursive (res_uri r)) rkeys (rs_resources m))
       (select_values (\<lambda>t. uri = [] \<or> uri_matches uri recursive (rt_uri t)) tkeys (rs_templates m)) p"

definition ReadResource :: "string \<Rightarrow> resource_contents" where
  "ReadResource uri = zero_resource_contents\<lparr>rc_uri := uri, rc_type := ''text/plain'',
     rc_content := Some (JStr ''Resource content not implemented'')\<rparr>"

definition SubscribeResource :: "string \<Rightarrow> bool \<Rightarrow> resources_provider \<Rightarrow> bool \<times> resources_provider" where
  "SubscribeResource uri recursive p = (True, p\<lparr>rs_subscribers := (rs_subscribers p)(uri \<mapsto> recursive)\<rparr>)"

subsection \<open>Prompts and roots\<close>

type_synonym prompts_provider = "string \<rightharpoonup> prompt"
type_synonym roots_provider = "string \<rightharpoonup> root"

definition RegisterPrompt :: "prompt \<Rightarrow> prompts_provider \<Rightarrow> prompts_provider" where
  "RegisterPrompt x m = m(prompt_id x \<mapsto> x)"

definition ListPrompts :: "(string \<Rightarrow> string) \<Rightarrow> string list \<Rightarrow> prompts_provider \<Rightarrow> string \<Rightarrow>
    pagination_params option \<Rightarrow> (mcp_error, prompt listing) outcome" where
  "ListPrompts why keys m tag p =
     page_of why ''prompts'' (select_values (\<lambda>x. tag = [] \<or> tag \<in> set (prompt_tags x)) keys m) p"

definition GetPrompt :: "string \<Rightarrow> prompts_provider \<Rightarrow> goerr + prompt" where
  "GetPrompt i m = (case m i of None \<Rightarrow> Inl (ErrNotFound ''prompt'' i) | Some x \<Rightarrow> Inr x)"

definition RegisterRoot :: "root \<Rightarrow> roots_provider \<Rightarrow> roots_provider" where
  "RegisterRoot x m = m(root_id x \<mapsto> x)"

definition ListRoots :: "(string \<Rightarrow> string) \<Rightarrow> string list \<Rightarrow> roots_provider \<Rightarrow> string \<Rightarrow>
    pagination_params option \<Rightarrow> (mcp_error, root listing) outcome" where
  "ListRoots why keys m tag p =
     page_of why ''roots'' (select_values (\<lambda>x. tag = [] \<or> tag \<in> set (root_tags x)) keys m) p"

subsection \<open>What a page holds\<close>

lemma page_of_ok:
  assumes "decodeCursor why (page_cursor p) = Inr s" "0 \<le> s" "s + page_limit p < 2 ^ 63"
  shows "page_of why what xs p = Ok
    \<lparr>lst_items = take (nat (page_limit p)) (drop (nat s) xs), lst_total = int (length xs),
     lst_next = (if s + page_limit p < int (length xs) then encodeCursor (s + page_limit p) else []),
     lst_more = (s + page_limit p < int (length xs))\<rparr>"
proof -
  have l: "0 < page_limit p" by (simp add: page_limit_def split: option.splits)
  then have w: "wrap64 (s + page_limit p) = s + page_limit p"
    using assms by (intro wrap64_id) (simp add: in_int64_def)
  show ?thesis
  proof (cases "s < int (length xs)")
    case True
    let ?stop = "min (s + page_limit p) (int (length xs))"
    have sl: "go_slice xs s ?stop = Ok (take (nat (page_limit p)) (drop (nat s) xs))"
      using True l assms(2) by (auto simp: go_slice_def min_def nat_add_distrib)
    show ?thesis
      using True assms l sl by (auto simp: page_of_def w Let_def min_def)
  next
    case False
    then show ?thesis using assms l by (auto simp: page_of_def w Let_def)
  qed
qed

text \<open>
  The panic of the listings: at an offset before the end, a listing of tools (and so of prompts
  and roots) panics exactly when the client's limit makes \<open>start + limit\<close> overflow 64 bits.
\<close>

theorem listing_panics_iff:
  assumes "0 < l" "l < 2 ^ 63" "0 \<le> start" "start < int (length (select_values
    (\<lambda>t. category = [] \<or> category \<in> set (tool_categories t)) keys m))" "start < 2 ^ 63"
  shows "is_panic (ListTools why keys m category (Some \<lparr>pg_limit = l, pg_cursor = encodeCursor start\<rparr>))
    \<longleftrightarrow> 2 ^ 63 \<le> start + l"
proof -
  let ?p = "Some \<lparr>pg_limit = l, pg_cursor = encodeCursor start\<rparr>"
  let ?xs = "select_values (\<lambda>t. category = [] \<or> category \<in> set (tool_categories t)) keys m"
  have dec: "decodeCursor why (page_cursor ?p) = Inr start"
    using cursor_roundtrip_aux assms by (simp add: page_cursor_def)
  have lim: "page_limit ?p = l" using assms by (simp add: page_limit_def)
  show ?thesis
  proof (cases "start + l < 2 ^ 63")
    case True
    then have "\<exists>r. page_of why ''tools'' ?xs ?p = Ok r"
      using page_of_ok [OF dec assms(3), of "''tools''" ?xs] lim by (metis (no_types))
    then show ?thesis using True by (auto simp: ListTools_def)
  next
    case False
    then have w: "wrap64 (start + l) = start + l - 2 ^ 64"
      using assms by (intro wrap64_over) simp_all
    then have "wrap64 (start + l) < 0" using assms by simp
    then have "is_panic (page_of why ''tools'' ?xs ?p)"
      using assms False by (simp add: page_of_def dec lim Let_def go_slice_def)
    then show ?thesis using False by (simp add: ListTools_def)
  qed
qed

definition big_limit_tools :: tools_provider where
  "big_limit_tools = RegisterTool (zero_tool\<lparr>tool_name := ''b''\<rparr>)
     (RegisterTool (zero_tool\<lparr>tool_name := ''a''\<rparr>) Map.empty)"

theorem listing_panics_iff_witness:
  "is_panic (ListTools (\<lambda>_. []) [''a'', ''b''] big_limit_tools []
     (Some \<lparr>pg_limit = 2 ^ 63 - 1, pg_cursor = encodeCursor 1\<rparr>))"
  using listing_panics_iff [of "2 ^ 63 - 1" 1 "[]" "[''a'', ''b'']" big_limit_tools "\<lambda>_. []"]
  by (simp add: select_values_def big_limit_tools_def RegisterTool_def)

subsection \<open>Listings as sources of pages\<close>

text \<open>A client that fetches pages from a provider: the page's result and items, or the error.\<close>

definition listing_fetch ::
    "(pagination_params option \<Rightarrow> (mcp_error, 'a listing) outcome) \<Rightarrow> (unit, 'a) fetcher" where
  "listing_fetch lst p s =
     (case lst (Some p) of
        Ok l \<Rightarrow> (Inr (Some \<lparr>pgr_items = None, pgr_total_count = lst_total l, pgr_next_cursor = lst_next l,
                        pgr_has_more = lst_more l\<rparr>, Items (lst_items l)), s)
      | Err e \<Rightarrow> (Inl (ErrMCP e), s)
      | Panic m \<Rightarrow> (Inl (ErrText m), s))"

text \<open>For resources the client also accumulates the templates of every page.\<close>

definition resources_fetch ::
    "(pagination_params option \<Rightarrow> (mcp_error, resource_listing) outcome) \<Rightarrow> (resource_template list, resource) fetcher"
  where
  "resources_fetch lst p s =
     (case lst (Some p) of
        Ok l \<Rightarrow> (Inr (Some \<lparr>pgr_items = None, pgr_total_count = rl_total l, pgr_next_cursor = rl_next l,
                        pgr_has_more = rl_more l\<rparr>, Items (rl_resources l)), s @ rl_templates l)
      | Err e \<Rightarrow> (Inl (ErrMCP e), s)
      | Panic m \<Rightarrow> (Inl (ErrText m), s))"

definition cursor_at_pos :: "nat \<Rightarrow> string" where
  "cursor_at_pos k = (if k = 0 then [] else encodeCursor (int k))"

lemma decode_cursor_at [simp]: "int k < 2 ^ 63 \<Longrightarrow> decodeCursor why (cursor_at_pos k) = Inr (int k)"
  using cursor_roundtrip_aux [of "int k"] by (simp add: cursor_at_pos_def decodeCursor_def)

lemma cursor_at_pos_pos: "0 < k \<Longrightarrow> encodeCursor (int k) = cursor_at_pos k"
  by (simp add: cursor_at_pos_def)

lemma cursor_at_nonempty: "0 < k \<Longrightarrow> int k < 2 ^ 63 \<Longrightarrow> cursor_at_pos k \<noteq> []"
  using cursor_roundtrip_aux(2) [of "int k"] by (simp add: cursor_at_pos_def)

lemma segment_append:
  "k \<le> m \<Longrightarrow> m \<le> n \<Longrightarrow> take (m - k) (drop k xs) @ take (n - m) (drop m xs) = take (n - k) (drop k xs)"
proof -
  assume kmn: "k \<le> m" "m \<le> n"
  then have "take (n - k) (drop k xs) = take ((m - k) + (n - m)) (drop k xs)" by simp
  also have "\<dots> = take (m - k) (drop k xs) @ take (n - m) (drop (m - k) (drop k xs))" by (rule take_add)
  finally show ?thesis using kmn by simp
qed

lemma page_at:
  fixes xs :: "'a list"
  assumes "length xs < 2 ^ 61" "k < length xs \<or> k = 0" "1 \<le> l" "l \<le> MaxLimit"
  defines "m \<equiv> min (k + nat l) (length xs)"
  shows "page_of why what xs (Some \<lparr>pg_limit = l, pg_cursor = cursor_at_pos k\<rparr>) = Ok
    \<lparr>lst_items = take (m - k) (drop k xs), lst_total = int (length xs),
     lst_next = (if m < length xs then cursor_at_pos m else []), lst_more = (m < length xs)\<rparr>"
    "k \<le> m" "m \<le> length xs" "k < m \<or> m = length xs" "m < length xs \<Longrightarrow> cursor_at_pos m \<noteq> []"
proof -
  let ?p = "Some \<lparr>pg_limit = l, pg_cursor = cursor_at_pos k\<rparr>"
  have lim: "page_limit ?p = l" using assms(3) by (simp add: page_limit_def)
  have kb: "int k < 2 ^ 61" using assms(1,2) by auto
  have dec: "decodeCursor why (page_cursor ?p) = Inr (int k)"
    using kb by (simp add: page_cursor_def)
  have sum: "int k + page_limit ?p < 2 ^ 63"
    using kb assms(4) lim by (simp add: MaxLimit_def)
  have seg: "take (nat l) (drop k xs) = take (m - k) (drop k xs)"
    unfolding m_def by (cases "k + nat l \<le> length xs") (simp_all add: min_def)
  have mb: "int m < 2 ^ 63" and mpos: "m < length xs \<Longrightarrow> 0 < m"
    using assms(1,3) by (auto simp: m_def)
  have next_at: "m < length xs \<Longrightarrow> encodeCursor (int k + l) = cursor_at_pos m"
    using cursor_at_pos_pos [OF mpos] assms(3) by (simp add: m_def min_def split: if_splits)
  have more: "(int k + l < int (length xs)) = (m < length xs)" using assms(3) by (auto simp: m_def)
  have nx: "(if m < length xs then encodeCursor (int k + l) else [])
      = (if m < length xs then cursor_at_pos m else [])" using next_at by auto
  have "page_of why what xs ?p = Ok
    \<lparr>lst_items = take (nat l) (drop (nat (int k)) xs), lst_total = int (length xs),
     lst_next = (if int k + l < int (length xs) then encodeCursor (int k + l) else []),
     lst_more = (int k + l < int (length xs))\<rparr>"
    using page_of_ok [OF dec of_nat_0_le_iff sum] by (simp only: lim)
  then show "page_of why what xs ?p = Ok
    \<lparr>lst_items = take (m - k) (drop k xs), lst_total = int (length xs),
     lst_next = (if m < length xs then cursor_at_pos m else []), lst_more = (m < length xs)\<rparr>"
    unfolding more nat_int seg nx .
  show "k \<le> m" "m \<le> length xs" "k < m \<or> m = length xs" using assms by (auto simp: m_def)
  show "m < length xs \<Longrightarrow> cursor_at_pos m \<noteq> []" using cursor_at_nonempty [OF mpos mb] by simp
qed

lemma base_page:
  fixes xs :: "'a list"
  assumes "length xs < 2 ^ 61" "k < length xs \<or> k = 0" "1 \<le> l" "l \<le> MaxLimit"
  shows "\<exists>m r. listing_fetch (page_of why what xs) \<lparr>pg_limit = l, pg_cursor = cursor_at_pos k\<rparr> ()
      = (Inr (Some r, Items (take (m - k) (drop k xs))), ())
    \<and> k \<le> m \<and> m \<le> length xs \<and> (k < m \<or> m = length xs) \<and> pgr_has_more r = (m < length xs)
    \<and> (m < length xs \<longrightarrow> pgr_next_cursor r = cursor_at_pos m \<and> cursor_at_pos m \<noteq> [])"
  using page_at(1) [OF assms, of why what] page_at(2-) [OF assms]
  by (intro exI [of _ "min (k + nat l) (length xs)"] exI conjI)
    (simp add: listing_fetch_def, simp_all)

text \<open>Every listing of a provider meets the contract of \<open>FetchAllPages\<close>.\<close>

interpretation base_pages: paged "listing_fetch (page_of why what xs)" "length xs"
    "\<lambda>k m. take (m - k) (drop k xs)" "\<lambda>_ _. True" cursor_at_pos for why what xs
proof (unfold_locales, goal_cases)
  case 1
  show ?case by (simp add: cursor_at_pos_def)
next
  case (2 k m n)
  then show ?case by (intro segment_append)
next
  case (3 k l s)
  then show ?case using base_page [of xs k l why what] by simp
qed

text \<open>
  C24. Listing everything: fetching all pages of the tools of a category from the base provider,
  with any valid page size and the map iterated in one order, terminates without an error and
  returns exactly the registered tools of that category, each once.
\<close>

theorem fetch_all_tools:
  assumes "order_of keys m" "length keys < 2 ^ 61"
    and "ValidateParams init = None" "\<forall>p. init = Some p \<longrightarrow> pg_cursor p = []"
  shows "\<exists>ts. FetchAllPages init (listing_fetch (ListTools why keys m category)) () = Some (Inr ts, ())
    \<and> set ts = {t \<in> ran m. category = [] \<or> category \<in> set (tool_categories t)}
    \<and> length ts = card {k \<in> dom m. category = [] \<or> category \<in> set (tool_categories (the (m k)))}"
proof -
  let ?P = "\<lambda>t. category = [] \<or> category \<in> set (tool_categories t)"
  let ?xs = "select_values ?P keys m"
  have len: "length ?xs < 2 ^ 61"
    using select_values_length [of ?P keys m] assms(2) by linarith
  have "FetchAllPages init (listing_fetch (page_of why ''tools'' ?xs)) () = Some (Inr ?xs, ())"
    using base_pages.fetch_all_pages [OF len assms(3,4)] by simp
  moreover have "ListTools why keys m category = page_of why ''tools'' ?xs"
    by (rule ext) (simp add: ListTools_def)
  ultimately show ?thesis
    using select_values_set [OF assms(1), of ?P] select_values_card [OF assms(1), of ?P] by auto
qed

theorem fetch_all_tools_witness:
  "\<exists>ts. FetchAllPages (Some \<lparr>pg_limit = 1, pg_cursor = []\<rparr>)
      (listing_fetch (ListTools (\<lambda>_. []) [''a'', ''b''] big_limit_tools [])) () = Some (Inr ts, ())
    \<and> set ts = {t \<in> ran big_limit_tools. True} \<and> length ts = card {k \<in> dom big_limit_tools. True}"
  using fetch_all_tools [of "[''a'', ''b'']" big_limit_tools "Some \<lparr>pg_limit = 1, pg_cursor = []\<rparr>" "\<lambda>_. []" "[]"]
  by (auto simp: order_of_def big_limit_tools_def RegisterTool_def ValidateParams_def MaxLimit_def)

subsection \<open>Pages of resources and templates\<close>

text \<open>Where the page at a position ends: at \<open>k + l\<close> while resources remain, but once the position is
  past the resources the excess is counted twice.\<close>

definition resource_page_end :: "nat \<Rightarrow> nat \<Rightarrow> nat \<Rightarrow> nat \<Rightarrow> nat" where
  "resource_page_end nr nt k l =
     (if k < nr then min (nr + nt) (k + l) else nr + min nt (2 * (k - nr) + l))"

lemma resource_page_ok:
  assumes "length rs + length ts < 2 ^ 61" "k \<le> length rs + length ts" "1 \<le> l" "l < 2 ^ 61"
    "decodeCursor why (page_cursor p) = Inr (int k)" "page_limit p = int l"
  shows "resource_page why rs ts p = Ok
    (let m = resource_page_end (length rs) (length ts) k l; nr = length rs in
     \<lparr>rl_resources = take (m - k) (drop k rs),
      rl_templates = take (m - max nr k) (drop (k - nr) ts),
      rl_total = int (length rs + length ts),
      rl_next = (if m < length rs + length ts then encodeCursor (int m) else []),
      rl_more = (m < length rs + length ts)\<rparr>)"
proof -
  let ?nr = "length rs" and ?nt = "length ts"
  have w1: "wrap64 (int k + int l) = int (k + l)"
    using assms by (subst wrap64_id) (simp_all add: in_int64_def)
  show ?thesis
  proof (cases "k < ?nr")
    case True
    let ?re = "min ?nr (k + l)"
    let ?te = "min ?nt (l - (?re - k))"
    have re: "min (int ?nr) (wrap64 (int k + int l)) = int ?re" by (simp add: w1)
    have t0: "max 0 (int k - int ?nr) = 0" using True by simp
    have w2: "wrap64 (0 + int l - (int ?re - int k)) = int (l - (?re - k))"
      using True assms by (subst wrap64_id) (auto simp: in_int64_def of_nat_diff)
    have te: "min (int ?nt) (wrap64 (0 + int l - (int ?re - int k))) = int ?te" unfolding w2 by (rule of_nat_min [symmetric])
    have w3: "wrap64 (int ?re + int ?te) = int (?re + ?te)"
      using assms by (subst wrap64_id) (auto simp: in_int64_def)
    have act: "(if int ?re = int ?nr \<and> 0 < int ?te then int ?nr + int ?te else wrap64 (int ?re + int ?te))
        = int (resource_page_end ?nr ?nt k l)"
      unfolding w3 using True by (auto simp: resource_page_end_def min_def)
    have s1: "go_slice rs (int k) (int ?re) = Ok (take (resource_page_end ?nr ?nt k l - k) (drop k rs))"
      using True by (auto simp: go_slice_def resource_page_end_def min_def nat_diff_distrib)
    have s2: "go_slice ts 0 (int ?te) = Ok (take (resource_page_end ?nr ?nt k l - ?nr) ts)"
      using True by (auto simp: go_slice_def resource_page_end_def min_def add.commute)
    have g1: "(if int k < int ?nr then go_slice rs (int k) (int ?re) else Ok [])
        = Ok (take (resource_page_end ?nr ?nt k l - k) (drop k rs))" using s1 True by simp
    have g2: "(if 0 < int ?nt then go_slice ts 0 (int ?te) else Ok [])
        = Ok (take (resource_page_end ?nr ?nt k l - max ?nr k) (drop (k - ?nr) ts))"
      using s2 True by (cases "?nt = 0") (simp_all add: max_def)
    show ?thesis
      unfolding resource_page_def Let_def assms(5,6) sum.case re t0 te act g1 g2 bind_outcome.simps
      unfolding of_nat_add [symmetric] of_nat_less_iff ..
  next
    case False
    let ?te = "min ?nt (2 * (k - ?nr) + l)"
    have re: "min (int ?nr) (wrap64 (int k + int l)) = int ?nr" using False by (simp add: w1)
    have t0: "max 0 (int k - int ?nr) = int (k - ?nr)" using False by simp
    have w2: "wrap64 (int (k - ?nr) + int l - (int ?nr - int k)) = int (2 * (k - ?nr) + l)"
      using False assms by (subst wrap64_id) (auto simp: in_int64_def of_nat_diff)
    have te: "min (int ?nt) (wrap64 (int (k - ?nr) + int l - (int ?nr - int k))) = int ?te"
      unfolding w2 by (rule of_nat_min [symmetric])
    have w3: "wrap64 (int ?nr + int ?te) = int (?nr + ?te)"
      using assms by (subst wrap64_id) (auto simp: in_int64_def)
    have act: "(if int ?nr = int ?nr \<and> 0 < int ?te then int ?nr + int ?te else wrap64 (int ?nr + int ?te))
        = int (resource_page_end ?nr ?nt k l)"
      unfolding w3 using False by (auto simp: resource_page_end_def)
    have s2: "(if int (k - ?nr) < int ?nt then go_slice ts (int (k - ?nr)) (int ?te) else Ok [])
        = Ok (take (resource_page_end ?nr ?nt k l - k) (drop (k - ?nr) ts))"
      using False by (auto simp: go_slice_def resource_page_end_def min_def nat_diff_distrib add.commute)
    have g1: "(if int k < int ?nr then go_slice rs (int k) (int ?nr) else Ok [])
        = Ok (take (resource_page_end ?nr ?nt k l - k) (drop k rs))" using False by simp
    have m2: "max ?nr k = k" using False by simp
    show ?thesis
      unfolding resource_page_def Let_def assms(5,6) sum.case re t0 te act g1 s2 m2 bind_outcome.simps
      unfolding of_nat_add [symmetric] of_nat_less_iff ..
  qed
qed

lemma resource_position:
  assumes "k \<le> nr + nt" "1 \<le> l"
  shows "k \<le> resource_page_end nr nt k l" "resource_page_end nr nt k l \<le> nr + nt"
    "k < resource_page_end nr nt k l \<or> resource_page_end nr nt k l = nr + nt"
  using assms by (auto simp: resource_page_end_def min_def)

definition templates_upto :: "resource list \<Rightarrow> resource_template list \<Rightarrow> nat \<Rightarrow> resource_template list" where
  "templates_upto rs ts k = take (k - length rs) ts"

lemma templates_upto_step:
  "k \<le> m \<Longrightarrow> templates_upto rs ts k @ take (m - max (length rs) k) (drop (k - length rs) ts)
    = templates_upto rs ts m"
proof -
  assume "k \<le> m"
  then have "(k - length rs) + (m - max (length rs) k) = m - length rs" by (auto simp: max_def)
  then show ?thesis unfolding templates_upto_def by (metis take_add)
qed

text \<open>The listing of resources and templates meets the contract, with the templates as the state.\<close>

interpretation resource_pages: paged "resources_fetch (resource_page why rs ts)" "length rs + length ts"
    "\<lambda>k m. take (m - k) (drop k rs)" "\<lambda>k s. s = templates_upto rs ts k" cursor_at_pos for why rs ts
proof (unfold_locales, goal_cases)
  case 1
  show ?case by (simp add: cursor_at_pos_def)
next
  case (2 k m n)
  then show ?case by (intro segment_append)
next
  case (3 k l s)
  let ?p = "Some \<lparr>pg_limit = l, pg_cursor = cursor_at_pos k\<rparr>"
  let ?m = "resource_page_end (length rs) (length ts) k (nat l)"
  have k: "k \<le> length rs + length ts" "int k < 2 ^ 63" using 3 by auto
  have lim: "page_limit ?p = int (nat l)" using 3 by (simp add: page_limit_def)
  have dec: "decodeCursor why (page_cursor ?p) = Inr (int k)" using k(2) by (simp add: page_cursor_def)
  have l: "1 \<le> nat l" "nat l < 2 ^ 61" using 3 by (auto simp: MaxLimit_def)
  note pos = resource_position [OF k(1) l(1)]
  have mpos: "?m < length rs + length ts \<Longrightarrow> 0 < ?m" using pos by auto
  have mb: "?m < length rs + length ts \<Longrightarrow> int ?m < 2 ^ 63" using 3(1) by simp
  have nx: "(if ?m < length rs + length ts then encodeCursor (int ?m) else [])
      = (if ?m < length rs + length ts then cursor_at_pos ?m else [])"
    using cursor_at_pos_pos mpos by auto
  have f: "resources_fetch (resource_page why rs ts) \<lparr>pg_limit = l, pg_cursor = cursor_at_pos k\<rparr>
        s
      = (Inr (Some \<lparr>pgr_items = None, pgr_total_count = int (length rs + length ts),
          pgr_next_cursor = (if ?m < length rs + length ts then cursor_at_pos ?m else []),
          pgr_has_more = (?m < length rs + length ts)\<rparr>, Items (take (?m - k) (drop k rs))), templates_upto rs ts ?m)"
    using resource_page_ok [OF 3(1) k(1) l dec lim]
    by (simp add: 3(5) resources_fetch_def Let_def nx templates_upto_step [OF pos(1)] del: of_nat_add)
  show ?case
    by (intro exI conjI, rule f) (use pos mpos mb cursor_at_nonempty in auto)
qed

text \<open>
  Listing all resources: the client that fetches every page of the resources under a URI and
  accumulates the templates of each page terminates without an error, with exactly the provider's
  matching resources and exactly its matching templates, for any valid page size.
\<close>

theorem fetch_all_resources:
  assumes "order_of rkeys (rs_resources m)" "order_of tkeys (rs_templates m)"
    and "length rkeys + length tkeys < 2 ^ 61"
    and "ValidateParams init = None" "\<forall>p. init = Some p \<longrightarrow> pg_cursor p = []"
  shows "\<exists>rs ts. FetchAllPages init (resources_fetch (ListResources why rkeys tkeys m uri rec)) []
      = Some (Inr rs, ts)
    \<and> set rs = {r \<in> ran (rs_resources m). uri = [] \<or> uri_matches uri rec (res_uri r)}
    \<and> set ts = {t \<in> ran (rs_templates m). uri = [] \<or> uri_matches uri rec (rt_uri t)}"
proof -
  let ?P = "\<lambda>r. uri = [] \<or> uri_matches uri rec (res_uri r)"
  let ?Q = "\<lambda>t. uri = [] \<or> uri_matches uri rec (rt_uri t)"
  let ?rs = "select_values ?P rkeys (rs_resources m)"
  let ?ts = "select_values ?Q tkeys (rs_templates m)"
  have len: "length ?rs + length ?ts < 2 ^ 61"
    using select_values_length [of ?P rkeys "rs_resources m"] select_values_length [of ?Q tkeys "rs_templates m"]
      assms(3) by linarith
  have "FetchAllPages init (resources_fetch (resource_page why ?rs ?ts)) (templates_upto ?rs ?ts 0)
      = Some (Inr ?rs, ?ts)"
    using resource_pages.fetch_all_pages [OF len assms(4,5)] by (simp add: templates_upto_def)
  moreover have "templates_upto ?rs ?ts 0 = []" by (simp add: templates_upto_def)
  moreover have "ListResources why rkeys tkeys m uri rec = resource_page why ?rs ?ts"
    by (rule ext) (simp add: ListResources_def)
  ultimately show ?thesis
    using select_values_set [OF assms(1), of ?P] select_values_set [OF assms(2), of ?Q] by auto
qed

definition one_resource :: resources_provider where
  "one_resource = RegisterTemplate (zero_resource_template\<lparr>rt_uri := ''t''\<rparr>)
     (RegisterResource (zero_resource\<lparr>res_uri := ''r''\<rparr>)
        \<lparr>rs_resources = Map.empty, rs_templates = Map.empty, rs_subscribers = Map.empty\<rparr>)"

theorem fetch_all_resources_witness:
  "\<exists>rs ts. FetchAllPages None (resources_fetch (ListResources (\<lambda>_. []) [''r''] [''t''] one_resource [] True)) []
      = Some (Inr rs, ts)
    \<and> set rs = {r \<in> ran (rs_resources one_resource). True}
    \<and> set ts = {t \<in> ran (rs_templates one_resource). True}"
  using fetch_all_resources [of "[''r'']" one_resource "[''t'']" None "\<lambda>_. []" "[]" True]
  by (auto simp: order_of_def one_resource_def RegisterResource_def RegisterTemplate_def ValidateParams_def)

text \<open>
  Size of a page of resources: it holds at most the limit while resources remain; past them
  the offset into the templates is added to the limit, so a page can exceed the limit asked for.
\<close>

theorem resource_page_size:
  assumes "length rs + length ts < 2 ^ 61" "k \<le> length rs + length ts" "1 \<le> l" "l < 2 ^ 61"
  shows "\<exists>page. resource_page why rs ts (Some \<lparr>pg_limit = int l, pg_cursor = cursor_at_pos k\<rparr>) = Ok page
    \<and> length (rl_resources page) + length (rl_templates page)
       = (if k < length rs then min l (length rs + length ts - k)
          else min (l + (k - length rs)) (length rs + length ts - k))"
proof -
  let ?p = "Some \<lparr>pg_limit = int l, pg_cursor = cursor_at_pos k\<rparr>"
  have "decodeCursor why (page_cursor ?p) = Inr (int k)" using assms(1,2) by (simp add: page_cursor_def)
  moreover have "page_limit ?p = int l" using assms(3) by (simp add: page_limit_def)
  moreover define m where "m = resource_page_end (length rs) (length ts) k l"
  ultimately have "resource_page why rs ts ?p = Ok
     \<lparr>rl_resources = take (m - k) (drop k rs),
      rl_templates = take (m - max (length rs) k) (drop (k - length rs) ts),
      rl_total = int (length rs + length ts),
      rl_next = (if m < length rs + length ts then encodeCursor (int m) else []),
      rl_more = (m < length rs + length ts)\<rparr>"
    using resource_page_ok [OF assms] by (simp only: Let_def)
  moreover have "length (take (m - k) (drop k rs)) + length (take (m - max (length rs) k) (drop (k - length rs) ts))
      = (if k < length rs then min l (length rs + length ts - k)
         else min (l + (k - length rs)) (length rs + length ts - k))"
    using assms(2) unfolding m_def by (cases "k < length rs") (auto simp: resource_page_end_def min_def)
  ultimately show ?thesis by simp
qed

theorem resource_page_size_witness:
  "\<exists>page. resource_page (\<lambda>_. []) [] (replicate 4 zero_resource_template)
      (Some \<lparr>pg_limit = 1, pg_cursor = cursor_at_pos 1\<rparr>) = Ok page
    \<and> length (rl_resources page) + length (rl_templates page) = Suc (Suc 0)"
  using resource_page_size [of "[]" "replicate 4 zero_resource_template" 1 1 "\<lambda>_. []"] by simp

text \<open>
  The order of the map matters: with the map iterated in one order for the first page and in
  another for the second, a client that lists two tools one by one sees one of them twice and the
  other never.
\<close>

theorem reordered_listing_skips:
  "order_of [''a'', ''b''] big_limit_tools \<and> order_of [''b'', ''a''] big_limit_tools \<and>
   (\<exists>p1 p2. ListTools why [''a'', ''b''] big_limit_tools [] (Some \<lparr>pg_limit = 1, pg_cursor = []\<rparr>) = Ok p1
      \<and> ListTools why [''b'', ''a''] big_limit_tools [] (Some \<lparr>pg_limit = 1, pg_cursor = lst_next p1\<rparr>) = Ok p2
      \<and> \<not> lst_more p2 \<and> map tool_name (lst_items p1 @ lst_items p2) = [''a'', ''a''])"
proof -
  have o: "order_of [''a'', ''b''] big_limit_tools" "order_of [''b'', ''a''] big_limit_tools"
    by (auto simp: order_of_def big_limit_tools_def RegisterTool_def)
  have d0: "decodeCursor why [] = Inr 0" by (simp add: decodeCursor_def)
  have d1: "decodeCursor why (encodeCursor 1) = Inr 1" by (rule cursor_roundtrip_aux) simp_all
  show ?thesis
    using o by (simp add: ListTools_def page_of_def d0 d1 page_cursor_def page_limit_def wrap64_def
        go_slice_def select_values_def big_limit_tools_def RegisterTool_def zero_tool_def)
qed

end
