(* ===== verification/Subscriptions.thy ===== *)
theory Subscriptions
  imports Notifications Providers
begin

section \<open>Resource subscriptions (\<open>pkg/server/subscriptions.go\<close>)\<close>

text \<open>
  The manager keeps the subscribed URIs, a buffered channel of changes, and a goroutine that collects
  the changes to subscribed URIs and, at every tick of its timer, sends them in notifications, one
  for every subscription. Go iterates a map in an order it chooses anew every time, so every
  iteration takes the order of the keys as an argument. The manager's notifier is an interface whose
  errors are only logged: sending is modelled by the list of the calls made to it, in order. The
  operations hold the manager's lock, so each is one step.
\<close>

record subscription =
  sub_uri :: string
  sub_recursive :: bool
  sub_created :: instant
  sub_updated :: instant

datatype change_type = ResourceAdded | ResourceModified | ResourceRemoved | ResourceUpdated

record resource_change =
  chg_type :: change_type
  chg_resource :: "resource option"
  chg_contents :: "resource_contents option"
  chg_uri :: string

record manager =
  sm_subs :: "string \<rightharpoonup> subscription"
  sm_queue :: "resource_change list"
  sm_done :: bool
  sm_closed :: bool

definition NewResourceSubscriptionManager :: manager where
  "NewResourceSubscriptionManager = \<lparr>sm_subs = Map.empty, sm_queue = [], sm_done = False, sm_closed = False\<rparr>"

subsection \<open>Subscribing\<close>

definition isChildResource :: "string \<Rightarrow> string \<Rightarrow> bool" where
  "isChildResource child parent =
     (if length child \<le> length parent then False
      else take (length parent) child = parent \<and> child ! length parent = CHR ''/'')"

definition Subscribe :: "string \<Rightarrow> bool \<Rightarrow> instant \<Rightarrow> instant \<Rightarrow> manager \<Rightarrow> goerr option \<times> manager" where
  "Subscribe uri recursive now1 now2 m =
     (case sm_subs m uri of
        Some s \<Rightarrow> (None, m)
      | None \<Rightarrow> (None, m\<lparr>sm_subs := (sm_subs m)(uri \<mapsto>
          \<lparr>sub_uri = uri, sub_recursive = recursive, sub_created = now1, sub_updated = now2\<rparr>)\<rparr>))"

definition Unsubscribe :: "string \<Rightarrow> manager \<Rightarrow> goerr option \<times> manager" where
  "Unsubscribe uri m =
     (case sm_subs m uri of
        None \<Rightarrow> (Some (ErrText (''no subscription found for URI: '' @ uri)), m)
      | Some s \<Rightarrow> (None, m\<lparr>sm_subs := (sm_subs m)(uri := None)\<rparr>))"

definition GetSubscriptions :: "manager \<Rightarrow> (string \<rightharpoonup> subscription)" where
  "GetSubscriptions m = sm_subs m"

definition IsSubscribed :: "string list \<Rightarrow> manager \<Rightarrow> string \<Rightarrow> bool" where
  "IsSubscribed keys m uri =
     (if sm_subs m uri \<noteq> None then True
      else list_ex (\<lambda>k. case sm_subs m k of None \<Rightarrow> False
                        | Some s \<Rightarrow> sub_recursive s \<and> isChildResource uri k) keys)"

definition shouldNotify :: "string list \<Rightarrow> manager \<Rightarrow> string \<Rightarrow> bool" where
  "shouldNotify keys m uri =
     (if sm_subs m uri \<noteq> None then True
      else list_ex (\<lambda>k. case sm_subs m k of None \<Rightarrow> False
                        | Some s \<Rightarrow> sub_recursive s \<and> (uri = k \<or> isChildResource uri k)) keys)"

subsection \<open>Changes\<close>

text \<open>The channel holds 100 changes; a change that does not fit is dropped. After \<open>Stop\<close> the
  channel is closed, and sending on it panics, as does closing twice.\<close>

definition NotifyResourceChange :: "resource_change \<Rightarrow> manager \<Rightarrow> (goerr, manager) outcome" where
  "NotifyResourceChange c m =
     (if sm_closed m then Panic ''send on closed channel''
      else Ok (if length (sm_queue m) < 100 then m\<lparr>sm_queue := sm_queue m @ [c]\<rparr> else m))"

definition manager_Stop :: "manager \<Rightarrow> (goerr, manager) outcome" where
  "manager_Stop m =
     (if sm_done m then Panic ''close of closed channel''
      else Ok (m\<lparr>sm_done := True, sm_closed := True\<rparr>))"

text \<open>The calls to the notifier, and the group of changes that a subscription collects.\<close>

datatype notice =
    Updated string resource_contents
  | Changed string "string list" "resource list" "resource list"

fun add_change :: "resource_change \<Rightarrow> resources_changed_params \<times> notice list \<Rightarrow>
    resources_changed_params \<times> notice list" where
  "add_change c (g, out) =
     (case chg_type c of
        ResourceAdded \<Rightarrow> (case chg_resource c of None \<Rightarrow> (g, out)
          | Some r \<Rightarrow> (g\<lparr>rchg_added := rchg_added g @ [r]\<rparr>, out))
      | ResourceModified \<Rightarrow> (case chg_resource c of None \<Rightarrow> (g, out)
          | Some r \<Rightarrow> (g\<lparr>rchg_modified := rchg_modified g @ [r]\<rparr>, out))
      | ResourceRemoved \<Rightarrow> (g\<lparr>rchg_removed := rchg_removed g @ [chg_uri c]\<rparr>, out)
      | ResourceUpdated \<Rightarrow> (case chg_contents c of None \<Rightarrow> (g, out)
          | Some x \<Rightarrow> (g, out @ [Updated (chg_uri c) x])))"

type_synonym groups = "string \<rightharpoonup> resources_changed_params"

definition new_group :: "string \<Rightarrow> resources_changed_params" where
  "new_group k = zero_resources_changed_params\<lparr>rchg_uri := k\<rparr>"

definition covers :: "(string \<rightharpoonup> subscription) \<Rightarrow> string \<Rightarrow> string \<Rightarrow> bool" where
  "covers subs uri k =
     (case subs k of None \<Rightarrow> False | Some s \<Rightarrow> uri = k \<or> sub_recursive s \<and> isChildResource uri k)"

definition add_to_group :: "(string \<rightharpoonup> subscription) \<Rightarrow> string \<Rightarrow> resource_change list \<Rightarrow> string \<Rightarrow>
    groups \<times> notice list \<Rightarrow> groups \<times> notice list" where
  "add_to_group subs uri changes k go =
     (if covers subs uri k then
        (let g0 = (case fst go k of None \<Rightarrow> new_group k | Some g \<Rightarrow> g)
         in case fold add_change changes (g0, snd go) of (g, out) \<Rightarrow> ((fst go)(k \<mapsto> g), out))
      else go)"

text \<open>\<open>skeys\<close> gives the order in which the subscriptions are visited for a URI.\<close>

definition add_uri :: "(string \<rightharpoonup> subscription) \<Rightarrow> (string \<Rightarrow> string list) \<Rightarrow>
    (string \<rightharpoonup> resource_change list) \<Rightarrow> string \<Rightarrow> groups \<times> notice list \<Rightarrow> groups \<times> notice list" where
  "add_uri subs skeys batch uri go =
     (case batch uri of None \<Rightarrow> go | Some changes \<Rightarrow> fold (add_to_group subs uri changes) (skeys uri) go)"

definition send_group :: "groups \<Rightarrow> (string \<Rightarrow> instant) \<Rightarrow> string \<Rightarrow> notice list \<times> manager \<Rightarrow> notice list \<times> manager" where
  "send_group groups now k om =
     (case groups k of
        None \<Rightarrow> om
      | Some g \<Rightarrow>
          if rchg_added g \<noteq> [] \<or> rchg_modified g \<noteq> [] \<or> rchg_removed g \<noteq> [] then
            (fst om @ [Changed (rchg_uri g) (rchg_removed g) (rchg_added g) (rchg_modified g)],
             (snd om)\<lparr>sm_subs := (case sm_subs (snd om) k of None \<Rightarrow> sm_subs (snd om)
               | Some s \<Rightarrow> (sm_subs (snd om))(k \<mapsto> s\<lparr>sub_updated := now k\<rparr>))\<rparr>)
          else om)"

definition sendBatchedNotifications :: "string list \<Rightarrow> (string \<Rightarrow> string list) \<Rightarrow> string list \<Rightarrow> (string \<Rightarrow> instant) \<Rightarrow>
    (string \<rightharpoonup> resource_change list) \<Rightarrow> manager \<Rightarrow> notice list \<times> manager" where
  "sendBatchedNotifications uris skeys gkeys now batch m =
     (case fold (add_uri (sm_subs m) skeys batch) uris (Map.empty, []) of
        (groups, out) \<Rightarrow> fold (send_group groups now) gkeys (out, m))"

text \<open>The loop of the goroutine: a change is received, or the timer ticks.\<close>

definition process_change :: "string list \<Rightarrow> manager \<times> (string \<rightharpoonup> resource_change list) \<Rightarrow>
    manager \<times> (string \<rightharpoonup> resource_change list)" where
  "process_change keys mb =
     (case sm_queue (fst mb) of
        [] \<Rightarrow> mb
      | c # q \<Rightarrow>
          ((fst mb)\<lparr>sm_queue := q\<rparr>,
           if shouldNotify keys (fst mb) (chg_uri c)
           then (snd mb)(chg_uri c \<mapsto> (case snd mb (chg_uri c) of None \<Rightarrow> [] | Some cs \<Rightarrow> cs) @ [c])
           else snd mb))"

definition process_tick :: "string list \<Rightarrow> (string \<Rightarrow> string list) \<Rightarrow> string list \<Rightarrow> (string \<Rightarrow> instant) \<Rightarrow>
    manager \<times> (string \<rightharpoonup> resource_change list) \<Rightarrow> notice list \<times> (manager \<times> (string \<rightharpoonup> resource_change list))" where
  "process_tick uris skeys gkeys now mb =
     (if uris = [] then ([], mb)
      else case sendBatchedNotifications uris skeys gkeys now (snd mb) (fst mb) of
        (out, m) \<Rightarrow> (out, (m, Map.empty)))"

text \<open>The provider that wraps another one: subscribing there and then in the manager.\<close>

definition subscribable_Subscribe ::
    "(nat \<Rightarrow> 'p \<Rightarrow> instant) \<Rightarrow> (string \<Rightarrow> bool \<Rightarrow> 'p \<Rightarrow> (goerr, bool) outcome \<times> 'p) \<Rightarrow> string \<Rightarrow> bool \<Rightarrow>
     manager \<times> 'p \<Rightarrow> (goerr, bool) outcome \<times> (manager \<times> 'p)" where
  "subscribable_Subscribe now inner uri recursive mp =
     (case inner uri recursive (snd mp) of
        (Err e, p) \<Rightarrow> (Err e, (fst mp, p))
      | (Panic x, p) \<Rightarrow> (Panic x, (fst mp, p))
      | (Ok False, p) \<Rightarrow> (Ok False, (fst mp, p))
      | (Ok True, p) \<Rightarrow>
          (case Subscribe uri recursive (now 0 p) (now 1 p) (fst mp) of
             (Some e, m) \<Rightarrow> (Err e, (m, p))
           | (None, m) \<Rightarrow> (Ok True, (m, p))))"

definition UnsubscribeResource :: "string \<Rightarrow> manager \<Rightarrow> (goerr + bool) \<times> manager" where
  "UnsubscribeResource uri m =
     (case Unsubscribe uri m of (Some e, m') \<Rightarrow> (Inl e, m') | (None, m') \<Rightarrow> (Inr True, m'))"

subsection \<open>Which URIs are covered\<close>

lemma isChildResource_iff: "isChildResource child parent \<longleftrightarrow> (\<exists>rest. child = parent @ CHR ''/'' # rest)"
proof
  assume "isChildResource child parent"
  then have c: "length parent < length child" "take (length parent) child = parent"
      "child ! length parent = CHR ''/''"
    by (auto simp: isChildResource_def split: if_splits)
  have "child = parent @ CHR ''/'' # drop (Suc (length parent)) child"
    using id_take_nth_drop [OF c(1)] c(2,3) by simp
  then show "\<exists>rest. child = parent @ CHR ''/'' # rest" by blast
qed (auto simp: isChildResource_def)

lemma covers_iff: "covers subs uri k \<longleftrightarrow> (\<exists>s. subs k = Some s \<and> (uri = k \<or> sub_recursive s \<and> (\<exists>rest. uri = k @ CHR ''/'' # rest)))"
  by (auto simp: covers_def isChildResource_iff split: option.splits)

lemma shouldNotify_covers:
  assumes "order_of keys (sm_subs m)"
  shows "shouldNotify keys m uri \<longleftrightarrow> (\<exists>k. covers (sm_subs m) uri k)"
proof -
  have keys: "k \<in> set keys \<longleftrightarrow> sm_subs m k \<noteq> None" for k
    using assms by (auto simp: order_of_def)
  show ?thesis
    by (force simp: shouldNotify_def list_ex_iff keys covers_def split: option.splits)
qed

text \<open>
  C23. Whether a change is notified: the test of the goroutine, written twice in the code, agrees with
  the public one, and both mean that the URI is subscribed itself or lies below a recursively
  subscribed one (the subscribed URI, a slash and something after it).
\<close>

theorem subscription_test_iff:
  assumes "order_of keys (sm_subs m)" "order_of keys' (sm_subs m)"
  shows "IsSubscribed keys m uri = shouldNotify keys' m uri
    \<and> (shouldNotify keys' m uri \<longleftrightarrow>
        (\<exists>k s. sm_subs m k = Some s \<and> (uri = k \<or> sub_recursive s \<and> (\<exists>rest. uri = k @ CHR ''/'' # rest))))"
proof
  have keys: "k \<in> set keys \<longleftrightarrow> sm_subs m k \<noteq> None" for k
    using assms(1) by (auto simp: order_of_def)
  have "IsSubscribed keys m uri \<longleftrightarrow> (\<exists>k. covers (sm_subs m) uri k)"
    by (force simp: IsSubscribed_def list_ex_iff keys covers_def split: option.splits)
  then show "IsSubscribed keys m uri = shouldNotify keys' m uri"
    by (simp add: shouldNotify_covers [OF assms(2)])
qed (simp add: shouldNotify_covers [OF assms(2)] covers_iff)

definition demo_manager :: manager where
  "demo_manager = snd (Subscribe ''file:///a'' True 1 2 (snd (Subscribe ''db'' False 0 0 NewResourceSubscriptionManager)))"

lemma demo_manager_subs: "sm_subs demo_manager =
    [''db'' \<mapsto> \<lparr>sub_uri = ''db'', sub_recursive = False, sub_created = 0, sub_updated = 0\<rparr>,
     ''file:///a'' \<mapsto> \<lparr>sub_uri = ''file:///a'', sub_recursive = True, sub_created = 1, sub_updated = 2\<rparr>]"
  by (simp add: demo_manager_def Subscribe_def NewResourceSubscriptionManager_def)

theorem subscription_test_iff_witness:
  "IsSubscribed [''db'', ''file:///a''] demo_manager ''file:///a/b''
    = shouldNotify [''file:///a'', ''db''] demo_manager ''file:///a/b''"
proof -
  have "order_of [''db'', ''file:///a''] (sm_subs demo_manager)" "order_of [''file:///a'', ''db''] (sm_subs demo_manager)"
    by (auto simp: order_of_def demo_manager_subs)
  from subscription_test_iff [OF this] show ?thesis by blast
qed

subsection \<open>What a batch sends\<close>

text \<open>The changes of each kind in a list of changes.\<close>

definition added_in :: "resource_change list \<Rightarrow> resource list" where
  "added_in cs = concat (map (\<lambda>c. if chg_type c = ResourceAdded then case chg_resource c of None \<Rightarrow> [] | Some r \<Rightarrow> [r] else []) cs)"

definition modified_in :: "resource_change list \<Rightarrow> resource list" where
  "modified_in cs = concat (map (\<lambda>c. if chg_type c = ResourceModified then case chg_resource c of None \<Rightarrow> [] | Some r \<Rightarrow> [r] else []) cs)"

definition removed_in :: "resource_change list \<Rightarrow> string list" where
  "removed_in cs = concat (map (\<lambda>c. if chg_type c = ResourceRemoved then [chg_uri c] else []) cs)"

definition updated_in :: "resource_change list \<Rightarrow> notice list" where
  "updated_in cs = concat (map (\<lambda>c. if chg_type c = ResourceUpdated
     then case chg_contents c of None \<Rightarrow> [] | Some x \<Rightarrow> [Updated (chg_uri c) x] else []) cs)"

lemmas in_defs = added_in_def modified_in_def removed_in_def updated_in_def

lemma in_simps [simp]: "added_in [] = []" "modified_in [] = []" "removed_in [] = []" "updated_in [] = []"
  "added_in (cs @ ds) = added_in cs @ added_in ds" "modified_in (cs @ ds) = modified_in cs @ modified_in ds"
  "removed_in (cs @ ds) = removed_in cs @ removed_in ds" "updated_in (cs @ ds) = updated_in cs @ updated_in ds"
  by (simp_all add: in_defs)

definition extend_group :: "resource_change list \<Rightarrow> resources_changed_params \<Rightarrow> resources_changed_params" where
  "extend_group cs g = g\<lparr>rchg_removed := rchg_removed g @ removed_in cs,
     rchg_added := rchg_added g @ added_in cs, rchg_modified := rchg_modified g @ modified_in cs\<rparr>"

lemma extend_group_Nil [simp]: "extend_group [] g = g"
  by (simp add: extend_group_def)

lemma extend_group_append: "extend_group (cs @ ds) g = extend_group ds (extend_group cs g)"
  by (simp add: extend_group_def)

lemma add_change_eq: "add_change c (g, out) = (extend_group [c] g, out @ updated_in [c])"
  by (cases "chg_type c") (auto simp: extend_group_def in_defs split: option.splits)

lemma fold_add_change: "fold add_change cs (g, out) = (extend_group cs g, out @ updated_in cs)"
proof (induction cs arbitrary: g out)
  case (Cons c cs)
  have "extend_group cs (extend_group [c] g) = extend_group (c # cs) g"
    using extend_group_append [of "[c]" cs g] by simp
  moreover have "updated_in (c # cs) = updated_in [c] @ updated_in cs"
    using in_simps(8) [of "[c]" cs] by simp
  ultimately show ?case by (simp only: fold.simps o_apply add_change_eq Cons append_assoc)
qed (simp add: extend_group_def)

definition group_or_new :: "groups \<Rightarrow> string \<Rightarrow> resources_changed_params" where
  "group_or_new gs k = (case gs k of None \<Rightarrow> new_group k | Some g \<Rightarrow> g)"

lemma fold_add_to_group:
  assumes "distinct keys"
  shows "fold (add_to_group subs u cs) keys (gs, out) =
    (\<lambda>k. if k \<in> set keys \<and> covers subs u k then Some (extend_group cs (group_or_new gs k)) else gs k,
     out @ concat (map (\<lambda>k. if covers subs u k then updated_in cs else []) keys))"
  using assms
proof (induction keys arbitrary: gs out)
  case (Cons k keys)
  show ?case
  proof (cases "covers subs u k")
    case True
    let ?gs = "gs(k \<mapsto> extend_group cs (group_or_new gs k))"
    have "fold (add_to_group subs u cs) (k # keys) (gs, out) =
        fold (add_to_group subs u cs) keys (?gs, out @ updated_in cs)"
      using True by (simp add: add_to_group_def group_or_new_def [symmetric] Let_def fold_add_change)
    moreover have "group_or_new ?gs j = group_or_new gs j" if "j \<in> set keys" for j
      using that Cons.prems by (auto simp: group_or_new_def)
    ultimately show ?thesis using Cons True by (auto simp: fun_eq_iff)
  next
    case False
    then show ?thesis using Cons by (auto simp: add_to_group_def fun_eq_iff)
  qed
qed simp

definition changes_at :: "(string \<rightharpoonup> resource_change list) \<Rightarrow> string \<Rightarrow> resource_change list" where
  "changes_at batch u = (case batch u of None \<Rightarrow> [] | Some cs \<Rightarrow> cs)"

text \<open>What a subscription is told: the changes at the URIs it covers, and the updates of contents.\<close>

definition changes_for :: "(string \<rightharpoonup> subscription) \<Rightarrow> (string \<rightharpoonup> resource_change list) \<Rightarrow> string list \<Rightarrow> string \<Rightarrow>
    resource_change list" where
  "changes_for subs batch uris k = concat (map (\<lambda>u. if covers subs u k then changes_at batch u else []) uris)"

definition updates_for :: "(string \<rightharpoonup> subscription) \<Rightarrow> (string \<rightharpoonup> resource_change list) \<Rightarrow> string list \<Rightarrow>
    (string \<Rightarrow> string list) \<Rightarrow> notice list" where
  "updates_for subs batch uris skeys =
     concat (map (\<lambda>u. concat (map (\<lambda>k. if covers subs u k then updated_in (changes_at batch u) else []) (skeys u))) uris)"

definition told :: "resource_change list \<Rightarrow> bool" where
  "told cs \<longleftrightarrow> added_in cs \<noteq> [] \<or> modified_in cs \<noteq> [] \<or> removed_in cs \<noteq> []"

lemma fold_add_uri:
  assumes "\<And>u. u \<in> set uris \<Longrightarrow> order_of (skeys u) subs" "set uris \<subseteq> dom batch"
  shows "fold (add_uri subs skeys batch) uris (gs, out) =
    (\<lambda>k. if \<exists>u\<in>set uris. covers subs u k then Some (extend_group (changes_for subs batch uris k) (group_or_new gs k)) else gs k,
     out @ updates_for subs batch uris skeys)"
  using assms
proof (induction uris arbitrary: gs out)
  case (Cons u uris)
  obtain cs where cs: "batch u = Some cs" using Cons.prems(2) by auto
  have at: "changes_at batch u = cs" by (simp add: changes_at_def cs)
  have keys: "distinct (skeys u)" "set (skeys u) = dom subs"
    using Cons.prems(1) [of u] by (simp_all add: order_of_def)
  have mem: "k \<in> set (skeys u) \<and> covers subs u k \<longleftrightarrow> covers subs u k" for k
    by (auto simp: keys(2) covers_def split: option.splits)
  let ?gs = "\<lambda>k. if covers subs u k then Some (extend_group cs (group_or_new gs k)) else gs k"
  let ?out = "out @ concat (map (\<lambda>k. if covers subs u k then updated_in cs else []) (skeys u))"
  have "fold (add_uri subs skeys batch) (u # uris) (gs, out) = fold (add_uri subs skeys batch) uris (?gs, ?out)"
    using fold_add_to_group [OF keys(1), of subs u cs gs out] by (simp add: add_uri_def cs mem)
  also have "\<dots> = (\<lambda>k. if \<exists>u\<in>set uris. covers subs u k
        then Some (extend_group (changes_for subs batch uris k) (group_or_new ?gs k)) else ?gs k,
      ?out @ updates_for subs batch uris skeys)"
    using Cons by (intro Cons.IH) auto
  also have "?out @ updates_for subs batch uris skeys = out @ updates_for subs batch (u # uris) skeys"
    unfolding updates_for_def at [symmetric] by simp
  also have "(\<lambda>k. if \<exists>u\<in>set uris. covers subs u k
        then Some (extend_group (changes_for subs batch uris k) (group_or_new ?gs k)) else ?gs k) =
      (\<lambda>k. if \<exists>v\<in>set (u # uris). covers subs v k
        then Some (extend_group (changes_for subs batch (u # uris) k) (group_or_new gs k)) else gs k)"
  proof
    fix k
    have "\<forall>v\<in>set uris. \<not> covers subs v k \<Longrightarrow> changes_for subs batch uris k = []"
      by (auto simp: changes_for_def)
    moreover have cons: "changes_for subs batch (u # uris) k = (if covers subs u k then cs else []) @ changes_for subs batch uris k"
      unfolding changes_for_def at [symmetric] by simp
    ultimately show "(if \<exists>u\<in>set uris. covers subs u k
        then Some (extend_group (changes_for subs batch uris k) (group_or_new ?gs k)) else ?gs k) =
      (if \<exists>v\<in>set (u # uris). covers subs v k
        then Some (extend_group (changes_for subs batch (u # uris) k) (group_or_new gs k)) else gs k)"
      using cons by (auto simp: group_or_new_def extend_group_append)
  qed
  finally show ?case .
qed (simp add: updates_for_def)

lemma fold_send_group:
  assumes "distinct ks" "\<And>k. k \<in> set ks \<Longrightarrow> gs k = Some (extend_group (cs k) (new_group k))"
  shows "fold (send_group gs now) ks (out, m) =
    (out @ concat (map (\<lambda>k. if told (cs k) then [Changed k (removed_in (cs k)) (added_in (cs k)) (modified_in (cs k))] else []) ks),
     m\<lparr>sm_subs := (\<lambda>k. if k \<in> set ks \<and> told (cs k) then map_option (\<lambda>s. s\<lparr>sub_updated := now k\<rparr>) (sm_subs m k) else sm_subs m k)\<rparr>)"
  using assms
proof (induction ks arbitrary: out m)
  case (Cons k ks)
  let ?m = "if told (cs k) then m\<lparr>sm_subs := (sm_subs m)(k := map_option (\<lambda>s. s\<lparr>sub_updated := now k\<rparr>) (sm_subs m k))\<rparr> else m"
  have "send_group gs now k (out, m) =
      (out @ (if told (cs k) then [Changed k (removed_in (cs k)) (added_in (cs k)) (modified_in (cs k))] else []), ?m)"
    using Cons.prems(2) [of k]
    by (auto simp: send_group_def told_def extend_group_def new_group_def zero_resources_changed_params_def
        fun_upd_idem split: option.splits)
  moreover have "\<And>k. k \<in> set ks \<Longrightarrow> gs k = Some (extend_group (cs k) (new_group k))" using Cons.prems(2) by simp
  ultimately show ?case
    using Cons.IH [of _ ?m] Cons.prems(1) by (auto simp: fun_eq_iff)
qed simp

text \<open>
  What a tick sends, whatever the orders of the maps: first the updates of contents, one for every
  subscription that covers the URI; then, for every subscription that covers a changed URI, one
  notification with all additions, modifications and removals it covers, those of a URI in the order
  they happened, and none when there are no such changes. Nothing else is sent, nothing is lost, and
  of the subscriptions only the time of the last notification changes.
\<close>

theorem batch_reaches_subscribers:
  assumes "order_of uris batch" "\<And>u. u \<in> set uris \<Longrightarrow> order_of (skeys u) (sm_subs m)"
    and "distinct gkeys" "set gkeys = {k. \<exists>u\<in>dom batch. covers (sm_subs m) u k}"
  shows "sendBatchedNotifications uris skeys gkeys now batch m =
    (updates_for (sm_subs m) batch uris skeys
       @ concat (map (\<lambda>k. let cs = changes_for (sm_subs m) batch uris k in
           if told cs then [Changed k (removed_in cs) (added_in cs) (modified_in cs)] else []) gkeys),
     m\<lparr>sm_subs := (\<lambda>k. if k \<in> set gkeys \<and> told (changes_for (sm_subs m) batch uris k)
         then map_option (\<lambda>s. s\<lparr>sub_updated := now k\<rparr>) (sm_subs m k) else sm_subs m k)\<rparr>)"
proof -
  let ?cs = "changes_for (sm_subs m) batch uris"
  let ?gs = "\<lambda>k. if \<exists>u\<in>set uris. covers (sm_subs m) u k
    then Some (extend_group (?cs k) (group_or_new Map.empty k)) else None"
  have dom: "set uris = dom batch" using assms(1) by (simp add: order_of_def)
  have "fold (add_uri (sm_subs m) skeys batch) uris (Map.empty, []) = (?gs, updates_for (sm_subs m) batch uris skeys)"
    using fold_add_uri [of uris skeys "sm_subs m" batch Map.empty "[]"] assms(2) dom by simp
  moreover have "?gs k = Some (extend_group (?cs k) (new_group k))" if "k \<in> set gkeys" for k
    using that assms(4) dom by (auto simp: group_or_new_def)
  ultimately show ?thesis
    using fold_send_group [OF assms(3), of ?gs ?cs now] by (simp add: sendBatchedNotifications_def Let_def)
qed

theorem batch_reaches_subscribers_witness:
  "fst (sendBatchedNotifications [''file:///a/b''] (\<lambda>_. [''db'', ''file:///a'']) [''file:///a''] (\<lambda>_. 9)
     [''file:///a/b'' \<mapsto> [\<lparr>chg_type = ResourceRemoved, chg_resource = None, chg_contents = None, chg_uri = ''file:///a/b''\<rparr>]]
     demo_manager) = [Changed ''file:///a'' [''file:///a/b''] [] []]"
proof -
  let ?batch = "[''file:///a/b'' \<mapsto> [\<lparr>chg_type = ResourceRemoved, chg_resource = None, chg_contents = None, chg_uri = ''file:///a/b''\<rparr>]]"
  have cov: "covers (sm_subs demo_manager) ''file:///a/b'' k \<longleftrightarrow> k = ''file:///a''" for k
    by (auto simp: covers_def demo_manager_subs isChildResource_def split: option.splits if_splits)
  have "sendBatchedNotifications [''file:///a/b''] (\<lambda>_. [''db'', ''file:///a'']) [''file:///a''] (\<lambda>_. 9) ?batch demo_manager =
    (updates_for (sm_subs demo_manager) ?batch [''file:///a/b''] (\<lambda>_. [''db'', ''file:///a''])
       @ concat (map (\<lambda>k. let cs = changes_for (sm_subs demo_manager) ?batch [''file:///a/b''] k in
           if told cs then [Changed k (removed_in cs) (added_in cs) (modified_in cs)] else []) [''file:///a'']),
     demo_manager\<lparr>sm_subs := (\<lambda>k. if k \<in> set [''file:///a''] \<and> told (changes_for (sm_subs demo_manager) ?batch [''file:///a/b''] k)
         then map_option (\<lambda>s. s\<lparr>sub_updated := (9 :: int)\<rparr>) (sm_subs demo_manager k) else sm_subs demo_manager k)\<rparr>)"
  proof (rule batch_reaches_subscribers)
    show "order_of [''file:///a/b''] ?batch" by (simp add: order_of_def)
    show "order_of [''db'', ''file:///a''] (sm_subs demo_manager)" by (auto simp: order_of_def demo_manager_subs)
    show "set [''file:///a''] = {k. \<exists>u\<in>dom ?batch. covers (sm_subs demo_manager) u k}" by (auto simp: cov)
  qed simp
  then show ?thesis by (simp add: updates_for_def changes_for_def changes_at_def cov told_def in_defs)
qed

subsection \<open>From the channel to the batch\<close>

lemma shouldNotify_queue [simp]: "shouldNotify keys (m\<lparr>sm_queue := q\<rparr>) u = shouldNotify keys m u"
  by (simp add: shouldNotify_def)

definition batched :: "string list \<Rightarrow> manager \<Rightarrow> (string \<rightharpoonup> resource_change list) \<Rightarrow> resource_change list \<Rightarrow>
    string \<rightharpoonup> resource_change list" where
  "batched keys m batch q u =
     (let cs = filter (\<lambda>c. chg_uri c = u) q
      in if shouldNotify keys m u \<and> cs \<noteq> [] then Some (changes_at batch u @ cs) else batch u)"

lemma process_queue:
  "(process_change keys ^^ length (sm_queue m)) (m, batch) = (m\<lparr>sm_queue := []\<rparr>, batched keys m batch (sm_queue m))"
proof (induction "sm_queue m" arbitrary: m batch)
  case Nil
  then have "m\<lparr>sm_queue := []\<rparr> = m" by (metis (full_types) manager.surjective manager.update_convs(2))
  with Nil show ?case by (simp add: batched_def fun_eq_iff flip: Nil)
next
  case (Cons c q)
  let ?m = "m\<lparr>sm_queue := q\<rparr>"
  let ?b = "if shouldNotify keys m (chg_uri c) then batch(chg_uri c \<mapsto> changes_at batch (chg_uri c) @ [c]) else batch"
  have step: "process_change keys (m, batch) = (?m, ?b)"
    by (simp add: process_change_def changes_at_def flip: Cons.hyps(2))
  have "(process_change keys ^^ length (sm_queue m)) (m, batch) = (process_change keys ^^ length q) (?m, ?b)"
    by (simp add: funpow_Suc_right step del: funpow.simps flip: Cons.hyps(2))
  also have "\<dots> = (m\<lparr>sm_queue := []\<rparr>, batched keys ?m ?b q)"
    using Cons.hyps(1) [of ?m ?b] by simp
  also have "batched keys ?m ?b q = batched keys m batch (sm_queue m)"
    by (auto simp: fun_eq_iff batched_def Let_def changes_at_def simp flip: Cons.hyps(2))
  finally show ?case .
qed

text \<open>
  From the channel to the batch: once the goroutine has received the queued changes, the batch of a
  URI holds exactly the changes queued for that URI, in their order, when a subscription covers the
  URI, and nothing otherwise. The URI is that of the change itself: a change that only names its
  resource belongs to the empty URI.
\<close>

theorem queued_changes_are_batched:
  "(process_change keys ^^ length (sm_queue m)) (m, Map.empty) =
    (m\<lparr>sm_queue := []\<rparr>, \<lambda>u. let cs = filter (\<lambda>c. chg_uri c = u) (sm_queue m)
       in if shouldNotify keys m u \<and> cs \<noteq> [] then Some cs else None)"
  unfolding process_queue by (simp add: batched_def changes_at_def fun_eq_iff Let_def)

text \<open>The queue is bounded, and stopping twice or queueing after the stop panics.\<close>

lemma queue_bounded:
  "length (sm_queue m) \<le> 100 \<Longrightarrow> NotifyResourceChange c m = Ok m' \<Longrightarrow> length (sm_queue m') \<le> 100"
  by (auto simp: NotifyResourceChange_def split: if_splits)

lemma stopped_manager:
  "manager_Stop m = Ok m' \<Longrightarrow> is_panic (manager_Stop m') \<and> is_panic (NotifyResourceChange c m')"
  by (auto simp: manager_Stop_def NotifyResourceChange_def split: if_splits)

end
