(* ===== verification/Sse.thy ===== *)
theory Sse
  imports Errors Json
begin

section \<open>Server-sent events\<close>

text \<open>
  The event stream of the HTTP transport, from both ends: the text an event is written as
  (\<open>sendSSEEvent\<close> of the handler) and the reader of the client (\<open>readEvents\<close> of an event source), line
  by line, with its queue of messages, its last event id and its retry interval. A stream is the
  list of the lines that arrive; \<open>strings.TrimSpace\<close> trims the white space of ASCII.
\<close>

abbreviation newline :: string where "newline \<equiv> [CHR 0x0A]"

fun str_split :: "char \<Rightarrow> string \<Rightarrow> string list" where
  "str_split c [] = [[]]"
| "str_split c (x # s) = (if x = c then [] # str_split c s
     else (case str_split c s of [] \<Rightarrow> [[x]] | l # ls \<Rightarrow> (x # l) # ls))"

definition trim_suffix :: "string \<Rightarrow> string \<Rightarrow> string" where
  "trim_suffix s p = (if has_prefix (rev s) (rev p) then take (length s - length p) s else s)"

subsection \<open>Writing an event\<close>

definition data_lines :: "string \<Rightarrow> string" where
  "data_lines d =
     (if CHR 0x0A \<in> set d then concat (map (\<lambda>l. ''data: '' @ l @ newline) (str_split (CHR 0x0A) d))
      else ''data: '' @ d @ newline)"

definition sse_event :: "string \<Rightarrow> string \<Rightarrow> string \<Rightarrow> string" where
  "sse_event i t d = ''id: '' @ i @ newline @ ''event: '' @ t @ newline @ data_lines d @ newline"

subsection \<open>The buffer of an event source\<close>

record event_buffer =
  eb_events :: "string list"
  eb_max :: nat

definition NewEventBuffer :: "int \<Rightarrow> event_buffer" where
  "NewEventBuffer n = \<lparr>eb_events = [], eb_max = (if n \<le> 0 then 100 else nat n)\<rparr>"

definition buffer_Add :: "string \<Rightarrow> event_buffer \<Rightarrow> event_buffer" where
  "buffer_Add e b = b\<lparr>eb_events :=
     (if eb_max b \<le> length (eb_events b) then tl (eb_events b) else eb_events b) @ [e]\<rparr>"

text \<open>Draining into a channel with room for \<open>room\<close> messages: what it received, the count and the
  emptied buffer.\<close>

definition buffer_DrainTo :: "nat \<Rightarrow> event_buffer \<Rightarrow> string list \<times> nat \<times> event_buffer" where
  "buffer_DrainTo room b =
     (take room (eb_events b), min room (length (eb_events b)), b\<lparr>eb_events := []\<rparr>)"

subsection \<open>The event source\<close>

record event_source =
  es_stream :: string
  es_last :: string
  es_retry :: duration
  es_connected :: bool
  es_body :: bool
  es_closed :: bool
  es_queue :: "string list"
  es_errors :: "goerr list"
  es_buffer :: event_buffer

text \<open>The variables of the loop of \<open>readEvents\<close>.\<close>

record event_part =
  ep_data :: string
  ep_id :: string
  ep_type :: string

definition no_part :: event_part where
  "no_part = \<lparr>ep_data = [], ep_id = [], ep_type = []\<rparr>"

definition es_push :: "string \<Rightarrow> event_source \<Rightarrow> event_source" where
  "es_push m es = (if length (es_queue es) < 100 then es\<lparr>es_queue := es_queue es @ [m]\<rparr> else es)"

definition es_error :: "goerr \<Rightarrow> event_source \<Rightarrow> event_source" where
  "es_error e es = (if es_closed es then es
     else if length (es_errors es) < 10 then es\<lparr>es_errors := es_errors es @ [e]\<rparr> else es)"

definition drainBufferedEvents :: "event_source \<Rightarrow> event_source" where
  "drainBufferedEvents es =
     (case buffer_DrainTo (100 - length (es_queue es)) (es_buffer es) of
        (ms, n, b) \<Rightarrow> if eb_events (es_buffer es) = [] then es
          else es\<lparr>es_queue := es_queue es @ ms, es_buffer := b\<rparr>)"

definition es_Close :: "event_source \<Rightarrow> event_source" where
  "es_Close es = (if \<not> es_connected es then es
     else es\<lparr>es_connected := False, es_body := False, es_closed := True\<rparr>)"

text \<open>\<open>strconv.Atoi\<close>.\<close>

definition go_atoi :: "string \<Rightarrow> int option" where
  "go_atoi s =
     (let (neg, ds) = (case s of c # r \<Rightarrow> if c = CHR ''-'' then (True, r) else if c = CHR ''+'' then (False, r) else (False, s)
                       | [] \<Rightarrow> (False, []));
          n = (if neg then - int (read_nat ds) else int (read_nat ds))
      in if ds = [] \<or> \<not> list_all is_digit ds \<or> \<not> in_int64 n then None else Some n)"

definition end_of_event :: "event_source \<times> event_part \<Rightarrow> event_source \<times> event_part" where
  "end_of_event = (\<lambda>(es, p).
     if ep_data p = [] then (es, p)
     else (let es1 = (if ep_id p \<noteq> [] then es\<lparr>es_last := ep_id p\<rparr> else es) in
       if ep_type p = ''close'' then (es_Close es1, p)
       else (if es_connected es1 then es_push (ep_data p) es1 else es1, no_part)))"

definition field_value :: "string \<Rightarrow> string \<Rightarrow> string" where
  "field_value name line = trim_space (drop (length name) line)"

definition sse_line :: "string \<Rightarrow> event_source \<times> event_part \<Rightarrow> event_source \<times> event_part" where
  "sse_line raw = (\<lambda>(es, p).
     let line = trim_suffix (trim_suffix raw newline) [CHR 0x0D] in
     if line = [] \<and> p = no_part then (es, p)
     else if has_prefix line '':'' then (es, p)
     else if line = [] then end_of_event (es, p)
     else if has_prefix line ''data:'' then
       (let d = field_value ''data:'' line
        in (es, p\<lparr>ep_data := (if ep_data p = [] then d else ep_data p @ newline @ d)\<rparr>))
     else if has_prefix line ''id:'' then (es, p\<lparr>ep_id := field_value ''id:'' line\<rparr>)
     else if has_prefix line ''event:'' then (es, p\<lparr>ep_type := field_value ''event:'' line\<rparr>)
     else if has_prefix line ''retry:'' then
       (case go_atoi (field_value ''retry:'' line) of
          None \<Rightarrow> (es, p)
        | Some n \<Rightarrow> (if 0 < n then es\<lparr>es_retry := wrap64 (n * millisecond)\<rparr> else es, p))
     else (es, p))"

text \<open>The loop reads a line while the source is connected; a failed read ends it, and leaving it
  closes the connection.\<close>

fun sse_lines :: "string list \<Rightarrow> event_source \<times> event_part \<Rightarrow> event_source \<times> event_part" where
  "sse_lines [] s = s"
| "sse_lines (l # ls) s = (if es_connected (fst s) then sse_lines ls (sse_line l s) else s)"

definition leave_stream :: "event_source \<Rightarrow> event_source" where
  "leave_stream es =
     (if es_connected es
      then es_error (ErrText ''connection closed'') (es\<lparr>es_connected := False, es_body := False\<rparr>) else es)"

definition readEvents :: "string list \<Rightarrow> goerr \<Rightarrow> event_source \<Rightarrow> event_source" where
  "readEvents ls err es =
     (if \<not> es_body es then leave_stream es
      else let es' = fst (sse_lines ls (es, no_part))
           in leave_stream (if es_connected es' then es_error err es' else es'))"

text \<open>The complete lines of a text, each with its newline.\<close>

fun stream_lines :: "string \<Rightarrow> string list" where
  "stream_lines s = (let l = takeWhile (\<lambda>c. c \<noteq> CHR 0x0A) s in
     if length l < length s then (l @ newline) # stream_lines (drop (Suc (length l)) s) else [])"

declare stream_lines.simps [simp del]

subsection \<open>Reading what was written\<close>

text \<open>A value that survives a field: one line without white space around it.\<close>

definition plain :: "string \<Rightarrow> bool" where
  "plain s \<longleftrightarrow> CHR 0x0A \<notin> set s \<and> trim_space s = s"

lemma trim_space_last: "trim_space s = s \<Longrightarrow> s \<noteq> [] \<Longrightarrow> \<not> is_space (last s)"
proof -
  assume t: "trim_space s = s" and "s \<noteq> []"
  then have ne: "dropWhile is_space (rev (dropWhile is_space s)) \<noteq> []"
    by (metis trim_space_def rev.simps(1))
  have "last s = hd (dropWhile is_space (rev (dropWhile is_space s)))"
    using ne by (subst t [symmetric]) (simp add: trim_space_def last_rev)
  then show "\<not> is_space (last s)" using hd_dropWhile [OF ne] by simp
qed

lemma trim_space_Cons: "is_space c \<Longrightarrow> trim_space (c # s) = trim_space s"
  by (simp add: trim_space_def)

lemma is_space_return [simp]: "is_space (CHR 0x0D)" "is_space (CHR 0x20)"
  by (simp_all add: is_space_def)

lemma trim_newline [simp]: "trim_suffix (l @ newline) newline = l"
  by (simp add: trim_suffix_def has_prefix_def)

lemma trim_return: "plain v \<Longrightarrow> trim_suffix (n @ CHR 0x20 # v) [CHR 0x0D] = n @ CHR 0x20 # v"
proof -
  assume v: "plain v"
  have "last (CHR 0x20 # v) \<noteq> CHR 0x0D"
    using trim_space_last [of v] v by (auto simp: plain_def)
  then have "last (n @ CHR 0x20 # v) \<noteq> CHR 0x0D" by simp
  then have "hd (rev (n @ CHR 0x20 # v)) \<noteq> CHR 0x0D" unfolding hd_rev .
  then show ?thesis
    by (cases "rev (n @ CHR 0x20 # v)") (auto simp: trim_suffix_def has_prefix_def)
qed

lemma field_line:
  assumes "plain v"
  shows "sse_line (''id: '' @ v @ newline) (es, p) = (es, p\<lparr>ep_id := v\<rparr>)"
    "sse_line (''event: '' @ v @ newline) (es, p) = (es, p\<lparr>ep_type := v\<rparr>)"
    "sse_line (''data: '' @ v @ newline) (es, p) =
      (es, p\<lparr>ep_data := (if ep_data p = [] then v else ep_data p @ newline @ v)\<rparr>)"
  using assms trim_return [OF assms, of "''id:''"] trim_return [OF assms, of "''event:''"]
    trim_return [OF assms, of "''data:''"] trim_newline [of "''id: '' @ v"] trim_newline [of "''event: '' @ v"]
    trim_newline [of "''data: '' @ v"]
  by (simp_all add: sse_line_def has_prefix_def field_value_def trim_space_Cons plain_def)

lemma sse_lines_append:
  "sse_lines (a @ b) s = (if es_connected (fst (sse_lines a s)) then sse_lines b (sse_lines a s) else sse_lines a s)"
proof (induction a arbitrary: s)
  case Nil
  show ?case by (cases b) simp_all
qed auto

lemma data_line_run:
  assumes "list_all plain ls" "es_connected es" "ep_data p \<noteq> []"
  shows "sse_lines (map (\<lambda>l. ''data: '' @ l @ newline) ls) (es, p) =
    (es, p\<lparr>ep_data := ep_data p @ concat (map (\<lambda>l. newline @ l) ls)\<rparr>)"
  using assms
proof (induction ls arbitrary: p)
  case (Cons l ls)
  then show ?case using field_line(3) [of l es p] Cons.IH [of "p\<lparr>ep_data := ep_data p @ newline @ l\<rparr>"] by simp
qed simp

lemma str_split_ne [simp]: "str_split c s \<noteq> []"
  by (induction s) (auto split: list.splits)

lemma join_split: "hd (str_split c s) @ concat (map (\<lambda>l. [c] @ l) (tl (str_split c s))) = s"
proof (induction s)
  case (Cons x s)
  then show ?case by (cases "str_split c s") auto
qed simp

lemma split_single: "c \<notin> set s \<Longrightarrow> str_split c s = [s]"
  by (induction s) auto

lemma split_no_sep: "l \<in> set (str_split c s) \<Longrightarrow> c \<notin> set l"
  by (induction s arbitrary: l) (auto split: list.splits if_splits)

lemma data_lines_split: "data_lines d = concat (map (\<lambda>l. ''data: '' @ l @ newline) (str_split (CHR 0x0A) d))"
  by (simp add: data_lines_def split_single)


lemma data_line_rest:
  assumes "list_all plain (str_split (CHR 0x0A) d)" "hd (str_split (CHR 0x0A) d) \<noteq> []"
    and "es_connected es" "ep_data p = []"
  shows "sse_lines (map (\<lambda>l. ''data: '' @ l @ newline) (str_split (CHR 0x0A) d)) (es, p) = (es, p\<lparr>ep_data := d\<rparr>)"
proof -
  obtain l ls where split: "str_split (CHR 0x0A) d = l # ls" by (cases "str_split (CHR 0x0A) d") auto
  have d: "l @ concat (map (\<lambda>l. newline @ l) ls) = d" using join_split [of "CHR 0x0A" d] by (simp add: split)
  have l: "plain l" "list_all plain ls" "l \<noteq> []" using assms(1,2) by (simp_all add: split)
  show ?thesis
    using data_line_run [OF l(2) assms(3), of "p\<lparr>ep_data := l\<rparr>"] field_line(3) [OF l(1), of es p] assms(3,4) l(3)
    by (simp add: split d del: append.simps)
qed

lemma stream_lines_Cons: "CHR 0x0A \<notin> set l \<Longrightarrow> stream_lines (l @ newline @ s) = (l @ newline) # stream_lines s"
proof -
  assume l: "CHR 0x0A \<notin> set l"
  then have "takeWhile (\<lambda>c. c \<noteq> CHR 0x0A) (l @ newline @ s) = l"
    by (subst takeWhile_append2) auto
  then show ?thesis by (subst stream_lines.simps) simp
qed

lemma stream_lines_concat:
  "list_all (\<lambda>l. CHR 0x0A \<notin> set l) ls \<Longrightarrow>
    stream_lines (concat (map (\<lambda>l. l @ newline) ls) @ s) = map (\<lambda>l. l @ newline) ls @ stream_lines s"
  by (induction ls) (simp_all add: stream_lines_Cons [of _ "_ @ _", simplified])

text \<open>An event whose data can be read back: its lines are plain and it does not start with an empty one.\<close>

definition sse_data :: "string \<Rightarrow> bool" where
  "sse_data d \<longleftrightarrow> list_all plain (str_split (CHR 0x0A) d) \<and> hd (str_split (CHR 0x0A) d) \<noteq> []"

lemma sse_event_lines:
  assumes "plain i" "plain t" "sse_data d"
  shows "stream_lines (sse_event i t d @ s) = [''id: '' @ i @ newline, ''event: '' @ t @ newline]
    @ map (\<lambda>l. ''data: '' @ l @ newline) (str_split (CHR 0x0A) d) @ newline # stream_lines s"
proof -
  let ?ls = "[''id: '' @ i, ''event: '' @ t] @ map (\<lambda>l. ''data: '' @ l) (str_split (CHR 0x0A) d) @ [[]]"
  have "list_all (\<lambda>l. CHR 0x0A \<notin> set l) ?ls"
    using assms by (auto simp: plain_def sse_data_def list_all_iff)
  from stream_lines_concat [OF this, of s] show ?thesis
    by (simp add: sse_event_def data_lines_split comp_def)
qed

lemma read_event:
  assumes "plain i" "plain t" "t \<noteq> ''close''" "sse_data d" "es_connected es"
  shows "sse_lines (stream_lines (sse_event i t d @ s)) (es, no_part) =
    sse_lines (stream_lines s) (es_push d (if i = [] then es else es\<lparr>es_last := i\<rparr>), no_part)"
proof -
  let ?p = "\<lparr>ep_data = d, ep_id = i, ep_type = t\<rparr>"
  have "d \<noteq> []" using assms(4) by (auto simp: sse_data_def)
  then have eoe: "end_of_event (es, ?p) = (es_push d (if i = [] then es else es\<lparr>es_last := i\<rparr>), no_part)"
    using assms(3,5) by (simp add: end_of_event_def)
  have "sse_line newline (es, ?p) = end_of_event (es, ?p)"
    using \<open>d \<noteq> []\<close> trim_newline [of "[]"] by (simp add: sse_line_def no_part_def trim_suffix_def has_prefix_def)
  moreover have "sse_lines (map (\<lambda>l. ''data: '' @ l @ newline) (str_split (CHR 0x0A) d)) (es, \<lparr>ep_data = [], ep_id = i, ep_type = t\<rparr>)
      = (es, ?p)"
    using data_line_rest [of d es "\<lparr>ep_data = [], ep_id = i, ep_type = t\<rparr>"] assms(4,5) by (simp add: sse_data_def)
  ultimately show ?thesis
    using assms(5) field_line(1) [OF assms(1), of es no_part] field_line(2) [OF assms(2), of es "no_part\<lparr>ep_id := i\<rparr>"]
    by (simp add: sse_event_lines [OF assms(1,2,4)] sse_lines_append no_part_def eoe del: append.simps)
qed


definition event_text :: "string \<times> string \<times> string \<Rightarrow> string" where
  "event_text = (\<lambda>(i, t, d). sse_event i t d)"

definition good_event :: "string \<times> string \<times> string \<Rightarrow> bool" where
  "good_event = (\<lambda>(i, t, d). plain i \<and> plain t \<and> t \<noteq> ''close'' \<and> sse_data d)"

lemma es_push_simps [simp]:
  "es_connected (es_push d es) = es_connected es" "es_last (es_push d es) = es_last es"
  by (simp_all add: es_push_def)

lemma read_events:
  assumes "list_all good_event evs" "es_connected es" "length (es_queue es) \<le> 100"
  shows "sse_lines (stream_lines (concat (map event_text evs))) (es, no_part) =
    (es\<lparr>es_last := last (es_last es # filter (\<lambda>i. i \<noteq> []) (map fst evs)),
        es_queue := es_queue es @ take (100 - length (es_queue es)) (map (\<lambda>e. snd (snd e)) evs)\<rparr>, no_part)"
  using assms
proof (induction evs arbitrary: es)
  case Nil
  then show ?case by (simp add: stream_lines.simps)
next
  case (Cons e evs)
  obtain i t d where e: "e = (i, t, d)" by (cases e)
  have good: "plain i" "plain t" "t \<noteq> ''close''" "sse_data d" using Cons.prems(1) by (simp_all add: e good_event_def)
  let ?es = "es_push d (if i = [] then es else es\<lparr>es_last := i\<rparr>)"
  have q: "length (es_queue ?es) \<le> 100" using Cons.prems(3) by (simp add: es_push_def)
  have "sse_lines (stream_lines (event_text e @ concat (map event_text evs))) (es, no_part) =
      sse_lines (stream_lines (concat (map event_text evs))) (?es, no_part)"
    unfolding e event_text_def prod.case by (rule read_event [OF good Cons.prems(2)])
  also have "\<dots> = (?es\<lparr>es_last := last (es_last ?es # filter (\<lambda>i. i \<noteq> []) (map fst evs)),
        es_queue := es_queue ?es @ take (100 - length (es_queue ?es)) (map (\<lambda>e. snd (snd e)) evs)\<rparr>, no_part)"
    using Cons.IH [OF _ _ q] Cons.prems(1,2) by simp
  also have "\<dots> = (es\<lparr>es_last := last (es_last es # filter (\<lambda>i. i \<noteq> []) (map fst (e # evs))),
        es_queue := es_queue es @ take (100 - length (es_queue es)) (map (\<lambda>e. snd (snd e)) (e # evs))\<rparr>, no_part)"
  proof (cases "length (es_queue es) < 100")
    case True
    then have "100 - length (es_queue es) = Suc (99 - length (es_queue es))" by simp
    with True show ?thesis by (simp add: e es_push_def)
  next
    case False
    with Cons.prems(3) show ?thesis by (simp add: e es_push_def)
  qed
  finally show ?case by simp
qed

text \<open>
  Events over a stream: whatever events are written to a connected client (identifiers and types
  of one trimmed line, data of trimmed lines), its reader queues the data of each of them in order,
  as long as the queue has room for them, and remembers the last identifier for resuming.
\<close>

theorem events_roundtrip:
  assumes "list_all good_event evs" "es_connected es" "length (es_queue es) \<le> 100"
  shows "sse_lines (stream_lines (concat (map event_text evs))) (es, no_part) =
    (es\<lparr>es_last := last (es_last es # filter (\<lambda>i. i \<noteq> []) (map fst evs)),
        es_queue := es_queue es @ take (100 - length (es_queue es)) (map (\<lambda>e. snd (snd e)) evs)\<rparr>, no_part)"
  by (rule read_events [OF assms])

definition demo_source :: event_source where
  "demo_source = \<lparr>es_stream = ''listener-1'', es_last = [], es_retry = 0, es_connected = True, es_body = True,
     es_closed = False, es_queue = [], es_errors = [], es_buffer = NewEventBuffer 100\<rparr>"

theorem events_roundtrip_witness:
  "es_queue (fst (sse_lines (stream_lines (concat (map event_text [(''evt-1'', ''response'', ''{}''), (''evt-2'', ''note'', ''a'')])))
      (demo_source, no_part))) = [''{}'', ''a'']"
proof -
  have "list_all good_event [(''evt-1'', ''response'', ''{}''), (''evt-2'', ''note'', ''a'')]"
    by (simp add: good_event_def plain_def sse_data_def trim_space_def is_space_def)
  from events_roundtrip [OF this, of demo_source] show ?thesis by (simp add: demo_source_def)
qed

text \<open>The text of a JSON object is such data.\<close>

lemma newline_no_digit [simp]: "\<not> is_digit (CHR 0x0A)"
  by (simp add: is_digit_def)

lemma digits_no_newline: "CHR 0x0A \<notin> set (takeWhile is_digit s)"
  by (auto simp: is_digit_def dest: set_takeWhileD)

lemma frac_no_newline: "lex_frac s = Some (t, r) \<Longrightarrow> CHR 0x0A \<notin> set t"
  using digits_no_newline by (cases s) (auto simp: lex_frac_def split: if_splits)

lemma exp_no_newline: "lex_exp s = Some (t, r) \<Longrightarrow> CHR 0x0A \<notin> set t"
proof (cases s)
  case (Cons c s')
  assume "lex_exp s = Some (t, r)"
  then show ?thesis
    using digits_no_newline Cons by (cases s') (auto simp: lex_exp_def split: if_splits)
qed (simp add: lex_exp_def)

lemma number_no_newline:
  assumes "lex_number s = Some (t, r)"
  shows "CHR 0x0A \<notin> set t"
proof -
  obtain f s3 e where "t = fst (lex_sign s) @ takeWhile is_digit (snd (lex_sign s)) @ f @ e"
    "lex_frac (dropWhile is_digit (snd (lex_sign s))) = Some (f, s3)" "lex_exp s3 = Some (e, r)"
    using assms by (auto simp: lex_number_def Let_def split: if_splits option.splits)
  moreover have "CHR 0x0A \<notin> set (fst (lex_sign s))" by (cases s) (simp_all add: lex_sign_def)
  ultimately show ?thesis using frac_no_newline exp_no_newline digits_no_newline by auto
qed

lemma set_comma_sep: "set (comma_sep xss) \<subseteq> insert TComma (\<Union> (set ` set xss))"
  by (induction xss rule: comma_sep.induct) auto

lemma json_tokens_numbers: "wf_json v \<Longrightarrow> TNum l \<in> set (json_tokens v) \<Longrightarrow> lex_number l = Some (l, [])"
proof (induction v)
  case (JArr vs)
  then obtain v where "v \<in> set vs" "TNum l \<in> set (json_tokens v)"
    using set_comma_sep [of "map json_tokens vs"] by auto
  with JArr show ?case by (auto simp: list_all_iff)
next
  case (JObj kvs)
  then obtain k v where "(k, v) \<in> set kvs" "TNum l \<in> set (json_tokens v)"
    using set_comma_sep [of "map (\<lambda>(k, v). TStr k # TColon # json_tokens v) kvs"] by auto
  with JObj show ?case by (force simp: list_all_iff)
qed (auto split: if_splits)

lemma hex_char_no_newline: "k < 16 \<Longrightarrow> hex_char k \<noteq> CHR 0x0A"
proof -
  have "list_all (\<lambda>k. hex_char k \<noteq> CHR 0x0A) [0..<16]" by code_simp
  then show "k < 16 \<Longrightarrow> hex_char k \<noteq> CHR 0x0A" by (simp add: list_all_iff)
qed

lemma esc_no_newline: "CHR 0x0A \<notin> set (esc_char c)"
proof -
  have "of_char c div 16 < (16 :: nat)" using nat_of_char_less_256 [of c] by linarith
  then show ?thesis
    using hex_char_no_newline [of "of_char c div 16"] hex_char_no_newline [of "of_char c mod 16"]
    by (auto simp: esc_char_def)
qed

lemma json_print_no_newline: "wf_json v \<Longrightarrow> CHR 0x0A \<notin> set (json_print v)"
proof
  assume wf: "wf_json v" and "CHR 0x0A \<in> set (json_print v)"
  then obtain t where t: "t \<in> set (json_tokens v)" "CHR 0x0A \<in> set (tok_text t)"
    by (auto simp: json_print_def toks_text_def)
  show False
  proof (cases t)
    case (TNum l)
    then have "lex_number l = Some (l, [])" using t(1) json_tokens_numbers [OF wf] by simp
    from number_no_newline [OF this] show False using TNum t(2) by (simp add: tok_text.simps)
  qed (use t esc_no_newline in \<open>auto simp: tok_text.simps\<close>)
qed

lemma json_object_data: "wf_json (JObj kvs) \<Longrightarrow> sse_data (json_print (JObj kvs))"
proof -
  assume wf: "wf_json (JObj kvs)"
  have n: "CHR 0x0A \<notin> set (json_print (JObj kvs))" by (rule json_print_no_newline [OF wf])
  have p: "json_print (JObj kvs) = CHR 0x7B # toks_text (comma_sep
      (map (\<lambda>(k, v). TStr k # TColon # json_tokens v) kvs)) @ [CHR 0x7D]"
    by (simp add: json_print_def tok_text.simps)
  from p have "trim_space (json_print (JObj kvs)) = json_print (JObj kvs)"
    by (simp add: trim_space_def is_space_def)
  then show ?thesis using n by (simp add: sse_data_def split_single plain_def p)
qed

end
