(* ===== verification/Auth.thy ===== *)
theory Auth
  imports Errors Base64
begin

section \<open>Authentication: types and the contract of a provider (\<open>pkg/auth/auth.go\<close>)\<close>

text \<open>
  The requests, results and users of authentication, and the contract between a provider and the
  middleware that calls it: a token that was revoked does not validate again, whatever happens
  next, unless the provider hands the same token out anew. The providers of bearer tokens and of
  API keys are shown to meet it in their own theories. A time of expiry that is a nil pointer is
  \<open>None\<close>; randomness is an argument (\<open>None\<close> when the random source fails).
\<close>

abbreviation ErrInvalidCredentials :: string where "ErrInvalidCredentials \<equiv> ''invalid_credentials''"
abbreviation ErrTokenExpired :: string where "ErrTokenExpired \<equiv> ''token_expired''"
abbreviation ErrTokenInvalid :: string where "ErrTokenInvalid \<equiv> ''token_invalid''"
abbreviation ErrTokenRevoked :: string where "ErrTokenRevoked \<equiv> ''token_revoked''"
abbreviation ErrAccessDenied :: string where "ErrAccessDenied \<equiv> ''access_denied''"
abbreviation ErrAuthRequired :: string where "ErrAuthRequired \<equiv> ''authentication_required''"

text \<open>Authentication errors carry a code and a message; the details nothing reads are left out.\<close>

definition NewAuthError :: "string \<Rightarrow> string \<Rightarrow> goerr" where
  "NewAuthError code message = ErrAuth code message"

record user_info =
  user_id :: string
  user_username :: string
  user_email :: string
  user_roles_of :: "string list"
  user_permissions :: "string list"
  user_expires :: "instant option"

record auth_request =
  areq_type :: string
  areq_credentials :: "string \<rightharpoonup> gval"
  areq_scopes :: "string list"

record auth_result =
  ares_access_token :: string
  ares_refresh_token :: string
  ares_expires_in :: int
  ares_token_type :: string
  ares_scopes :: "string list"
  ares_user :: user_info
  ares_issued_at :: instant

text \<open>A credential that is not a string reads as the empty string, with the flag false.\<close>

definition credential :: "auth_request \<Rightarrow> string \<Rightarrow> string \<times> bool" where
  "credential req k = (case areq_credentials req k of Some (GStr s) \<Rightarrow> (s, True) | _ \<Rightarrow> ([], False))"

text \<open>\<open>int64 (d.Seconds ())\<close>: the seconds of a duration as a float, truncated.\<close>

definition go_div :: "int \<Rightarrow> int \<Rightarrow> int" where
  "go_div a b = sgn a * sgn b * (\<bar>a\<bar> div \<bar>b\<bar>)"

definition duration_seconds :: "duration \<Rightarrow> rat" where
  "duration_seconds d =
     (let s = go_div d second; ns = d - s * second
      in f64 (f64 (of_int s) + f64 (f64 (of_int ns) / 1000000000)))"

definition trunc :: "rat \<Rightarrow> int" where
  "trunc x = (if 0 \<le> x then \<lfloor>x\<rfloor> else - \<lfloor>- x\<rfloor>)"

definition seconds_of :: "duration \<Rightarrow> int" where
  "seconds_of d = trunc (duration_seconds d)"

subsection \<open>The contract of a provider\<close>

text \<open>
  \<open>step\<close> is any operation on the provider, \<open>fresh t op\<close> says that \<open>op\<close> does not hand out the token
  \<open>t\<close>; \<open>dead\<close> is what revoking establishes and every other operation keeps.
\<close>

locale revocable =
  fixes inv :: "'s \<Rightarrow> bool"
    and validate :: "'s \<Rightarrow> instant \<Rightarrow> string \<Rightarrow> goerr + 'u"
    and revoke :: "string \<Rightarrow> 's \<Rightarrow> goerr option \<times> 's"
    and step :: "'op \<Rightarrow> 's \<Rightarrow> 's"
    and fresh :: "string \<Rightarrow> 'op \<Rightarrow> bool"
    and dead :: "string \<Rightarrow> 's \<Rightarrow> bool"
  assumes step_inv: "inv s \<Longrightarrow> inv (step op s)"
    and revoke_inv: "inv s \<Longrightarrow> inv (snd (revoke t s))"
    and revoke_dead: "inv s \<Longrightarrow> fst (revoke t s) = None \<Longrightarrow> dead t (snd (revoke t s))"
    and step_dead: "inv s \<Longrightarrow> dead t s \<Longrightarrow> fresh t op \<Longrightarrow> dead t (step op s)"
    and dead_invalid: "inv s \<Longrightarrow> dead t s \<Longrightarrow> \<exists>e. validate s now t = Inl e"
begin

lemma steps_inv: "inv s \<Longrightarrow> inv (fold step ops s)"
  by (rule fold_invariant_list) (auto intro: step_inv)

lemma steps_dead:
  assumes "inv s" "dead t s" "list_all (fresh t) ops"
  shows "dead t (fold step ops s)"
proof -
  have "inv (fold step ops s) \<and> dead t (fold step ops s)"
    using assms by (intro fold_invariant_list [where P = "\<lambda>s. inv s \<and> dead t s"])
      (auto intro: step_inv step_dead simp: list_all_iff)
  then show ?thesis by simp
qed

lemma revoked_stays_invalid:
  assumes "inv s" "fst (revoke t s) = None" "list_all (fresh t) ops"
  shows "\<exists>e. validate (fold step ops (snd (revoke t s))) now t = Inl e"
  using assms by (intro dead_invalid steps_inv steps_dead revoke_inv revoke_dead)

end

end
