(* ===== verification/Bearer.thy ===== *)
theory Bearer
  imports Auth
begin

section \<open>Bearer tokens (\<open>pkg/auth/bearer.go\<close>)\<close>

text \<open>
  The token table maps an access token and its refresh token to the same \<open>tokenInfo\<close> object, and
  operations on one are seen through the other; so the table maps tokens to addresses and the
  objects live in a heap. Operations take the readings of the clock and the random bytes they use
  as arguments, in the order the code obtains them.
\<close>

record token_info =
  ti_token :: string
  ti_refresh :: string
  ti_user :: user_info
  ti_issued :: instant
  ti_expires :: instant
  ti_revoked :: bool
  ti_scopes :: "string list"

type_synonym validation_callback = "string \<Rightarrow> goerr + user_info"

record bearer =
  bt_tokens :: "string \<rightharpoonup> nat"
  bt_heap :: "nat \<rightharpoonup> token_info"
  bt_next :: nat
  bt_token_expiry :: duration
  bt_refresh_expiry :: duration
  bt_token_length :: int
  bt_refreshable :: bool
  bt_callback :: "validation_callback option"

record bearer_config =
  bc_token_expiry :: duration
  bc_refresh_expiry :: duration
  bc_token_length :: int
  bc_refreshable :: bool
  bc_callback :: "validation_callback option"

definition NewBearerTokenProvider :: "bearer_config option \<Rightarrow> bearer" where
  "NewBearerTokenProvider config =
     (let c = (case config of
          None \<Rightarrow> \<lparr>bc_token_expiry = 0, bc_refresh_expiry = 0, bc_token_length = 0,
                   bc_refreshable = False, bc_callback = None\<rparr>
        | Some c \<Rightarrow> c)
      in \<lparr>bt_tokens = Map.empty, bt_heap = Map.empty, bt_next = 0,
          bt_token_expiry = (if bc_token_expiry c = 0 then 1 * hour else bc_token_expiry c),
          bt_refresh_expiry = (if bc_refresh_expiry c = 0 then 7 * 24 * hour else bc_refresh_expiry c),
          bt_token_length = (if bc_token_length c = 0 then 32 else bc_token_length c),
          bt_refreshable = bc_refreshable c, bt_callback = bc_callback c\<rparr>)"

text \<open>The object a token refers to.\<close>

definition token_object :: "bearer \<Rightarrow> string \<Rightarrow> token_info option" where
  "token_object s t = (case bt_tokens s t of None \<Rightarrow> None | Some a \<Rightarrow> bt_heap s a)"

definition alloc :: "token_info \<Rightarrow> bearer \<Rightarrow> nat \<times> bearer" where
  "alloc i s = (bt_next s, s\<lparr>bt_heap := (bt_heap s)(bt_next s \<mapsto> i), bt_next := Suc (bt_next s)\<rparr>)"

definition bind_token :: "string \<Rightarrow> nat \<Rightarrow> bearer \<Rightarrow> bearer" where
  "bind_token t a s = s\<lparr>bt_tokens := (bt_tokens s)(t \<mapsto> a)\<rparr>"

definition modify_object :: "nat \<Rightarrow> (token_info \<Rightarrow> token_info) \<Rightarrow> bearer \<Rightarrow> bearer" where
  "modify_object a f s = s\<lparr>bt_heap := (bt_heap s)(a := map_option f (bt_heap s a))\<rparr>"

text \<open>Setting \<open>Revoked\<close> on the object a token refers to, when the table has the token.\<close>

definition revoke_object :: "string \<Rightarrow> bearer \<Rightarrow> bearer" where
  "revoke_object t s = (case bt_tokens s t of None \<Rightarrow> s
     | Some a \<Rightarrow> modify_object a (\<lambda>i. i\<lparr>ti_revoked := True\<rparr>) s)"

definition url_b64 :: "string \<Rightarrow> string" where
  "url_b64 bs = map (\<lambda>c. if c = CHR ''+'' then CHR ''-'' else if c = CHR ''/'' then CHR ''_'' else c) (b64_encode bs)"

definition generateToken :: "string option \<Rightarrow> goerr + string" where
  "generateToken rnd = (case rnd of
     None \<Rightarrow> Inl (NewAuthError ErrTokenInvalid ''failed to generate token'')
   | Some bs \<Rightarrow> Inr (url_b64 bs))"

definition bearer_Validate :: "bearer \<Rightarrow> instant \<Rightarrow> string \<Rightarrow> goerr + user_info" where
  "bearer_Validate s now token =
     (case bt_callback s of
        Some f \<Rightarrow> f token
      | None \<Rightarrow>
          (case token_object s token of
             None \<Rightarrow> Inl (NewAuthError ErrTokenInvalid ''token not found'')
           | Some i \<Rightarrow>
               if ti_revoked i then Inl (NewAuthError ErrTokenRevoked ''token has been revoked'')
               else if ti_expires i < now then Inl (NewAuthError ErrTokenExpired ''token has expired'')
               else Inr (ti_user i)))"

definition bearer_basic ::
    "auth_request \<Rightarrow> string option \<Rightarrow> string option \<Rightarrow> instant \<Rightarrow> bearer \<Rightarrow> (goerr + auth_result) \<times> bearer" where
  "bearer_basic req rnd1 rnd2 now s =
     (let username = fst (credential req ''username''); password = fst (credential req ''password'') in
      if username = [] \<or> password = [] then
        (Inl (NewAuthError ErrInvalidCredentials ''username and password required''), s)
      else (case generateToken rnd1 of
        Inl e \<Rightarrow> (Inl e, s)
      | Inr access \<Rightarrow>
          (case (if bt_refreshable s then generateToken rnd2 else Inr []) of
             Inl e \<Rightarrow> (Inl e, s)
           | Inr refresh \<Rightarrow>
               let user = \<lparr>user_id = ''user-'' @ username, user_username = username, user_email = [],
                           user_roles_of = [''user''], user_permissions = [], user_expires = None\<rparr>;
                   i = \<lparr>ti_token = access, ti_refresh = refresh, ti_user = user, ti_issued = now,
                        ti_expires = now + bt_token_expiry s, ti_revoked = False, ti_scopes = areq_scopes req\<rparr>;
                   (a, s1) = alloc i s;
                   s2 = bind_token access a s1;
                   s3 = (if refresh \<noteq> [] then bind_token refresh a s2 else s2)
               in (Inr \<lparr>ares_access_token = access, ares_refresh_token = refresh,
                     ares_expires_in = seconds_of (bt_token_expiry s), ares_token_type = ''Bearer'',
                     ares_scopes = areq_scopes req, ares_user = user, ares_issued_at = now\<rparr>, s3))))"

definition bearer_Authenticate ::
    "auth_request \<Rightarrow> string option \<Rightarrow> string option \<Rightarrow> instant \<Rightarrow> instant \<Rightarrow> bearer \<Rightarrow> (goerr + auth_result) \<times> bearer"
  where
  "bearer_Authenticate req rnd1 rnd2 now now2 s =
     (if areq_type req \<noteq> ''bearer'' \<and> areq_type req \<noteq> ''basic'' then
        (Inl (NewAuthError ErrInvalidCredentials ''unsupported authentication type''), s)
      else if areq_type req = ''basic'' then bearer_basic req rnd1 rnd2 now s
      else (let token = fst (credential req ''token'') in
        case bearer_Validate s now token of
          Inl e \<Rightarrow> (Inl e, s)
        | Inr user \<Rightarrow>
            (case token_object s token of
               None \<Rightarrow> (Inl (NewAuthError ErrTokenInvalid ''token not found''), s)
             | Some i \<Rightarrow>
                 (Inr \<lparr>ares_access_token = token, ares_refresh_token = [],
                    ares_expires_in = seconds_of (time_sub (ti_expires i) now2),
                    ares_token_type = ''Bearer'', ares_scopes = ti_scopes i, ares_user = user,
                    ares_issued_at = ti_issued i\<rparr>, s))))"

definition bearer_Refresh ::
    "string \<Rightarrow> instant \<Rightarrow> string option \<Rightarrow> instant \<Rightarrow> bearer \<Rightarrow> (goerr + auth_result) \<times> bearer" where
  "bearer_Refresh refresh now rnd now2 s =
     (if \<not> bt_refreshable s then (Inl (NewAuthError ErrInvalidCredentials ''refresh not supported''), s)
      else (case bt_tokens s refresh of
        None \<Rightarrow> (Inl (NewAuthError ErrTokenInvalid ''invalid refresh token''), s)
      | Some a \<Rightarrow>
          (case bt_heap s a of
             None \<Rightarrow> (Inl (NewAuthError ErrTokenInvalid ''invalid refresh token''), s)
           | Some i \<Rightarrow>
               if ti_refresh i \<noteq> refresh then (Inl (NewAuthError ErrTokenInvalid ''invalid refresh token''), s)
               else if ti_revoked i then (Inl (NewAuthError ErrTokenRevoked ''refresh token has been revoked''), s)
               else if ti_issued i + bt_refresh_expiry s < now then
                 (Inl (NewAuthError ErrTokenExpired ''refresh token has expired''), s)
               else (case generateToken rnd of
                  Inl e \<Rightarrow> (Inl e, s)
                | Inr access \<Rightarrow>
                    let (b, s1) = alloc \<lparr>ti_token = access, ti_refresh = refresh, ti_user = ti_user i,
                                    ti_issued = now2, ti_expires = now2 + bt_token_expiry s,
                                    ti_revoked = False, ti_scopes = ti_scopes i\<rparr> s;
                        s2 = bind_token access b s1;
                        s3 = (if ti_token i \<noteq> [] then revoke_object (ti_token i) s2 else s2);
                        s4 = modify_object a (\<lambda>i. i\<lparr>ti_token := access\<rparr>) s3
                    in (Inr \<lparr>ares_access_token = access, ares_refresh_token = refresh,
                          ares_expires_in = seconds_of (bt_token_expiry s), ares_token_type = ''Bearer'',
                          ares_scopes = ti_scopes i, ares_user = ti_user i, ares_issued_at = now2\<rparr>, s4)))))"

definition bearer_Revoke :: "string \<Rightarrow> bearer \<Rightarrow> goerr option \<times> bearer" where
  "bearer_Revoke token s =
     (case bt_tokens s token of
        None \<Rightarrow> (Some (NewAuthError ErrTokenInvalid ''token not found''), s)
      | Some a \<Rightarrow>
          (case bt_heap s a of
             None \<Rightarrow> (Some (NewAuthError ErrTokenInvalid ''token not found''), s)
           | Some i \<Rightarrow>
               let s1 = modify_object a (\<lambda>i. i\<lparr>ti_revoked := True\<rparr>) s;
                   s2 = (if ti_refresh i \<noteq> [] \<and> ti_refresh i \<noteq> token then revoke_object (ti_refresh i) s1 else s1);
                   s3 = (if ti_token i \<noteq> [] \<and> ti_token i \<noteq> token then revoke_object (ti_token i) s2 else s2)
               in (None, s3)))"

definition bearer_CleanupExpired :: "instant \<Rightarrow> bearer \<Rightarrow> bearer" where
  "bearer_CleanupExpired now s = s\<lparr>bt_tokens := (\<lambda>t. case token_object s t of
       None \<Rightarrow> bt_tokens s t
     | Some i \<Rightarrow> if ti_revoked i \<or> ti_expires i + bt_refresh_expiry s < now then None else bt_tokens s t)\<rparr>"

subsection \<open>Operations and the contract\<close>

datatype bearer_op =
    OpAuthenticate auth_request "string option" "string option" instant instant
  | OpRefresh string instant "string option" instant
  | OpRevoke string
  | OpCleanup instant

fun bearer_step :: "bearer_op \<Rightarrow> bearer \<Rightarrow> bearer" where
  "bearer_step (OpAuthenticate req r1 r2 now now2) s = snd (bearer_Authenticate req r1 r2 now now2 s)"
| "bearer_step (OpRefresh t now r now2) s = snd (bearer_Refresh t now r now2 s)"
| "bearer_step (OpRevoke t) s = snd (bearer_Revoke t s)"
| "bearer_step (OpCleanup now) s = bearer_CleanupExpired now s"

text \<open>The operation does not hand out the token anew.\<close>

fun bearer_fresh :: "string \<Rightarrow> bearer_op \<Rightarrow> bool" where
  "bearer_fresh t (OpAuthenticate req r1 r2 now now2) \<longleftrightarrow>
     generateToken r1 \<noteq> Inr t \<and> generateToken r2 \<noteq> Inr t"
| "bearer_fresh t (OpRefresh r now rnd now2) \<longleftrightarrow> generateToken rnd \<noteq> Inr t"
| "bearer_fresh t _ \<longleftrightarrow> True"

text \<open>The state without an external validator: every token of the table has its object.\<close>

definition bearer_ok :: "bearer \<Rightarrow> bool" where
  "bearer_ok s \<longleftrightarrow> bt_callback s = None \<and>
     (\<forall>t a. bt_tokens s t = Some a \<longrightarrow> bt_heap s a \<noteq> None) \<and> (\<forall>a. bt_next s \<le> a \<longrightarrow> bt_heap s a = None)"

definition bearer_dead :: "string \<Rightarrow> bearer \<Rightarrow> bool" where
  "bearer_dead t s \<longleftrightarrow> (case token_object s t of None \<Rightarrow> True | Some i \<Rightarrow> ti_revoked i)"

text \<open>What every operation does to the table and the heap: objects stay, revoked ones stay revoked,
  and only new tokens enter the table.\<close>

definition bearer_le :: "string set \<Rightarrow> bearer \<Rightarrow> bearer \<Rightarrow> bool" where
  "bearer_le new s s' \<longleftrightarrow> bt_callback s' = bt_callback s \<and>
     (\<forall>a i. bt_heap s a = Some i \<longrightarrow> (\<exists>i'. bt_heap s' a = Some i' \<and> (ti_revoked i \<longrightarrow> ti_revoked i'))) \<and>
     (\<forall>t. t \<notin> new \<longrightarrow> bt_tokens s' t = bt_tokens s t \<or> bt_tokens s' t = None)"

lemma bearer_le_refl [simp]: "bearer_le new s s"
  by (simp add: bearer_le_def)

lemma bearer_le_trans: "bearer_le new s s' \<Longrightarrow> bearer_le new s' s'' \<Longrightarrow> bearer_le new s s''"
  unfolding bearer_le_def by (metis (no_types, lifting))

lemma bearer_le_dead:
  assumes "bearer_ok s" "bearer_le new s s'" "t \<notin> new" "bearer_dead t s"
  shows "bearer_dead t s'"
proof (cases "bt_tokens s' t")
  case None
  then show ?thesis by (simp add: bearer_dead_def token_object_def)
next
  case (Some a)
  then have a: "bt_tokens s t = Some a" using assms(2,3) by (auto simp: bearer_le_def)
  then obtain i where i: "bt_heap s a = Some i" using assms(1) unfolding bearer_ok_def by blast
  then have "ti_revoked i" using a assms(4) by (simp add: bearer_dead_def token_object_def)
  then obtain i' where "bt_heap s' a = Some i'" "ti_revoked i'"
    using i assms(2) unfolding bearer_le_def by blast
  with Some show ?thesis by (simp add: bearer_dead_def token_object_def)
qed

lemma modify_object_ok:
  assumes "bearer_ok s" shows "bearer_ok (modify_object a f s)"
  using assms by (auto simp: bearer_ok_def modify_object_def)

lemma modify_object_le:
  assumes "\<And>i. ti_revoked i \<Longrightarrow> ti_revoked (f i)"
  shows "bearer_le new s (modify_object a f s)"
  using assms by (auto simp: bearer_le_def modify_object_def)

lemma revoke_object_ok: "bearer_ok s \<Longrightarrow> bearer_ok (revoke_object t s)"
  by (auto simp: revoke_object_def modify_object_ok split: option.splits)

lemma revoke_object_le: "bearer_le new s (revoke_object t s)"
  by (auto simp: revoke_object_def intro: modify_object_le split: option.splits)

lemma alloc_bind:
  assumes "bearer_ok s" "alloc i s = (a, s1)" "t \<in> new"
  shows "bearer_ok (bind_token t a s1)" "bearer_le new s (bind_token t a s1)"
    "bt_heap (bind_token t a s1) a \<noteq> None"
  using assms by (auto simp: alloc_def bind_token_def bearer_ok_def bearer_le_def)

lemma bind_again:
  assumes "bearer_ok s" "bt_heap s a \<noteq> None" "t \<in> new"
  shows "bearer_ok (bind_token t a s)" "bearer_le new s (bind_token t a s)"
  using assms by (auto simp: bind_token_def bearer_ok_def bearer_le_def)

definition new_tokens :: "string option \<Rightarrow> string set" where
  "new_tokens r = (case generateToken r of Inl e \<Rightarrow> {} | Inr t \<Rightarrow> {t})"

lemma bearer_basic_step:
  assumes "bearer_ok s"
  shows "bearer_ok (snd (bearer_basic req r1 r2 now s)) \<and>
    bearer_le (new_tokens r1 \<union> new_tokens r2) s (snd (bearer_basic req r1 r2 now s))"
proof (cases "fst (credential req ''username'') = [] \<or> fst (credential req ''password'') = []")
  case True
  then show ?thesis using assms by (simp add: bearer_basic_def)
next
  case cred: False
  show ?thesis
  proof (cases "generateToken r1")
    case (Inl e)
    then show ?thesis using assms cred by (simp add: bearer_basic_def)
  next
    case acc: (Inr access)
    show ?thesis
    proof (cases "if bt_refreshable s then generateToken r2 else Inr []")
      case (Inl e)
      then show ?thesis using assms cred acc by (simp add: bearer_basic_def)
    next
      case ref: (Inr refresh)
      let ?new = "new_tokens r1 \<union> new_tokens r2"
      define i where "i = \<lparr>ti_token = access, ti_refresh = refresh,
        ti_user = \<lparr>user_id = ''user-'' @ fst (credential req ''username''),
          user_username = fst (credential req ''username''), user_email = [],
          user_roles_of = [''user''], user_permissions = [], user_expires = None\<rparr>, ti_issued = now,
        ti_expires = now + bt_token_expiry s, ti_revoked = False, ti_scopes = areq_scopes req\<rparr>"
      obtain a s1 where al: "alloc i s = (a, s1)" by (cases "alloc i s")
      have new1: "access \<in> ?new" using acc by (simp add: new_tokens_def)
      note one = alloc_bind [OF assms al new1]
      let ?s2 = "bind_token access a s1"
      have e: "snd (bearer_basic req r1 r2 now s) = (if refresh \<noteq> [] then bind_token refresh a ?s2 else ?s2)"
        using cred acc al [unfolded i_def] unfolding bearer_basic_def ref by (simp add: Let_def)
      show ?thesis
      proof (cases "refresh = []")
        case True
        then show ?thesis using one e by simp
      next
        case False
        then have "refresh \<in> ?new" using ref by (auto simp: new_tokens_def split: if_splits)
        from bind_again [OF one(1,3) this] show ?thesis
          using e False one(2) bearer_le_trans by auto
      qed
    qed
  qed
qed

lemma bearer_Authenticate_step:
  "bearer_ok s \<Longrightarrow> bearer_ok (snd (bearer_Authenticate req r1 r2 now now2 s)) \<and>
    bearer_le (new_tokens r1 \<union> new_tokens r2) s (snd (bearer_Authenticate req r1 r2 now now2 s))"
  using bearer_basic_step [of s req r1 r2 now]
  by (auto simp: bearer_Authenticate_def Let_def split: sum.splits option.splits)

lemma bearer_Refresh_step:
  assumes ok: "bearer_ok s"
  shows "bearer_ok (snd (bearer_Refresh t now r now2 s)) \<and>
    bearer_le (new_tokens r) s (snd (bearer_Refresh t now r now2 s))"
proof (cases "\<exists>res. fst (bearer_Refresh t now r now2 s) = Inr res")
  case False
  then have "snd (bearer_Refresh t now r now2 s) = s"
    by (auto simp: bearer_Refresh_def Let_def split: option.splits sum.splits prod.splits if_splits)
  then show ?thesis using ok by simp
next
  case True
  then obtain a i access where f: "bt_refreshable s" "bt_tokens s t = Some a" "bt_heap s a = Some i"
      "ti_refresh i = t" "\<not> ti_revoked i" "\<not> ti_issued i + bt_refresh_expiry s < now"
      "generateToken r = Inr access"
    by (auto simp: bearer_Refresh_def split: option.splits sum.splits if_splits)
  define j where "j = \<lparr>ti_token = access, ti_refresh = t, ti_user = ti_user i, ti_issued = now2,
      ti_expires = now2 + bt_token_expiry s, ti_revoked = False, ti_scopes = ti_scopes i\<rparr>"
  obtain b s1 where al: "alloc j s = (b, s1)" by (cases "alloc j s")
  have new1: "access \<in> new_tokens r" using f by (simp add: new_tokens_def)
  note one = alloc_bind [OF ok al new1]
  let ?s2 = "bind_token access b s1"
  let ?s3 = "if ti_token i \<noteq> [] then revoke_object (ti_token i) ?s2 else ?s2"
  let ?s4 = "modify_object a (\<lambda>i. i\<lparr>ti_token := access\<rparr>) ?s3"
  have e: "snd (bearer_Refresh t now r now2 s) = ?s4"
    using f al by (simp add: bearer_Refresh_def j_def [symmetric] Let_def)
  have "bearer_ok ?s3" "bearer_le (new_tokens r) s ?s3"
    using one revoke_object_ok revoke_object_le bearer_le_trans by auto
  then have "bearer_ok ?s4" "bearer_le (new_tokens r) s ?s4"
    using modify_object_ok modify_object_le bearer_le_trans by (auto intro!: bearer_le_trans [OF _ modify_object_le])
  then show ?thesis using e by simp
qed

lemma bearer_Revoke_step:
  assumes ok: "bearer_ok s"
  shows "bearer_ok (snd (bearer_Revoke t s)) \<and> bearer_le {} s (snd (bearer_Revoke t s)) \<and>
    (fst (bearer_Revoke t s) = None \<longrightarrow> bearer_dead t (snd (bearer_Revoke t s)))"
proof (cases "token_object s t")
  case None
  then show ?thesis using ok
    by (auto simp: bearer_Revoke_def token_object_def bearer_dead_def split: option.splits)
next
  case (Some i)
  then obtain a where a: "bt_tokens s t = Some a" "bt_heap s a = Some i"
    by (auto simp: token_object_def split: option.splits)
  let ?s1 = "modify_object a (\<lambda>i. i\<lparr>ti_revoked := True\<rparr>) s"
  let ?s2 = "if ti_refresh i \<noteq> [] \<and> ti_refresh i \<noteq> t then revoke_object (ti_refresh i) ?s1 else ?s1"
  let ?s3 = "if ti_token i \<noteq> [] \<and> ti_token i \<noteq> t then revoke_object (ti_token i) ?s2 else ?s2"
  have e: "snd (bearer_Revoke t s) = ?s3" using a by (simp add: bearer_Revoke_def Let_def)
  have s1: "bearer_ok ?s1" "bearer_le {} s ?s1" by (simp_all add: ok modify_object_ok modify_object_le)
  have dead: "bearer_dead t ?s1" using a by (simp add: bearer_dead_def token_object_def modify_object_def)
  have s2: "bearer_ok ?s2" "bearer_le {} ?s1 ?s2" using s1 revoke_object_ok revoke_object_le by auto
  have s3: "bearer_ok ?s3" "bearer_le {} ?s2 ?s3" using s2 revoke_object_ok revoke_object_le by auto
  have "bearer_le {} ?s1 ?s3" by (rule bearer_le_trans [OF s2(2) s3(2)])
  then have "bearer_le {} s ?s3" "bearer_dead t ?s3"
    using bearer_le_trans [OF s1(2)] bearer_le_dead [OF s1(1) _ _ dead] by auto
  then show ?thesis unfolding e using s3(1) by simp
qed

lemma bearer_Cleanup_step:
  "bearer_ok s \<Longrightarrow> bearer_ok (bearer_CleanupExpired now s) \<and> bearer_le {} s (bearer_CleanupExpired now s)"
  by (auto simp: bearer_ok_def bearer_le_def bearer_CleanupExpired_def token_object_def
      split: option.splits if_splits)

lemma bearer_step_le:
  assumes "bearer_ok s"
  shows "bearer_ok (bearer_step op s)" "bearer_fresh t op \<Longrightarrow> \<exists>new. t \<notin> new \<and> bearer_le new s (bearer_step op s)"
proof -
  show "bearer_ok (bearer_step op s)"
    using assms bearer_Authenticate_step bearer_Refresh_step bearer_Revoke_step bearer_Cleanup_step
    by (cases op) auto
  show "\<exists>new. t \<notin> new \<and> bearer_le new s (bearer_step op s)" if f: "bearer_fresh t op"
  proof (cases op)
    case (OpAuthenticate req r1 r2 now now2)
    then have "t \<notin> new_tokens r1 \<union> new_tokens r2" using f by (auto simp: new_tokens_def split: sum.splits)
    then show ?thesis using OpAuthenticate bearer_Authenticate_step [OF assms] by auto
  next
    case (OpRefresh u now r now2)
    then have "t \<notin> new_tokens r" using f by (auto simp: new_tokens_def split: sum.splits)
    then show ?thesis using OpRefresh bearer_Refresh_step [OF assms] by auto
  qed (use bearer_Revoke_step [OF assms] bearer_Cleanup_step [OF assms] in auto)
qed

interpretation bearer_tokens: revocable bearer_ok bearer_Validate bearer_Revoke bearer_step bearer_fresh bearer_dead
proof (unfold_locales, goal_cases)
  case (1 s op)
  then show ?case by (rule bearer_step_le)
next
  case (2 s t)
  then show ?case using bearer_Revoke_step by simp
next
  case (3 s t)
  then show ?case using bearer_Revoke_step by simp
next
  case (4 s t op)
  then show ?case using bearer_step_le(2) bearer_le_dead by metis
next
  case (5 s t now)
  then show ?case by (auto simp: bearer_Validate_def bearer_ok_def bearer_dead_def split: option.splits)
qed

lemma NewBearerTokenProvider_ok:
  "(case config of None \<Rightarrow> True | Some c \<Rightarrow> bc_callback c = None) \<Longrightarrow> bearer_ok (NewBearerTokenProvider config)"
  by (auto simp: NewBearerTokenProvider_def bearer_ok_def Let_def split: option.splits)

text \<open>
  C26. Revocation of bearer tokens is permanent: with the provider's own token table, a token that
  was revoked fails validation after any later sequence of authentications, refreshes, revocations
  and cleanups in which the random source does not produce the same token again.
\<close>

theorem bearer_revocation_permanent:
  assumes "case config of None \<Rightarrow> True | Some c \<Rightarrow> bc_callback c = None"
    and "s = fold bearer_step before (NewBearerTokenProvider config)"
    and "fst (bearer_Revoke t s) = None" "list_all (bearer_fresh t) ops"
  shows "\<exists>e. bearer_Validate (fold bearer_step ops (snd (bearer_Revoke t s))) now t = Inl e"
  using assms NewBearerTokenProvider_ok [OF assms(1)]
  by (intro bearer_tokens.revoked_stays_invalid) (simp_all add: bearer_tokens.steps_inv)

lemma generateToken_abc: "generateToken (Some ''abc'') = Inr ''YWJj''" by code_simp
lemma generateToken_abd: "generateToken (Some ''abd'') = Inr ''YWJk''" by code_simp
lemma generateToken_abe: "generateToken (Some ''abe'') = Inr ''YWJl''" by code_simp

theorem bearer_revocation_permanent_witness:
  "\<exists>e. bearer_Validate (fold bearer_step [OpCleanup 5, OpRevoke ''x'']
     (snd (bearer_Revoke ''YWJj'' (fold bearer_step
        [OpAuthenticate \<lparr>areq_type = ''basic'', areq_credentials =
           [''username'' \<mapsto> GStr ''u'', ''password'' \<mapsto> GStr ''p''], areq_scopes = []\<rparr> (Some ''abc'') (Some ''abd'') 0 0]
        (NewBearerTokenProvider None))))) 1 ''YWJj'' = Inl e"
  by (rule bearer_revocation_permanent [OF _ refl])
    (simp_all add: NewBearerTokenProvider_def bearer_Authenticate_def bearer_basic_def Let_def credential_def
      generateToken_abc generateToken_abd alloc_def bind_token_def bearer_Revoke_def)

subsection \<open>Rotation of a refresh token\<close>

lemma bearer_basic_Inr:
  assumes "bearer_Authenticate req r1 r2 now now2 s = (Inr res, s1)" "areq_type req = ''basic''"
  defines "i \<equiv> \<lparr>ti_token = ares_access_token res, ti_refresh = ares_refresh_token res, ti_user = ares_user res,
      ti_issued = now, ti_expires = now + bt_token_expiry s, ti_revoked = False, ti_scopes = areq_scopes req\<rparr>"
  shows "s1 = s\<lparr>bt_heap := (bt_heap s)(bt_next s \<mapsto> i), bt_next := Suc (bt_next s),
      bt_tokens := (if ares_refresh_token res \<noteq> [] then (bt_tokens s)(ares_access_token res \<mapsto> bt_next s,
        ares_refresh_token res \<mapsto> bt_next s) else (bt_tokens s)(ares_access_token res \<mapsto> bt_next s))\<rparr>"
  using assms(1,2) unfolding i_def
  by (auto simp: bearer_Authenticate_def bearer_basic_def Let_def alloc_def bind_token_def
      split: sum.splits if_splits)

lemma bearer_Refresh_Inr:
  assumes "bearer_Refresh t now r now2 s = (Inr res, s')" "bt_tokens s t = Some a" "bt_heap s a = Some i"
  defines "j \<equiv> \<lparr>ti_token = ares_access_token res, ti_refresh = t, ti_user = ti_user i, ti_issued = now2,
      ti_expires = now2 + bt_token_expiry s, ti_revoked = False, ti_scopes = ti_scopes i\<rparr>"
  shows "bt_refreshable s" "s' = modify_object a (\<lambda>i. i\<lparr>ti_token := ares_access_token res\<rparr>)
      ((if ti_token i \<noteq> [] then revoke_object (ti_token i) else (\<lambda>s. s))
        (bind_token (ares_access_token res) (bt_next s) (snd (alloc j s))))"
  using assms(1-3) unfolding j_def
  by (auto simp: bearer_Refresh_def Let_def alloc_def split: sum.splits if_splits)

text \<open>
  The life of a refresh token. After a successful basic authentication the access token and
  the refresh token both validate until they expire. A refresh then yields an access token that
  validates, and it spends the refresh token: the access and refresh tokens of the first result
  are refused from then on, a second refresh with the same token included, because revoking the
  old access token marks the object that the refresh token shares with it.
\<close>

theorem refresh_spends_token:
  assumes "bt_callback s = None"
    and "bearer_Authenticate req r1 r2 now now2 s = (Inr res, s1)" "areq_type req = ''basic''"
    and "ares_access_token res \<noteq> []" "ares_refresh_token res \<noteq> []"
    and "bearer_Refresh (ares_refresh_token res) t3 r3 t4 s1 = (Inr res2, s2)"
    and "ares_access_token res2 \<notin> {ares_access_token res, ares_refresh_token res}"
  shows "(u \<le> now + bt_token_expiry s \<longrightarrow>
        bearer_Validate s1 u (ares_access_token res) = Inr (ares_user res) \<and>
        bearer_Validate s1 u (ares_refresh_token res) = Inr (ares_user res))
    \<and> (u \<le> t4 + bt_token_expiry s \<longrightarrow> bearer_Validate s2 u (ares_access_token res2) = Inr (ares_user res))
    \<and> bearer_Validate s2 u (ares_access_token res) = Inl (NewAuthError ErrTokenRevoked ''token has been revoked'')
    \<and> bearer_Validate s2 u (ares_refresh_token res) = Inl (NewAuthError ErrTokenRevoked ''token has been revoked'')
    \<and> bearer_Refresh (ares_refresh_token res) t5 r5 t6 s2 =
        (Inl (NewAuthError ErrTokenRevoked ''refresh token has been revoked''), s2)"
proof -
  let ?acc = "ares_access_token res" and ?ref = "ares_refresh_token res" and ?acc2 = "ares_access_token res2"
  let ?a = "bt_next s"
  note s1 = bearer_basic_Inr [OF assms(2,3)]
  have t1: "bt_tokens s1 ?ref = Some ?a" "bt_tokens s1 ?acc = Some ?a" "bt_next s1 = Suc ?a"
      "bt_token_expiry s1 = bt_token_expiry s" "bt_callback s1 = None" "bt_refresh_expiry s1 = bt_refresh_expiry s"
    using assms(1,5) by (simp_all add: s1)
  obtain i where i: "bt_heap s1 ?a = Some i" "ti_user i = ares_user res" "ti_expires i = now + bt_token_expiry s"
      "\<not> ti_revoked i" "ti_token i = ?acc" "ti_refresh i = ?ref"
    using assms(5) by (simp add: s1)
  have ne: "?ref \<noteq> ?acc2" "?acc \<noteq> ?acc2" using assms(7) by auto
  note s2 = bearer_Refresh_Inr [OF assms(6) t1(1) i(1)]
  have t2: "bt_tokens s2 ?ref = Some ?a" "bt_tokens s2 ?acc = Some ?a" "bt_tokens s2 ?acc2 = Some (Suc ?a)"
      "bt_callback s2 = None" "bt_refreshable s2"
    using assms(4,7) ne t1 s2(1) i(5)
    by (simp_all add: s2(2) modify_object_def revoke_object_def bind_token_def alloc_def)
  have h2: "\<exists>j. bt_heap s2 ?a = Some j \<and> ti_revoked j \<and> ti_refresh j = ?ref"
      "\<exists>j. bt_heap s2 (Suc ?a) = Some j \<and> \<not> ti_revoked j \<and> ti_user j = ares_user res \<and>
         ti_expires j = t4 + bt_token_expiry s"
    using assms(4,7) ne t1 i by (auto simp: s2(2) modify_object_def revoke_object_def bind_token_def alloc_def)
  show ?thesis
    using t1 t2 i h2 assms(1) by (auto simp: bearer_Validate_def token_object_def bearer_Refresh_def)
qed

theorem refresh_spends_token_witness:
  "\<exists>res s1 res2 s2. bearer_Authenticate \<lparr>areq_type = ''basic'', areq_credentials =
         [''username'' \<mapsto> GStr ''u'', ''password'' \<mapsto> GStr ''p''], areq_scopes = []\<rparr> (Some ''abc'') (Some ''abd'') 0 0
         (NewBearerTokenProvider (Some \<lparr>bc_token_expiry = 10, bc_refresh_expiry = 20, bc_token_length = 32,
            bc_refreshable = True, bc_callback = None\<rparr>)) = (Inr res, s1)
     \<and> bearer_Refresh (ares_refresh_token res) 5 (Some ''abe'') 6 s1 = (Inr res2, s2)
     \<and> bearer_Validate s2 16 (ares_access_token res2) = Inr (ares_user res)
     \<and> bearer_Refresh (ares_refresh_token res) 7 (Some ''abf'') 8 s2 =
        (Inl (NewAuthError ErrTokenRevoked ''refresh token has been revoked''), s2)"
proof -
  let ?s = "NewBearerTokenProvider (Some \<lparr>bc_token_expiry = 10, bc_refresh_expiry = 20, bc_token_length = 32,
            bc_refreshable = True, bc_callback = None\<rparr>)"
  let ?req = "\<lparr>areq_type = ''basic'', areq_credentials =
         [''username'' \<mapsto> GStr ''u'', ''password'' \<mapsto> GStr ''p''], areq_scopes = []\<rparr>"
  obtain res s1 where a: "bearer_Authenticate ?req (Some ''abc'') (Some ''abd'') 0 0 ?s = (Inr res, s1)"
      "ares_access_token res = ''YWJj''" "ares_refresh_token res = ''YWJk''"
    by (simp add: NewBearerTokenProvider_def bearer_Authenticate_def bearer_basic_def Let_def credential_def
      generateToken_abc generateToken_abd alloc_def bind_token_def)
  obtain res2 s2 where r: "bearer_Refresh (ares_refresh_token res) 5 (Some ''abe'') 6 s1 = (Inr res2, s2)"
      "ares_access_token res2 = ''YWJl''"
    using a by (auto simp: bearer_basic_Inr [OF a(1)] NewBearerTokenProvider_def bearer_Refresh_def Let_def
        generateToken_abe alloc_def bind_token_def)
  have "bt_callback ?s = None" "bt_token_expiry ?s = 10" by (simp_all add: NewBearerTokenProvider_def)
  then show ?thesis
    using a r refresh_spends_token [OF _ a(1) _ _ _ r(1), of 16 7 "Some ''abf''" 8] by auto
qed

end
