(* ===== verification/ApiKey.thy ===== *)
theory ApiKey
  imports Auth
begin

section \<open>API keys (\<open>pkg/auth/apikey.go\<close>)\<close>

text \<open>
  The provider of long-lived keys: a table from keys to their data. A key is the configured prefix
  followed by random bytes in hexadecimal. Validation trims white space around the key, the other
  operations do not. The user of a key is a pointer the caller passes, so it may be nil
  (\<open>None\<close>). White space is that of ASCII.
\<close>

record rate_limits =
  rl_per_minute :: int
  rl_per_hour :: int
  rl_per_day :: int

record api_key =
  ak_key :: string
  ak_user :: "user_info option"
  ak_created :: instant
  ak_last_used :: instant
  ak_expires :: "instant option"
  ak_revoked :: bool
  ak_scopes :: "string list"
  ak_limits :: "rate_limits option"
  ak_description :: string

type_synonym key_callback = "string \<Rightarrow> goerr + user_info option"

record api_keys =
  as_keys :: "string \<rightharpoonup> api_key"
  as_prefix :: string
  as_length :: int
  as_callback :: "key_callback option"

record api_key_config =
  akc_prefix :: string
  akc_length :: int
  akc_callback :: "key_callback option"

definition NewAPIKeyProvider :: "api_key_config option \<Rightarrow> api_keys" where
  "NewAPIKeyProvider config =
     (let c = (case config of None \<Rightarrow> \<lparr>akc_prefix = [], akc_length = 0, akc_callback = None\<rparr> | Some c \<Rightarrow> c)
      in \<lparr>as_keys = Map.empty, as_prefix = (if akc_prefix c = [] then ''mcp_'' else akc_prefix c),
          as_length = (if akc_length c = 0 then 32 else akc_length c), as_callback = akc_callback c\<rparr>)"

definition api_Validate :: "api_keys \<Rightarrow> instant \<Rightarrow> string \<Rightarrow> goerr + user_info option" where
  "api_Validate s now key0 =
     (case as_callback s of
        Some f \<Rightarrow> f key0
      | None \<Rightarrow>
          let key = trim_space key0 in
          if as_prefix s \<noteq> [] \<and> \<not> has_prefix key (as_prefix s) then
            Inl (NewAuthError ErrTokenInvalid ''invalid API key format'')
          else (case as_keys s key of
            None \<Rightarrow> Inl (NewAuthError ErrTokenInvalid ''API key not found'')
          | Some i \<Rightarrow>
              if ak_revoked i then Inl (NewAuthError ErrTokenRevoked ''API key has been revoked'')
              else if (case ak_expires i of None \<Rightarrow> False | Some t \<Rightarrow> t < now) then
                Inl (NewAuthError ErrTokenExpired ''API key has expired'')
              else Inr (ak_user i)))"

text \<open>The key of a request: the credential \<open>apiKey\<close>, or else \<open>key\<close>.\<close>

definition request_key :: "auth_request \<Rightarrow> string option" where
  "request_key req =
     (let (k1, ok1) = credential req ''apiKey''; (k2, ok2) = credential req ''key'' in
      if ok1 \<and> k1 \<noteq> [] then Some k1 else if ok2 \<and> k2 \<noteq> [] then Some k2 else None)"

record api_auth_result =
  kres_access_token :: string
  kres_token_type :: string
  kres_expires_in :: int
  kres_user :: "user_info option"
  kres_issued_at :: instant
  kres_scopes :: "string list"

definition api_Authenticate ::
    "auth_request \<Rightarrow> instant \<Rightarrow> instant \<Rightarrow> instant \<Rightarrow> api_keys \<Rightarrow> (goerr + api_auth_result) \<times> api_keys" where
  "api_Authenticate req now now2 now3 s =
     (if areq_type req \<noteq> ''apikey'' then
        (Inl (NewAuthError ErrInvalidCredentials ''unsupported authentication type''), s)
      else (case request_key req of
        None \<Rightarrow> (Inl (NewAuthError ErrInvalidCredentials ''API key required''), s)
      | Some key \<Rightarrow>
          (case api_Validate s now key of
             Inl e \<Rightarrow> (Inl e, s)
           | Inr user \<Rightarrow>
               (Inr \<lparr>kres_access_token = key, kres_token_type = ''APIKey'', kres_expires_in = 31536000,
                  kres_user = user, kres_issued_at = now3, kres_scopes = areq_scopes req\<rparr>,
                s\<lparr>as_keys := (case as_keys s key of None \<Rightarrow> as_keys s
                   | Some i \<Rightarrow> (as_keys s)(key \<mapsto> i\<lparr>ak_last_used := now2\<rparr>))\<rparr>))))"

definition api_Refresh :: "string \<Rightarrow> goerr + api_auth_result" where
  "api_Refresh token = Inl (NewAuthError ErrInvalidCredentials ''API keys do not support refresh'')"

definition api_Revoke :: "string \<Rightarrow> api_keys \<Rightarrow> goerr option \<times> api_keys" where
  "api_Revoke key s =
     (case as_keys s key of
        None \<Rightarrow> (Some (NewAuthError ErrTokenInvalid ''API key not found''), s)
      | Some i \<Rightarrow> (None, s\<lparr>as_keys := (as_keys s)(key \<mapsto> i\<lparr>ak_revoked := True\<rparr>)\<rparr>))"

text \<open>A key is the prefix followed by random bytes in hexadecimal.\<close>

definition key_of :: "api_keys \<Rightarrow> string \<Rightarrow> string" where
  "key_of s bs = as_prefix s @ hex_string bs"

text \<open>The random source fills a buffer of \<open>keyLength\<close> bytes.\<close>

definition CreateAPIKey :: "user_info option \<Rightarrow> string \<Rightarrow> instant option \<Rightarrow> string list \<Rightarrow> string option \<Rightarrow>
    instant \<Rightarrow> api_keys \<Rightarrow> (goerr + string) \<times> api_keys" where
  "CreateAPIKey user description expires scopes rnd now s =
     (case rnd of
        None \<Rightarrow> (Inl (NewAuthError ErrTokenInvalid ''failed to generate API key''), s)
      | Some bs \<Rightarrow>
          let key = key_of s bs;
              i = \<lparr>ak_key = key, ak_user = user, ak_created = now, ak_last_used = now, ak_expires = expires,
                   ak_revoked = False, ak_scopes = scopes, ak_limits = None, ak_description = description\<rparr>
          in (Inr key, s\<lparr>as_keys := (as_keys s)(key \<mapsto> i)\<rparr>))"

record api_key_view =
  kv_prefix :: string
  kv_description :: string
  kv_created :: instant
  kv_last_used :: instant
  kv_expires :: "instant option"
  kv_scopes :: "string list"

text \<open>The listing of a user's keys, in the order in which Go iterates the table.\<close>

fun list_keys :: "api_keys \<Rightarrow> string \<Rightarrow> string list \<Rightarrow> (goerr, api_key_view list) outcome" where
  "list_keys s u [] = Ok []"
| "list_keys s u (k # ks) =
     (case as_keys s k of
        None \<Rightarrow> list_keys s u ks
      | Some i \<Rightarrow>
          (case ak_user i of
             None \<Rightarrow> Panic ''nil pointer dereference''
           | Some x \<Rightarrow>
               if user_id x = u \<and> \<not> ak_revoked i then
                 (if length (ak_key i) < 8 then Panic ''slice bounds out of range''
                  else bind_outcome (list_keys s u ks) (\<lambda>vs. Ok
                    (\<lparr>kv_prefix = as_prefix s @ take 8 (ak_key i) @ ''...'', kv_description = ak_description i,
                      kv_created = ak_created i, kv_last_used = ak_last_used i, kv_expires = ak_expires i,
                      kv_scopes = ak_scopes i\<rparr> # vs)))
               else list_keys s u ks))"

definition ListAPIKeys :: "string list \<Rightarrow> api_keys \<Rightarrow> string \<Rightarrow> (goerr, api_key_view list) outcome" where
  "ListAPIKeys keys s u = list_keys s u keys"

definition ValidateAPIKeyFormat :: "api_keys \<Rightarrow> string \<Rightarrow> bool" where
  "ValidateAPIKeyFormat s key =
     (if as_prefix s \<noteq> [] \<and> \<not> has_prefix key (as_prefix s) then False
      else int (length key) = int (length (as_prefix s)) + as_length s * 2)"

definition CompareAPIKeys :: "string \<Rightarrow> string \<Rightarrow> bool" where
  "CompareAPIKeys a b \<longleftrightarrow> length a = length b \<and> list_all2 (=) a b"

definition api_CleanupExpired :: "instant \<Rightarrow> api_keys \<Rightarrow> api_keys" where
  "api_CleanupExpired now s = s\<lparr>as_keys := (\<lambda>k. case as_keys s k of
       None \<Rightarrow> None
     | Some i \<Rightarrow> if ak_revoked i \<or> (case ak_expires i of None \<Rightarrow> False | Some t \<Rightarrow> t < now)
                 then None else Some i)\<rparr>"

definition GetRateLimits :: "string \<Rightarrow> api_keys \<Rightarrow> goerr + rate_limits" where
  "GetRateLimits key s =
     (case as_keys s key of
        None \<Rightarrow> Inl (NewAuthError ErrTokenInvalid ''API key not found'')
      | Some i \<Rightarrow>
          (case ak_limits i of
             None \<Rightarrow> Inr \<lparr>rl_per_minute = 60, rl_per_hour = 1000, rl_per_day = 10000\<rparr>
           | Some l \<Rightarrow> Inr l))"

definition SetRateLimits :: "string \<Rightarrow> rate_limits option \<Rightarrow> api_keys \<Rightarrow> goerr option \<times> api_keys" where
  "SetRateLimits key limits s =
     (case as_keys s key of
        None \<Rightarrow> (Some (NewAuthError ErrTokenInvalid ''API key not found''), s)
      | Some i \<Rightarrow> (None, s\<lparr>as_keys := (as_keys s)(key \<mapsto> i\<lparr>ak_limits := limits\<rparr>)\<rparr>))"

subsection \<open>Keys and white space\<close>

text \<open>A key that still starts with the prefix after trimming was not changed by it.\<close>

lemma trim_key:
  assumes "p \<noteq> []" "\<forall>c \<in> set h. \<not> is_space c" "has_prefix (trim_space (p @ h)) p"
  shows "trim_space (p @ h) = p @ h"
proof -
  let ?l = "dropWhile is_space (p @ h)"
  have len: "length p \<le> length (trim_space (p @ h))"
    using assms(3) by (auto simp: has_prefix_iff)
  obtain c p' where p: "p = c # p'" using assms(1) by (cases p) auto
  have first: "\<not> is_space c"
  proof
    assume "is_space c"
    have "rev ?l = takeWhile is_space (rev ?l) @ dropWhile is_space (rev ?l)" by simp
    then have split: "?l = trim_space (p @ h) @ rev (takeWhile is_space (rev ?l))"
      unfolding trim_space_def by (metis rev_append rev_rev_ident)
    have ne: "trim_space (p @ h) \<noteq> []" using len p by auto
    then have "hd (trim_space (p @ h)) = c" using assms(3) p by (auto simp: has_prefix_iff)
    moreover have "hd ?l = hd (trim_space (p @ h))" by (subst split) (simp add: ne)
    moreover have "?l \<noteq> []" using split ne by (metis append_is_Nil_conv)
    then have "\<not> is_space (hd ?l)" by (rule hd_dropWhile)
    ultimately show False using \<open>is_space c\<close> by simp
  qed
  then have l: "?l = p @ h" using p by simp
  show ?thesis
  proof (cases h rule: rev_cases)
    case Nil
    have "length (dropWhile is_space (rev p)) = length (rev p)"
      using len l Nil length_dropWhile_le [of is_space "rev p"] by (simp add: trim_space_def)
    then have "dropWhile is_space (rev p) = rev p"
      by (metis append_self_conv2 length_0_conv length_append add_cancel_left_left takeWhile_dropWhile_id)
    then show ?thesis using l Nil by (simp add: trim_space_def)
  next
    case (snoc h' x)
    then show ?thesis using assms(2) l by (simp add: trim_space_def)
  qed
qed

lemma trim_padded:
  assumes "list_all is_space pre" "list_all is_space post" "k \<noteq> []" "\<not> is_space (hd k)" "\<not> is_space (last k)"
  shows "trim_space (pre @ k @ post) = k"
proof -
  obtain c k' where k: "k = c # k'" using assms(3) by (cases k) auto
  obtain d k'' where k2: "rev k = d # k''" using assms(3) by (cases "rev k") auto
  have d: "\<not> is_space d" using assms(5) k2 by (metis hd_rev list.sel(1))
  have "dropWhile is_space (pre @ k @ post) = k @ post"
    using assms(1,4) k by (simp add: dropWhile_append2 list_all_iff)
  moreover have "dropWhile is_space (rev post @ rev k) = rev k"
    using assms(2) k2 d by (subst dropWhile_append2) (auto simp: list_all_iff)
  ultimately show ?thesis by (simp add: trim_space_def)
qed

subsection \<open>The contract\<close>

datatype api_op =
    KeyCreate "user_info option" string "instant option" "string list" "string option" instant
  | KeyAuthenticate auth_request instant instant instant
  | KeyRevoke string
  | KeyCleanup instant
  | KeyLimits string "rate_limits option"

fun api_step :: "api_op \<Rightarrow> api_keys \<Rightarrow> api_keys" where
  "api_step (KeyCreate u d e sc rnd now) s = snd (CreateAPIKey u d e sc rnd now s)"
| "api_step (KeyAuthenticate req now now2 now3) s = snd (api_Authenticate req now now2 now3 s)"
| "api_step (KeyRevoke k) s = snd (api_Revoke k s)"
| "api_step (KeyCleanup now) s = api_CleanupExpired now s"
| "api_step (KeyLimits k l) s = snd (SetRateLimits k l s)"

text \<open>The operation does not create the key: the key does not end in the bytes it draws.\<close>

fun api_fresh :: "string \<Rightarrow> api_op \<Rightarrow> bool" where
  "api_fresh k (KeyCreate u d e sc rnd now) \<longleftrightarrow>
     (case rnd of None \<Rightarrow> True | Some bs \<Rightarrow> drop (length k - 2 * length bs) k \<noteq> hex_string bs)"
| "api_fresh k _ \<longleftrightarrow> True"

definition key_shape :: "api_keys \<Rightarrow> string \<Rightarrow> bool" where
  "key_shape s k \<longleftrightarrow> (\<exists>bs. k = key_of s bs)"

definition api_inv :: "api_keys \<Rightarrow> bool" where
  "api_inv s \<longleftrightarrow> as_callback s = None \<and> as_prefix s \<noteq> [] \<and> (\<forall>k \<in> dom (as_keys s). key_shape s k)"

definition api_dead :: "string \<Rightarrow> api_keys \<Rightarrow> bool" where
  "api_dead k s \<longleftrightarrow> key_shape s k \<and> (case as_keys s k of None \<Rightarrow> True | Some i \<Rightarrow> ak_revoked i)"

lemmas api_ops = CreateAPIKey_def api_Authenticate_def api_Revoke_def api_CleanupExpired_def SetRateLimits_def

lemma api_step_config:
  "as_prefix (api_step op s) = as_prefix s" "as_callback (api_step op s) = as_callback s"
  "as_length (api_step op s) = as_length s"
  by (cases op; auto simp: api_ops Let_def split: option.splits sum.splits)+

lemma api_step_shape: "key_shape (api_step op s) k \<longleftrightarrow> key_shape s k"
  by (simp add: key_shape_def key_of_def api_step_config)

lemma api_step_keys:
  assumes "k \<in> dom (as_keys (api_step op s))"
  shows "k \<in> dom (as_keys s) \<or> key_shape s k"
  using assms
  by (cases op) (auto simp: api_ops Let_def key_shape_def split: option.splits sum.splits if_splits)

lemma api_step_inv: "api_inv s \<Longrightarrow> api_inv (api_step op s)"
  using api_step_keys by (fastforce simp: api_inv_def api_step_config api_step_shape)

lemma api_step_dead:
  assumes "api_dead k s" "api_fresh k op"
  shows "api_dead k (api_step op s)"
proof -
  have "case as_keys (api_step op s) k of None \<Rightarrow> True | Some i \<Rightarrow> ak_revoked i"
    using assms
    by (cases op) (auto simp: api_ops api_dead_def Let_def key_of_def split: option.splits sum.splits if_splits)
  then show ?thesis using assms(1) by (simp add: api_dead_def api_step_shape)
qed

lemma api_dead_invalid:
  assumes "api_inv s" "api_dead k s"
  shows "\<exists>e. api_Validate s now k = Inl e"
proof (cases "has_prefix (trim_space k) (as_prefix s)")
  case True
  then have "trim_space k = k"
    using assms hex_string_no_space trim_key [of "as_prefix s"]
    by (auto simp: api_inv_def api_dead_def key_shape_def key_of_def)
  then show ?thesis
    using assms by (auto simp: api_Validate_def api_inv_def api_dead_def Let_def split: option.splits)
next
  case False
  then show ?thesis using assms by (simp add: api_Validate_def api_inv_def Let_def)
qed

interpretation api_key_table: revocable api_inv api_Validate api_Revoke api_step api_fresh api_dead
proof (unfold_locales, goal_cases)
  case (1 s op)
  then show ?case by (rule api_step_inv)
next
  case (2 s t)
  then show ?case using api_step_inv [of s "KeyRevoke t"] by simp
next
  case (3 s t)
  then show ?case
    by (auto simp: api_Revoke_def api_dead_def api_inv_def key_shape_def key_of_def split: option.splits)
next
  case (4 s t op)
  then show ?case using api_step_dead by simp
next
  case (5 s t now)
  then show ?case by (rule api_dead_invalid)
qed

lemma NewAPIKeyProvider_inv:
  "(case config of None \<Rightarrow> True | Some c \<Rightarrow> akc_callback c = None) \<Longrightarrow> api_inv (NewAPIKeyProvider config)"
  by (auto simp: NewAPIKeyProvider_def api_inv_def Let_def split: option.splits)

text \<open>
  Revocation of API keys is permanent: with the provider's own table, a key that was revoked
  fails validation after any later sequence of creations, authentications, revocations, cleanups
  and changes of limits in which the random source does not produce the same key again.
\<close>

theorem api_revocation_permanent:
  assumes "case config of None \<Rightarrow> True | Some c \<Rightarrow> akc_callback c = None"
    and "s = fold api_step before (NewAPIKeyProvider config)"
    and "fst (api_Revoke k s) = None" "list_all (api_fresh k) ops"
  shows "\<exists>e. api_Validate (fold api_step ops (snd (api_Revoke k s))) now k = Inl e"
  using assms NewAPIKeyProvider_inv [OF assms(1)]
  by (intro api_key_table.revoked_stays_invalid) (simp_all add: api_key_table.steps_inv)

lemma hex_ab: "hex_string ''ab'' = ''6162''" by code_simp

theorem api_revocation_permanent_witness:
  "\<exists>e. api_Validate (fold api_step [KeyCleanup 5, KeyLimits ''x'' None]
     (snd (api_Revoke ''mcp_6162'' (fold api_step [KeyCreate None [] None [] (Some ''ab'') 0]
        (NewAPIKeyProvider None))))) 1 ''mcp_6162'' = Inl e"
  by (rule api_revocation_permanent [OF _ refl])
    (simp_all add: NewAPIKeyProvider_def CreateAPIKey_def Let_def key_of_def hex_ab api_Revoke_def)

text \<open>
  The life of a key: a key just created, with any white space around it, validates for the
  user it was created for until its expiry and fails after it; it has the format that
  \<open>ValidateAPIKeyFormat\<close> checks. With white space around it, it is accepted by \<open>Validate\<close> and
  refused by \<open>Revoke\<close>.
\<close>

theorem created_key_validates:
  assumes "as_callback s = None" "CreateAPIKey u d e sc (Some bs) now s = (Inr k, s')"
    and "bs \<noteq> []" "int (length bs) = as_length s" "\<not> is_space (hd k)"
    and "list_all is_space pre" "list_all is_space post"
  shows "api_Validate s' t (pre @ k @ post) =
      (if case e of None \<Rightarrow> False | Some x \<Rightarrow> x < t
       then Inl (NewAuthError ErrTokenExpired ''API key has expired'') else Inr u)
    \<and> ValidateAPIKeyFormat s' k
    \<and> (pre @ post \<noteq> [] \<and> as_keys s (pre @ k @ post) = None \<longrightarrow>
        api_Revoke (pre @ k @ post) s' = (Some (NewAuthError ErrTokenInvalid ''API key not found''), s'))"
proof -
  have k: "k = key_of s bs" and s': "s' = s\<lparr>as_keys := (as_keys s)(k \<mapsto>
      \<lparr>ak_key = k, ak_user = u, ak_created = now, ak_last_used = now, ak_expires = e, ak_revoked = False,
       ak_scopes = sc, ak_limits = None, ak_description = d\<rparr>)\<rparr>"
    using assms(2) by (auto simp: CreateAPIKey_def Let_def)
  have h: "hex_string bs \<noteq> []" using assms(3) by (metis length_0_conv length_hex_string mult_is_0 zero_neq_numeral)
  have "\<not> is_space (last k)" using h hex_string_no_space [OF last_in_set [OF h]] k by (simp add: key_of_def)
  then have tr: "trim_space (pre @ k @ post) = k"
    using assms(5-7) h k by (intro trim_padded) (auto simp: key_of_def)
  have p: "has_prefix k (as_prefix s)" using k by (simp add: key_of_def)
  have "api_Validate s' t (pre @ k @ post) =
      (if case e of None \<Rightarrow> False | Some x \<Rightarrow> x < t
       then Inl (NewAuthError ErrTokenExpired ''API key has expired'') else Inr u)"
    using assms(1) p by (simp add: api_Validate_def s' tr)
  moreover have "ValidateAPIKeyFormat s' k"
    using p k assms(4) by (simp add: ValidateAPIKeyFormat_def s' key_of_def)
  moreover have "pre @ k @ post \<noteq> k" if "pre @ post \<noteq> []"
  proof
    assume "pre @ k @ post = k"
    then have "length (pre @ k @ post) = length k" by (rule arg_cong)
    then show False using that by simp
  qed
  ultimately show ?thesis by (auto simp: api_Revoke_def s' simp del: append_is_Nil_conv)
qed

theorem created_key_validates_witness:
  "\<exists>k s'. CreateAPIKey None ''ci'' (Some 10) [] (Some ''ab'') 0
        (NewAPIKeyProvider (Some \<lparr>akc_prefix = ''k'', akc_length = 2, akc_callback = None\<rparr>)) = (Inr k, s')
    \<and> api_Validate s' 10 ('' '' @ k @ []) = Inr None
    \<and> api_Revoke ('' '' @ k @ []) s' = (Some (NewAuthError ErrTokenInvalid ''API key not found''), s')"
proof -
  let ?s = "NewAPIKeyProvider (Some \<lparr>akc_prefix = ''k'', akc_length = 2, akc_callback = None\<rparr>)"
  let ?k = "key_of ?s ''ab''"
  obtain s' where c: "CreateAPIKey None ''ci'' (Some 10) [] (Some ''ab'') 0 ?s = (Inr ?k, s')"
    by (simp add: CreateAPIKey_def Let_def)
  show ?thesis
    using c created_key_validates [OF _ c, of "'' ''" "[]" 10]
    by (auto simp: NewAPIKeyProvider_def key_of_def is_space_def)
qed

end
