(* ===== verification/AuthMiddleware.thy ===== *)
theory AuthMiddleware
  imports Bearer ApiKey Rbac Protocol
begin

section \<open>The authentication middleware (\<open>pkg/auth/middleware.go\<close>)\<close>

text \<open>
  The middleware authenticates requests before it forwards them to the transport it wraps. Its
  state is a cache of validated tokens; the provider's \<open>Validate\<close> (with the reading of the clock
  it takes) and the operations of the wrapped transport, which work on a state of their own, are
  arguments. A \<open>*UserInfo\<close> may be nil (\<open>None\<close>). Go evicts an arbitrary entry of a full cache:
  the entry is chosen by the argument \<open>pick\<close>. White space and letter case are those of ASCII.
\<close>

record call_ctx =
  cx_token :: "string option"
  cx_user :: "user_info option option"

definition ContextWithToken :: "call_ctx \<Rightarrow> string \<Rightarrow> call_ctx" where
  "ContextWithToken cx token = cx\<lparr>cx_token := Some token\<rparr>"

definition ContextWithUserInfo :: "call_ctx \<Rightarrow> user_info option \<Rightarrow> call_ctx" where
  "ContextWithUserInfo cx u = cx\<lparr>cx_user := Some u\<rparr>"

definition UserInfoFromContext :: "call_ctx \<Rightarrow> user_info option \<times> bool" where
  "UserInfoFromContext cx = (case cx_user cx of None \<Rightarrow> (None, False) | Some u \<Rightarrow> (u, True))"

definition extractToken :: "call_ctx \<Rightarrow> string" where
  "extractToken cx = (case cx_token cx of None \<Rightarrow> [] | Some t \<Rightarrow> t)"

definition member_string :: "gval \<Rightarrow> string \<Rightarrow> string option" where
  "member_string m k = (case m of
     GMap kvs \<Rightarrow> (case map_of kvs k of Some (GStr s) \<Rightarrow> Some s | _ \<Rightarrow> None) | _ \<Rightarrow> None)"

definition extractTokenFromRequest :: "request \<Rightarrow> string" where
  "extractTokenFromRequest r =
     (case req_params r of
        None \<Rightarrow> []
      | Some p \<Rightarrow>
          (case decode_any p of
             None \<Rightarrow> []
           | Some m \<Rightarrow>
               (case member_string m ''_authorization'' of
                  Some auth \<Rightarrow>
                    if has_prefix (to_lower auth) ''bearer '' then trim_space (drop 7 auth)
                    else if has_prefix (to_lower auth) ''apikey '' then trim_space (drop 7 auth)
                    else auth
                | None \<Rightarrow> (case member_string m ''_token'' of Some t \<Rightarrow> t | None \<Rightarrow> []))))"

subsection \<open>The cache\<close>

record cache_entry =
  ce_user :: "user_info option"
  ce_expires :: instant

record token_cache =
  tc_entries :: "(string \<times> cache_entry) list"
  tc_max_size :: int
  tc_ttl :: duration

definition cache_get :: "token_cache \<Rightarrow> instant \<Rightarrow> string \<Rightarrow> user_info option" where
  "cache_get c now token =
     (case map_of (tc_entries c) token of
        None \<Rightarrow> None
      | Some e \<Rightarrow> if ce_expires e < now then None else ce_user e)"

definition delete_key :: "string \<Rightarrow> (string \<times> 'a) list \<Rightarrow> (string \<times> 'a) list" where
  "delete_key k kvs = filter (\<lambda>(k', v). k' \<noteq> k) kvs"

definition evict :: "nat \<Rightarrow> (string \<times> 'a) list \<Rightarrow> (string \<times> 'a) list" where
  "evict pick kvs = (if kvs = [] then [] else delete_key (fst (kvs ! (pick mod length kvs))) kvs)"

definition cache_set :: "nat \<Rightarrow> instant \<Rightarrow> string \<Rightarrow> user_info option \<Rightarrow> token_cache \<Rightarrow> token_cache" where
  "cache_set pick now token u c =
     (let es = (if tc_max_size c \<le> int (length (tc_entries c)) then evict pick (tc_entries c) else tc_entries c)
      in c\<lparr>tc_entries := (token, \<lparr>ce_user = u, ce_expires = now + tc_ttl c\<rparr>) # delete_key token es\<rparr>)"

definition cache_cleanup :: "instant \<Rightarrow> token_cache \<Rightarrow> token_cache" where
  "cache_cleanup now c = c\<lparr>tc_entries := filter (\<lambda>(k, e). \<not> ce_expires e < now) (tc_entries c)\<rparr>"

subsection \<open>Configuration and checks\<close>

record auth_rbac = rbac_config +
  rc_enabled :: bool

record cache_config =
  cc_enabled :: bool
  cc_max_size :: int
  cc_ttl :: duration
  cc_cleanup :: duration

record auth_config =
  ac_required :: bool
  ac_anonymous :: bool
  ac_token_expiry :: duration
  ac_refresh_threshold :: duration
  ac_cache :: "cache_config option"
  ac_rbac :: "auth_rbac option"

definition NewAuthMiddleware :: "auth_config option \<Rightarrow> auth_config \<times> token_cache option" where
  "NewAuthMiddleware config =
     (let c = (case config of
          None \<Rightarrow> \<lparr>ac_required = True, ac_anonymous = False, ac_token_expiry = 1 * hour,
                   ac_refresh_threshold = 5 * minute, ac_cache = None, ac_rbac = None\<rparr>
        | Some c \<Rightarrow> c)
      in (c, case ac_cache c of
               None \<Rightarrow> None
             | Some k \<Rightarrow> if cc_enabled k
                 then Some \<lparr>tc_entries = [], tc_max_size = cc_max_size k, tc_ttl = cc_ttl k\<rparr> else None))"

definition isAnonymousAllowed :: "auth_config \<Rightarrow> string \<Rightarrow> bool" where
  "isAnonymousAllowed cfg m =
     (if \<not> ac_anonymous cfg then False else m \<in> set [''initialize'', ''ping'', ''health''])"

definition role_permissions :: "(string \<times> string list) list" where
  "role_permissions = [(''admin'', [''*'']), (''user'', [''read'', ''list'']), (''guest'', [''read''])]"

definition hasRolePermission :: "string \<Rightarrow> string list \<Rightarrow> bool" where
  "hasRolePermission r required =
     (case map_of role_permissions r of
        None \<Rightarrow> False
      | Some perms \<Rightarrow> if ''*'' \<in> set perms then True else list_ex (\<lambda>q. q \<in> set perms) required)"

definition rbac_enabled :: "auth_config \<Rightarrow> bool" where
  "rbac_enabled cfg = (case ac_rbac cfg of None \<Rightarrow> False | Some r \<Rightarrow> rc_enabled r)"

definition required_permissions :: "auth_config \<Rightarrow> string \<Rightarrow> string list option" where
  "required_permissions cfg m = (case ac_rbac cfg of None \<Rightarrow> None
     | Some r \<Rightarrow> (case rc_resource_permissions r of None \<Rightarrow> None | Some rp \<Rightarrow> rp m))"

text \<open>The fields of a nil user are read when permissions are required of it, which panics.\<close>

definition checkPermission :: "auth_config \<Rightarrow> user_info option \<Rightarrow> string \<Rightarrow> (goerr, bool) outcome" where
  "checkPermission cfg user m =
     (if \<not> rbac_enabled cfg then Ok True
      else (case required_permissions cfg m of
        None \<Rightarrow> Ok True
      | Some required \<Rightarrow>
          (case user of
             None \<Rightarrow> Panic ''nil pointer dereference''
           | Some u \<Rightarrow>
               Ok (if list_ex (\<lambda>q. q \<in> set (user_permissions u)) required then True
                   else list_ex (\<lambda>r. hasRolePermission r required) (user_roles_of u)))))"

subsection \<open>Authenticating a token\<close>

text \<open>What a call draws from its environment: three readings of the clock and the evicted entry.\<close>

record readings =
  rd_get :: instant
  rd_validate :: instant
  rd_set :: instant
  rd_pick :: nat

type_synonym validator = "instant \<Rightarrow> string \<Rightarrow> goerr + user_info option"

definition validateToken ::
    "validator \<Rightarrow> readings \<Rightarrow> string \<Rightarrow> token_cache option \<Rightarrow> (goerr + user_info option) \<times> token_cache option" where
  "validateToken validate rd token c =
     (case (case c of None \<Rightarrow> None | Some k \<Rightarrow> cache_get k (rd_get rd) token) of
        Some u \<Rightarrow> (Inr (Some u), c)
      | None \<Rightarrow>
          (case validate (rd_validate rd) token of
             Inl e \<Rightarrow> (Inl e, c)
           | Inr u \<Rightarrow> (Inr u, map_option (cache_set (rd_pick rd) (rd_set rd) token u) c)))"

text \<open>The checks that requests and notifications share: an error, or the context to forward with.\<close>

definition auth_check :: "auth_config \<Rightarrow> validator \<Rightarrow> readings \<Rightarrow> call_ctx \<Rightarrow> string \<Rightarrow> string \<Rightarrow>
    token_cache option \<Rightarrow> (goerr, call_ctx) outcome \<times> token_cache option" where
  "auth_check cfg validate rd cx token m c =
     (if ac_required cfg \<and> token = [] \<and> \<not> isAnonymousAllowed cfg m then
        (Err (NewAuthError ErrAuthRequired ''authentication required''), c)
      else if token \<noteq> [] then
        (case validateToken validate rd token c of
           (Inl e, c') \<Rightarrow> (Err e, c')
         | (Inr u, c') \<Rightarrow>
             let cx' = ContextWithUserInfo cx u in
             (if rbac_enabled cfg then
                bind_outcome (checkPermission cfg u m) (\<lambda>ok.
                  if ok then Ok cx' else Err (NewAuthError ErrAccessDenied ''insufficient permissions''))
              else Ok cx', c'))
      else (Ok cx, c))"

text \<open>Forwarding: \<open>'w\<close> is the state of the wrapped transport, \<open>'r\<close> the result of its operation.\<close>

definition auth_SendRequest :: "auth_config \<Rightarrow> validator \<Rightarrow> (call_ctx \<Rightarrow> string \<Rightarrow> gval \<Rightarrow> 'w \<Rightarrow> (goerr, 'r) outcome \<times> 'w) \<Rightarrow>
    readings \<Rightarrow> call_ctx \<Rightarrow> string \<Rightarrow> gval \<Rightarrow> token_cache option \<times> 'w \<Rightarrow> (goerr, 'r) outcome \<times> (token_cache option \<times> 'w)"
  where
  "auth_SendRequest cfg validate send rd cx m p s =
     (case auth_check cfg validate rd cx (extractToken cx) m (fst s) of
        (Ok cx', c') \<Rightarrow> (case send cx' m p (snd s) of (r, w') \<Rightarrow> (r, (c', w')))
      | (Err e, c') \<Rightarrow> (Err e, (c', snd s))
      | (Panic x, c') \<Rightarrow> (Panic x, (c', snd s)))"

definition auth_SendNotification ::
    "auth_config \<Rightarrow> validator \<Rightarrow> (call_ctx \<Rightarrow> string \<Rightarrow> gval \<Rightarrow> 'w \<Rightarrow> (goerr, unit) outcome \<times> 'w) \<Rightarrow>
    readings \<Rightarrow> call_ctx \<Rightarrow> string \<Rightarrow> gval \<Rightarrow> token_cache option \<times> 'w \<Rightarrow> (goerr, unit) outcome \<times> (token_cache option \<times> 'w)"
  where
  "auth_SendNotification cfg validate send rd cx m p s =
     (case auth_check cfg validate rd cx (extractToken cx) m (fst s) of
        (Ok cx', c') \<Rightarrow> (case send cx' m p (snd s) of (r, w') \<Rightarrow> (r, (c', w')))
      | (Err e, c') \<Rightarrow> (Err e, (c', snd s))
      | (Panic x, c') \<Rightarrow> (Panic x, (c', snd s)))"

text \<open>The replies of an incoming request carry a message and leave the version field empty.\<close>

definition auth_refusal :: "gval \<Rightarrow> string \<Rightarrow> response" where
  "auth_refusal i m = \<lparr>resp_jsonrpc = [], resp_id = i, resp_result = None,
     resp_error = Some \<lparr>err_code = - 32603, err_message = m, err_data = GNil\<rparr>\<rparr>"

definition auth_HandleRequest ::
    "auth_config \<Rightarrow> validator \<Rightarrow> (call_ctx \<Rightarrow> request \<Rightarrow> 'w \<Rightarrow> (goerr, response) outcome \<times> 'w) \<Rightarrow>
    readings \<Rightarrow> call_ctx \<Rightarrow> request \<Rightarrow> token_cache option \<times> 'w \<Rightarrow> (goerr, response) outcome \<times> (token_cache option \<times> 'w)"
  where
  "auth_HandleRequest cfg validate handle rd cx r s =
     (case auth_check cfg validate rd cx (extractTokenFromRequest r) (req_method r) (fst s) of
        (Ok cx', c') \<Rightarrow> (case handle cx' r (snd s) of (x, w') \<Rightarrow> (x, (c', w')))
      | (Err e, c') \<Rightarrow> (Ok (auth_refusal (req_id r) (Error e)), (c', snd s))
      | (Panic x, c') \<Rightarrow> (Panic x, (c', snd s)))"

text \<open>Batches: sending checks the permissions of every item, handling forwards the batch as it is.\<close>

fun batch_permissions :: "auth_config \<Rightarrow> user_info option \<Rightarrow> batch_item list \<Rightarrow> (goerr, unit) outcome" where
  "batch_permissions cfg u [] = Ok ()"
| "batch_permissions cfg u (BReq r # items) =
     bind_outcome (checkPermission cfg u (req_method r)) (\<lambda>ok.
       if ok then batch_permissions cfg u items
       else Err (NewAuthError ErrAccessDenied (''insufficient permissions for method '' @ req_method r)))"
| "batch_permissions cfg u (BNotif n # items) =
     bind_outcome (checkPermission cfg u (notif_method n)) (\<lambda>ok.
       if ok then batch_permissions cfg u items
       else Err (NewAuthError ErrAccessDenied (''insufficient permissions for notification '' @ notif_method n)))"

definition auth_batch_check :: "auth_config \<Rightarrow> validator \<Rightarrow> readings \<Rightarrow> call_ctx \<Rightarrow> batch_item list \<Rightarrow>
    token_cache option \<Rightarrow> (goerr, call_ctx) outcome \<times> token_cache option" where
  "auth_batch_check cfg validate rd cx items c =
     (let token = extractToken cx in
      if ac_required cfg \<and> token = [] then
        (Err (NewAuthError ErrAuthRequired ''authentication required''), c)
      else if token \<noteq> [] then
        (case validateToken validate rd token c of
           (Inl e, c') \<Rightarrow> (Err e, c')
         | (Inr u, c') \<Rightarrow>
             (bind_outcome (if rbac_enabled cfg then batch_permissions cfg u items else Ok ())
                (\<lambda>_. Ok (ContextWithUserInfo cx u)), c'))
      else (Ok cx, c))"

definition auth_SendBatchRequest ::
    "auth_config \<Rightarrow> validator \<Rightarrow> (call_ctx \<Rightarrow> batch_item list \<Rightarrow> 'w \<Rightarrow> (goerr, 'r) outcome \<times> 'w) \<Rightarrow>
    readings \<Rightarrow> call_ctx \<Rightarrow> batch_item list \<Rightarrow> token_cache option \<times> 'w \<Rightarrow> (goerr, 'r) outcome \<times> (token_cache option \<times> 'w)"
  where
  "auth_SendBatchRequest cfg validate send rd cx items s =
     (case auth_batch_check cfg validate rd cx items (fst s) of
        (Ok cx', c') \<Rightarrow> (case send cx' items (snd s) of (r, w') \<Rightarrow> (r, (c', w')))
      | (Err e, c') \<Rightarrow> (Err e, (c', snd s))
      | (Panic x, c') \<Rightarrow> (Panic x, (c', snd s)))"

definition auth_HandleBatchRequest ::
    "(call_ctx \<Rightarrow> batch_item list \<Rightarrow> 'w \<Rightarrow> 'r \<times> 'w) \<Rightarrow> call_ctx \<Rightarrow> batch_item list \<Rightarrow>
    token_cache option \<times> 'w \<Rightarrow> 'r \<times> (token_cache option \<times> 'w)" where
  "auth_HandleBatchRequest handle cx items s =
     (case handle cx items (snd s) of (r, w') \<Rightarrow> (r, (fst s, w')))"

definition auth_HandleNotification ::
    "(call_ctx \<Rightarrow> notification \<Rightarrow> 'w \<Rightarrow> 'r \<times> 'w) \<Rightarrow> call_ctx \<Rightarrow> notification \<Rightarrow>
    token_cache option \<times> 'w \<Rightarrow> 'r \<times> (token_cache option \<times> 'w)" where
  "auth_HandleNotification handle cx n s = (case handle cx n (snd s) of (r, w') \<Rightarrow> (r, (fst s, w')))"

subsection \<open>What passes the middleware\<close>

lemma auth_check_Ok:
  assumes "auth_check cfg validate rd cx token m c = (Ok cx', c')"
  shows "(token = [] \<and> cx' = cx \<and> (ac_required cfg \<longrightarrow> isAnonymousAllowed cfg m)) \<or>
    (token \<noteq> [] \<and> (\<exists>u. validateToken validate rd token c = (Inr u, c') \<and>
       (rbac_enabled cfg \<longrightarrow> checkPermission cfg u m = Ok True) \<and> cx' = ContextWithUserInfo cx u))"
  using assms
  by (auto simp: auth_check_def Let_def split: prod.splits sum.splits if_splits)

text \<open>
  C27. The gate: with authentication required and no anonymous access, the wrapped transport
  handles a request only when the request carries a token that the provider accepts or the cache
  holds unexpired, and whose user has the permission when RBAC is on; it then runs with that user
  in its context. Otherwise its state is untouched and the caller gets a refusal for the request's
  id (or the middleware panics).
\<close>

theorem request_gate:
  assumes "ac_required cfg" "\<not> ac_anonymous cfg"
    and "auth_HandleRequest cfg validate handle rd cx r (c, w) = (x, (c', w'))"
  shows "w' = w \<and> (is_panic x \<or> (\<exists>m. x = Ok (auth_refusal (req_id r) m))) \<or>
    (\<exists>u. extractTokenFromRequest r \<noteq> [] \<and>
       (validate (rd_validate rd) (extractTokenFromRequest r) = Inr u \<or>
        (\<exists>k. c = Some k \<and> u \<noteq> None \<and> cache_get k (rd_get rd) (extractTokenFromRequest r) = u)) \<and>
       (rbac_enabled cfg \<longrightarrow> checkPermission cfg u (req_method r) = Ok True) \<and>
       (x, w') = handle (ContextWithUserInfo cx u) r w)"
proof -
  let ?token = "extractTokenFromRequest r"
  obtain o1 c1 where a: "auth_check cfg validate rd cx ?token (req_method r) c = (o1, c1)"
    by (cases "auth_check cfg validate rd cx ?token (req_method r) c")
  show ?thesis
  proof (cases o1)
    case (Ok cx')
    then obtain u where u: "?token \<noteq> []" "validateToken validate rd ?token c = (Inr u, c1)"
        "rbac_enabled cfg \<longrightarrow> checkPermission cfg u (req_method r) = Ok True" "cx' = ContextWithUserInfo cx u"
      using auth_check_Ok [OF a [unfolded Ok]] assms(1,2) by (auto simp: isAnonymousAllowed_def)
    have "validate (rd_validate rd) ?token = Inr u \<or>
        (\<exists>k. c = Some k \<and> u \<noteq> None \<and> cache_get k (rd_get rd) ?token = u)"
      using u(2) by (auto simp: validateToken_def split: option.splits sum.splits)
    moreover have "(x, w') = handle cx' r w"
      using assms(3) a Ok by (auto simp: auth_HandleRequest_def split: prod.splits)
    ultimately show ?thesis using u by blast
  qed (use assms(3) a in \<open>auto simp: auth_HandleRequest_def\<close>)
qed

definition demo_config :: auth_config where
  "demo_config = \<lparr>ac_required = True, ac_anonymous = False, ac_token_expiry = 0, ac_refresh_threshold = 0,
     ac_cache = None, ac_rbac = None\<rparr>"

theorem request_gate_witness:
  "\<exists>x c' w'. auth_HandleRequest demo_config (\<lambda>now t. Inl ErrCanceled) (\<lambda>cx r w. (Panic ''handled'', Suc w))
      \<lparr>rd_get = 0, rd_validate = 0, rd_set = 0, rd_pick = 0\<rparr> \<lparr>cx_token = None, cx_user = None\<rparr>
      (NewRequest (GInt 1) ''tools/list'' GNil) (None, 0) = (x, (c', w')) \<and> w' = 0"
proof -
  let ?run = "auth_HandleRequest demo_config (\<lambda>now t. Inl ErrCanceled) (\<lambda>cx r w. (Panic ''handled'', Suc w))
      \<lparr>rd_get = 0, rd_validate = 0, rd_set = 0, rd_pick = 0\<rparr> \<lparr>cx_token = None, cx_user = None\<rparr>
      (NewRequest (GInt 1) ''tools/list'' GNil) (None, 0)"
  obtain x c' w' where r: "?run = (x, (c', w'))" by (metis prod_cases3)
  have t: "extractTokenFromRequest (NewRequest (GInt 1) ''tools/list'' GNil) = []"
    by (simp add: extractTokenFromRequest_def NewRequest_def raw_of_def)
  have "w' = 0"
    using request_gate [OF _ _ r] t by (auto simp: demo_config_def)
  then show ?thesis using r by blast
qed

text \<open>
  Permissions: a method without an entry needs none; for a method with one, a user passes
  when one of the user's permissions is listed, when a role is \<open>admin\<close>, or when the list has
  \<open>read\<close> (roles \<open>user\<close> and \<open>guest\<close>) or \<open>list\<close> (role \<open>user\<close>). So an empty list admits nobody but
  administrators, and other roles count for nothing.
\<close>

theorem checkPermission_iff:
  assumes "rbac_enabled cfg"
  shows "checkPermission cfg (Some u) m = Ok (case required_permissions cfg m of
      None \<Rightarrow> True
    | Some req \<Rightarrow> set (user_permissions u) \<inter> set req \<noteq> {} \<or> ''admin'' \<in> set (user_roles_of u) \<or>
        (''user'' \<in> set (user_roles_of u) \<and> {''read'', ''list''} \<inter> set req \<noteq> {}) \<or>
        (''guest'' \<in> set (user_roles_of u) \<and> ''read'' \<in> set req))"
proof (cases "required_permissions cfg m")
  case (Some req)
  have role: "hasRolePermission r req \<longleftrightarrow> r = ''admin'' \<or> r = ''user'' \<and> {''read'', ''list''} \<inter> set req \<noteq> {} \<or>
      r = ''guest'' \<and> ''read'' \<in> set req" for r
    by (auto simp: hasRolePermission_def role_permissions_def list_ex_iff)
  have "list_ex (\<lambda>r. hasRolePermission r req) (user_roles_of u) \<longleftrightarrow> ''admin'' \<in> set (user_roles_of u) \<or>
        (''user'' \<in> set (user_roles_of u) \<and> {''read'', ''list''} \<inter> set req \<noteq> {}) \<or>
        (''guest'' \<in> set (user_roles_of u) \<and> ''read'' \<in> set req)"
    unfolding list_ex_iff role by blast
  moreover have "list_ex (\<lambda>q. q \<in> set (user_permissions u)) req \<longleftrightarrow> set (user_permissions u) \<inter> set req \<noteq> {}"
    unfolding list_ex_iff by blast
  ultimately show ?thesis using Some assms by (simp add: checkPermission_def)
qed (simp add: checkPermission_def)

definition demo_rbac :: auth_config where
  "demo_rbac = demo_config\<lparr>ac_rbac := Some \<lparr>rc_default_role = [], rc_role_hierarchy = [],
     rc_resource_permissions = Some [''tools/call'' \<mapsto> []], rc_enabled = True\<rparr>\<rparr>"

theorem checkPermission_iff_witness:
  "checkPermission demo_rbac (Some \<lparr>user_id = ''u'', user_username = [], user_email = [],
      user_roles_of = [''user''], user_permissions = [''*''], user_expires = None\<rparr>) ''tools/call'' = Ok False"
  using checkPermission_iff [of demo_rbac] by (simp add: rbac_enabled_def required_permissions_def demo_rbac_def)

subsection \<open>The cache and revocation\<close>

lemma delete_key_set: "(k', v) \<in> set (delete_key k kvs) \<longleftrightarrow> (k', v) \<in> set kvs \<and> k' \<noteq> k"
  by (auto simp: delete_key_def)

lemma delete_key_length: "length (delete_key k kvs) \<le> length kvs"
  by (simp add: delete_key_def)

lemma delete_key_map: "map fst (delete_key k kvs) = filter (\<lambda>x. x \<noteq> k) (map fst kvs)"
  by (induction kvs) (auto simp: delete_key_def)

lemma evict_subset: "set (evict pick kvs) \<subseteq> set kvs"
  by (auto simp: evict_def delete_key_def)

lemma evict_distinct: "distinct (map fst kvs) \<Longrightarrow> distinct (map fst (evict pick kvs))"
  by (simp add: evict_def delete_key_map)

lemma evict_length:
  assumes "kvs \<noteq> []" shows "length (evict pick kvs) < length kvs"
proof -
  let ?i = "pick mod length kvs"
  have "?i < length kvs" using assms by simp
  then have "kvs ! ?i \<in> set kvs" by simp
  then show ?thesis
    unfolding evict_def delete_key_def using assms
    by (auto intro!: length_filter_less [of "kvs ! ?i"])
qed

definition cache_inv :: "token_cache \<Rightarrow> bool" where
  "cache_inv k \<longleftrightarrow> distinct (map fst (tc_entries k)) \<and> int (length (tc_entries k)) \<le> tc_max_size k"

lemma cache_set_inv:
  assumes "cache_inv k" "1 \<le> tc_max_size k"
  shows "cache_inv (cache_set pick now token u k)"
proof -
  let ?es = "if tc_max_size k \<le> int (length (tc_entries k)) then evict pick (tc_entries k) else tc_entries k"
  have "int (length ?es) < tc_max_size k"
    using assms evict_length [of "tc_entries k" pick]
    by (cases "tc_entries k = []") (auto simp: cache_inv_def evict_def)
  moreover have "distinct (map fst ?es)" using assms(1) evict_distinct [of "tc_entries k" pick] by (simp add: cache_inv_def)
  ultimately show ?thesis
    using delete_key_length [of token ?es]
    by (auto simp: cache_inv_def cache_set_def Let_def delete_key_map)
qed

text \<open>Every cached entry of the token expires by \<open>E\<close>.\<close>

definition cached_until :: "instant \<Rightarrow> string \<Rightarrow> token_cache option \<Rightarrow> bool" where
  "cached_until E t c \<longleftrightarrow>
     (case c of None \<Rightarrow> True | Some k \<Rightarrow> list_all (\<lambda>(t', e). t' = t \<longrightarrow> ce_expires e \<le> E) (tc_entries k))"

lemma cached_until_get:
  assumes "cached_until E t (Some k)" "E < now" shows "cache_get k now t = None"
proof (cases "map_of (tc_entries k) t")
  case (Some e)
  then have "ce_expires e \<le> E" using assms(1) by (auto simp: cached_until_def list_all_iff dest!: map_of_SomeD)
  then show ?thesis using Some assms(2) by (simp add: cache_get_def)
qed (simp add: cache_get_def)

lemma cached_until_set:
  assumes "cached_until E t (Some k)" "token = t \<Longrightarrow> now + tc_ttl k \<le> E"
  shows "cached_until E t (Some (cache_set pick now token u k))"
  using assms evict_subset [of pick "tc_entries k"]
  by (fastforce simp: cached_until_def cache_set_def Let_def list_all_iff delete_key_set split: if_splits)

lemma cached_until_cleanup: "cached_until E t (Some k) \<Longrightarrow> cached_until E t (Some (cache_cleanup now k))"
  by (auto simp: cached_until_def cache_cleanup_def list_all_iff)

text \<open>A provider and the cache in front of it.\<close>

datatype 'op mw_op = OnProvider 'op | CheckToken readings string | Sweep instant

fun cached_step :: "('s \<Rightarrow> validator) \<Rightarrow> ('op \<Rightarrow> 's \<Rightarrow> 's) \<Rightarrow> 'op mw_op \<Rightarrow> 's \<times> token_cache option \<Rightarrow> 's \<times> token_cache option"
  where
  "cached_step validate step (OnProvider op) (p, c) = (step op p, c)"
| "cached_step validate step (CheckToken rd t) (p, c) = (p, snd (validateToken (validate p) rd t c))"
| "cached_step validate step (Sweep now) (p, c) = (p, map_option (cache_cleanup now) c)"

fun mw_fresh :: "(string \<Rightarrow> 'op \<Rightarrow> bool) \<Rightarrow> string \<Rightarrow> 'op mw_op \<Rightarrow> bool" where
  "mw_fresh fresh t (OnProvider op) = fresh t op"
| "mw_fresh fresh t _ = True"

fun checked_by :: "instant \<Rightarrow> 'op mw_op \<Rightarrow> bool" where
  "checked_by T (CheckToken rd t) \<longleftrightarrow> rd_set rd \<le> T"
| "checked_by T _ \<longleftrightarrow> True"

definition ttl_of :: "token_cache option \<Rightarrow> duration" where
  "ttl_of c = (case c of None \<Rightarrow> 0 | Some k \<Rightarrow> tc_ttl k)"

lemma cache_set_ttl [simp]: "tc_ttl (cache_set pick now t u k) = tc_ttl k"
  by (simp add: cache_set_def Let_def)

lemma validateToken_ttl: "ttl_of (snd (validateToken validate rd t c)) = ttl_of c"
  by (auto simp: validateToken_def ttl_of_def split: option.splits sum.splits)

lemma cached_step_ttl: "ttl_of (snd (cached_step validate step op s)) = ttl_of (snd s)"
proof (cases "(validate, step, op, s)" rule: cached_step.cases)
  case (3 v st now p c)
  then show ?thesis by (cases c) (auto simp: ttl_of_def cache_cleanup_def)
qed (auto simp: validateToken_ttl)

lemma validateToken_cached_until:
  assumes "cached_until E t c"
    and "\<And>u. token = t \<Longrightarrow> validate (rd_validate rd) t = Inr u \<Longrightarrow> rd_set rd + ttl_of c \<le> E"
  shows "cached_until E t (snd (validateToken validate rd token c))"
proof (cases c)
  case (Some k)
  show ?thesis
  proof (cases "validate (rd_validate rd) token")
    case (Inr u)
    have "cached_until E t (Some (cache_set (rd_pick rd) (rd_set rd) token u k))"
      using assms Some Inr by (intro cached_until_set) (auto simp: ttl_of_def)
    then show ?thesis using assms(1) Some Inr by (simp add: validateToken_def split: option.splits)
  qed (use assms(1) Some in \<open>simp add: validateToken_def split: option.splits\<close>)
qed (auto simp: validateToken_def cached_until_def split: sum.splits)

lemma checked_by_cached_until:
  assumes "cached_until (T + ttl_of (snd s)) t (snd s)" "checked_by T op"
  shows "cached_until (T + ttl_of (snd s)) t (snd (cached_step validate step op s))"
  using assms
proof (cases "(validate, step, op, s)" rule: cached_step.cases)
  case (2 validate step rd token p c)
  then show ?thesis using assms by (auto intro!: validateToken_cached_until)
next
  case (3 validate step now p c)
  then show ?thesis using assms cached_until_cleanup by (cases c) (auto simp: cached_until_def)
qed auto

lemma steps_cached_until:
  assumes "cached_until (T + ttl_of (snd s)) t (snd s)" "list_all (checked_by T) ops"
  shows "cached_until (T + ttl_of (snd s)) t (snd (fold (cached_step validate step) ops s)) \<and>
    ttl_of (snd (fold (cached_step validate step) ops s)) = ttl_of (snd s)"
  using assms
proof (induction ops arbitrary: s)
  case (Cons op ops)
  let ?s = "cached_step validate step op s"
  have "cached_until (T + ttl_of (snd ?s)) t (snd ?s)"
    using Cons.prems checked_by_cached_until [of T s t op validate step]
    by (simp add: cached_step_ttl)
  then have "cached_until (T + ttl_of (snd ?s)) t (snd (fold (cached_step validate step) ops ?s)) \<and>
      ttl_of (snd (fold (cached_step validate step) ops ?s)) = ttl_of (snd ?s)"
    using Cons.prems by (intro Cons.IH) simp_all
  then show ?case by (simp add: cached_step_ttl)
qed simp

locale cached_provider = revocable inv validate revoke step fresh dead
  for inv :: "'s \<Rightarrow> bool" and validate :: "'s \<Rightarrow> instant \<Rightarrow> string \<Rightarrow> goerr + user_info option"
    and revoke :: "string \<Rightarrow> 's \<Rightarrow> goerr option \<times> 's" and step :: "'op \<Rightarrow> 's \<Rightarrow> 's"
    and fresh :: "string \<Rightarrow> 'op \<Rightarrow> bool" and dead :: "string \<Rightarrow> 's \<Rightarrow> bool"
begin

lemma cached_steps_inv: "inv (fst s) \<Longrightarrow> inv (fst (fold (cached_step validate step) ops s))"
proof (rule fold_invariant_list [where P = "\<lambda>s. inv (fst s)"])
  show "inv (fst (cached_step validate step op s))" if "inv (fst s)" for op s
    using that step_inv by (cases "(validate, step, op, s)" rule: cached_step.cases) auto
qed

lemma dead_step:
  assumes "inv (fst s)" "dead t (fst s)" "cached_until E t (snd s)" "mw_fresh fresh t op"
  shows "inv (fst (cached_step validate step op s))" "dead t (fst (cached_step validate step op s))"
    "cached_until E t (snd (cached_step validate step op s))"
proof -
  have "inv (fst (cached_step validate step op s)) \<and> dead t (fst (cached_step validate step op s)) \<and>
    cached_until E t (snd (cached_step validate step op s))"
  proof (cases "(validate, step, op, s)" rule: cached_step.cases)
    case (1 v st op' p c)
    then show ?thesis using assms step_inv step_dead by auto
  next
    case (2 v st rd token p c)
    then have "cached_until E t (snd (validateToken (validate p) rd token c))"
      using assms dead_invalid [of p t "rd_validate rd"] by (intro validateToken_cached_until) auto
    then show ?thesis using 2 assms by auto
  next
    case (3 v st now p c)
    then show ?thesis using assms cached_until_cleanup by (cases c) (auto simp: cached_until_def)
  qed
  then show "inv (fst (cached_step validate step op s))" "dead t (fst (cached_step validate step op s))"
    "cached_until E t (snd (cached_step validate step op s))" by simp_all
qed

lemma dead_steps:
  assumes "inv (fst s)" "dead t (fst s)" "cached_until E t (snd s)" "list_all (mw_fresh fresh t) ops"
  shows "inv (fst (fold (cached_step validate step) ops s)) \<and> dead t (fst (fold (cached_step validate step) ops s)) \<and>
    cached_until E t (snd (fold (cached_step validate step) ops s))"
  using assms by (induction ops arbitrary: s) (auto simp: dead_step)

lemma revoked_refused_after_ttl:
  assumes "inv p0" "cached_until (T + ttl_of c0) t c0" "list_all (checked_by T) before"
    and "(p, c) = fold (cached_step validate step) before (p0, c0)"
    and "fst (revoke t p) = None" "list_all (mw_fresh fresh t) after"
    and "(p', c') = fold (cached_step validate step) after (snd (revoke t p), c)"
    and "T + ttl_of c0 < rd_get rd"
  shows "\<exists>e. fst (validateToken (validate p') rd t c') = Inl e"
proof -
  have p: "inv p" using cached_steps_inv [of "(p0, c0)" before] assms(1,4) by (metis fst_conv)
  have c: "cached_until (T + ttl_of c0) t c"
    using steps_cached_until [of T "(p0, c0)" t before] assms(2,3,4) by (metis snd_conv)
  have "inv p' \<and> dead t p' \<and> cached_until (T + ttl_of c0) t c'"
    using dead_steps [of "(snd (revoke t p), c)" t "T + ttl_of c0" after] assms(5-7) p c revoke_inv revoke_dead
    by (metis fst_conv snd_conv)
  then obtain e where "validate p' (rd_validate rd) t = Inl e" "cached_until (T + ttl_of c0) t c'"
    using dead_invalid by blast
  then show ?thesis
    using assms(8) cached_until_get by (auto simp: validateToken_def split: option.splits)
qed

end

text \<open>The provider of bearer tokens as the middleware sees it.\<close>

definition bearer_validator :: "bearer \<Rightarrow> validator" where
  "bearer_validator b now t = map_sum (\<lambda>e. e) Some (bearer_Validate b now t)"

interpretation cached_bearer: cached_provider bearer_ok bearer_validator bearer_Revoke bearer_step bearer_fresh bearer_dead
proof (unfold_locales, goal_cases)
  case (1 s op)
  then show ?case by (rule bearer_tokens.step_inv)
next
  case (2 s t)
  then show ?case by (rule bearer_tokens.revoke_inv)
next
  case (3 s t)
  then show ?case by (rule bearer_tokens.revoke_dead)
next
  case (4 s t op)
  then show ?case by (rule bearer_tokens.step_dead)
next
  case (5 s t now)
  then obtain e where "bearer_Validate s now t = Inl e" using bearer_tokens.dead_invalid by blast
  then show ?case by (simp add: bearer_validator_def)
qed

interpretation cached_api_keys: cached_provider api_inv api_Validate api_Revoke api_step api_fresh api_dead
  by unfold_locales

lemma NewAuthMiddleware_cached: "cached_until E t (snd (NewAuthMiddleware config))"
  by (auto simp: NewAuthMiddleware_def Let_def cached_until_def split: option.splits)

text \<open>
  C28. Revocation through the cache: take the bearer provider behind the middleware, with any
  history of provider operations, token checks and cache sweeps, the last check by time \<open>T\<close>. A token
  revoked then is refused by every check after \<open>T\<close> plus the cache's time to live, whatever
  operations (checks of the token included) come in between.
\<close>

theorem revoked_token_refused_after_ttl:
  assumes "case bconfig of None \<Rightarrow> True | Some c \<Rightarrow> bc_callback c = None"
    and "c0 = snd (NewAuthMiddleware config)" "list_all (checked_by T) before"
    and "(b, c) = fold (cached_step bearer_validator bearer_step) before (NewBearerTokenProvider bconfig, c0)"
    and "fst (bearer_Revoke t b) = None" "list_all (mw_fresh bearer_fresh t) after"
    and "(b', c') = fold (cached_step bearer_validator bearer_step) after (snd (bearer_Revoke t b), c)"
    and "T + ttl_of c0 < rd_get rd"
  shows "\<exists>e. fst (validateToken (bearer_validator b') rd t c') = Inl e"
  using NewBearerTokenProvider_ok [OF assms(1)] NewAuthMiddleware_cached [of _ t config] assms(2-8)
  by (intro cached_bearer.revoked_refused_after_ttl) simp_all

definition demo_request :: auth_request where
  "demo_request = \<lparr>areq_type = ''basic'', areq_credentials =
     [''username'' \<mapsto> GStr ''u'', ''password'' \<mapsto> GStr ''p''], areq_scopes = []\<rparr>"

definition demo_cache :: auth_config where
  "demo_cache = demo_config\<lparr>ac_cache := Some \<lparr>cc_enabled = True, cc_max_size = 10, cc_ttl = 5, cc_cleanup = 1\<rparr>\<rparr>"

definition demo_reading :: "instant \<Rightarrow> readings" where
  "demo_reading now = \<lparr>rd_get = now, rd_validate = now, rd_set = now, rd_pick = 0\<rparr>"

theorem revoked_token_refused_after_ttl_witness:
  "\<exists>b c b' c' e. (b, c) = fold (cached_step bearer_validator bearer_step)
        [OnProvider (OpAuthenticate demo_request (Some ''abc'') (Some ''abd'') 0 0), CheckToken (demo_reading 3) ''YWJj'']
        (NewBearerTokenProvider None, snd (NewAuthMiddleware (Some demo_cache)))
    \<and> (b', c') = fold (cached_step bearer_validator bearer_step) [CheckToken (demo_reading 4) ''YWJj'']
        (snd (bearer_Revoke ''YWJj'' b), c)
    \<and> fst (validateToken (bearer_validator b') (demo_reading 9) ''YWJj'' c') = Inl e"
proof -
  let ?before = "[OnProvider (OpAuthenticate demo_request (Some ''abc'') (Some ''abd'') 0 0),
      CheckToken (demo_reading 3) ''YWJj'']"
  let ?after = "[CheckToken (demo_reading 4) ''YWJj'']"
  obtain b c where b: "(b, c) = fold (cached_step bearer_validator bearer_step) ?before
      (NewBearerTokenProvider None, snd (NewAuthMiddleware (Some demo_cache)))"
    by (metis surj_pair)
  obtain b' c' where b': "(b', c') = fold (cached_step bearer_validator bearer_step) ?after
      (snd (bearer_Revoke ''YWJj'' b), c)"
    by (metis surj_pair)
  have "fst (bearer_Revoke ''YWJj'' b) = None"
    using b by (simp add: NewBearerTokenProvider_def bearer_Authenticate_def bearer_basic_def Let_def credential_def
        demo_request_def generateToken_abc generateToken_abd alloc_def bind_token_def bearer_Revoke_def)
  then show ?thesis
    using revoked_token_refused_after_ttl [OF _ refl _ b _ _ b', of 3 "demo_reading 9"] b b'
    by (auto simp: demo_reading_def ttl_of_def NewAuthMiddleware_def demo_cache_def demo_config_def)
qed

text \<open>
  Within its time to live the cache decides alone: once a check stored a user for a token, the
  next check of it at any time up to the time to live later succeeds with that user, whatever the
  provider says of the token by then (that it was revoked or has expired).
\<close>

theorem cached_token_survives_revocation:
  assumes "validateToken validate rd t (Some k) = (Inr (Some u), Some k')"
    and "cache_get k (rd_get rd) t = None" "rd_get rd' \<le> rd_set rd + tc_ttl k"
  shows "validateToken validate' rd' t (Some k') = (Inr (Some u), Some k')"
proof -
  have "k' = cache_set (rd_pick rd) (rd_set rd) t (Some u) k"
    using assms(1,2) by (auto simp: validateToken_def split: sum.splits)
  then show ?thesis using assms(3) by (simp add: validateToken_def cache_get_def cache_set_def Let_def)
qed

definition demo_user :: user_info where
  "demo_user = \<lparr>user_id = ''u'', user_username = [], user_email = [], user_roles_of = [], user_permissions = [],
     user_expires = None\<rparr>"

theorem cached_token_survives_revocation_witness:
  "\<exists>k'. validateToken (\<lambda>now t. Inr (Some demo_user)) (demo_reading 0) ''t''
        (Some \<lparr>tc_entries = [], tc_max_size = 1, tc_ttl = 5\<rparr>) = (Inr (Some demo_user), Some k')
    \<and> validateToken (\<lambda>now t. Inl (NewAuthError ErrTokenRevoked ''token has been revoked'')) (demo_reading 5) ''t'' (Some k')
      = (Inr (Some demo_user), Some k')"
proof -
  let ?k = "\<lparr>tc_entries = [], tc_max_size = 1, tc_ttl = 5\<rparr> :: token_cache"
  let ?k' = "cache_set 0 0 ''t'' (Some demo_user) ?k"
  have v: "validateToken (\<lambda>now t. Inr (Some demo_user)) (demo_reading 0) ''t'' (Some ?k) = (Inr (Some demo_user), Some ?k')"
    by (simp add: validateToken_def cache_get_def demo_reading_def)
  show ?thesis
    using v cached_token_survives_revocation [OF v, of "demo_reading 5"]
    by (auto simp: demo_reading_def cache_get_def)
qed

end
