(* ===== verification/BaseTransport.thy ===== *)
theory BaseTransport
  imports AuthMiddleware Errors
begin

section \<open>The base transport (\<open>pkg/transport/transport.go\<close>)\<close>

text \<open>
  The handlers of incoming messages, the table of pending requests with their response channels,
  and the identifiers of requests. A handler works on the state \<open>'w\<close> of the application; its
  result is the JSON that \<open>json.Marshal\<close> gives for it, or the text of the error when the value
  cannot be marshalled. A channel has room for one response. Each operation that holds the lock is
  one step; waiting for a response is two: registering the channel and receiving from it.
\<close>

datatype handler_value = Marshals json | Refuses string

type_synonym 'w request_handler = "call_ctx \<Rightarrow> json option \<Rightarrow> 'w \<Rightarrow> (goerr, handler_value) outcome \<times> 'w"
type_synonym 'w notification_handler = "call_ctx \<Rightarrow> json option \<Rightarrow> 'w \<Rightarrow> (goerr, unit) outcome \<times> 'w"

record 'w handlers =
  hs_requests :: "string \<rightharpoonup> 'w request_handler"
  hs_notifications :: "string \<rightharpoonup> 'w notification_handler"

text \<open>The background context: nobody is authenticated.\<close>

definition background :: call_ctx where
  "background = \<lparr>cx_token = None, cx_user = None\<rparr>"

definition NewHandlers :: "'w handlers" where
  "NewHandlers = \<lparr>hs_requests = Map.empty, hs_notifications = Map.empty\<rparr>"

definition RegisterRequestHandler :: "string \<Rightarrow> 'w request_handler \<Rightarrow> 'w handlers \<Rightarrow> 'w handlers" where
  "RegisterRequestHandler m h hs = hs\<lparr>hs_requests := (hs_requests hs)(m \<mapsto> h)\<rparr>"

definition RegisterNotificationHandler :: "string \<Rightarrow> 'w notification_handler \<Rightarrow> 'w handlers \<Rightarrow> 'w handlers" where
  "RegisterNotificationHandler m h hs = hs\<lparr>hs_notifications := (hs_notifications hs)(m \<mapsto> h)\<rparr>"

subsection \<open>Incoming requests and notifications\<close>

definition error_response :: "gval \<Rightarrow> string \<Rightarrow> response" where
  "error_response i m = \<lparr>resp_jsonrpc = [], resp_id = i, resp_result = None,
     resp_error = Some \<lparr>err_code = InternalError, err_message = m, err_data = GNil\<rparr>\<rparr>"

text \<open>A panic of the handler becomes an error response; what it did to the state stays.\<close>

definition base_HandleRequest ::
    "'w handlers \<Rightarrow> call_ctx \<Rightarrow> request \<Rightarrow> 'w \<Rightarrow> (goerr, response) outcome \<times> 'w" where
  "base_HandleRequest hs cx r w =
     (case hs_requests hs (req_method r) of
        None \<Rightarrow> (Err (ErrText (''no handler for method: '' @ req_method r)), w)
      | Some h \<Rightarrow>
          (case h cx (req_params r) w of
             (Panic m, w') \<Rightarrow>
               (Ok (error_response (req_id r) (''Internal server error processing '' @ req_method r)), w')
           | (Err e, w') \<Rightarrow> (Ok (error_response (req_id r) (Error e)), w')
           | (Ok (Refuses m), w') \<Rightarrow>
               (Ok (error_response (req_id r) (''failed to marshal result: '' @ m)), w')
           | (Ok (Marshals v), w') \<Rightarrow>
               (Ok \<lparr>resp_jsonrpc = [], resp_id = req_id r, resp_result = Some v, resp_error = None\<rparr>, w')))"

definition base_HandleNotification ::
    "'w handlers \<Rightarrow> call_ctx \<Rightarrow> notification \<Rightarrow> 'w \<Rightarrow> goerr option \<times> 'w" where
  "base_HandleNotification hs cx n w =
     (case hs_notifications hs (notif_method n) of
        None \<Rightarrow> (Some (ErrText (''no handler for notification: '' @ notif_method n)), w)
      | Some h \<Rightarrow>
          (case h cx (notif_params n) w of
             (Panic m, w') \<Rightarrow>
               (Some (ErrText (''internal error processing notification '' @ notif_method n @ '': '' @ m)), w')
           | (Err e, w') \<Rightarrow> (Some e, w')
           | (Ok _, w') \<Rightarrow> (None, w')))"

fun handle_items :: "'w handlers \<Rightarrow> call_ctx \<Rightarrow> batch_item list \<Rightarrow> 'w \<Rightarrow> response option list \<times> 'w" where
  "handle_items hs cx [] w = ([], w)"
| "handle_items hs cx (BReq r # items) w =
     (case base_HandleRequest hs cx r w of
        (Ok x, w') \<Rightarrow> (case handle_items hs cx items w' of (rs, w'') \<Rightarrow> (Some x # rs, w''))
      | (Err e, w') \<Rightarrow>
          (case handle_items hs cx items w' of (rs, w'') \<Rightarrow>
             (Some ((error_response (req_id r) (Error e))\<lparr>resp_jsonrpc := JSONRPCVersion\<rparr>) # rs, w''))
      | (Panic m, w') \<Rightarrow> handle_items hs cx items w')"
| "handle_items hs cx (BNotif n # items) w =
     handle_items hs cx items (snd (base_HandleNotification hs cx n w))"

definition base_HandleBatchRequest ::
    "'w handlers \<Rightarrow> call_ctx \<Rightarrow> batch_item list option \<Rightarrow> 'w \<Rightarrow> (goerr, response option list) outcome \<times> 'w" where
  "base_HandleBatchRequest hs cx batch w =
     (case batch of
        None \<Rightarrow> (Err (ErrText ''batch request is empty''), w)
      | Some items \<Rightarrow>
          if items = [] then (Err (ErrText ''batch request is empty''), w)
          else (case handle_items hs cx items w of
            (rs, w') \<Rightarrow> (Ok (if rs = [] then [] else NewJSONRPCBatchResponse rs), w')))"

text \<open>The default for sending a batch: the first item of any kind is an error.\<close>

definition base_SendBatchRequest :: "batch_item list option \<Rightarrow> goerr + response option list" where
  "base_SendBatchRequest batch =
     (case batch of
        None \<Rightarrow> Inl (ErrText ''batch request is empty'')
      | Some [] \<Rightarrow> Inl (ErrText ''batch request is empty'')
      | Some (BReq _ # _) \<Rightarrow>
          Inl (ErrText ''SendBatchRequest requires transport-specific implementation for sending requests'')
      | Some (BNotif _ # _) \<Rightarrow>
          Inl (ErrText ''SendBatchRequest requires transport-specific implementation for sending notifications''))"

lemma base_HandleRequest_no_panic: "\<not> is_panic (fst (base_HandleRequest hs cx r w))"
  by (auto simp: base_HandleRequest_def split: option.splits prod.splits outcome.splits handler_value.splits)

lemma base_HandleRequest_id: "fst (base_HandleRequest hs cx r w) = Ok x \<Longrightarrow> resp_id x = req_id r"
  by (auto simp: base_HandleRequest_def error_response_def
      split: option.splits prod.splits outcome.splits handler_value.splits)

lemma handle_items_ids:
  "None \<notin> set (fst (handle_items hs cx items w)) \<and>
   map (map_option resp_id) (fst (handle_items hs cx items w)) = map (\<lambda>r. Some (req_id r)) (GetRequests items)"
proof (induction items arbitrary: w)
  case (Cons b items)
  show ?case
  proof (cases b)
    case (BReq r)
    obtain x w' where h: "base_HandleRequest hs cx r w = (x, w')" by (cases "base_HandleRequest hs cx r w")
    have "\<not> is_panic x" using base_HandleRequest_no_panic [of hs cx r w] h by simp
    then show ?thesis
      using Cons.IH [of w'] BReq h base_HandleRequest_id [of hs cx r w]
      by (cases x) (auto simp: GetRequests_def error_response_def split: prod.splits)
  next
    case (BNotif n)
    then show ?thesis using Cons.IH by (simp add: GetRequests_def)
  qed
qed (simp add: GetRequests_def)

text \<open>
  Batches: handling a batch that is not empty never fails and answers exactly its requests,
  once each and in their order, whatever the handlers do (errors and panics included);
  notifications get no answer.
\<close>

theorem batch_answers_requests:
  assumes "items \<noteq> []"
  shows "\<exists>rs w'. base_HandleBatchRequest hs cx (Some items) w = (Ok (map Some rs), w')
    \<and> map resp_id rs = map req_id (GetRequests items)"
proof -
  obtain rs w' where h: "handle_items hs cx items w = (rs, w')" by (cases "handle_items hs cx items w")
  have n: "None \<notin> set rs" and i: "map (map_option resp_id) rs = map (\<lambda>r. Some (req_id r)) (GetRequests items)"
    using handle_items_ids [of hs cx items w] h by simp_all
  have rs: "map Some (map the rs) = rs" using n by (induction rs) auto
  have "NewJSONRPCBatchResponse rs = rs"
  proof -
    have "\<forall>x \<in> set rs. x \<noteq> None" using n by metis
    then show ?thesis unfolding NewJSONRPCBatchResponse_def by (rule filter_True)
  qed
  then have "base_HandleBatchRequest hs cx (Some items) w = (Ok (map Some (map the rs)), w')"
    using assms h rs by (simp add: base_HandleBatchRequest_def)
  moreover have "map Some (map resp_id (map the rs)) = map Some (map req_id (GetRequests items))"
    using arg_cong [OF rs, of "map (map_option resp_id)"] i by (simp add: comp_def)
  then have "map resp_id (map the rs) = map req_id (GetRequests items)"
    by (rule map_injective) (simp add: inj_def)
  ultimately show ?thesis by blast
qed

definition panicking :: "nat handlers" where
  "panicking = RegisterRequestHandler ''boom'' (\<lambda>cx p w. (Panic ''boom'', Suc w))
     (RegisterNotificationHandler ''note'' (\<lambda>cx p w. (Panic ''note'', Suc w)) NewHandlers)"

theorem batch_answers_requests_witness:
  "\<exists>rs w'. base_HandleBatchRequest panicking \<lparr>cx_token = None, cx_user = None\<rparr>
      (Some [BReq (NewRequest (GInt 1) ''boom'' GNil), BNotif (NewNotification ''note'' GNil),
             BReq (NewRequest (GStr ''x'') ''unknown'' GNil)]) 0 = (Ok (map Some rs), w')
    \<and> map resp_id rs = [GInt 1, GStr ''x'']"
  using batch_answers_requests [of "[BReq (NewRequest (GInt 1) ''boom'' GNil), BNotif (NewNotification ''note'' GNil),
             BReq (NewRequest (GStr ''x'') ''unknown'' GNil)]" panicking "\<lparr>cx_token = None, cx_user = None\<rparr>" 0]
  by (simp add: GetRequests_def NewRequest_def)

subsection \<open>Identifiers\<close>

record id_source =
  is_next :: int
  is_prefix :: string

definition NewIds :: id_source where
  "NewIds = \<lparr>is_next = 1, is_prefix = ''req''\<rparr>"

definition GetNextID :: "id_source \<Rightarrow> int \<times> id_source" where
  "GetNextID s = (is_next s, s\<lparr>is_next := wrap64 (is_next s + 1)\<rparr>)"

definition GenerateID :: "id_source \<Rightarrow> string \<times> id_source" where
  "GenerateID s = (case GetNextID s of (i, s') \<Rightarrow> (is_prefix s @ ''_'' @ show_int i, s'))"

fun generate_ids :: "nat \<Rightarrow> id_source \<Rightarrow> string list" where
  "generate_ids 0 s = []"
| "generate_ids (Suc n) s = (case GenerateID s of (i, s') \<Rightarrow> i # generate_ids n s')"

lemma generate_ids_eq:
  assumes "0 \<le> is_next s" "is_next s + int n < 2 ^ 63"
  shows "generate_ids n s = map (\<lambda>k. is_prefix s @ ''_'' @ show_int (is_next s + int k)) [0..<n]"
  using assms
proof (induction n arbitrary: s)
  case (Suc n)
  have w: "wrap64 (is_next s + 1) = is_next s + 1"
    using Suc.prems by (intro wrap64_id) (simp add: in_int64_def)
  let ?s = "s\<lparr>is_next := is_next s + 1\<rparr>"
  have "generate_ids n ?s = map (\<lambda>k. is_prefix s @ ''_'' @ show_int (is_next s + 1 + int k)) [0..<n]"
    using Suc.IH [of ?s] Suc.prems by simp
  also have "\<dots> = map (\<lambda>k. is_prefix s @ ''_'' @ show_int (is_next s + int k)) (map Suc [0..<n])"
    by (simp add: comp_def add.assoc)
  finally have "generate_ids n ?s = map (\<lambda>k. is_prefix s @ ''_'' @ show_int (is_next s + int k)) [Suc 0..<Suc n]"
    by (simp only: map_Suc_upt)
  then show ?case
    by (simp add: GenerateID_def GetNextID_def w upt_rec [of 0 "Suc n"] del: upt_Suc)
qed simp

text \<open>
  The identifiers of a transport are distinct: any number of them below the overflow of the
  counter.
\<close>

theorem generated_ids_distinct:
  assumes "int n < 2 ^ 63 - 1"
  shows "distinct (generate_ids n NewIds) \<and> length (generate_ids n NewIds) = n"
  using assms by (simp add: generate_ids_eq NewIds_def distinct_map inj_on_def)

theorem generated_ids_distinct_witness:
  "distinct (generate_ids 3 NewIds) \<and> length (generate_ids 3 NewIds) = 3"
  by (rule generated_ids_distinct) simp

subsection \<open>Pending requests\<close>

text \<open>Channels live in a heap; the table maps the text of an id to the channel of its request.\<close>

record chan =
  ch_buffer :: "response option"
  ch_closed :: bool

record pool =
  pl_pending :: "string \<rightharpoonup> nat"
  pl_chans :: "nat \<rightharpoonup> chan"
  pl_next :: nat

definition NewPool :: pool where
  "NewPool = \<lparr>pl_pending = Map.empty, pl_chans = Map.empty, pl_next = 0\<rparr>"

definition set_chan :: "nat \<Rightarrow> chan \<Rightarrow> pool \<Rightarrow> pool" where
  "set_chan n c p = p\<lparr>pl_chans := (pl_chans p)(n \<mapsto> c)\<rparr>"

text \<open>The first step of \<open>WaitForResponse\<close>: a new channel, which replaces one of the same id.\<close>

definition wait_register :: "string \<Rightarrow> pool \<Rightarrow> nat \<times> pool" where
  "wait_register i p =
     (pl_next p, p\<lparr>pl_pending := (pl_pending p)(i \<mapsto> pl_next p),
        pl_chans := (pl_chans p)(pl_next p \<mapsto> \<lparr>ch_buffer = None, ch_closed = False\<rparr>), pl_next := Suc (pl_next p)\<rparr>)"

text \<open>Its second step: \<open>None\<close> while there is nothing to receive; a closed channel gives nil.\<close>

definition wait_receive :: "nat \<Rightarrow> pool \<Rightarrow> (response option \<times> pool) option" where
  "wait_receive n p =
     (case pl_chans p n of
        None \<Rightarrow> None
      | Some c \<Rightarrow>
          (case ch_buffer c of
             Some r \<Rightarrow> Some (Some r, set_chan n (c\<lparr>ch_buffer := None\<rparr>) p)
           | None \<Rightarrow> if ch_closed c then Some (None, p) else None))"

text \<open>Its end when the context is done first.\<close>

definition wait_abandon :: "string \<Rightarrow> pool \<Rightarrow> pool" where
  "wait_abandon i p = p\<lparr>pl_pending := (pl_pending p)(i := None)\<rparr>"

text \<open>Sending on a full channel blocks (with the lock held), on a closed one panics.\<close>

datatype delivery = Delivered pool | Blocked | ClosedChannel

definition HandleResponse :: "response \<Rightarrow> pool \<Rightarrow> delivery" where
  "HandleResponse r p =
     (let i = go_str (resp_id r) in
      case pl_pending p i of
        None \<Rightarrow> Delivered p
      | Some n \<Rightarrow>
          (case pl_chans p n of
             None \<Rightarrow> Blocked
           | Some c \<Rightarrow>
               if ch_closed c then ClosedChannel
               else if ch_buffer c \<noteq> None then Blocked
               else Delivered ((set_chan n (c\<lparr>ch_buffer := Some r\<rparr>) p)\<lparr>pl_pending := (pl_pending p)(i := None)\<rparr>)))"

definition pool_Cleanup :: "pool \<Rightarrow> pool" where
  "pool_Cleanup p =
     p\<lparr>pl_chans := (\<lambda>n. case pl_chans p n of None \<Rightarrow> None
          | Some c \<Rightarrow> Some (if n \<in> ran (pl_pending p) then c\<lparr>ch_closed := True\<rparr> else c)),
       pl_pending := Map.empty\<rparr>"

text \<open>
  The transport with its callers: those that wait, as pairs of channel and id, and the log of what
  they received. The steps interleave in any order.
\<close>

record waiting =
  wt_pool :: pool
  wt_waiters :: "(nat \<times> string) list"
  wt_log :: "(string \<times> response option) list"

definition wt_init :: waiting where
  "wt_init = \<lparr>wt_pool = NewPool, wt_waiters = [], wt_log = []\<rparr>"

inductive wait_step :: "waiting \<Rightarrow> waiting \<Rightarrow> bool" where
  Start: "wait_register i (wt_pool s) = (n, p) \<Longrightarrow>
    wait_step s (s\<lparr>wt_pool := p, wt_waiters := (n, i) # wt_waiters s\<rparr>)"
| Deliver: "HandleResponse r (wt_pool s) = Delivered p \<Longrightarrow> wait_step s (s\<lparr>wt_pool := p\<rparr>)"
| Receive: "(n, i) \<in> set (wt_waiters s) \<Longrightarrow> wait_receive n (wt_pool s) = Some (x, p) \<Longrightarrow>
    wait_step s (s\<lparr>wt_pool := p, wt_waiters := filter (\<lambda>w. fst w \<noteq> n) (wt_waiters s), wt_log := (i, x) # wt_log s\<rparr>)"
| GiveUp: "(n, i) \<in> set (wt_waiters s) \<Longrightarrow>
    wait_step s (s\<lparr>wt_pool := wait_abandon i (wt_pool s), wt_waiters := filter (\<lambda>w. fst w \<noteq> n) (wt_waiters s)\<rparr>)"
| Shutdown: "wait_step s (s\<lparr>wt_pool := pool_Cleanup (wt_pool s)\<rparr>)"

inductive wait_reachable :: "waiting \<Rightarrow> bool" where
  init: "wait_reachable wt_init"
| step: "wait_reachable s \<Longrightarrow> wait_step s s' \<Longrightarrow> wait_reachable s'"

text \<open>Pending channels are open and empty, one per id; what a channel holds is for its waiter.\<close>

definition pool_inv :: "waiting \<Rightarrow> bool" where
  "pool_inv s \<longleftrightarrow>
     (\<forall>n. pl_next (wt_pool s) \<le> n \<longrightarrow> pl_chans (wt_pool s) n = None) \<and>
     (\<forall>i n. pl_pending (wt_pool s) i = Some n \<longrightarrow>
        pl_chans (wt_pool s) n = Some \<lparr>ch_buffer = None, ch_closed = False\<rparr>) \<and>
     (\<forall>i j n. pl_pending (wt_pool s) i = Some n \<longrightarrow> pl_pending (wt_pool s) j = Some n \<longrightarrow> i = j) \<and>
     (\<forall>n i. (n, i) \<in> set (wt_waiters s) \<longrightarrow> (\<exists>c. pl_chans (wt_pool s) n = Some c \<and>
        (\<forall>r. ch_buffer c = Some r \<longrightarrow> go_str (resp_id r) = i))) \<and>
     (\<forall>n i j. (n, i) \<in> set (wt_waiters s) \<longrightarrow> pl_pending (wt_pool s) j = Some n \<longrightarrow> j = i) \<and>
     (\<forall>i r. (i, Some r) \<in> set (wt_log s) \<longrightarrow> go_str (resp_id r) = i)"

lemma pool_invI:
  assumes "\<And>n. pl_next (wt_pool s) \<le> n \<Longrightarrow> pl_chans (wt_pool s) n = None"
    and "\<And>i n. pl_pending (wt_pool s) i = Some n \<Longrightarrow>
        pl_chans (wt_pool s) n = Some \<lparr>ch_buffer = None, ch_closed = False\<rparr>"
    and "\<And>i j n. pl_pending (wt_pool s) i = Some n \<Longrightarrow> pl_pending (wt_pool s) j = Some n \<Longrightarrow> i = j"
    and "\<And>n i. (n, i) \<in> set (wt_waiters s) \<Longrightarrow> \<exists>c. pl_chans (wt_pool s) n = Some c \<and>
        (\<forall>r. ch_buffer c = Some r \<longrightarrow> go_str (resp_id r) = i)"
    and "\<And>n i j. (n, i) \<in> set (wt_waiters s) \<Longrightarrow> pl_pending (wt_pool s) j = Some n \<Longrightarrow> j = i"
    and "\<And>i r. (i, Some r) \<in> set (wt_log s) \<Longrightarrow> go_str (resp_id r) = i"
  shows "pool_inv s"
  unfolding pool_inv_def using assms by (intro conjI allI impI) blast+

lemma pool_invD:
  assumes "pool_inv s"
  shows "pl_next (wt_pool s) \<le> n \<Longrightarrow> pl_chans (wt_pool s) n = None"
    and "pl_pending (wt_pool s) i = Some n \<Longrightarrow>
        pl_chans (wt_pool s) n = Some \<lparr>ch_buffer = None, ch_closed = False\<rparr>"
    and "pl_pending (wt_pool s) i = Some n \<Longrightarrow> pl_pending (wt_pool s) j = Some n \<Longrightarrow> i = j"
    and "(n, i) \<in> set (wt_waiters s) \<Longrightarrow> \<exists>c. pl_chans (wt_pool s) n = Some c \<and>
        (\<forall>r. ch_buffer c = Some r \<longrightarrow> go_str (resp_id r) = i)"
    and "(n, i) \<in> set (wt_waiters s) \<Longrightarrow> pl_pending (wt_pool s) j = Some n \<Longrightarrow> j = i"
    and "(i, Some r) \<in> set (wt_log s) \<Longrightarrow> go_str (resp_id r) = i"
  using assms unfolding pool_inv_def by (elim conjE; blast)+

lemma HandleResponse_inv:
  assumes "pool_inv s"
  shows "\<exists>p. HandleResponse r (wt_pool s) = Delivered p \<and> pool_inv (s\<lparr>wt_pool := p\<rparr>)"
proof (cases "pl_pending (wt_pool s) (go_str (resp_id r))")
  case None
  then show ?thesis using assms by (simp add: HandleResponse_def)
next
  case (Some n)
  note d = pool_invD [OF assms]
  note open_chan = d(2) [OF Some]
  let ?p = "(set_chan n \<lparr>ch_buffer = Some r, ch_closed = False\<rparr> (wt_pool s))
    \<lparr>pl_pending := (pl_pending (wt_pool s))(go_str (resp_id r) := None)\<rparr>"
  have "HandleResponse r (wt_pool s) = Delivered ?p"
    using Some open_chan by (simp add: HandleResponse_def Let_def)
  moreover have "pool_inv (s\<lparr>wt_pool := ?p\<rparr>)"
  proof (rule pool_invI)
    fix m assume "pl_next (wt_pool (s\<lparr>wt_pool := ?p\<rparr>)) \<le> m"
    then show "pl_chans (wt_pool (s\<lparr>wt_pool := ?p\<rparr>)) m = None"
      using d(1) [of m] open_chan by (auto simp: set_chan_def)
  next
    fix i m assume "pl_pending (wt_pool (s\<lparr>wt_pool := ?p\<rparr>)) i = Some m"
    then show "pl_chans (wt_pool (s\<lparr>wt_pool := ?p\<rparr>)) m = Some \<lparr>ch_buffer = None, ch_closed = False\<rparr>"
      using d(2) [of i m] d(3) [of i m "go_str (resp_id r)"] Some by (auto simp: set_chan_def split: if_splits)
  next
    fix m i assume "(m, i) \<in> set (wt_waiters (s\<lparr>wt_pool := ?p\<rparr>))"
    then show "\<exists>c. pl_chans (wt_pool (s\<lparr>wt_pool := ?p\<rparr>)) m = Some c \<and>
        (\<forall>r. ch_buffer c = Some r \<longrightarrow> go_str (resp_id r) = i)"
      using d(4) [of m i] d(5) [of m i "go_str (resp_id r)"] Some by (auto simp: set_chan_def)
  qed (use d in \<open>auto split: if_splits\<close>)
  ultimately show ?thesis by blast
qed

lemma wait_step_inv:
  assumes "wait_step s s'" "pool_inv s"
  shows "pool_inv s'"
  using assms
proof (induction rule: wait_step.induct)
  case (Start i s n p)
  note d = pool_invD [OF Start.prems]
  have p: "n = pl_next (wt_pool s)" "p = (wt_pool s)\<lparr>pl_pending := (pl_pending (wt_pool s))(i \<mapsto> n),
      pl_chans := (pl_chans (wt_pool s))(n \<mapsto> \<lparr>ch_buffer = None, ch_closed = False\<rparr>), pl_next := Suc n\<rparr>"
    using Start.hyps by (auto simp: wait_register_def)
  have new: "pl_pending (wt_pool s) j \<noteq> Some n" for j using d(1) [of n] d(2) [of j n] p(1) by auto
  have old: "(n, j) \<notin> set (wt_waiters s)" for j using d(1) [of n] d(4) [of n j] p(1) by auto
  have above: "Suc n \<le> m \<Longrightarrow> pl_chans (wt_pool s) m = None" for m using d(1) [of m] p(1) by simp
  show ?case
    by (rule pool_invI) (use d new old above in \<open>auto simp: p(2) split: if_splits\<close>)
next
  case (Deliver r s p)
  then show ?case using HandleResponse_inv [OF Deliver.prems, of r] by auto
next
  case (Receive n i s x p)
  note d = pool_invD [OF Receive.prems]
  obtain c where c: "pl_chans (wt_pool s) n = Some c" "\<forall>r. ch_buffer c = Some r \<longrightarrow> go_str (resp_id r) = i"
    using d(4) [OF Receive.hyps(1)] by blast
  show ?case
  proof (cases "ch_buffer c")
    case None
    then have "x = None" "p = wt_pool s" using Receive.hyps(2) c(1) by (auto simp: wait_receive_def split: if_splits)
    then show ?thesis by (intro pool_invI) (use d in auto)
  next
    case (Some r)
    then have x: "x = Some r" "p = set_chan n (c\<lparr>ch_buffer := None\<rparr>) (wt_pool s)"
      using Receive.hyps(2) c(1) by (auto simp: wait_receive_def)
    have notpending: "pl_pending (wt_pool s) j \<noteq> Some n" for j using d(2) [of j n] c(1) Some by auto
    have keep: "pl_next (wt_pool s) \<le> m \<Longrightarrow> m \<noteq> n" for m using d(1) [of m] c(1) by auto
    show ?thesis
      by (rule pool_invI) (use d x c Some notpending keep in \<open>auto simp: set_chan_def split: if_splits\<close>)
  qed
next
  case (GiveUp n i s)
  note d = pool_invD [OF GiveUp.prems]
  show ?case
    by (rule pool_invI) (use d in \<open>auto simp: wait_abandon_def split: if_splits\<close>)
next
  case (Shutdown s)
  note d = pool_invD [OF Shutdown.prems]
  show ?case
  proof (rule pool_invI)
    fix m i assume "(m, i) \<in> set (wt_waiters (s\<lparr>wt_pool := pool_Cleanup (wt_pool s)\<rparr>))"
    then show "\<exists>c. pl_chans (wt_pool (s\<lparr>wt_pool := pool_Cleanup (wt_pool s)\<rparr>)) m = Some c \<and>
        (\<forall>r. ch_buffer c = Some r \<longrightarrow> go_str (resp_id r) = i)"
      using d(4) [of m i] by (auto simp: pool_Cleanup_def)
  qed (use d in \<open>auto simp: pool_Cleanup_def\<close>)
qed

lemma wait_reachable_inv: "wait_reachable s \<Longrightarrow> pool_inv s"
proof (induction rule: wait_reachable.induct)
  case init
  show ?case by (rule pool_invI) (simp_all add: wt_init_def NewPool_def)
next
  case (step s s')
  then show ?case using wait_step_inv by blast
qed

text \<open>A pool without regard to who waits.\<close>

definition pool_ok :: "pool \<Rightarrow> bool" where
  "pool_ok p \<longleftrightarrow> pool_inv \<lparr>wt_pool = p, wt_waiters = [], wt_log = []\<rparr>"

lemma HandleResponse_ok:
  assumes "pool_ok p" obtains p' where "HandleResponse r p = Delivered p'" "pool_ok p'"
  using HandleResponse_inv [OF assms [unfolded pool_ok_def], of r] by (auto simp: pool_ok_def)

lemma pool_ok_of: "pool_inv s \<Longrightarrow> pool_ok (wt_pool s)"
  unfolding pool_ok_def by (rule pool_invI) (auto dest: pool_invD)

lemma pool_ok_register: "pool_ok p \<Longrightarrow> pool_ok (snd (wait_register i p))"
proof -
  assume "pool_ok p"
  moreover obtain n p' where "wait_register i p = (n, p')" by (cases "wait_register i p")
  ultimately show ?thesis
    using pool_ok_of [OF wait_step_inv [OF wait_step.Start [of i "\<lparr>wt_pool = p, wt_waiters = [], wt_log = []\<rparr>" n p']]]
    by (simp add: pool_ok_def)
qed

lemma pool_ok_cleanup: "pool_ok p \<Longrightarrow> pool_ok (pool_Cleanup p)"
  using pool_ok_of [OF wait_step_inv [OF wait_step.Shutdown [of "\<lparr>wt_pool = p, wt_waiters = [], wt_log = []\<rparr>"]]]
  by (simp add: pool_ok_def)

lemma pool_ok_abandon: "pool_ok p \<Longrightarrow> pool_ok (wait_abandon i p)"
  unfolding pool_ok_def by (rule pool_invI) (auto simp: wait_abandon_def dest: pool_invD split: if_splits)

lemma pool_ok_new: "pool_ok NewPool"
  using pool_ok_of [OF wait_reachable_inv [OF wait_reachable.init]] by (simp add: wt_init_def)

text \<open>
  C31. Responses and their callers: in every interleaving of calls, responses, timeouts and
  shutdowns, handling a response neither blocks nor panics, and whatever response a caller received
  carries the id it waited for.
\<close>

theorem responses_reach_their_callers:
  assumes "wait_reachable s"
  shows "(\<exists>p. HandleResponse r (wt_pool s) = Delivered p) \<and>
    ((i, Some x) \<in> set (wt_log s) \<longrightarrow> go_str (resp_id x) = i)"
  using wait_reachable_inv [OF assms] HandleResponse_inv pool_invD(6) by blast

text \<open>
  When a response gets through: a response handled after its caller registered is the next
  thing the caller receives; one handled before is dropped, and the caller that registers then
  finds nothing.
\<close>

theorem response_needs_registration:
  assumes "wait_register i p0 = (n, p)" "go_str (resp_id r) = i"
  shows "(\<exists>p'. HandleResponse r p = Delivered p' \<and>
      (\<exists>p''. wait_receive n p' = Some (Some r, p''))) \<and>
    (pl_pending p0 i = None \<longrightarrow> HandleResponse r p0 = Delivered p0 \<and> wait_receive n p = None)"
  using assms by (auto simp: wait_register_def HandleResponse_def wait_receive_def set_chan_def Let_def)

definition demo_response :: response where
  "demo_response = \<lparr>resp_jsonrpc = ''2.0'', resp_id = GStr ''a'', resp_result = Some JNull, resp_error = None\<rparr>"

theorem responses_reach_their_callers_witness:
  "\<exists>p. HandleResponse demo_response
      (snd (wait_register ''a'' NewPool)) = Delivered p"
proof -
  have "wait_step wt_init (wt_init\<lparr>wt_pool := snd (wait_register ''a'' NewPool),
      wt_waiters := (fst (wait_register ''a'' NewPool), ''a'') # wt_waiters wt_init\<rparr>)"
    by (rule wait_step.Start) (simp add: wt_init_def)
  from responses_reach_their_callers [OF wait_reachable.step [OF wait_reachable.init this]]
  show ?thesis by simp
qed

theorem response_needs_registration_witness:
  "\<exists>p'. HandleResponse demo_response (snd (wait_register ''a'' NewPool)) = Delivered p'
    \<and> (\<exists>p''. wait_receive 0 p' = Some (Some demo_response, p''))
    \<and> HandleResponse demo_response NewPool = Delivered NewPool
    \<and> wait_receive 0 (snd (wait_register ''a'' NewPool)) = None"
proof -
  have "wait_register ''a'' NewPool = (0, snd (wait_register ''a'' NewPool))"
    by (simp add: wait_register_def NewPool_def)
  from response_needs_registration [OF this, of demo_response]
  show ?thesis by (auto simp: demo_response_def NewPool_def)
qed

end
