(* ===== verification/Reliability.thy ===== *)
theory Reliability
  imports BaseTransport ErrorCodes
begin

section \<open>The reliability middleware (\<open>pkg/transport/reliability_middleware.go\<close>)\<close>

text \<open>
  Retries with exponential backoff and a circuit breaker around the send operations of the wrapped
  transport. The wrapped operation is a family indexed by the attempt, because each attempt finds
  another environment; it works on a state \<open>'w\<close>. What an attempt sees of its context and clock is
  in \<open>attempt_env\<close>. Delays only pass time, so they show in the clock readings.
\<close>

subsection \<open>The circuit breaker\<close>

datatype circuit_state = CircuitClosed | CircuitOpen | CircuitHalfOpen

record breaker_config =
  brc_enabled :: bool
  brc_failures :: int
  brc_successes :: int
  brc_timeout :: duration

record breaker =
  br_config :: breaker_config
  br_state :: circuit_state
  br_failures :: int
  br_successes :: int
  br_last_error :: instant

definition new_breaker :: "instant \<Rightarrow> breaker_config \<Rightarrow> breaker" where
  "new_breaker zero c = \<lparr>br_config = c, br_state = CircuitClosed, br_failures = 0, br_successes = 0, br_last_error = zero\<rparr>"

definition canMakeCall :: "instant \<Rightarrow> breaker \<Rightarrow> bool \<times> breaker" where
  "canMakeCall now b =
     (case br_state b of
        CircuitClosed \<Rightarrow> (True, b)
      | CircuitOpen \<Rightarrow>
          if brc_timeout (br_config b) < time_sub now (br_last_error b)
          then (True, b\<lparr>br_state := CircuitHalfOpen, br_successes := 0\<rparr>) else (False, b)
      | CircuitHalfOpen \<Rightarrow> (True, b))"

definition recordSuccess :: "breaker \<Rightarrow> breaker" where
  "recordSuccess b0 =
     (let b = b0\<lparr>br_failures := 0\<rparr> in
      if br_state b = CircuitHalfOpen then
        (let b1 = b\<lparr>br_successes := br_successes b + 1\<rparr> in
         if brc_successes (br_config b1) \<le> br_successes b1 then b1\<lparr>br_state := CircuitClosed\<rparr> else b1)
      else b)"

definition recordFailure :: "instant \<Rightarrow> breaker \<Rightarrow> breaker" where
  "recordFailure now b0 =
     (let b = b0\<lparr>br_last_error := now, br_failures := br_failures b0 + 1\<rparr> in
      if br_state b = CircuitHalfOpen then b\<lparr>br_state := CircuitOpen\<rparr>
      else if brc_failures (br_config b) \<le> br_failures b then b\<lparr>br_state := CircuitOpen\<rparr> else b)"

lemmas breaker_defs = canMakeCall_def recordSuccess_def recordFailure_def new_breaker_def

subsection \<open>Errors worth a retry\<close>

definition isRetryableSend :: "goerr option \<Rightarrow> bool" where
  "isRetryableSend err =
     (case err of
        None \<Rightarrow> False
      | Some (ErrMCP m) \<Rightarrow>
          if mcp_code m \<in> {CodeConnectionFailed, CodeConnectionLost, CodeConnectionTimeout,
              CodeResourceUnavailable, CodeOperationTimeout} then True
          else if mcp_code m \<in> {CodeInvalidParams, CodeInvalidRequest, CodeOperationNotSupported,
              CodeOperationCancelled} then False
          else True
      | Some (ErrObject e) \<Rightarrow>
          if - 32099 \<le> err_code e \<and> err_code e \<le> - 32000 then False
          else if err_code e = InternalError then True else True
      | Some _ \<Rightarrow> True)"

subsection \<open>Backoff\<close>

text \<open>\<open>math.Pow\<close> for a whole, non-negative exponent: repeated squaring with rounded products.\<close>

fun pow_loop :: "nat \<Rightarrow> rat \<Rightarrow> rat \<Rightarrow> rat" where
  "pow_loop n a x =
     (if n = 0 then a else pow_loop (n div 2) (if odd n then f64 (a * x) else a) (f64 (x * x)))"

declare pow_loop.simps [simp del]

definition go_pow :: "rat \<Rightarrow> nat \<Rightarrow> rat" where
  "go_pow x n = (if n = 0 \<or> x = 1 then 1 else if n = 1 then x else pow_loop n 1 x)"

record rel_config =
  rel_max_retries :: int
  rel_initial_delay :: duration
  rel_max_delay :: duration
  rel_factor :: rat
  rel_breaker :: breaker_config

text \<open>The jitter is a random number from 0 to 1; \<open>None\<close> when the random source fails.\<close>

definition calculateBackoff :: "rel_config \<Rightarrow> nat \<Rightarrow> rat option \<Rightarrow> duration" where
  "calculateBackoff cfg attempt rnd =
     (let b0 = f64 (f64 (of_int (rel_initial_delay cfg)) * go_pow (rel_factor cfg) (attempt - 1));
          b = (if f64 (of_int (rel_max_delay cfg)) < b0 then f64 (of_int (rel_max_delay cfg)) else b0)
      in trunc (case rnd of
           None \<Rightarrow> b
         | Some r \<Rightarrow> f64 (b + f64 (f64 (b * f64 (1 / 10)) * f64 (f64 (r * 2) - 1)))))"

subsection \<open>Retries\<close>

record attempt_env =
  ae_before :: "goerr option"
  ae_delay :: "goerr option"
  ae_now :: instant

type_synonym ('w, 'r) send = "nat \<Rightarrow> 'w \<Rightarrow> (goerr, 'r) outcome \<times> 'w"

definition rel_context :: "string \<Rightarrow> string \<Rightarrow> err_context" where
  "rel_context m operation = empty_context\<lparr>ctx_method := m, ctx_component := ''ReliabilityMiddleware'',
     ctx_operation := operation\<rparr>"

definition breaker_open_error :: "string \<Rightarrow> goerr" where
  "breaker_open_error m = ErrMCP (WithContext (Some (rel_context m ''circuit_breaker_check''))
     (NewError CodeResourceUnavailable ''Circuit breaker is open'' CategoryTransport SeverityError))"

definition exhausted_error :: "string \<Rightarrow> string \<Rightarrow> int \<Rightarrow> goerr option \<Rightarrow> goerr" where
  "exhausted_error what m n prev = ErrMCP
     (WithDetail (''Last error: '' @ (case prev of None \<Rightarrow> ''<nil>'' | Some e \<Rightarrow> Error e))
       (WithContext (Some (rel_context m ''retry_exhausted''))
         (NewError CodeOperationFailed (what @ '' failed after '' @ show_int n @ '' attempts'')
           CategoryTransport SeverityError)))"

text \<open>The loop: \<open>rest\<close> attempts remain, the next one is number \<open>i\<close>.\<close>

fun retry_loop :: "(nat \<Rightarrow> attempt_env) \<Rightarrow> ('w, 'r) send \<Rightarrow> (goerr option \<Rightarrow> goerr) \<Rightarrow> nat \<Rightarrow> nat \<Rightarrow>
    goerr option \<Rightarrow> breaker option \<times> 'w \<Rightarrow> (goerr, 'r) outcome \<times> (breaker option \<times> 'w)" where
  "retry_loop env send exhausted 0 i prev s = (Err (exhausted prev), s)"
| "retry_loop env send exhausted (Suc rest) i prev s =
     (case ae_before (env i) of
        Some e \<Rightarrow> (Err e, s)
      | None \<Rightarrow>
          (case (if 0 < i then ae_delay (env i) else None) of
             Some e \<Rightarrow> (Err e, s)
           | None \<Rightarrow>
               (case send i (snd s) of
                  (Ok r, w') \<Rightarrow> (Ok r, (map_option recordSuccess (fst s), w'))
                | (Panic m, w') \<Rightarrow> (Panic m, (fst s, w'))
                | (Err e, w') \<Rightarrow>
                    (let s' = (map_option (recordFailure (ae_now (env i))) (fst s), w') in
                     if \<not> isRetryableSend (Some e) then (Err e, s')
                     else retry_loop env send exhausted rest (Suc i) (Some e) s'))))"

definition max_attempts :: "rel_config \<Rightarrow> int" where
  "max_attempts cfg = wrap64 (rel_max_retries cfg + 1)"

text \<open>The three send operations differ in the name of the method and the text of the final error.\<close>

definition rel_send :: "rel_config \<Rightarrow> instant \<Rightarrow> (nat \<Rightarrow> attempt_env) \<Rightarrow> string \<Rightarrow> string \<Rightarrow> ('w, 'r) send \<Rightarrow>
    breaker option \<times> 'w \<Rightarrow> (goerr, 'r) outcome \<times> (breaker option \<times> 'w)" where
  "rel_send cfg now env what m send s =
     (case (case fst s of None \<Rightarrow> (True, None)
            | Some b \<Rightarrow> (case canMakeCall now b of (ok, b') \<Rightarrow> (ok, Some b'))) of
        (False, b) \<Rightarrow> (Err (breaker_open_error m), (b, snd s))
      | (True, b) \<Rightarrow> retry_loop env send (exhausted_error what m (max_attempts cfg))
                      (nat (max_attempts cfg)) 0 None (b, snd s))"

definition rel_SendRequest :: "rel_config \<Rightarrow> instant \<Rightarrow> (nat \<Rightarrow> attempt_env) \<Rightarrow> string \<Rightarrow> ('w, 'r) send \<Rightarrow>
    breaker option \<times> 'w \<Rightarrow> (goerr, 'r) outcome \<times> (breaker option \<times> 'w)" where
  "rel_SendRequest cfg now env m send s = rel_send cfg now env ''Request'' m send s"

definition rel_SendNotification :: "rel_config \<Rightarrow> instant \<Rightarrow> (nat \<Rightarrow> attempt_env) \<Rightarrow> string \<Rightarrow> ('w, unit) send \<Rightarrow>
    breaker option \<times> 'w \<Rightarrow> (goerr, unit) outcome \<times> (breaker option \<times> 'w)" where
  "rel_SendNotification cfg now env m send s = rel_send cfg now env ''Notification'' m send s"

definition rel_SendBatchRequest :: "rel_config \<Rightarrow> instant \<Rightarrow> (nat \<Rightarrow> attempt_env) \<Rightarrow> ('w, 'r) send \<Rightarrow>
    breaker option \<times> 'w \<Rightarrow> (goerr, 'r) outcome \<times> (breaker option \<times> 'w)" where
  "rel_SendBatchRequest cfg now env send s = rel_send cfg now env ''Batch request'' ''batch'' send s"

definition NewReliabilityMiddleware :: "instant \<Rightarrow> rel_config \<Rightarrow> breaker option" where
  "NewReliabilityMiddleware zero cfg =
     (if brc_enabled (rel_breaker cfg) then Some (new_breaker zero (rel_breaker cfg)) else None)"

subsection \<open>What the loop does\<close>

text \<open>The state of the wrapped transport after the first \<open>n\<close> sends.\<close>

definition after_sends :: "('w, 'r) send \<Rightarrow> nat \<Rightarrow> 'w \<Rightarrow> 'w" where
  "after_sends send n w = fold (\<lambda>i w. snd (send i w)) [0..<n] w"

lemma after_sends_Suc: "after_sends send (Suc n) w = snd (send n (after_sends send n w))"
  by (simp add: after_sends_def)

definition undisturbed :: "(nat \<Rightarrow> attempt_env) \<Rightarrow> bool" where
  "undisturbed env \<longleftrightarrow> (\<forall>i. ae_before (env i) = None \<and> ae_delay (env i) = None)"

text \<open>The first \<open>k\<close> sends fail with errors worth a retry.\<close>

definition fails_first :: "('w, 'r) send \<Rightarrow> nat \<Rightarrow> 'w \<Rightarrow> bool" where
  "fails_first send k w \<longleftrightarrow>
     (\<forall>i < k. \<exists>e. fst (send i (after_sends send i w)) = Err e \<and> isRetryableSend (Some e))"

lemma retry_loop_fails:
  assumes "undisturbed env" "fails_first send k w"
  shows "i \<le> k \<Longrightarrow> k \<le> i + rest \<Longrightarrow> \<exists>b' prev'. retry_loop env send x rest i prev (b, after_sends send i w) =
      retry_loop env send x (i + rest - k) k prev' (b', after_sends send k w) \<and> (i < k \<longrightarrow> prev' \<noteq> None)"
proof (induction rest arbitrary: i prev b)
  case 0
  then show ?case by auto
next
  case (Suc rest)
  show ?case
  proof (cases "i = k")
    case True
    then show ?thesis by auto
  next
    case False
    then have ik: "i < k" using Suc.prems by simp
    then obtain e where e: "fst (send i (after_sends send i w)) = Err e" "isRetryableSend (Some e)"
      using assms(2) by (auto simp: fails_first_def)
    then have s: "send i (after_sends send i w) = (Err e, after_sends send (Suc i) w)"
      by (simp add: after_sends_Suc prod_eq_iff)
    have one: "retry_loop env send x (Suc rest) i prev (b, after_sends send i w) =
        retry_loop env send x rest (Suc i) (Some e) (map_option (recordFailure (ae_now (env i))) b, after_sends send (Suc i) w)"
    proof -
      have "ae_before (env i) = None" "(if 0 < i then ae_delay (env i) else None) = None"
        using assms(1) by (auto simp: undisturbed_def)
      then show ?thesis using s e(2) by (simp only: retry_loop.simps(2) Let_def) simp
    qed
    obtain b' prev' where "retry_loop env send x rest (Suc i) (Some e)
          (map_option (recordFailure (ae_now (env i))) b, after_sends send (Suc i) w) =
        retry_loop env send x (Suc i + rest - k) k prev' (b', after_sends send k w)"
        "Suc i < k \<longrightarrow> prev' \<noteq> None"
      using Suc.IH [of "Suc i" "Some e" "map_option (recordFailure (ae_now (env i))) b"] ik Suc.prems by auto
    then show ?thesis
    proof (cases "Suc i < k")
      case False
      then have k: "k = Suc i" using ik by simp
      show ?thesis unfolding one k
        by (intro exI [of _ "map_option (recordFailure (ae_now (env i))) b"] exI [of _ "Some e"])
          (simp del: retry_loop.simps)
    qed (use one in \<open>auto simp del: retry_loop.simps\<close>)
  qed
qed

lemma retry_loop_decisive:
  assumes "undisturbed env" "send k (after_sends send k w) = (r, w')" "\<not> is_panic r"
    and "case r of Err e \<Rightarrow> \<not> isRetryableSend (Some e) | _ \<Rightarrow> True"
  shows "\<exists>b'. retry_loop env send x (Suc rest) k prev (b, after_sends send k w) = (r, (b', w'))"
proof -
  have "ae_before (env k) = None" "(if 0 < k then ae_delay (env k) else None) = None"
    using assms(1) by (auto simp: undisturbed_def)
  then show ?thesis using assms(2-4) by (cases r) (simp_all only: retry_loop.simps(2) Let_def, auto)
qed

text \<open>
  C34. Retries: with a context that stays alive and a breaker that admits the call, when the first
  \<open>k\<close> sends fail with errors worth a retry, then (1) if the next one is within the budget and
  succeeds or fails for good, the caller gets its result after exactly \<open>k + 1\<close> sends; (2) if the
  budget is used up, the caller gets the error that says so, after exactly that many sends. The
  breaker does not cut the loop short: it may open at any failure on the way.
\<close>

theorem retries_until_decisive:
  assumes "undisturbed env" "in_int64 (rel_max_retries cfg + 1)" "0 \<le> rel_max_retries cfg"
    and "case b of None \<Rightarrow> True | Some br \<Rightarrow> fst (canMakeCall now br)"
    and "fails_first send k w" "int k \<le> rel_max_retries cfg + 1"
  shows "(int k \<le> rel_max_retries cfg \<and> send k (after_sends send k w) = (r, w') \<and> \<not> is_panic r \<and>
        (case r of Err e \<Rightarrow> \<not> isRetryableSend (Some e) | _ \<Rightarrow> True) \<longrightarrow>
      (\<exists>b'. rel_SendRequest cfg now env m send (b, w) = (r, (b', w')))) \<and>
    (int k = rel_max_retries cfg + 1 \<longrightarrow> (\<exists>b' e.
      rel_SendRequest cfg now env m send (b, w) =
        (Err (exhausted_error ''Request'' m (int k) (Some e)), (b', after_sends send k w))))"
proof -
  let ?n = "nat (max_attempts cfg)"
  have n: "max_attempts cfg = rel_max_retries cfg + 1" "int ?n = rel_max_retries cfg + 1"
    using assms(2,3) by (simp_all add: max_attempts_def)
  let ?x = "exhausted_error ''Request'' m (max_attempts cfg)"
  obtain b0 where start: "rel_SendRequest cfg now env m send (b, w) = retry_loop env send ?x ?n 0 None (b0, w)"
  proof (cases b)
    case None
    then show ?thesis using that by (simp add: rel_SendRequest_def rel_send_def)
  next
    case (Some br)
    then obtain br' where "canMakeCall now br = (True, br')" using assms(4) by (cases "canMakeCall now br") auto
    then show ?thesis using that Some by (simp add: rel_SendRequest_def rel_send_def)
  qed
  have w0: "w = after_sends send 0 w" by (simp add: after_sends_def)
  have "k \<le> 0 + ?n" using assms(6) n(2) by linarith
  from retry_loop_fails [OF assms(1,5) _ this, of ?x None b0]
  obtain b' prev' where run: "retry_loop env send ?x ?n 0 None (b0, w) =
      retry_loop env send ?x (?n - k) k prev' (b', after_sends send k w)" "0 < k \<longrightarrow> prev' \<noteq> None"
    using w0 by auto
  show ?thesis
  proof (intro conjI impI)
    assume a: "int k \<le> rel_max_retries cfg \<and> send k (after_sends send k w) = (r, w') \<and> \<not> is_panic r \<and>
        (case r of Err e \<Rightarrow> \<not> isRetryableSend (Some e) | _ \<Rightarrow> True)"
    then have "?n - k = Suc (?n - k - 1)" using n(2) by linarith
    then show "\<exists>b'. rel_SendRequest cfg now env m send (b, w) = (r, (b', w'))"
      using retry_loop_decisive [OF assms(1), of send k w r w' ?x "?n - k - 1" prev' b'] a run(1) start by simp
  next
    assume a: "int k = rel_max_retries cfg + 1"
    then have z: "?n - k = 0" "0 < k" using n(2) assms(3) by linarith+
    then obtain e where "prev' = Some e" using run(2) by auto
    then show "\<exists>b' e. rel_SendRequest cfg now env m send (b, w) =
        (Err (exhausted_error ''Request'' m (int k) (Some e)), (b', after_sends send k w))"
      using start run(1) z(1) a n(1) by auto
  qed
qed

definition demo_retry :: rel_config where
  "demo_retry = \<lparr>rel_max_retries = 2, rel_initial_delay = 1, rel_max_delay = 4, rel_factor = 2,
     rel_breaker = \<lparr>brc_enabled = False, brc_failures = 1, brc_successes = 1, brc_timeout = 1\<rparr>\<rparr>"

definition demo_env :: "nat \<Rightarrow> attempt_env" where
  "demo_env i = \<lparr>ae_before = None, ae_delay = None, ae_now = 0\<rparr>"

theorem retries_until_decisive_witness:
  "\<exists>b' e. rel_SendRequest demo_retry 0 demo_env ''ping'' (\<lambda>i w. (Err ErrDeadline :: (goerr, unit) outcome, Suc w)) (None, 0)
    = (Err (exhausted_error ''Request'' ''ping'' (int 3) (Some e)), (b', after_sends (\<lambda>i w. (Err ErrDeadline :: (goerr, unit) outcome, Suc w)) 3 0))"
proof -
  have "fails_first (\<lambda>i w. (Err ErrDeadline :: (goerr, unit) outcome, Suc w)) 3 0"
    by (simp add: fails_first_def isRetryableSend_def)
  from retries_until_decisive [where env = demo_env and cfg = demo_retry and b = None and now = 0
      and r = "Err ErrDeadline" and w' = 0 and m = "''ping''", OF _ _ _ _ this]
  show ?thesis by (simp add: demo_env_def demo_retry_def undisturbed_def in_int64_def)
qed

text \<open>
  Every run of the loop, disturbed or not, makes at most the budgeted sends, in order; a negative
  budget makes none.
\<close>

lemma retry_loop_bounded:
  "\<exists>n \<le> i + rest. i \<le> n \<and> snd (snd (retry_loop env send x rest i prev (b, after_sends send i w))) = after_sends send n w"
proof (induction rest arbitrary: i prev b)
  case 0
  show ?case by (intro exI [of _ i]) simp
next
  case (Suc rest)
  obtain r w1 where s: "send i (after_sends send i w) = (r, w1)" by (cases "send i (after_sends send i w)")
  then have w1: "after_sends send (Suc i) w = w1" by (simp add: after_sends_Suc)
  show ?case
  proof (cases "ae_before (env i) = None \<and> (if 0 < i then ae_delay (env i) else None) = None")
    case False
    then have "snd (snd (retry_loop env send x (Suc rest) i prev (b, after_sends send i w))) = after_sends send i w"
      by (auto split: option.splits if_splits)
    then show ?thesis by (intro exI [of _ i]) (simp del: retry_loop.simps)
  next
    case True
    then have run: "retry_loop env send x (Suc rest) i prev (b, after_sends send i w) = (case r of
        Ok v \<Rightarrow> (Ok v, (map_option recordSuccess b, w1)) | Panic m \<Rightarrow> (Panic m, (b, w1))
      | Err e \<Rightarrow> if \<not> isRetryableSend (Some e) then (Err e, (map_option (recordFailure (ae_now (env i))) b, w1))
          else retry_loop env send x rest (Suc i) (Some e) (map_option (recordFailure (ae_now (env i))) b, w1))"
      using s by (simp only: retry_loop.simps(2) Let_def) (simp split: outcome.split)
    show ?thesis
    proof (cases "\<exists>e. r = Err e \<and> isRetryableSend (Some e)")
      case True
      then obtain e where e: "r = Err e" "isRetryableSend (Some e)" by blast
      obtain n where "n \<le> Suc i + rest" "Suc i \<le> n" "snd (snd (retry_loop env send x rest (Suc i) (Some e)
          (map_option (recordFailure (ae_now (env i))) b, after_sends send (Suc i) w))) = after_sends send n w"
        using Suc.IH [of "Suc i" "Some e"] by blast
      then show ?thesis unfolding run using e w1 by (intro exI [of _ n]) (simp del: retry_loop.simps)
    next
      case False
      then have "snd (snd (retry_loop env send x (Suc rest) i prev (b, after_sends send i w))) = w1"
        unfolding run by (cases r) auto
      then show ?thesis using w1 by (intro exI [of _ "Suc i"]) (simp del: retry_loop.simps)
    qed
  qed
qed

subsection \<open>The life of the breaker\<close>

datatype breaker_event = BreakerCall instant | BreakerSuccess | BreakerFailure instant

fun breaker_step :: "breaker_event \<Rightarrow> breaker \<Rightarrow> breaker" where
  "breaker_step (BreakerCall now) b = snd (canMakeCall now b)"
| "breaker_step BreakerSuccess b = recordSuccess b"
| "breaker_step (BreakerFailure now) b = recordFailure now b"

definition breaker_inv :: "breaker \<Rightarrow> bool" where
  "breaker_inv b \<longleftrightarrow> 1 \<le> brc_failures (br_config b) \<and> 1 \<le> brc_successes (br_config b) \<and> 0 \<le> br_failures b \<and>
     (case br_state b of
        CircuitClosed \<Rightarrow> br_failures b < brc_failures (br_config b)
      | CircuitHalfOpen \<Rightarrow> 0 \<le> br_successes b \<and> br_successes b < brc_successes (br_config b)
      | CircuitOpen \<Rightarrow> True)"

lemma breaker_step_inv: "breaker_inv b \<Longrightarrow> breaker_inv (breaker_step ev b)"
  by (cases ev) (auto simp: breaker_inv_def breaker_defs Let_def split: circuit_state.splits if_splits)

lemma breaker_run_inv: "breaker_inv b \<Longrightarrow> breaker_inv (fold breaker_step evs b)"
  by (rule fold_invariant_list) (auto intro: breaker_step_inv)

lemma fold_failures:
  assumes "br_state b = CircuitClosed" "br_failures b = f" "0 \<le> f" "f < brc_failures (br_config b)"
  shows "br_state (fold recordFailure ts b) =
      (if brc_failures (br_config b) \<le> f + int (length ts) then CircuitOpen else CircuitClosed) \<and>
    br_failures (fold recordFailure ts b) = f + int (length ts) \<and>
    br_config (fold recordFailure ts b) = br_config b \<and>
    (ts \<noteq> [] \<longrightarrow> br_last_error (fold recordFailure ts b) = last ts)"
proof (induction ts rule: rev_induct)
  case Nil
  then show ?case using assms by simp
next
  case (snoc t ts)
  then show ?case by (auto simp: recordFailure_def Let_def split: if_splits)
qed

lemma successes_close:
  assumes "br_state b = CircuitHalfOpen" "br_successes b = k" "k < brc_successes (br_config b)"
  shows "n < nat (brc_successes (br_config b) - k) \<Longrightarrow> br_state ((recordSuccess ^^ n) b) = CircuitHalfOpen \<and>
      br_successes ((recordSuccess ^^ n) b) = k + int n \<and> br_config ((recordSuccess ^^ n) b) = br_config b"
    and "br_state ((recordSuccess ^^ nat (brc_successes (br_config b) - k)) b) = CircuitClosed"
    and "br_failures ((recordSuccess ^^ nat (brc_successes (br_config b) - k)) b) = 0"
proof -
  show *: "n < nat (brc_successes (br_config b) - k) \<Longrightarrow> br_state ((recordSuccess ^^ n) b) = CircuitHalfOpen \<and>
      br_successes ((recordSuccess ^^ n) b) = k + int n \<and> br_config ((recordSuccess ^^ n) b) = br_config b" for n
    using assms by (induction n) (auto simp: recordSuccess_def Let_def)
  obtain n where n: "nat (brc_successes (br_config b) - k) = Suc n" using assms(3) by (cases "nat (brc_successes (br_config b) - k)") auto
  then have "brc_successes (br_config b) \<le> k + int n + 1" using assms(3) by linarith
  then show "br_state ((recordSuccess ^^ nat (brc_successes (br_config b) - k)) b) = CircuitClosed"
    "br_failures ((recordSuccess ^^ nat (brc_successes (br_config b) - k)) b) = 0"
    using * [of n] n by (auto simp: recordSuccess_def Let_def)
qed

text \<open>
  C35. The life of the breaker. In any run it stays within its thresholds: closed with fewer
  failures in a row than the failure threshold, half open with fewer successes than the success
  threshold. A new breaker stays closed through fewer failures than the threshold and opens with
  the last of them; then, up to the timeout after it, every request is refused without reaching
  the wrapped transport; past the timeout one is let through, and from there as many successes as
  the success threshold close it while one failure opens it again.
\<close>

theorem breaker_lifecycle:
  assumes "1 \<le> brc_failures c" "1 \<le> brc_successes c" "int (length ts) = brc_failures c"
  shows "breaker_inv (fold breaker_step evs (new_breaker zero c))
    \<and> (int (length us) < brc_failures c \<longrightarrow> br_state (fold recordFailure us (new_breaker zero c)) = CircuitClosed)
    \<and> br_state (fold recordFailure ts (new_breaker zero c)) = CircuitOpen
    \<and> (time_sub now (last ts) \<le> brc_timeout c \<longrightarrow>
        rel_SendRequest cfg now env m send (Some (fold recordFailure ts (new_breaker zero c)), w) =
          (Err (breaker_open_error m), (Some (fold recordFailure ts (new_breaker zero c)), w)))
    \<and> (brc_timeout c < time_sub now (last ts) \<longrightarrow>
        (\<exists>b. canMakeCall now (fold recordFailure ts (new_breaker zero c)) = (True, b) \<and>
          br_state ((recordSuccess ^^ nat (brc_successes c)) b) = CircuitClosed \<and>
          br_state (recordFailure now b) = CircuitOpen))"
proof -
  let ?new = "new_breaker zero c"
  have new: "br_state ?new = CircuitClosed" "br_failures ?new = 0" "br_config ?new = c"
    by (simp_all add: new_breaker_def)
  have inv: "breaker_inv (fold breaker_step evs ?new)"
    using assms(1,2) by (intro breaker_run_inv) (simp add: breaker_inv_def new)
  have closed: "int (length us) < brc_failures c \<longrightarrow> br_state (fold recordFailure us ?new) = CircuitClosed"
    using fold_failures [OF new(1,2), of us] assms(1) by (simp add: new)
  let ?b1 = "fold recordFailure ts ?new"
  have "ts \<noteq> []" using assms(1,3) by auto
  then have b1: "br_state ?b1 = CircuitOpen" "br_last_error ?b1 = last ts" "br_config ?b1 = c"
    using fold_failures [OF new(1,2), of ts] assms(1,3) by (simp_all add: new)
  have refuse: "time_sub now (last ts) \<le> brc_timeout c \<longrightarrow>
      rel_SendRequest cfg now env m send (Some ?b1, w) = (Err (breaker_open_error m), (Some ?b1, w))"
    using b1 by (simp add: rel_SendRequest_def rel_send_def canMakeCall_def)
  let ?b2 = "?b1\<lparr>br_state := CircuitHalfOpen, br_successes := 0\<rparr>"
  have "br_state ((recordSuccess ^^ nat (brc_successes c)) ?b2) = CircuitClosed"
    using successes_close(2) [of ?b2 0] assms(2) b1(3) by simp
  moreover have "br_state (recordFailure now ?b2) = CircuitOpen" by (simp add: recordFailure_def)
  moreover have "brc_timeout c < time_sub now (last ts) \<longrightarrow> canMakeCall now ?b1 = (True, ?b2)"
    using b1 by (simp add: canMakeCall_def)
  ultimately show ?thesis using inv closed b1(1) refuse by blast
qed

theorem breaker_lifecycle_witness:
  "rel_SendRequest demo_retry 15 demo_env ''ping'' (\<lambda>i w. (Ok (), Suc w))
      (Some (fold recordFailure [3, 5] (new_breaker 0
        \<lparr>brc_enabled = True, brc_failures = 2, brc_successes = 1, brc_timeout = 10\<rparr>)), 0)
    = (Err (breaker_open_error ''ping''), (Some (fold recordFailure [3, 5] (new_breaker 0
        \<lparr>brc_enabled = True, brc_failures = 2, brc_successes = 1, brc_timeout = 10\<rparr>)), (0 :: nat)))"
  using breaker_lifecycle [where c = "\<lparr>brc_enabled = True, brc_failures = 2, brc_successes = 1, brc_timeout = 10\<rparr>"
      and ts = "[3, 5]" and now = 15 and zero = 0 and cfg = demo_retry and env = demo_env and m = "''ping''"
      and send = "\<lambda>i w. (Ok (), Suc w)" and w = 0 and us = "[]" and evs = "[]"]
  by (simp add: time_sub_def)

subsection \<open>Delays\<close>

lemma trunc_mono_of_int: "x \<le> of_int k \<Longrightarrow> 0 \<le> k \<Longrightarrow> trunc x \<le> k"
  unfolding trunc_def by (auto simp: floor_le_iff le_floor_iff) linarith+

lemma pow_loop_nonneg: "0 \<le> a \<Longrightarrow> 0 \<le> x \<Longrightarrow> 0 \<le> pow_loop n a x"
proof (induction n a x rule: pow_loop.induct)
  case (1 n a x)
  then show ?case by (subst pow_loop.simps) (simp add: f64.rnd_nonneg zero_le_mult_iff)
qed

text \<open>
  The delay before a retry never exceeds twice the configured maximum, jitter and rounding included.
\<close>

lemma backoff_bounded:
  assumes "0 \<le> rel_initial_delay cfg" "0 \<le> rel_factor cfg"
    and "0 \<le> rel_max_delay cfg" "rel_max_delay cfg < 2 ^ 52"
    and "\<And>r. rnd = Some r \<Longrightarrow> 0 \<le> r \<and> r \<le> 1"
  shows "calculateBackoff cfg n rnd \<le> 2 * rel_max_delay cfg"
proof -
  let ?M = "rel_max_delay cfg"
  define b0 where "b0 = f64 (f64 (of_int (rel_initial_delay cfg)) * go_pow (rel_factor cfg) (n - 1))"
  define b where "b = (if f64 (of_int ?M) < b0 then f64 (of_int ?M) else b0)"
  define j where "j = (\<lambda>r. f64 (f64 (b * f64 (1 / 10)) * f64 (f64 (r * 2) - 1)))"
  have "0 \<le> b0" using assms(1,2)
    by (auto simp: b0_def go_pow_def intro!: f64.rnd_nonneg mult_nonneg_nonneg pow_loop_nonneg)
  then have b: "0 \<le> b" "b \<le> of_int ?M"
    using assms(3,4) f64_of_int [of ?M] by (auto simp: b_def)
  have eq: "calculateBackoff cfg n rnd = trunc (case rnd of None \<Rightarrow> b | Some r \<Rightarrow> f64 (b + j r))"
    by (simp only: calculateBackoff_def Let_def b0_def [symmetric] b_def [symmetric] j_def)
  have "f64 (b + j r) \<le> of_int (2 * ?M)" if r: "rnd = Some r" for r
  proof -
    let ?t = "f64 (1 / 10)" and ?u = "f64 (f64 (r * 2) - 1)"
    let ?v = "f64 (b * ?t)"
    have t: "0 \<le> ?t" "?t \<le> 1" using f64.rnd_le_int [of "1 / 10" 1] by (auto intro: f64.rnd_nonneg)
    have "0 \<le> r" "r \<le> 1" using assms(5) r by blast+
    then have "f64 (r * 2) \<le> 2" using f64.rnd_le_int [of "r * 2" 2] by simp
    then have u: "?u \<le> 1" using f64.rnd_le_int [of "f64 (r * 2) - 1" 1] by simp
    have bt: "0 \<le> b * ?t" "b * ?t \<le> b" using b(1) t by (simp_all add: mult_left_le)
    have v: "0 \<le> ?v" "?v \<le> of_int ?M"
      using bt b(2) assms(3,4) by (auto intro!: f64.rnd_nonneg f64.rnd_le_int)
    have "?v * ?u \<le> of_int ?M" using mult_left_mono [OF u v(1)] v(2) by simp
    then have "j r \<le> of_int ?M" using f64.rnd_le_int [of "?v * ?u" ?M] assms(3,4) by (simp add: j_def)
    then show ?thesis using b(2) f64.rnd_le_int [of "b + j r" "2 * ?M"] assms(3,4) by simp
  qed
  then have "(case rnd of None \<Rightarrow> b | Some r \<Rightarrow> f64 (b + j r)) \<le> of_int (2 * ?M)"
    using b assms(3) by (cases rnd) auto
  then show ?thesis unfolding eq using assms(3) by (intro trunc_mono_of_int) auto
qed

end
