(* ===== verification/HttpReconnect.thy ===== *)
theory HttpReconnect
  imports Sse Reliability
begin

section \<open>Reconnecting event streams\<close>

text \<open>
  What the Streamable HTTP transport decides with when a stream is lost (\<open>streamable_http.go\<close>): its
  configuration, the state of the connection and the metrics, its own circuit breaker, the
  classification of errors by their text and the backoff. The breaker runs an operation on a state
  \<open>'s\<close>; \<open>now\<close> are the readings of the clock in the order of the calls. A random number is from 0 to
  below 1; \<open>None\<close> when the random source fails.
\<close>

subsection \<open>Configuration, state and metrics\<close>

record reconnect_config =
  rc_initial :: duration
  rc_max :: duration
  rc_retries :: int
  rc_multiplier :: rat
  rc_jitter :: rat
  rc_health :: duration

definition DefaultReconnectionConfig :: reconnect_config where
  "DefaultReconnectionConfig = \<lparr>rc_initial = second, rc_max = 30 * second, rc_retries = 10, rc_multiplier = 2,
     rc_jitter = 20, rc_health = 30 * second\<rparr>"

datatype connection_state = StateDisconnected | StateConnecting | StateConnected | StateReconnecting | StateFailed

fun state_String :: "connection_state \<Rightarrow> string" where
  "state_String StateDisconnected = ''disconnected''"
| "state_String StateConnecting = ''connecting''"
| "state_String StateConnected = ''connected''"
| "state_String StateReconnecting = ''reconnecting''"
| "state_String StateFailed = ''failed''"

record reconnect_metrics =
  rm_attempts :: int
  rm_successes :: int
  rm_failures :: int
  rm_duration :: duration
  rm_last :: instant

definition recordReconnectionAttempt :: "bool \<Rightarrow> duration \<Rightarrow> instant \<Rightarrow> reconnect_metrics \<Rightarrow> reconnect_metrics" where
  "recordReconnectionAttempt success d now m =
     (let m1 = m\<lparr>rm_attempts := wrap64 (rm_attempts m + 1), rm_last := now, rm_duration := wrap64 (rm_duration m + d)\<rparr>
      in if success then m1\<lparr>rm_successes := wrap64 (rm_successes m + 1)\<rparr>
         else m1\<lparr>rm_failures := wrap64 (rm_failures m + 1)\<rparr>)"

subsection \<open>The circuit breaker\<close>

datatype http_circuit = HttpClosed | HttpOpen | HttpHalfOpen

record http_breaker =
  hb_state :: http_circuit
  hb_failures :: int
  hb_last_failure :: instant
  hb_last_success :: instant
  hb_threshold :: int
  hb_recovery :: duration
  hb_max_calls :: int
  hb_calls :: int

definition NewCircuitBreaker :: "instant \<Rightarrow> http_breaker" where
  "NewCircuitBreaker zero = \<lparr>hb_state = HttpClosed, hb_failures = 0, hb_last_failure = zero, hb_last_success = zero,
     hb_threshold = 5, hb_recovery = 60 * second, hb_max_calls = 3, hb_calls = 0\<rparr>"

definition breaker_success :: "instant \<Rightarrow> http_breaker \<Rightarrow> http_breaker" where
  "breaker_success now b = b\<lparr>hb_last_success := now, hb_failures := 0\<rparr>"

definition breaker_failure :: "instant \<Rightarrow> http_breaker \<Rightarrow> http_breaker" where
  "breaker_failure now b = b\<lparr>hb_failures := wrap64 (hb_failures b + 1), hb_last_failure := now\<rparr>"

type_synonym 's operation = "'s \<Rightarrow> goerr option \<times> 's"

definition callClosed :: "(nat \<Rightarrow> instant) \<Rightarrow> 's operation \<Rightarrow> http_breaker \<times> 's \<Rightarrow> goerr option \<times> (http_breaker \<times> 's)" where
  "callClosed now fn = (\<lambda>(b, s).
     case fn s of
       (Some e, s') \<Rightarrow>
         (let b1 = breaker_failure (now 0) b in
          (Some e, (if hb_threshold b1 \<le> hb_failures b1 then b1\<lparr>hb_state := HttpOpen, hb_last_failure := now 1\<rparr> else b1), s'))
     | (None, s') \<Rightarrow> (None, breaker_success (now 0) b, s'))"

definition callHalfOpen :: "(nat \<Rightarrow> instant) \<Rightarrow> 's operation \<Rightarrow> http_breaker \<times> 's \<Rightarrow> goerr option \<times> (http_breaker \<times> 's)" where
  "callHalfOpen now fn = (\<lambda>(b, s).
     if hb_max_calls b \<le> hb_calls b then (Some (ErrText ''circuit breaker half-open limit exceeded''), b, s)
     else
       (let b1 = b\<lparr>hb_calls := hb_calls b + 1\<rparr> in
        case fn s of
          (Some e, s') \<Rightarrow> (Some e, (breaker_failure (now 0) b1)\<lparr>hb_state := HttpOpen, hb_last_failure := now 1\<rparr>, s')
        | (None, s') \<Rightarrow>
            (let b2 = breaker_success (now 0) b1 in
             (None, (if hb_max_calls b2 \<le> hb_calls b2 then b2\<lparr>hb_state := HttpClosed, hb_failures := 0\<rparr> else b2), s'))))"

definition callOpen :: "(nat \<Rightarrow> instant) \<Rightarrow> 's operation \<Rightarrow> http_breaker \<times> 's \<Rightarrow> goerr option \<times> (http_breaker \<times> 's)" where
  "callOpen now fn = (\<lambda>(b, s).
     if hb_recovery b < time_sub (now 0) (hb_last_failure b)
     then callHalfOpen (\<lambda>k. now (Suc k)) fn (b\<lparr>hb_state := HttpHalfOpen, hb_calls := 0\<rparr>, s)
     else (Some (ErrText ''circuit breaker is open''), b, s))"

definition breaker_Call :: "(nat \<Rightarrow> instant) \<Rightarrow> 's operation \<Rightarrow> http_breaker \<times> 's \<Rightarrow> goerr option \<times> (http_breaker \<times> 's)" where
  "breaker_Call now fn bs =
     (case hb_state (fst bs) of
        HttpClosed \<Rightarrow> callClosed now fn bs
      | HttpOpen \<Rightarrow> callOpen now fn bs
      | HttpHalfOpen \<Rightarrow> callHalfOpen now fn bs)"

lemmas call_defs = callClosed_def callHalfOpen_def callOpen_def breaker_Call_def breaker_success_def breaker_failure_def

subsection \<open>Errors\<close>

datatype error_type = ErrorTypeRetryable | ErrorTypeNonRetryable | ErrorTypeBackoff | ErrorTypeCircuitBreaker

definition classifyError :: "goerr option \<Rightarrow> error_type" where
  "classifyError err =
     (case err of
        None \<Rightarrow> ErrorTypeRetryable
      | Some e \<Rightarrow>
          if list_ex (str_contains (Error e)) [''connection refused'', ''connection reset'', ''no route to host'',
               ''network is unreachable'', ''timeout'', ''EOF''] then ErrorTypeRetryable
          else if str_contains (Error e) ''HTTP error 4'' then ErrorTypeNonRetryable
          else if str_contains (Error e) ''HTTP error 5'' then ErrorTypeBackoff
          else if str_contains (Error e) ''circuit breaker'' then ErrorTypeCircuitBreaker
          else ErrorTypeRetryable)"

subsection \<open>Backoff\<close>

text \<open>The conversion of a float to an integer is modelled where the value fits.\<close>

definition calculateBackoffWithJitter :: "reconnect_config \<Rightarrow> nat \<Rightarrow> event_source option \<Rightarrow> rat option \<Rightarrow> duration" where
  "calculateBackoffWithJitter cfg attempt es rnd =
     (let jitter = (\<lambda>range. case rnd of None \<Rightarrow> 0 | Some r \<Rightarrow> trunc (f64 (r * range)));
          retry = (case es of None \<Rightarrow> 0 | Some s \<Rightarrow> es_retry s)
      in if 0 < retry then
           retry + (if 0 < rc_jitter cfg
                    then jitter (f64 (f64 (f64 (of_int retry) * f64 (rc_jitter cfg / 2)) / 100)) else 0)
         else
           (let b0 = trunc (f64 (f64 (of_int (rc_initial cfg)) * go_pow (rc_multiplier cfg) attempt));
                b = (if rc_max cfg < b0 then rc_max cfg else b0)
            in b + (if 0 < rc_jitter cfg
                    then jitter (f64 (f64 (f64 (of_int b) * rc_jitter cfg) / 100)) else 0)))"

end
