(* ===== verification/Conversion.thy ===== *)
theory Conversion
  imports ErrorCodes
begin

section \<open>Errors to and from JSON-RPC (\<open>conversion.go\<close>)\<close>

text \<open>
  Conversions between errors and JSON-RPC error objects, the classification of standard errors,
  the combination of several errors, and \<open>IsRetryableError\<close>. The lemmas show that the errors of
  the constructors survive the conversion, and what the wire does to the retry flag of their data.
\<close>

definition ToJSONRPCResponse :: "goerr option \<Rightarrow> gval \<Rightarrow> string + response" where
  "ToJSONRPCResponse err rid =
     (case err of
        None \<Rightarrow> Inl ''cannot create error response from nil error''
      | Some e \<Rightarrow>
          (case AsMCPError err of
             Some m \<Rightarrow> Inr (NewErrorResponse rid (mcp_code m) (mcp_message m) (mcp_data m))
           | None \<Rightarrow> Inr (NewErrorResponse rid CodeInternalError (Error e) GNil)))"

definition ToProtocolError :: "mcp_error option \<Rightarrow> rpc_error option" where
  "ToProtocolError err = map_option (\<lambda>m.
     \<lparr>err_code = mcp_code m, err_message = mcp_message m, err_data = mcp_data m\<rparr>) err"

definition ToJSONRPCError :: "goerr option \<Rightarrow> rpc_error option" where
  "ToJSONRPCError err =
     (case err of
        None \<Rightarrow> None
      | Some e \<Rightarrow>
          (case AsMCPError err of
             Some m \<Rightarrow> Some \<lparr>err_code = mcp_code m, err_message = mcp_message m, err_data = mcp_data m\<rparr>
           | None \<Rightarrow> Some \<lparr>err_code = CodeInternalError, err_message = Error e, err_data = GNil\<rparr>))"

definition FromJSONRPCError :: "rpc_error option \<Rightarrow> mcp_error option" where
  "FromJSONRPCError err = map_option (\<lambda>e.
     let m = NewError (err_code e) (err_message e) (GetErrorCodeCategory (err_code e))
               (GetErrorCodeSeverity (err_code e))
     in if err_data e \<noteq> GNil then WithData (err_data e) m else m) err"

definition request_context :: "string \<Rightarrow> gval \<Rightarrow> err_context" where
  "request_context method rid = empty_context\<lparr>ctx_method := method, ctx_request_id := go_str rid\<rparr>"

definition WrapProtocolError :: "goerr option \<Rightarrow> string \<Rightarrow> gval \<Rightarrow> mcp_error option" where
  "WrapProtocolError err method rid =
     (case err of
        None \<Rightarrow> None
      | Some e \<Rightarrow> Some (WithContext (Some (request_context method rid))
          (case AsMCPError err of
             Some m \<Rightarrow> m
           | None \<Rightarrow> WrapError err CodeInternalError (''Error processing '' @ method)
                       CategoryInternal SeverityError)))"

definition ConvertStandardError :: "goerr option \<Rightarrow> mcp_error option" where
  "ConvertStandardError err =
     (case err of
        None \<Rightarrow> None
      | Some e \<Rightarrow> Some
          (case AsMCPError err of
             Some m \<Rightarrow> m
           | None \<Rightarrow>
               if Error e = ''context canceled'' then OperationCancelled ''request''
               else if Error e = ''context deadline exceeded'' then OperationTimeout ''request'' ''unknown''
               else (case e of
                       ErrJSONSyntax _ \<Rightarrow> NewError CodeParseError ''Invalid JSON'' CategoryProtocol SeverityError
                     | ErrJSONType _ \<Rightarrow>
                         NewError CodeInvalidParams ''Invalid parameter type'' CategoryValidation SeverityError
                     | _ \<Rightarrow> WrapError err CodeInternalError ''Internal error'' CategoryInternal SeverityError)))"

definition error_entry :: "goerr \<Rightarrow> gval" where
  "error_entry e = (case e of ErrMCP m \<Rightarrow> mcp_ToJSON m
     | _ \<Rightarrow> GMap [(''message'', GStr (Error e)), (''type'', GStr (err_type e))])"

definition CombineErrors :: "goerr option list \<Rightarrow> mcp_error option" where
  "CombineErrors errs =
     (let valid = concat (map (\<lambda>e. case e of None \<Rightarrow> [] | Some x \<Rightarrow> [x]) errs) in
      case valid of
        [] \<Rightarrow> None
      | [e] \<Rightarrow> ConvertStandardError (Some e)
      | _ \<Rightarrow> Some (WithData (GMap [(''errors'', GList (map error_entry valid)),
                                   (''count'', GInt (int (length valid)))])
               (NewError CodeInternalError (''Multiple errors occurred: '' @ go_list (map Error valid))
                  CategoryInternal SeverityError)))"

definition CreateMethodNotFoundError :: "string \<Rightarrow> gval \<Rightarrow> mcp_error" where
  "CreateMethodNotFoundError method rid = WithContext (Some (request_context method rid))
     (NewError CodeMethodNotFound (''Method not found: '' @ method) CategoryProtocol SeverityError)"

definition with_details :: "string \<Rightarrow> string \<Rightarrow> string" where
  "with_details m d = (if d \<noteq> [] then m @ '': '' @ d else m)"

definition CreateInvalidParamsError :: "string \<Rightarrow> gval \<Rightarrow> string \<Rightarrow> mcp_error" where
  "CreateInvalidParamsError method rid details = WithDetail details
     (WithContext (Some (request_context method rid))
       (NewError CodeInvalidParams (with_details ''Invalid method parameters'' details)
          CategoryValidation SeverityError))"

definition CreateParseError :: "string \<Rightarrow> mcp_error" where
  "CreateParseError details = WithDetail details
     (NewError CodeParseError (with_details ''Parse error'' details) CategoryProtocol SeverityError)"

definition CreateInvalidRequestError :: "string \<Rightarrow> mcp_error" where
  "CreateInvalidRequestError details = WithDetail details
     (NewError CodeInvalidRequest (with_details ''Invalid Request'' details) CategoryProtocol SeverityError)"

definition CreateInternalError :: "string \<Rightarrow> goerr option \<Rightarrow> mcp_error" where
  "CreateInternalError operation cause =
     (let e = WrapError cause CodeInternalError
                (if operation \<noteq> [] then ''Internal error during '' @ operation else ''Internal error'')
                CategoryInternal SeverityError
      in if operation \<noteq> [] then WithContext (Some (empty_context\<lparr>ctx_operation := operation\<rparr>)) e else e)"

definition data_retryable :: "gval \<Rightarrow> bool option" where
  "data_retryable d = (case d of
     GMap kvs \<Rightarrow> (case map_of kvs ''retryable'' of Some (GBool b) \<Rightarrow> Some b | _ \<Rightarrow> None) | _ \<Rightarrow> None)"

definition retryable_text :: "string \<Rightarrow> bool" where
  "retryable_text s \<longleftrightarrow> s = ''context deadline exceeded'' \<or> s = ''connection refused''
     \<or> s = ''connection reset by peer''"

definition IsRetryableError :: "goerr option \<Rightarrow> (goerr, bool) outcome" where
  "IsRetryableError err =
     (case err of
        None \<Rightarrow> Panic ''nil pointer dereference''
      | Some e \<Rightarrow> Ok
          (case AsMCPError err of
             None \<Rightarrow> retryable_text (Error e)
           | Some m \<Rightarrow>
               (case data_retryable (mcp_data m) of
                  Some b \<Rightarrow> b
                | None \<Rightarrow>
                    if mcp_category m = CategoryTimeout \<or> mcp_category m = CategoryTransport then True
                    else if mcp_category m = CategoryCancelled then False
                    else if mcp_code m \<in> {CodeConnectionFailed, CodeConnectionLost, CodeConnectionTimeout,
                        CodeOperationTimeout, CodeResourceUnavailable, CodeProviderUnavailable} then True
                    else if mcp_code m \<in> {CodeResourceNotFound, CodeMethodNotFound, CodeInvalidParams,
                        CodeUnauthorized, CodeInvalidCapability} then False
                    else retryable_text (Error e))))"

subsection \<open>The registry\<close>

lemma registry_keys:
  "map fst errorCodeRegistry = map (info_code \<circ> snd) errorCodeRegistry"
  by (simp add: errorCodeRegistry_def info_def)

lemma registry_distinct: "distinct (map fst errorCodeRegistry)"
  by (simp add: errorCodeRegistry_def info_def)

lemma registry_lookup:
  assumes "(c, i) \<in> set errorCodeRegistry"
  shows "GetErrorCodeInfo c = Some i"
  using assms registry_distinct by (simp add: GetErrorCodeInfo_def map_of_is_SomeI)

text \<open>
  The registry is a map: no code is registered twice, every entry carries the code it is
  registered under, and looking a registered entry up by its code gives that entry back.
\<close>

theorem registry_consistent:
  "distinct (map fst errorCodeRegistry) \<and>
   list_all (\<lambda>(c, i). info_code i = c \<and> GetErrorCodeInfo c = Some i
     \<and> GetErrorCodeName c = info_name i) errorCodeRegistry"
proof -
  have "info_code i = c" if "(c, i) \<in> set errorCodeRegistry" for c i
    using that registry_keys by (auto simp: map_eq_conv)
  then show ?thesis
    using registry_distinct registry_lookup by (auto simp: list_all_iff GetErrorCodeName_def)
qed

subsection \<open>Errors of the constructors\<close>

text \<open>The errors the constructors make, with contexts and details added to them. The one
  constructor left out, \<open>TransportAlreadyRunning\<close>, gives a severity that the registry does not.\<close>

inductive made :: "mcp_error \<Rightarrow> bool" where
  "made (ResourceNotFound t i)"
| "made (ResourceNotFoundByURI u)"
| "made (ResourceUnavailable t i r)"
| "made (ResourceConflict t i r)"
| "made (ResourceLocked t i)"
| "made (ProviderNotConfigured t)"
| "made (ProviderUnavailable t r)"
| "ProviderError t op c = Ok e \<Longrightarrow> made e"
| "made (InvalidCapability c r)"
| "made (CapabilityRequired c)"
| "made (CapabilityMismatch c x y)"
| "made (OperationCancelled op)"
| "made (OperationTimeout op t)"
| "made (OperationFailed op r)"
| "made (OperationNotSupported op w)"
| "made (Unauthorized r)"
| "made (AuthRequired t)"
| "made (InvalidToken t r)"
| "made (TokenExpired t)"
| "made (InsufficientPermissions ps r)"
| "made (ServerInitError r c)"
| "made (ServerNotReady r)"
| "made (ProtocolError r)"
| "made (VersionMismatch x y)"
| "made (InvalidSequence x y)"
| "made (UnsupportedFeature f)"
| "made (ValidationError m)"
| "made (InvalidParameter p v x)"
| "made (MissingParameter p)"
| "made (InvalidParameterType p v x)"
| "made (ParameterTooLarge p v b)"
| "made (ParameterTooSmall p v b)"
| "made (InvalidFormat p v x)"
| "made (InvalidPagination r)"
| "made (InvalidPaginationCursor c r)"
| "made (InvalidPaginationLimit l m)"
| "made (InvalidFieldValue f v k)"
| "made (RequiredFieldMissing f)"
| "made (InvalidEnum f v vs)"
| "made (StringTooLong f s n)"
| "made (StringTooShort f s n)"
| "made (InvalidRegex f s p)"
| "TransportError t op c = Ok e \<Longrightarrow> made e"
| "ConnectionLost t ep c = Ok e \<Longrightarrow> made e"
| "made (ConnectionTimeout t ep d)"
| "HTTPTransportError op ep st c = Ok e \<Longrightarrow> made e"
| "StdioTransportError op c = Ok e \<Longrightarrow> made e"
| "StreamableHTTPError op ep sid c = Ok e \<Longrightarrow> made e"
| "made (EventSourceError ep r c)"
| "MessageSendError t m c = Ok e \<Longrightarrow> made e"
| "MessageReceiveError t m c = Ok e \<Longrightarrow> made e"
| "made (TransportNotInitialized t)"
| "made (TransportNotRunning t)"
| "made (InvalidTransportConfiguration t p r)"
| "made (MessageTooLarge t n m)"
| "made (ResponseTimeout t i d)"
| "made (CreateMethodNotFoundError m i)"
| "made (CreateInvalidParamsError m i d)"
| "made (CreateParseError d)"
| "made (CreateInvalidRequestError d)"
| "made (CreateInternalError op c)"
| "made e \<Longrightarrow> made (WithContext ctx e)"
| "made e \<Longrightarrow> made (WithDetail d e)"

text \<open>An error whose category and severity are those of its code in the registry.\<close>

definition canonical :: "mcp_error \<Rightarrow> bool" where
  "canonical e \<longleftrightarrow> GetErrorCodeCategory (mcp_code e) = mcp_category e
     \<and> GetErrorCodeSeverity (mcp_code e) = mcp_severity e"

lemma registry_eval [simp]:
  "(c, i) \<in> set errorCodeRegistry \<Longrightarrow> GetErrorCodeCategory c = info_category i"
  "(c, i) \<in> set errorCodeRegistry \<Longrightarrow> GetErrorCodeSeverity c = info_severity i"
  by (simp_all add: GetErrorCodeCategory_def GetErrorCodeSeverity_def registry_lookup)

lemmas mcp_constructors = ResourceNotFound_def ResourceNotFoundByURI_def ResourceUnavailable_def
  ResourceConflict_def ResourceLocked_def ProviderNotConfigured_def ProviderUnavailable_def
  ProviderError_def InvalidCapability_def CapabilityRequired_def CapabilityMismatch_def
  OperationCancelled_def OperationTimeout_def OperationFailed_def OperationNotSupported_def
  Unauthorized_def AuthRequired_def InvalidToken_def TokenExpired_def InsufficientPermissions_def
  ServerInitError_def ServerNotReady_def ProtocolError_def VersionMismatch_def InvalidSequence_def
  UnsupportedFeature_def

lemmas validation_constructors = ValidationError_def InvalidParameter_def MissingParameter_def
  InvalidParameterType_def ParameterTooLarge_def ParameterTooSmall_def InvalidFormat_def
  InvalidPagination_def InvalidPaginationCursor_def InvalidPaginationLimit_def InvalidFieldValue_def
  RequiredFieldMissing_def InvalidEnum_def StringTooLong_def StringTooShort_def InvalidRegex_def

lemmas transport_constructors = TransportError_def ConnectionLost_def ConnectionTimeout_def
  HTTPTransportError_def StdioTransportError_def StreamableHTTPError_def EventSourceError_def
  MessageSendError_def MessageReceiveError_def TransportNotInitialized_def TransportNotRunning_def
  InvalidTransportConfiguration_def MessageTooLarge_def ResponseTimeout_def

lemmas created_constructors = CreateMethodNotFoundError_def CreateInvalidParamsError_def
  CreateParseError_def CreateInvalidRequestError_def CreateInternalError_def

lemma cause_text_Ok: "cause_text c f = Ok e \<longleftrightarrow> (\<exists>x. c = Some x \<and> e = f (Error x))"
  by (auto simp: cause_text_def split: option.splits)

definition registered :: "int \<Rightarrow> category \<Rightarrow> severity \<Rightarrow> bool" where
  "registered c cat sev \<longleftrightarrow> GetErrorCodeCategory c = cat \<and> GetErrorCodeSeverity c = sev"

lemma canonical_MCPError [simp]:
  "canonical (MCPError c m d v cat sev ctx k) \<longleftrightarrow> registered c cat sev"
  by (simp add: canonical_def registered_def)

lemma registered_codes [simp]:
  "list_all (\<lambda>(c, i). registered c (info_category i) (info_severity i)) errorCodeRegistry"
  by (auto simp: list_all_iff registered_def)

lemmas registered_facts [simp] =
  registered_codes [unfolded errorCodeRegistry_def info_def, simplified]

lemma made_canonical: "made e \<Longrightarrow> canonical e"
  by (induction rule: made.induct)
    (auto simp: mcp_constructors validation_constructors transport_constructors created_constructors
       cause_text_Ok Let_def canonical_def registered_def [symmetric])



subsection \<open>The retry flag\<close>

text \<open>What the peer has after the error object crossed the wire as JSON.\<close>

definition over_wire :: "mcp_error \<Rightarrow> mcp_error option" where
  "over_wire e = FromJSONRPCError
     (case ToProtocolError (Some e) of None \<Rightarrow> None | Some r \<Rightarrow> dec_rpc_error (enc_rpc_error r))"

lemma put_assoc_new: "k \<notin> set (map fst kvs) \<Longrightarrow> put_assoc k v kvs = kvs @ [(k, v)]"
  by (auto simp: put_assoc_def)

lemma fold_put_assoc:
  "distinct (map fst (us @ kvs)) \<Longrightarrow> fold (\<lambda>(k, v). put_assoc k v) kvs us = us @ kvs"
proof (induction kvs arbitrary: us)
  case (Cons kv kvs)
  obtain k v where kv: "kv = (k, v)" by (cases kv)
  with Cons.prems have "put_assoc k v us = us @ [(k, v)]" by (intro put_assoc_new) auto
  with Cons kv show ?case by simp
qed simp

lemma decode_marshal_struct:
  assumes "distinct (map fst kvs)" and "\<And>k v. (k, v) \<in> set kvs \<Longrightarrow> decode_any (marshal v) = Some (d v)"
  shows "decode_any (marshal (GStruct n kvs)) = Some (GMap (map (\<lambda>(k, v). (k, d v)) kvs))"
proof -
  have "map (decode_any \<circ> (marshal \<circ> snd)) kvs = map (Some \<circ> (d \<circ> snd)) kvs"
    using assms(2) by auto
  then have "all_some (map (\<lambda>x. decode_any (marshal (snd x))) kvs) = Some (map (\<lambda>x. d (snd x)) kvs)"
    by (simp add: all_some_Some_iff comp_def)
  moreover have "zip (map fst kvs) (map (\<lambda>x. d (snd x)) kvs) = map (\<lambda>x. (fst x, d (snd x))) kvs"
    by (induction kvs) auto
  moreover have "fold (\<lambda>(k, v). put_assoc k v) (map (\<lambda>x. (fst x, d (snd x))) kvs) []
      = map (\<lambda>x. (fst x, d (snd x))) kvs"
    using assms(1) fold_put_assoc [of "[]" "map (\<lambda>x. (fst x, d (snd x))) kvs"]
    by (simp add: comp_def)
  ultimately show ?thesis by (simp add: split_def comp_def)
qed

definition plain :: "gval \<Rightarrow> gval" where
  "plain v = (case v of GInt i \<Rightarrow> GFloat (of_int i) | v \<Rightarrow> v)"

definition small_value :: "gval \<Rightarrow> bool" where
  "small_value v = (case v of GBool b \<Rightarrow> True | GStr s \<Rightarrow> True | GInt i \<Rightarrow> \<bar>i\<bar> < 2 ^ 53 | _ \<Rightarrow> False)"

lemma decode_marshal_small: "small_value v \<Longrightarrow> decode_any (marshal v) = Some (plain v)"
  by (cases v) (auto simp: small_value_def plain_def)

text \<open>An error whose data is a struct of scalars with a retry flag.\<close>

definition carries_flag :: "mcp_error \<Rightarrow> bool \<Rightarrow> bool" where
  "carries_flag e b \<longleftrightarrow> in_int64 (mcp_code e) \<and> (\<exists>n kvs. mcp_data e = GStruct n kvs
     \<and> distinct (map fst kvs) \<and> map_of kvs ''retryable'' = Some (GBool b)
     \<and> list_all (\<lambda>(k, v). small_value v) kvs)"

lemma map_of_map_values: "map_of (map (\<lambda>(k, v). (k, f v)) kvs) k = map_option f (map_of kvs k)"
  by (induction kvs) auto

lemma carries_flag_over_wire:
  assumes "carries_flag e b"
  shows "\<exists>m. over_wire e = Some m \<and> mcp_code m = mcp_code e \<and> mcp_message m = mcp_message e
    \<and> IsRetryableError (Some (ErrMCP m)) = Ok b"
proof -
  from assms obtain n kvs where d: "mcp_data e = GStruct n kvs" and dis: "distinct (map fst kvs)"
    and flag: "map_of kvs ''retryable'' = Some (GBool b)"
    and small: "list_all (\<lambda>(k, v). small_value v) kvs" and c: "in_int64 (mcp_code e)"
    by (auto simp: carries_flag_def)
  have dec: "decode_any (marshal (GStruct n kvs)) = Some (GMap (map (\<lambda>(k, v). (k, plain v)) kvs))"
    using small by (intro decode_marshal_struct [OF dis]) (auto simp: decode_marshal_small list_all_iff)
  have "dec_rpc_error (enc_rpc_error \<lparr>err_code = mcp_code e, err_message = mcp_message e, err_data = GStruct n kvs\<rparr>)
      = Some \<lparr>err_code = mcp_code e, err_message = mcp_message e,
              err_data = GMap (map (\<lambda>(k, v). (k, plain v)) kvs)\<rparr>"
    using dec c by (simp add: dec_rpc_error_def enc_rpc_error_def decode_struct_def rpc_error_fields_def
        omit_any_def find_field_def str_field_def any_field_def del: decode_any.simps marshal.simps)
  then have "over_wire e = Some (WithData (GMap (map (\<lambda>(k, v). (k, plain v)) kvs))
      (NewError (mcp_code e) (mcp_message e) (GetErrorCodeCategory (mcp_code e)) (GetErrorCodeSeverity (mcp_code e))))"
    by (simp add: over_wire_def ToProtocolError_def FromJSONRPCError_def d)
  then show ?thesis
    using flag by (simp add: IsRetryableError_def AsMCPError_def data_retryable_def map_of_map_values plain_def)
qed

lemma data_flag_fields:
  "carries_flag (OperationCancelled op) True"
  "StdioTransportError op (Some c) = Ok e \<Longrightarrow> carries_flag e False"
  by (auto simp: carries_flag_def OperationCancelled_def OperationErrorData_def StdioTransportError_def
      TransportErrorData_def cause_text_Ok flag_def gomit_def gomit_int_def small_value_def in_int64_def)

text \<open>
  Where the retry flag is read: \<open>IsRetryableError\<close> looks for the flag in map data only, so for
  the struct data of the constructors it decides by category, against the flag they set (a
  cancelled operation marked retryable is not retried, a stdio error marked not retryable is); the
  peer that received the same error over the wire, where the data is a map, follows the flag.
\<close>

theorem retry_flag_differs_over_wire:
  "IsRetryableError (Some (ErrMCP (OperationCancelled op))) = Ok False \<and>
   map_option (\<lambda>m. IsRetryableError (Some (ErrMCP m))) (over_wire (OperationCancelled op)) = Some (Ok True) \<and>
   (\<exists>e. StdioTransportError op (Some c) = Ok e \<and>
      IsRetryableError (Some (ErrMCP e)) = Ok True \<and>
      map_option (\<lambda>m. IsRetryableError (Some (ErrMCP m))) (over_wire e) = Some (Ok False))"
proof -
  obtain e where e: "StdioTransportError op (Some c) = Ok e"
    by (simp add: StdioTransportError_def cause_text_def)
  have "IsRetryableError (Some (ErrMCP (OperationCancelled op))) = Ok False"
    by (simp add: IsRetryableError_def AsMCPError_def data_retryable_def OperationCancelled_def
        OperationErrorData_def)
  moreover have "IsRetryableError (Some (ErrMCP e)) = Ok True"
    using e by (auto simp: IsRetryableError_def AsMCPError_def data_retryable_def StdioTransportError_def
        TransportErrorData_def cause_text_Ok)
  ultimately show ?thesis
    using e carries_flag_over_wire data_flag_fields by fastforce
qed

text \<open>
  Errors of the constructors that read their cause: called with a nil cause they panic, although
  each guards the message against a nil cause; called with a cause they return an error whose
  cause is the one given.
\<close>

theorem nil_cause_panics:
  "is_panic (ProviderError t op None) \<and> is_panic (TransportError t op None) \<and>
   is_panic (ConnectionLost t op None) \<and> is_panic (HTTPTransportError op t st None) \<and>
   is_panic (StdioTransportError op None) \<and> is_panic (StreamableHTTPError op t sid None) \<and>
   is_panic (MessageSendError t op None) \<and> is_panic (MessageReceiveError t op None) \<and>
   list_all (\<lambda>f. \<exists>e. f (Some c) = Ok e \<and> Unwrap e = Some c)
     [ProviderError t op, TransportError t op, ConnectionLost t op, HTTPTransportError op t st,
      StdioTransportError op, StreamableHTTPError op t sid, MessageSendError t op,
      MessageReceiveError t op]"
  by (auto simp: mcp_constructors transport_constructors cause_text_def Unwrap_def)

end
