(* ===== verification/Calls.thy ===== *)
theory Calls
  imports Messages
begin

section \<open>Requests on the wire\<close>

text \<open>
  The requests a client can make, with the method each is sent under. What the client marshals the
  server's handler unmarshals: the lemmas here show that the handler gets the client's parameters
  back. The methods are those of \<open>mcp.go\<close>.
\<close>

definition MethodInitialize :: string where "MethodInitialize = ''initialize''"
definition MethodInitialized :: string where "MethodInitialized = ''initialized''"
definition MethodSetCapability :: string where "MethodSetCapability = ''setCapability''"
definition MethodListTools :: string where "MethodListTools = ''listTools''"
definition MethodCallTool :: string where "MethodCallTool = ''callTool''"
definition MethodToolsChanged :: string where "MethodToolsChanged = ''toolsChanged''"
definition MethodListResources :: string where "MethodListResources = ''listResources''"
definition MethodReadResource :: string where "MethodReadResource = ''readResource''"
definition MethodResourcesChanged :: string where "MethodResourcesChanged = ''resourcesChanged''"
definition MethodSubscribeResource :: string where "MethodSubscribeResource = ''subscribeResource''"
definition MethodResourceUpdated :: string where "MethodResourceUpdated = ''resourceUpdated''"
definition MethodListPrompts :: string where "MethodListPrompts = ''listPrompts''"
definition MethodGetPrompt :: string where "MethodGetPrompt = ''getPrompt''"
definition MethodPromptsChanged :: string where "MethodPromptsChanged = ''promptsChanged''"
definition MethodComplete :: string where "MethodComplete = ''complete''"
definition MethodListRoots :: string where "MethodListRoots = ''listRoots''"
definition MethodRootsChanged :: string where "MethodRootsChanged = ''rootsChanged''"
definition MethodSample :: string where "MethodSample = ''sample''"
definition MethodCancel :: string where "MethodCancel = ''cancel''"
definition MethodPing :: string where "MethodPing = ''ping''"
definition MethodProgress :: string where "MethodProgress = ''progress''"
definition MethodSetLogLevel :: string where "MethodSetLogLevel = ''setLogLevel''"
definition MethodLog :: string where "MethodLog = ''log''"

lemmas method_defs = MethodInitialize_def MethodInitialized_def MethodSetCapability_def
  MethodListTools_def MethodCallTool_def MethodToolsChanged_def MethodListResources_def
  MethodReadResource_def MethodResourcesChanged_def MethodSubscribeResource_def
  MethodResourceUpdated_def MethodListPrompts_def MethodGetPrompt_def MethodPromptsChanged_def
  MethodComplete_def MethodListRoots_def MethodRootsChanged_def MethodSample_def MethodCancel_def
  MethodPing_def MethodProgress_def MethodSetLogLevel_def MethodLog_def

definition CapabilityTools :: string where "CapabilityTools = ''tools''"
definition CapabilityResources :: string where "CapabilityResources = ''resources''"
definition CapabilityResourceSubscriptions :: string where "CapabilityResourceSubscriptions = ''resourceSubscriptions''"
definition CapabilityPrompts :: string where "CapabilityPrompts = ''prompts''"
definition CapabilityComplete :: string where "CapabilityComplete = ''complete''"
definition CapabilityRoots :: string where "CapabilityRoots = ''roots''"
definition CapabilitySampling :: string where "CapabilitySampling = ''sampling''"
definition CapabilityLogging :: string where "CapabilityLogging = ''logging''"
definition ProtocolRevision :: string where "ProtocolRevision = ''2025-03-26''"

lemmas capability_defs = CapabilityTools_def CapabilityResources_def CapabilityResourceSubscriptions_def
  CapabilityPrompts_def CapabilityComplete_def CapabilityRoots_def CapabilitySampling_def CapabilityLogging_def

datatype call =
    CInitialize initialize_params
  | CSetCapability set_capability_params
  | CCancel cancel_params
  | CPing ping_params
  | CSetLogLevel set_log_level_params
  | CListTools list_tools_params
  | CCallTool call_tool_params
  | CListResources list_resources_params
  | CReadResource read_resource_params
  | CSubscribeResource subscribe_resource_params
  | CListPrompts list_prompts_params
  | CGetPrompt get_prompt_params
  | CListRoots list_roots_params

fun method_of :: "call \<Rightarrow> string" where
  "method_of (CInitialize p) = MethodInitialize"
| "method_of (CSetCapability p) = MethodSetCapability"
| "method_of (CCancel p) = MethodCancel"
| "method_of (CPing p) = MethodPing"
| "method_of (CSetLogLevel p) = MethodSetLogLevel"
| "method_of (CListTools p) = MethodListTools"
| "method_of (CCallTool p) = MethodCallTool"
| "method_of (CListResources p) = MethodListResources"
| "method_of (CReadResource p) = MethodReadResource"
| "method_of (CSubscribeResource p) = MethodSubscribeResource"
| "method_of (CListPrompts p) = MethodListPrompts"
| "method_of (CGetPrompt p) = MethodGetPrompt"
| "method_of (CListRoots p) = MethodListRoots"

fun params_of :: "call \<Rightarrow> json" where
  "params_of (CInitialize p) = enc_initialize_params p"
| "params_of (CSetCapability p) = enc_set_capability_params p"
| "params_of (CCancel p) = enc_cancel_params p"
| "params_of (CPing p) = enc_ping_params p"
| "params_of (CSetLogLevel p) = enc_set_log_level_params p"
| "params_of (CListTools p) = enc_list_tools_params p"
| "params_of (CCallTool p) = enc_call_tool_params p"
| "params_of (CListResources p) = enc_list_resources_params p"
| "params_of (CReadResource p) = enc_read_resource_params p"
| "params_of (CSubscribeResource p) = enc_subscribe_resource_params p"
| "params_of (CListPrompts p) = enc_list_prompts_params p"
| "params_of (CGetPrompt p) = enc_get_prompt_params p"
| "params_of (CListRoots p) = enc_list_roots_params p"

text \<open>The handler registered under a method decodes the parameters into its own type.\<close>

definition decoders :: "(string \<times> (json \<Rightarrow> call option)) list" where
  "decoders =
     [(MethodInitialize, \<lambda>v. map_option CInitialize (dec_initialize_params v)),
      (MethodSetCapability, \<lambda>v. map_option CSetCapability (dec_set_capability_params v)),
      (MethodCancel, \<lambda>v. map_option CCancel (dec_cancel_params v)),
      (MethodPing, \<lambda>v. map_option CPing (dec_ping_params v)),
      (MethodSetLogLevel, \<lambda>v. map_option CSetLogLevel (dec_set_log_level_params v)),
      (MethodListTools, \<lambda>v. map_option CListTools (dec_list_tools_params v)),
      (MethodCallTool, \<lambda>v. map_option CCallTool (dec_call_tool_params v)),
      (MethodListResources, \<lambda>v. map_option CListResources (dec_list_resources_params v)),
      (MethodReadResource, \<lambda>v. map_option CReadResource (dec_read_resource_params v)),
      (MethodSubscribeResource, \<lambda>v. map_option CSubscribeResource (dec_subscribe_resource_params v)),
      (MethodListPrompts, \<lambda>v. map_option CListPrompts (dec_list_prompts_params v)),
      (MethodGetPrompt, \<lambda>v. map_option CGetPrompt (dec_get_prompt_params v)),
      (MethodListRoots, \<lambda>v. map_option CListRoots (dec_list_roots_params v))]"

definition decode_call :: "string \<Rightarrow> json \<Rightarrow> call option" where
  "decode_call m v = (case map_of decoders m of Some d \<Rightarrow> d v | None \<Rightarrow> None)"

subsection \<open>Parameters that survive the wire\<close>

text \<open>Values that decode to themselves, and maps in the order they are written.\<close>

definition wire_stable :: "gval \<Rightarrow> bool" where
  "wire_stable v \<longleftrightarrow> decode_any (marshal v) = Some v"

definition wire_map :: "(string \<times> 'a) list \<Rightarrow> bool" where
  "wire_map m \<longleftrightarrow> sorted (map fst m) \<and> distinct (map fst m)"

definition good_page :: "pagination_params \<Rightarrow> bool" where
  "good_page p \<longleftrightarrow> in_int64 (pg_limit p)"

fun good_call :: "call \<Rightarrow> bool" where
  "good_call (CInitialize p) \<longleftrightarrow>
     (case ip_capabilities p of None \<Rightarrow> True | Some m \<Rightarrow> wire_map m) \<and>
     wire_map (ip_feature_options p) \<and> list_all (\<lambda>(k, v). wire_stable v) (ip_feature_options p)"
| "good_call (CCancel p) \<longleftrightarrow> wire_stable (cp_id p)"
| "good_call (CPing p) \<longleftrightarrow> in_int64 (pp_timestamp p)"
| "good_call (CListTools p) \<longleftrightarrow> good_page (ltp_page p)"
| "good_call (CListResources p) \<longleftrightarrow> good_page (lrp_page p)"
| "good_call (CReadResource p) \<longleftrightarrow>
     wire_map (rrp_template_params p) \<and> list_all (\<lambda>(k, v). wire_stable v) (rrp_template_params p) \<and>
     (case rrp_range p of None \<Rightarrow> True | Some r \<Rightarrow> in_int64 (rr_start r) \<and> in_int64 (rr_end r))"
| "good_call (CListPrompts p) \<longleftrightarrow> good_page (lpp_page p)"
| "good_call (CListRoots p) \<longleftrightarrow> good_page (lrtp_page p)"
| "good_call _ \<longleftrightarrow> True"

subsection \<open>Decoding what was encoded\<close>

lemma sort_wire_map: "wire_map m \<Longrightarrow> map_json enc m = JObj (map (\<lambda>(k, v). (k, enc v)) m)"
  by (auto simp: map_json_def wire_map_def sort_key_id_if_sorted comp_def split_def)

lemma fold_put_assoc_distinct:
  "distinct (map fst (us @ kvs)) \<Longrightarrow> fold (\<lambda>(k, v). put_assoc k v) kvs us = us @ kvs"
proof (induction kvs arbitrary: us)
  case (Cons kv kvs)
  obtain k v where kv: "kv = (k, v)" by (cases kv)
  with Cons.prems have "put_assoc k v us = us @ [(k, v)]" by (auto simp: put_assoc_def)
  with Cons kv show ?case by simp
qed simp

lemma map_field_enc:
  assumes "wire_map m" and "\<And>k v. (k, v) \<in> set m \<Longrightarrow> dec (enc v) = Some v"
  shows "map_field upd dec (map_json enc m) a = Some (upd (Some m) a)"
proof -
  have "map (dec \<circ> (enc \<circ> snd)) m = map (Some \<circ> snd) m" using assms(2) by auto
  then have "all_some (map (\<lambda>x. dec (enc (snd x))) m) = Some (map snd m)"
    by (simp add: all_some_Some_iff comp_def)
  moreover have "fold (\<lambda>(k, v). put_assoc k v) m [] = m"
    using assms(1) fold_put_assoc_distinct [of "[]" m] by (simp add: wire_map_def)
  ultimately show ?thesis
    by (simp add: map_field_def sort_wire_map [OF assms(1)] split_def comp_def zip_map_fst_snd)
qed

lemma map_field_bools [simp]:
  "wire_map m \<Longrightarrow> map_field upd dec_bool (map_json JBool m) a = Some (upd (Some m) a)"
  by (rule map_field_enc) (simp_all add: dec_bool_def)

lemma map_field_any [simp]:
  "wire_map m \<Longrightarrow> list_all (\<lambda>(k, v). wire_stable v) m \<Longrightarrow>
   map_field upd decode_any (map_json marshal m) a = Some (upd (Some m) a)"
  by (rule map_field_enc) (auto simp: wire_stable_def list_all_iff)

lemma map_field_null [simp]: "map_field upd dec JNull a = Some (upd None a)"
  by (simp add: map_field_def)

lemma ptr_field_enc: "enc x \<noteq> JNull \<Longrightarrow> dec (enc x) = Some x \<Longrightarrow> ptr_field upd dec (enc x) a = Some (upd (Some x) a)"
  by (simp add: ptr_field_def)

text \<open>The rewriting that runs a decoder on an encoded struct.\<close>

lemmas run_decoder = decode_struct_def find_field_def str_field_def bool_field_def any_field_def
  raw_field_def lift_fields_def omit_str_def omit_int_def omit_bool_def omit_raw_def omit_ptr_def
  omit_map_def omit_list_def enc_map_def

lemma dec_enc_client_info: "dec_client_info (enc_client_info x) = Some x"
  by (cases x) (auto simp: client_info_defs run_decoder)

lemma client_info_ptr [simp]:
  "ptr_field upd dec_client_info (enc_client_info x) a = Some (upd (Some x) a)"
  by (rule ptr_field_enc, simp add: enc_client_info_def, rule dec_enc_client_info)

lemma dec_enc_initialize:
  "good_call (CInitialize p) \<Longrightarrow> dec_initialize_params (enc_initialize_params p) = Some p"
  by (cases p) (auto simp: initialize_params_defs run_decoder split: option.splits)

lemma dec_enc_utilities:
  "dec_set_capability_params (enc_set_capability_params c) = Some c"
  "wire_stable (cp_id d) \<Longrightarrow> dec_cancel_params (enc_cancel_params d) = Some d"
  "in_int64 (pp_timestamp p) \<Longrightarrow> dec_ping_params (enc_ping_params p) = Some p"
  "dec_set_log_level_params (enc_set_log_level_params l) = Some l"
  by (cases c; cases d; cases p; cases l)
    (auto simp: set_capability_params_defs cancel_params_defs ping_params_defs
      set_log_level_params_defs run_decoder wire_stable_def)

lemmas page_defs = pagination_params_defs members_pagination_params_def good_page_def

lemma dec_enc_lists:
  "good_page (ltp_page t) \<Longrightarrow> dec_list_tools_params (enc_list_tools_params t) = Some t"
  "good_page (lpp_page p) \<Longrightarrow> dec_list_prompts_params (enc_list_prompts_params p) = Some p"
  "good_page (lrtp_page r) \<Longrightarrow> dec_list_roots_params (enc_list_roots_params r) = Some r"
  by (cases t; cases p; cases r; cases "ltp_page t"; cases "lpp_page p"; cases "lrtp_page r";
      auto simp: list_tools_params_defs list_prompts_params_defs list_roots_params_defs page_defs run_decoder)+

lemma dec_enc_list_resources:
  "good_page (lrp_page t) \<Longrightarrow> dec_list_resources_params (enc_list_resources_params t) = Some t"
  by (cases t; cases "lrp_page t") (auto simp: list_resources_params_defs page_defs run_decoder)

lemma dec_enc_call_tool: "dec_call_tool_params (enc_call_tool_params p) = Some p"
  by (cases p) (auto simp: call_tool_params_defs run_decoder split: option.splits)

lemma dec_enc_range: "in_int64 (rr_start r) \<Longrightarrow> in_int64 (rr_end r) \<Longrightarrow>
   dec_resource_range (enc_resource_range r) = Some r"
  by (cases r) (auto simp: resource_range_defs run_decoder)

lemma range_ptr [simp]:
  "in_int64 (rr_start r) \<Longrightarrow> in_int64 (rr_end r) \<Longrightarrow>
   ptr_field upd dec_resource_range (enc_resource_range r) a = Some (upd (Some r) a)"
  by (rule ptr_field_enc, simp add: enc_resource_range_def, rule dec_enc_range)

lemma dec_enc_read_resource:
  "good_call (CReadResource p) \<Longrightarrow> dec_read_resource_params (enc_read_resource_params p) = Some p"
  by (cases p) (auto simp: read_resource_params_defs run_decoder split: option.splits)

lemma dec_enc_simple:
  "dec_subscribe_resource_params (enc_subscribe_resource_params s) = Some s"
  "dec_get_prompt_params (enc_get_prompt_params g) = Some g"
  by (cases s; cases g; auto simp: subscribe_resource_params_defs get_prompt_params_defs run_decoder)+

text \<open>
  Round trip of request parameters: for every request a client can make (lifecycle, utilities,
  tools, resources, prompts, roots), the handler registered under its method decodes the client's
  JSON to the parameters the client gave, for integers of 64 bits and map values that JSON keeps.
\<close>

theorem call_roundtrip:
  assumes "good_call c"
  shows "decode_call (method_of c) (params_of c) = Some c"
proof (cases c)
  case (CReadResource p)
  with assms show ?thesis
    by (simp add: decode_call_def decoders_def method_defs dec_enc_read_resource del: good_call.simps)
next
  case (CInitialize p)
  with assms show ?thesis
    by (simp add: decode_call_def decoders_def method_defs dec_enc_initialize del: good_call.simps)
qed (use assms in \<open>simp_all add: decode_call_def decoders_def method_defs dec_enc_utilities
  dec_enc_lists dec_enc_list_resources dec_enc_call_tool dec_enc_simple\<close>)

definition sample_read :: call where
  "sample_read = CReadResource \<lparr>rrp_uri = ''file:///a'', rrp_template_params = [(''depth'', GBool True)],
     rrp_range = Some \<lparr>rr_start = 10, rr_end = 0\<rparr>\<rparr>"

theorem call_roundtrip_witness: "decode_call (method_of sample_read) (params_of sample_read) = Some sample_read"
proof -
  have "good_call sample_read"
    by (simp add: sample_read_def wire_map_def wire_stable_def in_int64_def)
  then show ?thesis by (rule call_roundtrip)
qed

end
