(* ===== verification/HttpClient.thy ===== *)
theory HttpClient
  imports HttpReconnect Conversion Calls
begin

section \<open>The Streamable HTTP transport: messages\<close>

text \<open>
  \<open>streamable_http.go\<close>: sending over POST requests and handling what comes back. The network and the
  server behind it are a function on the state \<open>'w\<close> of everything outside the transport (the
  application's state is part of it, the registered handlers work on it). What an answer carries is
  read from it: status, three headers, the body as far as it could be read and the error that cut it
  short. Handling a message can make the transport send one, whose answer holds the next message, and
  so on: posting is a partial function, \<open>None\<close> when this does not end (or blocks). Response callbacks
  are channels with room for one response, in a heap. Header names are in canonical form. Event
  sources are objects known by their stream id, \<open>hc_active\<close> is the table of the transport. Logging and
  the timeout of the HTTP client (a failure of the network) are left out.
\<close>

subsection \<open>State\<close>

record http_client =
  hc_endpoint :: string
  hc_prefix :: string
  hc_session :: string
  hc_headers :: "(string \<times> string) list"
  hc_allowed :: "string list"
  hc_running :: bool
  hc_ids :: id_source
  hc_responders :: "string \<rightharpoonup> nat"
  hc_waiting :: "string \<rightharpoonup> nat"
  hc_progress :: "string set"
  hc_chans :: "nat \<rightharpoonup> chan"
  hc_next :: nat
  hc_pool :: pool
  hc_streams :: "string \<rightharpoonup> event_source"
  hc_active :: "string set"
  hc_breaker :: "http_breaker option"
  hc_reconnect :: reconnect_config
  hc_state :: connection_state
  hc_metrics :: reconnect_metrics

record http_post =
  po_method :: string
  po_url :: string
  po_headers :: "(string \<times> string) list"
  po_body :: string

record http_answer =
  ha_status :: int
  ha_reason :: string
  ha_session :: string
  ha_type :: string
  ha_last :: string
  ha_body :: string
  ha_cut :: "goerr option"

datatype net_result = NotCreated goerr | NotSent goerr | Answered http_answer

type_synonym 'w network = "http_post \<Rightarrow> 'w \<Rightarrow> net_result \<times> 'w"

text \<open>The surroundings: the network, the handlers of the application, the errors of \<open>json.Unmarshal\<close>.\<close>

record 'w surroundings =
  su_net :: "'w network"
  su_handlers :: "'w handlers"
  su_why :: "string \<Rightarrow> goerr"

definition newStreamableHTTPTransport :: "instant \<Rightarrow> string \<Rightarrow> rel_config \<Rightarrow> http_client" where
  "newStreamableHTTPTransport zero endpoint cfg =
     \<lparr>hc_endpoint = endpoint, hc_prefix = ''streamable-http'', hc_session = [], hc_headers = [], hc_allowed = [],
      hc_running = False, hc_ids = NewIds, hc_responders = Map.empty, hc_waiting = Map.empty, hc_progress = {},
      hc_chans = Map.empty, hc_next = 0, hc_pool = NewPool, hc_streams = Map.empty, hc_active = {},
      hc_breaker = (if brc_enabled (rel_breaker cfg)
        then Some ((NewCircuitBreaker zero)\<lparr>hb_threshold := brc_failures (rel_breaker cfg),
                     hb_recovery := brc_timeout (rel_breaker cfg), hb_max_calls := brc_successes (rel_breaker cfg)\<rparr>)
        else None),
      hc_reconnect = \<lparr>rc_initial = rel_initial_delay cfg, rc_max = rel_max_delay cfg, rc_retries = rel_max_retries cfg,
        rc_multiplier = rel_factor cfg, rc_jitter = 20, rc_health = 30 * second\<rparr>,
      hc_state = StateDisconnected,
      hc_metrics = \<lparr>rm_attempts = 0, rm_successes = 0, rm_failures = 0, rm_duration = 0, rm_last = zero\<rparr>\<rparr>"

definition SetRequestIDPrefix :: "string \<Rightarrow> http_client \<Rightarrow> http_client" where
  "SetRequestIDPrefix p c = c\<lparr>hc_prefix := p\<rparr>"

definition SetHeader :: "string \<Rightarrow> string \<Rightarrow> http_client \<Rightarrow> http_client" where
  "SetHeader k v c = c\<lparr>hc_headers := put_assoc k v (hc_headers c)\<rparr>"

definition SetSessionID :: "string \<Rightarrow> http_client \<Rightarrow> http_client" where
  "SetSessionID i c = c\<lparr>hc_session := i\<rparr>"

definition GetSessionID :: "http_client \<Rightarrow> string" where
  "GetSessionID c = hc_session c"

definition RegisterProgressHandler :: "gval \<Rightarrow> http_client \<Rightarrow> http_client" where
  "RegisterProgressHandler i c = c\<lparr>hc_progress := insert (go_str i) (hc_progress c)\<rparr>"

definition updateConnectionState :: "connection_state \<Rightarrow> http_client \<Rightarrow> http_client" where
  "updateConnectionState st c = c\<lparr>hc_state := st\<rparr>"

definition SetReconnectionConfig :: "reconnect_config \<Rightarrow> http_client \<Rightarrow> http_client" where
  "SetReconnectionConfig r c = c\<lparr>hc_reconnect := r\<rparr>"

definition http_context :: "string \<Rightarrow> string \<Rightarrow> string \<Rightarrow> err_context" where
  "http_context rid m operation = empty_context\<lparr>ctx_request_id := rid, ctx_method := m,
     ctx_component := ''StreamableHTTPTransport'', ctx_operation := operation\<rparr>"

definition http_error :: "string \<Rightarrow> string \<Rightarrow> int \<Rightarrow> goerr \<Rightarrow> err_context \<Rightarrow> goerr" where
  "http_error operation endpoint status e cx =
     (case HTTPTransportError operation endpoint status (Some e) of
        Ok m \<Rightarrow> ErrMCP (WithContext (Some cx) m) | _ \<Rightarrow> e)"

definition internal_error :: "string \<Rightarrow> goerr \<Rightarrow> err_context \<Rightarrow> goerr" where
  "internal_error operation e cx = ErrMCP (WithContext (Some cx) (CreateInternalError operation (Some e)))"

definition raw_Send :: "string \<Rightarrow> goerr" where
  "raw_Send data = ErrMCP (WithContext (Some (http_context [] [] ''send''))
     (NewError CodeOperationNotSupported ''Send method not applicable for StreamableHTTPTransport''
        CategoryValidation SeverityError))"

subsection \<open>Responses\<close>

text \<open>What handling a message comes to: done (with an error perhaps), a message to post and what is made
  of a failure to post it, blocked for good, or a panic.\<close>

datatype handled =
    Handled "goerr option"
  | Posting string "goerr \<Rightarrow> goerr"
  | Blocks
  | Panics string

definition put_response :: "nat \<Rightarrow> response \<Rightarrow> http_client \<Rightarrow> handled \<times> http_client" where
  "put_response n r c =
     (case hc_chans c n of
        None \<Rightarrow> (Handled None, c)
      | Some ch \<Rightarrow>
          if ch_closed ch then (Panics ''send on closed channel'', c)
          else if ch_buffer ch \<noteq> None then (Handled None, c)
          else (Handled None, c\<lparr>hc_chans := (hc_chans c)(n \<mapsto> ch\<lparr>ch_buffer := Some r\<rparr>)\<rparr>))"

definition http_HandleResponse :: "response \<Rightarrow> http_client \<Rightarrow> handled \<times> http_client" where
  "http_HandleResponse r c =
     (let i = go_str (resp_id r) in
      case hc_responders c i of
        Some n \<Rightarrow>
          (case put_response n r c of
             (Handled e, c') \<Rightarrow> (Handled e, c'\<lparr>hc_responders := (hc_responders c')(i := None)\<rparr>)
           | x \<Rightarrow> x)
      | None \<Rightarrow>
          (case hc_waiting c i of
             Some n \<Rightarrow>
               (case put_response n r c of
                  (Handled e, c') \<Rightarrow> (Handled e, c'\<lparr>hc_waiting := (hc_waiting c')(i := None)\<rparr>)
                | x \<Rightarrow> x)
           | None \<Rightarrow>
               (case HandleResponse r (hc_pool c) of
                  Delivered p \<Rightarrow> (Handled None, c\<lparr>hc_pool := p\<rparr>)
                | Blocked \<Rightarrow> (Blocks, c)
                | ClosedChannel \<Rightarrow> (Panics ''send on closed channel'', c))))"

definition SetResponseHandler :: "string \<Rightarrow> http_client \<Rightarrow> nat \<times> http_client" where
  "SetResponseHandler i c = (case wait_register i (hc_pool c) of (n, p) \<Rightarrow> (n, c\<lparr>hc_pool := p\<rparr>))"

definition RemoveResponseHandler :: "string \<Rightarrow> http_client \<Rightarrow> http_client" where
  "RemoveResponseHandler i c = c\<lparr>hc_pool := wait_abandon i (hc_pool c)\<rparr>"

subsection \<open>Handling a message\<close>

text \<open>The messages of a batch: the answers to its requests, in their order.\<close>

fun batch_messages :: "'w handlers \<Rightarrow> call_ctx \<Rightarrow> json list \<Rightarrow> response list \<Rightarrow> http_client \<times> 'w \<Rightarrow>
    (handled \<times> response list) \<times> (http_client \<times> 'w)" where
  "batch_messages hs cx [] acc s = ((Handled None, acc), s)"
| "batch_messages hs cx (v # vs) acc (c, w) =
     (if is_request v then
        (case dec_request v of
           None \<Rightarrow> batch_messages hs cx vs acc (c, w)
         | Some r \<Rightarrow>
             (case base_HandleRequest hs cx r w of
                (Ok x, w') \<Rightarrow> batch_messages hs cx vs (acc @ [x]) (c, w')
              | (Err e, w') \<Rightarrow>
                  batch_messages hs cx vs (acc @ [NewErrorResponse (req_id r) InternalError (Error e) GNil]) (c, w')
              | (Panic m, w') \<Rightarrow> ((Panics m, acc), (c, w'))))
      else if is_response v then
        (case dec_response v of
           None \<Rightarrow> batch_messages hs cx vs acc (c, w)
         | Some r \<Rightarrow>
             (case http_HandleResponse r c of
                (Handled e, c') \<Rightarrow> batch_messages hs cx vs acc (c', w)
              | (x, c') \<Rightarrow> ((x, acc), (c', w))))
      else if is_notification v then
        (case dec_notification v of
           None \<Rightarrow> batch_messages hs cx vs acc (c, w)
         | Some n \<Rightarrow> batch_messages hs cx vs acc (c, snd (base_HandleNotification hs cx n w)))
      else batch_messages hs cx vs acc (c, w))"

definition handleBatchMessage :: "'w surroundings \<Rightarrow> call_ctx \<Rightarrow> string \<Rightarrow> http_client \<times> 'w \<Rightarrow> handled \<times> (http_client \<times> 'w)" where
  "handleBatchMessage env cx data s =
     (case json_parse data of
        Some (JArr vs) \<Rightarrow>
          (case batch_messages (su_handlers env) cx vs [] s of
             ((Handled e, rs), s') \<Rightarrow>
               (if rs = [] then (Handled None, s')
                else (Posting (json_print (JArr (map enc_response rs)))
                        (\<lambda>e. http_error ''send_batch_responses'' (hc_endpoint (fst s')) 0 e
                           (http_context [] [] ''send_batch_responses'')), s'))
           | ((x, rs), s') \<Rightarrow> (x, s'))
      | _ \<Rightarrow> (Handled (Some (ErrWrapped (''failed to unmarshal batch: '' @ Error (su_why env data)) (su_why env data))), s))"

definition connection_id :: "string \<Rightarrow> string option" where
  "connection_id data =
     (case json_parse data of None \<Rightarrow> None
      | Some v \<Rightarrow> decode_struct [(''connectionId'', str_field (\<lambda>s a. s))] [] v)"

text \<open>The first hundred bytes of a message, for the log and the error.\<close>

definition sample_of :: "string \<Rightarrow> string" where
  "sample_of data = (if 100 < length data then take 100 data @ ''...'' else data)"

definition handleMessage :: "'w surroundings \<Rightarrow> call_ctx \<Rightarrow> string \<Rightarrow> http_client \<times> 'w \<Rightarrow> handled \<times> (http_client \<times> 'w)" where
  "handleMessage env cx data = (\<lambda>(c, w).
     let trimmed = trim_space data; bad = su_why env data in
     if trimmed = [] then (Handled None, (c, w))
     else if trimmed = ''{}'' then (Handled None, (c, w))
     else if (case connection_id trimmed of None \<Rightarrow> False | Some i \<Rightarrow> i \<noteq> []) then (Handled None, (c, w))
     else if has_prefix data ''['' then handleBatchMessage env cx data (c, w)
     else if IsRequest data then
       (case (case json_parse data of None \<Rightarrow> None | Some v \<Rightarrow> dec_request v) of
          None \<Rightarrow> (Handled (Some (internal_error ''unmarshal_request'' bad (http_context [] [] ''handle_message''))), (c, w))
        | Some r \<Rightarrow>
            (case base_HandleRequest (su_handlers env) cx r w of
               (Ok x, w') \<Rightarrow>
                 (Posting (json_print (enc_response x))
                    (\<lambda>e. http_error ''send_response'' (hc_endpoint c) 0 e (http_context [] (req_method r) ''send_response'')),
                  (c, w'))
             | (Err e, w') \<Rightarrow>
                 (Handled (Some (internal_error ''handle_request'' e (http_context [] (req_method r) ''handle_request''))), (c, w'))
             | (Panic m, w') \<Rightarrow> (Panics m, (c, w'))))
     else if IsResponse data then
       (case (case json_parse data of None \<Rightarrow> None | Some v \<Rightarrow> dec_response v) of
          None \<Rightarrow> (Handled (Some (internal_error ''unmarshal_response'' bad (http_context [] [] ''handle_message''))), (c, w))
        | Some r \<Rightarrow> (case http_HandleResponse r c of (x, c') \<Rightarrow> (x, (c', w))))
     else if IsNotification data then
       (case (case json_parse data of None \<Rightarrow> None | Some v \<Rightarrow> dec_notification v) of
          None \<Rightarrow> (Handled (Some (internal_error ''unmarshal_notification'' bad (http_context [] [] ''handle_message''))), (c, w))
        | Some n \<Rightarrow>
            (case base_HandleNotification (su_handlers env) cx n w of
               (None, w') \<Rightarrow> (Handled None, (c, w'))
             | (Some e, w') \<Rightarrow>
                 (Handled (Some (internal_error ''handle_notification'' e
                    (http_context [] (notif_method n) ''handle_notification''))), (c, w'))))
     else if json_parse data = None then
       (Handled (Some (ErrMCP (WithDetail (''JSON error: '' @ Error bad @ '', data: '' @ sample_of data)
          (WithContext (Some (http_context [] [] ''handle_message''))
            (NewError CodeProtocolError ''Invalid JSON message received'' CategoryProtocol SeverityError))))), (c, w))
     else (Handled None, (c, w)))"


subsection \<open>Posting\<close>

definition request_post :: "string \<Rightarrow> string \<Rightarrow> http_client \<Rightarrow> http_post" where
  "request_post stream data c =
     (let h0 = [(''Content-Type'', ''application/json''), (''Accept'', ''application/json, text/event-stream'')];
          h1 = fold (\<lambda>(k, v). put_assoc k v) (hc_headers c) h0;
          h2 = (if hc_session c \<noteq> [] then put_assoc ''MCP-Session-ID'' (hc_session c) h1 else h1);
          h3 = (if stream \<noteq> [] \<and> \<not> has_prefix stream ''request-'' then put_assoc ''MCP-Stream-ID'' stream h2 else h2)
      in \<lparr>po_method = ''POST'', po_url = hc_endpoint c, po_headers = h3, po_body = data\<rparr>)"

definition fresh_source :: "string \<Rightarrow> string \<Rightarrow> event_source" where
  "fresh_source stream last_id = \<lparr>es_stream = stream, es_last = last_id, es_retry = 0, es_connected = True, es_body = True,
     es_closed = False, es_queue = [], es_errors = [], es_buffer = NewEventBuffer 100\<rparr>"

text \<open>A stream that answers a request is handed to a new event source and read by its own goroutines.\<close>

definition hand_off :: "string \<Rightarrow> http_answer \<Rightarrow> http_client \<Rightarrow> http_client" where
  "hand_off stream a c =
     (if has_prefix stream ''request-'' then
        c\<lparr>hc_streams := (hc_streams c)(stream \<mapsto> drainBufferedEvents (fresh_source stream (ha_last a))),
          hc_active := insert stream (hc_active c)\<rparr>
      else c)"

definition take_session :: "http_answer \<Rightarrow> http_client \<Rightarrow> http_client" where
  "take_session a c = (if ha_session a \<noteq> [] then c\<lparr>hc_session := ha_session a\<rparr> else c)"

text \<open>What is left of an answer after its stream, its session and its errors: a message to handle, if any.\<close>

definition answer_message :: "string \<Rightarrow> string \<Rightarrow> http_answer \<Rightarrow> http_client \<Rightarrow> (goerr + string option) \<times> http_client" where
  "answer_message endpoint stream a c =
     (let status = ha_status a; c1 = take_session a c in
      if 400 \<le> status then
        (Inl (ErrText (''HTTP error '' @ show_int status @ '': '' @ ha_body a)), c)
      else if str_contains (ha_type a) ''text/event-stream'' then (Inr None, hand_off stream a c1)
      else if str_contains (ha_type a) ''application/json'' then
        (case ha_cut a of
           Some e \<Rightarrow> (Inl (http_error ''read_response_body'' endpoint status e (http_context [] [] ''read_json_response'')), c1)
         | None \<Rightarrow> (Inr (if ha_body a = [] then None else Some (ha_body a)), c1))
      else if status = 202 \<or> status = 204 then (Inr None, c1)
      else
        (case ha_cut a of
           Some e \<Rightarrow> (Inl (http_error ''read_unknown_response'' endpoint status e (http_context [] [] ''read_unknown_content_type'')), c1)
         | None \<Rightarrow> (Inr None, c1)))"

definition unprocessed :: "goerr \<Rightarrow> goerr" where
  "unprocessed e = internal_error ''process_json_message'' e (http_context [] [] ''handle_json_response'')"

definition of_option :: "goerr option \<Rightarrow> (goerr, unit) outcome" where
  "of_option x = (case x of None \<Rightarrow> Ok () | Some e \<Rightarrow> Err e)"

definition map_err :: "('e \<Rightarrow> 'e) \<Rightarrow> ('e, 'a) outcome \<Rightarrow> ('e, 'a) outcome" where
  "map_err f x = (case x of Err e \<Rightarrow> Err (f e) | y \<Rightarrow> y)"

partial_function (option) sendHTTPRequest ::
    "'w surroundings \<Rightarrow> string \<Rightarrow> string \<Rightarrow> http_client \<times> 'w \<Rightarrow> ((goerr, unit) outcome \<times> (http_client \<times> 'w)) option" where
  [code]: "sendHTTPRequest env stream data s =
     (case su_net env (request_post stream data (fst s)) (snd s) of
        (NotCreated e, w) \<Rightarrow> Some (Err (ErrWrapped (''failed to create request: '' @ Error e) e), (fst s, w))
      | (NotSent e, w) \<Rightarrow> Some (Err (ErrWrapped (''failed to send request: '' @ Error e) e), (fst s, w))
      | (Answered a, w) \<Rightarrow>
          (case answer_message (hc_endpoint (fst s)) stream a (fst s) of
             (Inl e, c) \<Rightarrow> Some (Err e, (c, w))
           | (Inr None, c) \<Rightarrow> Some (Ok (), (c, w))
           | (Inr (Some text), c) \<Rightarrow>
               (case handleMessage env background text (c, w) of
                  (Handled e, s') \<Rightarrow> Some (map_err unprocessed (of_option e), s')
                | (Blocks, s') \<Rightarrow> None
                | (Panics m, s') \<Rightarrow> Some (Panic m, s')
                | (Posting out wrap, s') \<Rightarrow>
                    Option.bind (sendHTTPRequest env [] out s')
                      (\<lambda>(x, s''). Some (map_err (unprocessed \<circ> wrap) x, s'')))))"

text \<open>Handling a message that came on a stream: its errors are logged by the caller.\<close>

definition handle_and_post :: "'w surroundings \<Rightarrow> call_ctx \<Rightarrow> string \<Rightarrow> http_client \<times> 'w \<Rightarrow>
    ((goerr, unit) outcome \<times> (http_client \<times> 'w)) option" where
  "handle_and_post env cx data s =
     (case handleMessage env cx data s of
        (Handled e, s') \<Rightarrow> Some (of_option e, s')
      | (Blocks, s') \<Rightarrow> None
      | (Panics m, s') \<Rightarrow> Some (Panic m, s')
      | (Posting out wrap, s') \<Rightarrow> map_option (\<lambda>(x, s''). (map_err wrap x, s'')) (sendHTTPRequest env [] out s'))"

definition http_SendNotification :: "'w surroundings \<Rightarrow> string \<Rightarrow> gval \<Rightarrow> http_client \<times> 'w \<Rightarrow>
    ((goerr, unit) outcome \<times> (http_client \<times> 'w)) option" where
  "http_SendNotification env m params s =
     map_option (\<lambda>(x, s'). (map_err (\<lambda>e. ErrWrapped (''failed to send HTTP notification: '' @ Error e) e) x, s'))
       (sendHTTPRequest env [] (json_print (enc_notification (NewNotification m params))) s)"

definition http_SendBatch :: "'w surroundings \<Rightarrow> json list \<Rightarrow> http_client \<times> 'w \<Rightarrow>
    ((goerr, unit) outcome \<times> (http_client \<times> 'w)) option" where
  "http_SendBatch env messages s = sendHTTPRequest env [] (json_print (JArr messages)) s"

subsection \<open>Requests\<close>

definition request_stream :: "string \<Rightarrow> string" where
  "request_stream i = ''request-'' @ i"

text \<open>Registering the channel of a request, and the deferred clean-up.\<close>

definition begin_call :: "http_client \<Rightarrow> (string \<times> nat) \<times> http_client" where
  "begin_call c =
     (case GetNextID (hc_ids c) of
        (k, ids) \<Rightarrow>
          let i = hc_prefix c @ ''-'' @ show_int k; n = hc_next c
          in ((i, n), c\<lparr>hc_ids := ids, hc_responders := (hc_responders c)(i \<mapsto> n),
                hc_chans := (hc_chans c)(n \<mapsto> \<lparr>ch_buffer = None, ch_closed = False\<rparr>), hc_next := Suc n\<rparr>))"

definition end_call :: "string \<Rightarrow> nat \<Rightarrow> http_client \<Rightarrow> http_client" where
  "end_call i n c =
     c\<lparr>hc_responders := (hc_responders c)(i := None),
       hc_chans := (hc_chans c)(n := map_option (\<lambda>ch. ch\<lparr>ch_closed := True\<rparr>) (hc_chans c n))\<rparr>"

definition received :: "nat \<Rightarrow> http_client \<Rightarrow> response option" where
  "received n c = (case hc_chans c n of None \<Rightarrow> None | Some ch \<Rightarrow> ch_buffer ch)"

text \<open>The response as the caller gets it.\<close>

definition result_of :: "(string \<Rightarrow> goerr) \<Rightarrow> string \<Rightarrow> string \<Rightarrow> response \<Rightarrow> (goerr, gval) outcome" where
  "result_of why i m r =
     (case resp_error r of
        Some e \<Rightarrow> Err (ErrObject e)
      | None \<Rightarrow>
          (case resp_result r of
             None \<Rightarrow> Ok GNil
           | Some v \<Rightarrow>
               (case decode_any v of
                  Some x \<Rightarrow> Ok x
                | None \<Rightarrow> Err (internal_error ''unmarshal_result'' (why (json_print v)) (http_context i m ''unmarshal_result'')))))"

definition cancel_notice :: "'w surroundings \<Rightarrow> string \<Rightarrow> http_client \<times> 'w \<Rightarrow>
    ((goerr, unit) outcome \<times> (http_client \<times> 'w)) option" where
  "cancel_notice env i s = http_SendNotification env ''$/cancelRequest''
     (GRaw (Some (enc_cancel_params \<lparr>cp_id = GStr i\<rparr>))) s"

text \<open>Leaving a request whose response did not come: by its own limit of 30 seconds or, with the error
  of the context, because the caller cancelled.\<close>

definition drop_stream :: "string \<Rightarrow> http_client \<Rightarrow> http_client" where
  "drop_stream stream c =
     (if stream \<in> hc_active c then
        c\<lparr>hc_active := hc_active c - {stream}, hc_streams := (hc_streams c)(stream := map_option es_Close (hc_streams c stream))\<rparr>
      else c)"

definition wait_error :: "goerr option \<Rightarrow> string \<Rightarrow> string \<Rightarrow> goerr" where
  "wait_error cancelled i m =
     (case cancelled of
        None \<Rightarrow> ErrMCP (WithContext (Some (http_context i m ''wait_response'')) (ResponseTimeout ''streamable_http'' i (30 * second)))
      | Some e \<Rightarrow> ErrMCP (WithDetail (''Context error: '' @ Error e) (WithContext (Some (http_context i m ''wait_response''))
          (NewError CodeOperationCancelled ''Request was cancelled'' CategoryCancelled SeverityInfo))))"

definition post_panic :: "(goerr, unit) outcome \<Rightarrow> (goerr, gval) outcome \<Rightarrow> (goerr, gval) outcome" where
  "post_panic x y = (case x of Panic m \<Rightarrow> Panic m | _ \<Rightarrow> y)"

text \<open>
  The whole call: \<open>meanwhile\<close> is what the other goroutines do until the response is there or the wait
  ends, \<open>cancelled\<close> the error of the caller's context, if it ends first.
\<close>

definition http_SendRequest :: "'w surroundings \<Rightarrow> (nat \<Rightarrow> http_client \<times> 'w \<Rightarrow> http_client \<times> 'w) \<Rightarrow> goerr option \<Rightarrow>
    string \<Rightarrow> gval \<Rightarrow> http_client \<times> 'w \<Rightarrow> ((goerr, gval) outcome \<times> (http_client \<times> 'w)) option" where
  "http_SendRequest env meanwhile cancelled m params s =
     (case begin_call (fst s) of
        ((i, n), c) \<Rightarrow>
          map_option (\<lambda>(x, s'). (x, (end_call i n (fst s'), snd s')))
            (Option.bind (sendHTTPRequest env (request_stream i)
                (json_print (enc_request (NewRequest (GStr i) m params))) (c, snd s))
              (\<lambda>(x, s1).
                 case x of
                   Panic p \<Rightarrow> Some (Panic p, s1)
                 | Err e \<Rightarrow>
                     (let failed = Err (http_error ''send_request'' (hc_endpoint c) 0 e (http_context i m ''send_http_request'')) in
                      if cancelled \<noteq> None
                      then map_option (\<lambda>(y, s2). (post_panic y failed, s2)) (cancel_notice env i s1)
                      else Some (failed, s1))
                 | Ok _ \<Rightarrow>
                     (let s2 = meanwhile n s1 in
                      case received n (fst s2) of
                        Some r \<Rightarrow> Some (result_of (su_why env) i m r, s2)
                      | None \<Rightarrow>
                          map_option (\<lambda>(y, s3). (post_panic y (Err (wait_error cancelled i m)),
                              (drop_stream (request_stream i) (fst s3), snd s3)))
                            (cancel_notice env i s2)))))"

end
