(* ===== verification/HttpStreams.thy ===== *)
theory HttpStreams
  imports HttpClient
begin

section \<open>The Streamable HTTP transport: streams, batches, life cycle\<close>

text \<open>
  The event streams of \<open>streamable_http.go\<close> and the goroutines that serve them, as step functions: the
  reader of a source (lines that arrive, in any portions, and the end of the connection) and the loop
  \<open>processEventSource\<close>, an iteration or an event at a time. A step takes from its environment what the
  code asks of it: whether its context is done, the clock, random numbers. Waiting only passes time. A
  panic in a goroutine ends the program. The bodies of connections are not shared between sources.
\<close>

subsection \<open>Connecting\<close>

definition stream_get :: "string \<Rightarrow> http_client \<Rightarrow> http_post" where
  "stream_get last_id c =
     (let h1 = fold (\<lambda>(k, v). put_assoc k v) (hc_headers c) [(''Accept'', ''text/event-stream'')];
          h2 = (if hc_session c \<noteq> [] then put_assoc ''MCP-Session-ID'' (hc_session c) h1 else h1);
          h3 = (if last_id \<noteq> [] then put_assoc ''Last-Event-ID'' last_id h2 else h2)
      in \<lparr>po_method = ''GET'', po_url = hc_endpoint c, po_headers = h3, po_body = []\<rparr>)"

definition createEventSource ::
    "'w surroundings \<Rightarrow> string \<Rightarrow> string \<Rightarrow> http_client \<times> 'w \<Rightarrow> (goerr + event_source) \<times> (http_client \<times> 'w)" where
  "createEventSource env stream last_id s =
     (let ep = hc_endpoint (fst s) in
      case su_net env (stream_get last_id (fst s)) (snd s) of
        (NotCreated e, w) \<Rightarrow> (Inl (ErrWrapped (''failed to create request: '' @ Error e) e), (fst s, w))
      | (NotSent e, w) \<Rightarrow> (Inl (ErrWrapped (''failed to connect to event source: '' @ Error e) e), (fst s, w))
      | (Answered a, w) \<Rightarrow>
          (if ha_status a \<noteq> 200 then
             Inl (if ha_status a = 405 then
                    http_error ''method_not_allowed'' ep (ha_status a) (ErrText ''server does not support GET for SSE'')
                      (http_context [] [] ''connect_event_source'')
                  else http_error ''connect_failed'' ep (ha_status a)
                      (ErrText (''failed to connect to event source, status: '' @ ha_reason a
                         @ (if ha_cut a = None \<and> ha_body a \<noteq> [] then '', body: '' @ ha_body a else [])))
                      (http_context [] [] ''connect_event_source''))
           else if \<not> str_contains (ha_type a) ''text/event-stream'' then
             Inl (http_error ''invalid_content_type'' ep (ha_status a)
                    (ErrText ''server did not return text/event-stream content type'') (http_context [] [] ''validate_content_type''))
           else Inr (drainBufferedEvents (fresh_source stream last_id)), (fst s, w)))"

definition openListenerConnection :: "'w surroundings \<Rightarrow> instant \<Rightarrow> http_client \<times> 'w \<Rightarrow> goerr option \<times> (http_client \<times> 'w)" where
  "openListenerConnection env now s =
     (let stream = ''listener-'' @ show_int now in
      case createEventSource env stream [] s of
        (Inl e, s') \<Rightarrow> (Some e, s')
      | (Inr es, (c, w)) \<Rightarrow>
          (None, (c\<lparr>hc_streams := (hc_streams c)(stream \<mapsto> es), hc_active := insert stream (hc_active c)\<rparr>, w)))"

text \<open>\<open>Connect\<close> of an event source, given what its request comes to.\<close>

definition es_Connect :: "net_result \<Rightarrow> event_source \<Rightarrow> goerr option \<times> event_source" where
  "es_Connect result es =
     (if es_connected es then (None, es)
      else case result of
        NotCreated e \<Rightarrow> (Some (ErrWrapped (''failed to create request: '' @ Error e) e), es)
      | NotSent e \<Rightarrow> (Some (ErrWrapped (''failed to connect: '' @ Error e) e), es)
      | Answered a \<Rightarrow>
          if ha_status a \<noteq> 200 then (Some (ErrText (''failed to connect: HTTP '' @ show_int (ha_status a))), es)
          else (None, drainBufferedEvents (es\<lparr>es_body := True, es_connected := True\<rparr>)))"

definition update_stream :: "string \<Rightarrow> (event_source \<Rightarrow> event_source) \<Rightarrow> http_client \<Rightarrow> http_client" where
  "update_stream stream f c = c\<lparr>hc_streams := (hc_streams c)(stream := map_option f (hc_streams c stream))\<rparr>"

text \<open>A new connection is moved into the source; its flag of being connected is not.\<close>

definition attemptEventSourceConnection ::
    "'w surroundings \<Rightarrow> bool \<Rightarrow> string \<Rightarrow> http_client \<times> 'w \<Rightarrow> goerr option \<times> (http_client \<times> 'w)" where
  "attemptEventSourceConnection env cancelled stream s =
     (if cancelled then (Some (ErrText ''context cancelled''), s)
      else if \<not> hc_running (fst s) then (Some (ErrText ''transport not running''), s)
      else if has_prefix stream ''request-'' \<and> hc_responders (fst s) stream = None then
        (Some (ErrText ''no response handler for request stream''), s)
      else if has_prefix stream ''listener'' \<or> has_prefix stream ''request-'' then
        (let last_id = (case hc_streams (fst s) stream of None \<Rightarrow> [] | Some es \<Rightarrow> es_last es) in
         case createEventSource env stream last_id s of
           (Inl e, s') \<Rightarrow> (Some (ErrWrapped (''failed to create event source: '' @ Error e) e), s')
         | (Inr new, (c, w)) \<Rightarrow>
             (None, (update_stream stream (\<lambda>es. es\<lparr>es_body := True, es_last := es_last new\<rparr>) c, w)))
      else (Some (ErrText (''unknown stream type for stream '' @ stream)), s))"

subsection \<open>The loop of a stream\<close>

datatype phase = Trying nat | Listening | Left | Crashed string | Stuck

record loop_env =
  le_done :: bool
  le_waited :: bool
  le_cancelled :: bool
  le_clock :: "nat \<Rightarrow> instant"
  le_spent :: duration
  le_end :: instant

text \<open>Leaving the loop closes the source; the source of a request is removed from the table.\<close>

definition leave_loop :: "string \<Rightarrow> http_client \<Rightarrow> http_client" where
  "leave_loop stream c =
     (let c1 = update_stream stream es_Close c
      in if has_prefix stream ''request-'' then c1\<lparr>hc_active := hc_active c1 - {stream}\<rparr> else c1)"

definition in_state :: "connection_state \<Rightarrow> http_client \<times> 'w \<Rightarrow> http_client \<times> 'w" where
  "in_state st s = (updateConnectionState st (fst s), snd s)"

definition leaving :: "string \<Rightarrow> http_client \<times> 'w \<Rightarrow> phase \<times> (http_client \<times> 'w)" where
  "leaving stream s = (Left, (leave_loop stream (fst s), snd s))"

definition attempted :: "bool \<Rightarrow> loop_env \<Rightarrow> http_breaker \<Rightarrow> http_client \<times> 'w \<Rightarrow> http_client \<times> 'w" where
  "attempted success le b s =
     ((fst s)\<lparr>hc_breaker := Some b,
        hc_metrics := recordReconnectionAttempt success (le_spent le) (le_end le) (hc_metrics (fst s))\<rparr>, snd s)"

definition loop_iteration :: "'w surroundings \<Rightarrow> string \<Rightarrow> loop_env \<Rightarrow> nat \<Rightarrow> http_client \<times> 'w \<Rightarrow> phase \<times> (http_client \<times> 'w)" where
  "loop_iteration env stream le a s =
     (if le_done le then leaving stream (in_state StateDisconnected s)
      else case hc_breaker (fst s) of
        None \<Rightarrow> (Crashed ''nil pointer dereference'', (leave_loop stream (fst s), snd s))
      | Some b \<Rightarrow>
          if hb_state b = HttpOpen then
            (let s1 = in_state StateFailed s in if le_waited le then leaving stream s1 else (Trying a, s1))
          else if rc_retries (hc_reconnect (fst s)) \<le> int a then leaving stream (in_state StateFailed s)
          else if 0 < a \<and> le_waited le then leaving stream (in_state StateDisconnected s)
          else
            (case breaker_Call (le_clock le) (attemptEventSourceConnection env (le_cancelled le) stream)
                    (b, in_state StateReconnecting s) of
               (Some e, b', s') \<Rightarrow>
                 (let s1 = attempted False le b' s' in
                  if classifyError (Some e) = ErrorTypeNonRetryable then leaving stream (in_state StateFailed s1)
                  else (Trying (Suc a), s1))
             | (None, b', s') \<Rightarrow> (Listening, in_state StateConnected (attempted True le b' s'))))"

datatype loop_event = Iterate loop_env | TakeMessage call_ctx | TakeError | ReaderDone | ContextDone

text \<open>After a success the attempts count from 0; a lost connection makes the next one number 1.\<close>

definition loop_step :: "'w surroundings \<Rightarrow> string \<Rightarrow> loop_event \<Rightarrow> phase \<times> (http_client \<times> 'w) \<Rightarrow> phase \<times> (http_client \<times> 'w)" where
  "loop_step env stream ev ps =
     (case fst ps of
        Trying a \<Rightarrow> (case ev of Iterate le \<Rightarrow> loop_iteration env stream le a (snd ps) | _ \<Rightarrow> ps)
      | Listening \<Rightarrow>
          (case ev of
             TakeMessage cx \<Rightarrow>
               (case hc_streams (fst (snd ps)) stream of
                  Some es \<Rightarrow>
                    (case es_queue es of
                       [] \<Rightarrow> ps
                     | m # ms \<Rightarrow>
                         (case handle_and_post env cx m
                             (update_stream stream (\<lambda>es. es\<lparr>es_queue := ms\<rparr>) (fst (snd ps)), snd (snd ps)) of
                            None \<Rightarrow> (Stuck, snd ps)
                          | Some (Panic p, s') \<Rightarrow> (Crashed p, s')
                          | Some (_, s') \<Rightarrow> (Listening, s')))
                | None \<Rightarrow> ps)
           | TakeError \<Rightarrow>
               (case hc_streams (fst (snd ps)) stream of
                  Some es \<Rightarrow>
                    (if es_errors es = [] then ps
                     else (Trying 1, (update_stream stream (\<lambda>es. es\<lparr>es_errors := tl (es_errors es)\<rparr>) (fst (snd ps)), snd (snd ps))))
                | None \<Rightarrow> ps)
           | ReaderDone \<Rightarrow> (Trying 1, snd ps)
           | ContextDone \<Rightarrow> leaving stream (in_state StateDisconnected (snd ps))
           | Iterate le \<Rightarrow> ps)
      | _ \<Rightarrow> ps)"

definition start_loop :: "http_client \<times> 'w \<Rightarrow> phase \<times> (http_client \<times> 'w)" where
  "start_loop s = (Trying 0, in_state StateConnecting s)"

text \<open>The goroutines of a stream: its reader and its loop.\<close>

datatype stream_op = Reads "string list" | Loses "string list" goerr | Loops loop_event

definition stream_step :: "'w surroundings \<Rightarrow> string \<Rightarrow> stream_op \<Rightarrow> phase \<times> (http_client \<times> 'w) \<Rightarrow> phase \<times> (http_client \<times> 'w)" where
  "stream_step env stream op ps =
     (case op of
        Reads ls \<Rightarrow> (fst ps, update_stream stream (\<lambda>es. fst (sse_lines ls (es, no_part))) (fst (snd ps)), snd (snd ps))
      | Loses ls e \<Rightarrow> (fst ps, update_stream stream (readEvents ls e) (fst (snd ps)), snd (snd ps))
      | Loops ev \<Rightarrow> loop_step env stream ev ps)"

definition run_stream :: "'w surroundings \<Rightarrow> string \<Rightarrow> stream_op list \<Rightarrow> phase \<times> (http_client \<times> 'w) \<Rightarrow> phase \<times> (http_client \<times> 'w)" where
  "run_stream env stream ops = fold (stream_step env stream) ops"

subsection \<open>Origins\<close>

definition origin_error :: "string \<Rightarrow> string \<Rightarrow> goerr" where
  "origin_error m detail = ErrMCP (WithDetail detail (NewError CodeValidationError m CategoryValidation SeverityError))"

definition url_origin :: "string \<Rightarrow> string \<Rightarrow> goerr + string" where
  "url_origin scheme rest =
     (if has_prefix rest ''['' then
        (let host = before_char (CHR '']'') rest in
         if length host = length rest then Inl (origin_error ''Invalid IPv6 URL format'' ''Missing closing bracket for IPv6 address'')
         else Inr (scheme @ host @ '']'' @ before_char (CHR ''/'') (drop (Suc (length host)) rest)))
      else Inr (scheme @ before_char (CHR ''/'') rest))"

definition extractOriginFromURL :: "string \<Rightarrow> goerr + string" where
  "extractOriginFromURL url =
     (if has_prefix url ''https://'' then url_origin ''https://'' (drop 8 url)
      else if has_prefix url ''http://'' then url_origin ''http://'' (drop 7 url)
      else Inl (origin_error ''Invalid endpoint URL format'' ''Endpoint must start with http:// or https://''))"

definition local_host :: "string \<Rightarrow> bool" where
  "local_host host \<longleftrightarrow>
     (let h = (if has_prefix host ''['' then
                 (let i = before_char (CHR '']'') host in if length i = length host then host else tl i)
               else before_char (CHR '':'') host)
      in h = ''localhost'' \<or> h = ''127.0.0.1'' \<or> h = ''::1'')"

definition client_isLocalhostOrigin :: "string \<Rightarrow> bool" where
  "client_isLocalhostOrigin origin \<longleftrightarrow>
     (if has_prefix origin ''https://'' then local_host (drop 8 origin)
      else if has_prefix origin ''http://'' then local_host (drop 7 origin)
      else False)"

fun before_str :: "string \<Rightarrow> string \<Rightarrow> string" where
  "before_str p [] = []"
| "before_str p (x # s) = (if has_prefix (x # s) p then [] else x # before_str p s)"

definition validateOrigin :: "http_client \<Rightarrow> goerr option" where
  "validateOrigin c =
     (if hc_allowed c = [] then None
      else case extractOriginFromURL (hc_endpoint c) of
        Inl e \<Rightarrow> Some e
      | Inr x \<Rightarrow>
          if list_ex (\<lambda>a. a = ''*'' \<or> a = x \<or> client_isLocalhostOrigin x \<and> client_isLocalhostOrigin a
               \<and> before_str ''://'' x = before_str ''://'' a) (hc_allowed c) then None
          else Some (origin_error ''Server origin not allowed''
                 (''Endpoint origin '' @ sq @ x @ sq @ '' is not in allowed origins list'')))"

definition client_SetAllowedOrigins :: "string list \<Rightarrow> http_client \<Rightarrow> http_client" where
  "client_SetAllowedOrigins os c = c\<lparr>hc_allowed := os\<rparr>"

definition client_AddAllowedOrigin :: "string \<Rightarrow> http_client \<Rightarrow> http_client" where
  "client_AddAllowedOrigin x c = c\<lparr>hc_allowed := hc_allowed c @ [x]\<rparr>"

subsection \<open>Life cycle\<close>

definition initialize_params_of :: gval where
  "initialize_params_of = GMap [(''capabilities'', GMap [(''logging'', GBool True), (''sampling'', GBool True)]),
     (''clientName'', GStr ''Go MCP Client''), (''clientVersion'', GStr ''1.0.0'')]"

text \<open>The listener is opened by a goroutine of its own, another step.\<close>

definition http_Initialize :: "'w surroundings \<Rightarrow> (nat \<Rightarrow> http_client \<times> 'w \<Rightarrow> http_client \<times> 'w) \<Rightarrow> goerr option \<Rightarrow>
    http_client \<times> 'w \<Rightarrow> ((goerr, unit) outcome \<times> (http_client \<times> 'w)) option" where
  "http_Initialize env meanwhile cancelled s =
     (case validateOrigin (fst s) of
        Some e \<Rightarrow> Some (Err e, s)
      | None \<Rightarrow>
          map_option (\<lambda>(x, s'). (case x of
              Ok _ \<Rightarrow> Ok ()
            | Err e \<Rightarrow> Err (http_error ''initialize'' (hc_endpoint (fst s)) 0 e (http_context [] [] ''initialize''))
            | Panic m \<Rightarrow> Panic m, s'))
            (http_SendRequest env meanwhile cancelled ''initialize'' initialize_params_of
               (SetHeader ''Accept'' ''application/json, text/event-stream'' (fst s), snd s)))"

text \<open>\<open>Start\<close> then waits for its context.\<close>

definition http_Start :: "http_client \<Rightarrow> goerr option \<times> http_client" where
  "http_Start c =
     (if hc_running c then (Some (ErrText ''transport already running''), c) else (None, c\<lparr>hc_running := True\<rparr>))"

definition close_waiting :: "http_client \<Rightarrow> nat \<rightharpoonup> chan" where
  "close_waiting c = (\<lambda>n. case hc_chans c n of None \<Rightarrow> None
     | Some ch \<Rightarrow> Some (if n \<in> ran (hc_waiting c)
         then (if ch_buffer ch = None then ch\<lparr>ch_closed := True\<rparr> else ch\<lparr>ch_buffer := None\<rparr>) else ch))"

definition http_Stop :: "http_client \<Rightarrow> http_client" where
  "http_Stop c =
     (if \<not> hc_running c then c
      else c\<lparr>hc_running := False,
        hc_streams := (\<lambda>x. if x \<in> hc_active c then map_option es_Close (hc_streams c x) else hc_streams c x),
        hc_active := {}, hc_progress := {}, hc_responders := Map.empty,
        hc_chans := close_waiting c, hc_waiting := Map.empty, hc_headers := [], hc_pool := pool_Cleanup (hc_pool c)\<rparr>)"

subsection \<open>Batches\<close>

text \<open>The channels of a batch by the text of the id; an id that comes again replaces its channel.\<close>

fun register_requests :: "request list \<Rightarrow> (string \<times> nat) list \<Rightarrow> http_client \<Rightarrow> (string \<times> nat) list \<times> http_client" where
  "register_requests [] m c = (m, c)"
| "register_requests (r # rs) m c =
     (let i = go_str (req_id r); n = hc_next c in
      register_requests rs (put_assoc i n m)
        (c\<lparr>hc_responders := (hc_responders c)(i \<mapsto> n),
           hc_chans := (hc_chans c)(n \<mapsto> \<lparr>ch_buffer = None, ch_closed = False\<rparr>), hc_next := Suc n\<rparr>))"

text \<open>A round of polling: the responses that are there, taken off the table.\<close>

fun poll_round :: "(string \<times> nat) list \<Rightarrow> http_client \<Rightarrow> response list \<times> (string \<times> nat) list \<times> http_client" where
  "poll_round [] c = ([], [], c)"
| "poll_round ((i, n) # m) c =
     (case hc_chans c n of
        Some ch \<Rightarrow>
          (case ch_buffer ch of
             Some r \<Rightarrow>
               (case poll_round m (c\<lparr>hc_chans := (hc_chans c)(n \<mapsto> ch\<lparr>ch_buffer := None\<rparr>)\<rparr>) of
                  (rs, m', c') \<Rightarrow> (r # rs, m', c'))
           | None \<Rightarrow> (case poll_round m c of (rs, m', c') \<Rightarrow> (rs, (i, n) # m', c')))
      | None \<Rightarrow> (case poll_round m c of (rs, m', c') \<Rightarrow> (rs, (i, n) # m', c')))"

definition order_responses :: "request list \<Rightarrow> response list \<Rightarrow> response list" where
  "order_responses rs xs = List.map_filter (\<lambda>r. find (\<lambda>x. go_str (resp_id x) = go_str (req_id r)) xs) rs"

text \<open>Rounds of polling, with what the other goroutines do before each.\<close>

fun collect_responses :: "(http_client \<times> 'w \<Rightarrow> http_client \<times> 'w) list \<Rightarrow> nat \<Rightarrow> (string \<times> nat) list \<Rightarrow> response list \<Rightarrow>
    http_client \<times> 'w \<Rightarrow> response list option \<times> (string \<times> nat) list \<times> (http_client \<times> 'w)" where
  "collect_responses fs need m got s =
     (if need \<le> length got then (Some got, m, s)
      else case fs of
        [] \<Rightarrow> (None, m, s)
      | f # fs' \<Rightarrow>
          (case poll_round m (fst (f s)) of
             (rs, m', c) \<Rightarrow> collect_responses fs' need m' (got @ rs) (c, snd (f s))))"

declare collect_responses.simps [simp del]

definition leave_batch :: "request list \<Rightarrow> (string \<times> nat) list \<Rightarrow> http_client \<Rightarrow> http_client" where
  "leave_batch rs m c =
     c\<lparr>hc_responders := fold (\<lambda>r f. f(go_str (req_id r) := None)) rs (hc_responders c),
       hc_chans := fold (\<lambda>(i, n) f. f(n := map_option (\<lambda>ch. ch\<lparr>ch_closed := True\<rparr>) (f n))) m (hc_chans c)\<rparr>"

text \<open>The whole call: \<open>rounds\<close> is how often it polls before its time is up, or the context is done with the
  error \<open>ended\<close>.\<close>

definition http_SendBatchRequest :: "'w surroundings \<Rightarrow> (http_client \<times> 'w \<Rightarrow> http_client \<times> 'w) list \<Rightarrow> goerr option \<Rightarrow>
    batch_item list option \<Rightarrow> http_client \<times> 'w \<Rightarrow> ((goerr, response option list) outcome \<times> (http_client \<times> 'w)) option" where
  "http_SendBatchRequest env rounds ended batch s =
     (case batch of
        None \<Rightarrow> Some (Err (ErrText ''batch request is empty''), s)
      | Some items \<Rightarrow>
          if items = [] then Some (Err (ErrText ''batch request is empty''), s)
          else
            (case GetNextID (hc_ids (fst s)) of
               (k, ids) \<Rightarrow>
                 let stream = ''batch-'' @ hc_prefix (fst s) @ ''-'' @ show_int k; rs = GetRequests items in
                 (case register_requests rs [] ((fst s)\<lparr>hc_ids := ids\<rparr>) of
                    (m, c) \<Rightarrow>
                      map_option (\<lambda>(x, s1).
                        case x of
                          Panic p \<Rightarrow> (Panic p, s1)
                        | Err e \<Rightarrow> (Err (ErrWrapped (''failed to send batch request: '' @ Error e) e),
                                     (leave_batch rs m (fst s1), snd s1))
                        | Ok _ \<Rightarrow>
                            (case collect_responses rounds (length rs) m [] s1 of
                               (Some got, m', s2) \<Rightarrow>
                                 (Ok (if rs = [] then [] else NewJSONRPCBatchResponse (map Some (order_responses rs got))),
                                  (leave_batch rs m' (fst s2), snd s2))
                             | (None, m', s2) \<Rightarrow>
                                 (Err (case ended of Some e \<Rightarrow> e
                                     | None \<Rightarrow> ErrText ''timeout waiting for batch responses after 30s''),
                                  (leave_batch rs m' (fst s2), snd s2))))
                        (sendHTTPRequest env stream (json_print (JArr (map enc_batch_item items))) (c, snd s)))))"

end
