(* ===== verification/HttpDelivery.thy ===== *)
theory HttpDelivery
  imports HttpStreams
begin

section \<open>What the Streamable HTTP transport delivers\<close>

text \<open>
  What handling messages and posting can change of the transport, and what follows for calls and
  streams: a call answered by JSON returns the result, a call answered by a stream does not; a stream
  that was lost receives nothing more; an open circuit breaker stays open.
\<close>

subsection \<open>Frames\<close>

text \<open>The transport without what a message can change: session, response channels and their tables.\<close>

definition http_frame :: "http_client \<Rightarrow> http_client" where
  "http_frame c = c\<lparr>hc_session := [], hc_responders := Map.empty, hc_waiting := Map.empty, hc_chans := Map.empty,
     hc_pool := NewPool\<rparr>"

lemma frame_fields:
  assumes "http_frame c' = http_frame c"
  shows "hc_endpoint c' = hc_endpoint c" "hc_prefix c' = hc_prefix c" "hc_headers c' = hc_headers c" "hc_running c' = hc_running c"
    "hc_ids c' = hc_ids c" "hc_next c' = hc_next c" "hc_streams c' = hc_streams c" "hc_active c' = hc_active c"
    "hc_breaker c' = hc_breaker c" "hc_reconnect c' = hc_reconnect c" "hc_state c' = hc_state c" "hc_metrics c' = hc_metrics c" "hc_allowed c' = hc_allowed c" "hc_progress c' = hc_progress c"
  using arg_cong [OF assms, of hc_endpoint]
    arg_cong [OF assms, of hc_prefix]
    arg_cong [OF assms, of hc_headers]
    arg_cong [OF assms, of hc_running]
    arg_cong [OF assms, of hc_ids]
    arg_cong [OF assms, of hc_next]
    arg_cong [OF assms, of hc_streams]
    arg_cong [OF assms, of hc_active]
    arg_cong [OF assms, of hc_breaker]
    arg_cong [OF assms, of hc_reconnect]
    arg_cong [OF assms, of hc_state]
    arg_cong [OF assms, of hc_metrics]
    arg_cong [OF assms, of hc_allowed]
    arg_cong [OF assms, of hc_progress]
  by (simp_all add: http_frame_def)

lemma put_response_frame [simp]: "http_frame (snd (put_response n r c)) = http_frame c"
  by (simp add: put_response_def http_frame_def split: option.splits)

lemma HandleResponse_frame [simp]: "http_frame (snd (http_HandleResponse r c)) = http_frame c"
  using put_response_frame [of _ r c]
  by (auto simp: http_HandleResponse_def Let_def http_frame_def split: option.splits prod.splits handled.splits delivery.splits)
    (metis snd_conv)+

lemma HandleResponse_frame_of: "http_HandleResponse r c = (x, c') \<Longrightarrow> http_frame c' = http_frame c"
  using HandleResponse_frame [of r c] by simp

lemma batch_frame: "http_frame (fst (snd (batch_messages hs cx vs acc s))) = http_frame (fst s)"
proof (induction hs cx vs acc s rule: batch_messages.induct)
  case (2 hs cx v vs acc c w)
  show ?case
  proof (cases "is_request v")
    case True
    then show ?thesis
      using 2(1,2,3) by (simp split: option.split prod.split outcome.split)
  next
    case req: False
    show ?thesis
    proof (cases "is_response v")
      case True
      show ?thesis
      proof (cases "dec_response v")
        case (Some r)
        obtain x c' where h: "http_HandleResponse r c = (x, c')" by (cases "http_HandleResponse r c")
        then show ?thesis
          using 2(5) [OF req True Some, of x c'] HandleResponse_frame_of [OF h] req True Some by (cases x) simp_all
      qed (use 2(4) req True in simp)
    next
      case False
      then show ?thesis using 2(6,7,8) req by (simp split: option.split)
    qed
  qed
qed simp

lemma handleBatch_frame: "http_frame (fst (snd (handleBatchMessage env cx data s))) = http_frame (fst s)"
proof (cases "json_parse data")
  case (Some v)
  show ?thesis
  proof (cases v)
    case (JArr vs)
    obtain x rs s' where b: "batch_messages (su_handlers env) cx vs [] s = ((x, rs), s')"
      by (metis prod.collapse)
    then show ?thesis
      using batch_frame [of "su_handlers env" cx vs "[]" s] Some JArr
      by (cases x) (simp_all add: handleBatchMessage_def)
  qed (simp_all add: handleBatchMessage_def Some)
qed (simp add: handleBatchMessage_def)

lemma handleMessage_frame: "http_frame (fst (snd (handleMessage env cx data s))) = http_frame (fst s)"
proof -
  obtain c w where s: "s = (c, w)" by (cases s)
  show ?thesis
    unfolding s handleMessage_def Let_def prod.case
    by (simp add: handleBatch_frame split: option.split prod.split outcome.split) (auto dest: HandleResponse_frame_of)
qed

lemma take_session_frame [simp]: "http_frame (take_session a c) = http_frame c"
  by (simp add: take_session_def http_frame_def)

lemma answer_frame:
  "\<not> has_prefix stream ''request-'' \<Longrightarrow> http_frame (snd (answer_message ep stream a c)) = http_frame c"
  by (simp add: answer_message_def Let_def hand_off_def split: option.split)

lemma send_frame:
  assumes "sendHTTPRequest env stream data s = Some y" "\<not> has_prefix stream ''request-''"
  shows "http_frame (fst (snd y)) = http_frame (fst s)"
  using assms
proof (induction env stream data s y rule: sendHTTPRequest.raw_induct [rotated 1, consumes 1, case_names step])
  case (step send env stream data s y)
  obtain res w where net: "su_net env (request_post stream data (fst s)) (snd s) = (res, w)" by (metis prod.collapse)
  show ?case
  proof (cases res)
    case (Answered a)
    obtain r c where a: "answer_message (hc_endpoint (fst s)) stream a (fst s) = (r, c)" by (metis prod.collapse)
    have c: "http_frame c = http_frame (fst s)" using answer_frame [OF step(3), of "hc_endpoint (fst s)" a "fst s"] a by simp
    show ?thesis
    proof (cases r)
      case (Inr t)
      show ?thesis
      proof (cases t)
        case (Some msg)
        obtain x s1 where h: "handleMessage env background msg (c, w) = (x, s1)" by (metis prod.collapse)
        have s1: "http_frame (fst s1) = http_frame (fst s)"
          using handleMessage_frame [of env background msg "(c, w)"] h c by simp
        show ?thesis
        proof (cases x)
          case (Posting out wrap)
          then obtain z where "send env [] out s1 = Some z" "snd y = snd z"
            using step(2) net Answered a Inr Some h by (auto simp: bind_eq_Some_conv)
          then show ?thesis using step(1) [of env "[]" out s1 z] s1 by (simp add: has_prefix_def)
        qed (use step(2) net Answered a Inr Some h s1 in auto)
      qed (use step(2) net Answered a Inr c in auto)
    qed (use step(2) net Answered a c in auto)
  qed (use step(2) net in auto)
qed

lemma handle_and_post_frame:
  assumes "handle_and_post env cx data s = Some (x, s')"
  shows "http_frame (fst s') = http_frame (fst s)"
proof -
  obtain r s1 where h: "handleMessage env cx data s = (r, s1)" by (metis prod.collapse)
  have s1: "http_frame (fst s1) = http_frame (fst s)" using handleMessage_frame [of env cx data s] h by simp
  show ?thesis
    using assms h s1 send_frame [of env "[]" _ s1]
    by (cases r) (auto simp: handle_and_post_def has_prefix_def)
qed

subsection \<open>Answers without a message\<close>

definition quiet :: "net_result \<Rightarrow> bool" where
  "quiet res \<longleftrightarrow> (case res of
     Answered a \<Rightarrow> 400 \<le> ha_status a \<or> str_contains (ha_type a) ''text/event-stream''
       \<or> \<not> str_contains (ha_type a) ''application/json'' \<or> ha_cut a \<noteq> None \<or> ha_body a = []
   | _ \<Rightarrow> True)"

lemma quiet_message:
  assumes "quiet (Answered a)"
  shows "fst (answer_message ep stream a c) = Inr t \<Longrightarrow> t = None"
  using assms by (auto simp: quiet_def answer_message_def Let_def split: option.splits if_splits)

lemma quiet_send:
  assumes "quiet (fst (su_net env (request_post stream data (fst s)) (snd s)))"
  shows "\<exists>x s'. sendHTTPRequest env stream data s = Some (x, s') \<and> \<not> is_panic x"
proof -
  obtain res w where net: "su_net env (request_post stream data (fst s)) (snd s) = (res, w)" by (metis prod.collapse)
  show ?thesis
  proof (cases res)
    case (Answered a)
    obtain r c where a: "answer_message (hc_endpoint (fst s)) stream a (fst s) = (r, c)" by (metis prod.collapse)
    moreover have "quiet (Answered a)" using assms net Answered by simp
    ultimately consider e where "r = Inl e" | "r = Inr None"
      using quiet_message [of a "hc_endpoint (fst s)" stream "fst s" "projr r"] by (cases r) simp_all
    then show ?thesis
      by cases (subst sendHTTPRequest.simps, simp add: net Answered a)+
  qed (subst sendHTTPRequest.simps, simp add: net)+
qed

definition stream_accept :: string where "stream_accept = ''application/json, text/event-stream''"

text \<open>No header of the configuration asks for another type than the two the transport accepts.\<close>

definition accepts_streams :: "http_client \<Rightarrow> bool" where
  "accepts_streams c \<longleftrightarrow> list_all (\<lambda>h. fst h = ''Accept'' \<longrightarrow> snd h = stream_accept) (hc_headers c)"

lemma fold_put_keeps:
  "list_all (\<lambda>h. fst h = x \<longrightarrow> snd h = y) hs \<Longrightarrow> map_of m x = Some y \<Longrightarrow>
   map_of (fold (\<lambda>(k, v). put_assoc k v) hs m) x = Some y"
  by (induction hs arbitrary: m) (auto simp: map_of_put_assoc)

lemma post_accept:
  "accepts_streams c \<Longrightarrow> map_of (po_headers (request_post stream data c)) ''Accept'' = Some stream_accept"
  by (simp add: request_post_def Let_def map_of_put_assoc accepts_streams_def fold_put_keeps stream_accept_def)

subsection \<open>The loop of a request's stream\<close>

text \<open>The transport without what a loop changes.\<close>

definition loop_frame :: "http_client \<Rightarrow> http_client" where
  "loop_frame c = c\<lparr>hc_streams := Map.empty, hc_active := {}, hc_breaker := None, hc_state := StateDisconnected,
     hc_metrics := \<lparr>rm_attempts = 0, rm_successes = 0, rm_failures = 0, rm_duration = 0, rm_last = 0\<rparr>\<rparr>"

lemma loop_frame_fields:
  assumes "loop_frame c' = loop_frame c"
  shows "hc_responders c' = hc_responders c" "hc_chans c' = hc_chans c" "hc_headers c' = hc_headers c"
  using arg_cong [OF assms, of hc_responders] arg_cong [OF assms, of hc_chans] arg_cong [OF assms, of hc_headers]
  by (simp_all add: loop_frame_def)

lemma loop_frame_simps [simp]:
  "loop_frame (update_stream stream f c) = loop_frame c" "loop_frame (leave_loop stream c) = loop_frame c"
  "loop_frame (updateConnectionState st c) = loop_frame c" "loop_frame (fst (in_state st s)) = loop_frame (fst s)"
  "loop_frame (fst (attempted ok le b s)) = loop_frame (fst s)" "loop_frame (hand_off stream a c) = loop_frame c"
  by (simp_all add: loop_frame_def update_stream_def leave_loop_def updateConnectionState_def in_state_def attempted_def
      hand_off_def Let_def)

lemma in_state_simps [simp]:
  "snd (in_state st s) = snd s" "snd (attempted ok le b s) = snd s" "hc_responders (fst (in_state st s)) = hc_responders (fst s)"
  by (simp_all add: in_state_def attempted_def updateConnectionState_def)

lemma leaving_simps [simp]: "fst (leaving stream s) = Left" "snd (leaving stream s) = (leave_loop stream (fst s), snd s)"
  by (simp_all add: leaving_def)

lemma Call_of_failure:
  assumes "\<exists>e. fn s = (Some e, s)"
  shows "\<exists>e b'. breaker_Call now fn (b, s) = (Some e, b', s)"
  using assms by (auto simp: call_defs Let_def split: http_circuit.split)

lemma request_attempt_fails:
  assumes "has_prefix stream ''request-''" "hc_responders (fst s) stream = None"
  shows "\<exists>e. attemptEventSourceConnection env x stream s = (Some e, s)"
  using assms by (simp add: attemptEventSourceConnection_def)

lemma request_iteration:
  assumes "has_prefix stream ''request-''" "hc_responders (fst s) stream = None"
    and "loop_iteration env stream le a s = (ph, s')"
  shows "ph \<noteq> Listening" "loop_frame (fst s') = loop_frame (fst s)" "snd s' = snd s"
proof -
  have call: "\<exists>e b'. breaker_Call now (attemptEventSourceConnection env x stream) (b, in_state st s) = (Some e, b', in_state st s)"
    for now x b st
    using request_attempt_fails [of stream "in_state st s"] assms(1,2) by (intro Call_of_failure) simp
  have "ph \<noteq> Listening \<and> loop_frame (fst s') = loop_frame (fst s) \<and> snd s' = snd s"
  proof (cases "hc_breaker (fst s)")
    case (Some b)
    obtain e b' where "breaker_Call (le_clock le) (attemptEventSourceConnection env (le_cancelled le) stream)
        (b, in_state StateReconnecting s) = (Some e, b', in_state StateReconnecting s)"
      using call by blast
    then show ?thesis
      using assms(3) Some by (auto simp: loop_iteration_def Let_def leaving_def split: if_splits)
  qed (use assms(3) in \<open>auto simp: loop_iteration_def leaving_def split: if_splits\<close>)
  then show "ph \<noteq> Listening" "loop_frame (fst s') = loop_frame (fst s)" "snd s' = snd s" by blast+
qed

lemma requested_frame_step:
  assumes "has_prefix stream ''request-''" "hc_responders (fst (snd ps)) stream = None" "fst ps \<noteq> Listening"
  shows "fst (stream_step env stream op ps) \<noteq> Listening"
    "loop_frame (fst (snd (stream_step env stream op ps))) = loop_frame (fst (snd ps))"
    "snd (snd (stream_step env stream op ps)) = snd (snd ps)"
proof -
  obtain ph s where ps: "ps = (ph, s)" by (cases ps)
  have "fst (loop_step env stream ev ps) \<noteq> Listening \<and>
      loop_frame (fst (snd (loop_step env stream ev ps))) = loop_frame (fst (snd ps)) \<and>
      snd (snd (loop_step env stream ev ps)) = snd (snd ps)" for ev
  proof (cases ph)
    case (Trying a)
    show ?thesis
    proof (cases ev)
      case (Iterate le)
      obtain q s' where i: "loop_iteration env stream le a s = (q, s')" by (metis prod.collapse)
      show ?thesis
        using request_iteration [OF _ _ i] assms(1,2) ps Trying Iterate i by (simp add: loop_step_def)
    qed (use ps Trying in \<open>simp_all add: loop_step_def\<close>)
  qed (use assms(3) ps in \<open>simp_all add: loop_step_def\<close>)
  then show "fst (stream_step env stream op ps) \<noteq> Listening"
    "loop_frame (fst (snd (stream_step env stream op ps))) = loop_frame (fst (snd ps))"
    "snd (snd (stream_step env stream op ps)) = snd (snd ps)"
    using assms(3) by (cases op; simp add: stream_step_def)+
qed

lemma request_run:
  assumes "has_prefix stream ''request-''" "hc_responders (fst (snd ps)) stream = None" "fst ps \<noteq> Listening"
  shows "loop_frame (fst (snd (run_stream env stream ops ps))) = loop_frame (fst (snd ps)) \<and>
    snd (snd (run_stream env stream ops ps)) = snd (snd ps)"
  using assms
proof (induction ops arbitrary: ps)
  case (Cons op ops)
  have s: "fst (stream_step env stream op ps) \<noteq> Listening"
    "loop_frame (fst (snd (stream_step env stream op ps))) = loop_frame (fst (snd ps))"
    "snd (snd (stream_step env stream op ps)) = snd (snd ps)"
    using requested_frame_step [OF Cons.prems] by blast+
  moreover have "hc_responders (fst (snd (stream_step env stream op ps))) stream = None"
    using loop_frame_fields(1) [OF s(2)] Cons.prems(2) by simp
  ultimately show ?case
    using Cons.IH [of "stream_step env stream op ps"] Cons.prems(1) by (simp add: run_stream_def)
qed (simp add: run_stream_def)

lemma streamed_post:
  assumes "su_net env (request_post stream data (fst s)) (snd s) = (Answered a, w)"
    and "ha_status a < 400" "str_contains (ha_type a) ''text/event-stream''"
  shows "sendHTTPRequest env stream data s = Some (Ok (), (hand_off stream a (take_session a (fst s)), w))"
  using assms by (subst sendHTTPRequest.simps) (simp add: answer_message_def Let_def)

lemma begin_call_fields:
  assumes "begin_call c = ((i, n), c1)"
  shows "hc_responders c1 = (hc_responders c)(i \<mapsto> n)" "hc_chans c1 n = Some \<lparr>ch_buffer = None, ch_closed = False\<rparr>"
    "hc_headers c1 = hc_headers c" "hc_endpoint c1 = hc_endpoint c" "hc_session c1 = hc_session c"
    "received n c1 = None"
  using assms by (auto simp: begin_call_def Let_def received_def split: prod.splits)

lemma request_stream_simps [simp]: "has_prefix (request_stream i) ''request-''" "request_stream i \<noteq> i"
proof -
  show "has_prefix (request_stream i) ''request-''"
    unfolding request_stream_def by (rule has_prefix_append)
  have "length (request_stream i) \<noteq> length i" by (simp add: request_stream_def)
  then show "request_stream i \<noteq> i" by metis
qed

lemma post_panic_simps [simp]: "\<not> is_panic x \<Longrightarrow> post_panic x y = y"
  by (cases x) (simp_all add: post_panic_def)

lemma loop_frame_received:
  assumes "loop_frame c' = loop_frame c" shows "received n c' = received n c"
  using loop_frame_fields [OF assms] by (simp add: received_def)

lemma loop_frame_accepts:
  assumes "loop_frame c' = loop_frame c" shows "accepts_streams c' = accepts_streams c"
  using loop_frame_fields [OF assms] by (simp add: accepts_streams_def)

lemma start_loop_simps [simp]: "fst (start_loop s) = Trying 0" "snd (start_loop s) = in_state StateConnecting s"
  by (simp_all add: start_loop_def)

subsection \<open>Servers that answer by streams\<close>

text \<open>
  The contract of a server that never answers a POST with a message in JSON when it is asked for a stream.
\<close>

locale streaming_server =
  fixes env :: "'w surroundings"
  assumes streams: "map_of (po_headers p) ''Accept'' = Some stream_accept \<Longrightarrow> quiet (fst (su_net env p v))"
begin

lemma cancel_returns:
  assumes "accepts_streams (fst s)"
  shows "\<exists>x s'. cancel_notice env i s = Some (x, s') \<and> \<not> is_panic x"
proof -
  let ?data = "json_print (enc_notification (NewNotification ''$/cancelRequest'' (GRaw (Some (enc_cancel_params \<lparr>cp_id = GStr i\<rparr>)))))"
  obtain x s' where "sendHTTPRequest env [] ?data s = Some (x, s')" "\<not> is_panic x"
    using quiet_send [of env "[]" ?data s] post_accept [OF assms] streams by blast
  then show ?thesis
    by (cases x) (simp_all add: cancel_notice_def http_SendNotification_def map_err_def)
qed

text \<open>
  A call whose response is streamed fails: when the server answers the POST with an event stream (as it
  may, the transport asks for it), then whatever the stream carries and however its reader and its loop
  run, the caller does not get the response, but the error of its time limit (or of its context). The
  loop looks for the handler of the response under the name of the stream, where none is registered.
\<close>

lemma streamed_call:
  assumes "begin_call c = ((i, n), c1)"
    and "su_net env (request_post (request_stream i) (json_print (enc_request (NewRequest (GStr i) m params))) c1) w = (Answered a, w1)"
    and "ha_status a < 400" "str_contains (ha_type a) ''text/event-stream''"
    and "hc_responders c (request_stream i) = None" "accepts_streams c"
  shows "\<exists>s'. http_SendRequest env (\<lambda>k s. snd (run_stream env (request_stream i) ops (start_loop s))) cancelled m params (c, w)
    = Some (Err (wait_error cancelled i m), s')"
proof -
  let ?stream = "request_stream i" and ?data = "json_print (enc_request (NewRequest (GStr i) m params))"
  let ?s1 = "(hand_off ?stream a (take_session a c1), w1)"
  let ?s2 = "snd (run_stream env ?stream ops (start_loop ?s1))"
  note c1 = begin_call_fields [OF assms(1)]
  have post: "sendHTTPRequest env ?stream ?data (c1, w) = Some (Ok (), ?s1)"
    using streamed_post [of env ?stream ?data "(c1, w)" a w1] assms(2-4) by simp
  have taken: "hc_responders (take_session a c1) = hc_responders c1" "hc_chans (take_session a c1) = hc_chans c1"
    "hc_headers (take_session a c1) = hc_headers c1"
    by (simp_all add: take_session_def)
  have s1: "loop_frame (fst ?s1) = loop_frame (take_session a c1)" by simp
  have "hc_responders (fst (snd (start_loop ?s1))) ?stream = None"
    using loop_frame_fields(1) [OF s1] taken(1) c1(1) assms(5) by simp
  from request_run [of ?stream "start_loop ?s1" env ops, OF _ this]
  have s2: "loop_frame (fst ?s2) = loop_frame (take_session a c1)" by simp
  have none: "received n (fst ?s2) = None"
    using loop_frame_received [OF s2, of n] c1(6) taken(2) by (simp add: received_def)
  have "accepts_streams (fst ?s2)"
    using loop_frame_accepts [OF s2] assms(6) taken(3) c1(3) by (simp add: accepts_streams_def)
  then obtain x s3 where "cancel_notice env i ?s2 = Some (x, s3)" "\<not> is_panic x"
    using cancel_returns by blast
  then show ?thesis
    using assms(1) post none by (simp add: http_SendRequest_def Let_def)
qed

end

subsection \<open>Lost streams and open breakers\<close>

lemma lines_deaf: "\<not> es_connected es \<Longrightarrow> sse_lines ls (es, p) = (es, p)"
  by (cases ls) simp_all

lemma read_deaf: "\<not> es_connected es \<Longrightarrow> readEvents ls e es = es"
  by (simp add: readEvents_def lines_deaf leave_stream_def)

lemma read_ends: "\<not> es_connected (readEvents ls e es)"
  by (simp add: readEvents_def leave_stream_def es_error_def Let_def)

lemma close_simps [simp]:
  "es_queue (es_Close es) = es_queue es" "\<not> es_connected (es_Close es)"
  by (simp_all add: es_Close_def)

definition deaf :: "string list \<Rightarrow> string \<Rightarrow> http_client \<Rightarrow> bool" where
  "deaf q stream c \<longleftrightarrow> (\<exists>es k. hc_streams c stream = Some es \<and> \<not> es_connected es \<and> es_queue es = drop k q)"

lemma deaf_update:
  assumes "deaf q stream c" "\<And>es. \<not> es_connected es \<Longrightarrow> \<not> es_connected (f es) \<and> (\<exists>k. es_queue (f es) = drop k (es_queue es))"
  shows "deaf q stream (update_stream stream f c)"
proof -
  obtain es k where es: "hc_streams c stream = Some es" "\<not> es_connected es" "es_queue es = drop k q"
    using assms(1) by (auto simp: deaf_def)
  obtain j where "es_queue (f es) = drop j (es_queue es)" using assms(2) [OF es(2)] by blast
  then have "es_queue (f es) = drop (j + k) q" using es(3) by simp
  then show ?thesis using assms(2) [OF es(2)] es(1) by (auto simp: deaf_def update_stream_def)
qed

lemma deaf_fields:
  assumes "hc_streams c' = hc_streams c" shows "deaf q stream c' = deaf q stream c"
  using assms by (simp add: deaf_def)

lemma createEventSource_client: "createEventSource env stream l s = (x, s') \<Longrightarrow> fst s' = fst s"
  by (auto simp: createEventSource_def Let_def split: prod.splits net_result.splits)

lemma attempt_deaf:
  assumes "deaf q stream (fst s)"
  shows "deaf q stream (fst (snd (attemptEventSourceConnection env x stream s)))"
proof (cases "attemptEventSourceConnection env x stream s = (fst (attemptEventSourceConnection env x stream s), s)")
  case True
  then show ?thesis using assms by (metis snd_conv)
next
  case False
  let ?l = "case hc_streams (fst s) stream of None \<Rightarrow> [] | Some es \<Rightarrow> es_last es"
  obtain y c w where e: "createEventSource env stream ?l s = (y, (c, w))" by (metis prod.collapse)
  have "c = fst s" using createEventSource_client [OF e] by simp
  moreover have "deaf q stream (update_stream stream (\<lambda>es. es\<lparr>es_body := True, es_last := l\<rparr>) c)" if "c = fst s" for l
    using assms that by (intro deaf_update) (auto intro: exI [of _ 0])
  ultimately show ?thesis
    using False e assms by (cases y) (auto simp: attemptEventSourceConnection_def Let_def split: if_splits)
qed

lemma Call_invariant:
  assumes "P s" "\<And>s. P s \<Longrightarrow> P (snd (fn s))"
  shows "P (snd (snd (breaker_Call now fn (b, s))))"
proof -
  obtain x s' where "fn s = (x, s')" by (metis prod.collapse)
  then show ?thesis
    using assms(1) assms(2) [of s] by (cases x) (simp_all add: call_defs Let_def split: http_circuit.split)
qed

lemma leave_deaf: "deaf q stream c \<Longrightarrow> deaf q stream (leave_loop stream c)"
  by (auto simp: leave_loop_def Let_def deaf_def update_stream_def)

lemma state_deaf [simp]:
  "deaf q stream (updateConnectionState st c) = deaf q stream c"
  "deaf q stream (fst (in_state st s)) = deaf q stream (fst s)"
  "deaf q stream (fst (attempted ok le b s)) = deaf q stream (fst s)"
  by (simp_all add: deaf_def updateConnectionState_def in_state_def attempted_def)

lemma iteration_deaf:
  assumes "deaf q stream (fst s)"
  shows "deaf q stream (fst (snd (loop_iteration env stream le a s)))"
proof (cases "hc_breaker (fst s)")
  case (Some b)
  obtain x b' s' where c: "breaker_Call (le_clock le) (attemptEventSourceConnection env (le_cancelled le) stream)
      (b, in_state StateReconnecting s) = (x, b', s')"
    by (metis prod.collapse)
  have "deaf q stream (fst s')"
    using Call_invariant [of "\<lambda>s. deaf q stream (fst s)" "in_state StateReconnecting s"
        "attemptEventSourceConnection env (le_cancelled le) stream" "le_clock le" b, OF _ attempt_deaf] assms c by simp
  then show ?thesis
    using assms Some c by (cases x) (auto simp: loop_iteration_def Let_def leave_deaf)
qed (use assms in \<open>simp add: loop_iteration_def leave_deaf\<close>)

lemma take_deaf:
  assumes "deaf q stream c" "hc_streams c stream = Some es"
  shows "deaf q stream (update_stream stream (\<lambda>es. es\<lparr>es_queue := tl (es_queue es)\<rparr>) c)"
  using assms(1) by (rule deaf_update) (auto simp: drop_Suc intro: exI [of _ "Suc 0"])

lemma step_deaf:
  assumes "deaf q stream (fst (snd ps))"
  shows "deaf q stream (fst (snd (stream_step env stream op ps)))"
proof -
  obtain ph c w where ps: "ps = (ph, (c, w))" by (cases ps) auto
  obtain es where es: "hc_streams c stream = Some es" "\<not> es_connected es" using assms ps by (auto simp: deaf_def)
  have same: "update_stream stream f c = c" if "f es = es" for f
    using that es(1) by (simp add: update_stream_def fun_upd_idem)
  have "deaf q stream (fst (snd (loop_step env stream ev ps)))" for ev
  proof (cases ph)
    case (Trying a)
    then show ?thesis
      using iteration_deaf [of q stream "(c, w)"] assms ps by (cases ev) (simp_all add: loop_step_def)
  next
    case Listening
    show ?thesis
    proof (cases ev)
      case (TakeMessage cx)
      show ?thesis
      proof (cases "es_queue es")
        case (Cons m ms)
        let ?c = "update_stream stream (\<lambda>es. es\<lparr>es_queue := ms\<rparr>) c"
        have "?c = update_stream stream (\<lambda>es. es\<lparr>es_queue := tl (es_queue es)\<rparr>) c"
          using es(1) Cons by (simp add: update_stream_def)
        then have d: "deaf q stream ?c" using take_deaf [of q stream c es] assms ps es(1) by simp
        have "deaf q stream (fst s')" if "handle_and_post env cx m (?c, w) = Some (x, s')" for x s'
          using deaf_fields [OF frame_fields(7) [OF handle_and_post_frame [OF that]]] d by simp
        then show ?thesis
          using assms ps Listening TakeMessage es(1) Cons
          by (auto simp: loop_step_def split: option.split outcome.split)
      qed (use assms ps Listening TakeMessage es(1) in \<open>simp add: loop_step_def\<close>)
    next
      case TakeError
      have "deaf q stream (update_stream stream (\<lambda>es. es\<lparr>es_errors := tl (es_errors es)\<rparr>) c)"
        using assms ps by (intro deaf_update) (auto intro: exI [of _ 0])
      then show ?thesis using assms ps Listening TakeError es(1) by (simp add: loop_step_def)
    qed (use assms ps Listening leave_deaf in \<open>simp_all add: loop_step_def\<close>)
  qed (use assms ps in \<open>simp_all add: loop_step_def\<close>)
  then show ?thesis
    using assms ps same es(2) by (cases op) (simp_all add: stream_step_def lines_deaf read_deaf)
qed

text \<open>
  A stream that was lost never receives again: once its connection ended, then whatever arrives and
  however often its loop reconnects, with success or not, no message is ever added to its queue.
  Reconnecting does not set the flag of being connected that its reader looks at first.
\<close>

theorem lost_stream_stays_deaf:
  assumes "hc_streams c stream = Some es"
  shows "\<exists>es' k. hc_streams (fst (snd (run_stream env stream (Loses ls e # ops) (ph, (c, w))))) stream = Some es'
    \<and> \<not> es_connected es' \<and> es_queue es' = drop k (es_queue (readEvents ls e es))"
proof -
  let ?ps = "stream_step env stream (Loses ls e) (ph, (c, w))" and ?q = "es_queue (readEvents ls e es)"
  have "deaf ?q stream (fst (snd ?ps))"
    using assms read_ends by (auto simp: stream_step_def update_stream_def deaf_def intro: exI [of _ 0])
  then have "deaf ?q stream (fst (snd (fold (stream_step env stream) ops ?ps)))"
    by (induction ops arbitrary: ph c w rule: rev_induct) (simp_all add: step_deaf)
  then show ?thesis by (auto simp: run_stream_def deaf_def)
qed

text \<open>
  An open circuit breaker stays open: the loop of a stream asks for the state of the breaker before it
  makes a call, and only a call ends the open state, so whatever time passes no stream that lost its
  connection is ever connected again, and nothing is asked of the server for it.
\<close>

theorem open_breaker_stays_open:
  fixes w :: 'w and env :: "'w surroundings"
  assumes "hc_breaker c = Some b" "hb_state b = HttpOpen"
    and "run_stream env stream ops (ph, (c, w)) = (ph', (c', w'))"
  shows "hc_breaker c' = Some b \<and> (\<forall>a. ph = Trying a \<longrightarrow> ph' \<in> {Trying a, Left} \<and> w' = w)"
proof -
  define inv where "inv = (\<lambda>ps :: phase \<times> (http_client \<times> 'w). hc_breaker (fst (snd ps)) = Some b \<and> (\<forall>a. ph = Trying a \<longrightarrow> fst ps \<in> {Trying a, Left} \<and> snd (snd ps) = w))"
  have keeps: "hc_breaker (leave_loop stream c) = hc_breaker c" "hc_breaker (fst (in_state st s)) = hc_breaker (fst s)"
    "hc_breaker (update_stream stream f c) = hc_breaker c" for c st f and s :: "http_client \<times> 'w"
    by (simp_all add: leave_loop_def Let_def update_stream_def in_state_def updateConnectionState_def)
  have iter: "fst (loop_iteration env stream le a s) \<in> {Trying a, Left}" "hc_breaker (fst (snd (loop_iteration env stream le a s))) = Some b"
    "snd (snd (loop_iteration env stream le a s)) = snd s"
    if "hc_breaker (fst s) = Some b" for le a and s :: "http_client \<times> 'w"
    using that assms(2) by (simp_all add: loop_iteration_def Let_def keeps)
  have step: "inv (stream_step env stream op ps)" if "inv ps" for op ps
  proof -
    obtain p s where ps: "ps = (p, s)" by (cases ps)
    have s: "hc_breaker (fst s) = Some b" "\<And>a. ph = Trying a \<Longrightarrow> p \<in> {Trying a, Left} \<and> snd s = w"
      using that ps by (auto simp: inv_def)
    have "inv (loop_step env stream ev ps)" for ev
    proof (cases p)
      case (Trying a)
      then show ?thesis
        using that ps s iter [OF s(1)] keeps by (cases ev) (auto simp: loop_step_def inv_def)
    next
      case Listening
      then have "\<And>a. ph \<noteq> Trying a" using s(2) by auto
      moreover have "hc_breaker c2 = Some b"
        if "handle_and_post env cx m (update_stream stream f (fst s), snd s) = Some (x, (c2, w2))" for cx m f x c2 w2
        using frame_fields(9) [OF handle_and_post_frame [OF that]] keeps(3) s(1) by simp
      then have "hc_breaker (fst (snd (loop_step env stream ev ps))) = Some b"
        using s(1) ps Listening keeps
        by (auto simp: loop_step_def split: loop_event.split option.split list.split outcome.split)
      ultimately show ?thesis by (simp add: inv_def)
    qed (use that ps in \<open>simp_all add: loop_step_def\<close>)
    then show ?thesis using that ps keeps by (cases op) (simp_all add: stream_step_def inv_def)
  qed
  have "inv (fold (stream_step env stream) ops (ph, (c, w)))"
    by (rule fold_invariant_list) (use step assms(1) in \<open>auto simp: inv_def\<close>)
  then show ?thesis using assms(3) by (auto simp: inv_def run_stream_def)
qed

subsection \<open>A new transport\<close>

definition demo_rel :: rel_config where
  "demo_rel = \<lparr>rel_max_retries = 3, rel_initial_delay = second, rel_max_delay = 30 * second, rel_factor = 2,
     rel_breaker = \<lparr>brc_enabled = True, brc_failures = 5, brc_successes = 2, brc_timeout = 60 * second\<rparr>\<rparr>"

definition demo_client :: http_client where
  "demo_client = newStreamableHTTPTransport 0 ''http://localhost/mcp'' demo_rel"

definition demo_surroundings :: "nat surroundings" where
  "demo_surroundings = \<lparr>su_net = (\<lambda>p w. (NotSent (ErrText ''connection refused''), Suc w)), su_handlers = NewHandlers,
     su_why = (\<lambda>d. ErrJSONSyntax ''unexpected end of JSON input'')\<rparr>"

definition demo_iteration :: loop_env where
  "demo_iteration = \<lparr>le_done = False, le_waited = False, le_cancelled = False, le_clock = (\<lambda>k. 1000 * second), le_spent = 0,
     le_end = 0\<rparr>"

lemma demo_begin:
  obtains c1 where "begin_call (demo_client\<lparr>hc_headers := hs\<rparr>) = ((''streamable-http-1'', 0), c1)"
proof -
  have "show_int 1 = ''1''" by code_simp
  then show thesis
    using that by (simp add: begin_call_def demo_client_def newStreamableHTTPTransport_def GetNextID_def NewIds_def Let_def)
qed

theorem lost_stream_stays_deaf_witness:
  "\<exists>es' k. hc_streams (fst (snd (run_stream demo_surroundings ''listener-1''
      (Loses [''data: {}'', newline] (ErrText ''EOF'') # [Loops (Iterate demo_iteration), Reads [''data: {}'']])
      (Trying 0, (demo_client\<lparr>hc_streams := [''listener-1'' \<mapsto> fresh_source ''listener-1'' []]\<rparr>, 0))))) ''listener-1'' = Some es'
    \<and> \<not> es_connected es' \<and> es_queue es' = drop k (es_queue (readEvents [''data: {}'', newline] (ErrText ''EOF'')
        (fresh_source ''listener-1'' [])))"
  by (rule lost_stream_stays_deaf) simp

definition demo_breaker :: http_breaker where
  "demo_breaker = (NewCircuitBreaker 0)\<lparr>hb_state := HttpOpen\<rparr>"

definition broken_client :: http_client where
  "broken_client = demo_client\<lparr>hc_breaker := Some demo_breaker\<rparr>"

definition broken_run :: "phase \<times> (http_client \<times> nat)" where
  "broken_run = run_stream demo_surroundings ''listener-1'' [Loops (Iterate demo_iteration)] (Trying 1, (broken_client, 0))"

theorem open_breaker_stays_open_witness:
  "hc_breaker (fst (snd broken_run)) = Some demo_breaker \<and> fst broken_run \<in> {Trying 1, Left} \<and> snd (snd broken_run) = 0"
  using open_breaker_stays_open [where c = broken_client and b = demo_breaker and env = demo_surroundings
      and stream = "''listener-1''" and ops = "[Loops (Iterate demo_iteration)]" and ph = "Trying 1" and w = 0
      and ph' = "fst broken_run" and c' = "fst (snd broken_run)" and w' = "snd (snd broken_run)"]
  by (simp add: broken_client_def demo_breaker_def broken_run_def)

end
