(* ===== verification/HttpInvariant.thy ===== *)
theory HttpInvariant
  imports HttpAnswers
begin

section \<open>The response channels of the Streamable HTTP transport\<close>

text \<open>
  Calls and batches register channels, messages put responses into them, and whoever leaves closes its
  own. The steps interleave in any order. The invariant says that a registered channel is open; with it
  no message makes the transport panic or block, and posting returns when the server runs out of messages.
\<close>

subsection \<open>The invariant\<close>

definition open_chan :: "http_client \<Rightarrow> nat \<Rightarrow> bool" where
  "open_chan c n \<longleftrightarrow> (case hc_chans c n of None \<Rightarrow> False | Some ch \<Rightarrow> \<not> ch_closed ch)"

definition client_ok :: "http_client \<Rightarrow> bool" where
  "client_ok c \<longleftrightarrow> (\<forall>i n. hc_responders c i = Some n \<longrightarrow> open_chan c n) \<and> hc_waiting c = Map.empty \<and> pool_ok (hc_pool c)"

lemma client_ok_same:
  assumes "hc_responders c' = hc_responders c" "hc_waiting c' = hc_waiting c" "hc_chans c' = hc_chans c" "hc_pool c' = hc_pool c"
  shows "client_ok c' = client_ok c"
  using assms by (simp add: client_ok_def open_chan_def)

text \<open>What a message does to the tables: a response takes its entry away, channels stay open or closed.\<close>

definition fewer :: "http_client \<Rightarrow> http_client \<Rightarrow> bool" where
  "fewer c' c \<longleftrightarrow> hc_responders c' \<subseteq>\<^sub>m hc_responders c \<and> open_chan c' = open_chan c \<and> hc_next c' = hc_next c
     \<and> (\<forall>n. hc_chans c n = None \<longrightarrow> hc_chans c' n = None)"

lemma fewer_refl [simp]: "fewer c c" by (simp add: fewer_def)

lemma fewer_trans: "fewer c2 c1 \<Longrightarrow> fewer c1 c \<Longrightarrow> fewer c2 c"
  unfolding fewer_def by (metis map_le_trans)

lemma fewer_fields:
  assumes "hc_responders c' = hc_responders c" "hc_chans c' = hc_chans c" "hc_next c' = hc_next c"
  shows "fewer c' c"
  using assms by (simp add: fewer_def open_chan_def [abs_def])

lemma HandleResponse_client:
  assumes "client_ok c" "http_HandleResponse r c = (x, c')"
  shows "x = Handled None \<and> client_ok c' \<and> fewer c' c"
proof (cases "hc_responders c (go_str (resp_id r))")
  case (Some n)
  let ?i = "go_str (resp_id r)"
  obtain ch where ch: "hc_chans c n = Some ch" "\<not> ch_closed ch"
    using assms(1) Some unfolding client_ok_def open_chan_def by (cases "hc_chans c n") fastforce+
  let ?c = "\<lambda>b. c\<lparr>hc_chans := (hc_chans c)(n \<mapsto> ch\<lparr>ch_buffer := b\<rparr>), hc_responders := (hc_responders c)(?i := None)\<rparr>"
  have keep: "hc_chans c = (hc_chans c)(n \<mapsto> ch\<lparr>ch_buffer := ch_buffer ch\<rparr>)" using ch(1) by (simp add: fun_upd_idem)
  have "\<exists>b. x = Handled None \<and> c' = ?c b"
  proof (cases "ch_buffer ch")
    case None
    then show ?thesis
      using assms(2) Some ch by (intro exI [of _ "Some r"]) (auto simp: http_HandleResponse_def put_response_def)
  next
    case (Some y)
    then have "x = Handled None \<and> c' = c\<lparr>hc_responders := (hc_responders c)(?i := None)\<rparr>"
      using assms(2) \<open>hc_responders c ?i = Some n\<close> ch by (auto simp: http_HandleResponse_def put_response_def)
    then show ?thesis using keep by (intro exI [of _ "ch_buffer ch"]) simp
  qed
  then obtain b where b: "x = Handled None" "c' = ?c b" by blast
  have o: "open_chan (?c b) = open_chan c" using ch by (auto simp: open_chan_def fun_eq_iff)
  have "client_ok (?c b)" using assms(1) unfolding client_ok_def o by (auto split: if_splits)
  moreover have "fewer (?c b) c" using o ch by (auto simp: fewer_def map_le_def)
  ultimately show ?thesis using b by simp
next
  case None
  obtain p where p: "HandleResponse r (hc_pool c) = Delivered p" "pool_ok p"
    using HandleResponse_ok [of "hc_pool c" r] assms(1) by (auto simp: client_ok_def)
  then have "x = Handled None \<and> c' = c\<lparr>hc_pool := p\<rparr>"
    using assms None by (auto simp: http_HandleResponse_def client_ok_def)
  then show ?thesis using assms(1) p(2) by (auto simp: client_ok_def open_chan_def fewer_def)
qed

definition sound :: "handled \<Rightarrow> bool" where
  "sound x \<longleftrightarrow> (case x of Handled e \<Rightarrow> True | Posting t f \<Rightarrow> True | _ \<Rightarrow> False)"

lemma sound_simps [simp]: "sound (Handled e)" "sound (Posting t f)" "\<not> sound Blocks" "\<not> sound (Panics m)"
  by (simp_all add: sound_def)

lemma base_request_cases:
  obtains x w' where "base_HandleRequest hs cx r w = (Ok x, w')" | e w' where "base_HandleRequest hs cx r w = (Err e, w')"
proof -
  obtain y w' where y: "base_HandleRequest hs cx r w = (y, w')" by (metis prod.collapse)
  then show thesis using that base_HandleRequest_no_panic [of hs cx r w] by (cases y) auto
qed

lemma batch_client:
  assumes "client_ok c" "batch_messages hs cx vs acc (c, w) = ((x, rs), (c', w'))"
  shows "sound x \<and> client_ok c' \<and> fewer c' c"
  using assms
proof (induction vs arbitrary: acc c w)
  case (Cons v vs)
  show ?case
  proof (cases "is_request v")
    case True
    show ?thesis
    proof (cases "dec_request v")
      case (Some r)
      show ?thesis
        by (rule base_request_cases [of hs cx r w]) (use Cons True Some in auto)
    qed (use Cons True in auto)
  next
    case req: False
    show ?thesis
    proof (cases "is_response v")
      case True
      show ?thesis
      proof (cases "dec_response v")
        case (Some r)
        obtain y c1 where y: "http_HandleResponse r c = (y, c1)" by (metis prod.collapse)
        have y1: "y = Handled None" "client_ok c1" "fewer c1 c" using HandleResponse_client [OF Cons.prems(1) y] by auto
        then have "batch_messages hs cx vs acc (c1, w) = ((x, rs), (c', w'))"
          using Cons.prems(2) req True Some y by simp
        from Cons.IH [OF y1(2) this] show ?thesis using y1(3) fewer_trans by blast
      qed (use Cons req True in auto)
    next
      case False
      then show ?thesis using Cons req by (auto split: option.splits if_splits)
    qed
  qed
qed auto

lemma handleBatch_client:
  assumes "client_ok c" "handleBatchMessage env cx data (c, w) = (x, (c', w'))"
  shows "sound x \<and> client_ok c' \<and> fewer c' c"
proof (cases "json_parse data")
  case (Some v)
  show ?thesis
  proof (cases v)
    case (JArr vs)
    obtain y rs c1 w1 where b: "batch_messages (su_handlers env) cx vs [] (c, w) = ((y, rs), (c1, w1))"
      by (metis prod.collapse)
    have "sound y \<and> client_ok c1 \<and> fewer c1 c" by (rule batch_client [OF assms(1) b])
    then show ?thesis
      using assms(2) Some JArr b by (cases y) (auto simp: handleBatchMessage_def split: if_splits)
  qed (use assms Some in \<open>auto simp: handleBatchMessage_def\<close>)
qed (use assms in \<open>auto simp: handleBatchMessage_def\<close>)

lemma message_client:
  assumes "client_ok c" "handleMessage env cx data (c, w) = (x, (c', w'))"
  shows "sound x \<and> client_ok c' \<and> fewer c' c"
proof -
  have b: "sound y \<and> client_ok c1 \<and> fewer c1 c" if "handleBatchMessage env cx data (c, w) = (y, (c1, w1))" for y c1 w1
    by (rule handleBatch_client [OF assms(1) that])
  have r: "y = Handled None \<and> client_ok c1 \<and> fewer c1 c" if "http_HandleResponse r c = (y, c1)" for r y c1
    by (rule HandleResponse_client [OF assms(1) that])
  have n: "\<not> is_panic y" if "base_HandleRequest (su_handlers env) cx q w = (y, w1)" for q y w1
    using base_HandleRequest_no_panic [of "su_handlers env" cx q w] that by simp
  show ?thesis
    using assms unfolding handleMessage_def Let_def prod.case
    by (auto dest!: b r n split: if_splits option.splits prod.splits outcome.splits)
qed

subsection \<open>What the handlers keep\<close>

text \<open>A property of the application's state that every handler keeps.\<close>

definition kept_by :: "'w handlers \<Rightarrow> ('w \<Rightarrow> bool) \<Rightarrow> bool" where
  "kept_by hs P \<longleftrightarrow>
     (\<forall>m h cx p v. hs_requests hs m = Some h \<longrightarrow> P v \<longrightarrow> P (snd (h cx p v))) \<and>
     (\<forall>m h cx p v. hs_notifications hs m = Some h \<longrightarrow> P v \<longrightarrow> P (snd (h cx p v)))"

lemma kept_base:
  assumes "kept_by hs P" "P w"
  shows "P (snd (base_HandleRequest hs cx r w))" "P (snd (base_HandleNotification hs cx n w))"
proof -
  have "P w'" if "hs_requests hs m = Some h" "h cx p w = (x, w')" for m h p x w'
    using assms that unfolding kept_by_def by (metis snd_conv)
  then show "P (snd (base_HandleRequest hs cx r w))"
    using assms(2) by (auto simp: base_HandleRequest_def split: option.split prod.split outcome.split handler_value.split)
  have "P w'" if "hs_notifications hs m = Some h" "h cx p w = (x, w')" for m h p x w'
    using assms that unfolding kept_by_def by (metis snd_conv)
  then show "P (snd (base_HandleNotification hs cx n w))"
    using assms(2) by (auto simp: base_HandleNotification_def split: option.split prod.split outcome.split)
qed

lemma kept_request: "kept_by hs P \<Longrightarrow> P w \<Longrightarrow> base_HandleRequest hs cx r w = (x, w') \<Longrightarrow> P w'"
  using kept_base(1) [of hs P w cx r] by simp

lemma kept_notification: "kept_by hs P \<Longrightarrow> P w \<Longrightarrow> base_HandleNotification hs cx r w = (x, w') \<Longrightarrow> P w'"
  using kept_base(2) [of hs P w cx r] by simp

lemma kept_batch:
  assumes "kept_by hs P" "P w" shows "P (snd (snd (batch_messages hs cx vs acc (c, w))))"
  using assms(2)
proof (induction vs arbitrary: acc c w)
  case (Cons v vs)
  show ?case
  proof (cases "is_request v")
    case True
    show ?thesis
    proof (cases "dec_request v")
      case (Some r)
      show ?thesis
      proof (rule base_request_cases [of hs cx r w])
        fix x w' assume h: "base_HandleRequest hs cx r w = (Ok x, w')"
        show ?thesis using Cons.IH [OF kept_request [OF assms(1) Cons.prems h]] True Some h by simp
      next
        fix e w' assume h: "base_HandleRequest hs cx r w = (Err e, w')"
        show ?thesis using Cons.IH [OF kept_request [OF assms(1) Cons.prems h]] True Some h by simp
      qed
    qed (use Cons True in simp)
  next
    case req: False
    show ?thesis
    proof (cases "is_response v")
      case True
      show ?thesis
      proof (cases "dec_response v")
        case (Some r)
        obtain x c1 where "http_HandleResponse r c = (x, c1)" by (metis prod.collapse)
        then show ?thesis using Cons.IH [OF Cons.prems] Cons.prems req True Some by (cases x) simp_all
      qed (use Cons req True in simp)
    next
      case False
      then show ?thesis
        using Cons req kept_base(2) [OF assms(1) Cons.prems] by (simp split: option.split)
    qed
  qed
qed simp

lemma kept_message:
  assumes "kept_by (su_handlers env) P" "P w" shows "P (snd (snd (handleMessage env cx data (c, w))))"
proof -
  have b: "P (snd (snd (handleBatchMessage env cx data (c, w))))"
  proof -
    have "P w'" if "batch_messages (su_handlers env) cx vs [] (c, w) = (x, (c', w'))" for vs x c' w'
      using kept_batch [OF assms, of cx vs "[]" c] that by simp
    then show ?thesis
      using assms(2) by (auto simp: handleBatchMessage_def split: option.split json.split prod.split handled.split)
  qed
  have q: "P (snd (snd (case base_HandleRequest (su_handlers env) cx r w of
      (Ok x, w') \<Rightarrow> (f x, (c, w')) | (Err e, w') \<Rightarrow> (g e, (c, w')) | (Panic m, w') \<Rightarrow> (k m, (c, w')))))" for r f g k
    by (rule base_request_cases [of "su_handlers env" cx r w]) (simp_all add: kept_request [OF assms])
  have n: "P (snd (snd (case base_HandleNotification (su_handlers env) cx r w of
      (None, w') \<Rightarrow> (x, (c, w')) | (Some e, w') \<Rightarrow> (f e, (c, w')))))" for r x f
    using kept_notification [OF assms, of cx r] by (auto split: prod.split option.split)
  have r: "P (snd (snd (case http_HandleResponse r c of (x, c') \<Rightarrow> (x, (c', w)))))" for r
    using assms(2) by (simp split: prod.split)
  show ?thesis
    unfolding handleMessage_def Let_def prod.case
    by (auto simp: assms(2) b q n r split: option.split)
qed

subsection \<open>Posting\<close>

lemma answer_client:
  "client_ok (snd (answer_message ep stream a c)) = client_ok c" "fewer (snd (answer_message ep stream a c)) c"
proof -
  have s: "client_ok (take_session a c) = client_ok c" "fewer (take_session a c) c" for c
    by (auto simp: take_session_def client_ok_def open_chan_def fewer_def)
  have h: "client_ok (hand_off stream a c) = client_ok c" "fewer (hand_off stream a c) c" for c
    by (auto simp: hand_off_def client_ok_def open_chan_def fewer_def)
  show "client_ok (snd (answer_message ep stream a c)) = client_ok c" "fewer (snd (answer_message ep stream a c)) c"
    by (simp_all add: answer_message_def Let_def s h fewer_trans [OF h(2) s(2)] split: option.split)
qed

lemma panic_map_err [simp]: "is_panic (map_err f x) = is_panic x"
  by (cases x) (simp_all add: map_err_def)

lemma post_client:
  assumes "sendHTTPRequest env stream data s = Some y" "client_ok (fst s)"
  shows "\<not> is_panic (fst y) \<and> client_ok (fst (snd y)) \<and> fewer (fst (snd y)) (fst s)"
  using assms
proof (induction env stream data s y rule: sendHTTPRequest.raw_induct [rotated 1, consumes 1, case_names step])
  case (step send env stream data s y)
  obtain res w where net: "su_net env (request_post stream data (fst s)) (snd s) = (res, w)" by (metis prod.collapse)
  show ?case
  proof (cases res)
    case (Answered a)
    obtain r c where a: "answer_message (hc_endpoint (fst s)) stream a (fst s) = (r, c)" by (metis prod.collapse)
    have c: "client_ok c" "fewer c (fst s)"
      using answer_client [of "hc_endpoint (fst s)" stream a "fst s"] a step(3) by simp_all
    show ?thesis
    proof (cases r)
      case (Inr t)
      show ?thesis
      proof (cases t)
        case (Some msg)
        obtain x c1 w1 where h: "handleMessage env background msg (c, w) = (x, (c1, w1))" by (metis prod.collapse)
        have c1: "sound x" "client_ok c1" "fewer c1 (fst s)"
          using message_client [OF c(1) h] fewer_trans [OF _ c(2)] by blast+
        show ?thesis
        proof (cases x)
          case (Handled e)
          then have "y = (map_err unprocessed (of_option e), (c1, w1))"
            using step(2) net Answered a Inr Some h by simp
          then show ?thesis using c1 by (auto simp: of_option_def map_err_def split: option.splits)
        next
          case (Posting out wrap)
          then obtain z where z: "send env [] out (c1, w1) = Some z" "snd y = snd z" "is_panic (fst y) = is_panic (fst z)"
            using step(2) net Answered a Inr Some h by (cases "send env [] out (c1, w1)") auto
          then show ?thesis using step(1) [OF z(1)] c1(2) fewer_trans [OF _ c1(3)] by auto
        qed (use c1 in simp_all)
      qed (use step(2) net Answered a Inr c in auto)
    qed (use step(2) net Answered a c in auto)
  qed (use step(2,3) net in auto)
qed

text \<open>
  C17. Posting returns: when the server has only finitely many messages to answer with, and the handlers do not
  give it more, posting ends, however many messages its answers make the transport handle and reply to;
  it does not panic and keeps the response channels in order.
\<close>

theorem posting_returns:
  fixes measure_of :: "'w \<Rightarrow> nat" and w :: 'w
  assumes "client_ok c"
    and net: "\<And>p v a v'. su_net env p v = (Answered a, v') \<Longrightarrow> \<not> quiet (Answered a) \<Longrightarrow> measure_of v' < measure_of v"
    and handlers: "\<And>k. kept_by (su_handlers env) (\<lambda>v. measure_of v \<le> k)"
  shows "\<exists>x c' w'. sendHTTPRequest env stream data (c, w) = Some (x, (c', w')) \<and> \<not> is_panic x \<and> client_ok c'"
proof -
  have "\<exists>y. sendHTTPRequest env stream data (c, w) = Some y" if "client_ok c" for stream data c w
    using that
  proof (induction "measure_of w" arbitrary: stream data c w rule: less_induct)
    case less
    obtain res w1 where n: "su_net env (request_post stream data c) w = (res, w1)" by (metis prod.collapse)
    show ?case
    proof (cases "quiet res")
      case True
      then show ?thesis using quiet_send [of env stream data "(c, w)"] n by auto
    next
      case False
      then obtain a where a: "res = Answered a" by (auto simp: quiet_def split: net_result.splits)
      obtain r c1 where m: "answer_message (hc_endpoint c) stream a c = (r, c1)" by (metis prod.collapse)
      have c1: "client_ok c1" using answer_client(1) [of "hc_endpoint c" stream a c] m less.prems by simp
      have "r = Inr (Some (ha_body a))"
        using False a m by (auto simp: quiet_def answer_message_def Let_def split: if_splits option.splits)
      moreover obtain x c2 w2 where h: "handleMessage env background (ha_body a) (c1, w1) = (x, (c2, w2))"
        by (metis prod.collapse)
      moreover have x: "sound x" "client_ok c2" using message_client [OF c1 h] by auto
      moreover have "measure_of w2 < measure_of w"
        using net [OF n [unfolded a]] False a kept_message [OF handlers [of "measure_of w1"], of w1 background "ha_body a" c1] h
        by simp
      then have "\<exists>y. sendHTTPRequest env [] t (c2, w2) = Some y" for t
        using less.hyps x(2) by blast
      ultimately show ?thesis
        using n a m by (subst sendHTTPRequest.simps) (cases x; fastforce simp: bind_eq_Some_conv)
    qed
  qed
  then obtain y where "sendHTTPRequest env stream data (c, w) = Some y" using assms(1) by blast
  then show ?thesis using post_client [of env stream data "(c, w)" y] assms(1) by (cases y) auto
qed

subsection \<open>Calls in any order\<close>

text \<open>
  The transport, the application's state and the channels of those who wait. Calls and batches begin and
  leave, messages arrive, streams are served, posts are made, the transport is stopped.
\<close>

inductive call_step :: "'w surroundings \<Rightarrow> (http_client \<times> 'w) \<times> (string \<times> nat) set \<Rightarrow>
    (http_client \<times> 'w) \<times> (string \<times> nat) set \<Rightarrow> bool" for env where
  Begin: "begin_call c = (k, c') \<Longrightarrow> call_step env ((c, w), K) ((c', w), insert k K)"
| BeginBatch: "register_requests rs [] (c\<lparr>hc_ids := ids\<rparr>) = (m, c') \<Longrightarrow> call_step env ((c, w), K) ((c', w), set m \<union> K)"
| Poll: "poll_round m c = (rs, m', c') \<Longrightarrow> call_step env ((c, w), K) ((c', w), K)"
| Done: "(i, n) \<in> K \<Longrightarrow> call_step env ((c, w), K) ((end_call i n c, w), K - {(i, n)})"
| DoneBatch: "set m \<subseteq> K \<Longrightarrow> fst ` set m \<subseteq> set (map (\<lambda>r. go_str (req_id r)) rs) \<Longrightarrow>
    call_step env ((c, w), K) ((leave_batch rs m c, w), K - set m)"
| Message: "handleMessage env cx data s = (x, s') \<Longrightarrow> call_step env (s, K) (s', K)"
| Post: "sendHTTPRequest env stream data s = Some (x, s') \<Longrightarrow> call_step env (s, K) (s', K)"
| Stream: "stream_step env stream op (ph, s) = (ph', s') \<Longrightarrow> call_step env (s, K) (s', K)"
| Listener: "openListenerConnection env now s = (x, s') \<Longrightarrow> call_step env (s, K) (s', K)"
| Callback: "SetResponseHandler i c = (n, c') \<Longrightarrow> call_step env ((c, w), K) ((c', w), K)"
| NoCallback: "call_step env ((c, w), K) ((RemoveResponseHandler i c, w), K)"
| Stopping: "call_step env ((c, w), K) ((http_Stop c, w), K)"

inductive call_reachable :: "'w surroundings \<Rightarrow> (http_client \<times> 'w) \<times> (string \<times> nat) set \<Rightarrow> bool" for env where
  new: "call_reachable env ((newStreamableHTTPTransport zero endpoint cfg, w), {})"
| step: "call_reachable env x \<Longrightarrow> call_step env x y \<Longrightarrow> call_reachable env y"

text \<open>A channel is registered under the name of the call that waits on it, if at all.\<close>

definition calls_ok :: "http_client \<times> 'w \<Rightarrow> (string \<times> nat) set \<Rightarrow> bool" where
  "calls_ok s K \<longleftrightarrow> client_ok (fst s) \<and> (\<forall>n. hc_next (fst s) \<le> n \<longrightarrow> hc_chans (fst s) n = None) \<and>
     (\<forall>i n. (i, n) \<in> K \<longrightarrow> n < hc_next (fst s) \<and> (\<forall>j. hc_responders (fst s) j = Some n \<longrightarrow> j = i))"

lemma calls_okD:
  assumes "calls_ok s K"
  shows "client_ok (fst s)" "hc_next (fst s) \<le> n \<Longrightarrow> hc_chans (fst s) n = None"
    "(i, n) \<in> K \<Longrightarrow> n < hc_next (fst s)" "(i, n) \<in> K \<Longrightarrow> hc_responders (fst s) j = Some n \<Longrightarrow> j = i"
    "hc_responders (fst s) j = Some n \<Longrightarrow> open_chan (fst s) n" "hc_waiting (fst s) = Map.empty" "pool_ok (hc_pool (fst s))"
  using assms by (auto simp: calls_ok_def client_ok_def)

lemma calls_ok_fewer:
  assumes "calls_ok s K" "client_ok (fst s')" "fewer (fst s') (fst s)"
  shows "calls_ok s' K"
proof -
  have le: "hc_responders (fst s) j = Some n" if "hc_responders (fst s') j = Some n" for j n
    using assms(3) that by (force simp: fewer_def map_le_def)
  show ?thesis
    using assms le by (fastforce simp: calls_ok_def fewer_def)
qed

lemma calls_ok_subset: "calls_ok s K \<Longrightarrow> K' \<subseteq> K \<Longrightarrow> calls_ok s K'"
  by (auto simp: calls_ok_def)

text \<open>Registering one channel.\<close>

definition register :: "string \<Rightarrow> http_client \<Rightarrow> http_client" where
  "register i c = c\<lparr>hc_responders := (hc_responders c)(i \<mapsto> hc_next c),
     hc_chans := (hc_chans c)(hc_next c \<mapsto> \<lparr>ch_buffer = None, ch_closed = False\<rparr>), hc_next := Suc (hc_next c)\<rparr>"

lemma register_ok:
  assumes "calls_ok (c, w) K" shows "calls_ok (register i c, w) (insert (i, hc_next c) K)"
proof -
  note d = calls_okD [OF assms, simplified]
  have new: "hc_responders c j \<noteq> Some (hc_next c)" for j
    using d(5) [of j "hc_next c"] d(2) [of "hc_next c"] by (auto simp: open_chan_def)
  have o: "open_chan (register i c) n \<longleftrightarrow> n = hc_next c \<or> open_chan c n" for n
    by (simp add: open_chan_def register_def)
  have "client_ok (register i c)"
    using d(5,6,7) unfolding client_ok_def o by (simp add: register_def)
  moreover have "n < Suc (hc_next c)" if "(j, n) \<in> K" for j n
    using d(3) [OF that] by simp
  moreover have "j' = j" if "(j, n) \<in> K" "hc_responders (register i c) j' = Some n" for j j' n
    using d(3) [OF that(1)] d(4) [OF that(1)] that(2) by (auto simp: register_def split: if_splits)
  ultimately show ?thesis
    using d(2) new by (auto simp: calls_ok_def register_def split: if_splits)
qed

lemma register_requests_ok:
  assumes "calls_ok (c, w) K" "set m \<subseteq> K" "register_requests rs m c = (m', c')"
  shows "calls_ok (c', w) (set m' \<union> K)"
  using assms
proof (induction rs arbitrary: m c K)
  case (Cons r rs)
  let ?i = "go_str (req_id r)" and ?k = "(go_str (req_id r), hc_next c)"
  have m: "set (put_assoc ?i (hc_next c) m) \<subseteq> insert ?k K"
    using Cons.prems(2) by (auto simp: put_assoc_def split: if_splits)
  have "register_requests rs (put_assoc ?i (hc_next c) m) (register ?i c) = (m', c')"
    using Cons.prems(3) by (simp add: Let_def register_def)
  from Cons.IH [OF register_ok [OF Cons.prems(1)] m this] show ?case
    by (rule calls_ok_subset) blast
qed (auto intro: calls_ok_subset)

lemma buffer_client:
  assumes "hc_chans c n = Some ch"
  shows "client_ok (c\<lparr>hc_chans := (hc_chans c)(n \<mapsto> ch\<lparr>ch_buffer := b\<rparr>)\<rparr>) = client_ok c"
    "fewer (c\<lparr>hc_chans := (hc_chans c)(n \<mapsto> ch\<lparr>ch_buffer := b\<rparr>)\<rparr>) c"
proof -
  have o: "open_chan (c\<lparr>hc_chans := (hc_chans c)(n \<mapsto> ch\<lparr>ch_buffer := b\<rparr>)\<rparr>) = open_chan c"
    using assms by (auto simp: open_chan_def fun_eq_iff)
  show "client_ok (c\<lparr>hc_chans := (hc_chans c)(n \<mapsto> ch\<lparr>ch_buffer := b\<rparr>)\<rparr>) = client_ok c"
    by (simp add: client_ok_def o)
  show "fewer (c\<lparr>hc_chans := (hc_chans c)(n \<mapsto> ch\<lparr>ch_buffer := b\<rparr>)\<rparr>) c"
    using assms by (simp add: fewer_def o)
qed

lemma poll_client:
  "client_ok c \<Longrightarrow> poll_round m c = (rs, m', c') \<Longrightarrow> client_ok c' \<and> fewer c' c"
proof (induction m arbitrary: c rs m' c')
  case (Cons p m)
  obtain i n where p: "p = (i, n)" by (cases p)
  show ?case
  proof (cases "\<exists>ch. hc_chans c n = Some ch \<and> ch_buffer ch \<noteq> None")
    case True
    then obtain ch where ch: "hc_chans c n = Some ch" "ch_buffer ch \<noteq> None" by blast
    let ?c = "c\<lparr>hc_chans := (hc_chans c)(n \<mapsto> ch\<lparr>ch_buffer := None\<rparr>)\<rparr>"
    obtain rs1 m1 c1 where r: "poll_round m ?c = (rs1, m1, c1)" by (metis prod.collapse)
    have "client_ok ?c" using buffer_client(1) [OF ch(1)] Cons.prems(1) by simp
    from Cons.IH [OF this r] show ?thesis
      using Cons.prems(2) p ch r buffer_client(2) [OF ch(1)] fewer_trans by auto
  next
    case False
    obtain rs1 m1 c1 where r: "poll_round m c = (rs1, m1, c1)" by (metis prod.collapse)
    then show ?thesis
      using Cons.IH [OF Cons.prems(1) r] Cons.prems(2) p False by (auto split: option.splits)
  qed
qed auto

lemma end_call_ok:
  assumes "calls_ok (c, w) K" "(i, n) \<in> K"
  shows "calls_ok (end_call i n c, w) (K - {(i, n)})"
proof -
  note d = calls_okD [OF assms(1), simplified]
  have o: "open_chan (end_call i n c) k \<longleftrightarrow> k \<noteq> n \<and> open_chan c k" for k
    by (auto simp: open_chan_def end_call_def split: option.splits)
  have "open_chan (end_call i n c) k" if "hc_responders (end_call i n c) j = Some k" for j k
    using that d(4) [OF assms(2), of j] d(5) [of j k] by (auto simp: o) (auto simp: end_call_def split: if_splits)
  then have "client_ok (end_call i n c)" using d(6,7) by (simp add: client_ok_def) (simp add: end_call_def)
  then show ?thesis
    using d(2,3,4) by (fastforce simp: calls_ok_def end_call_def split: if_splits)
qed

lemma leave_batch_fields:
  "hc_responders (leave_batch rs m c) j = (if j \<in> set (map (\<lambda>r. go_str (req_id r)) rs) then None else hc_responders c j)"
  "hc_chans (leave_batch rs m c) n = (if n \<in> snd ` set m then map_option (\<lambda>ch. ch\<lparr>ch_closed := True\<rparr>) (hc_chans c n) else hc_chans c n)"
proof -
  have r: "fold (\<lambda>r f. f(go_str (req_id r) := None)) rs f j =
      (if j \<in> set (map (\<lambda>r. go_str (req_id r)) rs) then None else f j)" for f :: "string \<rightharpoonup> nat"
    by (induction rs arbitrary: f) auto
  have c: "fold (\<lambda>(i, n) f. f(n := map_option (\<lambda>ch. ch\<lparr>ch_closed := True\<rparr>) (f n))) m f n =
      (if n \<in> snd ` set m then map_option (\<lambda>ch. ch\<lparr>ch_closed := True\<rparr>) (f n) else f n)" for f :: "nat \<rightharpoonup> chan"
    by (induction m arbitrary: f) (auto simp: option.map_comp comp_def)
  show "hc_responders (leave_batch rs m c) j = (if j \<in> set (map (\<lambda>r. go_str (req_id r)) rs) then None else hc_responders c j)"
    by (simp add: leave_batch_def r)
  show "hc_chans (leave_batch rs m c) n = (if n \<in> snd ` set m then map_option (\<lambda>ch. ch\<lparr>ch_closed := True\<rparr>) (hc_chans c n) else hc_chans c n)"
    by (simp add: leave_batch_def c)
qed

lemma leave_batch_ok:
  assumes "calls_ok (c, w) K" "set m \<subseteq> K" "fst ` set m \<subseteq> set (map (\<lambda>r. go_str (req_id r)) rs)"
  shows "calls_ok (leave_batch rs m c, w) (K - set m)"
proof -
  note d = calls_okD [OF assms(1), simplified]
  let ?c = "leave_batch rs m c"
  have other: "hc_waiting ?c = hc_waiting c" "hc_pool ?c = hc_pool c" "hc_next ?c = hc_next c"
    by (simp_all add: leave_batch_def)
  have o: "open_chan ?c k \<longleftrightarrow> k \<notin> snd ` set m \<and> open_chan c k" for k
    by (auto simp: open_chan_def leave_batch_fields split: option.splits)
  have "open_chan ?c k" if r: "hc_responders ?c j = Some k" for j k
  proof -
    have j: "j \<notin> set (map (\<lambda>r. go_str (req_id r)) rs)" "hc_responders c j = Some k"
      using r by (auto simp: leave_batch_fields split: if_splits)
    have "k \<notin> snd ` set m"
    proof
      assume "k \<in> snd ` set m"
      then obtain i where "(i, k) \<in> set m" by force
      then have "(i, k) \<in> K" "i \<in> set (map (\<lambda>r. go_str (req_id r)) rs)" using assms(2,3) by force+
      then show False using d(4) [of i k j] j by simp
    qed
    then show ?thesis using d(5) [OF j(2)] by (simp add: o)
  qed
  then have "client_ok ?c" using d(6,7) other by (simp add: client_ok_def)
  moreover have "hc_chans ?c n = None" if "hc_next c \<le> n" for n using d(2) [OF that] by (simp add: leave_batch_fields)
  moreover have "j = i" if "(i, n) \<in> K" "hc_responders ?c j = Some n" for i j n
    using d(4) [OF that(1), of j] that(2) by (simp add: leave_batch_fields split: if_splits)
  ultimately show ?thesis using d(3) other unfolding calls_ok_def by auto
qed

lemma stop_ok:
  assumes "calls_ok (c, w) K" shows "calls_ok (http_Stop c, w) K"
proof -
  note d = calls_okD [OF assms, simplified]
  show ?thesis
  proof (cases "hc_running c")
    case True
    have "client_ok (http_Stop c)" using True d(7) by (simp add: http_Stop_def client_ok_def pool_ok_cleanup)
    moreover have "hc_chans (http_Stop c) n = None" if "hc_next c \<le> n" for n
      using True d(2) [OF that] by (simp add: http_Stop_def close_waiting_def)
    ultimately show ?thesis using d(3) True by (simp add: calls_ok_def) (simp add: http_Stop_def)
  qed (use assms in \<open>simp add: http_Stop_def\<close>)
qed

text \<open>The goroutines of a stream, which only put responses into channels.\<close>

definition kept :: "http_client \<Rightarrow> http_client \<Rightarrow> bool" where
  "kept c c' \<longleftrightarrow> client_ok c' \<and> fewer c' c"

lemma kept_refl: "client_ok c \<Longrightarrow> kept c c" by (simp add: kept_def)

lemma kept_loop:
  assumes "kept c c1" "loop_frame c2 = loop_frame c1"
  shows "kept c c2"
proof -
  have f: "hc_responders c2 = hc_responders c1" "hc_waiting c2 = hc_waiting c1" "hc_chans c2 = hc_chans c1"
    "hc_pool c2 = hc_pool c1" "hc_next c2 = hc_next c1"
    using arg_cong [OF assms(2), of hc_responders] arg_cong [OF assms(2), of hc_waiting] arg_cong [OF assms(2), of hc_chans]
      arg_cong [OF assms(2), of hc_pool] arg_cong [OF assms(2), of hc_next]
    by (simp_all add: loop_frame_def)
  have "client_ok c2" using assms(1) client_ok_same [OF f(1-4)] by (simp add: kept_def)
  moreover have "fewer c2 c1" by (rule fewer_fields [OF f(1,3,5)])
  ultimately show ?thesis using assms(1) fewer_trans by (auto simp: kept_def)
qed

lemma attempt_frame: "loop_frame (fst (snd (attemptEventSourceConnection env x stream s))) = loop_frame (fst s)"
proof -
  have "loop_frame c = loop_frame (fst s)" if "createEventSource env stream l s = (y, (c, w))" for l y c w
    using createEventSource_client [OF that] by simp
  then show ?thesis by (auto simp: attemptEventSourceConnection_def Let_def split: prod.split sum.split)
qed

lemma iteration_frame: "loop_frame (fst (snd (loop_iteration env stream le a s))) = loop_frame (fst s)"
proof (cases "hc_breaker (fst s)")
  case (Some b)
  obtain x b' s' where c: "breaker_Call (le_clock le) (attemptEventSourceConnection env (le_cancelled le) stream)
      (b, in_state StateReconnecting s) = (x, b', s')"
    by (metis prod.collapse)
  have "loop_frame (fst s') = loop_frame (fst s)"
    using Call_invariant [of "\<lambda>z. loop_frame (fst z) = loop_frame (fst s)" "in_state StateReconnecting s"
        "attemptEventSourceConnection env (le_cancelled le) stream" "le_clock le" b] c
      attempt_frame [of env "le_cancelled le" stream] by simp
  then show ?thesis using Some c by (cases x) (auto simp: loop_iteration_def Let_def)
qed (simp add: loop_iteration_def)

lemma handled_kept:
  assumes "kept c c1" "handle_and_post env cx data (c1, w) = Some (x, (c2, w2))"
  shows "kept c c2"
proof -
  obtain r c3 w3 where h: "handleMessage env cx data (c1, w) = (r, (c3, w3))" by (metis prod.collapse)
  have c3: "client_ok c3" "fewer c3 c" "sound r"
    using message_client [OF _ h] assms(1) fewer_trans by (auto simp: kept_def)
  show ?thesis
    using assms(2) h c3 post_client [of env "[]" _ "(c3, w3)"] fewer_trans
    by (cases r) (fastforce simp: handle_and_post_def kept_def)+
qed

lemma stream_step_kept:
  assumes "client_ok (fst s)" "stream_step env stream op (ph, s) = (ph', s')"
  shows "kept (fst s) (fst s')"
proof -
  obtain c w where s: "s = (c, w)" by (cases s)
  have c: "kept c c" using assms(1) s by (simp add: kept_refl)
  have l: "kept c c2" if "loop_frame c2 = loop_frame c" for c2 by (rule kept_loop [OF c that])
  have loop: "kept c (fst (snd (loop_step env stream ev (ph, (c, w)))))" for ev
  proof (cases "\<exists>cx. ph = Listening \<and> ev = TakeMessage cx")
    case True
    have "kept c c2" if "handle_and_post env cx m (update_stream stream f c, w) = Some (x, (c2, w2))" for cx m f x c2 w2
      by (rule handled_kept [OF l that]) simp
    then show ?thesis
      using True c by (auto simp: loop_step_def split: option.split list.split prod.split outcome.split)
  next
    case False
    have "loop_frame (fst (snd (loop_step env stream ev (ph, (c, w))))) = loop_frame c"
      using False iteration_frame [of env stream _ _ "(c, w)"]
      by (cases ph; cases ev) (auto simp: loop_step_def split: option.split)
    then show ?thesis by (rule l)
  qed
  have "s' = snd (stream_step env stream op (ph, (c, w)))" using assms(2) s by simp
  then show ?thesis using loop l s by (cases op) (simp_all add: stream_step_def)
qed

lemma listener_kept:
  assumes "client_ok (fst s)" "openListenerConnection env now s = (x, s')"
  shows "kept (fst s) (fst s')"
proof -
  obtain y c w where e: "createEventSource env (''listener-'' @ show_int now) [] s = (y, (c, w))" by (metis prod.collapse)
  have "loop_frame (fst s') = loop_frame (fst s)"
    using assms(2) e createEventSource_client [OF e] by (cases y) (auto simp: openListenerConnection_def Let_def loop_frame_def)
  then show ?thesis by (rule kept_loop [OF kept_refl [OF assms(1)]])
qed

lemma calls_ok_kept: "calls_ok s K \<Longrightarrow> kept (fst s) (fst s') \<Longrightarrow> calls_ok s' K"
  unfolding kept_def by (intro calls_ok_fewer [of s K s']) auto

lemma call_step_ok:
  assumes "call_step env x y" "calls_ok (fst x) (snd x)"
  shows "calls_ok (fst y) (snd y)"
  using assms
proof (induction rule: call_step.induct)
  case (Begin c k c' w K)
  let ?i = "hc_prefix c @ ''-'' @ show_int (fst (GetNextID (hc_ids c)))"
  have k: "k = (?i, hc_next c)" "c' = (register ?i c)\<lparr>hc_ids := snd (GetNextID (hc_ids c))\<rparr>"
    using Begin.hyps by (auto simp: begin_call_def Let_def register_def split: prod.splits)
  have "calls_ok (register ?i c, w) (insert (?i, hc_next c) K)" using register_ok Begin.prems by simp
  then have "calls_ok (c', w) (insert (?i, hc_next c) K)"
    by (simp add: k(2) calls_ok_def client_ok_def open_chan_def)
  then show ?case using k(1) by simp
next
  case (BeginBatch rs ids c m c' w K)
  have "calls_ok (c\<lparr>hc_ids := ids\<rparr>, w) K"
    using BeginBatch.prems by (simp add: calls_ok_def client_ok_def open_chan_def)
  then show ?case using register_requests_ok [OF _ _ BeginBatch.hyps] by simp
next
  case (Poll m c rs m' c' w K)
  then show ?case using poll_client [OF _ Poll.hyps] calls_ok_fewer [of "(c, w)" K "(c', w)"] calls_okD(1) by fastforce
next
  case (Message cx data s x s' K)
  then show ?case
    using message_client [of "fst s" env cx data "snd s" x "fst s'" "snd s'"] calls_ok_fewer [of s K s'] calls_okD(1) [of s K] by auto
next
  case (Post stream data s x s' K)
  then show ?case using post_client [OF Post.hyps] calls_ok_fewer [of s K s'] calls_okD(1) [of s K] by auto
next
  case (Stream stream op ph s ph' s' K)
  then show ?case using stream_step_kept [OF _ Stream.hyps] calls_ok_kept [of s K s'] calls_okD(1) [of s K] by auto
next
  case (Listener now s x s' K)
  then show ?case using listener_kept [OF _ Listener.hyps] calls_ok_kept [of s K s'] calls_okD(1) [of s K] by auto
next
  case (Callback i c n c' w K)
  have "c' = c\<lparr>hc_pool := snd (wait_register i (hc_pool c))\<rparr>"
    using Callback.hyps by (auto simp: SetResponseHandler_def split: prod.splits)
  then show ?case
    using Callback.prems pool_ok_register by (simp add: calls_ok_def client_ok_def open_chan_def)
next
  case (NoCallback c w K i)
  then show ?case
    using pool_ok_abandon by (simp add: calls_ok_def client_ok_def open_chan_def RemoveResponseHandler_def)
qed (simp_all add: end_call_ok leave_batch_ok stop_ok)

lemma call_reachable_ok: "call_reachable env x \<Longrightarrow> calls_ok (fst x) (snd x)"
proof (induction rule: call_reachable.induct)
  case (new zero endpoint cfg w)
  show ?case by (simp add: calls_ok_def client_ok_def newStreamableHTTPTransport_def pool_ok_new)
next
  case (step x y)
  show ?case by (rule call_step_ok [OF step.hyps(2) step.IH])
qed


subsection \<open>A server with a queue\<close>

definition queue_server :: "http_post \<Rightarrow> string list \<Rightarrow> net_result \<times> string list" where
  "queue_server p q = (case q of [] \<Rightarrow> (NotSent (ErrText ''connection refused''), [])
     | m # ms \<Rightarrow> (Answered \<lparr>ha_status = 200, ha_reason = ''200 OK'', ha_session = [], ha_type = ''application/json'',
         ha_last = [], ha_body = m, ha_cut = None\<rparr>, ms))"

definition queue_surroundings :: "string list surroundings" where
  "queue_surroundings = \<lparr>su_net = queue_server, su_handlers = NewHandlers, su_why = (\<lambda>d. ErrJSONSyntax [])\<rparr>"

lemma demo_client_ok: "client_ok demo_client"
  by (simp add: client_ok_def demo_client_def newStreamableHTTPTransport_def pool_ok_new)

theorem posting_returns_witness:
  "\<exists>x c' w'. sendHTTPRequest queue_surroundings [] ''{}'' (demo_client, [''x'', ''y'']) = Some (x, (c', w'))
    \<and> \<not> is_panic x \<and> client_ok c'"
proof (rule posting_returns [where measure_of = length])
  show "client_ok demo_client" by (rule demo_client_ok)
  show "length v' < length v" if "su_net queue_surroundings p v = (Answered a, v')" for p v a v'
    using that by (auto simp: queue_surroundings_def queue_server_def split: list.splits)
  show "kept_by (su_handlers queue_surroundings) (\<lambda>v. length v \<le> k)" for k
    by (simp add: queue_surroundings_def kept_by_def NewHandlers_def)
qed


end
