(* ===== verification/HttpHandler.thy ===== *)
theory HttpHandler
  imports Sse Calls
begin

section \<open>The HTTP handler of the server\<close>

text \<open>
  \<open>http_handler.go\<close>: sessions with an expiry that slides, origins, the dispatch on the method, event
  streams. A request is what the handler reads of it: its method, five headers (\<open>[]\<close> when absent), the
  body or the error of reading it, and whether the response can be flushed. What the code asks of its
  surroundings is a record: the readings of the clock in the order of the calls of one request, the
  random bytes, the texts of decoding errors. The transport is a pair of functions on the
  application's state \<open>'w\<close>. A stream lives on after its request: opening it, answering on it, pinging and
  leaving it are steps of their own. A panic in a handler is recovered by \<open>net/http\<close>, which drops the
  connection. Logging is left out.
\<close>

subsection \<open>State\<close>

record session_info =
  si_id :: string
  si_created :: instant
  si_used :: instant
  si_expires :: instant
  si_event :: string
  si_rotations :: int

record sse_conn =
  sc_id :: string
  sc_session :: string
  sc_last :: string
  sc_closed :: bool
  sc_out :: string

record 'w backend =
  bk_request :: "string \<Rightarrow> json option \<Rightarrow> 'w \<Rightarrow> (goerr, gval) outcome \<times> 'w"
  bk_notify :: "string \<Rightarrow> json option \<Rightarrow> 'w \<Rightarrow> 'w"

text \<open>Connections are shared between the table and the handler that serves them: they are objects of a
  heap, and the table maps connection ids to addresses.\<close>

record 'w http_handler =
  hh_origins :: "string list"
  hh_sessions :: "string \<rightharpoonup> session_info"
  hh_conns :: "string \<rightharpoonup> nat"
  hh_objects :: "nat \<rightharpoonup> sse_conn"
  hh_alloc :: nat
  hh_timeout :: duration
  hh_stopped :: bool
  hh_transport :: "'w backend option"
  hh_world :: 'w

record http_request =
  hq_method :: string
  hq_origin :: string
  hq_session :: string
  hq_accept :: string
  hq_last_event :: string
  hq_body :: "goerr + string"
  hq_flusher :: bool

type_synonym headers = "(string \<times> string) list"

record http_response =
  hp_status :: int
  hp_headers :: headers
  hp_body :: string

datatype served =
    Reply http_response
  | Streaming headers string nat "request option"
  | Aborted string

record http_env =
  he_clock :: "nat \<Rightarrow> instant"
  he_random :: "goerr + string"
  he_why :: "string \<Rightarrow> string"

definition later :: "nat \<Rightarrow> http_env \<Rightarrow> http_env" where
  "later k env = env\<lparr>he_clock := (\<lambda>i. he_clock env (i + k))\<rparr>"

definition NewHTTPHandler :: "'w \<Rightarrow> 'w http_handler" where
  "NewHTTPHandler w = \<lparr>hh_origins = [''http://localhost'', ''https://localhost''], hh_sessions = Map.empty,
     hh_conns = Map.empty, hh_objects = Map.empty, hh_alloc = 0, hh_timeout = 24 * hour, hh_stopped = False,
     hh_transport = None, hh_world = w\<rparr>"

subsection \<open>Origins\<close>

definition isLocalhostPattern :: "string \<Rightarrow> bool" where
  "isLocalhostPattern a \<longleftrightarrow> a = ''http://localhost'' \<or> a = ''https://localhost'' \<or> a = ''http://127.0.0.1''
     \<or> a = ''https://127.0.0.1'' \<or> a = ''http://::1'' \<or> a = ''https://::1''"

definition isLocalhostOrigin :: "string \<Rightarrow> bool" where
  "isLocalhostOrigin origin \<longleftrightarrow> list_ex (\<lambda>p. origin = p \<or> has_prefix origin (p @ '':''))
     [''http://localhost'', ''https://localhost'', ''http://127.0.0.1'', ''https://127.0.0.1'', ''http://::1'', ''https://::1'']"

definition matchOrigin :: "string \<Rightarrow> string \<Rightarrow> bool" where
  "matchOrigin allowed origin \<longleftrightarrow> allowed = origin \<or> isLocalhostPattern allowed \<and> isLocalhostOrigin origin"

definition isOriginAllowed :: "string list \<Rightarrow> string \<Rightarrow> bool" where
  "isOriginAllowed origins origin =
     (if origin = [] then False
      else list_ex (\<lambda>a. a = ''*'' \<or> matchOrigin a origin) origins)"

definition SetAllowedOrigins :: "string list \<Rightarrow> 'w http_handler \<Rightarrow> 'w http_handler" where
  "SetAllowedOrigins os h = h\<lparr>hh_origins := os\<rparr>"

definition AddAllowedOrigin :: "string \<Rightarrow> 'w http_handler \<Rightarrow> 'w http_handler" where
  "AddAllowedOrigin x h = h\<lparr>hh_origins := hh_origins h @ [x]\<rparr>"

definition SetAllowWildcardOrigin :: "bool \<Rightarrow> 'w http_handler \<Rightarrow> 'w http_handler" where
  "SetAllowWildcardOrigin allow h =
     (if allow then (if ''*'' \<in> set (hh_origins h) then h else h\<lparr>hh_origins := hh_origins h @ [''*'']\<rparr>)
      else h\<lparr>hh_origins := filter (\<lambda>x. x \<noteq> ''*'') (hh_origins h)\<rparr>)"

definition SetTransport :: "'w backend option \<Rightarrow> 'w http_handler \<Rightarrow> 'w http_handler" where
  "SetTransport t h = h\<lparr>hh_transport := t\<rparr>"

subsection \<open>Sessions\<close>

definition generateSecureSessionID :: "http_env \<Rightarrow> goerr + string" where
  "generateSecureSessionID env =
     (case he_random env of
        Inl e \<Rightarrow> Inl (ErrWrapped (''failed to generate secure session ID: '' @ Error e) e)
      | Inr bs \<Rightarrow> Inr (''mcp_session_'' @ hex_string bs))"

definition createSession :: "http_env \<Rightarrow> 'w http_handler \<Rightarrow> (goerr + session_info) \<times> 'w http_handler" where
  "createSession env h =
     (case generateSecureSessionID env of
        Inl e \<Rightarrow> (Inl e, h)
      | Inr i \<Rightarrow>
          let now = he_clock env 0;
              s = \<lparr>si_id = i, si_created = now, si_used = now, si_expires = now + hh_timeout h, si_event = [], si_rotations = 0\<rparr>
          in (Inr s, h\<lparr>hh_sessions := (hh_sessions h)(i \<mapsto> s)\<rparr>))"

definition isSessionValid :: "instant \<Rightarrow> string \<Rightarrow> 'w http_handler \<Rightarrow> session_info option \<times> 'w http_handler" where
  "isSessionValid now i h =
     (case hh_sessions h i of
        None \<Rightarrow> (None, h)
      | Some s \<Rightarrow>
          if si_expires s < now then (None, h\<lparr>hh_sessions := (hh_sessions h)(i := None)\<rparr>) else (Some s, h))"

definition updateSessionLastUsed :: "instant \<Rightarrow> string \<Rightarrow> 'w http_handler \<Rightarrow> 'w http_handler" where
  "updateSessionLastUsed now i h =
     (case hh_sessions h i of
        None \<Rightarrow> h
      | Some s \<Rightarrow> h\<lparr>hh_sessions := (hh_sessions h)(i \<mapsto> s\<lparr>si_used := now, si_expires := now + hh_timeout h\<rparr>)\<rparr>)"

definition rotateSessionID :: "http_env \<Rightarrow> string \<Rightarrow> 'w http_handler \<Rightarrow> (goerr + string) \<times> 'w http_handler" where
  "rotateSessionID env old h =
     (case hh_sessions h old of
        None \<Rightarrow> (Inl (ErrText (''session not found for rotation: '' @ old)), h)
      | Some s \<Rightarrow>
          (case generateSecureSessionID env of
             Inl e \<Rightarrow> (Inl e, h)
           | Inr i \<Rightarrow>
               let now = he_clock env 0;
                   s' = \<lparr>si_id = i, si_created = si_created s, si_used = now, si_expires = now + hh_timeout h,
                      si_event = si_event s, si_rotations = si_rotations s + 1\<rparr>
               in (Inr i, h\<lparr>hh_sessions := (hh_sessions h)(old := None, i \<mapsto> s')\<rparr>)))"

text \<open>Closing the connections in the table that belong to a session: their objects are closed (in the
  table they are open, so closing the channel cannot panic) and their entries removed.\<close>

definition owned :: "'w http_handler \<Rightarrow> (string \<Rightarrow> bool) \<Rightarrow> nat \<Rightarrow> bool" where
  "owned h S n = (case hh_objects h n of None \<Rightarrow> False | Some c \<Rightarrow> S (sc_session c) \<and> hh_conns h (sc_id c) = Some n)"

definition close_connections :: "(string \<Rightarrow> bool) \<Rightarrow> 'w http_handler \<Rightarrow> 'w http_handler" where
  "close_connections S h = h\<lparr>
     hh_conns := (\<lambda>c. case hh_conns h c of None \<Rightarrow> None | Some n \<Rightarrow> if owned h S n then None else Some n),
     hh_objects := (\<lambda>n. if owned h S n then map_option (\<lambda>c. c\<lparr>sc_closed := True\<rparr>) (hh_objects h n) else hh_objects h n)\<rparr>"

definition expired_at :: "instant \<Rightarrow> 'w http_handler \<Rightarrow> string \<Rightarrow> bool" where
  "expired_at now h i = (case hh_sessions h i of None \<Rightarrow> False | Some s \<Rightarrow> si_expires s < now)"

definition cleanupExpiredSessions :: "instant \<Rightarrow> 'w http_handler \<Rightarrow> 'w http_handler" where
  "cleanupExpiredSessions now h =
     (close_connections (expired_at now h) h)
       \<lparr>hh_sessions := (\<lambda>i. if expired_at now h i then None else hh_sessions h i)\<rparr>"

definition stopSessionCleanup :: "'w http_handler \<Rightarrow> (goerr, 'w http_handler) outcome" where
  "stopSessionCleanup h =
     (if hh_stopped h then Panic ''close of closed channel'' else Ok (h\<lparr>hh_stopped := True\<rparr>))"

definition SetSessionTimeout :: "duration \<Rightarrow> 'w http_handler \<Rightarrow> 'w http_handler" where
  "SetSessionTimeout d h = h\<lparr>hh_timeout := d\<rparr>"

definition GetSessionTimeout :: "'w http_handler \<Rightarrow> duration" where
  "GetSessionTimeout h = hh_timeout h"

definition GetSessionCount :: "'w http_handler \<Rightarrow> nat" where
  "GetSessionCount h = card (dom (hh_sessions h))"

subsection \<open>Event streams\<close>

definition dq :: "string \<Rightarrow> string" where
  "dq s = CHR 0x22 # s @ [CHR 0x22]"

definition event_id :: "instant \<Rightarrow> string" where
  "event_id now = ''evt-'' @ show_int now"

text \<open>Opening a stream: the connection is registered and the first event written.\<close>

definition hello_event :: "instant \<Rightarrow> string \<Rightarrow> string \<Rightarrow> string" where
  "hello_event now kind c = ''id: '' @ event_id now @ newline @ ''event: '' @ kind @ newline
     @ ''data: {'' @ dq ''connectionId'' @ '':'' @ dq c @ ''}'' @ newline @ newline"

definition open_stream :: "http_env \<Rightarrow> string \<Rightarrow> http_request \<Rightarrow> string \<Rightarrow> 'w http_handler \<Rightarrow> (string \<times> nat) \<times> 'w http_handler" where
  "open_stream env session r kind h =
     (let c = ''conn-'' @ session @ ''-'' @ show_int (he_clock env 0);
          n = hh_alloc h;
          conn = \<lparr>sc_id = c, sc_session = session, sc_last = hq_last_event r, sc_closed = False,
            sc_out = hello_event (he_clock env 1) kind c\<rparr>
      in ((c, n), h\<lparr>hh_conns := (hh_conns h)(c \<mapsto> n), hh_objects := (hh_objects h)(n \<mapsto> conn), hh_alloc := Suc n\<rparr>))"

definition sendSSEEvent :: "instant \<Rightarrow> nat \<Rightarrow> string \<Rightarrow> json \<Rightarrow> 'w http_handler \<Rightarrow> 'w http_handler" where
  "sendSSEEvent now n kind data h =
     (case hh_objects h n of
        None \<Rightarrow> h
      | Some c \<Rightarrow>
          if sc_closed c then h
          else h\<lparr>hh_objects := (hh_objects h)(n \<mapsto> c\<lparr>sc_out := sc_out c @ sse_event (event_id now) kind (json_print data),
            sc_last := event_id now\<rparr>)\<rparr>)"

text \<open>The pings: with the time on the stream of a request, without on the stream of a GET.\<close>

definition stream_ping :: "instant option \<Rightarrow> nat \<Rightarrow> 'w http_handler \<Rightarrow> 'w http_handler" where
  "stream_ping now n h =
     (case hh_objects h n of
        None \<Rightarrow> h
      | Some c \<Rightarrow> h\<lparr>hh_objects := (hh_objects h)(n \<mapsto> c\<lparr>sc_out := sc_out c @ '': ping'' @
          (case now of None \<Rightarrow> [] | Some t \<Rightarrow> CHR 0x20 # show_int (t div second)) @ newline @ newline\<rparr>)\<rparr>)"

text \<open>The client has gone: the deferred function removes the entry and closes the channel.\<close>

definition stream_leave :: "string \<Rightarrow> nat \<Rightarrow> 'w http_handler \<Rightarrow> (goerr, unit) outcome \<times> 'w http_handler" where
  "stream_leave c n h =
     (let h1 = h\<lparr>hh_conns := (hh_conns h)(c := None)\<rparr> in
      case hh_objects h n of
        None \<Rightarrow> (Ok (), h1)
      | Some x \<Rightarrow>
          if sc_closed x then (Panic ''close of closed channel'', h1)
          else (Ok (), h1\<lparr>hh_objects := (hh_objects h)(n \<mapsto> x\<lparr>sc_closed := True\<rparr>)\<rparr>))"

subsection \<open>Calling the transport\<close>

definition backend_response :: "request \<Rightarrow> 'w http_handler \<Rightarrow> (goerr, response) outcome \<times> 'w http_handler" where
  "backend_response r h =
     (case hh_transport h of
        None \<Rightarrow> (Ok (NewErrorResponse (req_id r) InternalError ''Transport not properly configured'' GNil), h)
      | Some b \<Rightarrow>
          (case bk_request b (req_method r) (req_params r) (hh_world h) of
             (Ok v, w) \<Rightarrow> (Ok (NewResponse (req_id r) v), h\<lparr>hh_world := w\<rparr>)
           | (Err e, w) \<Rightarrow> (Ok (NewErrorResponse (req_id r) InternalError (Error e) GNil), h\<lparr>hh_world := w\<rparr>)
           | (Panic m, w) \<Rightarrow> (Panic m, h\<lparr>hh_world := w\<rparr>)))"

definition handleRequest :: "headers \<Rightarrow> request \<Rightarrow> 'w http_handler \<Rightarrow> served \<times> 'w http_handler" where
  "handleRequest hs r h =
     (case backend_response r h of
        (Ok x, h') \<Rightarrow> (Reply \<lparr>hp_status = 200, hp_headers = put_assoc ''Content-Type'' ''application/json'' hs,
            hp_body = json_print (enc_response x)\<rparr>, h')
      | (Err e, h') \<Rightarrow> (Aborted (Error e), h')
      | (Panic m, h') \<Rightarrow> (Aborted m, h'))"

definition handleRequestWithSessionID :: "headers \<Rightarrow> request \<Rightarrow> string \<Rightarrow> 'w http_handler \<Rightarrow> served \<times> 'w http_handler" where
  "handleRequestWithSessionID hs r session h =
     handleRequest (if session \<noteq> [] then put_assoc ''MCP-Session-ID'' session hs else hs) r h"

text \<open>The answer on a stream, computed by a goroutine of its own that recovers from a panic.\<close>

definition stream_answer :: "instant \<Rightarrow> nat \<Rightarrow> request \<Rightarrow> 'w http_handler \<Rightarrow> 'w http_handler" where
  "stream_answer now n r h =
     (case backend_response r h of
        (Ok x, h') \<Rightarrow> sendSSEEvent now n ''response'' (enc_response x) h'
      | (_, h') \<Rightarrow> h')"

definition handleNotification :: "notification \<Rightarrow> 'w http_handler \<Rightarrow> 'w http_handler" where
  "handleNotification x h =
     (case hh_transport h of
        None \<Rightarrow> h
      | Some b \<Rightarrow> h\<lparr>hh_world := bk_notify b (notif_method x) (notif_params x) (hh_world h)\<rparr>)"

text \<open>Sending a notification to every connection, in the order \<open>ns\<close> of the table: the notification is
  built as a literal, without a version.\<close>

definition BroadcastNotification :: "(nat \<Rightarrow> instant) \<Rightarrow> nat list \<Rightarrow> string \<Rightarrow> gval \<Rightarrow> 'w http_handler \<Rightarrow> 'w http_handler" where
  "BroadcastNotification now ns method params h =
     fold (\<lambda>n. sendSSEEvent (now n) n ''notification''
       (enc_notification \<lparr>notif_jsonrpc = [], notif_method = method, notif_params = Some (marshal params)\<rparr>)) ns h"

subsection \<open>Serving a request\<close>

definition refuse :: "headers \<Rightarrow> int \<Rightarrow> string \<Rightarrow> served" where
  "refuse hs status text = Reply \<lparr>hp_status = status, hp_headers = hs, hp_body = text\<rparr>"

definition cors_headers :: "http_request \<Rightarrow> headers" where
  "cors_headers r = [(''Access-Control-Allow-Origin'', hq_origin r),
     (''Access-Control-Allow-Methods'', ''POST, GET, OPTIONS, DELETE''),
     (''Access-Control-Allow-Headers'', ''Content-Type, MCP-Session-ID, Last-Event-ID'')]"

definition sse_headers :: "headers \<Rightarrow> headers" where
  "sse_headers hs = put_assoc ''Connection'' ''keep-alive'' (put_assoc ''Cache-Control'' ''no-cache''
     (put_assoc ''Content-Type'' ''text/event-stream'' hs))"

definition parse_as :: "(json \<Rightarrow> 'a option) \<Rightarrow> string \<Rightarrow> 'a option" where
  "parse_as dec body = (case json_parse body of None \<Rightarrow> None | Some v \<Rightarrow> dec v)"

definition is_initialize :: "goerr + string \<Rightarrow> bool" where
  "is_initialize body = (case body of Inl e \<Rightarrow> False
     | Inr b \<Rightarrow> b \<noteq> [] \<and> IsRequest b \<and>
         (case parse_as dec_request b of None \<Rightarrow> False | Some r \<Rightarrow> req_method r = MethodInitialize))"

definition wants_stream :: "string \<Rightarrow> bool" where
  "wants_stream accept \<longleftrightarrow> accept = ''text/event-stream'' \<or> accept = ''application/json, text/event-stream''
     \<or> accept = ''text/event-stream, application/json''"

definition handleStreamingRequest :: "http_env \<Rightarrow> headers \<Rightarrow> http_request \<Rightarrow> request \<Rightarrow> string \<Rightarrow> 'w http_handler \<Rightarrow>
    served \<times> 'w http_handler" where
  "handleStreamingRequest env hs r req session h =
     (let hs1 = sse_headers hs;
          hs2 = (if session \<noteq> [] then put_assoc ''MCP-Session-ID'' session hs1 else hs1)
      in if \<not> hq_flusher r then (refuse hs2 500 ''Streaming not supported'', h)
         else case open_stream env session r ''connected'' h of
           ((c, n), h') \<Rightarrow> (Streaming hs2 c n (Some req), h'))"

definition handlePostRequest :: "http_env \<Rightarrow> http_request \<Rightarrow> 'w http_handler \<Rightarrow> served \<times> 'w http_handler" where
  "handlePostRequest env r h =
     (let hs = cors_headers r in
      case hq_body r of
        Inl e \<Rightarrow> (refuse hs 400 (''Error reading request body: '' @ Error e), h)
      | Inr body \<Rightarrow>
          if hh_transport h = None then (refuse hs 500 ''Transport not set'', h)
          else if IsRequest body then
            (case parse_as dec_request body of
               None \<Rightarrow> (refuse hs 400 (''Invalid JSON-RPC request: '' @ he_why env body), h)
             | Some req \<Rightarrow>
                 let fresh = (req_method req = MethodInitialize \<and> hq_session r = []) in
                 (case (if fresh then apfst (map_sum id si_id) (createSession env h) else (Inr (hq_session r), h)) of
                    (Inl e, h') \<Rightarrow> (refuse hs 500 (''Failed to create secure session: '' @ Error e), h')
                  | (Inr session, h') \<Rightarrow>
                      let hs' = (if fresh then put_assoc ''MCP-Session-ID'' session hs else hs) in
                      if wants_stream (hq_accept r) then handleStreamingRequest (later 1 env) hs' r req session h'
                      else if fresh then handleRequestWithSessionID hs' req session h'
                      else handleRequest hs' req h'))
          else if IsNotification body then
            (case parse_as dec_notification body of
               None \<Rightarrow> (refuse hs 400 (''Invalid JSON-RPC notification: '' @ he_why env body), h)
             | Some x \<Rightarrow> (refuse hs 202 [], handleNotification x h))
          else (refuse hs 400 ''Invalid JSON-RPC message'', h))"

definition handleOptionsRequest :: "http_request \<Rightarrow> 'w http_handler \<Rightarrow> served \<times> 'w http_handler" where
  "handleOptionsRequest r h = (refuse (cors_headers r @ [(''Access-Control-Max-Age'', ''86400'')]) 204 [], h)"

definition handleDeleteRequest :: "http_env \<Rightarrow> http_request \<Rightarrow> 'w http_handler \<Rightarrow> served \<times> 'w http_handler" where
  "handleDeleteRequest env r h =
     (if hq_session r = [] then (refuse [] 400 ''Missing MCP-Session-ID header'', h)
      else case isSessionValid (he_clock env 0) (hq_session r) h of
        (None, h') \<Rightarrow> (refuse [] 404 ''Session not found or expired'', h')
      | (Some s, h') \<Rightarrow> (refuse [] 200 [],
          close_connections (\<lambda>x. x = hq_session r) (h'\<lparr>hh_sessions := (hh_sessions h')(hq_session r := None)\<rparr>)))"

definition handleGetRequest :: "http_env \<Rightarrow> http_request \<Rightarrow> 'w http_handler \<Rightarrow> served \<times> 'w http_handler" where
  "handleGetRequest env r h =
     (let hs = sse_headers [(''Access-Control-Allow-Origin'', hq_origin r)];
          open_it = (\<lambda>h. case open_stream (later 2 env) (hq_session r) r ''ready'' h of
            ((c, n), h') \<Rightarrow> (Streaming hs c n None, h'))
      in if \<not> hq_flusher r then (refuse hs 500 ''Streaming not supported'', h)
         else if hq_session r \<noteq> [] then
           (case isSessionValid (he_clock env 0) (hq_session r) h of
              (None, h') \<Rightarrow> (refuse hs 404 ''Session not found or expired'', h')
            | (Some s, h') \<Rightarrow> open_it (updateSessionLastUsed (he_clock env 1) (hq_session r) h'))
         else if hq_last_event r \<noteq> [] then (refuse hs 400 ''Missing MCP-Session-ID header for resume'', h)
         else open_it h)"

definition dispatch_method :: "http_env \<Rightarrow> http_request \<Rightarrow> 'w http_handler \<Rightarrow> served \<times> 'w http_handler" where
  "dispatch_method env r h =
     (if hq_method r = ''POST'' then handlePostRequest env r h
      else if hq_method r = ''GET'' then handleGetRequest env r h
      else if hq_method r = ''OPTIONS'' then handleOptionsRequest r h
      else if hq_method r = ''DELETE'' then handleDeleteRequest env r h
      else (refuse [] 405 ''Method not allowed'', h))"

text \<open>The check of the session comes before the dispatch, and reads the body of a POST ahead.\<close>

definition ServeHTTP :: "http_env \<Rightarrow> http_request \<Rightarrow> 'w http_handler \<Rightarrow> served \<times> 'w http_handler" where
  "ServeHTTP env r h =
     (if \<not> isOriginAllowed (hh_origins h) (hq_origin r) then (refuse [] 403 ''Origin not allowed'', h)
      else
        if hq_session r = [] then dispatch_method (later 2 env) r h
        else (case isSessionValid (he_clock env 0) (hq_session r) h of
            (None, h') \<Rightarrow>
              if hq_method r = ''POST'' \<and> \<not> is_initialize (hq_body r) \<or> hq_method r = ''DELETE''
              then (refuse [] 404 ''Session not found or expired'', h') else dispatch_method (later 2 env) r h'
          | (Some s, h') \<Rightarrow>
              dispatch_method (later 2 env) r (updateSessionLastUsed (he_clock env 1) (hq_session r) h')))"

end
