(* ===== verification/HttpSessions.thy ===== *)
theory HttpSessions
  imports HttpHandler
begin

section \<open>Sessions and streams of the HTTP handler\<close>

text \<open>
  What holds of the HTTP handler over its whole life: the steps are its operations in any order, the
  background cleanup and the later life of the streams included. Shown: the table of connections only
  holds open ones, a terminated session stays terminated, a session that is used in time stays
  valid, what becomes of the streams of a terminated session, and which requests get past the gates.
\<close>

subsection \<open>Steps\<close>

datatype 'w http_op =
    HServe http_env http_request
  | HAnswer instant nat request
  | HPing "instant option" nat
  | HLeave nat
  | HBroadcast "nat \<Rightarrow> instant" "nat list" string gval
  | HCleanup instant
  | HRotate http_env string
  | HOrigins "string list"
  | HOrigin string
  | HWildcard bool
  | HTimeout duration
  | HTransport "'w backend option"

fun http_step :: "'w http_op \<Rightarrow> 'w http_handler \<Rightarrow> 'w http_handler" where
  "http_step (HServe env r) h = snd (ServeHTTP env r h)"
| "http_step (HAnswer now n r) h = stream_answer now n r h"
| "http_step (HPing now n) h = stream_ping now n h"
| "http_step (HLeave n) h = (case hh_objects h n of None \<Rightarrow> h | Some c \<Rightarrow> snd (stream_leave (sc_id c) n h))"
| "http_step (HBroadcast now ns m p) h = BroadcastNotification now ns m p h"
| "http_step (HCleanup now) h = cleanupExpiredSessions now h"
| "http_step (HRotate env i) h = snd (rotateSessionID env i h)"
| "http_step (HOrigins os) h = SetAllowedOrigins os h"
| "http_step (HOrigin x) h = AddAllowedOrigin x h"
| "http_step (HWildcard b) h = SetAllowWildcardOrigin b h"
| "http_step (HTimeout d) h = SetSessionTimeout d h"
| "http_step (HTransport t) h = SetTransport t h"

lemmas config_defs = SetAllowedOrigins_def AddAllowedOrigin_def SetAllowWildcardOrigin_def SetSessionTimeout_def
  SetTransport_def

text \<open>
  What a request may change, one change after the other: the state of the application, a session that is
  created, found expired or used, a stream that is opened, a session that is ended.
\<close>

inductive serve_change :: "http_env \<Rightarrow> http_request \<Rightarrow> 'w http_handler \<Rightarrow> 'w http_handler \<Rightarrow> bool" for env r where
  change_world: "serve_change env r h (h\<lparr>hh_world := w\<rparr>)"
| change_create: "generateSecureSessionID env = Inr (si_id s) \<Longrightarrow> hq_session r = [] \<Longrightarrow>
    si_expires s = he_clock env k + hh_timeout h \<Longrightarrow>
    serve_change env r h (h\<lparr>hh_sessions := (hh_sessions h)(si_id s \<mapsto> s)\<rparr>)"
| change_expire: "hh_sessions h (hq_session r) = Some s \<Longrightarrow> si_expires s < he_clock env k \<Longrightarrow>
    serve_change env r h (h\<lparr>hh_sessions := (hh_sessions h)(hq_session r := None)\<rparr>)"
| change_use: "hh_sessions h (hq_session r) = Some s \<Longrightarrow>
    serve_change env r h (h\<lparr>hh_sessions := (hh_sessions h)(hq_session r \<mapsto>
      s\<lparr>si_used := he_clock env k, si_expires := he_clock env k + hh_timeout h\<rparr>)\<rparr>)"
| change_open: "serve_change env r h (snd (open_stream (later k env) x r kind h))"
| change_end: "hq_method r = ''DELETE'' \<Longrightarrow> hq_session r \<noteq> [] \<Longrightarrow>
    serve_change env r h (close_connections (\<lambda>x. x = hq_session r) (h\<lparr>hh_sessions := (hh_sessions h)(hq_session r := None)\<rparr>))"

abbreviation changes :: "http_env \<Rightarrow> http_request \<Rightarrow> 'w http_handler \<Rightarrow> 'w http_handler \<Rightarrow> bool" where
  "changes env r \<equiv> (serve_change env r)\<^sup>*\<^sup>*"

lemma later_simps [simp]:
  "generateSecureSessionID (later k env) = generateSecureSessionID env"
  "he_clock (later k env) j = he_clock env (j + k)" "later k (later j env) = later (k + j) env"
  by (simp_all add: later_def generateSecureSessionID_def add.assoc)

lemma valid_changes:
  "changes env r h (snd (isSessionValid (he_clock env k) (hq_session r) h))"
  by (auto simp: isSessionValid_def split: option.splits intro: r_into_rtranclp change_expire)

lemma used_changes: "changes env r h (updateSessionLastUsed (he_clock env k) (hq_session r) h)"
  by (auto simp: updateSessionLastUsed_def split: option.splits intro: r_into_rtranclp change_use)

lemma backend_changes: "changes env r h (snd (backend_response q h))"
  by (auto simp: backend_response_def split: option.splits prod.splits outcome.splits intro: r_into_rtranclp change_world)

lemma request_changes: "changes env r h (snd (handleRequest hs q h))"
  using backend_changes [of env r h q] by (auto simp: handleRequest_def split: prod.splits outcome.splits)

lemma stream_changes: "changes env r h (snd (handleStreamingRequest (later k env) hs r q x h))"
proof (cases "hq_flusher r")
  case True
  have "snd (handleStreamingRequest (later k env) hs r q x h) = snd (open_stream (later k env) x r ''connected'' h)"
    using True by (simp add: handleStreamingRequest_def Let_def split: prod.splits)
  then show ?thesis by (metis r_into_rtranclp change_open)
qed (simp add: handleStreamingRequest_def Let_def)

lemma create_changes: "hq_session r = [] \<Longrightarrow> changes env r h (snd (createSession (later k env) h))"
proof (cases "generateSecureSessionID env")
  case (Inr i)
  let ?s = "\<lparr>si_id = i, si_created = he_clock env k, si_used = he_clock env k,
    si_expires = he_clock env k + hh_timeout h, si_event = [], si_rotations = 0\<rparr>"
  assume "hq_session r = []"
  then have "serve_change env r h (h\<lparr>hh_sessions := (hh_sessions h)(si_id ?s \<mapsto> ?s)\<rparr>)"
    using Inr by (intro change_create [where k = k]) simp_all
  then show ?thesis by (simp add: createSession_def Inr Let_def r_into_rtranclp)
qed (simp add: createSession_def)

lemma notification_changes: "changes env r h (handleNotification x h)"
  by (auto simp: handleNotification_def split: option.splits intro: r_into_rtranclp change_world)

lemma post_changes: "changes env r h (snd (handlePostRequest (later k env) r h))"
proof (cases "\<exists>body q. hq_body r = Inr body \<and> hh_transport h \<noteq> None \<and> IsRequest body \<and> parse_as dec_request body = Some q")
  case True
  then obtain body q where b: "hq_body r = Inr body" "hh_transport h \<noteq> None" "IsRequest body" "parse_as dec_request body = Some q"
    by blast
  let ?fresh = "req_method q = MethodInitialize \<and> hq_session r = []"
  obtain x h1 where c: "(if ?fresh then apfst (map_sum id si_id) (createSession (later k env) h) else (Inr (hq_session r), h)) = (x, h1)"
    by fastforce
  have h1: "changes env r h h1"
    using c create_changes [of r env h k] by (cases ?fresh) (auto simp: apfst_def map_prod_def split: prod.splits)
  show ?thesis
  proof (cases x)
    case (Inl e)
    then show ?thesis using h1 by (simp only: handlePostRequest_def b Let_def c sum.case option.case if_True if_False) simp
  next
    case (Inr session)
    then show ?thesis
      using h1 by (simp only: handlePostRequest_def b Let_def c sum.case option.case if_True if_False)
        (auto intro: rtranclp_trans [OF h1 stream_changes] rtranclp_trans [OF h1 request_changes]
          simp: handleRequestWithSessionID_def)
  qed
next
  case False
  then show ?thesis
    by (auto simp: handlePostRequest_def Let_def notification_changes split: sum.splits option.splits)
qed

lemma open_changes: "changes env r h (snd (open_stream (later k env) x r kind h))"
  by (rule r_into_rtranclp, rule change_open)

lemma get_changes: "changes env r h (snd (handleGetRequest (later k env) r h))"
proof -
  obtain v h1 where v: "isSessionValid (he_clock env k) (hq_session r) h = (v, h1)" by fastforce
  have h1: "changes env r h h1" using valid_changes [of env r h k] v by simp
  let ?h2 = "updateSessionLastUsed (he_clock env (Suc k)) (hq_session r) h1"
  have h2: "changes env r h ?h2" using rtranclp_trans [OF h1 used_changes] .
  have fst_snd: "snd (case p of ((c, n), h') \<Rightarrow> (Streaming hs c n None, h')) = snd p" for p :: "(string \<times> nat) \<times> 'a http_handler" and hs
    by (simp split: prod.splits)
  show ?thesis
    using h1 rtranclp_trans [OF h2 open_changes]
    by (simp add: handleGetRequest_def Let_def v fst_snd open_changes split: option.splits)
qed

lemma delete_changes:
  "hq_method r = ''DELETE'' \<Longrightarrow> changes env r h (snd (handleDeleteRequest (later k env) r h))"
proof -
  assume d: "hq_method r = ''DELETE''"
  obtain v h1 where v: "isSessionValid (he_clock env k) (hq_session r) h = (v, h1)" by fastforce
  have h1: "changes env r h h1" using valid_changes [of env r h k] v by simp
  show ?thesis
    using h1 rtranclp.rtrancl_into_rtrancl [OF h1 change_end [OF d]]
    by (simp add: handleDeleteRequest_def v split: option.splits)
qed

lemma dispatch_changes: "changes env r h g \<Longrightarrow> changes env r h (snd (dispatch_method (later k env) r g))"
  by (auto simp: dispatch_method_def handleOptionsRequest_def
      intro: rtranclp_trans post_changes get_changes delete_changes)

lemma serve_changes: "changes env r h (snd (ServeHTTP env r h))"
proof -
  obtain v h1 where v: "isSessionValid (he_clock env 0) (hq_session r) h = (v, h1)" by fastforce
  have h1: "changes env r h h1" using valid_changes [of env r h 0] v by simp
  have h2: "changes env r h (updateSessionLastUsed (he_clock env (Suc 0)) (hq_session r) h1)"
    using rtranclp_trans [OF h1 used_changes] .
  show ?thesis
    using h1 dispatch_changes [OF h1] dispatch_changes [OF h2] dispatch_changes [OF rtranclp.rtrancl_refl [of _ h], of env r]
    by (simp add: ServeHTTP_def v split: option.splits)
qed


lemma http_fields [simp]:
  "hh_sessions (snd (open_stream env x r kind h)) = hh_sessions h"
  "hh_timeout (snd (open_stream env x r kind h)) = hh_timeout h"
  "hh_sessions (close_connections S h) = hh_sessions h" "hh_timeout (close_connections S h) = hh_timeout h"
  "hh_sessions (sendSSEEvent now n kind v h) = hh_sessions h" "hh_timeout (sendSSEEvent now n kind v h) = hh_timeout h"
  "hh_conns (sendSSEEvent now n kind v h) = hh_conns h" "hh_alloc (sendSSEEvent now n kind v h) = hh_alloc h"
  by (simp_all add: open_stream_def close_connections_def sendSSEEvent_def Let_def split: option.splits)

lemma backend_fields [simp]:
  "hh_sessions (snd (backend_response q h)) = hh_sessions h" "hh_timeout (snd (backend_response q h)) = hh_timeout h"
  "hh_conns (snd (backend_response q h)) = hh_conns h" "hh_objects (snd (backend_response q h)) = hh_objects h"
  "hh_alloc (snd (backend_response q h)) = hh_alloc h"
  by (simp_all add: backend_response_def split: option.splits prod.splits outcome.splits)

text \<open>The steps that never touch the sessions.\<close>

lemma answer_fields [simp]:
  "hh_sessions (stream_answer now n q h) = hh_sessions h" "hh_timeout (stream_answer now n q h) = hh_timeout h"
proof -
  obtain x h1 where b: "backend_response q h = (x, h1)" by fastforce
  with backend_fields [of q h] show "hh_sessions (stream_answer now n q h) = hh_sessions h"
    "hh_timeout (stream_answer now n q h) = hh_timeout h"
    by (simp_all add: stream_answer_def split: outcome.splits)
qed

lemma broadcast_fields [simp]:
  "hh_sessions (BroadcastNotification now ns m p h) = hh_sessions h"
  "hh_timeout (BroadcastNotification now ns m p h) = hh_timeout h"
proof -
  have "hh_sessions (fold (\<lambda>n. sendSSEEvent (now n) n kind v) ns h) = hh_sessions h
    \<and> hh_timeout (fold (\<lambda>n. sendSSEEvent (now n) n kind v) ns h) = hh_timeout h" for kind v
    by (induction ns arbitrary: h) simp_all
  then show "hh_sessions (BroadcastNotification now ns m p h) = hh_sessions h"
    "hh_timeout (BroadcastNotification now ns m p h) = hh_timeout h"
    by (simp_all add: BroadcastNotification_def)
qed

lemma ping_leave_fields [simp]:
  "hh_sessions (stream_ping now' n h) = hh_sessions h" "hh_timeout (stream_ping now' n h) = hh_timeout h"
  "hh_sessions (snd (stream_leave c n h)) = hh_sessions h" "hh_timeout (snd (stream_leave c n h)) = hh_timeout h"
  by (simp_all add: stream_ping_def stream_leave_def Let_def split: option.splits)

subsection \<open>A terminated session\<close>

text \<open>The random bytes of a step do not happen to give the identifier \<open>i\<close> again.\<close>

fun spares :: "string \<Rightarrow> 'w http_op \<Rightarrow> bool" where
  "spares i (HServe env r) \<longleftrightarrow> generateSecureSessionID env \<noteq> Inr i"
| "spares i (HRotate env j) \<longleftrightarrow> generateSecureSessionID env \<noteq> Inr i"
| "spares i _ \<longleftrightarrow> True"

lemma change_absent:
  "serve_change env r h h' \<Longrightarrow> generateSecureSessionID env \<noteq> Inr i \<Longrightarrow> hh_sessions h i = None \<Longrightarrow> hh_sessions h' i = None"
  by (induction rule: serve_change.induct) auto

lemma changes_absent:
  "changes env r h h' \<Longrightarrow> hh_sessions h i = None \<Longrightarrow> generateSecureSessionID env \<noteq> Inr i \<Longrightarrow> hh_sessions h' i = None"
  by (induction rule: rtranclp_induct) (simp_all add: change_absent)

lemma step_absent: "spares i op \<Longrightarrow> hh_sessions h i = None \<Longrightarrow> hh_sessions (http_step op h) i = None"
proof (cases op)
  case (HServe env r)
  then show "spares i op \<Longrightarrow> hh_sessions h i = None \<Longrightarrow> hh_sessions (http_step op h) i = None"
    using changes_absent [OF serve_changes] by simp
qed (auto simp: config_defs cleanupExpiredSessions_def rotateSessionID_def Let_def split: option.splits sum.splits)

lemma steps_absent: "list_all (spares i) ops \<Longrightarrow> hh_sessions h i = None \<Longrightarrow> hh_sessions (fold http_step ops h) i = None"
  by (induction ops arbitrary: h) (simp_all add: step_absent)

lemma delete_absent:
  assumes "hq_method d = ''DELETE''" "hq_session d \<noteq> []" "isOriginAllowed (hh_origins h) (hq_origin d)"
  shows "hh_sessions (snd (ServeHTTP env d h)) (hq_session d) = None"
  using assms
  by (auto simp: ServeHTTP_def dispatch_method_def handleDeleteRequest_def isSessionValid_def updateSessionLastUsed_def
      split: option.splits)


text \<open>
  C18. Terminated sessions stay terminated: after a DELETE of a session, whatever operations follow
  (requests with any headers, rotations, the cleanup, streams, changes of the configuration) as long
  as the random source does not produce the same identifier again, every POST with its identifier
  that is not an initialization and every DELETE is answered with 404, and so is every GET, the
  state being left as it is: the application is not reached.
\<close>

theorem ended_session_refused:
  fixes h :: "'w http_handler"
  assumes "hq_method d = ''DELETE''" "hq_session d \<noteq> []" "isOriginAllowed (hh_origins h) (hq_origin d)"
    and "list_all (spares (hq_session d)) ops"
    and "hq_session r = hq_session d"
    and "isOriginAllowed (hh_origins (fold http_step ops (snd (ServeHTTP env d h)))) (hq_origin r)"
  shows "let h' = fold http_step ops (snd (ServeHTTP env d h)) in
    (hq_method r = ''POST'' \<and> \<not> is_initialize (hq_body r) \<or> hq_method r = ''DELETE'' \<longrightarrow>
      ServeHTTP env' r h' = (refuse [] 404 ''Session not found or expired'', h'))
    \<and> (hq_method r = ''GET'' \<and> hq_flusher r \<longrightarrow>
      ServeHTTP env' r h' = (refuse (sse_headers [(''Access-Control-Allow-Origin'', hq_origin r)]) 404
        ''Session not found or expired'', h'))"
proof -
  have "hh_sessions (fold http_step ops (snd (ServeHTTP env d h))) (hq_session d) = None"
    by (rule steps_absent [OF assms(4) delete_absent [OF assms(1-3)]])
  then show ?thesis
    using assms(2,5,6)
    by (auto simp: Let_def ServeHTTP_def dispatch_method_def handleGetRequest_def isSessionValid_def)
qed

subsection \<open>A session in use\<close>

definition live :: "string \<Rightarrow> instant \<Rightarrow> 'w http_handler \<Rightarrow> bool" where
  "live i t h = (case hh_sessions h i of None \<Rightarrow> False | Some s \<Rightarrow> t \<le> si_expires s)"

definition in_window :: "instant \<Rightarrow> instant \<Rightarrow> http_env \<Rightarrow> bool" where
  "in_window a b env \<longleftrightarrow> (\<forall>k. a \<le> he_clock env k \<and> he_clock env k \<le> b)"

text \<open>A step whose clock stays in a window and that neither ends the session nor changes the timeout.\<close>

fun keeps :: "string \<Rightarrow> instant \<Rightarrow> instant \<Rightarrow> 'w http_op \<Rightarrow> bool" where
  "keeps i a b (HServe env r) \<longleftrightarrow> in_window a b env \<and> \<not> (hq_method r = ''DELETE'' \<and> hq_session r = i)"
| "keeps i a b (HRotate env j) \<longleftrightarrow> in_window a b env \<and> j \<noteq> i"
| "keeps i a b (HCleanup now) \<longleftrightarrow> now \<le> b"
| "keeps i a b (HTimeout d) \<longleftrightarrow> False"
| "keeps i a b _ \<longleftrightarrow> True"

lemma serve_origins [simp]:
  fixes h :: "'a http_handler"
  shows "hh_origins (snd (ServeHTTP env r h)) = hh_origins h"
proof -
  have one: "hh_origins y = hh_origins x" if "serve_change env r x y" for x y :: "'a http_handler"
    using that by (induction rule: serve_change.induct) (simp_all add: open_stream_def close_connections_def Let_def)
  show ?thesis
    using serve_changes [of env r h] by (induction rule: rtranclp_induct) (simp_all add: one)
qed

lemma change_timeout: "serve_change env r h h' \<Longrightarrow> hh_timeout h' = hh_timeout h"
  by (induction rule: serve_change.induct) simp_all

lemma change_live:
  "serve_change env r h h' \<Longrightarrow> in_window a b env \<Longrightarrow> b \<le> a + hh_timeout h \<Longrightarrow>
    \<not> (hq_method r = ''DELETE'' \<and> hq_session r = i) \<Longrightarrow> live i b h \<Longrightarrow> live i b h'"
proof (induction rule: serve_change.induct)
  case (change_create s k h)
  then show ?case by (auto simp: live_def in_window_def split: option.splits dest!: spec [of _ k])
next
  case (change_expire h s k)
  then show ?case by (auto simp: live_def in_window_def split: option.splits dest!: spec [of _ k])
next
  case (change_use h s k)
  then show ?case by (auto simp: live_def in_window_def split: option.splits dest!: spec [of _ k])
qed (auto simp: live_def split: option.splits)

lemma changes_live:
  "changes env r h h' \<Longrightarrow> in_window a b env \<Longrightarrow> b \<le> a + hh_timeout h \<Longrightarrow>
    \<not> (hq_method r = ''DELETE'' \<and> hq_session r = i) \<Longrightarrow> live i b h \<Longrightarrow> live i b h' \<and> hh_timeout h' = hh_timeout h"
proof (induction rule: rtranclp_induct)
  case (step x y)
  then show ?case using change_live [of env r x y a b i] change_timeout [of env r x y] by simp
qed simp

lemma step_live:
  assumes "keeps i a b op" "b \<le> a + hh_timeout h" "live i b h"
  shows "live i b (http_step op h) \<and> hh_timeout (http_step op h) = hh_timeout h"
proof (cases op)
  case (HServe env r)
  then show ?thesis using assms changes_live [OF serve_changes [of env r h], of a b i] by simp
next
  case (HCleanup now)
  then show ?thesis using assms
    by (auto simp: live_def cleanupExpiredSessions_def expired_at_def split: option.splits)
next
  case (HRotate env j)
  then show ?thesis using assms
    by (auto simp: live_def rotateSessionID_def Let_def in_window_def split: option.splits sum.splits dest: spec [of _ 0])
qed (use assms in \<open>auto simp: live_def config_defs split: option.splits\<close>)

lemma steps_live:
  "list_all (keeps i a b) ops \<Longrightarrow> b \<le> a + hh_timeout h \<Longrightarrow> live i b h \<Longrightarrow> live i b (fold http_step ops h)"
proof (induction ops arbitrary: h)
  case (Cons op ops)
  then show ?case using step_live [of i a b op h] by simp
qed simp


text \<open>
  C19. A session in use stays valid: once a request of a live session was let in at some instant, then for a
  whole timeout from that instant every request with its identifier gets past the gate, whatever
  other requests, rotations of other sessions, cleanups and streams come in between, as long as
  nobody ends the session or changes the timeout; and each such request renews it.
\<close>

theorem active_session_survives:
  fixes h :: "'w http_handler" and env :: http_env
  defines "a \<equiv> he_clock env 0"
  defines "b \<equiv> a + hh_timeout h"
  assumes "live (hq_session r) a h" "isOriginAllowed (hh_origins h) (hq_origin r)"
    and "hq_session r \<noteq> []" "hq_method r \<noteq> ''DELETE''" "in_window a b env"
    and "list_all (keeps (hq_session r) a b) ops"
    and "hq_session r' = hq_session r" "he_clock env' 0 \<le> b"
    and "isOriginAllowed (hh_origins (fold http_step ops (snd (ServeHTTP env r h)))) (hq_origin r')"
  shows "let h' = fold http_step ops (snd (ServeHTTP env r h)) in
    ServeHTTP env' r' h' = dispatch_method (later 2 env') r' (updateSessionLastUsed (he_clock env' 1) (hq_session r') h')"
proof -
  let ?i = "hq_session r" and ?g = "updateSessionLastUsed (he_clock env 1) (hq_session r) h"
  obtain s where s: "hh_sessions h ?i = Some s" "\<not> si_expires s < a"
    using assms(3) by (auto simp: live_def split: option.splits)
  have serve: "ServeHTTP env r h = dispatch_method (later 2 env) r ?g"
    using s assms(4,5) by (simp add: ServeHTTP_def isSessionValid_def a_def)
  have "a \<le> he_clock env 1" using assms(7) by (simp add: in_window_def)
  then have g: "live ?i b ?g" "hh_timeout ?g = hh_timeout h"
    using s by (simp_all add: live_def updateSessionLastUsed_def b_def)
  have "live ?i b (snd (ServeHTTP env r h)) \<and> hh_timeout (snd (ServeHTTP env r h)) = hh_timeout h"
    using changes_live [OF dispatch_changes [OF rtranclp.rtrancl_refl [of _ ?g], of env r 2], of a b ?i] assms(6,7) g
    by (simp add: serve b_def)
  then have "live ?i b (fold http_step ops (snd (ServeHTTP env r h)))"
    by (intro steps_live [OF assms(8)]) (simp_all add: b_def)
  then obtain s' where "hh_sessions (fold http_step ops (snd (ServeHTTP env r h))) ?i = Some s'" "b \<le> si_expires s'"
    by (auto simp: live_def split: option.splits)
  then show ?thesis
    using assms(5,9-11) by (simp add: Let_def ServeHTTP_def isSessionValid_def)
qed

subsection \<open>Streams\<close>

text \<open>The table holds open connections under their own identifiers, and addresses are fresh.\<close>

definition conns_ok :: "'w http_handler \<Rightarrow> bool" where
  "conns_ok h \<longleftrightarrow>
     (\<forall>c n. hh_conns h c = Some n \<longrightarrow> (\<exists>x. hh_objects h n = Some x \<and> sc_id x = c \<and> \<not> sc_closed x))
     \<and> (\<forall>n x. hh_objects h n = Some x \<longrightarrow> n < hh_alloc h)"

lemma open_ok: "conns_ok h \<Longrightarrow> conns_ok (snd (open_stream env x r kind h))"
  by (auto simp: conns_ok_def open_stream_def Let_def less_Suc_eq)

lemma close_ok: "conns_ok h \<Longrightarrow> conns_ok (close_connections S h)"
  by (fastforce simp: conns_ok_def close_connections_def owned_def split: option.splits if_splits)

lemma same_ok:
  "hh_conns h' = hh_conns h \<Longrightarrow> hh_objects h' = hh_objects h \<Longrightarrow> hh_alloc h' = hh_alloc h \<Longrightarrow> conns_ok h' = conns_ok h"
  by (simp add: conns_ok_def)

lemma change_ok: "serve_change env r h h' \<Longrightarrow> conns_ok h \<Longrightarrow> conns_ok h'"
proof (induction rule: serve_change.induct)
  case (change_end h)
  then show ?case by (intro close_ok) (simp add: conns_ok_def)
qed (simp_all add: open_ok, simp_all add: conns_ok_def)

lemma changes_ok: "changes env r h h' \<Longrightarrow> conns_ok h \<Longrightarrow> conns_ok h'"
  by (induction rule: rtranclp_induct) (simp_all add: change_ok)

lemma update_ok:
  "conns_ok h \<Longrightarrow> hh_objects h n = Some x \<Longrightarrow> sc_id y = sc_id x \<Longrightarrow> sc_closed y = sc_closed x \<Longrightarrow>
    conns_ok (h\<lparr>hh_objects := (hh_objects h)(n \<mapsto> y)\<rparr>)"
  by (fastforce simp: conns_ok_def)

lemma send_ok: "conns_ok h \<Longrightarrow> conns_ok (sendSSEEvent now n kind v h)"
  by (auto simp: sendSSEEvent_def split: option.splits intro: update_ok)

lemma leave_ok: "conns_ok h \<Longrightarrow> hh_objects h n = Some x \<Longrightarrow> conns_ok (snd (stream_leave (sc_id x) n h))"
  by (fastforce simp: conns_ok_def stream_leave_def Let_def)

lemma step_ok: "conns_ok h \<Longrightarrow> conns_ok (http_step op h)"
proof (cases op)
  case (HServe env r)
  then show "conns_ok h \<Longrightarrow> conns_ok (http_step op h)" using changes_ok [OF serve_changes [of env r h]] by simp
next
  case (HAnswer now n r)
  have "conns_ok (snd (backend_response r h))" if "conns_ok h"
    using that by (subst same_ok [of _ h]) simp_all
  with HAnswer show "conns_ok h \<Longrightarrow> conns_ok (http_step op h)"
    by (cases "backend_response r h") (auto simp: stream_answer_def send_ok split: outcome.splits)
next
  case (HPing now n)
  then show "conns_ok h \<Longrightarrow> conns_ok (http_step op h)"
    by (auto simp: stream_ping_def split: option.splits intro: update_ok)
next
  case (HLeave n)
  then show "conns_ok h \<Longrightarrow> conns_ok (http_step op h)" by (auto simp: leave_ok split: option.splits)
next
  case (HBroadcast now ns m p)
  then show "conns_ok h \<Longrightarrow> conns_ok (http_step op h)"
    by (auto simp: BroadcastNotification_def intro: fold_invariant_list send_ok)
next
  case (HCleanup now)
  have "conns_ok (cleanupExpiredSessions now h) = conns_ok (close_connections (expired_at now h) h)"
    by (rule same_ok) (simp_all add: cleanupExpiredSessions_def)
  with HCleanup show "conns_ok h \<Longrightarrow> conns_ok (http_step op h)" by (simp add: close_ok)
next
  case (HRotate env i)
  have "conns_ok (snd (rotateSessionID env i h)) = conns_ok h"
    by (rule same_ok) (simp_all add: rotateSessionID_def Let_def split: option.splits sum.splits)
  with HRotate show "conns_ok h \<Longrightarrow> conns_ok (http_step op h)" by simp
qed (auto simp: config_defs conns_ok_def)

lemma closed_drops_answer:
  "hh_objects h n = Some x \<Longrightarrow> sc_closed x \<Longrightarrow> hh_objects (stream_answer now n q h) n = Some x"
proof -
  assume x: "hh_objects h n = Some x" "sc_closed x"
  obtain y h1 where b: "backend_response q h = (y, h1)" by fastforce
  then have "hh_objects h1 n = Some x" using backend_fields(4) [of q h] x by simp
  then show "hh_objects (stream_answer now n q h) n = Some x"
    using x(2) by (simp add: stream_answer_def b sendSSEEvent_def split: outcome.splits)
qed

lemma reachable_ok: "conns_ok (fold http_step ops (NewHTTPHandler w))"
  by (rule fold_invariant_list) (simp_all add: step_ok, simp add: conns_ok_def NewHTTPHandler_def)


text \<open>
  Streams: in every reachable state the connection behind an entry of the table is open, so ending
  its session or the cleanup close its channel exactly once and leaving the stream returns. But once
  its session was ended by a DELETE, the stream is not finished: answers to it are dropped, and when
  its client leaves, the handler closes the channel a second time and panics.
\<close>

theorem stream_of_ended_session:
  fixes w :: 'w and ops :: "'w http_op list"
  defines "h \<equiv> fold http_step ops (NewHTTPHandler w)"
  assumes "hh_conns h c = Some n"
  shows "\<exists>x. hh_objects h n = Some x \<and> sc_id x = c \<and> \<not> sc_closed x \<and> fst (stream_leave c n h) = Ok ()
    \<and> (hq_method d = ''DELETE'' \<and> hq_session d = sc_session x \<and> live (hq_session d) (he_clock env 0) h
        \<and> hq_session d \<noteq> [] \<and> isOriginAllowed (hh_origins h) (hq_origin d)
        \<and> he_clock env 2 \<le> he_clock env 1 + hh_timeout h \<longrightarrow>
      (let h' = snd (ServeHTTP env d h) in
        fst (ServeHTTP env d h) = refuse [] 200 [] \<and> hh_conns h' c = None
        \<and> hh_objects (stream_answer now n q h') n = hh_objects h' n
        \<and> fst (stream_leave c n h') = Panic ''close of closed channel''))"
proof -
  have "conns_ok h" unfolding h_def by (rule reachable_ok)
  then obtain x where x: "hh_objects h n = Some x" "sc_id x = c" "\<not> sc_closed x"
    using assms(2) by (auto simp: conns_ok_def)
  let ?i = "sc_session x"
  show ?thesis
  proof (intro exI [of _ x] conjI impI x)
    show "fst (stream_leave c n h) = Ok ()" using x by (simp add: stream_leave_def Let_def)
    assume d: "hq_method d = ''DELETE'' \<and> hq_session d = ?i \<and> live (hq_session d) (he_clock env 0) h
        \<and> hq_session d \<noteq> [] \<and> isOriginAllowed (hh_origins h) (hq_origin d)
        \<and> he_clock env 2 \<le> he_clock env 1 + hh_timeout h"
    then have d: "hq_method d = ''DELETE''" "hq_session d = ?i" "?i \<noteq> []" "live ?i (he_clock env 0) h"
      "isOriginAllowed (hh_origins h) (hq_origin d)" "\<not> he_clock env 1 + hh_timeout h < he_clock env 2"
      by auto
    then obtain s where s: "hh_sessions h ?i = Some s" "\<not> si_expires s < he_clock env 0"
      by (auto simp: live_def split: option.splits)
    let ?g = "updateSessionLastUsed (he_clock env 1) ?i h"
    have serve: "ServeHTTP env d h = (refuse [] 200 [],
        close_connections (\<lambda>y. y = ?i) (?g\<lparr>hh_sessions := (hh_sessions ?g)(?i := None)\<rparr>))"
      using d s by (simp add: ServeHTTP_def dispatch_method_def handleDeleteRequest_def isSessionValid_def
          updateSessionLastUsed_def numeral_2_eq_2)
    have "owned (?g\<lparr>hh_sessions := (hh_sessions ?g)(?i := None)\<rparr>) (\<lambda>y. y = ?i) n"
      using x assms(2) s by (simp add: owned_def updateSessionLastUsed_def)
    moreover have "hh_conns ?g = hh_conns h" "hh_objects ?g = hh_objects h"
      using s by (simp_all add: updateSessionLastUsed_def)
    ultimately have after: "hh_conns (snd (ServeHTTP env d h)) c = None"
      "hh_objects (snd (ServeHTTP env d h)) n = Some (x\<lparr>sc_closed := True\<rparr>)"
      using x assms(2) by (simp_all add: serve close_connections_def)
    have "hh_objects (stream_answer now n q (snd (ServeHTTP env d h))) n = Some (x\<lparr>sc_closed := True\<rparr>)"
      by (rule closed_drops_answer [OF after(2)]) simp
    then show "let h' = snd (ServeHTTP env d h) in
        fst (ServeHTTP env d h) = refuse [] 200 [] \<and> hh_conns h' c = None
        \<and> hh_objects (stream_answer now n q h') n = hh_objects h' n
        \<and> fst (stream_leave c n h') = Panic ''close of closed channel''"
      using after serve by (simp add: Let_def stream_leave_def)
  qed
qed

subsection \<open>Gates\<close>

text \<open>
  The gate of origins: a request is let in exactly if its origin is listed, a wildcard is listed, or a
  loopback origin is listed and its own is a loopback origin (with any scheme and port); otherwise it
  is refused with 403, whatever its method, session and body, and changes nothing.
\<close>

theorem origin_gate:
  "(isOriginAllowed os x \<longleftrightarrow> x \<noteq> [] \<and> (''*'' \<in> set os \<or> x \<in> set os
      \<or> (\<exists>s\<in>{''http'', ''https''}. \<exists>l\<in>{''localhost'', ''127.0.0.1'', ''::1''}. s @ ''://'' @ l \<in> set os)
        \<and> (\<exists>s\<in>{''http'', ''https''}. \<exists>l\<in>{''localhost'', ''127.0.0.1'', ''::1''}.
            x = s @ ''://'' @ l \<or> (\<exists>p. x = s @ ''://'' @ l @ '':'' @ p))))
   \<and> (\<not> isOriginAllowed (hh_origins h) (hq_origin r) \<longrightarrow>
        ServeHTTP env r h = (refuse [] 403 ''Origin not allowed'', h))"
proof
  have pattern: "(\<exists>a\<in>set os. isLocalhostPattern a) \<longleftrightarrow>
      (\<exists>s\<in>{''http'', ''https''}. \<exists>l\<in>{''localhost'', ''127.0.0.1'', ''::1''}. s @ ''://'' @ l \<in> set os)"
    by (auto simp: isLocalhostPattern_def)
  have loop: "isLocalhostOrigin x \<longleftrightarrow> (\<exists>s\<in>{''http'', ''https''}. \<exists>l\<in>{''localhost'', ''127.0.0.1'', ''::1''}.
            x = s @ ''://'' @ l \<or> (\<exists>p. x = s @ ''://'' @ l @ '':'' @ p))"
    by (auto simp: isLocalhostOrigin_def has_prefix_iff)
  show "isOriginAllowed os x \<longleftrightarrow> x \<noteq> [] \<and> (''*'' \<in> set os \<or> x \<in> set os
      \<or> (\<exists>s\<in>{''http'', ''https''}. \<exists>l\<in>{''localhost'', ''127.0.0.1'', ''::1''}. s @ ''://'' @ l \<in> set os)
        \<and> (\<exists>s\<in>{''http'', ''https''}. \<exists>l\<in>{''localhost'', ''127.0.0.1'', ''::1''}.
            x = s @ ''://'' @ l \<or> (\<exists>p. x = s @ ''://'' @ l @ '':'' @ p)))"
    unfolding pattern [symmetric] loop [symmetric] by (auto simp: isOriginAllowed_def list_ex_iff matchOrigin_def)
qed (simp add: ServeHTTP_def)


text \<open>
  A client whose session ran out cannot start a new one: the gate lets its initialization through in
  spite of the unknown identifier it still sends, and the application answers it, but no session is
  created and no identifier returned, so that its next request is refused again.
\<close>

theorem reinitialization_gets_no_session:
  assumes "isOriginAllowed (hh_origins h) (hq_origin r)" "hq_method r = ''POST''" "hq_session r = i" "i \<noteq> []"
    and "hh_sessions h i = None" "is_initialize (hq_body r)" "hh_transport h = Some b" "\<not> wants_stream (hq_accept r)"
    and "isOriginAllowed (hh_origins h) (hq_origin again)" "hq_method again = ''POST''" "hq_session again = i"
    and "\<not> is_initialize (hq_body again)"
  shows "hh_sessions (snd (ServeHTTP env r h)) = hh_sessions h
    \<and> (\<forall>x. fst (ServeHTTP env r h) = Reply x \<longrightarrow> hp_status x = 200 \<and> ''MCP-Session-ID'' \<notin> fst ` set (hp_headers x))
    \<and> fst (ServeHTTP env' again (snd (ServeHTTP env r h))) = refuse [] 404 ''Session not found or expired''"
proof -
  obtain body q where q: "hq_body r = Inr body" "IsRequest body" "parse_as dec_request body = Some q"
    "req_method q = MethodInitialize"
    using assms(6) by (auto simp: is_initialize_def split: sum.splits option.splits)
  have serve: "ServeHTTP env r h = handleRequest (cors_headers r) q h"
    using assms(1-8) q by (simp add: ServeHTTP_def dispatch_method_def handlePostRequest_def isSessionValid_def Let_def)
  have same: "hh_sessions (snd (ServeHTTP env r h)) = hh_sessions h" "hh_origins (snd (ServeHTTP env r h)) = hh_origins h"
    by (simp_all add: serve handleRequest_def backend_response_def split: option.splits prod.splits outcome.splits)
  have "hp_status x = 200 \<and> ''MCP-Session-ID'' \<notin> fst ` set (hp_headers x)" if "fst (ServeHTTP env r h) = Reply x" for x
    using that by (auto simp: serve handleRequest_def cors_headers_def put_assoc_def split: prod.splits outcome.splits)
  then show ?thesis
    using same assms(4,5,9-12) by (simp add: ServeHTTP_def isSessionValid_def)
qed


subsection \<open>Concrete runs\<close>

lemma request_text:
  assumes "good_item (BReq r)"
  shows "IsRequest (json_print (enc_request r))"
    "parse_as dec_request (json_print (enc_request r)) = Some (r\<lparr>req_id := wire_id (req_id r)\<rparr>)"
proof -
  have p: "json_parse (json_print (enc_request r)) = Some (enc_request r)"
    using good_item_wf [OF assms] by (intro json_parse_print) (simp add: enc_batch_item_def)
  show "IsRequest (json_print (enc_request r))"
    using assms by (simp add: IsRequest_def on_text_def p is_request_def dec_enc_request)
  show "parse_as dec_request (json_print (enc_request r)) = Some (r\<lparr>req_id := wire_id (req_id r)\<rparr>)"
    using assms by (simp add: parse_as_def p dec_enc_request)
qed

definition init_request :: request where
  "init_request = NewRequest (GInt 1) MethodInitialize GNil"

definition demo_env :: "instant \<Rightarrow> http_env" where
  "demo_env t = \<lparr>he_clock = (\<lambda>_. t), he_random = Inr ''ab'', he_why = (\<lambda>_. [])\<rparr>"

definition demo_http :: "string \<Rightarrow> string \<Rightarrow> http_request" where
  "demo_http m i = \<lparr>hq_method = m, hq_origin = ''http://localhost:3000'', hq_session = i, hq_accept = [],
     hq_last_event = [], hq_body = Inr (json_print (enc_request init_request)), hq_flusher = True\<rparr>"

definition demo_backend :: "nat backend" where
  "demo_backend = \<lparr>bk_request = (\<lambda>m p w. (Ok (GBool True), Suc w)), bk_notify = (\<lambda>m p w. Suc w)\<rparr>"

definition demo_handler :: "string \<Rightarrow> nat http_handler" where
  "demo_handler i = (NewHTTPHandler 0)\<lparr>hh_transport := Some demo_backend,
     hh_sessions := [i \<mapsto> \<lparr>si_id = i, si_created = 0, si_used = 0, si_expires = 10, si_event = [], si_rotations = 0\<rparr>]\<rparr>"

lemma init_good: "good_item (BReq init_request)"
  by (simp add: init_request_def NewRequest_def raw_of_def good_id_def good_raw_def MethodInitialize_def)

lemma demo_initialize: "is_initialize (hq_body (demo_http m i))"
proof -
  have "json_print (enc_request init_request) \<noteq> []" by (simp add: json_print_def enc_request_def tok_text.simps)
  then show ?thesis
    using request_text [OF init_good] by (simp add: is_initialize_def demo_http_def init_request_def NewRequest_def)
qed

lemmas demo_defs = demo_http_def demo_handler_def demo_env_def NewHTTPHandler_def
lemmas serve_defs = ServeHTTP_def dispatch_method_def handleDeleteRequest_def handleGetRequest_def isSessionValid_def
  updateSessionLastUsed_def close_connections_def

lemma demo_origin: "isOriginAllowed [''http://localhost'', ''https://localhost''] (hq_origin (demo_http m i))"
  by (simp add: demo_http_def isOriginAllowed_def matchOrigin_def isLocalhostPattern_def isLocalhostOrigin_def has_prefix_def)

lemma demo_origins: "hh_origins (demo_handler i) = [''http://localhost'', ''https://localhost'']"
  by (simp add: demo_handler_def NewHTTPHandler_def)

theorem ended_session_refused_witness:
  "let h' = snd (ServeHTTP (demo_env 5) (demo_http ''DELETE'' ''s'') (demo_handler ''s'')) in
    ServeHTTP (demo_env 6) (demo_http ''GET'' ''s'') h'
      = (refuse (sse_headers [(''Access-Control-Allow-Origin'', ''http://localhost:3000'')]) 404
          ''Session not found or expired'', h')"
  using ended_session_refused [where d = "demo_http ''DELETE'' ''s''" and h = "demo_handler ''s''" and ops = "[]"
      and r = "demo_http ''GET'' ''s''" and env = "demo_env 5" and env' = "demo_env 6"]
    demo_origin [of "''DELETE''" "''s''"] demo_origin [of "''GET''" "''s''"] demo_origins
  by (simp add: demo_http_def)

theorem active_session_survives_witness:
  "let h' = snd (ServeHTTP (demo_env 5) (demo_http ''OPTIONS'' ''s'') (demo_handler ''s'')) in
    ServeHTTP (demo_env 100) (demo_http ''GET'' ''s'') h'
      = dispatch_method (later 2 (demo_env 100)) (demo_http ''GET'' ''s'') (updateSessionLastUsed 100 ''s'' h')"
  using active_session_survives [where r = "demo_http ''OPTIONS'' ''s''" and env = "demo_env 5" and h = "demo_handler ''s''"
      and ops = "[]" and r' = "demo_http ''GET'' ''s''" and env' = "demo_env 100"]
    demo_origin [of "''OPTIONS''" "''s''"] demo_origin [of "''GET''" "''s''"] demo_origins [of "''s''"]
  by (simp add: demo_defs live_def in_window_def hour_def minute_def second_def)

theorem reinitialization_gets_no_session_witness:
  "hh_sessions (snd (ServeHTTP (demo_env 5) (demo_http ''POST'' ''old'') (demo_handler ''s''))) = hh_sessions (demo_handler ''s'')"
  using reinitialization_gets_no_session [where h = "demo_handler ''s''" and r = "demo_http ''POST'' ''old''" and i = "''old''"
      and b = demo_backend and again = "(demo_http ''POST'' ''old'')\<lparr>hq_body := Inr []\<rparr>" and env = "demo_env 5" and env' = "demo_env 6"]
    demo_origin [of "''POST''" "''old''"] demo_origins [of "''s''"] demo_initialize [of "''POST''" "''old''"]
  by (simp add: demo_http_def demo_handler_def is_initialize_def wants_stream_def)

theorem origin_gate_witness:
  "ServeHTTP (demo_env 5) ((demo_http ''POST'' [])\<lparr>hq_origin := ''http://evil.example''\<rparr>) (demo_handler ''s'')
     = (refuse [] 403 ''Origin not allowed'', demo_handler ''s'')"
  using origin_gate [where os = "hh_origins (demo_handler ''s'')" and h = "demo_handler ''s''" and env = "demo_env 5"
      and r = "(demo_http ''POST'' [])\<lparr>hq_origin := ''http://evil.example''\<rparr>" and x = "''http://evil.example''"]
  by (simp add: demo_origins)

definition demo_ops :: "nat http_op list" where
  "demo_ops = [HTransport (Some demo_backend), HServe (demo_env 0) (demo_http ''POST'' []),
     HServe (demo_env 0) (demo_http ''GET'' ''mcp_session_6162'')]"

lemma demo_hex: "hex_string ''ab'' = ''6162''"
  by code_simp

definition demo_session :: session_info where
  "demo_session = \<lparr>si_id = ''mcp_session_6162'', si_created = 0, si_used = 0, si_expires = 24 * hour, si_event = [], si_rotations = 0\<rparr>"

lemma demo_created:
  fixes h :: "nat http_handler"
  defines "h \<equiv> (NewHTTPHandler 0)\<lparr>hh_transport := Some demo_backend\<rparr>"
  shows "snd (ServeHTTP (demo_env 0) (demo_http ''POST'' []) h) =
    (NewHTTPHandler 1)\<lparr>hh_transport := Some demo_backend, hh_sessions := [''mcp_session_6162'' \<mapsto> demo_session]\<rparr>"
proof -
  let ?r = "demo_http ''POST'' []" and ?q = "init_request\<lparr>req_id := wire_id (req_id init_request)\<rparr>"
  let ?h1 = "h\<lparr>hh_sessions := [''mcp_session_6162'' \<mapsto> demo_session]\<rparr>"
  have create: "createSession (later 2 (demo_env 0)) h = (Inr demo_session, ?h1)"
    by (simp add: createSession_def generateSecureSessionID_def demo_env_def later_def demo_hex demo_session_def Let_def
        h_def NewHTTPHandler_def)
  have q: "req_method ?q = MethodInitialize" "hq_session ?r = []" "hq_body ?r = Inr (json_print (enc_request init_request))"
    "hh_transport h = Some demo_backend" "\<not> wants_stream (hq_accept ?r)"
    by (simp_all add: init_request_def NewRequest_def demo_http_def h_def wants_stream_def)
  have "handlePostRequest (later 2 (demo_env 0)) ?r h =
      handleRequestWithSessionID (put_assoc ''MCP-Session-ID'' ''mcp_session_6162'' (cors_headers ?r)) ?q ''mcp_session_6162'' ?h1"
    using request_text [OF init_good] q
    by (simp add: handlePostRequest_def create demo_session_def Let_def cong: if_cong)
  then show ?thesis
    using demo_origin [of "''POST''" "[]"]
    by (simp add: ServeHTTP_def dispatch_method_def handleRequestWithSessionID_def handleRequest_def backend_response_def
        demo_http_def h_def demo_backend_def NewHTTPHandler_def)
qed

lemma show_zero: "show_int 0 = ''0''"
  by code_simp

lemma demo_stream:
  "fold http_step demo_ops (NewHTTPHandler 0) = (NewHTTPHandler 1)\<lparr>hh_transport := Some demo_backend,
     hh_sessions := [''mcp_session_6162'' \<mapsto> demo_session],
     hh_conns := [''conn-mcp_session_6162-0'' \<mapsto> 0], hh_alloc := 1,
     hh_objects := [0 \<mapsto> \<lparr>sc_id = ''conn-mcp_session_6162-0'', sc_session = ''mcp_session_6162'', sc_last = [],
       sc_closed = False, sc_out = hello_event 0 ''ready'' ''conn-mcp_session_6162-0''\<rparr>]\<rparr>"
  using demo_origin [of "''GET''" "''mcp_session_6162''"]
  by (simp add: demo_ops_def SetTransport_def demo_created)
    (simp add: serve_defs demo_session_def demo_defs open_stream_def Let_def show_zero
      hour_def minute_def second_def)


theorem stream_of_ended_session_witness:
  "fst (stream_leave ''conn-mcp_session_6162-0'' 0 (snd (ServeHTTP (demo_env 1) (demo_http ''DELETE'' ''mcp_session_6162'')
      (fold http_step demo_ops (NewHTTPHandler 0))))) = Panic ''close of closed channel''"
proof -
  let ?h = "fold http_step demo_ops (NewHTTPHandler 0)" and ?d = "demo_http ''DELETE'' ''mcp_session_6162''"
  have "hh_conns ?h ''conn-mcp_session_6162-0'' = Some 0" by (simp add: demo_stream)
  then obtain x where x: "hh_objects ?h 0 = Some x"
    and imp: "hq_method ?d = ''DELETE'' \<and> hq_session ?d = sc_session x \<and> live (hq_session ?d) (he_clock (demo_env 1) 0) ?h
        \<and> hq_session ?d \<noteq> [] \<and> isOriginAllowed (hh_origins ?h) (hq_origin ?d)
        \<and> he_clock (demo_env 1) 2 \<le> he_clock (demo_env 1) 1 + hh_timeout ?h \<longrightarrow>
      fst (stream_leave ''conn-mcp_session_6162-0'' 0 (snd (ServeHTTP (demo_env 1) ?d ?h))) = Panic ''close of closed channel''"
    using stream_of_ended_session [of demo_ops 0 "''conn-mcp_session_6162-0''" 0 ?d "demo_env 1"] unfolding Let_def by blast
  have "sc_session x = ''mcp_session_6162''" using x by (auto simp: demo_stream)
  moreover have "live ''mcp_session_6162'' 1 ?h" "1 \<le> 1 + hh_timeout ?h"
    unfolding demo_stream by (simp_all add: live_def demo_session_def NewHTTPHandler_def hour_def minute_def second_def)
  moreover have "hh_origins ?h = [''http://localhost'', ''https://localhost'']"
    unfolding demo_stream by (simp add: NewHTTPHandler_def)
  ultimately show ?thesis
    using imp demo_origin [of "''DELETE''" "''mcp_session_6162''"] by (simp add: demo_http_def demo_env_def)
qed

subsection \<open>The answer on a stream\<close>

lemma plain_event_id: "plain (event_id now)"
proof -
  have "is_digit c \<Longrightarrow> \<not> is_space c \<and> c \<noteq> CHR 0x0A" for c by (auto simp: is_digit_def is_space_def)
  then have s: "c \<in> set (show_int now) \<Longrightarrow> \<not> is_space c \<and> c \<noteq> CHR 0x0A" for c
    using show_nat_digits [of "nat now"] show_nat_digits [of "nat (- now)"]
    by (auto simp: show_int_def is_space_def split: if_splits)
  have ne: "show_int now \<noteq> []" by (simp add: show_int_def)
  have "trim_space (event_id now) = event_id now"
    using s [OF last_in_set [OF ne]] ne by (simp add: trim_space_def event_id_def is_space_def hd_rev dropWhile_eq_self_iff)
  then show ?thesis using s by (auto simp: plain_def event_id_def)
qed

lemma hello_is_event:
  assumes "CHR 0x0A \<notin> set c"
  shows "hello_event now kind c = sse_event (event_id now) kind (''{'' @ dq ''connectionId'' @ '':'' @ dq c @ ''}'')"
    "sse_data (''{'' @ dq ''connectionId'' @ '':'' @ dq c @ ''}'')"
proof -
  let ?d = "''{'' @ dq ''connectionId'' @ '':'' @ dq c @ ''}''"
  have n: "CHR 0x0A \<notin> set ?d" using assms by (simp add: dq_def)
  then show "hello_event now kind c = sse_event (event_id now) kind ?d"
    by (simp add: hello_event_def sse_event_def data_lines_def)
  have "trim_space ?d = ?d" by (simp add: trim_space_def is_space_def)
  then show "sse_data ?d" using n by (simp add: sse_data_def split_single plain_def)
qed

text \<open>
  C20. A streamed answer arrives: on the stream opened for a request (or by a GET), the client's reader
  finds the greeting with the connection's identifier and then the JSON text of the response that
  the transport gave, whole and unchanged, and keeps the identifier of its event for resuming.
\<close>

theorem streamed_answer_is_read:
  assumes "open_stream env session r kind h = ((c, n), h1)" "kind = ''connected'' \<or> kind = ''ready''"
    and "CHR 0x0A \<notin> set session" "backend_response q h1 = (Ok x, h2)" "wf_json (enc_response x)"
    and "es_connected es" "es_queue es = []"
  shows "\<exists>o1. hh_objects (stream_answer now n q h1) n = Some o1
    \<and> sse_lines (stream_lines (sc_out o1)) (es, no_part) =
        (es\<lparr>es_last := event_id now,
            es_queue := [''{'' @ dq ''connectionId'' @ '':'' @ dq c @ ''}'', json_print (enc_response x)]\<rparr>, no_part)"
proof -
  have c: "c = ''conn-'' @ session @ ''-'' @ show_int (he_clock env 0)" "n = hh_alloc h"
    and obj: "hh_objects h1 n = Some \<lparr>sc_id = c, sc_session = session, sc_last = hq_last_event r, sc_closed = False,
        sc_out = hello_event (he_clock env 1) kind c\<rparr>"
    using assms(1) by (auto simp: open_stream_def Let_def)
  have "CHR 0x0A \<notin> set (show_int t)" for t
    using plain_event_id [of t] by (auto simp: plain_def event_id_def)
  then have nl: "CHR 0x0A \<notin> set c" using c assms(3) by simp
  have obj2: "hh_objects h2 n = hh_objects h1 n"
    using backend_fields(4) [of q h1] assms(4) by simp
  let ?hello = "''{'' @ dq ''connectionId'' @ '':'' @ dq c @ ''}''" and ?d = "json_print (enc_response x)"
  let ?out = "hello_event (he_clock env 1) kind c @ sse_event (event_id now) ''response'' ?d"
  have "\<exists>kvs. enc_response x = JObj kvs" by (simp add: enc_response_def)
  then have data: "sse_data ?d" using json_object_data assms(5) by metis
  have evs: "list_all good_event [(event_id (he_clock env 1), kind, ?hello), (event_id now, ''response'', ?d)]"
    using assms(2) data hello_is_event(2) [OF nl] plain_event_id
    by (auto simp: good_event_def plain_def trim_space_def is_space_def)
  have "sse_lines (stream_lines (concat (map event_text [(event_id (he_clock env 1), kind, ?hello), (event_id now, ''response'', ?d)])))
      (es, no_part) = (es\<lparr>es_last := event_id now, es_queue := [?hello, ?d]\<rparr>, no_part)"
    using read_events [OF evs assms(6)] assms(7) by (simp add: event_id_def del: append.simps)
  then have "sse_lines (stream_lines ?out) (es, no_part) = (es\<lparr>es_last := event_id now, es_queue := [?hello, ?d]\<rparr>, no_part)"
    unfolding hello_is_event(1) [OF nl] by (simp add: event_text_def del: append.simps)
  then show ?thesis
    using obj obj2 by (simp add: stream_answer_def assms(4) sendSSEEvent_def del: append.simps)
qed


theorem streamed_answer_is_read_witness:
  "\<exists>o1. hh_objects (stream_answer 2 0 init_request (snd (open_stream (demo_env 1) ''s'' (demo_http ''POST'' ''s'') ''connected'' (demo_handler ''s'')))) 0
      = Some o1
    \<and> es_queue (fst (sse_lines (stream_lines (sc_out o1)) (demo_source, no_part))) ! 1
      = json_print (enc_response (NewResponse (GInt 1) (GBool True)))"
proof -
  let ?p = "open_stream (demo_env 1) ''s'' (demo_http ''POST'' ''s'') ''connected'' (demo_handler ''s'')"
  have o: "?p = ((fst (fst ?p), 0), snd ?p)" by (simp add: open_stream_def Let_def demo_handler_def NewHTTPHandler_def)
  have b: "backend_response init_request (snd ?p) = (Ok (NewResponse (GInt 1) (GBool True)), snd (backend_response init_request (snd ?p)))"
    by (simp add: backend_response_def open_stream_def Let_def demo_handler_def demo_backend_def init_request_def NewRequest_def)
  have w: "wf_json (enc_response (NewResponse (GInt 1) (GBool True)))"
    using wf_marshal_id [of "GInt 1"] by (simp add: enc_response_def NewResponse_def raw_of_def omit_raw_def good_id_def)
  from streamed_answer_is_read [OF o _ _ b w, of demo_source 2] show ?thesis
    by (auto simp: demo_source_def)
qed

end
