(* ===== verification/HttpExchange.thy ===== *)
theory HttpExchange
  imports HttpInvariant HttpSessions
begin

section \<open>The transport and the HTTP handler together\<close>

text \<open>
  The client's transport (\<open>streamable_http.go\<close>) with the server's handler (\<open>http_handler.go\<close>) behind its
  network: a POST or GET becomes the request that \<open>ServeHTTP\<close> reads, what it answers becomes the answer of
  the network. The lines of a stream come as the handler writes them; here they are arbitrary. \<open>net/http\<close>
  gives a text without a type one of its own, and ends the connection after a panic.
\<close>

subsection \<open>The network\<close>

definition header :: "string \<Rightarrow> (string \<times> string) list \<Rightarrow> string" where
  "header k hs = (case map_of hs k of None \<Rightarrow> [] | Some v \<Rightarrow> v)"

definition to_request :: "http_post \<Rightarrow> http_request" where
  "to_request p = \<lparr>hq_method = po_method p, hq_origin = header ''Origin'' (po_headers p),
     hq_session = header ''MCP-Session-ID'' (po_headers p), hq_accept = header ''Accept'' (po_headers p),
     hq_last_event = header ''Last-Event-ID'' (po_headers p), hq_body = Inr (po_body p), hq_flusher = True\<rparr>"

definition content_type :: "headers \<Rightarrow> string" where
  "content_type hs = (case map_of hs ''Content-Type'' of None \<Rightarrow> ''text/plain; charset=utf-8'' | Some v \<Rightarrow> v)"

fun to_answer :: "served \<Rightarrow> net_result" where
  "to_answer (Reply r) = Answered \<lparr>ha_status = hp_status r, ha_reason = [], ha_session = header ''MCP-Session-ID'' (hp_headers r),
     ha_type = content_type (hp_headers r), ha_last = [], ha_body = hp_body r, ha_cut = None\<rparr>"
| "to_answer (Streaming hs c n q) = Answered \<lparr>ha_status = 200, ha_reason = ''200 OK'', ha_session = header ''MCP-Session-ID'' hs,
     ha_type = content_type hs, ha_last = [], ha_body = [], ha_cut = None\<rparr>"
| "to_answer (Aborted m) = NotSent (ErrText ''EOF'')"

definition serve_net :: "('w http_handler \<Rightarrow> http_env) \<Rightarrow> 'w http_handler network" where
  "serve_net e p h = (case ServeHTTP (e h) (to_request p) h of (x, h') \<Rightarrow> (to_answer x, h'))"

subsection \<open>Headers\<close>

text \<open>The header a configured transport sends; the last setting counts.\<close>

definition client_header :: "string \<Rightarrow> http_client \<Rightarrow> string option" where
  "client_header k c = map_of (rev (hc_headers c)) k"

lemma map_of_fold_put:
  "map_of (fold (\<lambda>(k, v). put_assoc k v) hs m) x = (case map_of (rev hs) x of None \<Rightarrow> map_of m x | Some v \<Rightarrow> Some v)"
proof (induction hs arbitrary: m)
  case (Cons p hs)
  obtain k v where "p = (k, v)" by (cases p)
  then show ?case by (simp add: Cons.IH map_of_put_assoc map_add_def split: option.split)
qed simp

lemma post_headers:
  "header ''Origin'' (po_headers (request_post stream data c)) = (case client_header ''Origin'' c of None \<Rightarrow> [] | Some v \<Rightarrow> v)"
  "client_header ''MCP-Session-ID'' c = None \<Longrightarrow> header ''MCP-Session-ID'' (po_headers (request_post stream data c)) = hc_session c"
  "accepts_streams c \<Longrightarrow> header ''Accept'' (po_headers (request_post stream data c)) = stream_accept"
  using post_accept [of c stream data]
  by (simp_all add: header_def request_post_def Let_def map_of_put_assoc map_of_fold_put client_header_def split: option.split)

subsection \<open>A handler that never answers in JSON\<close>

definition streams_only :: "headers \<Rightarrow> bool" where
  "streams_only hs \<longleftrightarrow> map_of hs ''Content-Type'' = None \<or> map_of hs ''Content-Type'' = Some ''text/event-stream''"

fun streams_served :: "served \<Rightarrow> bool" where
  "streams_served (Reply r) \<longleftrightarrow> streams_only (hp_headers r)"
| "streams_served (Streaming hs c n q) \<longleftrightarrow> streams_only hs"
| "streams_served (Aborted m) \<longleftrightarrow> True"

lemma streams_headers [simp]:
  "streams_only []" "streams_only (cors_headers r)" "streams_only (sse_headers hs)"
  "streams_only [(''Access-Control-Allow-Origin'', x)]" "streams_only (cors_headers r @ [(''Access-Control-Max-Age'', y)])"
  "streams_only (put_assoc ''MCP-Session-ID'' y hs) = streams_only hs"
  by (simp_all add: streams_only_def cors_headers_def sse_headers_def map_of_put_assoc)

lemma streams_refuse [simp]: "streams_served (refuse hs status msg) = streams_only hs"
  by (simp add: refuse_def)

lemma post_streams:
  assumes "hq_accept r = stream_accept"
  shows "streams_served (fst (handlePostRequest env r h))"
proof -
  have w: "wants_stream (hq_accept r)" using assms by (simp add: wants_stream_def stream_accept_def)
  have s: "streams_served (fst (handleStreamingRequest env' hs r q x h'))" for env' hs q x h'
    by (simp add: handleStreamingRequest_def Let_def split: prod.split)
  show ?thesis
    by (simp add: handlePostRequest_def Let_def w s split: sum.split option.split prod.split)
qed

lemma serve_streams:
  assumes "hq_accept r = stream_accept"
  shows "streams_served (fst (ServeHTTP env r h))"
proof -
  have d: "streams_served (fst (dispatch_method env' r h'))" for env' h'
    by (auto simp: post_streams [OF assms] dispatch_method_def handleGetRequest_def handleOptionsRequest_def handleDeleteRequest_def Let_def
        split: option.split prod.split)
  show ?thesis by (simp add: ServeHTTP_def d split: option.split prod.split)
qed

lemma quiet_answer:
  assumes "streams_served x" shows "quiet (to_answer x)"
proof -
  have "\<not> str_contains ''text/plain; charset=utf-8'' ''application/json''" "str_contains ''text/event-stream'' ''text/event-stream''"
    by (simp_all add: has_prefix_def)
  then show ?thesis
    using assms by (cases x) (auto simp: quiet_def streams_only_def content_type_def split: option.split)
qed

lemma serve_net_quiet:
  assumes "map_of (po_headers p) ''Accept'' = Some stream_accept"
  shows "quiet (fst (serve_net e p h))"
proof -
  have "hq_accept (to_request p) = stream_accept" using assms by (simp add: to_request_def header_def)
  from serve_streams [OF this, of "e h" h] show ?thesis
    by (cases "ServeHTTP (e h) (to_request p) h") (simp add: serve_net_def quiet_answer)
qed

text \<open>The handler behind the network keeps the contract of a server that answers by streams.\<close>

interpretation own: streaming_server "\<lparr>su_net = serve_net e, su_handlers = hs, su_why = why\<rparr>" for e hs why
  by unfold_locales (simp add: serve_net_quiet)

subsection \<open>Calls to the handler\<close>

lemma begin_call_headers:
  assumes "begin_call c = ((i, n), c1)"
  shows "client_header k c1 = client_header k c" "accepts_streams c1 = accepts_streams c"
  using begin_call_fields(3) [OF assms] by (simp_all add: client_header_def accepts_streams_def)

text \<open>
  The client must be given an origin: without an \<open>Origin\<close> header in its configuration (it has none by
  default, and \<open>Initialize\<close> sets none) every call to the SDK's own handler fails with 403, whatever
  origins the handler allows, the wildcard included, and leaves the handler as it is.
\<close>

theorem client_without_origin_refused:
  assumes "begin_call c = ((i, n), c1)" "client_header ''Origin'' c = None"
  shows "\<exists>c'. http_SendRequest \<lparr>su_net = serve_net e, su_handlers = hs, su_why = why\<rparr> meanwhile None m params (c, h)
    = Some (Err (http_error ''send_request'' (hc_endpoint c) 0 (ErrText ''HTTP error 403: Origin not allowed'')
        (http_context i m ''send_http_request'')), (c', h))"
proof -
  let ?stream = "request_stream i" and ?data = "json_print (enc_request (NewRequest (GStr i) m params))"
  let ?env = "\<lparr>su_net = serve_net e, su_handlers = hs, su_why = why\<rparr>"
  have "hq_origin (to_request (request_post ?stream ?data c1)) = []"
    using post_headers(1) [where stream = ?stream and data = ?data and c = c1] begin_call_headers(1) [OF assms(1)] assms(2) by (simp add: to_request_def)
  then have "serve_net e (request_post ?stream ?data c1) h = (to_answer (refuse [] 403 ''Origin not allowed''), h)"
    by (simp add: serve_net_def ServeHTTP_def isOriginAllowed_def)
  moreover have "show_int 403 = ''403''" by code_simp
  ultimately have "sendHTTPRequest ?env ?stream ?data (c1, h) = Some (Err (ErrText ''HTTP error 403: Origin not allowed''), (c1, h))"
    by (subst sendHTTPRequest.simps) (simp add: refuse_def answer_message_def Let_def)
  then show ?thesis
    using assms(1) begin_call_fields(4) [OF assms(1)] by (simp add: http_SendRequest_def Let_def)
qed

text \<open>A POST of a request that the handler lets in is answered by a stream.\<close>

lemma serve_request_streams:
  fixes h :: "'w http_handler"
  assumes "isOriginAllowed (hh_origins h) (hq_origin r)" "hq_session r = [] \<or> live (hq_session r) (he_clock env 0) h"
    and "hq_method r = ''POST''" "hq_accept r = stream_accept" "hq_flusher r" "hh_transport h \<noteq> None"
    and "hq_body r = Inr (json_print (enc_request q))" "good_item (BReq q)" "req_method q \<noteq> MethodInitialize"
  shows "\<exists>hs k n q' h'. ServeHTTP env r h = (Streaming hs k n q', h') \<and> map_of hs ''Content-Type'' = Some ''text/event-stream''"
proof -
  have w: "wants_stream (hq_accept r)" using assms(4) by (simp add: wants_stream_def stream_accept_def)
  have stream: "\<exists>k n h2 ys. handleStreamingRequest env' hs r q' x h' = (Streaming ys k n (Some q'), h2) \<and>
      map_of ys ''Content-Type'' = Some ''text/event-stream''" for env' hs q' x and h' :: "'w http_handler"
    using assms(5) by (simp add: handleStreamingRequest_def Let_def sse_headers_def map_of_put_assoc split: prod.split)
  have post: "\<exists>hs k n q' h2. handlePostRequest env' r h' = (Streaming hs k n q', h2) \<and>
      map_of hs ''Content-Type'' = Some ''text/event-stream''" if "hh_transport h' \<noteq> None" for env' and h' :: "'w http_handler"
    using stream [of "later 1 env'" "cors_headers r" "q\<lparr>req_id := wire_id (req_id q)\<rparr>" "hq_session r" h']
      request_text [OF assms(8)] assms(7,9) that w
    by (auto simp: handlePostRequest_def Let_def)
  show ?thesis
  proof (cases "hq_session r = []")
    case True
    then show ?thesis using post [OF assms(6)] assms(1,3) by (simp add: ServeHTTP_def dispatch_method_def)
  next
    case False
    then obtain s where s: "isSessionValid (he_clock env 0) (hq_session r) h = (Some s, h)"
      using assms(2) by (auto simp: live_def isSessionValid_def split: option.splits)
    have "hh_transport (updateSessionLastUsed (he_clock env 1) (hq_session r) h) \<noteq> None"
      using assms(6) by (simp add: updateSessionLastUsed_def split: option.split)
    from post [OF this] show ?thesis
      using False s assms(1,3) by (simp add: ServeHTTP_def dispatch_method_def)
  qed
qed


subsection \<open>A concrete exchange\<close>

theorem client_without_origin_refused_witness:
  "\<exists>c'. http_SendRequest \<lparr>su_net = serve_net (\<lambda>h. demo_env 5), su_handlers = NewHandlers, su_why = (\<lambda>d. ErrJSONSyntax [])\<rparr>
      (\<lambda>k s. s) None ''ping'' GNil (demo_client\<lparr>hc_headers := [(''X-Trace'', ''1'')]\<rparr>, (demo_handler ''s'')\<lparr>hh_origins := [''*'']\<rparr>)
    = Some (Err (http_error ''send_request'' ''http://localhost/mcp'' 0 (ErrText ''HTTP error 403: Origin not allowed'')
        (http_context ''streamable-http-1'' ''ping'' ''send_http_request'')), (c', (demo_handler ''s'')\<lparr>hh_origins := [''*'']\<rparr>))"
proof -
  obtain c1 where b: "begin_call (demo_client\<lparr>hc_headers := [(''X-Trace'', ''1'')]\<rparr>) = ((''streamable-http-1'', 0), c1)"
    by (rule demo_begin)
  have "hc_endpoint (demo_client\<lparr>hc_headers := [(''X-Trace'', ''1'')]\<rparr>) = ''http://localhost/mcp''"
    by (simp add: demo_client_def newStreamableHTTPTransport_def)
  then show ?thesis
    using client_without_origin_refused [OF b, of "\<lambda>h. demo_env 5" NewHandlers "\<lambda>d. ErrJSONSyntax []" "\<lambda>k s. s" "''ping''" GNil
        "(demo_handler ''s'')\<lparr>hh_origins := [''*'']\<rparr>"]
    by (simp add: client_header_def)
qed


end
