(* ===== verification/Server.thy ===== *)
theory Server
  imports BaseTransport Subscriptions Calls Conversion
begin

section \<open>The server (\<open>pkg/server/server.go\<close>)\<close>

text \<open>
  The server: its options and construction, the handlers it registers with its transport, the
  notifications it sends, and the table of active requests. A provider is an interface, a record of
  functions on the state \<open>'p\<close> of the application, which they may change; a slice a provider returns
  may be nil (\<open>None\<close>), and so may a pointer. What the code asks of its surroundings (the clock, the
  state of the request's context, the text of a decoding error, the formatting of the time) is a
  record of functions. A handler gets its parameters as an interface value: \<open>None\<close> for nil, and
  otherwise the raw message that every transport passes. Logging is left out.
\<close>

subsection \<open>Providers and state\<close>

type_synonym 'a slice = "'a list option \<times> int \<times> string \<times> bool"
type_synonym ('p, 'r) query = "'p \<Rightarrow> (goerr, 'r) outcome \<times> 'p"

record 'p tools_iface =
  ti_list :: "call_ctx \<Rightarrow> string \<Rightarrow> pagination_params option \<Rightarrow> ('p, tool slice) query"
  ti_call :: "call_ctx \<Rightarrow> string \<Rightarrow> json option \<Rightarrow> json option \<Rightarrow> ('p, call_tool_result option) query"

record 'p resources_iface =
  rsi_list :: "call_ctx \<Rightarrow> string \<Rightarrow> bool \<Rightarrow> pagination_params option \<Rightarrow>
    ('p, resource list option \<times> resource_template list \<times> int \<times> string \<times> bool) query"
  rsi_read :: "call_ctx \<Rightarrow> string \<Rightarrow> (string \<times> gval) list \<Rightarrow> resource_range option \<Rightarrow> ('p, resource_contents option) query"
  rsi_subscribe :: "call_ctx \<Rightarrow> string \<Rightarrow> bool \<Rightarrow> ('p, bool) query"

record 'p prompts_iface =
  pi_list :: "call_ctx \<Rightarrow> string \<Rightarrow> pagination_params option \<Rightarrow> ('p, prompt slice) query"
  pi_get :: "call_ctx \<Rightarrow> string \<Rightarrow> ('p, prompt option) query"

record 'p roots_iface =
  rti_list :: "call_ctx \<Rightarrow> string \<Rightarrow> pagination_params option \<Rightarrow> ('p, root slice) query"

type_synonym 'p completion_iface = "call_ctx \<Rightarrow> complete_params \<Rightarrow> ('p, complete_result option) query"

text \<open>A cancel function of the table of active requests is a number; calling it is recorded.\<close>

record 'p server =
  sv_name :: string
  sv_version :: string
  sv_description :: string
  sv_homepage :: string
  sv_capabilities :: "(string \<times> bool) list"
  sv_features :: "(string \<times> gval) list"
  sv_tools :: "'p tools_iface option"
  sv_resources :: "'p resources_iface option"
  sv_prompts :: "'p prompts_iface option"
  sv_completion :: "'p completion_iface option"
  sv_roots :: "'p roots_iface option"
  sv_initialized :: bool
  sv_client :: "client_info option"
  sv_active :: "string \<rightharpoonup> nat"
  sv_cancelled :: "nat list"
  sv_stopped :: bool
  sv_manager :: "manager option"
  sv_world :: 'p

record 'p server_env =
  se_now :: "nat \<Rightarrow> 'p \<Rightarrow> instant"
  se_cancelled :: "call_ctx \<Rightarrow> 'p \<Rightarrow> bool"
  se_why :: "string \<Rightarrow> json \<Rightarrow> string"

subsection \<open>Options\<close>

definition WithName :: "string \<Rightarrow> 'p server \<Rightarrow> 'p server" where
  "WithName x s = s\<lparr>sv_name := x\<rparr>"
definition WithVersion :: "string \<Rightarrow> 'p server \<Rightarrow> 'p server" where
  "WithVersion x s = s\<lparr>sv_version := x\<rparr>"
definition WithDescription :: "string \<Rightarrow> 'p server \<Rightarrow> 'p server" where
  "WithDescription x s = s\<lparr>sv_description := x\<rparr>"
definition WithHomepage :: "string \<Rightarrow> 'p server \<Rightarrow> 'p server" where
  "WithHomepage x s = s\<lparr>sv_homepage := x\<rparr>"
definition WithCapability :: "string \<Rightarrow> bool \<Rightarrow> 'p server \<Rightarrow> 'p server" where
  "WithCapability c enabled s = s\<lparr>sv_capabilities := put_assoc c enabled (sv_capabilities s)\<rparr>"
definition WithFeatureOptions :: "(string \<times> gval) list \<Rightarrow> 'p server \<Rightarrow> 'p server" where
  "WithFeatureOptions opts s = s\<lparr>sv_features := fold (\<lambda>(k, v). put_assoc k v) opts (sv_features s)\<rparr>"
definition WithToolsProvider :: "'p tools_iface option \<Rightarrow> 'p server \<Rightarrow> 'p server" where
  "WithToolsProvider p s = WithCapability CapabilityTools True (s\<lparr>sv_tools := p\<rparr>)"
definition WithResourcesProvider :: "'p resources_iface option \<Rightarrow> 'p server \<Rightarrow> 'p server" where
  "WithResourcesProvider p s = WithCapability CapabilityResources True (s\<lparr>sv_resources := p\<rparr>)"
definition WithResourceSubscriptions :: "'p server \<Rightarrow> 'p server" where
  "WithResourceSubscriptions s = WithCapability CapabilityResourceSubscriptions True s"
definition WithPromptsProvider :: "'p prompts_iface option \<Rightarrow> 'p server \<Rightarrow> 'p server" where
  "WithPromptsProvider p s = WithCapability CapabilityPrompts True (s\<lparr>sv_prompts := p\<rparr>)"
definition WithCompletionProvider :: "'p completion_iface option \<Rightarrow> 'p server \<Rightarrow> 'p server" where
  "WithCompletionProvider p s = WithCapability CapabilityComplete True (s\<lparr>sv_completion := p\<rparr>)"
definition WithRootsProvider :: "'p roots_iface option \<Rightarrow> 'p server \<Rightarrow> 'p server" where
  "WithRootsProvider p s = WithCapability CapabilityRoots True (s\<lparr>sv_roots := p\<rparr>)"

lemmas option_defs = WithName_def WithVersion_def WithDescription_def WithHomepage_def
  WithCapability_def WithFeatureOptions_def WithToolsProvider_def WithResourcesProvider_def
  WithResourceSubscriptions_def WithPromptsProvider_def WithCompletionProvider_def WithRootsProvider_def

definition has_capability :: "'p server \<Rightarrow> string \<Rightarrow> bool" where
  "has_capability s c \<longleftrightarrow> map_of (sv_capabilities s) c = Some True"

subsection \<open>Errors of the handlers\<close>

definition createRequestContext :: "string \<Rightarrow> gval \<Rightarrow> err_context" where
  "createRequestContext m i = empty_context\<lparr>ctx_request_id := go_str i, ctx_method := m,
     ctx_component := ''Server'', ctx_operation := m\<rparr>"

definition requireProvider :: "string \<Rightarrow> 'i option \<Rightarrow> string \<Rightarrow> (goerr, 'i) outcome" where
  "requireProvider what p m =
     (case p of
        None \<Rightarrow> Err (ErrMCP (WithContext (Some (createRequestContext m GNil)) (ProviderNotConfigured what)))
      | Some x \<Rightarrow> Ok x)"

definition requireCapability :: "'p server \<Rightarrow> string \<Rightarrow> string \<Rightarrow> (goerr, unit) outcome" where
  "requireCapability s c m =
     (if has_capability s c then Ok ()
      else Err (ErrMCP (WithContext (Some (createRequestContext m GNil)) (CapabilityRequired c))))"

definition validateParams :: "'p server_env \<Rightarrow> string \<Rightarrow> (json \<Rightarrow> 'a option) \<Rightarrow> json option option \<Rightarrow> string \<Rightarrow>
    (goerr, 'a) outcome" where
  "validateParams env target dec params m =
     (case params of
        None \<Rightarrow> Err (ErrMCP (WithContext (Some (createRequestContext m GNil)) (MissingParameter ''params'')))
      | Some raw \<Rightarrow>
          (case dec (enc_raw raw) of
             Some x \<Rightarrow> Ok x
           | None \<Rightarrow> Err (ErrMCP (WithDetail (se_why env target (enc_raw raw))
               (WithContext (Some (createRequestContext m GNil)) (InvalidParameter ''params'' (GRaw raw) target))))))"

definition requireInitialized :: "'p server \<Rightarrow> string \<Rightarrow> goerr option" where
  "requireInitialized s operation =
     (if sv_initialized s then None
      else Some (ErrMCP (WithContext (Some (empty_context\<lparr>ctx_component := ''Server'', ctx_operation := operation\<rparr>))
        (NewError CodeServerNotReady ''Server must be initialized before this operation''
           CategoryInternal SeverityError))))"

definition provider_failure :: "string \<Rightarrow> string \<Rightarrow> string \<Rightarrow> string option \<Rightarrow> goerr \<Rightarrow> (goerr, 'a) outcome" where
  "provider_failure what operation m detail e =
     (case ProviderError what operation (Some e) of
        Ok x \<Rightarrow> Err (ErrMCP (let y = WithContext (Some (createRequestContext m GNil)) x
                 in case detail of None \<Rightarrow> y | Some d \<Rightarrow> WithDetail d y))
      | Err x \<Rightarrow> Err x
      | Panic x \<Rightarrow> Panic x)"

text \<open>Running a query of a provider on the server's application state.\<close>

definition ask :: "('p, 'r) query \<Rightarrow> 'p server \<Rightarrow> (goerr, 'r) outcome \<times> 'p server" where
  "ask q s = (case q (sv_world s) of (x, w) \<Rightarrow> (x, s\<lparr>sv_world := w\<rparr>))"

subsection \<open>Active requests\<close>

definition trackRequest :: "string \<Rightarrow> nat \<Rightarrow> 'p server \<Rightarrow> 'p server" where
  "trackRequest i f s = s\<lparr>sv_active := (sv_active s)(i \<mapsto> f)\<rparr>"

definition completeRequest :: "string \<Rightarrow> 'p server \<Rightarrow> 'p server" where
  "completeRequest i s = s\<lparr>sv_active := (sv_active s)(i := None)\<rparr>"

definition cancelRequest :: "string \<Rightarrow> 'p server \<Rightarrow> bool \<times> 'p server" where
  "cancelRequest i s =
     (case sv_active s i of
        None \<Rightarrow> (False, s)
      | Some f \<Rightarrow> (True, s\<lparr>sv_active := (sv_active s)(i := None), sv_cancelled := sv_cancelled s @ [f]\<rparr>))"

subsection \<open>Handlers\<close>

type_synonym 'p handler = "call_ctx \<Rightarrow> json option option \<Rightarrow> 'p server \<Rightarrow> (goerr, handler_value) outcome \<times> 'p server"

definition page_params :: "pagination_params \<Rightarrow> pagination_params option" where
  "page_params p = Some \<lparr>pg_limit = pg_limit p, pg_cursor = pg_cursor p\<rparr>"

definition nil_pointer :: "(goerr, 'a) outcome" where
  "nil_pointer = Panic ''invalid memory address or nil pointer dereference''"

definition handleInitialize :: "'p server_env \<Rightarrow> 'p handler" where
  "handleInitialize env cx params s =
     after_check (validateParams env ''*protocol.InitializeParams'' dec_initialize_params params MethodInitialize)
       (\<lambda>p s. (Ok (Marshals (enc_initialize_result
          \<lparr>ir_protocol_version = ProtocolRevision, ir_name = sv_name s, ir_version = sv_version s,
           ir_capabilities = Some (sv_capabilities s),
           ir_server_info = Some \<lparr>si_name = sv_name s, si_version = sv_version s,
             si_description = sv_description s, si_homepage = sv_homepage s\<rparr>,
           ir_feature_options = sv_features s\<rparr>)),
         s\<lparr>sv_client := ip_client_info p, sv_initialized := True\<rparr>)) s"

definition handleInitialized :: "call_ctx \<Rightarrow> json option \<Rightarrow> 'p server \<Rightarrow> (goerr, unit) outcome \<times> 'p server" where
  "handleInitialized cx params s = (Ok (), s\<lparr>sv_initialized := True\<rparr>)"

definition handleSetCapability :: "'p server_env \<Rightarrow> 'p handler" where
  "handleSetCapability env cx params s =
     after_check (validateParams env ''*protocol.SetCapabilityParams'' dec_set_capability_params params MethodSetCapability)
       (\<lambda>p s. (Ok (Marshals (enc_set_capability_result \<lparr>scr_success = True\<rparr>)), s)) s"

definition handleCancel :: "'p server_env \<Rightarrow> 'p handler" where
  "handleCancel env cx params s =
     after_check (validateParams env ''*protocol.CancelParams'' dec_cancel_params params MethodCancel)
       (\<lambda>p s. case cancelRequest (go_str (cp_id p)) s of
          (b, s') \<Rightarrow> (Ok (Marshals (enc_cancel_result \<lparr>cr_cancelled = b\<rparr>)), s')) s"

definition handlePing :: "'p server_env \<Rightarrow> 'p handler" where
  "handlePing env cx params s =
     after_check (validateParams env ''*protocol.PingParams'' dec_ping_params params MethodPing)
       (\<lambda>p s. (Ok (Marshals (enc_ping_result \<lparr>pr_timestamp =
          (if pp_timestamp p = 0 then go_div (se_now env 0 (sv_world s)) millisecond else pp_timestamp p)\<rparr>)), s)) s"

definition handleSetLogLevel :: "'p server_env \<Rightarrow> 'p handler" where
  "handleSetLogLevel env cx params s =
     after_check (requireCapability s CapabilityLogging MethodSetLogLevel) (\<lambda>_.
     after_check (validateParams env ''*protocol.SetLogLevelParams'' dec_set_log_level_params params MethodSetLogLevel)
       (\<lambda>p s. (Ok (Marshals (enc_set_log_level_result \<lparr>sllr_success = True\<rparr>)), s))) s"

definition handleListTools :: "'p server_env \<Rightarrow> 'p handler" where
  "handleListTools env cx params s =
     after_check (requireProvider ''tools'' (sv_tools s) MethodListTools) (\<lambda>t.
     after_check (validateParams env ''*protocol.ListToolsParams'' dec_list_tools_params params MethodListTools) (\<lambda>p s.
     answer_with (ask (ti_list t cx (ltp_category p) (page_params (ltp_page p))) s)
       (\<lambda>(tools, count, nxt, has_more). Ok (Marshals (enc_list_tools_result
          \<lparr>ltr_tools = tools, ltr_page = page_result count nxt has_more\<rparr>)))
       (provider_failure ''tools'' ''ListTools'' MethodListTools (Some (''Category: '' @ ltp_category p))))) s"

definition handleCallTool :: "'p server_env \<Rightarrow> 'p handler" where
  "handleCallTool env cx params s =
     after_check (requireProvider ''tools'' (sv_tools s) MethodCallTool) (\<lambda>t.
     after_check (validateParams env ''*protocol.CallToolParams'' dec_call_tool_params params MethodCallTool) (\<lambda>p s.
     case ask (ti_call t cx (ctp_name p) (ctp_input p) (ctp_context p)) s of
       (Ok r, s') \<Rightarrow> (Ok (Marshals (case r of None \<Rightarrow> JNull | Some x \<Rightarrow> enc_call_tool_result x)), s')
     | (Err e, s') \<Rightarrow> (Ok (Marshals (enc_call_tool_result (zero_call_tool_result\<lparr>ctr_error :=
          (if se_cancelled env cx (sv_world s') then ''Tool call was cancelled'' else Error e)\<rparr>))), s')
     | (Panic m, s') \<Rightarrow> (Panic m, s'))) s"

definition handleListResources :: "'p server_env \<Rightarrow> 'p handler" where
  "handleListResources env cx params s =
     after_check (requireProvider ''resources'' (sv_resources s) MethodListResources) (\<lambda>t.
     after_check (validateParams env ''*protocol.ListResourcesParams'' dec_list_resources_params params MethodListResources) (\<lambda>p s.
     answer_with (ask (rsi_list t cx (lrp_uri p) (lrp_recursive p) (page_params (lrp_page p))) s)
       (\<lambda>(resources, templates, count, nxt, has_more). Ok (Marshals (enc_list_resources_result
          \<lparr>lrr_resources = resources, lrr_templates = templates, lrr_page = page_result count nxt has_more\<rparr>)))
       (provider_failure ''resources'' ''ListResources'' MethodListResources
          (Some (''URI: '' @ lrp_uri p @ '', Recursive: '' @ show_bool (lrp_recursive p)))))) s"

definition handleReadResource :: "'p server_env \<Rightarrow> 'p handler" where
  "handleReadResource env cx params s =
     after_check (requireProvider ''resources'' (sv_resources s) MethodReadResource) (\<lambda>t.
     after_check (validateParams env ''*protocol.ReadResourceParams'' dec_read_resource_params params MethodReadResource) (\<lambda>p s.
     answer_with (ask (rsi_read t cx (rrp_uri p) (rrp_template_params p) (rrp_range p)) s)
       (\<lambda>contents. case contents of None \<Rightarrow> nil_pointer
          | Some c \<Rightarrow> Ok (Marshals (enc_read_resource_result \<lparr>rrr_contents = c\<rparr>)))
       (provider_failure ''resources'' ''ReadResource'' MethodReadResource (Some (''URI: '' @ rrp_uri p))))) s"

text \<open>The resources provider, wrapped when there is a subscription manager.\<close>

definition subscribe_resource :: "'p server_env \<Rightarrow> 'p resources_iface \<Rightarrow> call_ctx \<Rightarrow> string \<Rightarrow> bool \<Rightarrow> 'p server \<Rightarrow>
    (goerr, bool) outcome \<times> 'p server" where
  "subscribe_resource env t cx uri recursive s =
     (case sv_manager s of
        None \<Rightarrow> ask (rsi_subscribe t cx uri recursive) s
      | Some m \<Rightarrow>
          (case subscribable_Subscribe (se_now env) (rsi_subscribe t cx) uri recursive (m, sv_world s) of
             (x, (m', w)) \<Rightarrow> (x, s\<lparr>sv_manager := Some m', sv_world := w\<rparr>)))"

definition handleSubscribeResource :: "'p server_env \<Rightarrow> 'p handler" where
  "handleSubscribeResource env cx params s =
     after_check (requireProvider ''resources'' (sv_resources s) MethodSubscribeResource) (\<lambda>t s.
     after_check (requireCapability s CapabilityResourceSubscriptions MethodSubscribeResource) (\<lambda>_.
     after_check (validateParams env ''*protocol.SubscribeResourceParams'' dec_subscribe_resource_params params MethodSubscribeResource) (\<lambda>p s.
     answer_with (subscribe_resource env t cx (srp_uri p) (srp_recursive p) s)
       (\<lambda>b. Ok (Marshals (enc_subscribe_resource_result \<lparr>srr_success = b\<rparr>)))
       (provider_failure ''resources'' ''SubscribeResource'' MethodSubscribeResource
          (Some (''URI: '' @ srp_uri p @ '', Recursive: '' @ show_bool (srp_recursive p)))))) s) s"

definition handleListPrompts :: "'p server_env \<Rightarrow> 'p handler" where
  "handleListPrompts env cx params s =
     after_check (requireProvider ''prompts'' (sv_prompts s) MethodListPrompts) (\<lambda>t.
     after_check (validateParams env ''*protocol.ListPromptsParams'' dec_list_prompts_params params MethodListPrompts) (\<lambda>p s.
     answer_with (ask (pi_list t cx (lpp_tag p) (page_params (lpp_page p))) s)
       (\<lambda>(prompts, count, nxt, has_more). Ok (Marshals (enc_list_prompts_result
          \<lparr>lpr_prompts = prompts, lpr_page = page_result count nxt has_more\<rparr>)))
       (provider_failure ''prompts'' ''ListPrompts'' MethodListPrompts (Some (''Tag: '' @ lpp_tag p))))) s"

definition handleGetPrompt :: "'p server_env \<Rightarrow> 'p handler" where
  "handleGetPrompt env cx params s =
     after_check (requireProvider ''prompts'' (sv_prompts s) MethodGetPrompt) (\<lambda>t.
     after_check (validateParams env ''*protocol.GetPromptParams'' dec_get_prompt_params params MethodGetPrompt) (\<lambda>p s.
     answer_with (ask (pi_get t cx (gpp_id p)) s)
       (\<lambda>prompt. case prompt of None \<Rightarrow> nil_pointer
          | Some x \<Rightarrow> Ok (Marshals (enc_get_prompt_result \<lparr>gpr_prompt = x\<rparr>)))
       (provider_failure ''prompts'' ''GetPrompt'' MethodGetPrompt (Some (''ID: '' @ gpp_id p))))) s"

definition handleComplete :: "'p server_env \<Rightarrow> 'p handler" where
  "handleComplete env cx params s =
     after_check (requireProvider ''completion'' (sv_completion s) MethodComplete) (\<lambda>t.
     after_check (validateParams env ''*protocol.CompleteParams'' dec_complete_params params MethodComplete) (\<lambda>p s.
     answer_with (ask (t cx p) s)
       (\<lambda>r. Ok (Marshals (case r of None \<Rightarrow> JNull | Some x \<Rightarrow> enc_complete_result x)))
       (provider_failure ''completion'' ''Complete'' MethodComplete None))) s"

definition handleListRoots :: "'p server_env \<Rightarrow> 'p handler" where
  "handleListRoots env cx params s =
     after_check (requireProvider ''roots'' (sv_roots s) MethodListRoots) (\<lambda>t.
     after_check (validateParams env ''*protocol.ListRootsParams'' dec_list_roots_params params MethodListRoots) (\<lambda>p s.
     answer_with (ask (rti_list t cx (lrtp_tag p) (page_params (lrtp_page p))) s)
       (\<lambda>(roots, count, nxt, has_more). Ok (Marshals (enc_list_roots_result
          \<lparr>lrtr_roots = roots, lrtr_page = page_result count nxt has_more\<rparr>)))
       (provider_failure ''roots'' ''ListRoots'' MethodListRoots (Some (''Tag: '' @ lrtp_tag p))))) s"

subsection \<open>Construction\<close>

definition new_server :: "'p \<Rightarrow> 'p server" where
  "new_server w = \<lparr>sv_name = ''go-mcp-server'', sv_version = ''1.0.0'', sv_description = [], sv_homepage = [],
     sv_capabilities = [], sv_features = [], sv_tools = None, sv_resources = None, sv_prompts = None,
     sv_completion = None, sv_roots = None, sv_initialized = False, sv_client = None,
     sv_active = Map.empty, sv_cancelled = [], sv_stopped = False, sv_manager = None, sv_world = w\<rparr>"

definition configured :: "('p server \<Rightarrow> 'p server) list \<Rightarrow> 'p \<Rightarrow> 'p server" where
  "configured options w =
     (let s = fold (\<lambda>opt s. opt s) options (new_server w)
      in if has_capability s CapabilityResources \<and> has_capability s CapabilityResourceSubscriptions
         then s\<lparr>sv_manager := Some NewResourceSubscriptionManager\<rparr> else s)"

text \<open>The transport hands its raw parameters to a handler.\<close>

definition raw_handler :: "'p handler \<Rightarrow> 'p server request_handler" where
  "raw_handler h cx raw s = h cx (Some raw) s"

definition register_if :: "bool \<Rightarrow> (string \<times> 'p handler) list \<Rightarrow> 'p server handlers \<Rightarrow> 'p server handlers" where
  "register_if b hs t = (if b then fold (\<lambda>(m, h). RegisterRequestHandler m (raw_handler h)) hs t else t)"

definition register_all :: "'p server_env \<Rightarrow> 'p server \<Rightarrow> 'p server handlers \<Rightarrow> 'p server handlers" where
  "register_all env s t =
     (let t1 = register_if True [(MethodInitialize, handleInitialize env), (MethodSetCapability, handleSetCapability env),
            (MethodCancel, handleCancel env), (MethodPing, handlePing env), (MethodSetLogLevel, handleSetLogLevel env)] t;
          t2 = RegisterNotificationHandler MethodInitialized handleInitialized t1;
          t3 = register_if (has_capability s CapabilityTools)
            [(MethodListTools, handleListTools env), (MethodCallTool, handleCallTool env)] t2;
          t4 = register_if (has_capability s CapabilityResources)
            [(MethodListResources, handleListResources env), (MethodReadResource, handleReadResource env)] t3;
          t5 = register_if (has_capability s CapabilityResources \<and> has_capability s CapabilityResourceSubscriptions)
            [(MethodSubscribeResource, handleSubscribeResource env)] t4;
          t6 = register_if (has_capability s CapabilityPrompts)
            [(MethodListPrompts, handleListPrompts env), (MethodGetPrompt, handleGetPrompt env)] t5;
          t7 = register_if (has_capability s CapabilityComplete) [(MethodComplete, handleComplete env)] t6
      in register_if (has_capability s CapabilityRoots) [(MethodListRoots, handleListRoots env)] t7)"

definition NewServer :: "'p server_env \<Rightarrow> ('p server \<Rightarrow> 'p server) list \<Rightarrow> 'p server handlers \<Rightarrow> 'p \<Rightarrow>
    'p server \<times> 'p server handlers" where
  "NewServer env options t w = (let s = configured options w in (s, register_all env s t))"

subsection \<open>Starting and stopping\<close>

text \<open>\<open>init\<close> and \<open>run\<close> are what the transport's \<open>Initialize\<close> and its blocking \<open>Start\<close> return.\<close>

definition server_Start :: "string \<Rightarrow> goerr option \<Rightarrow> goerr option \<Rightarrow> (goerr, unit) outcome" where
  "server_Start transport_type init run =
     (case init of
        Some e \<Rightarrow>
          bind_outcome (TransportError ''server'' ''initialization'' (Some e)) (\<lambda>x.
            Err (ErrMCP (WithDetail (''Transport type: '' @ transport_type)
              (WithContext (Some (empty_context\<lparr>ctx_component := ''Server'', ctx_operation := ''Start''\<rparr>)) x))))
      | None \<Rightarrow> (case run of None \<Rightarrow> Ok () | Some e \<Rightarrow> Err e))"

text \<open>Stopping calls the cancel functions in the order \<open>ids\<close> in which Go visits the table.\<close>

definition server_Stop :: "string list \<Rightarrow> goerr option \<Rightarrow> 'p server \<Rightarrow> (goerr, unit) outcome \<times> 'p server" where
  "server_Stop ids stop_transport s =
     (let s1 = s\<lparr>sv_stopped := True\<rparr>;
          close = (\<lambda>s2. (case stop_transport of None \<Rightarrow> Ok () | Some e \<Rightarrow> Err e,
            s2\<lparr>sv_cancelled := sv_cancelled s2 @ map (\<lambda>i. the (sv_active s2 i)) ids, sv_active := Map.empty\<rparr>))
      in case sv_manager s1 of
           None \<Rightarrow> close s1
         | Some m \<Rightarrow>
             (case manager_Stop m of
                Ok m' \<Rightarrow> close (s1\<lparr>sv_manager := Some m'\<rparr>)
              | Err e \<Rightarrow> (Err e, s1)
              | Panic x \<Rightarrow> (Panic x, s1)))"

subsection \<open>Notifications\<close>

text \<open>A notification is refused, or it is the method and the parameters handed to the transport.\<close>

definition notify :: "'p server \<Rightarrow> string \<Rightarrow> string \<Rightarrow> json \<Rightarrow> goerr + (string \<times> json)" where
  "notify s operation m v = (case requireInitialized s operation of Some e \<Rightarrow> Inl e | None \<Rightarrow> Inr (m, v))"

definition NotifyToolsChanged :: "tool list \<Rightarrow> string list \<Rightarrow> tool list \<Rightarrow> 'p server \<Rightarrow> goerr + (string \<times> json)" where
  "NotifyToolsChanged added removed modified s =
     notify s ''NotifyToolsChanged'' MethodToolsChanged (enc_tools_changed_params
       \<lparr>tchg_added = added, tchg_removed = removed, tchg_modified = modified\<rparr>)"

definition NotifyResourcesChanged :: "string \<Rightarrow> resource list \<Rightarrow> string list \<Rightarrow> resource list \<Rightarrow> resource list \<Rightarrow>
    'p server \<Rightarrow> goerr + (string \<times> json)" where
  "NotifyResourcesChanged uri resources removed added modified s =
     notify s ''NotifyResourcesChanged'' MethodResourcesChanged (enc_resources_changed_params
       \<lparr>rchg_uri = uri, rchg_resources = resources, rchg_removed = removed, rchg_added = added, rchg_modified = modified\<rparr>)"

definition NotifyResourceUpdated :: "string \<Rightarrow> resource_contents option \<Rightarrow> bool \<Rightarrow> 'p server \<Rightarrow> goerr + (string \<times> json)" where
  "NotifyResourceUpdated uri contents deleted s =
     notify s ''NotifyResourceUpdated'' MethodResourceUpdated (enc_resource_updated_params
       (zero_resource_updated_params\<lparr>rup_uri := uri, rup_deleted := deleted,
          rup_contents := (case contents of Some c \<Rightarrow> if deleted then zero_resource_contents else c
                           | None \<Rightarrow> zero_resource_contents)\<rparr>))"

definition NotifyPromptsChanged :: "prompt list \<Rightarrow> string list \<Rightarrow> prompt list \<Rightarrow> 'p server \<Rightarrow> goerr + (string \<times> json)" where
  "NotifyPromptsChanged added removed modified s =
     notify s ''NotifyPromptsChanged'' MethodPromptsChanged (enc_prompts_changed_params
       \<lparr>pchg_added = added, pchg_removed = removed, pchg_modified = modified\<rparr>)"

definition NotifyRootsChanged :: "root list \<Rightarrow> string list \<Rightarrow> root list \<Rightarrow> 'p server \<Rightarrow> goerr + (string \<times> json)" where
  "NotifyRootsChanged added removed modified s =
     (if \<not> sv_initialized s then Inl (ErrText ''server not initialized'')
      else Inr (MethodRootsChanged, enc_roots_changed_params
        \<lparr>rtchg_added = added, rtchg_removed = removed, rtchg_modified = modified\<rparr>))"

definition SendLog :: "string \<Rightarrow> string \<Rightarrow> string \<Rightarrow> gval \<Rightarrow> string \<Rightarrow> 'p server \<Rightarrow> goerr + (string \<times> json)" where
  "SendLog level message source data time s =
     notify s ''SendLog'' MethodLog (enc_log_params
       \<lparr>logp_level = level, logp_message = message, logp_source = source, logp_time = time,
        logp_data = GRaw (if data = GNil then None else Some (marshal data))\<rparr>)"

definition SendProgress :: "gval \<Rightarrow> string \<Rightarrow> rat \<Rightarrow> bool \<Rightarrow> 'p server \<Rightarrow> goerr + (string \<times> json)" where
  "SendProgress i message percent completed s =
     notify s ''SendProgress'' MethodProgress (enc_progress_params
       \<lparr>prog_id = i, prog_message = message, prog_percent = percent, prog_completed = completed\<rparr>)"

text \<open>The server is the notifier of its subscription manager.\<close>

fun send_notice :: "'p server \<Rightarrow> notice \<Rightarrow> goerr + (string \<times> json)" where
  "send_notice s (Updated uri c) = NotifyResourceUpdated uri (Some c) False s"
| "send_notice s (Changed uri removed added modified) = NotifyResourcesChanged uri [] removed added modified s"

end
