(* ===== verification/Stdio.thy ===== *)
theory Stdio
  imports BaseTransport ErrorCodes
begin

section \<open>The stdio transport (\<open>pkg/transport/stdio.go\<close>)\<close>

text \<open>
  Messages are lines of JSON. The state has the pending requests, the source of identifiers, the
  lines written and the errors handed to the error handler; the handlers and the state \<open>'w\<close> of the
  application are those of the base transport. \<open>werr\<close> says how the writer fails for a line, if it
  does. The errors of the handler are told apart by where they come from and what they wrap; the
  texts of \<open>encoding/json\<close> are not modelled. The scanner that splits the input into lines and the
  goroutines around it are not modelled: \<open>processMessage\<close> is called for one line after the other.
\<close>

datatype stdio_error =
    BatchParse batch_error
  | BatchHandling goerr
  | BatchMarshal batch_error
  | BatchSending goerr
  | BadMessage
  | BadRequest
  | BadResponse
  | BadNotification
  | RequestFailed gval goerr
  | SendFailed gval goerr
  | NotificationFailed string goerr
  | UnknownMessage bool bool
  | MessagePanic

record stdio =
  sd_pool :: pool
  sd_ids :: id_source
  sd_out :: "string list"
  sd_errors :: "stdio_error list"

definition NewStdio :: stdio where
  "NewStdio = \<lparr>sd_pool = NewPool, sd_ids = NewIds, sd_out = [], sd_errors = []\<rparr>"

text \<open>How the writer fails: the operation that failed and its error.\<close>

type_synonym writer = "string \<Rightarrow> (string \<times> goerr) option"

definition stdio_error_of :: "string \<Rightarrow> goerr \<Rightarrow> goerr" where
  "stdio_error_of operation e =
     (case StdioTransportError ''send_message'' (Some e) of
        Ok m \<Rightarrow> ErrMCP (WithContext (Some (empty_context\<lparr>ctx_component := ''StdioTransport'', ctx_operation := operation\<rparr>)) m)
      | _ \<Rightarrow> e)"

definition stdio_Send :: "writer \<Rightarrow> string \<Rightarrow> stdio \<Rightarrow> goerr option \<times> stdio" where
  "stdio_Send werr data s =
     (case werr data of
        Some (operation, e) \<Rightarrow> (Some (stdio_error_of operation e), s)
      | None \<Rightarrow> (None, s\<lparr>sd_out := sd_out s @ [data]\<rparr>))"

definition report :: "stdio_error \<Rightarrow> stdio \<Rightarrow> stdio" where
  "report e s = s\<lparr>sd_errors := sd_errors s @ [e]\<rparr>"

text \<open>Sending a line and reporting a failure.\<close>

definition reply :: "writer \<Rightarrow> (goerr \<Rightarrow> stdio_error) \<Rightarrow> string \<Rightarrow> stdio \<Rightarrow> stdio" where
  "reply werr mk data s =
     (case stdio_Send werr data s of (None, s') \<Rightarrow> s' | (Some e, s') \<Rightarrow> report (mk e) s')"

text \<open>
  The responses of a batch go to their callers one by one; \<open>None\<close> when handling one blocks forever.
  A nil response panics, and the panic is recovered and reported.
\<close>

fun deliver_all :: "response option list \<Rightarrow> stdio \<Rightarrow> stdio option" where
  "deliver_all [] s = Some s"
| "deliver_all (None # rs) s = Some (report MessagePanic s)"
| "deliver_all (Some r # rs) s =
     (case HandleResponse r (sd_pool s) of
        Delivered p \<Rightarrow> deliver_all rs (s\<lparr>sd_pool := p\<rparr>)
      | ClosedChannel \<Rightarrow> Some (report MessagePanic s)
      | Blocked \<Rightarrow> None)"

text \<open>The kind of a message, from the members of the generic map.\<close>

datatype message_kind = KRequest | KResponse | KNotification | KUnknown bool bool

definition has_member :: "(string \<times> gval) list \<Rightarrow> string \<Rightarrow> bool" where
  "has_member m k = (map_of m k \<noteq> None)"

definition set_member :: "(string \<times> gval) list \<Rightarrow> string \<Rightarrow> bool" where
  "set_member m k = (case map_of m k of None \<Rightarrow> False | Some v \<Rightarrow> v \<noteq> GNil)"

definition classify :: "(string \<times> gval) list \<Rightarrow> message_kind" where
  "classify m =
     (let hasMethod = has_member m ''method''; hasID = has_member m ''id'';
          isResponse = (hasID \<and> (set_member m ''result'' \<or> set_member m ''error''));
          isRequest = (hasID \<and> hasMethod \<and> \<not> isResponse);
          isNotification = (hasMethod \<and> \<not> hasID \<or> (hasMethod \<and> hasID \<and> \<not> isRequest \<and> \<not> isResponse))
      in if isRequest then KRequest else if isResponse then KResponse
         else if isNotification then KNotification else KUnknown hasMethod hasID)"

definition generic_map :: "json \<Rightarrow> (string \<times> gval) list option" where
  "generic_map v = (case decode_any v of Some (GMap m) \<Rightarrow> Some m | Some GNil \<Rightarrow> Some [] | _ \<Rightarrow> None)"

text \<open>\<open>errors.Is (err, ErrUnsupportedMethod)\<close>, the sentinel known by its text.\<close>

fun is_unsupported :: "goerr \<Rightarrow> bool" where
  "is_unsupported (ErrText t) \<longleftrightarrow> t = ''unsupported method''"
| "is_unsupported (ErrWrapped t e) \<longleftrightarrow> is_unsupported e"
| "is_unsupported _ \<longleftrightarrow> False"

definition process_request :: "'w handlers \<Rightarrow> writer \<Rightarrow> json \<Rightarrow> stdio \<times> 'w \<Rightarrow> stdio \<times> 'w" where
  "process_request hs werr v sw =
     (case dec_request v of
        None \<Rightarrow> (report BadRequest (fst sw), snd sw)
      | Some r \<Rightarrow>
          (case base_HandleRequest hs background r (snd sw) of
             (Ok x, w') \<Rightarrow> (reply werr (SendFailed (req_id r)) (json_print (enc_response x)) (fst sw), w')
           | (Err e, w') \<Rightarrow> (report (RequestFailed (req_id r) e) (fst sw), w')
           | (Panic m, w') \<Rightarrow> (report MessagePanic (fst sw), w')))"

definition process_batch :: "'w handlers \<Rightarrow> writer \<Rightarrow> string \<Rightarrow> stdio \<times> 'w \<Rightarrow> (stdio \<times> 'w) option" where
  "process_batch hs werr data sw =
     (case ParseJSONRPCBatchResponse data of
        Inr rs \<Rightarrow> map_option (\<lambda>s. (s, snd sw)) (deliver_all rs (fst sw))
      | Inl e \<Rightarrow> Some
          (case ParseJSONRPCBatchRequest data of
             Inl e2 \<Rightarrow> (report (BatchParse e) (fst sw), snd sw)
           | Inr items \<Rightarrow>
               (case base_HandleBatchRequest hs background (Some items) (snd sw) of
                  (Ok rs, w') \<Rightarrow>
                    (case batch_response_ToJSON (Some rs) of
                       Inl e3 \<Rightarrow> (report (BatchMarshal e3) (fst sw), w')
                     | Inr text \<Rightarrow> (reply werr BatchSending text (fst sw), w'))
                | (Err e3, w') \<Rightarrow> (report (BatchHandling e3) (fst sw), w')
                | (Panic m, w') \<Rightarrow> (report MessagePanic (fst sw), w'))))"

definition processMessage :: "'w handlers \<Rightarrow> writer \<Rightarrow> string \<Rightarrow> stdio \<times> 'w \<Rightarrow> (stdio \<times> 'w) option" where
  "processMessage hs werr data sw =
     (if IsBatch data then process_batch hs werr data sw
      else (case (case json_parse data of None \<Rightarrow> None | Some v \<Rightarrow> map_option (Pair v) (generic_map v)) of
        None \<Rightarrow> Some (report BadMessage (fst sw), snd sw)
      | Some (v, m) \<Rightarrow>
          (case classify m of
             KRequest \<Rightarrow> Some (process_request hs werr v sw)
           | KResponse \<Rightarrow>
               (case dec_response v of
                  None \<Rightarrow> Some (report BadResponse (fst sw), snd sw)
                | Some r \<Rightarrow> map_option (\<lambda>s. (s, snd sw)) (deliver_all [Some r] (fst sw)))
           | KNotification \<Rightarrow> Some
               (case dec_notification v of
                  None \<Rightarrow> (report BadNotification (fst sw), snd sw)
                | Some n \<Rightarrow>
                    (case base_HandleNotification hs background n (snd sw) of
                       (None, w') \<Rightarrow> (fst sw, w')
                     | (Some e, w') \<Rightarrow> (if is_unsupported e then fst sw else report (NotificationFailed (notif_method n) e) (fst sw), w')))
           | KUnknown a b \<Rightarrow> Some (report (UnknownMessage a b) (fst sw), snd sw))))"

subsection \<open>Sending\<close>

text \<open>
  \<open>SendRequest\<close> writes the request, then registers for the response and waits; what it makes of the
  response (nil when the transport was cleaned up meanwhile) is the last step.
\<close>

definition send_request_line :: "writer \<Rightarrow> string \<Rightarrow> gval \<Rightarrow> stdio \<Rightarrow> (goerr + string) \<times> stdio" where
  "send_request_line werr m params s =
     (case GenerateID (sd_ids s) of (i, ids') \<Rightarrow>
        (case stdio_Send werr (json_print (enc_request (NewRequest (GStr i) m params))) (s\<lparr>sd_ids := ids'\<rparr>) of
           (None, s') \<Rightarrow> (Inr i, s')
         | (Some e, s') \<Rightarrow> (Inl (ErrWrapped (''error sending request bytes: '' @ Error e) e), s')))"

definition finish_request :: "response option \<Rightarrow> (goerr, response) outcome" where
  "finish_request x =
     (case x of
        None \<Rightarrow> Panic ''nil pointer dereference''
      | Some r \<Rightarrow> (case resp_error r of Some e \<Rightarrow> Err (ErrRPC e) | None \<Rightarrow> Ok r))"

text \<open>The interface value that holds a response: a pointer to the struct.\<close>

definition response_value :: "response \<Rightarrow> gval" where
  "response_value r = GStruct ''*protocol.Response''
     (case enc_response r of JObj kvs \<Rightarrow> map (\<lambda>(k, v). (k, GRaw (Some v))) kvs | _ \<Rightarrow> [])"

lemma marshal_response_value [simp]: "marshal (response_value r) = enc_response r"
  by (simp add: response_value_def enc_response_def comp_def case_prod_unfold)

lemma response_value_not_nil [simp]: "response_value r \<noteq> GNil"
  by (simp add: response_value_def)

definition stdio_SendNotification :: "writer \<Rightarrow> string \<Rightarrow> gval \<Rightarrow> stdio \<Rightarrow> goerr option \<times> stdio" where
  "stdio_SendNotification werr m params s =
     stdio_Send werr (json_print (enc_notification (NewNotification m params))) s"

text \<open>\<open>Stop\<close>: the second and later calls do nothing.\<close>

definition stdio_Stop :: "goerr option \<Rightarrow> bool \<times> stdio \<Rightarrow> goerr option \<times> (bool \<times> stdio)" where
  "stdio_Stop flush s =
     (if fst s then (None, s)
      else (map_option (\<lambda>e. case StdioTransportError ''stop'' (Some e) of
                 Ok m \<Rightarrow> ErrMCP (WithContext (Some (empty_context\<lparr>ctx_component := ''StdioTransport'',
                           ctx_operation := ''flush_on_stop''\<rparr>)) m)
               | _ \<Rightarrow> e) flush,
            (True, (snd s)\<lparr>sd_pool := pool_Cleanup (sd_pool (snd s))\<rparr>)))"

subsection \<open>Sending a batch\<close>

text \<open>
  The channels a batch waits on by the text of the id, the responses collected and how many it
  needs. Registering an id again replaces its channel.
\<close>

record batch_wait =
  bw_map :: "(string \<times> nat) list"
  bw_got :: "response list"
  bw_need :: nat

fun batch_register :: "request list \<Rightarrow> (string \<times> nat) list \<Rightarrow> pool \<Rightarrow> (string \<times> nat) list \<times> pool" where
  "batch_register [] m p = (m, p)"
| "batch_register (r # rs) m p =
     (case wait_register (go_str (req_id r)) p of (n, p') \<Rightarrow>
        batch_register rs (put_assoc (go_str (req_id r)) n m) p')"

definition batch_begin :: "batch_item list \<Rightarrow> pool \<Rightarrow> batch_wait \<times> pool" where
  "batch_begin items p =
     (case batch_register (GetRequests items) [] p of (m, p') \<Rightarrow>
        (\<lparr>bw_map = m, bw_got = [], bw_need = length (GetRequests items)\<rparr>, p'))"

text \<open>Looking at the channel of one id without blocking; nil from a closed channel is ignored.\<close>

definition batch_poll :: "string \<Rightarrow> batch_wait \<times> pool \<Rightarrow> batch_wait \<times> pool" where
  "batch_poll i bp =
     (case map_of (bw_map (fst bp)) i of
        None \<Rightarrow> bp
      | Some n \<Rightarrow>
          (case wait_receive n (snd bp) of
             Some (Some r, p') \<Rightarrow>
               ((fst bp)\<lparr>bw_got := bw_got (fst bp) @ [r], bw_map := delete_key i (bw_map (fst bp))\<rparr>, p')
           | _ \<Rightarrow> bp))"

definition batch_done :: "batch_wait \<Rightarrow> bool" where
  "batch_done b \<longleftrightarrow> bw_need b \<le> length (bw_got b)"

text \<open>Leaving, in any way: the remaining ids are unregistered and their channels closed.\<close>

fun close_all :: "(string \<times> nat) list \<Rightarrow> pool \<Rightarrow> (goerr, pool) outcome" where
  "close_all [] p = Ok p"
| "close_all ((i, n) # m) p =
     (case pl_chans p n of
        None \<Rightarrow> close_all m p
      | Some c \<Rightarrow> if ch_closed c then Panic ''close of closed channel''
                  else close_all m (set_chan n (c\<lparr>ch_closed := True\<rparr>) p))"

definition batch_leave :: "batch_wait \<Rightarrow> pool \<Rightarrow> (goerr, pool) outcome" where
  "batch_leave b p = close_all (bw_map b) (fold wait_abandon (map fst (bw_map b)) p)"

definition batch_result :: "batch_wait \<Rightarrow> response option list" where
  "batch_result b = NewJSONRPCBatchResponse (map Some (bw_got b))"

lemma batch_register_keys:
  "distinct (map fst m) \<Longrightarrow> distinct (map fst (fst (batch_register rs m p))) \<and>
   set (map fst (fst (batch_register rs m p))) = set (map fst m) \<union> set (map (\<lambda>r. go_str (req_id r)) rs)"
proof (induction rs arbitrary: m p)
  case (Cons r rs)
  obtain n p' where w: "wait_register (go_str (req_id r)) p = (n, p')" by (cases "wait_register (go_str (req_id r)) p")
  have "distinct (map fst (put_assoc (go_str (req_id r)) n m))" using Cons.prems by (rule put_assoc_distinct)
  from Cons.IH [OF this, of p'] show ?case
    unfolding put_assoc_keys by (simp add: w)
qed simp

text \<open>Polls, each in whatever state the pool is by then.\<close>

fun polls :: "(string \<times> pool) list \<Rightarrow> batch_wait \<Rightarrow> batch_wait" where
  "polls [] b = b"
| "polls ((i, p) # ips) b = polls ips (fst (batch_poll i (b, p)))"

lemma batch_poll_count:
  assumes "distinct (map fst (bw_map b))"
  shows "distinct (map fst (bw_map (fst (batch_poll i (b, p))))) \<and>
    length (bw_got (fst (batch_poll i (b, p)))) + length (bw_map (fst (batch_poll i (b, p)))) =
      length (bw_got b) + length (bw_map b) \<and> bw_need (fst (batch_poll i (b, p))) = bw_need b"
proof (cases "map_of (bw_map b) i")
  case (Some n)
  then have mem: "i \<in> set (map fst (bw_map b))" by (metis domI dom_map_of_conv_image_fst set_map)
  have "length (delete_key i (bw_map b)) = length (filter (\<lambda>x. x \<noteq> i) (map fst (bw_map b)))"
    by (metis delete_key_map length_map)
  also have "\<dots> = length (remove1 i (map fst (bw_map b)))"
    using assms by (simp only: distinct_remove1_removeAll removeAll_filter_not_eq) (metis (mono_tags, lifting) filter_cong)
  also have "\<dots> = length (bw_map b) - 1" using mem by (simp add: length_remove1)
  finally have len: "length (delete_key i (bw_map b)) = length (bw_map b) - 1" .
  have pos: "0 < length (bw_map b)" using mem by auto
  show ?thesis
    using assms Some len pos
    by (auto simp: batch_poll_def delete_key_map split: option.splits)
qed (use assms in \<open>simp add: batch_poll_def\<close>)

lemma polls_count:
  "distinct (map fst (bw_map b)) \<Longrightarrow>
   length (bw_got (polls ips b)) \<le> length (bw_got b) + length (bw_map b) \<and> bw_need (polls ips b) = bw_need b"
proof (induction ips arbitrary: b)
  case (Cons ip ips)
  obtain i p where ip: "ip = (i, p)" by (cases ip)
  show ?case
    using batch_poll_count [OF Cons.prems, of i p] Cons.IH [of "fst (batch_poll i (b, p))"] by (auto simp: ip)
qed simp

text \<open>
  Batches with a repeated identifier never complete: when two requests of a batch have ids
  with the same text, \<open>SendBatchRequest\<close> waits for more responses than it can collect, in any
  sequence of polls and whatever arrives meanwhile, so only the timeout ends it.
\<close>

theorem repeated_id_never_completes:
  assumes "\<not> distinct (map (\<lambda>r. go_str (req_id r)) (GetRequests items))"
  shows "\<not> batch_done (polls ips (fst (batch_begin items p)))"
proof -
  let ?ids = "map (\<lambda>r. go_str (req_id r)) (GetRequests items)"
  obtain m p' where m: "batch_register (GetRequests items) [] p = (m, p')"
    by (cases "batch_register (GetRequests items) [] p")
  have d: "distinct (map fst m)" "set (map fst m) = set ?ids"
    using batch_register_keys [of "[]" "GetRequests items" p] m by simp_all
  have "length m = card (set ?ids)" using d by (metis distinct_card length_map)
  also have "\<dots> < length ?ids"
    using assms card_distinct [of ?ids] card_length [of ?ids] by linarith
  finally have "length m < length (GetRequests items)" by simp
  then show ?thesis
    using polls_count [of "fst (batch_begin items p)" ips] d(1) m
    by (simp add: batch_begin_def batch_done_def)
qed

theorem repeated_id_never_completes_witness:
  "\<not> batch_done (polls [(''1'', NewPool)] (fst (batch_begin
     [BReq (NewRequest (GInt 1) ''ping'' GNil), BReq (NewRequest (GStr ''1'') ''ping'' GNil)] NewPool)))"
  by (rule repeated_id_never_completes) (simp add: GetRequests_def NewRequest_def show_int_def, code_simp)

subsection \<open>Received messages\<close>

lemma deliver_all_returns:
  "pool_ok (sd_pool s) \<Longrightarrow> \<exists>s'. deliver_all rs s = Some s' \<and> pool_ok (sd_pool s') \<and> sd_out s' = sd_out s"
proof (induction rs s rule: deliver_all.induct)
  case (2 rs s)
  then show ?case by (simp add: report_def)
next
  case (3 r rs s)
  then obtain p where p: "HandleResponse r (sd_pool s) = Delivered p" "pool_ok p"
    using HandleResponse_ok by blast
  then show ?case using "3.IH" [OF p(1)] by simp
qed simp

lemma reply_pool [simp]: "sd_pool (reply werr mk data s) = sd_pool s"
  by (auto simp: reply_def stdio_Send_def report_def split: option.splits prod.splits)

lemma report_pool [simp]: "sd_pool (report e s) = sd_pool s"
  by (simp add: report_def)

lemma process_request_pool [simp]: "sd_pool (fst (process_request hs werr v sw)) = sd_pool (fst sw)"
  by (auto simp: process_request_def split: option.splits prod.splits outcome.splits)

lemma process_batch_returns:
  assumes "pool_ok (sd_pool s)"
  shows "\<exists>s' w'. process_batch hs werr data (s, w) = Some (s', w') \<and> pool_ok (sd_pool s')"
proof (cases "ParseJSONRPCBatchResponse data")
  case (Inr rs)
  then show ?thesis using deliver_all_returns [OF assms, of rs] by (auto simp: process_batch_def)
next
  case (Inl e)
  then show ?thesis using assms
    by (auto simp: process_batch_def split: sum.splits prod.splits outcome.splits)
qed

text \<open>
  C32. The reader never gets stuck: processing any text, valid or not, with any handlers and any
  writer, returns, and leaves the table of pending requests well formed, so that the next message
  is processed too.
\<close>

theorem processMessage_returns:
  assumes "pool_ok (sd_pool s)"
  shows "\<exists>s' w'. processMessage hs werr data (s, w) = Some (s', w') \<and> pool_ok (sd_pool s')"
proof (cases "IsBatch data")
  case True
  then show ?thesis using process_batch_returns [OF assms] by (simp add: processMessage_def)
next
  case notbatch: False
  show ?thesis
  proof (cases "case json_parse data of None \<Rightarrow> None | Some v \<Rightarrow> map_option (Pair v) (generic_map v)")
    case None
    then show ?thesis using assms notbatch by (simp add: processMessage_def)
  next
    case (Some vm)
    obtain v m where vm: "vm = (v, m)" by (cases vm)
    note p = processMessage_def [of hs werr data "(s, w)", unfolded Some vm]
    show ?thesis
    proof (cases "classify m")
      case KRequest
      obtain s' w' where q: "process_request hs werr v (s, w) = (s', w')" by (cases "process_request hs werr v (s, w)")
      then have "pool_ok (sd_pool s')" using process_request_pool [of hs werr v "(s, w)"] assms by simp
      then show ?thesis using KRequest notbatch p q by simp
    next
      case KResponse
      then show ?thesis
        using assms notbatch p deliver_all_returns [OF assms]
        by (cases "dec_response v") (auto simp del: deliver_all.simps)
    next
      case KNotification
      then show ?thesis using assms notbatch p
        by (auto split: option.splits prod.splits)
    next
      case (KUnknown a b)
      then show ?thesis using assms notbatch p by simp
    qed
  qed
qed

theorem processMessage_returns_witness:
  "\<exists>s' w'. processMessage NewHandlers (\<lambda>line. None) ''[1]'' (NewStdio, ()) = Some (s', w') \<and> pool_ok (sd_pool s')"
proof (rule processMessage_returns)
  have "wait_reachable wt_init" by (rule wait_reachable.init)
  then show "pool_ok (sd_pool NewStdio)"
    using wait_reachable_inv by (fastforce simp: pool_ok_def NewStdio_def wt_init_def)
qed

lemma decode_any_request:
  assumes "good_item (BReq r)"
  shows "\<exists>ps. decode_any (enc_request r) = Some (GMap ([(''jsonrpc'', GStr JSONRPCVersion),
      (''id'', wire_id (req_id r)), (''method'', GStr (req_method r))] @ ps)) \<and>
    (ps = [] \<or> (\<exists>v. ps = [(''params'', v)]))"
  using assms
  by (cases "req_params r") (auto simp: enc_request_def omit_raw_def good_raw_def all_some_def put_assoc_def)

lemma classify_request:
  "ps = [] \<or> (\<exists>v. ps = [(''params'', v)]) \<Longrightarrow>
   classify ([(''jsonrpc'', a), (''id'', b), (''method'', c)] @ ps) = KRequest"
  by (auto simp: classify_def has_member_def set_member_def Let_def)

lemma request_not_batch:
  assumes "good_item (BReq r)"
  shows "json_parse (json_print (enc_request r)) = Some (enc_request r)"
    "\<not> IsBatch (json_print (enc_request r))"
proof -
  show p: "json_parse (json_print (enc_request r)) = Some (enc_request r)"
    using good_item_wf [OF assms] by (intro json_parse_print) (simp add: enc_batch_item_def)
  show "\<not> IsBatch (json_print (enc_request r))"
    by (simp add: IsBatch_def on_text_def p is_batch_def) (simp add: enc_request_def)
qed

lemma stdio_answers_request_aux:
  assumes "good_item (BReq r)" "\<And>line. werr line = None"
  shows "processMessage hs werr (json_print (enc_request r)) (s, w) = Some
    (case base_HandleRequest hs background (r\<lparr>req_id := wire_id (req_id r)\<rparr>) w of
       (Ok x, w') \<Rightarrow> (s\<lparr>sd_out := sd_out s @ [json_print (enc_response x)]\<rparr>, w')
     | (Err e, w') \<Rightarrow> (report (RequestFailed (wire_id (req_id r)) e) s, w')
     | (Panic m, w') \<Rightarrow> (report MessagePanic s, w'))
   \<and> (hs_requests hs (req_method r) \<noteq> None \<longrightarrow>
       is_ok (fst (base_HandleRequest hs background (r\<lparr>req_id := wire_id (req_id r)\<rparr>) w)))"
proof -
  obtain ps where ps: "decode_any (enc_request r) = Some (GMap ([(''jsonrpc'', GStr JSONRPCVersion),
      (''id'', wire_id (req_id r)), (''method'', GStr (req_method r))] @ ps))" "ps = [] \<or> (\<exists>v. ps = [(''params'', v)])"
    using decode_any_request [OF assms(1)] by blast
  have k: "classify ([(''jsonrpc'', GStr JSONRPCVersion), (''id'', wire_id (req_id r)),
      (''method'', GStr (req_method r))] @ ps) = KRequest"
    by (rule classify_request [OF ps(2)])
  have g: "generic_map (enc_request r) = Some ([(''jsonrpc'', GStr JSONRPCVersion), (''id'', wire_id (req_id r)),
      (''method'', GStr (req_method r))] @ ps)"
    by (simp add: generic_map_def ps(1))
  have "processMessage hs werr (json_print (enc_request r)) (s, w) = Some (process_request hs werr (enc_request r) (s, w))"
    unfolding processMessage_def using request_not_batch [OF assms(1)] g k by (simp del: append_Cons)
  moreover have "process_request hs werr (enc_request r) (s, w) =
    (case base_HandleRequest hs background (r\<lparr>req_id := wire_id (req_id r)\<rparr>) w of
       (Ok x, w') \<Rightarrow> (s\<lparr>sd_out := sd_out s @ [json_print (enc_response x)]\<rparr>, w')
     | (Err e, w') \<Rightarrow> (report (RequestFailed (wire_id (req_id r)) e) s, w')
     | (Panic m, w') \<Rightarrow> (report MessagePanic s, w'))"
    using assms(2) dec_enc_request(1) [OF assms(1)]
    by (auto simp: process_request_def reply_def stdio_Send_def split: prod.splits outcome.splits)
  moreover have "hs_requests hs (req_method r) \<noteq> None \<longrightarrow>
       is_ok (fst (base_HandleRequest hs background (r\<lparr>req_id := wire_id (req_id r)\<rparr>) w))"
    by (auto simp: base_HandleRequest_def split: option.splits prod.splits outcome.splits handler_value.splits)
  ultimately show ?thesis by simp
qed

text \<open>
  A request is answered with one line: for the line of any request with a method and a usable
  id, exactly one line is written when the method has a handler, and it is the response of the
  base transport to the request as it came over the wire; when it has none, nothing is written,
  so the peer gets no answer, and an error goes to the error handler.
\<close>

theorem stdio_answers_request:
  assumes "good_item (BReq r)" "\<And>line. werr line = None"
  shows "processMessage hs werr (json_print (enc_request r)) (s, w) = Some
    (case base_HandleRequest hs background (r\<lparr>req_id := wire_id (req_id r)\<rparr>) w of
       (Ok x, w') \<Rightarrow> (s\<lparr>sd_out := sd_out s @ [json_print (enc_response x)]\<rparr>, w')
     | (Err e, w') \<Rightarrow> (report (RequestFailed (wire_id (req_id r)) e) s, w')
     | (Panic m, w') \<Rightarrow> (report MessagePanic s, w'))
   \<and> (hs_requests hs (req_method r) \<noteq> None \<longrightarrow>
       is_ok (fst (base_HandleRequest hs background (r\<lparr>req_id := wire_id (req_id r)\<rparr>) w)))"
  by (rule stdio_answers_request_aux [OF assms])

definition ping_request :: request where
  "ping_request = NewRequest (GStr ''req_1'') ''ping'' GNil"

lemma ping_request_good: "good_item (BReq ping_request)"
  by (simp add: ping_request_def NewRequest_def JSONRPCVersion_def raw_of_def good_id_def good_raw_def)

theorem stdio_answers_request_witness:
  "processMessage (RegisterRequestHandler ''ping'' (\<lambda>cx p w. (Ok (Marshals (JBool True)), Suc w)) NewHandlers)
      (\<lambda>line. None) (json_print (enc_request ping_request)) (NewStdio, 0)
    = Some (NewStdio\<lparr>sd_out := [json_print (enc_response
        \<lparr>resp_jsonrpc = [], resp_id = GStr ''req_1'', resp_result = Some (JBool True), resp_error = None\<rparr>)]\<rparr>, 1)"
  using stdio_answers_request [OF ping_request_good, of "\<lambda>line. None"
      "RegisterRequestHandler ''ping'' (\<lambda>cx p w. (Ok (Marshals (JBool True)), Suc w)) NewHandlers" NewStdio 0]
  by (simp add: base_HandleRequest_def RegisterRequestHandler_def ping_request_def NewRequest_def NewStdio_def)

lemma dec_response_of_item:
  assumes "good_item b"
  shows "\<exists>x. dec_response (enc_batch_item b) = Some x"
  using assms
  by (cases b)
    (auto simp: enc_batch_item_def enc_request_def enc_notification_def dec_response_def decode_struct_def
      response_fields_def find_field_def str_field_def any_field_def raw_field_def zero_response_def omit_raw_def
      key_eq_def to_lower_def lower_char_def split: option.splits)

lemma batch_parsed_as_responses:
  assumes "list_all good_item bs" "bs \<noteq> []"
  shows "\<exists>rs. ParseJSONRPCBatchResponse (json_print (JArr (map enc_batch_item bs))) = Inr (map Some rs)
    \<and> IsBatch (json_print (JArr (map enc_batch_item bs)))"
proof -
  have "wf_json (JArr (map enc_batch_item bs))"
    using assms good_item_wf by (auto simp: list_all_iff)
  then have p: "json_parse (json_print (JArr (map enc_batch_item bs))) = Some (JArr (map enc_batch_item bs))"
    by (rule json_parse_print)
  have b: "is_batch (JArr (map enc_batch_item bs))"
    using assms good_item_wf decode_any_JArr [of "map enc_batch_item bs"]
    by (auto simp: is_batch_def list_all_iff simp del: decode_any.simps)
  have e: "dec_response_ptr (enc_batch_item x) = Some (Some (the (dec_response (enc_batch_item x))))"
    if "x \<in> set bs" for x
  proof -
    have "enc_batch_item x \<noteq> JNull" by (cases x) (simp_all add: enc_batch_item_def enc_request_def enc_notification_def)
    moreover have "good_item x" using assms(1) that by (simp add: list_all_iff)
    ultimately show ?thesis using dec_response_of_item [of x] by (auto simp: dec_response_ptr_def)
  qed
  have "map dec_response_ptr (map enc_batch_item bs) = map Some (map Some (map (\<lambda>x. the (dec_response (enc_batch_item x))) bs))"
    using e by simp
  then have "all_some (map dec_response_ptr (map enc_batch_item bs)) = Some (map Some (map (\<lambda>x. the (dec_response (enc_batch_item x))) bs))"
    by (simp only: all_some_Some_iff)
  then show ?thesis using p b
    by (auto simp: ParseJSONRPCBatchResponse_def parse_batch_response_def IsBatch_def on_text_def simp del: map_map)
qed

lemma deliver_all_dropped:
  "pl_pending (sd_pool s) = Map.empty \<Longrightarrow> deliver_all (map Some rs) s = Some s"
  by (induction rs) (simp_all add: HandleResponse_def)

text \<open>
  C33. Batches over stdio are not handled: the text of any batch of requests and notifications that
  the library itself writes also parses as a batch of responses, which is tried first; so no
  handler runs and no answer is written, whatever is registered. (Should an id of the batch be
  pending, the request is taken for the response; here none is.)
\<close>

theorem stdio_drops_batches:
  assumes "list_all good_item items" "items \<noteq> []" "pl_pending (sd_pool s) = Map.empty"
  shows "\<exists>text. batch_request_ToJSON (Some items) = Inr text \<and> processMessage hs werr text (s, w) = Some (s, w)"
proof -
  obtain rs where rs: "ParseJSONRPCBatchResponse (json_print (JArr (map enc_batch_item items))) = Inr (map Some rs)"
      "IsBatch (json_print (JArr (map enc_batch_item items)))"
    using batch_parsed_as_responses [OF assms(1,2)] by blast
  have "processMessage hs werr (json_print (JArr (map enc_batch_item items))) (s, w) = Some (s, w)"
    using rs deliver_all_dropped [OF assms(3), of rs]
    by (simp add: processMessage_def process_batch_def del: deliver_all.simps)
  then show ?thesis by (simp add: batch_request_ToJSON_def)
qed

theorem stdio_drops_batches_witness:
  "\<exists>text. batch_request_ToJSON (Some sample_batch) = Inr text \<and>
     processMessage NewHandlers (\<lambda>line. None) text (NewStdio, ()) = Some (NewStdio, ())"
  by (rule stdio_drops_batches [OF sample_batch_good]) (simp add: NewStdio_def NewPool_def)

end
