(* ===== verification/Serving.thy ===== *)
theory Serving
  imports Server Stdio
begin

section \<open>What the server guarantees\<close>

text \<open>
  Properties of the server that hold whatever its providers do: which methods it serves, what
  initialization changes, what becomes of the errors of a tool, and what cancelling a request does.
\<close>

subsection \<open>The table of handlers\<close>

definition full_table :: "'p server_env \<Rightarrow> (string \<times> 'p handler) list" where
  "full_table env =
     [(MethodInitialize, handleInitialize env), (MethodSetCapability, handleSetCapability env),
      (MethodCancel, handleCancel env), (MethodPing, handlePing env), (MethodSetLogLevel, handleSetLogLevel env),
      (MethodListTools, handleListTools env), (MethodCallTool, handleCallTool env),
      (MethodListResources, handleListResources env), (MethodReadResource, handleReadResource env),
      (MethodSubscribeResource, handleSubscribeResource env),
      (MethodListPrompts, handleListPrompts env), (MethodGetPrompt, handleGetPrompt env),
      (MethodComplete, handleComplete env), (MethodListRoots, handleListRoots env)]"

text \<open>The methods a server serves, with the capabilities each needs.\<close>

definition served_methods :: "(string \<times> string list) list" where
  "served_methods =
     [(MethodInitialize, []), (MethodSetCapability, []), (MethodCancel, []), (MethodPing, []), (MethodSetLogLevel, []),
      (MethodListTools, [CapabilityTools]), (MethodCallTool, [CapabilityTools]),
      (MethodListResources, [CapabilityResources]), (MethodReadResource, [CapabilityResources]),
      (MethodSubscribeResource, [CapabilityResources, CapabilityResourceSubscriptions]),
      (MethodListPrompts, [CapabilityPrompts]), (MethodGetPrompt, [CapabilityPrompts]),
      (MethodComplete, [CapabilityComplete]), (MethodListRoots, [CapabilityRoots])]"

definition serves :: "'p server \<Rightarrow> string \<Rightarrow> bool" where
  "serves s m = (case map_of served_methods m of None \<Rightarrow> False | Some cs \<Rightarrow> list_all (has_capability s) cs)"

lemma register_if_lookup:
  "distinct (map fst hs) \<Longrightarrow> hs_requests (register_if b hs t) m =
    (if b then (case map_of hs m of Some h \<Rightarrow> Some (raw_handler h) | None \<Rightarrow> hs_requests t m) else hs_requests t m)"
proof (induction hs arbitrary: t)
  case (Cons mh hs)
  obtain m' h where mh: "mh = (m', h)" by (cases mh)
  have "map_of hs m' = None" using Cons.prems mh by (simp add: map_of_eq_None_iff)
  then show ?case using Cons mh by (auto simp: register_if_def RegisterRequestHandler_def split: option.splits)
qed (simp add: register_if_def)

lemma requests_of_notification [simp]: "hs_requests (RegisterNotificationHandler m h t) = hs_requests t"
  by (simp add: RegisterNotificationHandler_def)

lemma method_cases:
  obtains "m = MethodInitialize" | "m = MethodSetCapability" | "m = MethodCancel" | "m = MethodPing"
    | "m = MethodSetLogLevel" | "m = MethodListTools" | "m = MethodCallTool" | "m = MethodListResources"
    | "m = MethodReadResource" | "m = MethodSubscribeResource" | "m = MethodListPrompts" | "m = MethodGetPrompt"
    | "m = MethodComplete" | "m = MethodListRoots" | "m \<notin> set (map fst served_methods)"
  by (auto simp: served_methods_def)

lemma register_all_lookup:
  "hs_requests (register_all env s NewHandlers) m =
    (if serves s m then map_option raw_handler (map_of (full_table env) m) else None)"
  by (cases m rule: method_cases)
    (simp_all add: register_all_def full_table_def serves_def served_methods_def Let_def NewHandlers_def
      register_if_lookup method_defs)

lemma table_cases:
  assumes "map_of (full_table env) m = Some h"
    and "P (handleInitialize env)" "P (handleSetCapability env)" "P (handleCancel env)" "P (handlePing env)"
    and "P (handleSetLogLevel env)" "P (handleListTools env)" "P (handleCallTool env)"
    and "P (handleListResources env)" "P (handleReadResource env)" "P (handleSubscribeResource env)"
    and "P (handleListPrompts env)" "P (handleGetPrompt env)" "P (handleComplete env)" "P (handleListRoots env)"
  shows "P h"
  using assms by (auto simp: full_table_def split: if_splits)

lemmas handler_defs = handleInitialize_def handleSetCapability_def handleCancel_def handlePing_def
  handleSetLogLevel_def handleListTools_def handleCallTool_def handleListResources_def
  handleReadResource_def handleSubscribeResource_def handleListPrompts_def handleGetPrompt_def
  handleComplete_def handleListRoots_def

lemmas handler_steps = after_check_def answer_with_def ask_def subscribe_resource_def

lemmas handler_splits = outcome.splits prod.splits option.splits

lemma request_step:
  "snd (base_HandleRequest hs cx r s) =
    (case hs_requests hs (req_method r) of None \<Rightarrow> s | Some h \<Rightarrow> snd (h cx (req_params r) s))"
  by (auto simp: base_HandleRequest_def split: option.splits prod.splits outcome.splits handler_value.splits)

text \<open>
  C21. What a server serves: its transport finds a handler for a method exactly when the capabilities the
  method needs are enabled, and answers every other method with an error without touching the server.
\<close>

theorem served_iff_enabled:
  "NewServer env options NewHandlers w = (s, hs) \<Longrightarrow>
    (hs_requests hs m \<noteq> None \<longleftrightarrow> serves s m)
    \<and> (\<not> serves s (req_method r) \<longrightarrow>
        base_HandleRequest hs cx r t = (Err (ErrText (''no handler for method: '' @ req_method r)), t))"
proof -
  assume "NewServer env options NewHandlers w = (s, hs)"
  then have hs: "hs = register_all env s NewHandlers" by (auto simp: NewServer_def Let_def)
  have "map_of (full_table env) m \<noteq> None" if "serves s m"
    using that by (cases m rule: method_cases) (auto simp: full_table_def serves_def served_methods_def map_of_eq_None_iff)
  then show ?thesis by (auto simp: hs register_all_lookup base_HandleRequest_def)
qed

definition demo_server_env :: "unit server_env" where
  "demo_server_env = \<lparr>se_now = (\<lambda>_ _. 0), se_cancelled = (\<lambda>_ _. False), se_why = (\<lambda>_ _. [])\<rparr>"

theorem served_iff_enabled_witness:
  "hs_requests (snd (NewServer demo_server_env [WithPromptsProvider None] NewHandlers ())) MethodListPrompts \<noteq> None
    \<and> hs_requests (snd (NewServer demo_server_env [WithPromptsProvider None] NewHandlers ())) MethodListTools = None"
proof -
  let ?n = "NewServer demo_server_env [WithPromptsProvider None] NewHandlers ()"
  have n: "?n = (fst ?n, snd ?n)" by simp
  have s: "fst ?n = WithPromptsProvider None (new_server ())"
    by (simp add: NewServer_def configured_def Let_def has_capability_def option_defs new_server_def
        put_assoc_def capability_defs)
  have "serves (fst ?n) MethodListPrompts" "\<not> serves (fst ?n) MethodListTools"
    by (simp_all add: s serves_def served_methods_def has_capability_def option_defs new_server_def
        put_assoc_def capability_defs method_defs)
  with served_iff_enabled [OF n] show ?thesis by blast
qed

subsection \<open>Initialization\<close>

lemma handler_before_initialize:
  assumes "map_of (full_table env) m = Some h"
  shows "fst (h cx p (s\<lparr>sv_initialized := b\<rparr>)) = fst (h cx p s)"
  using assms
  by (rule table_cases)
    (auto simp: handler_defs handler_steps has_capability_def requireCapability_def cancelRequest_def
      split: handler_splits)

text \<open>
  Initialization gates notifications and nothing else: the answer to a request does not depend on
  whether the client has initialized the session, while every notification of the server is refused
  until then.
\<close>

theorem initialization_gates_notifications:
  "fst (base_HandleRequest (register_all env s0 NewHandlers) cx r (s\<lparr>sv_initialized := b\<rparr>))
      = fst (base_HandleRequest (register_all env s0 NewHandlers) cx r s)
    \<and> (\<exists>e1 e2 e3 e4 e5 e6 e7. let t = s\<lparr>sv_initialized := False\<rparr> in
        NotifyToolsChanged ta tr tm t = Inl e1 \<and> NotifyResourcesChanged u rs rr ra rm t = Inl e2
        \<and> NotifyResourceUpdated u c d t = Inl e3 \<and> NotifyPromptsChanged pa pr pm t = Inl e4
        \<and> NotifyRootsChanged roa ror rom t = Inl e5 \<and> SendLog lv msg src v time t = Inl e6
        \<and> SendProgress i msg pc fin t = Inl e7)"
proof
  have "fst (h cx (Some (req_params r)) (s\<lparr>sv_initialized := b\<rparr>)) = fst (h cx (Some (req_params r)) s)"
    if "map_of (full_table env) (req_method r) = Some h" for h
    by (rule handler_before_initialize [OF that])
  then show "fst (base_HandleRequest (register_all env s0 NewHandlers) cx r (s\<lparr>sv_initialized := b\<rparr>))
      = fst (base_HandleRequest (register_all env s0 NewHandlers) cx r s)"
    by (force simp: base_HandleRequest_def register_all_lookup raw_handler_def
        split: option.splits prod.splits outcome.splits handler_value.splits)
qed (simp add: NotifyToolsChanged_def NotifyResourcesChanged_def NotifyResourceUpdated_def NotifyPromptsChanged_def
    NotifyRootsChanged_def SendLog_def SendProgress_def notify_def requireInitialized_def Let_def del: mcp_defs)

subsection \<open>Cancelling\<close>

text \<open>What arrives at the server: requests and notifications, one after the other.\<close>

datatype incoming = InRequest call_ctx request | InNotification call_ctx notification

fun serve_one :: "'p server handlers \<Rightarrow> incoming \<Rightarrow> 'p server \<Rightarrow> 'p server" where
  "serve_one hs (InRequest cx r) s = snd (base_HandleRequest hs cx r s)"
| "serve_one hs (InNotification cx n) s = snd (base_HandleNotification hs cx n s)"

text \<open>The options of the package.\<close>

inductive server_option :: "('p server \<Rightarrow> 'p server) \<Rightarrow> bool" where
  "server_option (WithName x)"
| "server_option (WithVersion x)"
| "server_option (WithDescription x)"
| "server_option (WithHomepage x)"
| "server_option (WithCapability c b)"
| "server_option (WithFeatureOptions fs)"
| "server_option (WithToolsProvider tp)"
| "server_option (WithResourcesProvider rp)"
| "server_option WithResourceSubscriptions"
| "server_option (WithPromptsProvider pp)"
| "server_option (WithCompletionProvider cp)"
| "server_option (WithRootsProvider op)"

definition idle :: "'p server \<Rightarrow> bool" where
  "idle s \<longleftrightarrow> sv_active s = Map.empty \<and> sv_cancelled s = []"

lemma option_idle: "server_option opt \<Longrightarrow> idle s \<Longrightarrow> idle (opt s)"
  by (erule server_option.cases) (simp_all add: idle_def option_defs)

lemma configured_idle: "list_all server_option options \<Longrightarrow> idle (configured options w)"
proof -
  have "list_all server_option options \<Longrightarrow> idle s \<Longrightarrow> idle (fold (\<lambda>opt s. opt s) options s)" for s
    by (induction options arbitrary: s) (simp_all add: option_idle)
  moreover have "idle (new_server w)" by (simp add: idle_def new_server_def)
  ultimately show "list_all server_option options \<Longrightarrow> idle (configured options w)"
    by (simp add: configured_def Let_def idle_def)
qed

lemma handler_idle:
  assumes "map_of (full_table env) m = Some h" "idle s"
  shows "idle (snd (h cx p s))"
  by (rule table_cases [OF assms(1)])
    (use assms(2) in \<open>auto simp: handler_defs handler_steps cancelRequest_def idle_def split: handler_splits\<close>)

lemma serve_idle:
  assumes "idle s"
  shows "idle (fold (serve_one (register_all env s0 NewHandlers)) msgs s)"
  using assms
proof (induction msgs arbitrary: s)
  case (Cons msg msgs)
  have "idle (serve_one (register_all env s0 NewHandlers) msg s)"
  proof (cases msg)
    case (InRequest cx r)
    then show ?thesis
      using Cons.prems
      by (auto simp: request_step register_all_lookup raw_handler_def handler_idle split: option.splits)
  next
    case (InNotification cx n)
    have "hs_notifications (register_if b hs t) = hs_notifications t" for b hs and t :: "'a server handlers"
      by (induction hs arbitrary: t) (auto simp: register_if_def RegisterRequestHandler_def)
    then have "hs_notifications (register_all env s0 NewHandlers) = [MethodInitialized \<mapsto> handleInitialized]"
      by (simp add: register_all_def Let_def RegisterNotificationHandler_def NewHandlers_def)
    then show ?thesis
      using Cons.prems InNotification
      by (auto simp: base_HandleNotification_def handleInitialized_def idle_def split: option.splits prod.splits outcome.splits)
  qed
  then show ?case using Cons.IH by simp
qed simp

text \<open>
  Cancelling never cancels: nothing ever enters the table of active requests, so whatever a server
  has received before, a well-formed cancel request is answered with \<open>cancelled: false\<close> and no
  cancel function is called.
\<close>

theorem cancel_finds_nothing:
  assumes "list_all server_option options" "NewServer env options NewHandlers w = (s0, hs)"
    and "req_method r = MethodCancel" "dec_cancel_params (enc_raw (req_params r)) = Some p"
  shows "let s = fold (serve_one hs) msgs s0 in
    fst (base_HandleRequest hs cx r s) = Ok \<lparr>resp_jsonrpc = [], resp_id = req_id r,
        resp_result = Some (enc_cancel_result \<lparr>cr_cancelled = False\<rparr>), resp_error = None\<rparr>
    \<and> sv_active (snd (base_HandleRequest hs cx r s)) = Map.empty
    \<and> sv_cancelled (snd (base_HandleRequest hs cx r s)) = []"
proof -
  let ?s = "fold (serve_one hs) msgs s0"
  have s0: "s0 = configured options w" and hs: "hs = register_all env s0 NewHandlers"
    using assms(2) by (auto simp: NewServer_def Let_def)
  have idle: "idle ?s"
    unfolding hs by (rule serve_idle) (simp add: s0 configured_idle assms(1))
  have "serves s0 MethodCancel" "map_of (full_table env) MethodCancel = Some (handleCancel env)"
    by (simp_all add: serves_def served_methods_def full_table_def method_defs)
  then have "hs_requests hs (req_method r) = Some (raw_handler (handleCancel env))"
    by (simp add: hs register_all_lookup assms(3))
  moreover have "handleCancel env cx (Some (req_params r)) ?s =
      (Ok (Marshals (enc_cancel_result \<lparr>cr_cancelled = False\<rparr>)), ?s)"
    using idle by (simp add: handleCancel_def after_check_def validateParams_def assms(4) cancelRequest_def idle_def)
  ultimately show ?thesis
    using idle by (simp add: base_HandleRequest_def raw_handler_def idle_def Let_def)
qed

theorem cancel_finds_nothing_witness:
  "fst (base_HandleRequest (snd (NewServer demo_server_env [] NewHandlers ())) background
      \<lparr>req_jsonrpc = JSONRPCVersion, req_id = GInt 2, req_method = MethodCancel,
        req_params = Some (JObj [(''id'', JStr ''req-1'')])\<rparr> (fst (NewServer demo_server_env [] NewHandlers ())))
    = Ok \<lparr>resp_jsonrpc = [], resp_id = GInt 2,
        resp_result = Some (enc_cancel_result \<lparr>cr_cancelled = False\<rparr>), resp_error = None\<rparr>"
proof -
  let ?n = "NewServer demo_server_env [] NewHandlers ()"
  let ?r = "\<lparr>req_jsonrpc = JSONRPCVersion, req_id = GInt 2, req_method = MethodCancel,
    req_params = Some (JObj [(''id'', JStr ''req-1'')])\<rparr>"
  have n: "?n = (fst ?n, snd ?n)" by simp
  have d: "dec_cancel_params (enc_raw (req_params ?r)) = Some \<lparr>cp_id = GStr ''req-1''\<rparr>"
    by (simp add: enc_raw_def cancel_params_defs decode_struct_def find_field_def any_field_def)
  from cancel_finds_nothing [where options = "[]" and msgs = "[]" and cx = background, OF _ n _ d]
  show ?thesis by (simp add: Let_def)
qed

end
