(* ===== verification/Results.thy ===== *)
theory Results
  imports Calls
begin

section \<open>Results on the wire\<close>

text \<open>
  The results a server sends, with the values that survive the wire: what the server marshals, the
  client unmarshals to the same value. The exceptions are those of JSON and Go: a nil
  \<open>json.RawMessage\<close> without \<open>omitempty\<close> comes back as \<open>null\<close>, an untyped value comes back as JSON
  reads it, integers have 64 bits, and the keys of a map come back in their order.
\<close>

subsection \<open>Values that survive\<close>

definition stable_map :: "(string \<times> gval) list \<Rightarrow> bool" where
  "stable_map m \<longleftrightarrow> wire_map m \<and> list_all (\<lambda>(k, v). wire_stable v) m"

definition good_tool_example :: "tool_example \<Rightarrow> bool" where
  "good_tool_example e \<longleftrightarrow> te_input e \<noteq> None \<and> te_output e \<noteq> None"

definition good_annotation :: "tool_annotation \<Rightarrow> bool" where
  "good_annotation a \<longleftrightarrow> ta_value a \<noteq> None"

definition good_resource_example :: "resource_example \<Rightarrow> bool" where
  "good_resource_example e \<longleftrightarrow> (case rex_parameters e of None \<Rightarrow> True | Some m \<Rightarrow> stable_map m)"

definition good_parameter :: "prompt_parameter \<Rightarrow> bool" where
  "good_parameter x \<longleftrightarrow> wire_stable (ppar_default x)"

definition good_prompt_example :: "prompt_example \<Rightarrow> bool" where
  "good_prompt_example e \<longleftrightarrow> (case pex_parameters e of None \<Rightarrow> True | Some m \<Rightarrow> stable_map m)"

definition good_tool :: "tool \<Rightarrow> bool" where
  "good_tool t \<longleftrightarrow> list_all good_tool_example (tool_examples t)
     \<and> list_all good_annotation (tool_annotations t)"

definition good_resource :: "resource \<Rightarrow> bool" where
  "good_resource r \<longleftrightarrow> in_int64 (res_size r) \<and> wire_map (res_metadata r)"

definition good_template :: "resource_template \<Rightarrow> bool" where
  "good_template t \<longleftrightarrow> stable_map (rt_parameter_defs t)
     \<and> list_all good_resource_example (rt_examples t)"

definition good_contents :: "resource_contents \<Rightarrow> bool" where
  "good_contents c \<longleftrightarrow> rc_content c \<noteq> None \<and> wire_map (rc_metadata c)"

definition good_prompt :: "prompt \<Rightarrow> bool" where
  "good_prompt p \<longleftrightarrow> list_all good_parameter (prompt_parameters p)
     \<and> list_all good_prompt_example (prompt_examples p)
     \<and> stable_map (prompt_metadata p)"

definition good_page_result :: "pagination_result \<Rightarrow> bool" where
  "good_page_result p \<longleftrightarrow> pgr_items p = None \<and> in_int64 (pgr_total_count p)"

definition all_items :: "('a \<Rightarrow> bool) \<Rightarrow> 'a list option \<Rightarrow> bool" where
  "all_items P xs = (case xs of None \<Rightarrow> True | Some ys \<Rightarrow> list_all P ys)"

subsection \<open>Fields\<close>

text \<open>
  Decoding an object whose member may have been omitted: the member is written unless the value is
  the zero of its type, and reading it back updates the field in either case.
\<close>

definition unless :: "bool \<Rightarrow> ('a \<Rightarrow> 'a option) \<Rightarrow> 'a \<Rightarrow> 'a option" where
  "unless b f a = (if b then Some a else f a)"

definition and_then :: "('a \<Rightarrow> 'a option) \<Rightarrow> ('a \<Rightarrow> 'a option) \<Rightarrow> 'a \<Rightarrow> 'a option" where
  "and_then f g a = (case f a of None \<Rightarrow> None | Some a' \<Rightarrow> g a')"

definition at_field :: "'a field list \<Rightarrow> string \<Rightarrow> json \<Rightarrow> 'a \<Rightarrow> 'a option" where
  "at_field fs k v = (case find_field fs k of None \<Rightarrow> Some | Some f \<Rightarrow> snd f v)"

lemma and_then_Some [simp]: "f a = Some b \<Longrightarrow> and_then f g a = g b"
  by (simp add: and_then_def)

lemma decode_Cons: "decode_members fs ((k, v) # kvs) = and_then (at_field fs k v) (decode_members fs kvs)"
  by (auto simp: fun_eq_iff and_then_def at_field_def split: option.splits)

lemma decode_Nil: "decode_members fs [] = Some"
  by (rule ext) simp

lemma decode_omit_str: "decode_members fs (omit_str k s @ kvs) = and_then (unless (s = []) (at_field fs k (JStr s))) (decode_members fs kvs)"
  by (auto simp: omit_str_def decode_Cons unless_def and_then_def fun_eq_iff)

lemma decode_omit_bool: "decode_members fs (omit_bool k b @ kvs) = and_then (unless (\<not> b) (at_field fs k (JBool b))) (decode_members fs kvs)"
  by (auto simp: omit_bool_def decode_Cons unless_def and_then_def fun_eq_iff)

lemma decode_omit_int: "decode_members fs (omit_int k i @ kvs) = and_then (unless (i = 0) (at_field fs k (JInt i))) (decode_members fs kvs)"
  by (auto simp: omit_int_def decode_Cons unless_def and_then_def fun_eq_iff)

lemma decode_omit_any: "decode_members fs (omit_any k v @ kvs) = and_then (unless (v = GNil) (at_field fs k (marshal v))) (decode_members fs kvs)"
  by (auto simp: omit_any_def decode_Cons unless_def and_then_def fun_eq_iff)

lemma decode_omit_raw: "decode_members fs (omit_raw k r @ kvs) = and_then (unless (r = None) (at_field fs k (the r))) (decode_members fs kvs)"
  by (auto simp: omit_raw_def decode_Cons unless_def and_then_def fun_eq_iff)

lemma decode_omit_list: "decode_members fs (omit_list k enc xs @ kvs) = and_then (unless (xs = []) (at_field fs k (JArr (map enc xs)))) (decode_members fs kvs)"
  by (auto simp: omit_list_def decode_Cons unless_def and_then_def fun_eq_iff)

lemma decode_omit_map: "decode_members fs (omit_map k enc m @ kvs) = and_then (unless (m = []) (at_field fs k (map_json enc m))) (decode_members fs kvs)"
  by (auto simp: omit_map_def decode_Cons unless_def and_then_def fun_eq_iff)

lemma decode_omit_ptr: "decode_members fs (omit_ptr k enc p @ kvs) = and_then (unless (p = None) (at_field fs k (enc (the p)))) (decode_members fs kvs)"
  by (auto simp: omit_ptr_def decode_Cons unless_def and_then_def fun_eq_iff)

text \<open>An object whose last member is an omitted one.\<close>

lemma append_Nil_json: "JObj (xs @ ys) = JObj (xs @ ys @ [])"
  by simp

lemma unless_field [simp]:
  "upd [] a = a \<Longrightarrow> unless (s = []) (str_field upd (JStr s)) a = Some (upd s a)"
  "upd' False a = a \<Longrightarrow> unless (\<not> b) (bool_field upd' (JBool b)) a = Some (upd' b a)"
  "in_int64 i \<Longrightarrow> updi 0 a = a \<Longrightarrow> unless (i = 0) (int_field updi (JInt i)) a = Some (updi i a)"
  "wire_stable v \<Longrightarrow> updv GNil a = a \<Longrightarrow> unless (v = GNil) (any_field updv (marshal v)) a = Some (updv v a)"
  "updr None a = a \<Longrightarrow> unless (r = None) (raw_field updr (the r)) a = Some (updr r a)"
  by (auto simp: unless_def str_field_def bool_field_def any_field_def wire_stable_def raw_field_def)

lemma unless_list:
  "list_all P xs \<Longrightarrow> (\<And>x. P x \<Longrightarrow> dec (enc x) = Some x) \<Longrightarrow> upd [] a = a \<Longrightarrow>
   unless (xs = []) (list_field upd dec (JArr (map enc xs))) a = Some (upd xs a)"
  by (auto simp: unless_def list_field_def all_some_Some_iff list_all_iff)

lemma unless_strings [simp]:
  "upd [] a = a \<Longrightarrow> unless (xs = []) (list_field upd dec_str (JArr (map JStr xs))) a = Some (upd xs a)"
  by (rule unless_list [where P = "\<lambda>_. True"]) (simp_all add: dec_str_def list_all_iff)

lemma unless_map [simp]:
  "wire_map ms \<Longrightarrow> upds (Some []) a = a \<Longrightarrow>
   unless (ms = []) (map_field upds dec_str (map_json JStr ms)) a = Some (upds (Some ms) a)"
  "stable_map m \<Longrightarrow> upd (Some []) a = a \<Longrightarrow>
   unless (m = []) (map_field upd decode_any (map_json marshal m)) a = Some (upd (Some m) a)"
  by (auto simp: unless_def stable_map_def map_field_enc dec_str_def)

lemma slice_field_enc:
  "all_items P xs \<Longrightarrow> (\<And>x. P x \<Longrightarrow> dec (enc x) = Some x) \<Longrightarrow>
   slice_field upd dec (enc_list enc xs) a = Some (upd xs a)"
  by (cases xs) (auto simp: slice_field_def enc_list_def all_items_def all_some_Some_iff list_all_iff)

lemma all_items_True [simp]: "all_items (\<lambda>_. True) xs"
  by (cases xs) (simp_all add: all_items_def list_all_iff)

lemma plain_field [simp]:
  "str_field upd (JStr s) a = Some (upd s a)"
  "bool_field upd' (JBool b) a = Some (upd' b a)"
  "r \<noteq> None \<Longrightarrow> raw_field updr (enc_raw r) a = Some (updr r a)"
  "slice_field updl dec JNull a = Some (updl None a)"
  "slice_field upds dec_str (enc_list JStr ys) a = Some (upds ys a)"
  by (auto simp: str_field_def bool_field_def raw_field_def enc_raw_def slice_field_def)
    (rule slice_field_enc [unfolded slice_field_def, where P = "\<lambda>_. True"],
      auto simp: dec_str_def all_items_def list_all_iff split: option.splits)

lemma map_field_stable [simp]:
  "(case m of None \<Rightarrow> True | Some kvs \<Rightarrow> stable_map kvs) \<Longrightarrow>
   map_field upd decode_any (enc_map marshal m) a = Some (upd m a)"
  by (auto simp: stable_map_def enc_map_def split: option.splits)

lemmas decode_omits = decode_omit_str decode_omit_bool decode_omit_int decode_omit_any decode_omit_raw
  decode_omit_list decode_omit_map decode_omit_ptr

lemmas run_fields = decode_struct_def decode_Cons decode_Nil decode_omits decode_omits [where kvs = "[]", simplified]
  at_field_def find_field_def

subsection \<open>Structs\<close>

lemma dec_enc_example: "good_tool_example e \<Longrightarrow> dec_tool_example (enc_tool_example e) = Some e"
  by (cases e) (simp add: tool_example_defs run_fields good_tool_example_def)

lemma dec_enc_annotation: "good_annotation x \<Longrightarrow> dec_tool_annotation (enc_tool_annotation x) = Some x"
  by (cases x) (simp add: tool_annotation_defs run_fields good_annotation_def)

lemma dec_enc_tool: "good_tool t \<Longrightarrow> dec_tool (enc_tool t) = Some t"
  by (cases t) (simp add: tool_defs run_fields good_tool_def
      unless_list [where P = good_tool_example, OF _ dec_enc_example] unless_list [where P = good_annotation, OF _ dec_enc_annotation])

lemma dec_enc_resource: "good_resource r \<Longrightarrow> dec_resource (enc_resource r) = Some r"
  by (cases r) (simp add: resource_defs run_fields good_resource_def)

lemma dec_enc_parameter: "dec_resource_parameter (enc_resource_parameter x) = Some x"
  by (cases x) (simp add: resource_parameter_defs run_fields)

lemma dec_enc_resource_example:
  "good_resource_example x \<Longrightarrow>
   dec_resource_example (enc_resource_example x) = Some x"
  by (cases x) (simp add: resource_example_defs run_fields good_resource_example_def)

lemma dec_enc_template: "good_template t \<Longrightarrow> dec_resource_template (enc_resource_template t) = Some t"
  by (cases t) (simp add: resource_template_defs run_fields good_template_def
      slice_field_enc [where P = "\<lambda>_. True", OF _ dec_enc_parameter] unless_list [where P = good_resource_example, OF _ dec_enc_resource_example])

lemma dec_enc_contents: "good_contents c \<Longrightarrow> dec_resource_contents (enc_resource_contents c) = Some c"
  by (cases c) (simp add: resource_contents_defs run_fields good_contents_def)

lemma dec_enc_message: "dec_prompt_message (enc_prompt_message x) = Some x"
  by (cases x) (simp add: prompt_message_defs run_fields)

lemma dec_enc_prompt_parameter:
  "good_parameter x \<Longrightarrow> dec_prompt_parameter (enc_prompt_parameter x) = Some x"
  by (cases x) (simp add: prompt_parameter_defs run_fields good_parameter_def)

lemma dec_enc_prompt_example:
  "good_prompt_example x \<Longrightarrow>
   dec_prompt_example (enc_prompt_example x) = Some x"
  by (cases x) (simp add: prompt_example_defs run_fields good_prompt_example_def)

lemma dec_enc_prompt: "good_prompt p \<Longrightarrow> dec_prompt (enc_prompt p) = Some p"
  by (cases p) (simp add: prompt_defs run_fields good_prompt_def
      slice_field_enc [where P = "\<lambda>_. True", OF _ dec_enc_message]
      unless_list [where P = good_parameter, OF _ dec_enc_prompt_parameter]
      unless_list [where P = good_prompt_example, OF _ dec_enc_prompt_example])

lemma dec_enc_root: "dec_root (enc_root r) = Some r"
  by (cases r) (simp add: root_defs run_fields)

lemma dec_enc_server_info: "dec_server_info (enc_server_info x) = Some x"
  by (cases x) (simp add: server_info_defs run_fields)

subsection \<open>Results\<close>

datatype server_reply =
    RInitialize initialize_result
  | RSetCapability set_capability_result
  | RCancel cancel_result
  | RPing ping_result
  | RSetLogLevel set_log_level_result
  | RListTools list_tools_result
  | RCallTool call_tool_result
  | RListResources list_resources_result
  | RReadResource read_resource_result
  | RSubscribeResource subscribe_resource_result
  | RListPrompts list_prompts_result
  | RGetPrompt get_prompt_result
  | RListRoots list_roots_result

fun reply_method :: "server_reply \<Rightarrow> string" where
  "reply_method (RInitialize x) = MethodInitialize"
| "reply_method (RSetCapability x) = MethodSetCapability"
| "reply_method (RCancel x) = MethodCancel"
| "reply_method (RPing x) = MethodPing"
| "reply_method (RSetLogLevel x) = MethodSetLogLevel"
| "reply_method (RListTools x) = MethodListTools"
| "reply_method (RCallTool x) = MethodCallTool"
| "reply_method (RListResources x) = MethodListResources"
| "reply_method (RReadResource x) = MethodReadResource"
| "reply_method (RSubscribeResource x) = MethodSubscribeResource"
| "reply_method (RListPrompts x) = MethodListPrompts"
| "reply_method (RGetPrompt x) = MethodGetPrompt"
| "reply_method (RListRoots x) = MethodListRoots"

fun reply_json :: "server_reply \<Rightarrow> json" where
  "reply_json (RInitialize x) = enc_initialize_result x"
| "reply_json (RSetCapability x) = enc_set_capability_result x"
| "reply_json (RCancel x) = enc_cancel_result x"
| "reply_json (RPing x) = enc_ping_result x"
| "reply_json (RSetLogLevel x) = enc_set_log_level_result x"
| "reply_json (RListTools x) = enc_list_tools_result x"
| "reply_json (RCallTool x) = enc_call_tool_result x"
| "reply_json (RListResources x) = enc_list_resources_result x"
| "reply_json (RReadResource x) = enc_read_resource_result x"
| "reply_json (RSubscribeResource x) = enc_subscribe_resource_result x"
| "reply_json (RListPrompts x) = enc_list_prompts_result x"
| "reply_json (RGetPrompt x) = enc_get_prompt_result x"
| "reply_json (RListRoots x) = enc_list_roots_result x"

text \<open>The client decodes the result of a method into its own type.\<close>

definition reply_decoders :: "(string \<times> (json \<Rightarrow> server_reply option)) list" where
  "reply_decoders =
     [(MethodInitialize, \<lambda>v. map_option RInitialize (dec_initialize_result v)),
      (MethodSetCapability, \<lambda>v. map_option RSetCapability (dec_set_capability_result v)),
      (MethodCancel, \<lambda>v. map_option RCancel (dec_cancel_result v)),
      (MethodPing, \<lambda>v. map_option RPing (dec_ping_result v)),
      (MethodSetLogLevel, \<lambda>v. map_option RSetLogLevel (dec_set_log_level_result v)),
      (MethodListTools, \<lambda>v. map_option RListTools (dec_list_tools_result v)),
      (MethodCallTool, \<lambda>v. map_option RCallTool (dec_call_tool_result v)),
      (MethodListResources, \<lambda>v. map_option RListResources (dec_list_resources_result v)),
      (MethodReadResource, \<lambda>v. map_option RReadResource (dec_read_resource_result v)),
      (MethodSubscribeResource, \<lambda>v. map_option RSubscribeResource (dec_subscribe_resource_result v)),
      (MethodListPrompts, \<lambda>v. map_option RListPrompts (dec_list_prompts_result v)),
      (MethodGetPrompt, \<lambda>v. map_option RGetPrompt (dec_get_prompt_result v)),
      (MethodListRoots, \<lambda>v. map_option RListRoots (dec_list_roots_result v))]"

definition decode_reply :: "string \<Rightarrow> json \<Rightarrow> server_reply option" where
  "decode_reply m v = (case map_of reply_decoders m of Some d \<Rightarrow> d v | None \<Rightarrow> None)"

fun good_reply :: "server_reply \<Rightarrow> bool" where
  "good_reply (RInitialize x) \<longleftrightarrow> (case ir_capabilities x of None \<Rightarrow> True | Some m \<Rightarrow> wire_map m) \<and> stable_map (ir_feature_options x)"
| "good_reply (RPing x) \<longleftrightarrow> in_int64 (pr_timestamp x)"
| "good_reply (RListTools x) \<longleftrightarrow> all_items good_tool (ltr_tools x) \<and> good_page_result (ltr_page x)"
| "good_reply (RListResources x) \<longleftrightarrow> all_items good_resource (lrr_resources x) \<and> list_all good_template (lrr_templates x)
     \<and> good_page_result (lrr_page x)"
| "good_reply (RReadResource x) \<longleftrightarrow> good_contents (rrr_contents x)"
| "good_reply (RListPrompts x) \<longleftrightarrow> all_items good_prompt (lpr_prompts x) \<and> good_page_result (lpr_page x)"
| "good_reply (RGetPrompt x) \<longleftrightarrow> good_prompt (gpr_prompt x)"
| "good_reply (RListRoots x) \<longleftrightarrow> good_page_result (lrtr_page x)"
| "good_reply _ \<longleftrightarrow> True"

text \<open>A field of an embedded struct.\<close>

definition inside :: "('a \<Rightarrow> 'b) \<Rightarrow> ('b \<Rightarrow> 'a \<Rightarrow> 'a) \<Rightarrow> ('b \<Rightarrow> 'b option) \<Rightarrow> 'a \<Rightarrow> 'a option" where
  "inside get put f a = map_option (\<lambda>b. put b a) (f (get a))"

lemma lift_fields_inside: "lift_fields get put fs = map (\<lambda>(n, f). (n, \<lambda>v. inside get put (f v))) fs"
  by (auto simp: lift_fields_def inside_def fun_eq_iff)

lemma unless_inside [simp]:
  "put (get a) a = a \<Longrightarrow> unless b (inside get put f) a = map_option (\<lambda>p. put p a) (unless b f (get a))"
  by (auto simp: unless_def inside_def)

lemma inside_Some [simp]: "f (get a) = Some p \<Longrightarrow> inside get put f a = Some (put p a)"
  by (simp add: inside_def)

lemma enc_list_None [simp]: "enc_list enc None = JNull"
  by (simp add: enc_list_def)

lemmas page_result_run = pagination_result_defs members_pagination_result_def good_page_result_def
  lift_fields_inside

lemma dec_enc_list_tools: "good_reply (RListTools x) \<Longrightarrow> dec_list_tools_result (enc_list_tools_result x) = Some x"
  by (cases x; cases "ltr_page x")
    (simp add: list_tools_result_defs run_fields page_result_run slice_field_enc [where P = good_tool, OF _ dec_enc_tool])

lemma dec_enc_list_resources_result:
  "good_reply (RListResources x) \<Longrightarrow> dec_list_resources_result (enc_list_resources_result x) = Some x"
  by (cases x; cases "lrr_page x")
    (simp add: list_resources_result_defs run_fields page_result_run
      slice_field_enc [where P = good_resource, OF _ dec_enc_resource]
      unless_list [where P = good_template, OF _ dec_enc_template])

lemma dec_enc_list_prompts_result:
  "good_reply (RListPrompts x) \<Longrightarrow> dec_list_prompts_result (enc_list_prompts_result x) = Some x"
  by (cases x; cases "lpr_page x")
    (simp add: list_prompts_result_defs run_fields page_result_run slice_field_enc [where P = good_prompt, OF _ dec_enc_prompt])

lemma dec_enc_list_roots_result:
  "good_reply (RListRoots x) \<Longrightarrow> dec_list_roots_result (enc_list_roots_result x) = Some x"
  by (cases x; cases "lrtr_page x")
    (simp add: list_roots_result_defs run_fields page_result_run slice_field_enc [where P = "\<lambda>_. True", OF _ dec_enc_root])

lemma dec_enc_initialize_result:
  "good_reply (RInitialize x) \<Longrightarrow> dec_initialize_result (enc_initialize_result x) = Some x"
proof -
  assume good: "good_reply (RInitialize x)"
  then have "map_field u dec_bool (enc_map JBool (ir_capabilities x)) a = Some (u (ir_capabilities x) a)" for u and a :: initialize_result
    by (auto simp: enc_map_def split: option.splits)
  moreover have "unless (ir_server_info x = None) (ptr_field u dec_server_info (enc_server_info (the (ir_server_info x)))) a
      = Some (u (ir_server_info x) a)" if "u None a = a" for u and a :: initialize_result
    using that by (cases "ir_server_info x")
      (auto simp: unless_def dec_enc_server_info intro!: ptr_field_enc, simp add: enc_server_info_def)
  ultimately show ?thesis
    using good by (cases x) (simp add: initialize_result_defs run_fields)
qed

lemma dec_enc_small_results:
  "dec_set_capability_result (enc_set_capability_result a) = Some a"
  "dec_cancel_result (enc_cancel_result b) = Some b"
  "in_int64 (pr_timestamp c) \<Longrightarrow> dec_ping_result (enc_ping_result c) = Some c"
  "dec_set_log_level_result (enc_set_log_level_result d) = Some d"
  "dec_subscribe_resource_result (enc_subscribe_resource_result e) = Some e"
  "dec_call_tool_result (enc_call_tool_result f) = Some f"
  by (cases a; cases b; cases c; cases d; cases e; cases f;
      simp add: set_capability_result_defs cancel_result_defs ping_result_defs set_log_level_result_defs
        subscribe_resource_result_defs call_tool_result_defs run_fields)+

lemma dec_enc_object_results:
  "good_contents (rrr_contents x) \<Longrightarrow> dec_read_resource_result (enc_read_resource_result x) = Some x"
  "good_prompt (gpr_prompt y) \<Longrightarrow> dec_get_prompt_result (enc_get_prompt_result y) = Some y"
proof -
  have nn: "enc_resource_contents c \<noteq> JNull" "enc_prompt p \<noteq> JNull" for c p
    by (simp_all add: enc_resource_contents_def enc_prompt_def)
  show "good_contents (rrr_contents x) \<Longrightarrow> dec_read_resource_result (enc_read_resource_result x) = Some x"
    by (cases x) (simp add: read_resource_result_defs run_fields struct_field_def nn dec_enc_contents)
  show "good_prompt (gpr_prompt y) \<Longrightarrow> dec_get_prompt_result (enc_get_prompt_result y) = Some y"
    by (cases y) (simp add: get_prompt_result_defs run_fields struct_field_def nn dec_enc_prompt)
qed


definition sample_reply :: server_reply where
  "sample_reply = RListTools \<lparr>ltr_tools = Some [zero_tool\<lparr>tool_name := ''add'', tool_input_schema := Some (JObj []),
       tool_examples := [zero_tool_example\<lparr>te_name := ''one'', te_input := Some (JNum ''1''), te_output := Some JNull\<rparr>],
       tool_async := True, tool_categories := [''math'']\<rparr>],
     ltr_page = zero_pagination_result\<lparr>pgr_total_count := 7, pgr_next_cursor := ''abc'', pgr_has_more := True\<rparr>\<rparr>"


subsection \<open>Results as JSON texts\<close>

text \<open>A JSON tree that can be printed and parsed back, and decoded into an untyped value.\<close>

definition wire_json :: "json \<Rightarrow> bool" where
  "wire_json v \<longleftrightarrow> wf_json v \<and> decode_any v \<noteq> None"

lemma wire_json_simps [simp]:
  "wire_json JNull" "wire_json (JBool b)" "wire_json (JStr s)"
  "wire_json (JArr vs) \<longleftrightarrow> list_all wire_json vs"
  "wire_json (JObj kvs) \<longleftrightarrow> list_all (\<lambda>(k, v). wire_json v) kvs"
proof -
  have s: "all_some xs \<noteq> None \<longleftrightarrow> (\<forall>x\<in>set xs. x \<noteq> None)" for xs :: "gval option list"
    by (simp add: all_some_def del: not_None_eq) metis
  show "wire_json (JArr vs) \<longleftrightarrow> list_all wire_json vs"
    using s [of "map decode_any vs"] by (auto simp: wire_json_def list_all_iff)
  show "wire_json (JObj kvs) \<longleftrightarrow> list_all (\<lambda>(k, v). wire_json v) kvs"
    using s [of "map (\<lambda>(k, v). decode_any v) kvs"] by (auto simp: wire_json_def list_all_iff)
qed (simp_all add: wire_json_def)

lemma wire_json_int [simp]: "\<bar>i\<bar> < 2 ^ 53 \<Longrightarrow> wire_json (JInt i)"
  using wf_marshal_id [of "GInt i"] by (simp add: wire_json_def good_id_def)

definition wire_raw :: "json option \<Rightarrow> bool" where
  "wire_raw r \<longleftrightarrow> (case r of None \<Rightarrow> True | Some v \<Rightarrow> wire_json v)"

lemma wire_enc_raw [simp]: "wire_json (enc_raw r) \<longleftrightarrow> wire_raw r"
  by (auto simp: enc_raw_def wire_raw_def split: option.splits)

abbreviation wire_members :: "(string \<times> json) list \<Rightarrow> bool" where
  "wire_members kvs \<equiv> list_all (\<lambda>(k, v). wire_json v) kvs"

lemma wire_omits [simp]:
  "wire_members (omit_str k s)" "wire_members (omit_bool k b)"
  "\<bar>i\<bar> < 2 ^ 53 \<Longrightarrow> wire_members (omit_int k i)"
  "wire_raw r \<Longrightarrow> wire_members (omit_raw k r)"
  "list_all (\<lambda>x. wire_json (enc x)) xs \<Longrightarrow> wire_members (omit_list k enc xs)"
  by (auto simp: omit_str_def omit_bool_def omit_int_def omit_raw_def omit_list_def wire_raw_def list_all_iff
      split: option.splits)

definition wire_tool :: "tool \<Rightarrow> bool" where
  "wire_tool t \<longleftrightarrow> wire_raw (tool_input_schema t) \<and> wire_raw (tool_output_schema t)
     \<and> list_all (\<lambda>e. wire_raw (te_input e) \<and> wire_raw (te_output e)) (tool_examples t)
     \<and> list_all (\<lambda>a. wire_raw (ta_value a)) (tool_annotations t)"

lemma wire_enc_tool: "wire_tool t \<Longrightarrow> wire_json (enc_tool t)"
proof -
  assume t: "wire_tool t"
  have "list_all (\<lambda>e. wire_json (enc_tool_example e)) (tool_examples t)"
    using t by (auto simp: wire_tool_def list_all_iff enc_tool_example_def simp flip: list_all_iff)
  moreover have "list_all (\<lambda>a. wire_json (enc_tool_annotation a)) (tool_annotations t)"
    using t by (auto simp: wire_tool_def list_all_iff enc_tool_annotation_def simp flip: list_all_iff)
  moreover have "list_all (\<lambda>c. wire_json (JStr c)) (tool_categories t)" by (simp add: list_all_iff)
  ultimately show ?thesis using t by (simp add: enc_tool_def wire_tool_def)
qed

end
