(* ===== verification/Client.thy ===== *)
theory Client
  imports BaseTransport Results Notifications Pagination Conversion
begin

section \<open>The client (\<open>pkg/client\<close>)\<close>

text \<open>
  The client: its options and construction, initialization, the requests it makes and the results it
  decodes, listing everything page by page, and the handlers it registers for messages of the
  server. The transport is an interface, a record of functions on its state \<open>'t\<close>; the result of a
  request is an interface value, whatever the transport returns, and the client decodes the JSON that
  \<open>json.Marshal\<close> makes of it. The callbacks of the application change its state \<open>'w\<close>; a panic in one is recovered and
  logged, so all that remains of a callback is what it did. \<open>why\<close> is the text of a decoding error.
\<close>

subsection \<open>State and options\<close>

record 't link =
  ln_type :: string
  ln_init :: "'t \<Rightarrow> goerr option \<times> 't"
  ln_request :: "string \<Rightarrow> json \<Rightarrow> 't \<Rightarrow> (goerr, gval) outcome \<times> 't"
  ln_notify :: "string \<Rightarrow> json option \<Rightarrow> 't \<Rightarrow> goerr option \<times> 't"
  ln_start :: "'t \<Rightarrow> goerr option \<times> 't"
  ln_stop :: "'t \<Rightarrow> goerr option \<times> 't"

record sampling_event =
  se_type :: string
  se_data :: sample_params
  se_token :: string

datatype change = ResourcesChangedParams resources_changed_params | ResourceUpdatedParams resource_updated_params

record 'w client =
  cl_name :: string
  cl_version :: string
  cl_capabilities :: "(string \<times> bool) list"
  cl_features :: "(string \<times> gval) list"
  cl_initialized :: bool
  cl_server :: "server_info option"
  cl_closed :: bool
  cl_sampling :: "(sampling_event \<Rightarrow> 'w \<Rightarrow> 'w) option"
  cl_changed :: "(string \<Rightarrow> change \<Rightarrow> 'w \<Rightarrow> 'w) option"
  cl_world :: 'w

type_synonym reason = "string \<Rightarrow> json \<Rightarrow> string"

definition client_WithName :: "string \<Rightarrow> 'w client \<Rightarrow> 'w client" where
  "client_WithName x c = c\<lparr>cl_name := x\<rparr>"
definition client_WithVersion :: "string \<Rightarrow> 'w client \<Rightarrow> 'w client" where
  "client_WithVersion x c = c\<lparr>cl_version := x\<rparr>"
definition client_WithCapability :: "string \<Rightarrow> bool \<Rightarrow> 'w client \<Rightarrow> 'w client" where
  "client_WithCapability x b c = c\<lparr>cl_capabilities := put_assoc x b (cl_capabilities c)\<rparr>"
definition client_WithFeatureOptions :: "(string \<times> gval) list \<Rightarrow> 'w client \<Rightarrow> 'w client" where
  "client_WithFeatureOptions opts c = c\<lparr>cl_features := fold (\<lambda>(k, v). put_assoc k v) opts (cl_features c)\<rparr>"

subsection \<open>Errors\<close>

definition client_context :: "string \<Rightarrow> gval \<Rightarrow> err_context" where
  "client_context m i = empty_context\<lparr>ctx_request_id := go_str i, ctx_method := m,
     ctx_component := ''Client'', ctx_operation := m\<rparr>"

definition client_operation :: "string \<Rightarrow> err_context" where
  "client_operation operation = empty_context\<lparr>ctx_component := ''Client'', ctx_operation := operation\<rparr>"

definition HasCapability :: "'w client \<Rightarrow> string \<Rightarrow> bool" where
  "HasCapability c x = (if cl_server c = None then False else map_of (cl_capabilities c) x = Some True)"

definition client_requireCapability :: "'w client \<Rightarrow> string \<Rightarrow> string \<Rightarrow> (goerr, unit) outcome" where
  "client_requireCapability c x operation =
     (if HasCapability c x then Ok ()
      else Err (ErrMCP (WithContext (Some (client_operation operation)) (CapabilityRequired x))))"

definition transport_failure :: "string \<Rightarrow> err_context \<Rightarrow> string option \<Rightarrow> goerr \<Rightarrow> (goerr, 'a) outcome" where
  "transport_failure operation ctx detail e =
     bind_outcome (TransportError ''client'' operation (Some e)) (\<lambda>x.
       Err (ErrMCP (let y = WithContext (Some ctx) x in case detail of None \<Rightarrow> y | Some d \<Rightarrow> WithDetail d y)))"

definition validateAndParseResult :: "reason \<Rightarrow> string \<Rightarrow> (json \<Rightarrow> 'a option) \<Rightarrow> string \<Rightarrow> gval \<Rightarrow> (goerr, 'a) outcome" where
  "validateAndParseResult why target dec m result =
     (if result = GNil then Err (ErrMCP (WithDetail ''Received nil result from server''
          (WithContext (Some (client_context m GNil)) (CreateInternalError ''nil_result'' None))))
      else case dec (marshal result) of
             Some x \<Rightarrow> Ok x
           | None \<Rightarrow> Err (ErrMCP (WithDetail (why target (marshal result))
               (WithContext (Some (client_context m GNil)) (InvalidParameter ''result'' result target)))))"

definition validateAndParseParams :: "reason \<Rightarrow> string \<Rightarrow> (json \<Rightarrow> 'a option) \<Rightarrow> string \<Rightarrow> json option option \<Rightarrow>
    (goerr, 'a) outcome" where
  "validateAndParseParams why target dec m params =
     (case params of
        None \<Rightarrow> Err (ErrMCP (WithContext (Some (client_context m GNil)) (MissingParameter ''params'')))
      | Some raw \<Rightarrow>
          (case dec (enc_raw raw) of
             Some x \<Rightarrow> Ok x
           | None \<Rightarrow> Err (ErrMCP (WithDetail (why target (enc_raw raw))
               (WithContext (Some (client_context m GNil)) (InvalidParameter ''params'' (GRaw raw) target))))))"

text \<open>What the requests share: sending, wrapping a failure, decoding the result.\<close>

definition exchange :: "'t link \<Rightarrow> reason \<Rightarrow> string \<Rightarrow> string option \<Rightarrow> string \<Rightarrow> (json \<Rightarrow> 'a option) \<Rightarrow> json \<Rightarrow> 't \<Rightarrow>
    (goerr, 'a) outcome \<times> 't" where
  "exchange l why m detail target dec params t =
     answer_with (ln_request l m params t) (validateAndParseResult why target dec m)
       (transport_failure ''send_request'' (client_context m GNil) detail)"

subsection \<open>Requests\<close>

definition result_page :: "pagination_result \<Rightarrow> pagination_result" where
  "result_page r = page_result (pgr_total_count r) (pgr_next_cursor r) (pgr_has_more r)"

definition check_page :: "pagination_params option \<Rightarrow> (goerr, pagination_params) outcome" where
  "check_page p = (case ValidateParams p of Some e \<Rightarrow> Err e | None \<Rightarrow> Ok (ApplyDefaults p))"

definition client_ListTools :: "'t link \<Rightarrow> reason \<Rightarrow> 'w client \<Rightarrow> string \<Rightarrow> pagination_params option \<Rightarrow> 't \<Rightarrow>
    (goerr, tool list option \<times> pagination_result) outcome \<times> 't" where
  "client_ListTools l why c category page t =
     after_check (client_requireCapability c CapabilityTools ''ListTools'') (\<lambda>_.
     after_check (check_page page) (\<lambda>p t.
     answer_with (exchange l why MethodListTools (Some (''Category: '' @ category)) ''*protocol.ListToolsResult''
         dec_list_tools_result (enc_list_tools_params \<lparr>ltp_category = category, ltp_page = p\<rparr>) t)
       (\<lambda>r. Ok (ltr_tools r, result_page (ltr_page r))) Err)) t"

definition client_CallTool :: "'t link \<Rightarrow> reason \<Rightarrow> 'w client \<Rightarrow> string \<Rightarrow> gval \<Rightarrow> gval \<Rightarrow> 't \<Rightarrow>
    (goerr, call_tool_result) outcome \<times> 't" where
  "client_CallTool l why c name input ctx t =
     after_check (client_requireCapability c CapabilityTools ''CallTool'') (\<lambda>_ t.
     exchange l why MethodCallTool (Some (''Tool: '' @ name)) ''*protocol.CallToolResult'' dec_call_tool_result
       (enc_call_tool_params \<lparr>ctp_name = name,
          ctp_input = (if input = GNil then None else Some (marshal input)),
          ctp_context = (if ctx = GNil then None else Some (marshal ctx))\<rparr>) t) t"

definition client_ListResources :: "'t link \<Rightarrow> reason \<Rightarrow> 'w client \<Rightarrow> string \<Rightarrow> bool \<Rightarrow> pagination_params option \<Rightarrow> 't \<Rightarrow>
    (goerr, resource list option \<times> resource_template list \<times> pagination_result) outcome \<times> 't" where
  "client_ListResources l why c uri recursive page t =
     after_check (client_requireCapability c CapabilityResources ''ListResources'') (\<lambda>_.
     after_check (check_page page) (\<lambda>p t.
     answer_with (exchange l why MethodListResources (Some (''URI: '' @ uri @ '', Recursive: '' @ show_bool recursive))
         ''*protocol.ListResourcesResult'' dec_list_resources_result
         (enc_list_resources_params \<lparr>lrp_uri = uri, lrp_recursive = recursive, lrp_page = p\<rparr>) t)
       (\<lambda>r. Ok (lrr_resources r, lrr_templates r, result_page (lrr_page r))) Err)) t"

definition client_ReadResource :: "'t link \<Rightarrow> reason \<Rightarrow> 'w client \<Rightarrow> string \<Rightarrow> (string \<times> gval) list \<Rightarrow> resource_range option \<Rightarrow>
    't \<Rightarrow> (goerr, resource_contents) outcome \<times> 't" where
  "client_ReadResource l why c uri tps rng t =
     after_check (client_requireCapability c CapabilityResources ''ReadResource'') (\<lambda>_ t.
     answer_with (exchange l why MethodReadResource (Some (''URI: '' @ uri)) ''*protocol.ReadResourceResult''
         dec_read_resource_result (enc_read_resource_params \<lparr>rrp_uri = uri, rrp_template_params = tps, rrp_range = rng\<rparr>) t)
       (\<lambda>r. Ok (rrr_contents r)) Err) t"

definition client_SubscribeResource :: "'t link \<Rightarrow> reason \<Rightarrow> 'w client \<Rightarrow> string \<Rightarrow> bool \<Rightarrow> 't \<Rightarrow> (goerr, unit) outcome \<times> 't" where
  "client_SubscribeResource l why c uri recursive t =
     (let detail = ''URI: '' @ uri @ '', Recursive: '' @ show_bool recursive in
      after_check (client_requireCapability c CapabilityResourceSubscriptions ''SubscribeResource'') (\<lambda>_ t.
      answer_with (exchange l why MethodSubscribeResource (Some detail) ''*protocol.SubscribeResourceResult''
          dec_subscribe_resource_result (enc_subscribe_resource_params \<lparr>srp_uri = uri, srp_recursive = recursive\<rparr>) t)
        (\<lambda>r. if srr_success r then Ok ()
             else Err (ErrMCP (WithDetail detail (WithContext (Some (client_context MethodSubscribeResource GNil))
               (OperationFailed ''subscribe_resource'' ''Server declined subscription request''))))) Err) t)"

definition client_ListPrompts :: "'t link \<Rightarrow> reason \<Rightarrow> 'w client \<Rightarrow> string \<Rightarrow> pagination_params option \<Rightarrow> 't \<Rightarrow>
    (goerr, prompt list option \<times> pagination_result) outcome \<times> 't" where
  "client_ListPrompts l why c tag page t =
     after_check (client_requireCapability c CapabilityPrompts ''ListPrompts'') (\<lambda>_.
     after_check (check_page page) (\<lambda>p t.
     answer_with (exchange l why MethodListPrompts (Some (''Tag: '' @ tag)) ''*protocol.ListPromptsResult''
         dec_list_prompts_result (enc_list_prompts_params \<lparr>lpp_tag = tag, lpp_page = p\<rparr>) t)
       (\<lambda>r. Ok (lpr_prompts r, result_page (lpr_page r))) Err)) t"

definition client_GetPrompt :: "'t link \<Rightarrow> reason \<Rightarrow> 'w client \<Rightarrow> string \<Rightarrow> 't \<Rightarrow> (goerr, prompt) outcome \<times> 't" where
  "client_GetPrompt l why c i t =
     after_check (client_requireCapability c CapabilityPrompts ''GetPrompt'') (\<lambda>_ t.
     answer_with (exchange l why MethodGetPrompt (Some (''ID: '' @ i)) ''*protocol.GetPromptResult''
         dec_get_prompt_result (enc_get_prompt_params \<lparr>gpp_id = i\<rparr>) t)
       (\<lambda>r. Ok (gpr_prompt r)) Err) t"

definition client_Complete :: "'t link \<Rightarrow> reason \<Rightarrow> 'w client \<Rightarrow> complete_params option \<Rightarrow> 't \<Rightarrow>
    (goerr, complete_result) outcome \<times> 't" where
  "client_Complete l why c params t =
     after_check (client_requireCapability c CapabilityComplete ''Complete'') (\<lambda>_ t.
     exchange l why MethodComplete None ''*protocol.CompleteResult'' dec_complete_result
       (case params of None \<Rightarrow> JNull | Some p \<Rightarrow> enc_complete_params p) t) t"

definition client_ListRoots :: "'t link \<Rightarrow> reason \<Rightarrow> 'w client \<Rightarrow> string \<Rightarrow> pagination_params option \<Rightarrow> 't \<Rightarrow>
    (goerr, root list option \<times> pagination_result) outcome \<times> 't" where
  "client_ListRoots l why c tag page t =
     after_check (client_requireCapability c CapabilityRoots ''ListRoots'') (\<lambda>_.
     after_check (check_page page) (\<lambda>p t.
     answer_with (exchange l why MethodListRoots (Some (''Tag: '' @ tag)) ''*protocol.ListRootsResult''
         dec_list_roots_result (enc_list_roots_params \<lparr>lrtp_tag = tag, lrtp_page = p\<rparr>) t)
       (\<lambda>r. Ok (lrtr_roots r, result_page (lrtr_page r))) Err)) t"

definition client_SetLogLevel :: "'t link \<Rightarrow> reason \<Rightarrow> 'w client \<Rightarrow> string \<Rightarrow> 't \<Rightarrow> (goerr, unit) outcome \<times> 't" where
  "client_SetLogLevel l why c level t =
     after_check (client_requireCapability c CapabilityLogging ''SetLogLevel'') (\<lambda>_ t.
     answer_with (exchange l why MethodSetLogLevel (Some (''Level: '' @ level)) ''*protocol.SetLogLevelResult''
         dec_set_log_level_result (enc_set_log_level_params \<lparr>sllp_level = level\<rparr>) t)
       (\<lambda>r. if sllr_success r then Ok ()
            else Err (ErrMCP (WithDetail (''Level: '' @ level) (WithContext (Some (client_context MethodSetLogLevel GNil))
              (OperationFailed ''set_log_level'' ''Server declined log level change''))))) Err) t"

definition client_Cancel :: "'t link \<Rightarrow> reason \<Rightarrow> gval \<Rightarrow> 't \<Rightarrow> (goerr, bool) outcome \<times> 't" where
  "client_Cancel l why i t =
     answer_with (exchange l why MethodCancel (Some (''Request ID: '' @ go_str i)) ''*protocol.CancelResult''
         dec_cancel_result (enc_cancel_params \<lparr>cp_id = i\<rparr>) t)
       (\<lambda>r. Ok (cr_cancelled r)) Err"

definition client_Ping :: "'t link \<Rightarrow> reason \<Rightarrow> instant \<Rightarrow> 't \<Rightarrow> (goerr, ping_result) outcome \<times> 't" where
  "client_Ping l why now t =
     exchange l why MethodPing None ''*protocol.PingResult'' dec_ping_result
       (enc_ping_params \<lparr>pp_timestamp = go_div now millisecond\<rparr>) t"

definition client_SendProgress :: "'t link \<Rightarrow> gval \<Rightarrow> string \<Rightarrow> rat \<Rightarrow> bool \<Rightarrow> 't \<Rightarrow> goerr option \<times> 't" where
  "client_SendProgress l i message percent completed t =
     ln_notify l MethodProgress (Some (enc_progress_params
       \<lparr>prog_id = i, prog_message = message, prog_percent = percent, prog_completed = completed\<rparr>)) t"

subsection \<open>Listing everything\<close>

text \<open>The function that fetches a page, as \<open>FetchAllPages\<close> calls it; the items have the right type. A
  panic of the transport ends the listing (\<open>ListAll\<close> itself has no recovery).\<close>

definition page_fetcher :: "(pagination_params option \<Rightarrow> 't \<Rightarrow> (goerr, 'a list option \<times> pagination_result) outcome \<times> 't) \<Rightarrow>
    ('t, 'a) fetcher" where
  "page_fetcher lst p t =
     (case lst (Some p) t of
        (Ok (xs, r), t') \<Rightarrow> (Inr (Some r, Items (case xs of None \<Rightarrow> [] | Some ys \<Rightarrow> ys)), t')
      | (Err e, t') \<Rightarrow> (Inl e, t')
      | (Panic m, t') \<Rightarrow> (Inl (ErrText m), t'))"

definition list_all_of :: "'w client \<Rightarrow> string \<Rightarrow> ('t, 'a) fetcher \<Rightarrow> 't \<Rightarrow> ((goerr + 'a list) \<times> 't) option" where
  "list_all_of c x fetch t =
     (if \<not> HasCapability c x then Some (Inl (ErrMCP (CapabilityRequired x)), t)
      else FetchAllPages None fetch t)"

definition ListAllTools :: "'t link \<Rightarrow> reason \<Rightarrow> 'w client \<Rightarrow> string \<Rightarrow> 't \<Rightarrow> ((goerr + tool list) \<times> 't) option" where
  "ListAllTools l why c category = list_all_of c CapabilityTools (page_fetcher (client_ListTools l why c category))"

definition ListAllPrompts :: "'t link \<Rightarrow> reason \<Rightarrow> 'w client \<Rightarrow> string \<Rightarrow> 't \<Rightarrow> ((goerr + prompt list) \<times> 't) option" where
  "ListAllPrompts l why c tag = list_all_of c CapabilityPrompts (page_fetcher (client_ListPrompts l why c tag))"

definition ListAllRoots :: "'t link \<Rightarrow> reason \<Rightarrow> 'w client \<Rightarrow> string \<Rightarrow> 't \<Rightarrow> ((goerr + root list) \<times> 't) option" where
  "ListAllRoots l why c tag = list_all_of c CapabilityRoots (page_fetcher (client_ListRoots l why c tag))"

text \<open>For resources the templates of the pages are accumulated beside the transport's state.\<close>

definition resource_fetcher :: "(pagination_params option \<Rightarrow> 't \<Rightarrow>
    (goerr, resource list option \<times> resource_template list \<times> pagination_result) outcome \<times> 't) \<Rightarrow>
    ('t \<times> resource_template list, resource) fetcher" where
  "resource_fetcher lst p tt =
     (case lst (Some p) (fst tt) of
        (Ok (xs, ts, r), t') \<Rightarrow> (Inr (Some r, Items (case xs of None \<Rightarrow> [] | Some ys \<Rightarrow> ys)), (t', snd tt @ ts))
      | (Err e, t') \<Rightarrow> (Inl e, (t', snd tt))
      | (Panic m, t') \<Rightarrow> (Inl (ErrText m), (t', snd tt)))"

definition ListAllResources :: "'t link \<Rightarrow> reason \<Rightarrow> 'w client \<Rightarrow> string \<Rightarrow> bool \<Rightarrow> 't \<Rightarrow>
    ((goerr + resource list) \<times> ('t \<times> resource_template list)) option" where
  "ListAllResources l why c uri recursive t =
     list_all_of c CapabilityResources (resource_fetcher (client_ListResources l why c uri recursive)) (t, [])"

subsection \<open>Life of a client\<close>

definition new_client :: "'w \<Rightarrow> 'w client" where
  "new_client w = \<lparr>cl_name = ''go-mcp-client'', cl_version = ''1.0.0'', cl_capabilities = [], cl_features = [],
     cl_initialized = False, cl_server = None, cl_closed = False, cl_sampling = None, cl_changed = None, cl_world = w\<rparr>"

definition NewClient :: "('w client \<Rightarrow> 'w client) list \<Rightarrow> 'w \<Rightarrow> 'w client" where
  "NewClient options w =
     (let c = fold (\<lambda>opt c. opt c) options (new_client w)
      in if map_of (cl_capabilities c) CapabilitySampling = None
         then c\<lparr>cl_capabilities := put_assoc CapabilitySampling True (cl_capabilities c)\<rparr> else c)"

definition NewStdioClient :: "('w client \<Rightarrow> 'w client) list \<Rightarrow> 'w \<Rightarrow> 'w client" where
  "NewStdioClient options w =
     fold (\<lambda>opt c. opt c) options
       (NewClient [client_WithName ''go-mcp-client'', client_WithVersion ''1.0.0'',
          client_WithCapability CapabilitySampling True, client_WithCapability CapabilityLogging True] w)"

definition initialize_request :: "string \<Rightarrow> 'w client \<Rightarrow> initialize_params" where
  "initialize_request goos c = zero_initialize_params
     \<lparr>ip_client_info := Some \<lparr>ci_name = cl_name c, ci_version = cl_version c, ci_platform = goos\<rparr>,
      ip_capabilities := Some (cl_capabilities c), ip_feature_options := cl_features c\<rparr>"

definition accept_server :: "initialize_result \<Rightarrow> 'w client \<Rightarrow> 'w client" where
  "accept_server r c = c\<lparr>cl_server := ir_server_info r, cl_initialized := True,
     cl_capabilities := fold (\<lambda>(k, b) m. if b then put_assoc k True m else m)
       (case ir_capabilities r of None \<Rightarrow> [] | Some m \<Rightarrow> m) (cl_capabilities c)\<rparr>"

definition client_Initialize :: "'t link \<Rightarrow> reason \<Rightarrow> string \<Rightarrow> 'w client \<times> 't \<Rightarrow> (goerr, unit) outcome \<times> ('w client \<times> 't)" where
  "client_Initialize l why goos ct =
     (let c = fst ct in
      if cl_initialized c then (Ok (), ct)
      else case ln_init l (snd ct) of
        (Some e, t) \<Rightarrow>
          (transport_failure ''initialization'' (client_operation ''Initialize'')
             (Some (''Transport type: '' @ ln_type l)) e, (c, t))
      | (None, t) \<Rightarrow>
          (case answer_with (ln_request l MethodInitialize (enc_initialize_params (initialize_request goos c)) t)
                  (validateAndParseResult why ''*protocol.InitializeResult'' dec_initialize_result MethodInitialize)
                  (transport_failure ''send_request'' (client_context MethodInitialize GNil)
                     (Some ''Failed to send initialize request to server'')) of
             (Err e, t) \<Rightarrow> (Err e, (c, t))
           | (Panic m, t) \<Rightarrow> (Panic m, (c, t))
           | (Ok r, t) \<Rightarrow>
               (let c' = accept_server r c in
                case ln_notify l MethodInitialized None t of
                  (None, t) \<Rightarrow> (Ok (), (c', t))
                | (Some e, t) \<Rightarrow>
                    (transport_failure ''send_notification'' (client_context MethodInitialized GNil)
                       (Some ''Failed to send initialized notification to server'') e, (c', t)))))"

definition outcome_of :: "goerr option \<Rightarrow> (goerr, unit) outcome" where
  "outcome_of x = (case x of None \<Rightarrow> Ok () | Some e \<Rightarrow> Err e)"

definition client_Start :: "'t link \<Rightarrow> 't \<Rightarrow> (goerr, unit) outcome \<times> 't" where
  "client_Start l t = (case ln_start l t of (x, t') \<Rightarrow> (outcome_of x, t'))"

definition InitializeAndStart :: "'t link \<Rightarrow> reason \<Rightarrow> string \<Rightarrow> 'w client \<times> 't \<Rightarrow> (goerr, unit) outcome \<times> ('w client \<times> 't)" where
  "InitializeAndStart l why goos ct =
     (case client_Initialize l why goos ct of
        (Ok (), (c, t)) \<Rightarrow> (case client_Start l t of (x, t') \<Rightarrow> (x, (c, t')))
      | (x, ct') \<Rightarrow> (x, ct'))"

definition client_Close :: "'t link \<Rightarrow> 'w client \<times> 't \<Rightarrow> (goerr, unit) outcome \<times> ('w client \<times> 't)" where
  "client_Close l ct = (case ln_stop l (snd ct) of (x, t') \<Rightarrow> (outcome_of x, ((fst ct)\<lparr>cl_closed := True\<rparr>, t')))"

definition SetSamplingCallback :: "(sampling_event \<Rightarrow> 'w \<Rightarrow> 'w) option \<Rightarrow> 'w client \<Rightarrow> 'w client" where
  "SetSamplingCallback f c = c\<lparr>cl_sampling := f\<rparr>"

definition SetResourceChangedCallback :: "(string \<Rightarrow> change \<Rightarrow> 'w \<Rightarrow> 'w) option \<Rightarrow> 'w client \<Rightarrow> 'w client" where
  "SetResourceChangedCallback f c = c\<lparr>cl_changed := f\<rparr>"

subsection \<open>Handlers\<close>

type_synonym 'w client_handler = "call_ctx \<Rightarrow> json option option \<Rightarrow> 'w client \<Rightarrow> (goerr, handler_value) outcome \<times> 'w client"

definition client_handleSample :: "reason \<Rightarrow> 'w client_handler" where
  "client_handleSample why cx params c =
     after_check (validateAndParseParams why ''*protocol.SampleParams'' dec_sample_params MethodSample params)
       (\<lambda>p c. case cl_sampling c of
          None \<Rightarrow> (Err (ErrMCP (WithContext (Some (client_context MethodSample (GStr (sp_request_id p))))
                    (OperationNotSupported ''sampling'' ''Client - no callback registered''))), c)
        | Some f \<Rightarrow>
            (let n = (case sp_messages p of None \<Rightarrow> 0 | Some ms \<Rightarrow> int (length ms)) in
             (Ok (Marshals (enc_sample_result (zero_sample_result
                \<lparr>spr_content := ''Sampling request processed by client callback'', spr_model := ''client-handler'',
                 spr_usage := Some \<lparr>tu_prompt_tokens = n, tu_completion_tokens = 1, tu_total_tokens = n + 1\<rparr>\<rparr>))),
              c\<lparr>cl_world := f \<lparr>se_type = ''sample_request'', se_data = p, se_token = sp_request_id p\<rparr> (cl_world c)\<rparr>))) c"

definition client_handleCancel :: "reason \<Rightarrow> 'w client_handler" where
  "client_handleCancel why cx params c =
     after_check (validateAndParseParams why ''*protocol.CancelParams'' dec_cancel_params MethodCancel params)
       (\<lambda>p c. (Ok (Marshals (enc_cancel_result \<lparr>cr_cancelled = False\<rparr>)), c)) c"

definition client_handlePing :: "reason \<Rightarrow> ('w \<Rightarrow> instant) \<Rightarrow> 'w client_handler" where
  "client_handlePing why now cx params c =
     after_check (validateAndParseParams why ''*protocol.PingParams'' dec_ping_params MethodPing params)
       (\<lambda>p c. (Ok (Marshals (enc_ping_result \<lparr>pr_timestamp =
          (if pp_timestamp p = 0 then go_div (now (cl_world c)) millisecond else pp_timestamp p)\<rparr>)), c)) c"

text \<open>Notifications: those of resources call the callback, the others are only decoded.\<close>

type_synonym 'w client_listener = "call_ctx \<Rightarrow> json option option \<Rightarrow> 'w client \<Rightarrow> (goerr, unit) outcome \<times> 'w client"

definition ignore_with :: "reason \<Rightarrow> string \<Rightarrow> (json \<Rightarrow> 'a option) \<Rightarrow> string \<Rightarrow> 'w client_listener" where
  "ignore_with why target dec m cx params c =
     after_check (validateAndParseParams why target dec m params) (\<lambda>_ c. (Ok (), c)) c"

definition tell_change :: "string \<Rightarrow> change \<Rightarrow> 'w client \<Rightarrow> 'w client" where
  "tell_change uri x c = (case cl_changed c of None \<Rightarrow> c | Some f \<Rightarrow> c\<lparr>cl_world := f uri x (cl_world c)\<rparr>)"

definition handleToolsChanged :: "reason \<Rightarrow> 'w client_listener" where
  "handleToolsChanged why = ignore_with why ''*protocol.ToolsChangedParams'' dec_tools_changed_params MethodToolsChanged"
definition handlePromptsChanged :: "reason \<Rightarrow> 'w client_listener" where
  "handlePromptsChanged why = ignore_with why ''*protocol.PromptsChangedParams'' dec_prompts_changed_params MethodPromptsChanged"
definition handleRootsChanged :: "reason \<Rightarrow> 'w client_listener" where
  "handleRootsChanged why = ignore_with why ''*protocol.RootsChangedParams'' dec_roots_changed_params MethodRootsChanged"
definition handleLog :: "reason \<Rightarrow> 'w client_listener" where
  "handleLog why = ignore_with why ''*protocol.LogParams'' dec_log_params MethodLog"

definition handleResourcesChanged :: "reason \<Rightarrow> 'w client_listener" where
  "handleResourcesChanged why cx params c =
     after_check (validateAndParseParams why ''*protocol.ResourcesChangedParams'' dec_resources_changed_params
         MethodResourcesChanged params)
       (\<lambda>p c. (Ok (), tell_change (rchg_uri p) (ResourcesChangedParams p) c)) c"

definition handleResourceUpdated :: "reason \<Rightarrow> 'w client_listener" where
  "handleResourceUpdated why cx params c =
     after_check (validateAndParseParams why ''*protocol.ResourceUpdatedParams'' dec_resource_updated_params
         MethodResourceUpdated params)
       (\<lambda>p c. (Ok (), tell_change (rup_uri p) (ResourceUpdatedParams p) c)) c"

definition listen :: "'w client_listener \<Rightarrow> 'w client notification_handler" where
  "listen h cx raw c = h cx (Some raw) c"

definition respond :: "'w client_handler \<Rightarrow> 'w client request_handler" where
  "respond h cx raw c = h cx (Some raw) c"

definition client_handlers :: "reason \<Rightarrow> ('w \<Rightarrow> instant) \<Rightarrow> 'w client handlers \<Rightarrow> 'w client handlers" where
  "client_handlers why now hs =
     fold (\<lambda>(m, h). RegisterRequestHandler m (respond h))
       [(MethodSample, client_handleSample why), (MethodCancel, client_handleCancel why), (MethodPing, client_handlePing why now)]
     (fold (\<lambda>(m, h). RegisterNotificationHandler m (listen h))
       [(MethodToolsChanged, handleToolsChanged why), (MethodResourcesChanged, handleResourcesChanged why),
        (MethodResourceUpdated, handleResourceUpdated why), (MethodPromptsChanged, handlePromptsChanged why),
        (MethodRootsChanged, handleRootsChanged why), (MethodLog, handleLog why)] hs)"

end
