(* ===== verification/Session.thy ===== *)
theory Session
  imports Serving Client
begin

section \<open>A client and a server over stdio\<close>

text \<open>
  The two sides of a session put together: the line a client writes is processed by the server, what
  the server writes is processed by the client, and the waiting caller receives its response. The
  model of the session is the composition of the definitions of both transports; the writers do not
  fail. A call whose response never comes is \<open>None\<close>.
\<close>

record ('c, 'w) session =
  ss_client :: stdio
  ss_capp :: 'c
  ss_server :: stdio
  ss_app :: 'w

definition sure :: writer where
  "sure line = None"

fun receive_lines :: "'w handlers \<Rightarrow> string list \<Rightarrow> stdio \<times> 'w \<Rightarrow> (stdio \<times> 'w) option" where
  "receive_lines hs [] sw = Some sw"
| "receive_lines hs (line # rest) sw =
     (case processMessage hs sure line sw of None \<Rightarrow> None | Some sw' \<Rightarrow> receive_lines hs rest sw')"

definition stdio_call :: "'c handlers \<Rightarrow> 'w handlers \<Rightarrow> string \<Rightarrow> json \<Rightarrow> ('c, 'w) session \<Rightarrow>
    ((goerr, response) outcome \<times> ('c, 'w) session) option" where
  "stdio_call chs shs m params z =
     (case send_request_line sure m (GRaw (Some params)) (ss_client z) of
        (Inl e, c) \<Rightarrow> Some (Err e, z\<lparr>ss_client := c\<rparr>)
      | (Inr i, c) \<Rightarrow>
          (case wait_register i (sd_pool c) of (n, p) \<Rightarrow>
          (case processMessage shs sure (last (sd_out c)) (ss_server z, ss_app z) of
             None \<Rightarrow> None
           | Some (sv, w) \<Rightarrow>
               (case receive_lines chs (drop (length (sd_out (ss_server z))) (sd_out sv)) (c\<lparr>sd_pool := p\<rparr>, ss_capp z) of
                  None \<Rightarrow> None
                | Some (c', cw) \<Rightarrow>
                    (case wait_receive n (sd_pool c') of
                       None \<Rightarrow> None
                     | Some (x, p') \<Rightarrow>
                         Some (finish_request x,
                           \<lparr>ss_client = c'\<lparr>sd_pool := p'\<rparr>, ss_capp = cw, ss_server = sv, ss_app = w\<rparr>))))))"

text \<open>What a call amounts to: running the handler of the method.\<close>

definition rpc_failure :: "string \<Rightarrow> goerr" where
  "rpc_failure m = ErrRPC \<lparr>err_code = InternalError, err_message = m, err_data = GNil\<rparr>"

definition direct_call :: "'w handlers \<Rightarrow> string \<Rightarrow> json \<Rightarrow> 'w \<Rightarrow> (goerr, json option) outcome \<times> 'w" where
  "direct_call shs m params w =
     (case hs_requests shs m of
        None \<Rightarrow> (Err (ErrText ''no handler''), w)
      | Some h \<Rightarrow>
          (case h background (Some params) w of
             (Ok (Marshals v), w') \<Rightarrow> (Ok (Some v), w')
           | (Ok (Refuses t), w') \<Rightarrow> (Err (rpc_failure (''failed to marshal result: '' @ t)), w')
           | (Err e, w') \<Rightarrow> (Err (rpc_failure (Error e)), w')
           | (Panic q, w') \<Rightarrow> (Err (rpc_failure (''Internal server error processing '' @ m)), w')))"

subsection \<open>The line of a response\<close>

lemma decode_any_null: "decode_any v = Some GNil \<longleftrightarrow> v = JNull"
  by (cases v) (auto simp: map_option_case split: option.splits)

text \<open>The response as the base transport makes it: a result, or an error with the code \<open>InternalError\<close>.\<close>

definition answer_to :: "string \<Rightarrow> (goerr, json option) outcome \<Rightarrow> response" where
  "answer_to i x = (case x of
       Ok v \<Rightarrow> \<lparr>resp_jsonrpc = [], resp_id = GStr i, resp_result = v, resp_error = None\<rparr>
     | Err (ErrRPC e) \<Rightarrow> error_response (GStr i) (err_message e)
     | _ \<Rightarrow> error_response (GStr i) [])"

lemma base_direct:
  assumes "hs_requests shs m \<noteq> None" "req_method r = m" "req_params r = Some params" "req_id r = GStr i"
  shows "base_HandleRequest shs background r w =
    (Ok (answer_to i (fst (direct_call shs m params w))), snd (direct_call shs m params w))"
  using assms
  by (auto simp: base_HandleRequest_def direct_call_def answer_to_def rpc_failure_def error_response_def
      split: option.splits prod.splits outcome.splits handler_value.splits)

lemma direct_call_cases:
  assumes "hs_requests shs m \<noteq> None"
  obtains v where "fst (direct_call shs m params w) = Ok (Some v)"
  | t where "fst (direct_call shs m params w) = Err (rpc_failure t)"
proof -
  obtain h where h: "hs_requests shs m = Some h" using assms by auto
  obtain x w' where "h background (Some params) w = (x, w')" by (cases "h background (Some params) w")
  then show ?thesis
    using that h by (cases x; cases "case x of Ok y \<Rightarrow> y | _ \<Rightarrow> Refuses []") (auto simp: direct_call_def)
qed

text \<open>A line whose members are a version, an id and a result or an error is a response.\<close>

lemma result_line:
  fixes i :: string and v :: json
  defines "x \<equiv> \<lparr>resp_jsonrpc = [], resp_id = GStr i, resp_result = Some v, resp_error = None\<rparr>"
  assumes "wire_json v"
  shows "json_parse (json_print (enc_response x)) = Some (enc_response x)"
    "\<not> IsBatch (json_print (enc_response x))" "dec_response (enc_response x) = Some x"
    "generic_map (enc_response x) =
      Some [(''jsonrpc'', GStr []), (''id'', GStr i), (''result'', the (decode_any v))]"
proof -
  show p: "json_parse (json_print (enc_response x)) = Some (enc_response x)"
    using assms(2) by (intro json_parse_print) (simp add: x_def enc_response_def omit_raw_def wire_json_def)
  show "\<not> IsBatch (json_print (enc_response x))"
    by (simp add: IsBatch_def on_text_def p is_batch_def) (simp add: enc_response_def)
  show "dec_response (enc_response x) = Some x"
    by (simp add: x_def enc_response_def dec_response_def decode_struct_def response_fields_def find_field_def
        str_field_def any_field_def raw_field_def zero_response_def omit_raw_def)
  show "generic_map (enc_response x) = Some [(''jsonrpc'', GStr []), (''id'', GStr i), (''result'', the (decode_any v))]"
    using assms(2) by (auto simp: x_def generic_map_def enc_response_def omit_raw_def wire_json_def all_some_def put_assoc_def)
qed

lemma error_line:
  fixes i t :: string
  defines "x \<equiv> error_response (GStr i) t"
  shows "json_parse (json_print (enc_response x)) = Some (enc_response x)"
    "\<not> IsBatch (json_print (enc_response x))" "dec_response (enc_response x) = Some x"
    "\<exists>e. generic_map (enc_response x) = Some [(''jsonrpc'', GStr []), (''id'', GStr i), (''error'', GMap e)]"
proof -
  have w: "wire_json (enc_response x)"
    by (simp add: x_def error_response_def enc_response_def enc_rpc_error_def omit_raw_def omit_any_def InternalError_def)
  show p: "json_parse (json_print (enc_response x)) = Some (enc_response x)"
    using w by (intro json_parse_print) (simp add: wire_json_def)
  show "\<not> IsBatch (json_print (enc_response x))"
    by (simp add: IsBatch_def on_text_def p is_batch_def) (simp add: enc_response_def)
  show "dec_response (enc_response x) = Some x"
    by (simp add: x_def error_response_def enc_response_def enc_rpc_error_def dec_response_def dec_rpc_error_def
        decode_struct_def response_fields_def rpc_error_fields_def find_field_def str_field_def any_field_def
        ptr_field_def zero_response_def omit_raw_def omit_any_def InternalError_def in_int64_def)
  show "\<exists>e. generic_map (enc_response x) = Some [(''jsonrpc'', GStr []), (''id'', GStr i), (''error'', GMap e)]"
    by (simp add: x_def error_response_def generic_map_def enc_response_def enc_rpc_error_def omit_raw_def omit_any_def
        all_some_def put_assoc_def InternalError_def float_of_lit_show_int)
qed

lemma classify_lines:
  "v \<noteq> GNil \<Longrightarrow> classify [(''jsonrpc'', a), (''id'', b), (''result'', v)] = KResponse"
  "classify [(''jsonrpc'', a), (''id'', b), (''result'', GNil)] = KUnknown False True"
  "classify [(''jsonrpc'', a), (''id'', b), (''error'', GMap e)] = KResponse"
  by (simp_all add: classify_def has_member_def set_member_def)

definition usable :: "(goerr, json option) outcome \<Rightarrow> bool" where
  "usable x \<longleftrightarrow> (case x of Ok (Some v) \<Rightarrow> wire_json v \<and> v \<noteq> JNull | Ok None \<Rightarrow> False | Err e \<Rightarrow> True | Panic q \<Rightarrow> False)"

lemma direct_call_usable:
  assumes "hs_requests shs m \<noteq> None" "usable (fst (direct_call shs m params w))"
  obtains v t where "fst (direct_call shs m params w) = Ok (Some v) \<and> wire_json v \<and> v \<noteq> JNull
    \<or> fst (direct_call shs m params w) = Err (rpc_failure t)"
proof (rule direct_call_cases [OF assms(1), of params w])
  fix v assume "fst (direct_call shs m params w) = Ok (Some v)"
  then show thesis using assms(2) by (intro that [of v "[]"]) (simp add: usable_def)
next
  fix t assume "fst (direct_call shs m params w) = Err (rpc_failure t)"
  then show thesis by (intro that [of JNull t]) simp
qed

lemma process_answer:
  assumes "fst d = Ok (Some v) \<and> wire_json v \<and> v \<noteq> JNull \<or> fst d = Err (rpc_failure t)"
  shows "processMessage chs werr (json_print (enc_response (answer_to i (fst d)))) (s, cw) =
    map_option (\<lambda>s. (s, cw)) (deliver_all [Some (answer_to i (fst d))] s)"
  using assms
proof (elim disjE conjE)
  assume v: "fst d = Ok (Some v)" "wire_json v" "v \<noteq> JNull"
  have "the (decode_any v) \<noteq> GNil"
    using v(2,3) decode_any_null [of v] by (auto simp: wire_json_def)
  then show ?thesis
    using result_line [OF v(2), of i] v(1)
    by (simp add: processMessage_def answer_to_def classify_lines del: deliver_all.simps)
next
  assume t: "fst d = Err (rpc_failure t)"
  then show ?thesis
    using error_line [of i t]
    by (auto simp: processMessage_def answer_to_def rpc_failure_def classify_lines simp del: deliver_all.simps)
qed

lemma deliver_registered:
  assumes "wait_register i p = (n, p1)" "resp_id x = GStr i"
  shows "\<exists>p2 p3. HandleResponse x p1 = Delivered p2 \<and> wait_receive n p2 = Some (Some x, p3)"
  using assms by (auto simp: wait_register_def HandleResponse_def wait_receive_def set_chan_def)

lemma answer_to_id [simp]: "resp_id (answer_to i x) = GStr i"
  by (auto simp: answer_to_def error_response_def split: outcome.splits goerr.splits)

text \<open>What the caller is given: the response with the result in it, or the error.\<close>

definition returned :: "string \<Rightarrow> (goerr, json option) outcome \<Rightarrow> (goerr, response) outcome" where
  "returned i x = (case x of Ok v \<Rightarrow> Ok (answer_to i (Ok v)) | Err e \<Rightarrow> Err e | Panic q \<Rightarrow> Panic q)"

lemma finish_answer:
  "fst d = Ok (Some v) \<or> fst d = Err (rpc_failure t) \<Longrightarrow> finish_request (Some (answer_to i (fst d))) = returned i (fst d)"
  by (auto simp: returned_def finish_request_def answer_to_def rpc_failure_def error_response_def InternalError_def)

lemma request_is_sent:
  "\<exists>i c. send_request_line sure m (GRaw (Some params)) s = (Inr i, c)
    \<and> sd_out c = sd_out s @ [json_print (enc_request (NewRequest (GStr i) m (GRaw (Some params))))]"
  by (simp add: send_request_line_def stdio_Send_def sure_def GenerateID_def GetNextID_def)

lemma server_answers:
  assumes "hs_requests shs m \<noteq> None" "m \<noteq> []" "wire_json params"
  shows "processMessage shs sure (json_print (enc_request (NewRequest (GStr i) m (GRaw (Some params))))) (sv, w) =
    Some (sv\<lparr>sd_out := sd_out sv @ [json_print (enc_response (answer_to i (fst (direct_call shs m params w))))]\<rparr>,
      snd (direct_call shs m params w))"
proof -
  let ?r = "NewRequest (GStr i) m (GRaw (Some params))"
  have good: "good_item (BReq ?r)"
    using assms(2,3) by (auto simp: NewRequest_def raw_of_def good_id_def good_raw_def wire_json_def)
  have "base_HandleRequest shs background (?r\<lparr>req_id := wire_id (req_id ?r)\<rparr>) w =
      (Ok (answer_to i (fst (direct_call shs m params w))), snd (direct_call shs m params w))"
    using assms(1) by (intro base_direct) (simp_all add: NewRequest_def raw_of_def)
  then show ?thesis
    using stdio_answers_request_aux [OF good, of sure shs sv w] by (simp add: sure_def)
qed

lemma stdio_call_answered:
  assumes "hs_requests shs m \<noteq> None" "m \<noteq> []" "wire_json params"
    and "usable (fst (direct_call shs m params (ss_app z)))"
  shows "\<exists>i z'. stdio_call chs shs m params z = Some (returned i (fst (direct_call shs m params (ss_app z))), z')
    \<and> ss_app z' = snd (direct_call shs m params (ss_app z)) \<and> ss_capp z' = ss_capp z"
proof -
  let ?d = "direct_call shs m params (ss_app z)"
  obtain i c where send: "send_request_line sure m (GRaw (Some params)) (ss_client z) = (Inr i, c)"
    and out: "sd_out c = sd_out (ss_client z) @ [json_print (enc_request (NewRequest (GStr i) m (GRaw (Some params))))]"
    using request_is_sent by blast
  obtain n p where reg: "wait_register i (sd_pool c) = (n, p)" by (cases "wait_register i (sd_pool c)")
  let ?x = "answer_to i (fst ?d)"
  let ?sv = "(ss_server z)\<lparr>sd_out := sd_out (ss_server z) @ [json_print (enc_response ?x)]\<rparr>"
  have srv: "processMessage shs sure (last (sd_out c)) (ss_server z, ss_app z) = Some (?sv, snd ?d)"
    unfolding out using server_answers [OF assms(1-3)] by simp
  obtain v t where d: "fst ?d = Ok (Some v) \<and> wire_json v \<and> v \<noteq> JNull \<or> fst ?d = Err (rpc_failure t)"
    by (rule direct_call_usable [OF assms(1,4)])
  obtain p2 p3 where deliver: "HandleResponse ?x p = Delivered p2" "wait_receive n p2 = Some (Some ?x, p3)"
    using deliver_registered [OF reg answer_to_id] by blast
  have recv: "receive_lines chs (drop (length (sd_out (ss_server z))) (sd_out ?sv)) (c\<lparr>sd_pool := p\<rparr>, ss_capp z)
      = Some (c\<lparr>sd_pool := p2\<rparr>, ss_capp z)"
    using process_answer [OF d, of chs sure i "c\<lparr>sd_pool := p\<rparr>" "ss_capp z"] deliver(1) by simp
  have fin: "finish_request (Some ?x) = returned i (fst ?d)"
    using d by (intro finish_answer) blast
  let ?z = "\<lparr>ss_client = c\<lparr>sd_pool := p3\<rparr>, ss_capp = ss_capp z, ss_server = ?sv, ss_app = snd ?d\<rparr>"
  have "stdio_call chs shs m params z = Some (returned i (fst ?d), ?z)"
    unfolding stdio_call_def send reg srv prod.case sum.case option.case recv using deliver(2) fin by simp
  then show ?thesis by (intro exI [of _ i] exI [of _ ?z]) simp
qed

text \<open>
  A call over stdio is a call of the handler: for a served method and parameters that JSON keeps,
  the client's request line, the server's processing, the answer line, its processing by the client
  and the waiting caller together return what the handler returned (a response with its result, or a
  JSON-RPC error with its message), with the application's state as the handler left it.
\<close>

theorem stdio_call_is_direct:
  assumes "hs_requests shs m \<noteq> None" "m \<noteq> []" "wire_json params"
    and "usable (fst (direct_call shs m params (ss_app z)))"
  shows "\<exists>i z'. stdio_call chs shs m params z = Some (returned i (fst (direct_call shs m params (ss_app z))), z')
    \<and> ss_app z' = snd (direct_call shs m params (ss_app z)) \<and> ss_capp z' = ss_capp z"
  using assms by (rule stdio_call_answered)

text \<open>
  Calls that never return: the caller of a method the server does not serve gets no answer, and
  neither does the caller whose result is the JSON \<open>null\<close> (a nil result of a provider): its response
  is not recognised as one.
\<close>

theorem stdio_call_hangs:
  assumes "hs_requests shs m = None
      \<or> hs_requests shs m \<noteq> None \<and> fst (direct_call shs m params (ss_app z)) = Ok (Some JNull)"
    and "m \<noteq> []" "wire_json params"
  shows "stdio_call chs shs m params z = None"
proof -
  obtain i c where send: "send_request_line sure m (GRaw (Some params)) (ss_client z) = (Inr i, c)"
    and out: "sd_out c = sd_out (ss_client z) @ [json_print (enc_request (NewRequest (GStr i) m (GRaw (Some params))))]"
    using request_is_sent by blast
  obtain n p where reg: "wait_register i (sd_pool c) = (n, p)" by (cases "wait_register i (sd_pool c)")
  have empty: "wait_receive n p = None"
    using reg by (auto simp: wait_register_def wait_receive_def)
  let ?r = "NewRequest (GStr i) m (GRaw (Some params))"
  have good: "good_item (BReq ?r)"
    using assms(2,3) by (auto simp: NewRequest_def raw_of_def good_id_def good_raw_def wire_json_def)
  show ?thesis
  proof (cases "hs_requests shs m")
    case None
    then have "base_HandleRequest shs background (?r\<lparr>req_id := wire_id (req_id ?r)\<rparr>) (ss_app z)
        = (Err (ErrText (''no handler for method: '' @ m)), ss_app z)"
      by (simp add: base_HandleRequest_def NewRequest_def)
    then have "\<exists>sv. processMessage shs sure (json_print (enc_request ?r)) (ss_server z, ss_app z) = Some (sv, ss_app z)
        \<and> sd_out sv = sd_out (ss_server z)"
      using stdio_answers_request_aux [OF good, of sure shs "ss_server z" "ss_app z"] by (simp add: sure_def report_def)
    then show ?thesis using empty by (auto simp: stdio_call_def send reg out)
  next
    case (Some h)
    let ?x = "answer_to i (Ok (Some JNull))"
    have d: "fst (direct_call shs m params (ss_app z)) = Ok (Some JNull)" using assms(1) Some by simp
    have srv: "processMessage shs sure (json_print (enc_request ?r)) (ss_server z, ss_app z) =
        Some ((ss_server z)\<lparr>sd_out := sd_out (ss_server z) @ [json_print (enc_response ?x)]\<rparr>,
          snd (direct_call shs m params (ss_app z)))"
      using server_answers [OF _ assms(2,3), of shs i "ss_server z" "ss_app z"] Some d by simp
    have "processMessage chs sure (json_print (enc_response ?x)) (c\<lparr>sd_pool := p\<rparr>, ss_capp z) =
        Some (report (UnknownMessage False True) (c\<lparr>sd_pool := p\<rparr>), ss_capp z)"
      using result_line [of JNull i] by (simp add: processMessage_def answer_to_def classify_lines)
    then show ?thesis using empty by (simp add: stdio_call_def send reg out srv report_def)
  qed
qed

definition sample_session :: "(unit, nat) session" where
  "sample_session = \<lparr>ss_client = NewStdio, ss_capp = (), ss_server = NewStdio, ss_app = 4\<rparr>"

definition sample_server :: "nat handlers" where
  "sample_server = RegisterRequestHandler ''next'' (\<lambda>cx p w. (Ok (Marshals (JInt (int w))), Suc w))
     (RegisterRequestHandler ''nil'' (\<lambda>cx p w. (Ok (Marshals JNull), w)) NewHandlers)"

lemma sample_direct:
  "direct_call sample_server ''next'' p w = (Ok (Some (JInt (int w))), Suc w)"
  "direct_call sample_server ''nil'' p w = (Ok (Some JNull), w)"
  "hs_requests sample_server ''next'' \<noteq> None" "hs_requests sample_server ''nil'' \<noteq> None"
  by (simp_all add: direct_call_def sample_server_def RegisterRequestHandler_def)

theorem stdio_call_is_direct_witness:
  "\<exists>r z'. stdio_call NewHandlers sample_server ''next'' (JObj []) sample_session = Some (Ok r, z')
    \<and> resp_result r = Some (JInt 4) \<and> ss_app z' = 5"
  using stdio_call_is_direct [OF sample_direct(3), of "JObj []" sample_session NewHandlers]
  by (auto simp: sample_direct usable_def sample_session_def returned_def answer_to_def)

theorem stdio_call_hangs_witness:
  "stdio_call NewHandlers sample_server ''nil'' (JObj []) sample_session = None"
  using stdio_call_hangs [of sample_server "''nil''" "JObj []" sample_session NewHandlers]
  by (simp add: sample_direct sample_session_def)

end
