(* ===== verification/EndToEnd.thy ===== *)
theory EndToEnd
  imports Session Providers Calls
begin

section \<open>A client and a server put together\<close>

text \<open>
  Sessions of a client. Over stdio, \<open>SendRequest\<close> returns the response object; the client decodes the
  JSON of that object, not of the result inside it, so it learns nothing from any answer. A transport
  that hands over the results as the client expects carries a whole listing: \<open>ListAllTools\<close>, the
  server's dispatch, its handler, the base provider's page, the client's decoding, the next cursor.
\<close>

subsection \<open>Stdio as the client's transport\<close>

text \<open>A call that is never answered ends with the deadline of its context.\<close>

definition session_link :: "'c handlers \<Rightarrow> 'w handlers \<Rightarrow> ('c, 'w) session link" where
  "session_link chs shs =
     \<lparr>ln_type = ''stdio'', ln_init = (\<lambda>z. (None, z)),
      ln_request = (\<lambda>m params z. case stdio_call chs shs m params z of
          None \<Rightarrow> (Err ErrDeadline, z)
        | Some (Ok r, z') \<Rightarrow> (Ok (response_value r), z')
        | Some (Err e, z') \<Rightarrow> (Err e, z')
        | Some (Panic q, z') \<Rightarrow> (Panic q, z')),
      ln_notify = (\<lambda>m params z.
        case stdio_SendNotification sure m (case params of None \<Rightarrow> GNil | Some v \<Rightarrow> GRaw (Some v)) (ss_client z) of
          (Some e, c) \<Rightarrow> (Some e, z\<lparr>ss_client := c\<rparr>)
        | (None, c) \<Rightarrow>
            (case processMessage shs sure (last (sd_out c)) (ss_server z, ss_app z) of
               None \<Rightarrow> (None, z\<lparr>ss_client := c\<rparr>)
             | Some (sv, w) \<Rightarrow> (None, z\<lparr>ss_client := c, ss_server := sv, ss_app := w\<rparr>))),
      ln_start = (\<lambda>z. (None, z)), ln_stop = (\<lambda>z. (None, z))\<rparr>"

lemma session_link_init [simp]: "ln_init (session_link chs shs) z = (None, z)"
  by (simp add: session_link_def)

text \<open>
  What the client decodes from a response with the result \<open>v\<close>, by the method: the zero value. Only the
  result of a tool call has a member named \<open>result\<close>, which takes the server's whole result.
\<close>

definition lost_reply :: "string \<Rightarrow> json \<Rightarrow> server_reply option" where
  "lost_reply m v = map_of
     [(MethodInitialize, RInitialize zero_initialize_result), (MethodSetCapability, RSetCapability zero_set_capability_result),
      (MethodCancel, RCancel zero_cancel_result), (MethodPing, RPing zero_ping_result),
      (MethodSetLogLevel, RSetLogLevel zero_set_log_level_result), (MethodListTools, RListTools zero_list_tools_result),
      (MethodCallTool, RCallTool (zero_call_tool_result\<lparr>ctr_result := Some v\<rparr>)),
      (MethodListResources, RListResources zero_list_resources_result),
      (MethodReadResource, RReadResource zero_read_resource_result),
      (MethodSubscribeResource, RSubscribeResource zero_subscribe_resource_result),
      (MethodListPrompts, RListPrompts zero_list_prompts_result), (MethodGetPrompt, RGetPrompt zero_get_prompt_result),
      (MethodListRoots, RListRoots zero_list_roots_result)] m"

lemma unknown_members:
  "list_all (\<lambda>(k, v). find_field fs k = None) kvs \<Longrightarrow> decode_struct fs z (JObj kvs) = Some z"
proof -
  have "list_all (\<lambda>(k, v). find_field fs k = None) kvs \<Longrightarrow> decode_members fs kvs a = Some a" for a
    by (induction kvs arbitrary: a) auto
  then show "list_all (\<lambda>(k, v). find_field fs k = None) kvs \<Longrightarrow> decode_struct fs z (JObj kvs) = Some z"
    by (simp add: decode_struct_def)
qed

lemma decoded_response:
  "decode_reply m (enc_response \<lparr>resp_jsonrpc = [], resp_id = GStr i, resp_result = Some v, resp_error = None\<rparr>) = lost_reply m v"
  (is "decode_reply m ?x = _")
proof -
  have x: "?x = JObj [(''jsonrpc'', JStr []), (''id'', JStr i), (''result'', v)]"
    by (simp add: enc_response_def omit_raw_def)
  have "dec_initialize_result ?x = Some zero_initialize_result" "dec_set_capability_result ?x = Some zero_set_capability_result"
    "dec_cancel_result ?x = Some zero_cancel_result" "dec_ping_result ?x = Some zero_ping_result"
    "dec_set_log_level_result ?x = Some zero_set_log_level_result" "dec_list_tools_result ?x = Some zero_list_tools_result"
    "dec_list_resources_result ?x = Some zero_list_resources_result" "dec_read_resource_result ?x = Some zero_read_resource_result"
    "dec_subscribe_resource_result ?x = Some zero_subscribe_resource_result"
    "dec_list_prompts_result ?x = Some zero_list_prompts_result" "dec_get_prompt_result ?x = Some zero_get_prompt_result"
    "dec_list_roots_result ?x = Some zero_list_roots_result"
    unfolding x
    by (simp_all add: dec_initialize_result_def initialize_result_fields_def dec_set_capability_result_def
        set_capability_result_fields_def dec_cancel_result_def cancel_result_fields_def dec_ping_result_def
        ping_result_fields_def dec_set_log_level_result_def set_log_level_result_fields_def dec_list_tools_result_def
        list_tools_result_fields_def dec_list_resources_result_def list_resources_result_fields_def
        dec_read_resource_result_def read_resource_result_fields_def dec_subscribe_resource_result_def
        subscribe_resource_result_fields_def dec_list_prompts_result_def list_prompts_result_fields_def
        dec_get_prompt_result_def get_prompt_result_fields_def dec_list_roots_result_def list_roots_result_fields_def
        pagination_result_fields_def lift_fields_def
        unknown_members find_field_def key_eq_def to_lower_def lower_char_def)
  moreover have "dec_call_tool_result ?x = Some (zero_call_tool_result\<lparr>ctr_result := Some v\<rparr>)"
    unfolding x by (simp add: dec_call_tool_result_def call_tool_result_fields_def decode_struct_def find_field_def
        raw_field_def zero_call_tool_result_def key_eq_def to_lower_def lower_char_def)
  ultimately show ?thesis
    by (simp add: decode_reply_def reply_decoders_def lost_reply_def)
qed

text \<open>A call whose handler returned the result \<open>v\<close>.\<close>

lemma stdio_request:
  assumes "hs_requests shs m \<noteq> None" "m \<noteq> []" "wire_json params"
    and "direct_call shs m params (ss_app z) = (Ok (Some v), w)" "wire_json v" "v \<noteq> JNull"
  shows "\<exists>i z'. ln_request (session_link chs shs) m params z =
      (Ok (response_value \<lparr>resp_jsonrpc = [], resp_id = GStr i, resp_result = Some v, resp_error = None\<rparr>), z')
    \<and> ss_app z' = w"
  using stdio_call_answered [OF assms(1-3), of z chs] assms(4-6)
  by (auto simp: usable_def session_link_def returned_def answer_to_def)

lemma lost_result:
  assumes "map_of reply_decoders m = Some d"
  shows "validateAndParseResult why target d m'
    (response_value \<lparr>resp_jsonrpc = [], resp_id = GStr i, resp_result = Some v, resp_error = None\<rparr>) = Ok (the (lost_reply m v))"
proof -
  have "lost_reply m v \<noteq> None"
    using assms by (auto simp: reply_decoders_def lost_reply_def split: if_splits)
  moreover have "d (enc_response \<lparr>resp_jsonrpc = [], resp_id = GStr i, resp_result = Some v, resp_error = None\<rparr>) = lost_reply m v"
    using decoded_response [of m i v] assms by (simp add: decode_reply_def)
  ultimately show ?thesis by (auto simp: validateAndParseResult_def)
qed


lemma no_server_no_capability: "cl_server c = None \<Longrightarrow> HasCapability c x = False"
  by (simp add: HasCapability_def)

lemma notify_succeeds: "\<exists>z'. ln_notify (session_link chs shs) m params z = (None, z')"
  by (auto simp: session_link_def stdio_SendNotification_def stdio_Send_def sure_def split: option.splits)

lemma handshake_over_stdio:
  assumes "hs_requests shs MethodInitialize \<noteq> None" "\<not> cl_initialized c"
    and "wire_json (enc_initialize_params (initialize_request goos c))"
    and "direct_call shs MethodInitialize (enc_initialize_params (initialize_request goos c)) (ss_app z) = (Ok (Some v), w)"
    and "wire_json v" "v \<noteq> JNull"
  shows "\<exists>z'. client_Initialize (session_link chs shs) why goos (c, z) = (Ok (), (accept_server zero_initialize_result c, z'))"
proof -
  have ne: "MethodInitialize \<noteq> []" by (simp add: MethodInitialize_def)
  obtain i z1 where request: "ln_request (session_link chs shs) MethodInitialize
      (enc_initialize_params (initialize_request goos c)) z =
      (Ok (response_value \<lparr>resp_jsonrpc = [], resp_id = GStr i, resp_result = Some v, resp_error = None\<rparr>), z1)"
    using stdio_request [OF assms(1) ne assms(3-6), of chs] by blast
  obtain z2 where notify: "ln_notify (session_link chs shs) MethodInitialized None z1 = (None, z2)"
    using notify_succeeds by blast
  have "dec_initialize_result (enc_response \<lparr>resp_jsonrpc = [], resp_id = GStr i, resp_result = Some v, resp_error = None\<rparr>)
      = Some zero_initialize_result"
    using decoded_response [of MethodInitialize i v] by (simp add: decode_reply_def reply_decoders_def lost_reply_def)
  then have "validateAndParseResult why ''*protocol.InitializeResult'' dec_initialize_result MethodInitialize
      (response_value \<lparr>resp_jsonrpc = [], resp_id = GStr i, resp_result = Some v, resp_error = None\<rparr>) = Ok zero_initialize_result"
    by (simp add: validateAndParseResult_def)
  then show ?thesis
    using assms(2) request notify by (simp add: client_Initialize_def answer_with_def Let_def)
qed

text \<open>
  The handshake over stdio teaches the client nothing: it succeeds and the client counts as
  initialized, but it knows no server and no capability of it. Every call that needs a capability is
  then refused without a message to the server, the listings among them.
\<close>

theorem stdio_handshake_learns_nothing:
  assumes "hs_requests shs MethodInitialize \<noteq> None" "\<not> cl_initialized c"
    and "wire_json (enc_initialize_params (initialize_request goos c))"
    and "direct_call shs MethodInitialize (enc_initialize_params (initialize_request goos c)) (ss_app z) = (Ok (Some v), w)"
    and "wire_json v" "v \<noteq> JNull"
  shows "\<exists>c' z'. client_Initialize (session_link chs shs) why goos (c, z) = (Ok (), (c', z'))
    \<and> cl_initialized c' \<and> cl_server c' = None
    \<and> (\<forall>x. \<not> HasCapability c' x)
    \<and> client_CallTool (session_link chs shs) why c' name input ctx z'
        = (Err (ErrMCP (WithContext (Some (client_operation ''CallTool'')) (CapabilityRequired CapabilityTools))), z')
    \<and> ListAllTools (session_link chs shs) why c' category z' = Some (Inl (ErrMCP (CapabilityRequired CapabilityTools)), z')"
proof -
  let ?c = "accept_server zero_initialize_result c"
  have c: "cl_initialized ?c" "cl_server ?c = None"
    by (simp_all add: accept_server_def zero_initialize_result_def)
  note none = no_server_no_capability [OF c(2)]
  show ?thesis
    using handshake_over_stdio [OF assms, of chs why] c none
    by (auto simp: client_CallTool_def after_check_def client_requireCapability_def ListAllTools_def list_all_of_def)
qed

subsection \<open>Transports that hand over the results\<close>

text \<open>The base provider of tools as the provider of a server.\<close>

definition base_tools :: "(string \<Rightarrow> string) \<Rightarrow> string list \<Rightarrow> tools_provider tools_iface" where
  "base_tools why keys =
     \<lparr>ti_list = (\<lambda>cx category p w.
        (case ListTools why keys w category p of
           Ok l \<Rightarrow> Ok (Some (lst_items l), lst_total l, lst_next l, lst_more l)
         | Err e \<Rightarrow> Err (ErrMCP e)
         | Panic m \<Rightarrow> Panic m, w)),
      ti_call = (\<lambda>cx name input ctx w. (Ok (Some (CallTool name input ctx)), w))\<rparr>"

definition tools_of :: "string list \<Rightarrow> tools_provider \<Rightarrow> string \<Rightarrow> tool list" where
  "tools_of keys w category =
     select_values (\<lambda>t. category = [] \<or> category \<in> set (tool_categories t)) keys w"

text \<open>A session in which the tools can be listed.\<close>

definition lists_tools :: "'w client \<Rightarrow> (string \<Rightarrow> string) \<Rightarrow> string list \<Rightarrow> string \<Rightarrow> tools_provider server \<Rightarrow> bool" where
  "lists_tools c why keys category s \<longleftrightarrow> HasCapability c CapabilityTools
     \<and> has_capability s CapabilityTools \<and> sv_tools s = Some (base_tools why keys)
     \<and> list_all (\<lambda>t. good_tool t \<and> wire_tool t) (tools_of keys (sv_world s) category)
     \<and> length keys < 2 ^ 53"

text \<open>The result of one page, as the handler computes it.\<close>

definition page_of_tools :: "tool list \<Rightarrow> nat \<Rightarrow> nat \<Rightarrow> list_tools_result" where
  "page_of_tools xs k m = \<lparr>ltr_tools = Some (take (m - k) (drop k xs)),
     ltr_page = page_result (int (length xs)) (if m < length xs then cursor_at_pos m else []) (m < length xs)\<rparr>"

lemma list_tools_served:
  assumes "has_capability s CapabilityTools"
  shows "hs_requests (register_all env s NewHandlers) MethodListTools = Some (raw_handler (handleListTools env))"
  using assms
  by (simp add: register_all_lookup serves_def served_methods_def full_table_def method_defs)

lemma handled_page:
  assumes "lists_tools c why keys category s" "xs = tools_of keys (sv_world s) category"
    and "length xs < 2 ^ 61" "k < length xs \<or> k = 0" "1 \<le> l" "l \<le> MaxLimit"
  defines "p \<equiv> enc_list_tools_params \<lparr>ltp_category = category, ltp_page = \<lparr>pg_limit = l, pg_cursor = cursor_at_pos k\<rparr>\<rparr>"
  shows "direct_call (register_all env s NewHandlers) MethodListTools p s =
    (Ok (Some (enc_list_tools_result (page_of_tools xs k (min (k + nat l) (length xs))))), s)"
proof -
  have good: "good_page \<lparr>pg_limit = l, pg_cursor = cursor_at_pos k\<rparr>"
    using assms(5,6) by (simp add: good_page_def in_int64_def MaxLimit_def)
  have dec: "dec_list_tools_params p = Some \<lparr>ltp_category = category, ltp_page = \<lparr>pg_limit = l, pg_cursor = cursor_at_pos k\<rparr>\<rparr>"
    unfolding p_def by (rule dec_enc_lists) (simp add: good)
  have "ListTools why keys (sv_world s) category (Some \<lparr>pg_limit = l, pg_cursor = cursor_at_pos k\<rparr>)
      = page_of why ''tools'' xs (Some \<lparr>pg_limit = l, pg_cursor = cursor_at_pos k\<rparr>)"
    by (simp add: ListTools_def assms(2) tools_of_def)
  note page = trans [OF this page_at(1) [OF assms(3-6)]]
  have "handleListTools env background (Some (Some p)) s =
      (Ok (Marshals (enc_list_tools_result (page_of_tools xs k (min (k + nat l) (length xs))))), s)"
    using assms(1)
    by (simp add: handleListTools_def requireProvider_def after_check_def validateParams_def enc_raw_def dec
        page_params_def ask_def answer_with_def lists_tools_def base_tools_def page page_of_tools_def)
  then show ?thesis
    using assms(1) by (simp add: direct_call_def list_tools_served lists_tools_def raw_handler_def)
qed


text \<open>What travels: the parameters and the result can be printed and read back.\<close>

lemma wire_page_params:
  "0 \<le> l \<Longrightarrow> l \<le> MaxLimit \<Longrightarrow>
    wire_json (enc_list_tools_params \<lparr>ltp_category = category, ltp_page = \<lparr>pg_limit = l, pg_cursor = cu\<rparr>\<rparr>)"
  by (simp add: enc_list_tools_params_def members_pagination_params_def MaxLimit_def)

lemma list_all_part: "list_all P xs \<Longrightarrow> list_all P (take n (drop k xs))"
  unfolding list_all_iff by (blast dest: in_set_takeD in_set_dropD)

lemma wire_page_of_tools:
  assumes "list_all wire_tool xs" "length xs < 2 ^ 53"
  shows "wire_json (enc_list_tools_result (page_of_tools xs k m))"
proof -
  have "list_all wire_json (map enc_tool (take n (drop k xs)))" for n
    using list_all_part [OF assms(1)] by (auto simp: list_all_iff wire_enc_tool)
  moreover have "\<bar>int (length xs)\<bar> < 2 ^ 53" using assms(2) by simp
  ultimately show ?thesis
    by (simp add: enc_list_tools_result_def page_of_tools_def enc_list_def page_result_def
        members_pagination_result_def)
qed

lemma page_of_tools_returns:
  assumes "list_all good_tool xs" "length xs < 2 ^ 53"
  shows "dec_list_tools_result (enc_list_tools_result (page_of_tools xs k m)) = Some (page_of_tools xs k m)"
proof (rule dec_enc_list_tools)
  show "good_reply (RListTools (page_of_tools xs k m))"
    using assms(2) list_all_part [OF assms(1)]
    by (simp add: page_of_tools_def all_items_def good_page_result_def page_result_def in_int64_def)
qed



subsection \<open>The listing\<close>

text \<open>
  What the client expects of its transport: the value of \<open>SendRequest\<close> has the JSON of the handler's
  result. The state of the server's application is part of the state of the transport.
\<close>

definition hands_over :: "'t link \<Rightarrow> 'w handlers \<Rightarrow> ('t \<Rightarrow> 'w) \<Rightarrow> bool" where
  "hands_over l shs app \<longleftrightarrow>
     (\<forall>m params t v w. direct_call shs m params (app t) = (Ok (Some v), w) \<longrightarrow> wire_json params \<longrightarrow> wire_json v \<longrightarrow> v \<noteq> JNull \<longrightarrow>
        (\<exists>x t'. ln_request l m params t = (Ok x, t') \<and> x \<noteq> GNil \<and> marshal x = v \<and> app t' = w))"

text \<open>The transport that calls the handlers itself.\<close>

definition direct_link :: "'w handlers \<Rightarrow> 'w link" where
  "direct_link shs = \<lparr>ln_type = ''direct'', ln_init = (\<lambda>w. (None, w)),
     ln_request = (\<lambda>m params w. case direct_call shs m params w of
        (Ok v, w') \<Rightarrow> (Ok (GRaw v), w') | (Err e, w') \<Rightarrow> (Err e, w') | (Panic q, w') \<Rightarrow> (Panic q, w')),
     ln_notify = (\<lambda>m params w. (None, w)), ln_start = (\<lambda>w. (None, w)), ln_stop = (\<lambda>w. (None, w))\<rparr>"

lemma direct_link_hands_over: "hands_over (direct_link shs) shs (\<lambda>w. w)"
  by (simp add: hands_over_def direct_link_def)

lemma client_page:
  fixes c :: "'v client" and t :: 't
  assumes "hands_over l (register_all env s NewHandlers) app"
    and "lists_tools c why keys category s" "app t = s"
    and "length (tools_of keys (sv_world s) category) < 2 ^ 61"
    and "k < length (tools_of keys (sv_world s) category) \<or> k = 0" "1 \<le> n" "n \<le> MaxLimit"
  defines "xs \<equiv> tools_of keys (sv_world s) category"
  shows "\<exists>t'. client_ListTools l cwhy c category (Some \<lparr>pg_limit = n, pg_cursor = cursor_at_pos k\<rparr>) t
    = (Ok (ltr_tools (page_of_tools xs k (min (k + nat n) (length xs))),
        ltr_page (page_of_tools xs k (min (k + nat n) (length xs)))), t') \<and> app t' = s"
proof -
  let ?p = "\<lparr>pg_limit = n, pg_cursor = cursor_at_pos k\<rparr>"
  let ?params = "enc_list_tools_params \<lparr>ltp_category = category, ltp_page = ?p\<rparr>"
  let ?r = "page_of_tools xs k (min (k + nat n) (length xs))"
  let ?hs = "register_all env s NewHandlers"
  have good: "list_all good_tool xs" "list_all wire_tool xs" and len: "length xs < 2 ^ 53"
    using assms(2) select_values_length [of _ keys "sv_world s"]
    by (auto simp: lists_tools_def xs_def tools_of_def list_all_iff intro: le_less_trans)
  have d: "direct_call ?hs MethodListTools ?params (app t) = (Ok (Some (enc_list_tools_result ?r)), s)"
    unfolding assms(3) using assms(2,4-7) by (intro handled_page) (simp_all add: xs_def)
  have w: "wire_json ?params" using assms(6,7) by (intro wire_page_params) simp_all
  have v: "wire_json (enc_list_tools_result ?r)" "enc_list_tools_result ?r \<noteq> JNull"
    using wire_page_of_tools [OF good(2) len] by (simp, simp add: enc_list_tools_result_def)
  obtain x t' where call: "ln_request l MethodListTools ?params t = (Ok x, t')" "x \<noteq> GNil"
      "marshal x = enc_list_tools_result ?r" "app t' = s"
    using assms(1) d w v unfolding hands_over_def by blast
  have "check_page (Some ?p) = Ok ?p"
    using assms(6,7) by (simp add: check_page_def ValidateParams_def ApplyDefaults_def MaxLimit_def Let_def)
  moreover have "result_page (ltr_page ?r) = ltr_page ?r"
    by (simp add: result_page_def page_of_tools_def page_result_def)
  moreover have "client_requireCapability c CapabilityTools op = Ok ()" for op
    using assms(2) by (simp add: client_requireCapability_def lists_tools_def)
  ultimately show ?thesis
    using call page_of_tools_returns [OF good(1) len]
    by (simp add: client_ListTools_def after_check_def exchange_def answer_with_def validateAndParseResult_def)
qed

interpretation session_pages: paged "page_fetcher (client_ListTools l cwhy c category)"
    "length (tools_of keys (sv_world s) category)"
    "\<lambda>k m. take (m - k) (drop k (tools_of keys (sv_world s) category))"
    "\<lambda>_ t. lists_tools c why keys category s \<and> hands_over l (register_all env s NewHandlers) app \<and> app t = s" cursor_at_pos
  for l app env s cwhy c category why keys
proof (unfold_locales, goal_cases)
  case 1
  show ?case by (simp add: cursor_at_pos_def)
next
  case (2 k m n)
  then show ?case by (intro segment_append)
next
  case (3 k n t)
  let ?xs = "tools_of keys (sv_world s) category"
  note bounds = page_at(2-5) [OF 3(1-4)]
  obtain t' where "client_ListTools l cwhy c category (Some \<lparr>pg_limit = n, pg_cursor = cursor_at_pos k\<rparr>) t
      = (Ok (ltr_tools (page_of_tools ?xs k (min (k + nat n) (length ?xs))),
        ltr_page (page_of_tools ?xs k (min (k + nat n) (length ?xs)))), t')" "app t' = s"
    using client_page [of l env s app c why keys category t k n cwhy] 3 by blast
  then show ?case
    using bounds 3(5)
    by (intro exI [of _ "min (k + nat n) (length ?xs)"] exI [of _ "ltr_page (page_of_tools ?xs k (min (k + nat n) (length ?xs)))"]
        exI [of _ t'])
      (simp add: page_fetcher_def page_of_tools_def page_result_def)
qed


subsection \<open>A server with two tools\<close>

definition tools_server :: "tools_provider server" where
  "tools_server = configured [WithToolsProvider (Some (base_tools (\<lambda>_. []) [''a'', ''b'']))] big_limit_tools"

definition tools_client :: "unit client" where
  "tools_client = (new_client ())\<lparr>cl_capabilities := [(CapabilityTools, True)],
     cl_server := Some \<lparr>si_name = [], si_version = [], si_description = [], si_homepage = []\<rparr>\<rparr>"

definition tools_env :: "tools_provider server_env" where
  "tools_env = \<lparr>se_now = (\<lambda>_ _. 0), se_cancelled = (\<lambda>_ _. False), se_why = (\<lambda>_ _. [])\<rparr>"

definition tools_handlers :: "tools_provider server handlers" where
  "tools_handlers = register_all tools_env tools_server NewHandlers"

lemma tools_server_simps:
  "sv_world tools_server = big_limit_tools" "sv_tools tools_server = Some (base_tools (\<lambda>_. []) [''a'', ''b''])"
  "has_capability tools_server CapabilityTools"
  by (simp_all add: tools_server_def configured_def Let_def option_defs new_server_def has_capability_def put_assoc_def
      capability_defs)

lemma tools_are_listed: "lists_tools tools_client (\<lambda>_. []) [''a'', ''b''] [] tools_server"
  by (simp add: lists_tools_def tools_server_simps HasCapability_def tools_client_def new_client_def tools_of_def
      select_values_def big_limit_tools_def RegisterTool_def good_tool_def wire_tool_def wire_raw_def zero_tool_def)


definition tools_session :: "(unit, tools_provider server) session" where
  "tools_session = \<lparr>ss_client = NewStdio, ss_capp = (), ss_server = NewStdio, ss_app = tools_server\<rparr>"


theorem stdio_handshake_learns_nothing_witness:
  "\<exists>c' z'. client_Initialize (session_link NewHandlers tools_handlers) (\<lambda>_ _. []) ''linux'' (new_client (), tools_session)
      = (Ok (), (c', z')) \<and> cl_initialized c' \<and> cl_server c' = None"
proof -
  let ?p = "enc_initialize_params (initialize_request ''linux'' (new_client ()))"
  have served: "hs_requests tools_handlers MethodInitialize = Some (raw_handler (handleInitialize tools_env))"
    by (simp add: tools_handlers_def register_all_lookup serves_def served_methods_def full_table_def method_defs)
  have dec: "dec_initialize_params ?p = Some (initialize_request ''linux'' (new_client ()))"
    by (rule dec_enc_initialize) (simp add: initialize_request_def new_client_def zero_initialize_params_def wire_map_def)
  obtain v w where d: "direct_call tools_handlers MethodInitialize ?p (ss_app tools_session) = (Ok (Some v), w)"
      "wire_json v" "v \<noteq> JNull"
  proof -
    let ?r = "\<lparr>ir_protocol_version = ProtocolRevision, ir_name = sv_name tools_server, ir_version = sv_version tools_server,
      ir_capabilities = Some (sv_capabilities tools_server), ir_server_info = Some \<lparr>si_name = sv_name tools_server,
        si_version = sv_version tools_server, si_description = sv_description tools_server, si_homepage = sv_homepage tools_server\<rparr>,
      ir_feature_options = sv_features tools_server\<rparr>"
    have "sv_features tools_server = []"
      by (simp add: tools_server_def configured_def Let_def option_defs new_server_def has_capability_def put_assoc_def
          capability_defs)
    then have "wire_json (enc_initialize_result ?r)" "enc_initialize_result ?r \<noteq> JNull"
      by (auto simp: enc_initialize_result_def enc_map_def map_json_def omit_map_def omit_ptr_def enc_server_info_def
          omit_str_def list_all_iff)
    moreover have "\<exists>w. direct_call tools_handlers MethodInitialize ?p tools_server = (Ok (Some (enc_initialize_result ?r)), w)"
      by (simp add: direct_call_def served raw_handler_def handleInitialize_def after_check_def validateParams_def
          enc_raw_def dec)
    ultimately show ?thesis using that by (auto simp: tools_session_def)
  qed
  have "wire_json ?p"
    by (auto simp: enc_initialize_params_def initialize_request_def new_client_def zero_initialize_params_def enc_map_def
        map_json_def omit_map_def omit_ptr_def enc_client_info_def omit_str_def list_all_iff)
  then show ?thesis
    using stdio_handshake_learns_nothing [OF _ _ _ d, of NewHandlers "\<lambda>_ _. []" "[]" GNil GNil "[]"] served
    by (simp add: new_client_def) blast
qed

end
