(* ===== verification/Streaming.thy ===== *)
theory Streaming
  imports EndToEnd Base64
begin

section \<open>Streaming tool calls (\<open>pkg/client/streaming.go\<close>)\<close>

text \<open>
  A streaming call runs three goroutines: the caller, the sender of the request and the reader of the
  updates, with channels between them. The request itself is a function; the rest is a step relation
  whose steps interleave freely, where a \<open>select\<close> takes any case that is ready. What the transport's
  request comes to is a parameter of the steps; a decoding error is shown by the text of \<open>why\<close>.
\<close>

subsection \<open>The request\<close>

definition nextRequestID :: "int \<Rightarrow> int \<times> int" where
  "nextRequestID counter = (wrap64 (counter + 1), wrap64 (counter + 1))"

definition stream_request_id :: "string \<Rightarrow> int \<Rightarrow> string" where
  "stream_request_id name n = name @ ''-'' @ show_int n"

definition streaming_params :: "string \<Rightarrow> string \<Rightarrow> gval \<Rightarrow> gval \<Rightarrow> json" where
  "streaming_params name i input ctx = marshal (GMap
     ([(''name'', GStr name), (''streaming'', GBool True), (''requestId'', GStr i)] @
      (if input = GNil then [] else [(''input'', GRaw (Some (marshal input)))]) @
      (if ctx = GNil then [] else [(''context'', GRaw (Some (marshal ctx)))])))"

text \<open>The parameters are marshalled to bytes, and bytes marshal as a text in base64.\<close>

definition bytes_json :: "string \<Rightarrow> json" where
  "bytes_json bs = JStr (b64_encode bs)"

definition parse_stream_result :: "reason \<Rightarrow> gval \<Rightarrow> (goerr, call_tool_result) outcome" where
  "parse_stream_result why v =
     (case dec_call_tool_result (marshal v) of
        Some r \<Rightarrow> Ok r
      | None \<Rightarrow> Err (let w = ''failed to unmarshal result: '' @ why ''*protocol.CallToolResult'' (marshal v) in
          ErrWrapped (''failed to parse call tool result: '' @ w) (ErrWrapped w (ErrJSONType (why ''*protocol.CallToolResult'' (marshal v))))))"

definition stream_request :: "'t link \<Rightarrow> reason \<Rightarrow> string \<Rightarrow> string \<Rightarrow> gval \<Rightarrow> gval \<Rightarrow> 't \<Rightarrow>
    (goerr, call_tool_result) outcome \<times> 't" where
  "stream_request l why name i input ctx t =
     (case ln_request l MethodCallTool (bytes_json (json_print (streaming_params name i input ctx))) t of
        (Ok v, t') \<Rightarrow> (parse_stream_result why v, t')
      | (Err e, t') \<Rightarrow> (Err e, t')
      | (Panic m, t') \<Rightarrow> (Panic m, t'))"

subsection \<open>The goroutines\<close>

record progress_part =
  pr_data :: "json option"
  pr_done :: bool

definition dec_progress :: "json \<Rightarrow> progress_part option" where
  "dec_progress = decode_struct [(''data'', raw_field (\<lambda>v a. a\<lparr>pr_data := v\<rparr>)), (''done'', bool_field (\<lambda>v a. a\<lparr>pr_done := v\<rparr>))]
     \<lparr>pr_data = None, pr_done = False\<rparr>"

text \<open>What the progress handler makes of a message: an update, and whether it is the final one.\<close>

definition progress_update :: "json \<Rightarrow> json option \<times> bool" where
  "progress_update v = (case dec_progress v of Some p \<Rightarrow> (pr_data p, pr_done p) | None \<Rightarrow> (Some v, False))"

text \<open>The transport's progress handlers take any value; what is no JSON text yet is marshalled.\<close>

definition registered_progress :: "gval \<Rightarrow> json option \<times> bool" where
  "registered_progress v = progress_update (marshal v)"

datatype stream_main = Selecting | Joining "call_tool_result option" | Returned "call_tool_result option" "goerr option"
datatype stream_sender = Sending | Replied | ErrClosed | BothClosed

text \<open>
  The context of the call and the one of the stream (cancelled), the channel of updates, the handlers that
  have still to close the channel \<open>doneCh\<close>, whether it is closed, whether the reader runs, what its callback
  has seen, the sender with the buffers of its two channels, the caller, and whether a goroutine
  panicked. \<open>sg_accepted\<close> records all updates ever put into the channel.
\<close>

record stream_call =
  sg_ctx :: "goerr option"
  sg_cancelled :: bool
  sg_updates :: "json list"
  sg_accepted :: "json list"
  sg_closing :: nat
  sg_done :: bool
  sg_reader :: bool
  sg_seen :: "json list"
  sg_sender :: stream_sender
  sg_err :: "goerr option"
  sg_result :: "call_tool_result option"
  sg_main :: stream_main
  sg_panicked :: bool

definition new_stream :: stream_call where
  "new_stream = \<lparr>sg_ctx = None, sg_cancelled = False, sg_updates = [], sg_accepted = [], sg_closing = 0, sg_done = False,
     sg_reader = True, sg_seen = [], sg_sender = Sending, sg_err = None, sg_result = None, sg_main = Selecting,
     sg_panicked = False\<rparr>"

definition update_room :: nat where "update_room = 10"

text \<open>The start of the call: what is checked before the goroutines, with the counter of requests.\<close>

definition CallToolStreaming :: "'w client \<Rightarrow> string \<Rightarrow> int \<Rightarrow> (goerr, string \<times> stream_call) outcome \<times> int" where
  "CallToolStreaming c name counter =
     after_check (client_requireCapability c CapabilityTools ''CallToolStreaming'') (\<lambda>_ n.
       case nextRequestID n of (i, n') \<Rightarrow> (Ok (stream_request_id name i, new_stream), n')) counter"

inductive streaming_step :: "(goerr, call_tool_result) outcome \<Rightarrow> stream_call \<Rightarrow> stream_call \<Rightarrow> bool" for x where
  context_done: "sg_ctx s = None \<Longrightarrow> streaming_step x s (s\<lparr>sg_ctx := Some e\<rparr>)"
| progress: "registered_progress v = (u, b) \<Longrightarrow> (u = None \<or> length (sg_updates s) < update_room) \<Longrightarrow>
    streaming_step x s (s\<lparr>sg_updates := sg_updates s @ (case u of None \<Rightarrow> [] | Some d \<Rightarrow> [d]),
      sg_accepted := sg_accepted s @ (case u of None \<Rightarrow> [] | Some d \<Rightarrow> [d]),
      sg_closing := sg_closing s + (if b then 1 else 0)\<rparr>)"
| close_done: "sg_closing s = Suc n \<Longrightarrow>
    streaming_step x s (s\<lparr>sg_closing := n, sg_done := True, sg_panicked := sg_done s\<rparr>)"
| reader_leaves: "sg_reader s \<Longrightarrow> sg_cancelled s \<or> sg_ctx s \<noteq> None \<or> sg_done s \<Longrightarrow> streaming_step x s (s\<lparr>sg_reader := False\<rparr>)"
| reader_takes: "sg_reader s \<Longrightarrow> sg_updates s = u # us \<Longrightarrow>
    streaming_step x s (s\<lparr>sg_updates := us, sg_seen := sg_seen s @ [u]\<rparr>)"
| sender_result: "sg_sender s = Sending \<Longrightarrow> x = Ok r \<Longrightarrow> streaming_step x s (s\<lparr>sg_sender := Replied, sg_result := Some r\<rparr>)"
| sender_error: "sg_sender s = Sending \<Longrightarrow> x = Err e \<Longrightarrow> streaming_step x s (s\<lparr>sg_sender := Replied, sg_err := Some e\<rparr>)"
| sender_panic: "sg_sender s = Sending \<Longrightarrow> x = Panic m \<Longrightarrow> streaming_step x s (s\<lparr>sg_panicked := True\<rparr>)"
| close_errors: "sg_sender s = Replied \<Longrightarrow> streaming_step x s (s\<lparr>sg_sender := ErrClosed\<rparr>)"
| close_results: "sg_sender s = ErrClosed \<Longrightarrow> streaming_step x s (s\<lparr>sg_sender := BothClosed\<rparr>)"
| main_context: "sg_main s = Selecting \<Longrightarrow> sg_ctx s = Some e \<Longrightarrow>
    streaming_step x s (s\<lparr>sg_main := Returned None (Some e), sg_cancelled := True\<rparr>)"
| main_error: "sg_main s = Selecting \<Longrightarrow> sg_err s \<noteq> None \<or> sg_sender s \<in> {ErrClosed, BothClosed} \<Longrightarrow>
    streaming_step x s (s\<lparr>sg_main := Returned None (sg_err s), sg_err := None, sg_cancelled := True\<rparr>)"
| main_result: "sg_main s = Selecting \<Longrightarrow> sg_result s \<noteq> None \<or> sg_sender s = BothClosed \<Longrightarrow>
    streaming_step x s (s\<lparr>sg_main := Joining (sg_result s), sg_result := None, sg_cancelled := True\<rparr>)"
| main_joined: "sg_main s = Joining r \<Longrightarrow> \<not> sg_reader s \<Longrightarrow> streaming_step x s (s\<lparr>sg_main := Returned r None\<rparr>)"

text \<open>A panic ends the program.\<close>

inductive stream_run :: "(goerr, call_tool_result) outcome \<Rightarrow> stream_call \<Rightarrow> stream_call \<Rightarrow> bool" for x s where
  "stream_run x s s"
| "stream_run x s t \<Longrightarrow> \<not> sg_panicked t \<Longrightarrow> streaming_step x t u \<Longrightarrow> stream_run x s u"

text \<open>The client whose stdio transport works on given streams, which are part of the transport.\<close>

definition NewStdioClientWithStreams :: "('w client \<Rightarrow> 'w client) list \<Rightarrow> 'w \<Rightarrow> 'w client" where
  "NewStdioClientWithStreams options w =
     fold (\<lambda>opt c. opt c) options
       (NewClient [client_WithName ''go-mcp-client'', client_WithVersion ''1.0.0'',
          client_WithCapability CapabilitySampling True, client_WithCapability CapabilityLogging True] w)"

subsection \<open>What a call can return\<close>

text \<open>Nothing is lost or invented on the way to the callback, and what is returned was received.\<close>

definition stream_inv :: "(goerr, call_tool_result) outcome \<Rightarrow> stream_call \<Rightarrow> bool" where
  "stream_inv x s \<longleftrightarrow> sg_seen s @ sg_updates s = sg_accepted s \<and> length (sg_updates s) \<le> update_room \<and>
     (\<forall>e. sg_err s = Some e \<longrightarrow> x = Err e) \<and> (\<forall>r. sg_result s = Some r \<longrightarrow> x = Ok r) \<and>
     (\<forall>r. sg_main s = Joining (Some r) \<longrightarrow> x = Ok r) \<and>
     (\<forall>r e. sg_main s = Returned r e \<longrightarrow> (r \<noteq> None \<longrightarrow> e = None \<and> Ok (the r) = x \<and> \<not> sg_reader s) \<and>
       (e \<noteq> None \<longrightarrow> r = None \<and> (x = Err (the e) \<or> sg_ctx s = e)))"

lemma stream_step_inv: "streaming_step x s t \<Longrightarrow> stream_inv x s \<Longrightarrow> stream_inv x t"
  by (induction rule: streaming_step.induct) (auto simp: stream_inv_def update_room_def split: option.splits)

lemma stream_run_inv: "stream_run x s t \<Longrightarrow> stream_inv x s \<Longrightarrow> stream_inv x t"
  by (induction rule: stream_run.induct) (auto intro: stream_step_inv)

lemma new_stream_inv: "stream_inv x new_stream"
  by (simp add: stream_inv_def new_stream_def update_room_def)

text \<open>
  C12. What a streaming call returns was received: in every interleaving, a result that the caller gets is the
  one that the transport's answer was decoded to, and the reader of updates has ended by then; an error is
  the one of the exchange or of the context; and the callback sees the updates in the order in which they
  came, those not seen being the at most ten in the channel.
\<close>

theorem stream_returns_received:
  assumes "stream_run x new_stream s"
  shows "(sg_main s = Returned (Some r) e \<longrightarrow> x = Ok r \<and> e = None \<and> \<not> sg_reader s)
    \<and> (sg_main s = Returned y (Some er) \<longrightarrow> y = None \<and> (x = Err er \<or> sg_ctx s = Some er))
    \<and> (\<exists>us. sg_accepted s = sg_seen s @ us \<and> length us \<le> update_room)"
  using stream_run_inv [OF assms new_stream_inv] by (auto simp: stream_inv_def intro: exI [of _ "sg_updates s"])

lemma run_snoc: "stream_run x s t \<Longrightarrow> \<not> sg_panicked t \<Longrightarrow> streaming_step x t u \<Longrightarrow> u = v \<Longrightarrow> stream_run x s v"
  by (auto intro: stream_run.intros)

text \<open>
  A streaming call can lose its outcome: whatever the exchange came to, a result or an error, there is
  an interleaving without any cancellation in which the call returns neither a result nor an error. The
  sender closes both channels when it is done, and receiving from a closed channel is as ready as
  receiving what was sent, so the caller's \<open>select\<close> may take the empty one.
\<close>

theorem stream_outcome_can_be_lost:
  assumes "\<not> is_panic x"
  shows "\<exists>s. stream_run x new_stream s \<and> sg_main s = Returned None None \<and> sg_ctx s = None"
proof -
  let ?replied = "case x of Ok r \<Rightarrow> new_stream\<lparr>sg_sender := Replied, sg_result := Some r\<rparr>
     | Err e \<Rightarrow> new_stream\<lparr>sg_sender := Replied, sg_err := Some e\<rparr> | Panic m \<Rightarrow> new_stream"
  have r0: "stream_run x new_stream ?replied"
    using assms sender_result [of new_stream x] sender_error [of new_stream x]
    by (cases x) (auto simp: new_stream_def intro!: run_snoc [OF stream_run.intros(1)])
  have r1: "stream_run x new_stream (?replied\<lparr>sg_sender := ErrClosed\<rparr>)"
    using assms by (intro run_snoc [OF r0 _ close_errors]) (cases x; simp add: new_stream_def)+
  have r2: "stream_run x new_stream (?replied\<lparr>sg_sender := BothClosed\<rparr>)"
    using assms by (intro run_snoc [OF r1 _ close_results]) (cases x; simp add: new_stream_def)+
  show ?thesis
  proof (cases x)
    case (Ok r)
    let ?s = "?replied\<lparr>sg_sender := BothClosed, sg_main := Returned None None, sg_err := None, sg_cancelled := True\<rparr>"
    have "stream_run x new_stream ?s"
      by (intro run_snoc [OF r2 _ main_error]) (simp_all add: new_stream_def Ok)
    then show ?thesis by (intro exI [of _ ?s]) (simp add: Ok new_stream_def)
  next
    case (Err e)
    let ?j = "?replied\<lparr>sg_sender := BothClosed, sg_main := Joining None, sg_result := None, sg_cancelled := True\<rparr>"
    have j: "stream_run x new_stream ?j"
      by (intro run_snoc [OF r2 _ main_result]) (simp_all add: new_stream_def Err)
    have l: "stream_run x new_stream (?j\<lparr>sg_reader := False\<rparr>)"
      by (intro run_snoc [OF j _ reader_leaves]) (simp_all add: new_stream_def Err)
    have "stream_run x new_stream (?j\<lparr>sg_reader := False, sg_main := Returned None None\<rparr>)"
      by (intro run_snoc [OF l _ main_joined [where r = None]]) (simp_all add: new_stream_def Err)
    then show ?thesis by (intro exI [of _ "?j\<lparr>sg_reader := False, sg_main := Returned None None\<rparr>"]) (simp add: Err new_stream_def)
  qed (use assms in simp)
qed

definition sample_tool_result :: call_tool_result where
  "sample_tool_result = zero_call_tool_result\<lparr>ctr_result := Some (JBool True)\<rparr>"

theorem stream_outcome_can_be_lost_witness:
  "\<exists>s. stream_run (Ok sample_tool_result) new_stream s \<and> sg_main s = Returned None None"
  using stream_outcome_can_be_lost [of "Ok sample_tool_result"] by auto

theorem stream_returns_received_witness:
  "\<exists>s us. stream_run (Err ErrDeadline) new_stream s \<and> sg_main s = Returned None (Some ErrDeadline) \<and>
    sg_accepted s = sg_seen s @ us \<and> length us \<le> update_room"
proof -
  let ?a = "new_stream\<lparr>sg_sender := Replied, sg_err := Some ErrDeadline\<rparr>"
  let ?b = "?a\<lparr>sg_main := Returned None (Some ErrDeadline), sg_err := None, sg_cancelled := True\<rparr>"
  have a: "stream_run (Err ErrDeadline) new_stream ?a"
    by (intro run_snoc [OF stream_run.intros(1) _ sender_error]) (simp_all add: new_stream_def)
  have b: "stream_run (Err ErrDeadline) new_stream ?b"
    by (intro run_snoc [OF a _ main_error]) (simp_all add: new_stream_def)
  obtain us where "sg_accepted ?b = sg_seen ?b @ us" "length us \<le> update_room"
    using stream_returns_received [OF b, of sample_tool_result None None ErrDeadline] by blast
  then show ?thesis using b by (intro exI [of _ ?b] exI [of _ us]) simp
qed

lemma joining_cancelled:
  "stream_run x new_stream s \<Longrightarrow> sg_main s = Joining r \<Longrightarrow> sg_cancelled s"
proof (induction arbitrary: r rule: stream_run.induct)
  case (2 t u)
  show ?case using 2(3,5) by (cases rule: streaming_step.cases) (use 2(4) in auto)
qed (simp add: new_stream_def)

lemma run_trans: "stream_run x t u \<Longrightarrow> stream_run x s t \<Longrightarrow> stream_run x s u"
  by (induction rule: stream_run.induct) (auto intro: stream_run.intros)

text \<open>
  A streaming call is never stuck: from every state that an interleaving leads to, unless a goroutine
  panicked, the call can still return, without its context being cancelled and whatever updates are
  waiting.
\<close>

theorem stream_call_can_return:
  assumes "stream_run x new_stream s" "\<not> sg_panicked s" "\<not> is_panic x"
  shows "\<exists>t r e. stream_run x s t \<and> sg_main t = Returned r e \<and> sg_ctx t = sg_ctx s"
proof (cases "sg_main s")
  case (Returned r e)
  then show ?thesis using stream_run.intros(1) by blast
next
  case (Joining r)
  have left: "stream_run x s (s\<lparr>sg_reader := False\<rparr>)"
  proof (cases "sg_reader s")
    case False
    then have "s\<lparr>sg_reader := False\<rparr> = s" by (cases s) simp
    then show ?thesis by (simp add: stream_run.intros(1))
  qed (use joining_cancelled [OF assms(1) Joining] assms(2) in
      \<open>auto intro: run_snoc [OF stream_run.intros(1) _ reader_leaves]\<close>)
  have "stream_run x s (s\<lparr>sg_reader := False, sg_main := Returned r None\<rparr>)"
    by (intro run_snoc [OF left _ main_joined [where r = r]]) (simp_all add: assms(2) Joining)
  then show ?thesis by (intro exI [of _ "s\<lparr>sg_reader := False, sg_main := Returned r None\<rparr>"]) simp
next
  case Selecting
  obtain s1 where s1: "stream_run x s s1" "sg_main s1 = Selecting" "\<not> sg_panicked s1" "sg_ctx s1 = sg_ctx s" "sg_sender s1 \<noteq> Sending"
  proof (cases "sg_sender s = Sending")
    case True
    show thesis
    proof (cases x)
      case (Ok r)
      have "stream_run x s (s\<lparr>sg_sender := Replied, sg_result := Some r\<rparr>)"
        by (intro run_snoc [OF stream_run.intros(1) assms(2) sender_result]) (simp_all add: True Ok)
      then show thesis by (rule that) (simp_all add: Selecting assms(2))
    next
      case (Err e)
      have "stream_run x s (s\<lparr>sg_sender := Replied, sg_err := Some e\<rparr>)"
        by (intro run_snoc [OF stream_run.intros(1) assms(2) sender_error]) (simp_all add: True Err)
      then show thesis by (rule that) (simp_all add: Selecting assms(2))
    qed (use assms(3) in simp)
  qed (use that [OF stream_run.intros(1)] Selecting assms(2) in simp)
  obtain s2 where s2: "stream_run x s s2" "sg_main s2 = Selecting" "\<not> sg_panicked s2" "sg_ctx s2 = sg_ctx s"
    "sg_sender s2 \<in> {ErrClosed, BothClosed}"
  proof (cases "sg_sender s1 = Replied")
    case True
    have "stream_run x s (s1\<lparr>sg_sender := ErrClosed\<rparr>)"
      by (rule run_snoc [OF s1(1,3) close_errors [OF True] refl])
    then show thesis by (rule that) (simp_all add: s1)
  qed (use that [OF s1(1)] s1 in \<open>cases "sg_sender s1"; simp\<close>)
  have "stream_run x s (s2\<lparr>sg_main := Returned None (sg_err s2), sg_err := None, sg_cancelled := True\<rparr>)"
    by (rule run_snoc [OF s2(1,3) main_error [OF s2(2)] refl]) (use s2(5) in simp)
  then show ?thesis
    by (intro exI [of _ "s2\<lparr>sg_main := Returned None (sg_err s2), sg_err := None, sg_cancelled := True\<rparr>"]) (simp add: s2(4))
qed

theorem stream_call_can_return_witness:
  "\<exists>t r e. stream_run (Err ErrDeadline) new_stream t \<and> sg_main t = Returned r e \<and> sg_ctx t = None"
  using stream_call_can_return [OF stream_run.intros(1), of "Err ErrDeadline"] by (simp add: new_stream_def)

text \<open>
  When the reader has gone and the channel is full, no update is taken any more: the progress handler, and
  with it the transport's own reader that calls it, blocks for ever.
\<close>

lemma late_updates_block:
  "stream_run x s t \<Longrightarrow> \<not> sg_reader s \<Longrightarrow> length (sg_updates s) = update_room \<Longrightarrow>
     \<not> sg_reader t \<and> sg_updates t = sg_updates s \<and> sg_accepted t = sg_accepted s"
proof (induction rule: stream_run.induct)
  case (2 t u)
  then show ?case by (auto elim: streaming_step.cases)
qed simp

subsection \<open>The request over a session\<close>



end
