(* ===== verification/RateLimit.thy ===== *)
theory RateLimit
  imports AuthMiddleware
begin

section \<open>Rate limiting (\<open>pkg/auth/ratelimit.go\<close>)\<close>

text \<open>
  The token bucket limiter and its middleware. The contents of a bucket are binary64 numbers: every
  operation on them is rounded with \<^const>\<open>f64\<close>, as on machines without fused multiply and add.
  The readings of the clock are arguments; the wrapped transport's operations are too.
\<close>

record rate_config =
  rl_enabled :: bool
  rl_rpm :: int
  rl_burst :: int

record bucket =
  bk_tokens :: rat
  bk_last :: instant

type_synonym limiter = "string \<rightharpoonup> bucket"

definition default_rate_config :: rate_config where
  "default_rate_config = \<lparr>rl_enabled = True, rl_rpm = 60, rl_burst = 10\<rparr>"

definition NewRateLimitMiddleware :: "rate_config option \<Rightarrow> rate_config \<times> limiter" where
  "NewRateLimitMiddleware config =
     (case config of None \<Rightarrow> default_rate_config | Some c \<Rightarrow> c, Map.empty)"

definition float_min :: "rat \<Rightarrow> rat \<Rightarrow> rat" where
  "float_min a b = (if a < b then a else b)"

definition bucket_consume :: "rate_config \<Rightarrow> instant \<Rightarrow> bucket \<Rightarrow> bool \<times> bucket" where
  "bucket_consume cfg now b =
     (let elapsed = time_sub now (bk_last b);
          add = f64 (duration_seconds elapsed * f64 (f64 (of_int (rl_rpm cfg)) / 60));
          tokens = float_min (f64 (bk_tokens b + add)) (f64 (of_int (rl_burst cfg)))
      in if 1 \<le> tokens then (True, \<lparr>bk_tokens = f64 (tokens - 1), bk_last = now\<rparr>)
         else (False, \<lparr>bk_tokens = tokens, bk_last = now\<rparr>))"

text \<open>A call reads the clock when it makes the bucket and again when it refills it.\<close>

definition Allow :: "rate_config \<Rightarrow> instant \<Rightarrow> instant \<Rightarrow> string \<Rightarrow> limiter \<Rightarrow> bool \<times> limiter" where
  "Allow cfg now1 now2 key l =
     (let b = (case l key of None \<Rightarrow> \<lparr>bk_tokens = f64 (of_int (rl_burst cfg)), bk_last = now1\<rparr> | Some b \<Rightarrow> b)
      in case bucket_consume cfg now2 b of (ok, b') \<Rightarrow> (ok, l(key \<mapsto> b')))"

definition limiter_cleanup :: "instant \<Rightarrow> limiter \<Rightarrow> limiter" where
  "limiter_cleanup now l = (\<lambda>k. case l k of None \<Rightarrow> None
     | Some b \<Rightarrow> if 10 * minute < time_sub now (bk_last b) then None else Some b)"

definition GetRemainingTokens :: "rate_config \<Rightarrow> string \<Rightarrow> limiter \<Rightarrow> rat" where
  "GetRemainingTokens cfg key l = (case l key of None \<Rightarrow> f64 (of_int (rl_burst cfg)) | Some b \<Rightarrow> bk_tokens b)"

definition limiter_Reset :: "string \<Rightarrow> limiter \<Rightarrow> limiter" where
  "limiter_Reset key l = l(key := None)"

subsection \<open>The middleware\<close>

definition user_key :: "user_info option \<Rightarrow> (goerr, string) outcome" where
  "user_key u = (case u of None \<Rightarrow> Panic ''nil pointer dereference'' | Some x \<Rightarrow> Ok (''user:'' @ user_id x))"

definition getRateLimitKey :: "call_ctx \<Rightarrow> (goerr, string) outcome" where
  "getRateLimitKey cx =
     (case UserInfoFromContext cx of
        (u, True) \<Rightarrow> user_key u
      | (u, False) \<Rightarrow>
          let token = extractToken cx in
          if token \<noteq> [] then Ok (''token:'' @ (if 8 < length token then take 8 token else token))
          else Ok ''global'')"

definition limit_exceeded :: goerr where
  "limit_exceeded = NewAuthError ErrAccessDenied ''rate limit exceeded''"

text \<open>The check of sends; \<open>now\<close> holds the two readings of the clock.\<close>

definition rate_check :: "rate_config \<Rightarrow> instant \<times> instant \<Rightarrow> (goerr, string) outcome \<Rightarrow> limiter \<Rightarrow>
    (goerr, unit) outcome \<times> limiter" where
  "rate_check cfg now key l =
     (if \<not> rl_enabled cfg then (Ok (), l)
      else (case key of
        Panic m \<Rightarrow> (Panic m, l)
      | Err e \<Rightarrow> (Err e, l)
      | Ok k \<Rightarrow> (case Allow cfg (fst now) (snd now) k l of
                   (ok, l') \<Rightarrow> (if ok then Ok () else Err limit_exceeded, l'))))"

definition forward :: "(goerr, unit) outcome \<times> limiter \<Rightarrow> ('w \<Rightarrow> (goerr, 'r) outcome \<times> 'w) \<Rightarrow> 'w \<Rightarrow>
    (goerr, 'r) outcome \<times> (limiter \<times> 'w)" where
  "forward chk act w =
     (case chk of
        (Ok _, l) \<Rightarrow> (case act w of (r, w') \<Rightarrow> (r, (l, w')))
      | (Err e, l) \<Rightarrow> (Err e, (l, w))
      | (Panic m, l) \<Rightarrow> (Panic m, (l, w)))"

definition rate_SendRequest :: "rate_config \<Rightarrow> (call_ctx \<Rightarrow> string \<Rightarrow> gval \<Rightarrow> 'w \<Rightarrow> (goerr, 'r) outcome \<times> 'w) \<Rightarrow>
    instant \<times> instant \<Rightarrow> call_ctx \<Rightarrow> string \<Rightarrow> gval \<Rightarrow> limiter \<times> 'w \<Rightarrow> (goerr, 'r) outcome \<times> (limiter \<times> 'w)" where
  "rate_SendRequest cfg send now cx m p s =
     forward (rate_check cfg now (getRateLimitKey cx) (fst s)) (send cx m p) (snd s)"

definition rate_SendNotification ::
    "rate_config \<Rightarrow> (call_ctx \<Rightarrow> string \<Rightarrow> gval \<Rightarrow> 'w \<Rightarrow> (goerr, unit) outcome \<times> 'w) \<Rightarrow>
    instant \<times> instant \<Rightarrow> call_ctx \<Rightarrow> string \<Rightarrow> gval \<Rightarrow> limiter \<times> 'w \<Rightarrow> (goerr, unit) outcome \<times> (limiter \<times> 'w)" where
  "rate_SendNotification cfg send now cx m p s =
     forward (rate_check cfg now (getRateLimitKey cx) (fst s)) (send cx m p) (snd s)"

text \<open>Incoming requests count against the user of the context or the global bucket.\<close>

definition rate_HandleRequest ::
    "rate_config \<Rightarrow> (call_ctx \<Rightarrow> request \<Rightarrow> 'w \<Rightarrow> (goerr, response) outcome \<times> 'w) \<Rightarrow>
    instant \<times> instant \<Rightarrow> call_ctx \<Rightarrow> request \<Rightarrow> limiter \<times> 'w \<Rightarrow> (goerr, response) outcome \<times> (limiter \<times> 'w)" where
  "rate_HandleRequest cfg handle now cx r s =
     (case rate_check cfg now
         (case UserInfoFromContext cx of (u, True) \<Rightarrow> user_key u | (u, False) \<Rightarrow> Ok ''global'') (fst s) of
        (Ok _, l) \<Rightarrow> (case handle cx r (snd s) of (x, w') \<Rightarrow> (x, (l, w')))
      | (Err e, l) \<Rightarrow> (Ok \<lparr>resp_jsonrpc = [], resp_id = req_id r, resp_result = None,
          resp_error = Some \<lparr>err_code = InternalError, err_message = ''rate limit exceeded'', err_data = GNil\<rparr>\<rparr>,
          (l, snd s))
      | (Panic m, l) \<Rightarrow> (Panic m, (l, snd s)))"

text \<open>A batch takes one token per item, each with its own readings of the clock.\<close>

fun consume_batch :: "rate_config \<Rightarrow> string \<Rightarrow> (instant \<times> instant) list \<Rightarrow> limiter \<Rightarrow> (goerr, unit) outcome \<times> limiter"
  where
  "consume_batch cfg key [] l = (Ok (), l)"
| "consume_batch cfg key (now # nows) l =
     (case Allow cfg (fst now) (snd now) key l of (ok, l') \<Rightarrow>
        if ok then consume_batch cfg key nows l'
        else (Err (NewAuthError ErrAccessDenied ''rate limit exceeded during batch processing''), l'))"

definition batch_denied :: "int \<Rightarrow> rat \<Rightarrow> goerr" where
  "batch_denied n remaining = NewAuthError ErrAccessDenied
     (''rate limit exceeded: batch requires '' @ show_int n @ '' tokens, only ''
        @ show_int (round_even remaining) @ '' available'')"

definition rate_SendBatchRequest ::
    "rate_config \<Rightarrow> (call_ctx \<Rightarrow> batch_item list \<Rightarrow> 'w \<Rightarrow> (goerr, 'r) outcome \<times> 'w) \<Rightarrow>
    (nat \<Rightarrow> instant \<times> instant) \<Rightarrow> call_ctx \<Rightarrow> batch_item list \<Rightarrow> limiter \<times> 'w \<Rightarrow> (goerr, 'r) outcome \<times> (limiter \<times> 'w)"
  where
  "rate_SendBatchRequest cfg send clock cx items s =
     (if \<not> rl_enabled cfg then (case send cx items (snd s) of (r, w') \<Rightarrow> (r, (fst s, w')))
      else (case getRateLimitKey cx of
        Panic m \<Rightarrow> (Panic m, s)
      | Err e \<Rightarrow> (Err e, s)
      | Ok key \<Rightarrow>
          let n = length items; remaining = GetRemainingTokens cfg key (fst s) in
          if remaining < f64 (of_nat n) then (Err (batch_denied (int n) remaining), s)
          else forward (consume_batch cfg key (map clock [0..<n]) (fst s)) (send cx items) (snd s)))"

subsection \<open>Buckets\<close>

definition bucket_ok :: "rate_config \<Rightarrow> bucket \<Rightarrow> bool" where
  "bucket_ok cfg b \<longleftrightarrow> 0 \<le> bk_tokens b \<and> bk_tokens b \<le> of_int (rl_burst cfg)"

definition rate_ok :: "rate_config \<Rightarrow> bool" where
  "rate_ok cfg \<longleftrightarrow> 0 \<le> rl_rpm cfg \<and> 0 \<le> rl_burst cfg \<and> rl_burst cfg < 2 ^ 53"

text \<open>The refill of a bucket.\<close>

definition refilled :: "rate_config \<Rightarrow> instant \<Rightarrow> bucket \<Rightarrow> rat" where
  "refilled cfg now b = float_min
     (f64 (bk_tokens b + f64 (duration_seconds (time_sub now (bk_last b)) * f64 (f64 (of_int (rl_rpm cfg)) / 60))))
     (f64 (of_int (rl_burst cfg)))"

lemma bucket_consume_refilled:
  "bucket_consume cfg now b = (if 1 \<le> refilled cfg now b
     then (True, \<lparr>bk_tokens = f64 (refilled cfg now b - 1), bk_last = now\<rparr>)
     else (False, \<lparr>bk_tokens = refilled cfg now b, bk_last = now\<rparr>))"
  by (simp add: bucket_consume_def refilled_def Let_def)

lemma go_div_nonneg: "0 \<le> a \<Longrightarrow> 0 < b \<Longrightarrow> go_div a b = a div b"
  by (cases "a = 0") (simp_all add: go_div_def)

lemma nanos_nonneg:
  assumes "0 \<le> d"
  shows "0 \<le> f64 (f64 (of_int (d - go_div d second * second)) / 1000000000)"
proof -
  have "0 \<le> d - go_div d second * second"
    using assms by (simp add: go_div_nonneg second_def minus_div_mult_eq_mod)
  then have "(0 :: rat) \<le> of_int (d - go_div d second * second)" by (simp only: of_int_0_le_iff)
  then have "0 \<le> f64 (of_int (d - go_div d second * second))" by (rule f64.rnd_nonneg)
  then show ?thesis by (intro f64.rnd_nonneg) simp
qed

lemma duration_seconds_nonneg:
  assumes "0 \<le> d" shows "0 \<le> duration_seconds d"
proof -
  have "0 \<le> go_div d second" using assms by (simp add: go_div_nonneg second_def)
  then have "0 \<le> f64 (of_int (go_div d second))" by (intro f64.rnd_nonneg) simp
  then show ?thesis
    using nanos_nonneg [OF assms] unfolding duration_seconds_def Let_def
    by (rule f64.rnd_nonneg [OF add_nonneg_nonneg])
qed

lemma duration_seconds_ge_one:
  assumes "second \<le> d" shows "1 \<le> duration_seconds d"
proof -
  let ?s = "go_div d second"
  have d0: "0 \<le> d" using assms by (simp add: second_def)
  have s: "?s = d div second" using d0 by (simp add: go_div_nonneg second_def)
  have "1 \<le> d div second" using assms zdiv_mono1 [of second d second] by (simp add: second_def)
  then have "1 \<le> f64 (of_int ?s)" using f64.rnd_ge_int [of 1 "of_int ?s"] s by simp
  moreover note nanos_nonneg [OF d0]
  ultimately have "(of_int 1 :: rat) \<le> f64 (of_int ?s) + f64 (f64 (of_int (d - ?s * second)) / 1000000000)" by simp
  from f64.rnd_ge_int [OF this] show ?thesis by (simp add: duration_seconds_def Let_def)
qed

lemma rate_nonneg: "0 \<le> rl_rpm cfg \<Longrightarrow> 0 \<le> f64 (f64 (of_int (rl_rpm cfg)) / 60)"
  by (intro f64.rnd_nonneg divide_nonneg_nonneg) simp_all

lemma rate_ge_one:
  assumes "60 \<le> rl_rpm cfg" shows "1 \<le> f64 (f64 (of_int (rl_rpm cfg)) / 60)"
proof -
  have "(of_int 60 :: rat) \<le> of_int (rl_rpm cfg)" using assms by (simp only: of_int_le_iff)
  from f64.rnd_ge_int [OF this] have "(of_int 1 :: rat) \<le> f64 (of_int (rl_rpm cfg)) / 60" by simp
  from f64.rnd_ge_int [OF this] show ?thesis by simp
qed

lemma refill_add_nonneg:
  assumes "rate_ok cfg" "bk_last b \<le> now"
  shows "0 \<le> f64 (duration_seconds (time_sub now (bk_last b)) * f64 (f64 (of_int (rl_rpm cfg)) / 60))"
  using assms rate_nonneg [of cfg] duration_seconds_nonneg [OF time_sub_nonneg [of "bk_last b" now]]
  by (intro f64.rnd_nonneg [OF mult_nonneg_nonneg]) (simp_all add: rate_ok_def)

lemma burst_exact: "rate_ok cfg \<Longrightarrow> f64 (of_int (rl_burst cfg)) = of_int (rl_burst cfg)"
  by (intro f64_of_int) (simp add: rate_ok_def)

lemma refilled_bounds:
  assumes "rate_ok cfg" "0 \<le> bk_tokens b" "bk_last b \<le> now"
  shows "0 \<le> refilled cfg now b" "refilled cfg now b \<le> of_int (rl_burst cfg)"
proof -
  have "0 \<le> rl_burst cfg" using assms(1) by (simp add: rate_ok_def)
  then show "0 \<le> refilled cfg now b"
    using assms(2) refill_add_nonneg [OF assms(1,3)] burst_exact [OF assms(1)]
    by (auto simp: refilled_def float_min_def intro: f64.rnd_nonneg)
  show "refilled cfg now b \<le> of_int (rl_burst cfg)"
    using burst_exact [OF assms(1)] by (simp add: refilled_def float_min_def)
qed

lemma bucket_consume_ok:
  assumes "rate_ok cfg" "bucket_ok cfg b" "bk_last b \<le> now"
  shows "bucket_ok cfg (snd (bucket_consume cfg now b)) \<and> bk_last (snd (bucket_consume cfg now b)) = now"
proof -
  note r = refilled_bounds [OF assms(1) _ assms(3)]
  have t: "0 \<le> bk_tokens b" using assms(2) by (simp add: bucket_ok_def)
  have "f64 (refilled cfg now b - 1) \<le> of_int (rl_burst cfg)"
    using r(2) [OF t] assms(1) by (intro f64.rnd_le_int) (auto simp: rate_ok_def)
  then show ?thesis
    using r t by (auto simp: bucket_consume_refilled bucket_ok_def intro: f64.rnd_nonneg)
qed

subsection \<open>Runs of the limiter\<close>

datatype limiter_op = CallAllow string instant instant | CallCleanup instant | CallReset string

fun limiter_step :: "rate_config \<Rightarrow> limiter_op \<Rightarrow> limiter \<Rightarrow> limiter" where
  "limiter_step cfg (CallAllow k n1 n2) l = snd (Allow cfg n1 n2 k l)"
| "limiter_step cfg (CallCleanup now) l = limiter_cleanup now l"
| "limiter_step cfg (CallReset k) l = limiter_Reset k l"

text \<open>The readings of the clock never decrease.\<close>

fun clocked :: "instant \<Rightarrow> limiter_op list \<Rightarrow> bool" where
  "clocked T [] = True"
| "clocked T (CallAllow k n1 n2 # ops) = (T \<le> n1 \<and> n1 \<le> n2 \<and> clocked n2 ops)"
| "clocked T (CallCleanup n # ops) = (T \<le> n \<and> clocked n ops)"
| "clocked T (CallReset k # ops) = clocked T ops"

definition limiter_ok :: "rate_config \<Rightarrow> instant \<Rightarrow> limiter \<Rightarrow> bool" where
  "limiter_ok cfg T l \<longleftrightarrow> (\<forall>k b. l k = Some b \<longrightarrow> bucket_ok cfg b \<and> bk_last b \<le> T)"

lemma limiter_ok_empty [simp]: "limiter_ok cfg T Map.empty"
  by (simp add: limiter_ok_def)

lemma limiter_ok_later: "limiter_ok cfg T l \<Longrightarrow> T \<le> T' \<Longrightarrow> limiter_ok cfg T' l"
  by (fastforce simp: limiter_ok_def)

text \<open>The bucket that \<open>Allow\<close> works on.\<close>

definition current :: "rate_config \<Rightarrow> instant \<Rightarrow> string \<Rightarrow> limiter \<Rightarrow> bucket" where
  "current cfg now1 k l =
     (case l k of None \<Rightarrow> \<lparr>bk_tokens = f64 (of_int (rl_burst cfg)), bk_last = now1\<rparr> | Some b \<Rightarrow> b)"

lemma Allow_current: "Allow cfg n1 n2 k l =
    (fst (bucket_consume cfg n2 (current cfg n1 k l)), l(k \<mapsto> snd (bucket_consume cfg n2 (current cfg n1 k l))))"
  by (simp add: Allow_def current_def Let_def split: prod.splits)

lemma current_ok:
  assumes "rate_ok cfg" "limiter_ok cfg T l" "T \<le> n1" "n1 \<le> n2"
  shows "bucket_ok cfg (current cfg n1 k l) \<and> bk_last (current cfg n1 k l) \<le> n2"
  using assms burst_exact [OF assms(1)]
  by (force simp: current_def limiter_ok_def bucket_ok_def rate_ok_def split: option.splits)

lemma Allow_ok:
  assumes "rate_ok cfg" "limiter_ok cfg T l" "T \<le> n1" "n1 \<le> n2"
  shows "limiter_ok cfg n2 (snd (Allow cfg n1 n2 k l))"
  using current_ok [OF assms, of k] bucket_consume_ok [OF assms(1), of "current cfg n1 k l" n2]
    limiter_ok_later [OF assms(2), of n2] assms(3,4)
  by (auto simp: Allow_current limiter_ok_def)

lemma limiter_run_ok:
  assumes "rate_ok cfg" "limiter_ok cfg T l" "clocked T ops"
  shows "\<exists>T'. limiter_ok cfg T' (fold (limiter_step cfg) ops l)"
  using assms(2,3)
proof (induction T ops arbitrary: l rule: clocked.induct)
  case (2 T k n1 n2 ops)
  then show ?case using Allow_ok [OF assms(1)] by auto
next
  case (3 T n ops)
  then have "limiter_ok cfg n (limiter_cleanup n l)"
    by (fastforce simp: limiter_ok_def limiter_cleanup_def split: option.splits if_splits)
  then show ?case using 3 by simp
next
  case (4 T k ops)
  then have "limiter_ok cfg T (limiter_Reset k l)" by (simp add: limiter_ok_def limiter_Reset_def)
  then show ?case using 4 by simp
qed auto

text \<open>
  The bounds of a bucket: with a clock that never runs backwards, every bucket holds between
  zero and the burst size after any run of calls, cleanups and resets, floating point rounding
  included.
\<close>

theorem buckets_bounded:
  assumes "rate_ok cfg" "clocked T ops"
    and "fold (limiter_step cfg) ops Map.empty key = Some b"
  shows "0 \<le> bk_tokens b \<and> bk_tokens b \<le> of_int (rl_burst cfg)"
  using limiter_run_ok [OF assms(1) limiter_ok_empty assms(2)] assms(3)
  by (auto simp: limiter_ok_def bucket_ok_def)

theorem buckets_bounded_witness:
  "\<exists>b. fold (limiter_step default_rate_config) [CallAllow ''k'' 0 0, CallAllow ''k'' 5 7] Map.empty ''k'' = Some b
    \<and> 0 \<le> bk_tokens b \<and> bk_tokens b \<le> 10"
proof -
  obtain b where b: "fold (limiter_step default_rate_config) [CallAllow ''k'' 0 0, CallAllow ''k'' 5 7] Map.empty ''k'' = Some b"
    by (simp add: Allow_current)
  show ?thesis
    using buckets_bounded [OF _ _ b, of 0] b by (auto simp: rate_ok_def default_rate_config_def)
qed

subsection \<open>Bursts and paced clients\<close>

text \<open>The calls admitted for a key among calls at one instant.\<close>

fun admissions :: "rate_config \<Rightarrow> instant \<Rightarrow> string \<Rightarrow> string list \<Rightarrow> limiter \<Rightarrow> nat" where
  "admissions cfg now key [] l = 0"
| "admissions cfg now key (k # ks) l =
     (case Allow cfg now now k l of (ok, l') \<Rightarrow>
        (if ok \<and> k = key then 1 else 0) + admissions cfg now key ks l')"

text \<open>No key has more than \<open>n\<close> tokens, and none has waited.\<close>

definition tokens_at_most :: "rate_config \<Rightarrow> instant \<Rightarrow> string \<Rightarrow> nat \<Rightarrow> limiter \<Rightarrow> bool" where
  "tokens_at_most cfg now key n l \<longleftrightarrow>
     bk_tokens (current cfg now key l) \<le> of_nat n \<and> bk_last (current cfg now key l) = now"

lemma refilled_same_instant:
  assumes "rate_ok cfg" "bk_last b = now" "bk_tokens b \<le> of_nat n" "int n \<le> rl_burst cfg"
  shows "refilled cfg now b \<le> of_nat n"
proof -
  have "duration_seconds 0 = 0"
    by (simp add: duration_seconds_def go_div_def f64.rnd_zero)
  then have "refilled cfg now b \<le> f64 (bk_tokens b)"
    using assms(2) by (simp add: refilled_def float_min_def f64.rnd_zero)
  also have "f64 (bk_tokens b) \<le> of_int (int n)"
    using assms by (intro f64.rnd_le_int) (auto simp: rate_ok_def)
  finally show ?thesis by simp
qed

lemma consume_same_instant:
  assumes "rate_ok cfg" "bk_last b = now" "bk_tokens b \<le> of_nat n" "int n \<le> rl_burst cfg"
  shows "bk_last (snd (bucket_consume cfg now b)) = now"
    and "\<not> fst (bucket_consume cfg now b) \<Longrightarrow> bk_tokens (snd (bucket_consume cfg now b)) \<le> of_nat n"
    and "fst (bucket_consume cfg now b) \<Longrightarrow> 0 < n \<and> bk_tokens (snd (bucket_consume cfg now b)) \<le> of_nat (n - 1)"
proof -
  note r = refilled_same_instant [OF assms]
  show "bk_last (snd (bucket_consume cfg now b)) = now"
    "\<not> fst (bucket_consume cfg now b) \<Longrightarrow> bk_tokens (snd (bucket_consume cfg now b)) \<le> of_nat n"
    using r by (auto simp: bucket_consume_refilled)
  assume "fst (bucket_consume cfg now b)"
  then have one: "1 \<le> refilled cfg now b" by (simp add: bucket_consume_refilled split: if_splits)
  then have n: "0 < n" using r by (cases n) auto
  then have "refilled cfg now b - 1 \<le> of_int (int n - 1)" using r by simp
  then have "f64 (refilled cfg now b - 1) \<le> of_int (int n - 1)"
    using assms(1,4) by (intro f64.rnd_le_int) (auto simp: rate_ok_def)
  then show "0 < n \<and> bk_tokens (snd (bucket_consume cfg now b)) \<le> of_nat (n - 1)"
    using one n by (simp add: bucket_consume_refilled of_nat_diff)
qed

lemma admissions_bound:
  assumes "rate_ok cfg"
  shows "tokens_at_most cfg now key n l \<Longrightarrow> int n \<le> rl_burst cfg \<Longrightarrow> admissions cfg now key ks l \<le> n"
proof (induction ks arbitrary: l n)
  case (Cons k ks)
  let ?r = "bucket_consume cfg now (current cfg now k l)"
  let ?l = "l(k \<mapsto> snd ?r)"
  have step: "admissions cfg now key (k # ks) l =
      (if fst ?r \<and> k = key then 1 else 0) + admissions cfg now key ks ?l"
    by (simp add: Allow_current)
  show ?case
  proof (cases "k = key")
    case False
    then have "tokens_at_most cfg now key n ?l"
      using Cons.prems(1) by (simp add: tokens_at_most_def current_def)
    then show ?thesis using step False Cons.IH Cons.prems(2) by simp
  next
    case True
    have c: "bk_last (current cfg now k l) = now" "bk_tokens (current cfg now k l) \<le> of_nat n"
      using Cons.prems(1) True by (simp_all add: tokens_at_most_def)
    have cur: "current cfg now key ?l = snd ?r" using True by (simp add: current_def)
    note s = consume_same_instant [OF assms c Cons.prems(2)]
    show ?thesis
    proof (cases "fst ?r")
      case ok: True
      then have "tokens_at_most cfg now key (n - 1) ?l"
        using s(1) s(3) [OF ok] cur unfolding tokens_at_most_def by metis
      then have "admissions cfg now key ks ?l \<le> n - 1"
        by (rule Cons.IH) (use Cons.prems(2) in linarith)
      moreover have "0 < n" using s(3) [OF ok] by simp
      moreover have "admissions cfg now key (k # ks) l = 1 + admissions cfg now key ks ?l"
        using step ok True by simp
      ultimately show ?thesis by linarith
    next
      case no: False
      then have "tokens_at_most cfg now key n ?l" using s(1,2) cur by (simp add: tokens_at_most_def)
      then show ?thesis using step no Cons.IH Cons.prems(2) by simp
    qed
  qed
qed simp

text \<open>
  C29. Bursts: among any calls for any keys that fall on one instant, at most \<open>burst\<close> are admitted
  for a key whose bucket is new.
\<close>

theorem burst_bound:
  assumes "rate_ok cfg" "l key = None"
  shows "admissions cfg now key ks l \<le> nat (rl_burst cfg)"
proof -
  have "tokens_at_most cfg now key (nat (rl_burst cfg)) l"
    using assms burst_exact [OF assms(1)] by (simp add: tokens_at_most_def current_def rate_ok_def)
  then show ?thesis using assms(1) by (intro admissions_bound) (simp_all add: rate_ok_def)
qed

theorem burst_bound_witness:
  "admissions default_rate_config 0 ''a'' (replicate 50 ''a'' @ [''b''] @ replicate 50 ''a'') Map.empty \<le> nat 10"
  using burst_bound [of default_rate_config Map.empty "''a''" 0 "replicate 50 ''a'' @ [''b''] @ replicate 50 ''a''"]
  by (simp add: rate_ok_def default_rate_config_def)

text \<open>All calls of a client for its key succeed.\<close>

fun all_admitted :: "rate_config \<Rightarrow> string \<Rightarrow> instant list \<Rightarrow> limiter \<Rightarrow> bool" where
  "all_admitted cfg key [] l = True"
| "all_admitted cfg key (t # ts) l = (case Allow cfg t t key l of (ok, l') \<Rightarrow> ok \<and> all_admitted cfg key ts l')"

fun spaced :: "duration \<Rightarrow> instant list \<Rightarrow> bool" where
  "spaced d (t # u # ts) \<longleftrightarrow> t + d \<le> u \<and> u - t < 2 ^ 63 \<and> spaced d (u # ts)"
| "spaced d _ \<longleftrightarrow> True"

lemma refilled_after_second:
  assumes "rate_ok cfg" "60 \<le> rl_rpm cfg" "1 \<le> rl_burst cfg" "0 \<le> bk_tokens b" "bk_last b + second \<le> now"
  shows "1 \<le> refilled cfg now b"
proof -
  have "second \<le> time_sub now (bk_last b)" using assms(5) by (simp add: time_sub_def second_def)
  from duration_seconds_ge_one [OF this] rate_ge_one [OF assms(2)]
  have "1 * 1 \<le> duration_seconds (time_sub now (bk_last b)) * f64 (f64 (of_int (rl_rpm cfg)) / 60)"
    by (intro mult_mono) auto
  then have "(of_int 1 :: rat) \<le> duration_seconds (time_sub now (bk_last b)) * f64 (f64 (of_int (rl_rpm cfg)) / 60)"
    by simp
  from f64.rnd_ge_int [OF this]
  have "(of_int 1 :: rat) \<le> bk_tokens b +
      f64 (duration_seconds (time_sub now (bk_last b)) * f64 (f64 (of_int (rl_rpm cfg)) / 60))"
    using assms(4) by simp
  from f64.rnd_ge_int [OF this] show ?thesis
    using assms(3) burst_exact [OF assms(1)] by (simp add: refilled_def float_min_def)
qed

lemma all_admitted_from:
  assumes "rate_ok cfg" "60 \<le> rl_rpm cfg" "1 \<le> rl_burst cfg"
  shows "spaced second ts \<Longrightarrow>
    (\<forall>t ts'. ts = t # ts' \<longrightarrow> 1 \<le> refilled cfg t (current cfg t key l) \<and> bucket_ok cfg (current cfg t key l)
       \<and> bk_last (current cfg t key l) \<le> t) \<Longrightarrow> all_admitted cfg key ts l"
proof (induction ts arbitrary: l)
  case (Cons t ts)
  let ?b = "snd (bucket_consume cfg t (current cfg t key l))"
  let ?l = "l(key \<mapsto> ?b)"
  have one: "fst (bucket_consume cfg t (current cfg t key l))"
    using Cons.prems(2) by (simp add: bucket_consume_refilled)
  have b: "bucket_ok cfg ?b" "bk_last ?b = t"
    using bucket_consume_ok [OF assms(1), of "current cfg t key l" t] Cons.prems(2) by simp_all
  have "all_admitted cfg key ts ?l"
  proof (rule Cons.IH)
    show "spaced second ts" using Cons.prems(1) by (cases ts) auto
    show "\<forall>u us. ts = u # us \<longrightarrow> 1 \<le> refilled cfg u (current cfg u key ?l) \<and>
        bucket_ok cfg (current cfg u key ?l) \<and> bk_last (current cfg u key ?l) \<le> u"
    proof (intro allI impI)
      fix u us assume u: "ts = u # us"
      then have "t + second \<le> u" using Cons.prems(1) by simp
      then show "1 \<le> refilled cfg u (current cfg u key ?l) \<and>
          bucket_ok cfg (current cfg u key ?l) \<and> bk_last (current cfg u key ?l) \<le> u"
        using b refilled_after_second [OF assms, of ?b u]
        by (simp add: current_def bucket_ok_def second_def)
    qed
  qed
  then show ?case using one by (simp add: Allow_current)
qed simp



text \<open>
  Batches and refills: a batch larger than what the bucket last held is refused at any later
  time and leaves the bucket as it was, because the check reads the tokens without refilling them;
  so a client that only sends batches is refused forever, while a single request a second later
  is admitted.
\<close>

theorem batch_refused_without_refill:
  assumes "rl_enabled cfg" "getRateLimitKey cx = Ok key" "l key = Some b"
    and "bk_tokens b < f64 (of_nat (length items))"
  shows "rate_SendBatchRequest cfg send clock cx items (l, w) = (Err (batch_denied (int (length items)) (bk_tokens b)), (l, w))
    \<and> (rate_ok cfg \<and> 60 \<le> rl_rpm cfg \<and> 1 \<le> rl_burst cfg \<and> bucket_ok cfg b \<and> bk_last b + second \<le> now \<longrightarrow>
        fst (Allow cfg now now key l))"
  using assms refilled_after_second [of cfg b now]
  by (auto simp: rate_SendBatchRequest_def GetRemainingTokens_def Let_def Allow_current current_def
      bucket_consume_refilled bucket_ok_def)

theorem batch_refused_without_refill_witness:
  "rate_SendBatchRequest default_rate_config (\<lambda>cx items w. (Ok (), Suc w)) (\<lambda>i. (hour, hour))
      \<lparr>cx_token = None, cx_user = None\<rparr> [BReq (NewRequest (GInt 1) ''ping'' GNil)]
      ([''global'' \<mapsto> \<lparr>bk_tokens = 0, bk_last = 0\<rparr>], 0)
    = (Err (batch_denied 1 0), ([''global'' \<mapsto> \<lparr>bk_tokens = 0, bk_last = 0\<rparr>], (0 :: nat)))
   \<and> fst (Allow default_rate_config hour hour ''global'' [''global'' \<mapsto> \<lparr>bk_tokens = 0, bk_last = 0\<rparr>])"
proof -
  have one: "f64 1 = 1" using f64_of_int [of 1] by simp
  show ?thesis
    using batch_refused_without_refill [of default_rate_config "\<lparr>cx_token = None, cx_user = None\<rparr>" "''global''"
        "[''global'' \<mapsto> \<lparr>bk_tokens = 0, bk_last = 0\<rparr>]" "\<lparr>bk_tokens = 0, bk_last = 0\<rparr>"
        "[BReq (NewRequest (GInt 1) ''ping'' GNil)]" "\<lambda>cx items w. (Ok (), Suc w)" "\<lambda>i. (hour, hour)" 0 hour] one
    by (simp add: default_rate_config_def getRateLimitKey_def UserInfoFromContext_def extractToken_def
        rate_ok_def bucket_ok_def second_def hour_def minute_def)
qed

end
