(* ===== verification/Metrics.thy ===== *)
theory Metrics
  imports Stdio "HOL-Library.Multiset"
begin

section \<open>The observability middleware of the transport (\<open>pkg/transport/observability_middleware.go\<close>)\<close>

text \<open>
  Counters and durations per method around the operations of the wrapped transport, and a log. The maps
  of counters are association lists in the order of their first use; the lines of the log are kept
  without the logger's prefix. An operation is bracketed by two steps, one before and one after the
  wrapped operation, which other operations may come between; \<open>spell\<close> holds the two readings of the
  clock. When the wrapped operation panics, the second step does not take place.
\<close>

subsection \<open>Durations\<close>

record tracker =
  tk_count :: int
  tk_total :: int
  tk_min :: int
  tk_max :: int

definition new_tracker :: tracker where
  "new_tracker = \<lparr>tk_count = 0, tk_total = 0, tk_min = 0, tk_max = 0\<rparr>"

definition observe :: "duration \<Rightarrow> tracker \<Rightarrow> tracker" where
  "observe d t = \<lparr>tk_count = wrap64 (tk_count t + 1), tk_total = wrap64 (tk_total t + d),
     tk_min = (if tk_min t = 0 \<or> d < tk_min t then d else tk_min t),
     tk_max = (if tk_max t < d then d else tk_max t)\<rparr>"

record duration_metrics =
  dm_count :: int
  dm_total :: duration
  dm_min :: duration
  dm_max :: duration
  dm_avg :: duration

definition stats :: "tracker \<Rightarrow> duration_metrics" where
  "stats t =
     (if tk_count t = 0 then \<lparr>dm_count = 0, dm_total = 0, dm_min = 0, dm_max = 0, dm_avg = 0\<rparr>
      else \<lparr>dm_count = tk_count t, dm_total = tk_total t, dm_min = tk_min t, dm_max = tk_max t,
            dm_avg = go_div (tk_total t) (tk_count t)\<rparr>)"

subsection \<open>Counters\<close>

record counts =
  ct_total :: "(string \<times> int) list"
  ct_success :: "(string \<times> int) list"
  ct_errors :: "(string \<times> int) list"
  ct_durations :: "(string \<times> tracker) list"

record metrics =
  mt_prefix :: string
  mt_requests :: counts
  mt_notifications :: counts
  mt_incoming_requests :: counts
  mt_incoming_notifications :: counts
  mt_init_success :: int
  mt_init_errors :: int
  mt_state :: string

definition new_counts :: counts where
  "new_counts = \<lparr>ct_total = [], ct_success = [], ct_errors = [], ct_durations = []\<rparr>"

definition newTransportMetrics :: "string \<Rightarrow> metrics" where
  "newTransportMetrics prefix = \<lparr>mt_prefix = prefix, mt_requests = new_counts, mt_notifications = new_counts,
     mt_incoming_requests = new_counts, mt_incoming_notifications = new_counts,
     mt_init_success = 0, mt_init_errors = 0, mt_state = ''stopped''\<rparr>"

definition getOrCreateInt64Counter :: "string \<Rightarrow> (string \<times> int) list \<Rightarrow> int \<times> (string \<times> int) list" where
  "getOrCreateInt64Counter m cs = (case map_of cs m of Some n \<Rightarrow> (n, cs) | None \<Rightarrow> (0, cs @ [(m, 0)]))"

definition getOrCreateDurationTracker :: "string \<Rightarrow> (string \<times> tracker) list \<Rightarrow> tracker \<times> (string \<times> tracker) list" where
  "getOrCreateDurationTracker m ts = (case map_of ts m of Some t \<Rightarrow> (t, ts) | None \<Rightarrow> (new_tracker, ts @ [(m, new_tracker)]))"

definition add_one :: "string \<Rightarrow> (string \<times> int) list \<Rightarrow> (string \<times> int) list" where
  "add_one m cs = (case getOrCreateInt64Counter m cs of (n, cs') \<Rightarrow> put_assoc m (wrap64 (n + 1)) cs')"

definition add_duration :: "string \<Rightarrow> duration \<Rightarrow> (string \<times> tracker) list \<Rightarrow> (string \<times> tracker) list" where
  "add_duration m d ts = (case getOrCreateDurationTracker m ts of (t, ts') \<Rightarrow> put_assoc m (observe d t) ts')"

definition count_total :: "string \<Rightarrow> counts \<Rightarrow> counts" where
  "count_total m c = c\<lparr>ct_total := add_one m (ct_total c)\<rparr>"
definition count_success :: "string \<Rightarrow> counts \<Rightarrow> counts" where
  "count_success m c = c\<lparr>ct_success := add_one m (ct_success c)\<rparr>"
definition count_error :: "string \<Rightarrow> counts \<Rightarrow> counts" where
  "count_error m c = c\<lparr>ct_errors := add_one m (ct_errors c)\<rparr>"
definition count_duration :: "string \<Rightarrow> duration \<Rightarrow> counts \<Rightarrow> counts" where
  "count_duration m d c = c\<lparr>ct_durations := add_duration m d (ct_durations c)\<rparr>"

definition incRequestsTotal :: "string \<Rightarrow> metrics \<Rightarrow> metrics" where
  "incRequestsTotal m x = x\<lparr>mt_requests := count_total m (mt_requests x)\<rparr>"
definition incRequestsSuccess :: "string \<Rightarrow> metrics \<Rightarrow> metrics" where
  "incRequestsSuccess m x = x\<lparr>mt_requests := count_success m (mt_requests x)\<rparr>"
definition incRequestsErrors :: "string \<Rightarrow> metrics \<Rightarrow> metrics" where
  "incRequestsErrors m x = x\<lparr>mt_requests := count_error m (mt_requests x)\<rparr>"
definition observeRequestDuration :: "string \<Rightarrow> duration \<Rightarrow> metrics \<Rightarrow> metrics" where
  "observeRequestDuration m d x = x\<lparr>mt_requests := count_duration m d (mt_requests x)\<rparr>"

definition incNotificationsTotal :: "string \<Rightarrow> metrics \<Rightarrow> metrics" where
  "incNotificationsTotal m x = x\<lparr>mt_notifications := count_total m (mt_notifications x)\<rparr>"
definition incNotificationsSuccess :: "string \<Rightarrow> metrics \<Rightarrow> metrics" where
  "incNotificationsSuccess m x = x\<lparr>mt_notifications := count_success m (mt_notifications x)\<rparr>"
definition incNotificationsErrors :: "string \<Rightarrow> metrics \<Rightarrow> metrics" where
  "incNotificationsErrors m x = x\<lparr>mt_notifications := count_error m (mt_notifications x)\<rparr>"
definition observeNotificationDuration :: "string \<Rightarrow> duration \<Rightarrow> metrics \<Rightarrow> metrics" where
  "observeNotificationDuration m d x = x\<lparr>mt_notifications := count_duration m d (mt_notifications x)\<rparr>"

definition incIncomingRequestsTotal :: "string \<Rightarrow> metrics \<Rightarrow> metrics" where
  "incIncomingRequestsTotal m x = x\<lparr>mt_incoming_requests := count_total m (mt_incoming_requests x)\<rparr>"
definition incIncomingRequestsSuccess :: "string \<Rightarrow> metrics \<Rightarrow> metrics" where
  "incIncomingRequestsSuccess m x = x\<lparr>mt_incoming_requests := count_success m (mt_incoming_requests x)\<rparr>"
definition incIncomingRequestsErrors :: "string \<Rightarrow> metrics \<Rightarrow> metrics" where
  "incIncomingRequestsErrors m x = x\<lparr>mt_incoming_requests := count_error m (mt_incoming_requests x)\<rparr>"
definition observeIncomingRequestDuration :: "string \<Rightarrow> duration \<Rightarrow> metrics \<Rightarrow> metrics" where
  "observeIncomingRequestDuration m d x = x\<lparr>mt_incoming_requests := count_duration m d (mt_incoming_requests x)\<rparr>"

definition incIncomingNotificationsTotal :: "string \<Rightarrow> metrics \<Rightarrow> metrics" where
  "incIncomingNotificationsTotal m x = x\<lparr>mt_incoming_notifications := count_total m (mt_incoming_notifications x)\<rparr>"
definition incIncomingNotificationsSuccess :: "string \<Rightarrow> metrics \<Rightarrow> metrics" where
  "incIncomingNotificationsSuccess m x = x\<lparr>mt_incoming_notifications := count_success m (mt_incoming_notifications x)\<rparr>"
definition incIncomingNotificationsErrors :: "string \<Rightarrow> metrics \<Rightarrow> metrics" where
  "incIncomingNotificationsErrors m x = x\<lparr>mt_incoming_notifications := count_error m (mt_incoming_notifications x)\<rparr>"
definition observeIncomingNotificationDuration :: "string \<Rightarrow> duration \<Rightarrow> metrics \<Rightarrow> metrics" where
  "observeIncomingNotificationDuration m d x =
     x\<lparr>mt_incoming_notifications := count_duration m d (mt_incoming_notifications x)\<rparr>"

definition incInitializationSuccess :: "metrics \<Rightarrow> metrics" where
  "incInitializationSuccess x = x\<lparr>mt_init_success := wrap64 (mt_init_success x + 1)\<rparr>"
definition incInitializationErrors :: "metrics \<Rightarrow> metrics" where
  "incInitializationErrors x = x\<lparr>mt_init_errors := wrap64 (mt_init_errors x + 1)\<rparr>"
definition setTransportState :: "string \<Rightarrow> metrics \<Rightarrow> metrics" where
  "setTransportState st x = x\<lparr>mt_state := st\<rparr>"

lemmas meter_defs = incRequestsTotal_def incRequestsSuccess_def incRequestsErrors_def observeRequestDuration_def
  incNotificationsTotal_def incNotificationsSuccess_def incNotificationsErrors_def observeNotificationDuration_def
  incIncomingRequestsTotal_def incIncomingRequestsSuccess_def incIncomingRequestsErrors_def
  observeIncomingRequestDuration_def incIncomingNotificationsTotal_def incIncomingNotificationsSuccess_def
  incIncomingNotificationsErrors_def observeIncomingNotificationDuration_def
  incInitializationSuccess_def incInitializationErrors_def setTransportState_def

subsection \<open>The snapshot\<close>

record method_metrics =
  mm_total :: int
  mm_success :: int
  mm_errors :: int
  mm_duration :: duration_metrics

record snapshot =
  sn_state :: string
  sn_requests :: "(string \<times> method_metrics) list"
  sn_notifications :: "(string \<times> method_metrics) list"
  sn_incoming_requests :: "(string \<times> method_metrics) list"
  sn_incoming_notifications :: "(string \<times> method_metrics) list"
  sn_init_success :: int
  sn_init_errors :: int

definition counter :: "(string \<times> int) list \<Rightarrow> string \<Rightarrow> int" where
  "counter cs m = (case map_of cs m of None \<Rightarrow> 0 | Some n \<Rightarrow> n)"

definition tracked :: "(string \<times> tracker) list \<Rightarrow> string \<Rightarrow> tracker" where
  "tracked ts m = (case map_of ts m of None \<Rightarrow> new_tracker | Some t \<Rightarrow> t)"

definition methodMetrics :: "counts \<Rightarrow> string \<Rightarrow> method_metrics" where
  "methodMetrics c m = \<lparr>mm_total = counter (ct_total c) m, mm_success = counter (ct_success c) m,
     mm_errors = counter (ct_errors c) m, mm_duration = stats (tracked (ct_durations c) m)\<rparr>"

definition snapshot_counts :: "counts \<Rightarrow> (string \<times> method_metrics) list" where
  "snapshot_counts c = map (\<lambda>(m, n). (m, methodMetrics c m)) (ct_total c)"

definition take_snapshot :: "metrics \<Rightarrow> snapshot" where
  "take_snapshot x = \<lparr>sn_state = mt_state x, sn_requests = snapshot_counts (mt_requests x),
     sn_notifications = snapshot_counts (mt_notifications x),
     sn_incoming_requests = snapshot_counts (mt_incoming_requests x),
     sn_incoming_notifications = snapshot_counts (mt_incoming_notifications x),
     sn_init_success = mt_init_success x, sn_init_errors = mt_init_errors x\<rparr>"

definition snapshot_String :: "snapshot \<Rightarrow> string" where
  "snapshot_String s = ''TransportMetrics{state='' @ sn_state s @
     '', requests='' @ show_nat (length (sn_requests s)) @
     '' methods, notifications='' @ show_nat (length (sn_notifications s)) @
     '' methods, incoming_requests='' @ show_nat (length (sn_incoming_requests s)) @
     '' methods, incoming_notifications='' @ show_nat (length (sn_incoming_notifications s)) @ '' methods}''"

subsection \<open>The middleware\<close>

record obs_config =
  oc_metrics :: bool
  oc_logging :: bool
  oc_level :: string
  oc_prefix :: string

record obs =
  ob_metrics :: metrics
  ob_log :: "string list"

definition NewObservabilityMiddleware :: "obs_config \<Rightarrow> obs" where
  "NewObservabilityMiddleware cfg = \<lparr>ob_metrics = newTransportMetrics (oc_prefix cfg), ob_log = []\<rparr>"

definition log_line :: "obs_config \<Rightarrow> string \<Rightarrow> obs \<Rightarrow> obs" where
  "log_line cfg t o1 = (if oc_logging cfg then o1\<lparr>ob_log := ob_log o1 @ [t]\<rparr> else o1)"

definition meter :: "obs_config \<Rightarrow> (metrics \<Rightarrow> metrics) \<Rightarrow> obs \<Rightarrow> obs" where
  "meter cfg f o1 = (if oc_metrics cfg then o1\<lparr>ob_metrics := f (ob_metrics o1)\<rparr> else o1)"

text \<open>The time an operation took, and the error it ended with, as the lines show them.\<close>

definition took :: "duration \<Rightarrow> string" where
  "took d = '' duration='' @ show_duration d"

definition failing :: "goerr \<Rightarrow> string" where
  "failing e = '' error='' @ Error e"

text \<open>What the second step is told of the result.\<close>

definition failure :: "goerr + 'r \<Rightarrow> goerr option" where
  "failure x = (case x of Inl e \<Rightarrow> Some e | Inr r \<Rightarrow> None)"

definition responses :: "goerr + 'r list \<Rightarrow> goerr + nat" where
  "responses x = map_sum (\<lambda>e. e) length x"

text \<open>An operation between its two steps.\<close>

definition around :: "(obs \<Rightarrow> obs) \<Rightarrow> (duration \<Rightarrow> goerr + 'r \<Rightarrow> obs \<Rightarrow> obs) \<Rightarrow> instant \<times> instant \<Rightarrow>
    ('w \<Rightarrow> (goerr, 'r) outcome \<times> 'w) \<Rightarrow> obs \<times> 'w \<Rightarrow> (goerr, 'r) outcome \<times> (obs \<times> 'w)" where
  "around begins ends spell act s =
     (case act (snd s) of
        (Panic x, w') \<Rightarrow> (Panic x, (begins (fst s), w'))
      | (Err e, w') \<Rightarrow> (Err e, (ends (time_sub (snd spell) (fst spell)) (Inl e) (begins (fst s)), w'))
      | (Ok r, w') \<Rightarrow> (Ok r, (ends (time_sub (snd spell) (fst spell)) (Inr r) (begins (fst s)), w')))"

definition begin_request :: "obs_config \<Rightarrow> string \<Rightarrow> obs \<Rightarrow> obs" where
  "begin_request cfg m o1 = meter cfg (incRequestsTotal m) (log_line cfg (''Sending request: method='' @ m) o1)"

definition end_request :: "obs_config \<Rightarrow> string \<Rightarrow> duration \<Rightarrow> goerr option \<Rightarrow> obs \<Rightarrow> obs" where
  "end_request cfg m d x o1 =
     meter cfg (observeRequestDuration m d)
       (case x of
          Some e \<Rightarrow> meter cfg (incRequestsErrors m) (log_line cfg (''Request failed: method='' @ m @ took d @ failing e) o1)
        | None \<Rightarrow> meter cfg (incRequestsSuccess m) (log_line cfg (''Request succeeded: method='' @ m @ took d) o1))"

definition obs_SendRequest :: "obs_config \<Rightarrow> (call_ctx \<Rightarrow> string \<Rightarrow> gval \<Rightarrow> 'w \<Rightarrow> (goerr, 'r) outcome \<times> 'w) \<Rightarrow>
    instant \<times> instant \<Rightarrow> call_ctx \<Rightarrow> string \<Rightarrow> gval \<Rightarrow> obs \<times> 'w \<Rightarrow> (goerr, 'r) outcome \<times> (obs \<times> 'w)" where
  "obs_SendRequest cfg send spell cx m p = around (begin_request cfg m) (\<lambda>d x. end_request cfg m d (failure x)) spell (send cx m p)"

definition begin_notification :: "obs_config \<Rightarrow> string \<Rightarrow> obs \<Rightarrow> obs" where
  "begin_notification cfg m o1 =
     meter cfg (incNotificationsTotal m) (log_line cfg (''Sending notification: method='' @ m) o1)"

definition end_notification :: "obs_config \<Rightarrow> string \<Rightarrow> duration \<Rightarrow> goerr option \<Rightarrow> obs \<Rightarrow> obs" where
  "end_notification cfg m d x o1 =
     meter cfg (observeNotificationDuration m d)
       (case x of
          Some e \<Rightarrow> meter cfg (incNotificationsErrors m)
            (log_line cfg (''Notification failed: method='' @ m @ took d @ failing e) o1)
        | None \<Rightarrow> meter cfg (incNotificationsSuccess m)
            (log_line cfg (''Notification succeeded: method='' @ m @ took d) o1))"

definition obs_SendNotification ::
    "obs_config \<Rightarrow> (call_ctx \<Rightarrow> string \<Rightarrow> gval \<Rightarrow> 'w \<Rightarrow> (goerr, unit) outcome \<times> 'w) \<Rightarrow>
    instant \<times> instant \<Rightarrow> call_ctx \<Rightarrow> string \<Rightarrow> gval \<Rightarrow> obs \<times> 'w \<Rightarrow> (goerr, unit) outcome \<times> (obs \<times> 'w)" where
  "obs_SendNotification cfg send spell cx m p =
     around (begin_notification cfg m) (\<lambda>d x. end_notification cfg m d (failure x)) spell (send cx m p)"

definition begin_batch :: "obs_config \<Rightarrow> nat \<Rightarrow> obs \<Rightarrow> obs" where
  "begin_batch cfg n o1 =
     meter cfg (incRequestsTotal ''batch'') (log_line cfg (''Sending batch request: size='' @ show_nat n) o1)"

definition end_batch :: "obs_config \<Rightarrow> nat \<Rightarrow> duration \<Rightarrow> goerr + nat \<Rightarrow> obs \<Rightarrow> obs" where
  "end_batch cfg n d x o1 =
     meter cfg (observeRequestDuration ''batch'' d)
       (case x of
          Inl e \<Rightarrow> meter cfg (incRequestsErrors ''batch'')
            (log_line cfg (''Batch request failed: size='' @ show_nat n @ took d @ failing e) o1)
        | Inr k \<Rightarrow> meter cfg (incRequestsSuccess ''batch'')
            (log_line cfg (''Batch request succeeded: size='' @ show_nat n @ '' responses='' @ show_nat k @ took d) o1))"

definition obs_SendBatchRequest ::
    "obs_config \<Rightarrow> (call_ctx \<Rightarrow> batch_item list \<Rightarrow> 'w \<Rightarrow> (goerr, 'r list) outcome \<times> 'w) \<Rightarrow>
    instant \<times> instant \<Rightarrow> call_ctx \<Rightarrow> batch_item list \<Rightarrow> obs \<times> 'w \<Rightarrow> (goerr, 'r list) outcome \<times> (obs \<times> 'w)" where
  "obs_SendBatchRequest cfg send spell cx items =
     around (begin_batch cfg (length items)) (\<lambda>d x. end_batch cfg (length items) d (responses x)) spell (send cx items)"

text \<open>Handling a batch is logged, not counted.\<close>

definition begin_handle_batch :: "obs_config \<Rightarrow> nat \<Rightarrow> obs \<Rightarrow> obs" where
  "begin_handle_batch cfg n = log_line cfg (''Handling batch request: size='' @ show_nat n)"

definition end_handle_batch :: "obs_config \<Rightarrow> nat \<Rightarrow> duration \<Rightarrow> goerr + nat \<Rightarrow> obs \<Rightarrow> obs" where
  "end_handle_batch cfg n d x = log_line cfg
     (case x of
        Inl e \<Rightarrow> ''Batch request handling failed: size='' @ show_nat n @ took d @ failing e
      | Inr k \<Rightarrow> ''Batch request handling succeeded: size='' @ show_nat n @ '' responses='' @ show_nat k @ took d)"

definition obs_HandleBatchRequest ::
    "obs_config \<Rightarrow> (call_ctx \<Rightarrow> batch_item list \<Rightarrow> 'w \<Rightarrow> (goerr, 'r list) outcome \<times> 'w) \<Rightarrow>
    instant \<times> instant \<Rightarrow> call_ctx \<Rightarrow> batch_item list \<Rightarrow> obs \<times> 'w \<Rightarrow> (goerr, 'r list) outcome \<times> (obs \<times> 'w)" where
  "obs_HandleBatchRequest cfg handle spell cx items =
     around (begin_handle_batch cfg (length items)) (\<lambda>d x. end_handle_batch cfg (length items) d (responses x)) spell (handle cx items)"

definition begin_initialize :: "obs_config \<Rightarrow> obs \<Rightarrow> obs" where
  "begin_initialize cfg = log_line cfg ''Initializing transport''"

definition end_initialize :: "obs_config \<Rightarrow> duration \<Rightarrow> goerr option \<Rightarrow> obs \<Rightarrow> obs" where
  "end_initialize cfg d x o1 =
     (case x of
        Some e \<Rightarrow> meter cfg incInitializationErrors
          (log_line cfg (''Transport initialization failed:'' @ took d @ failing e) o1)
      | None \<Rightarrow> meter cfg incInitializationSuccess
          (log_line cfg (''Transport initialized successfully:'' @ took d) o1))"

definition obs_Initialize :: "obs_config \<Rightarrow> ('w \<Rightarrow> (goerr, unit) outcome \<times> 'w) \<Rightarrow> instant \<times> instant \<Rightarrow>
    obs \<times> 'w \<Rightarrow> (goerr, unit) outcome \<times> (obs \<times> 'w)" where
  "obs_Initialize cfg init spell = around (begin_initialize cfg) (\<lambda>d x. end_initialize cfg d (failure x)) spell init"

definition begin_start :: "obs_config \<Rightarrow> obs \<Rightarrow> obs" where
  "begin_start cfg o1 = meter cfg (setTransportState ''running'') (log_line cfg ''Starting transport'' o1)"

definition end_start :: "obs_config \<Rightarrow> goerr option \<Rightarrow> obs \<Rightarrow> obs" where
  "end_start cfg x o1 = meter cfg (setTransportState ''stopped'')
     (log_line cfg (case x of Some e \<Rightarrow> ''Transport start failed:'' @ failing e | None \<Rightarrow> ''Transport stopped'') o1)"

definition obs_Start :: "obs_config \<Rightarrow> ('w \<Rightarrow> (goerr, unit) outcome \<times> 'w) \<Rightarrow>
    obs \<times> 'w \<Rightarrow> (goerr, unit) outcome \<times> (obs \<times> 'w)" where
  "obs_Start cfg start = around (begin_start cfg) (\<lambda>d x. end_start cfg (failure x)) (0, 0) start"

definition begin_stop :: "obs_config \<Rightarrow> obs \<Rightarrow> obs" where
  "begin_stop cfg = log_line cfg ''Stopping transport''"

definition end_stop :: "obs_config \<Rightarrow> goerr option \<Rightarrow> obs \<Rightarrow> obs" where
  "end_stop cfg x o1 = meter cfg (setTransportState ''stopped'')
     (log_line cfg (case x of Some e \<Rightarrow> ''Transport stop failed:'' @ failing e
        | None \<Rightarrow> ''Transport stopped successfully'') o1)"

definition obs_Stop :: "obs_config \<Rightarrow> ('w \<Rightarrow> (goerr, unit) outcome \<times> 'w) \<Rightarrow>
    obs \<times> 'w \<Rightarrow> (goerr, unit) outcome \<times> (obs \<times> 'w)" where
  "obs_Stop cfg stop = around (begin_stop cfg) (\<lambda>d x. end_stop cfg (failure x)) (0, 0) stop"

text \<open>Incoming messages.\<close>

definition about_request :: "request \<Rightarrow> string" where
  "about_request r = '' method='' @ req_method r @ '' id='' @ go_str (req_id r)"

definition begin_incoming :: "obs_config \<Rightarrow> request \<Rightarrow> obs \<Rightarrow> obs" where
  "begin_incoming cfg r o1 = meter cfg (incIncomingRequestsTotal (req_method r))
     (log_line cfg (''Handling incoming request:'' @ about_request r) o1)"

definition end_incoming :: "obs_config \<Rightarrow> request \<Rightarrow> duration \<Rightarrow> goerr option \<Rightarrow> obs \<Rightarrow> obs" where
  "end_incoming cfg r d x o1 =
     meter cfg (observeIncomingRequestDuration (req_method r) d)
       (case x of
          Some e \<Rightarrow> meter cfg (incIncomingRequestsErrors (req_method r))
            (log_line cfg (''Incoming request failed:'' @ about_request r @ took d @ failing e) o1)
        | None \<Rightarrow> meter cfg (incIncomingRequestsSuccess (req_method r))
            (log_line cfg (''Incoming request handled:'' @ about_request r @ took d) o1))"

definition obs_HandleRequest ::
    "obs_config \<Rightarrow> (call_ctx \<Rightarrow> request \<Rightarrow> 'w \<Rightarrow> (goerr, response) outcome \<times> 'w) \<Rightarrow>
    instant \<times> instant \<Rightarrow> call_ctx \<Rightarrow> request \<Rightarrow> obs \<times> 'w \<Rightarrow> (goerr, response) outcome \<times> (obs \<times> 'w)" where
  "obs_HandleRequest cfg handle spell cx r = around (begin_incoming cfg r) (\<lambda>d x. end_incoming cfg r d (failure x)) spell (handle cx r)"

definition begin_incoming_notification :: "obs_config \<Rightarrow> string \<Rightarrow> obs \<Rightarrow> obs" where
  "begin_incoming_notification cfg m o1 = meter cfg (incIncomingNotificationsTotal m)
     (log_line cfg (''Handling incoming notification: method='' @ m) o1)"

definition end_incoming_notification :: "obs_config \<Rightarrow> string \<Rightarrow> duration \<Rightarrow> goerr option \<Rightarrow> obs \<Rightarrow> obs" where
  "end_incoming_notification cfg m d x o1 =
     meter cfg (observeIncomingNotificationDuration m d)
       (case x of
          Some e \<Rightarrow> meter cfg (incIncomingNotificationsErrors m)
            (log_line cfg (''Incoming notification failed: method='' @ m @ took d @ failing e) o1)
        | None \<Rightarrow> meter cfg (incIncomingNotificationsSuccess m)
            (log_line cfg (''Incoming notification handled: method='' @ m @ took d) o1))"

definition obs_HandleNotification ::
    "obs_config \<Rightarrow> (call_ctx \<Rightarrow> notification \<Rightarrow> 'w \<Rightarrow> (goerr, unit) outcome \<times> 'w) \<Rightarrow>
    instant \<times> instant \<Rightarrow> call_ctx \<Rightarrow> notification \<Rightarrow> obs \<times> 'w \<Rightarrow> (goerr, unit) outcome \<times> (obs \<times> 'w)" where
  "obs_HandleNotification cfg handle spell cx n =
     around (begin_incoming_notification cfg (notif_method n)) 
       (\<lambda>d x. end_incoming_notification cfg (notif_method n) d (failure x)) spell (handle cx n)"

definition GetMetrics :: "obs_config \<Rightarrow> obs \<Rightarrow> snapshot option" where
  "GetMetrics cfg o1 = (if oc_metrics cfg then Some (take_snapshot (ob_metrics o1)) else None)"


subsection \<open>Statistics of durations\<close>

text \<open>The durations since the last one that was zero, that one left out.\<close>

definition since_zero :: "duration list \<Rightarrow> duration list" where
  "since_zero ds = rev (takeWhile (\<lambda>d. d \<noteq> 0) (rev ds))"

definition least :: "duration list \<Rightarrow> duration" where
  "least ds = (case ds of [] \<Rightarrow> 0 | _ \<Rightarrow> Min (set ds))"

definition observed :: "duration list \<Rightarrow> tracker" where
  "observed ds = fold observe ds new_tracker"

lemma observed_simps: "observed [] = new_tracker" "observed (ds @ [d]) = observe d (observed ds)"
  by (simp_all add: observed_def)

lemma since_zero_snoc: "since_zero (ds @ [d]) = (if d = 0 then [] else since_zero ds @ [d])"
  by (simp add: since_zero_def)

lemma least_nonempty: "ds \<noteq> [] \<Longrightarrow> least ds = Min (set ds)"
  by (cases ds) (simp_all add: least_def)

lemma least_snoc: "least (ds @ [d]) = (if ds = [] then d else min (least ds) d)"
  by (simp add: least_nonempty min.commute)

lemma observed_fields:
  assumes "\<forall>d \<in> set ds. 0 \<le> d"
  shows "tk_count (observed ds) = wrap64 (int (length ds)) \<and> tk_total (observed ds) = wrap64 (sum_list ds) \<and>
    tk_min (observed ds) = least (since_zero ds) \<and> tk_max (observed ds) = Max (insert 0 (set ds))"
  using assms
proof (induction ds rule: rev_induct)
  case Nil
  show ?case by (simp add: observed_simps new_tracker_def since_zero_def least_def wrap64_id in_int64_def)
next
  case (snoc d ds)
  let ?z = "since_zero ds"
  have d: "0 \<le> d" and ds: "\<forall>d \<in> set ds. 0 \<le> d" using snoc.prems by auto
  note ih = snoc.IH [OF ds]
  have pos: "0 < x" if "x \<in> set ?z" for x
    using that ds set_takeWhileD [of x "\<lambda>d. d \<noteq> 0" "rev ds"] by (auto simp: since_zero_def order_less_le)
  have "0 < least ?z" if "?z \<noteq> []"
    using that pos Min_in [of "set ?z"] by (simp add: least_nonempty)
  then have "least ?z = 0 \<longleftrightarrow> ?z = []" "0 \<le> least ?z"
    by (cases "?z = []"; simp add: least_def)+
  then have least: "tk_min (observed (ds @ [d])) = least (since_zero (ds @ [d]))"
    using ih d by (simp add: observed_simps observe_def since_zero_snoc least_snoc least_def [of "[]"] least_def [of "[d]"])
  have "insert 0 (set (ds @ [d])) = insert d (insert 0 (set ds))" by auto
  then have "Max (insert 0 (set (ds @ [d]))) = max d (Max (insert 0 (set ds)))"
    by (simp only: Max_insert [of "insert 0 (set ds)"] finite_insert List.finite_set insert_not_empty simp_thms)
  moreover have "tk_max (observed (ds @ [d])) = max d (tk_max (observed ds))"
    by (simp add: observed_simps observe_def max_def)
  ultimately have "tk_max (observed (ds @ [d])) = Max (insert 0 (set (ds @ [d])))"
    using ih by (simp only: simp_thms)
  with least show ?case
    using ih by (simp add: observed_simps observe_def add.commute del: set_append)
qed

lemma wrap64_nat: "n < 2 ^ 63 \<Longrightarrow> wrap64 (int n) = int n"
  by (rule wrap64_id) (simp add: in_int64_def)

text \<open>
  What the statistics of recorded durations show, when neither their number nor their sum overflows:
  the number, the sum, the largest and the average of them; but the minimum is only that of the durations
  recorded since the last one of zero (zero when there is none), not that of all of them.
\<close>

theorem duration_statistics:
  assumes "\<forall>d \<in> set ds. 0 \<le> d" "ds \<noteq> []" "sum_list ds < 2 ^ 63" "length ds < 2 ^ 63"
  shows "stats (observed ds) = \<lparr>dm_count = int (length ds), dm_total = sum_list ds, dm_min = least (since_zero ds),
    dm_max = Max (set ds), dm_avg = sum_list ds div int (length ds)\<rparr>"
proof -
  note fields = observed_fields [OF assms(1)]
  have n: "wrap64 (int (length ds)) = int (length ds)" "0 < length ds"
    using assms(2,4) by (simp_all add: wrap64_nat)
  have nonneg: "0 \<le> sum_list ds" using assms(1) by (intro sum_list_nonneg) simp
  then have "wrap64 (sum_list ds) = sum_list ds"
    using assms(3) by (intro wrap64_id) (simp add: in_int64_def)
  moreover have "Max (insert 0 (set ds)) = Max (set ds)"
    using assms(1,2) Max_in [of "set ds"] by simp
  moreover have "go_div (sum_list ds) (int (length ds)) = sum_list ds div int (length ds)"
    using nonneg n(2) by (cases "sum_list ds = 0") (simp_all add: go_div_def)
  ultimately show ?thesis using fields n by (simp add: stats_def)
qed

theorem duration_statistics_witness:
  "stats (observed [5, 0, 7, 9]) = \<lparr>dm_count = 4, dm_total = 21, dm_min = 7, dm_max = 9, dm_avg = 5\<rparr>"
  using duration_statistics [of "[5, 0, 7, 9]"] by (simp add: since_zero_def least_def)

subsection \<open>The accounts\<close>

datatype traffic = Requests | Notifications | IncomingRequests | IncomingNotifications

fun traffic_counts :: "traffic \<Rightarrow> metrics \<Rightarrow> counts" where
  "traffic_counts Requests x = mt_requests x"
| "traffic_counts Notifications x = mt_notifications x"
| "traffic_counts IncomingRequests x = mt_incoming_requests x"
| "traffic_counts IncomingNotifications x = mt_incoming_notifications x"

fun traffic_snapshot :: "traffic \<Rightarrow> snapshot \<Rightarrow> (string \<times> method_metrics) list" where
  "traffic_snapshot Requests s = sn_requests s"
| "traffic_snapshot Notifications s = sn_notifications s"
| "traffic_snapshot IncomingRequests s = sn_incoming_requests s"
| "traffic_snapshot IncomingNotifications s = sn_incoming_notifications s"

text \<open>
  Runs of the middleware: operations of any kind begin and end in any order, those that began and did
  not end (yet) are in the multiset. A batch is a request with the method \<open>batch\<close>. One whose wrapped
  operation panics stays in flight for ever.
\<close>

inductive obs_run :: "obs_config \<Rightarrow> obs \<Rightarrow> (traffic \<times> string) multiset \<Rightarrow> bool" for cfg where
  "obs_run cfg (NewObservabilityMiddleware cfg) {#}"
| "obs_run cfg s F \<Longrightarrow> obs_run cfg (begin_request cfg m s) (add_mset (Requests, m) F)"
| "obs_run cfg s (add_mset (Requests, m) F) \<Longrightarrow> obs_run cfg (end_request cfg m d x s) F"
| "obs_run cfg s F \<Longrightarrow> obs_run cfg (begin_notification cfg m s) (add_mset (Notifications, m) F)"
| "obs_run cfg s (add_mset (Notifications, m) F) \<Longrightarrow> obs_run cfg (end_notification cfg m d x s) F"
| "obs_run cfg s F \<Longrightarrow> obs_run cfg (begin_batch cfg n s) (add_mset (Requests, ''batch'') F)"
| "obs_run cfg s (add_mset (Requests, ''batch'') F) \<Longrightarrow> obs_run cfg (end_batch cfg n d z s) F"
| "obs_run cfg s F \<Longrightarrow> obs_run cfg (begin_incoming cfg r s) (add_mset (IncomingRequests, req_method r) F)"
| "obs_run cfg s (add_mset (IncomingRequests, req_method r) F) \<Longrightarrow> obs_run cfg (end_incoming cfg r d x s) F"
| "obs_run cfg s F \<Longrightarrow> obs_run cfg (begin_incoming_notification cfg m s) (add_mset (IncomingNotifications, m) F)"
| "obs_run cfg s (add_mset (IncomingNotifications, m) F) \<Longrightarrow> obs_run cfg (end_incoming_notification cfg m d x s) F"
| "obs_run cfg s F \<Longrightarrow> obs_run cfg (begin_handle_batch cfg n s) F"
| "obs_run cfg s F \<Longrightarrow> obs_run cfg (end_handle_batch cfg n d z s) F"
| "obs_run cfg s F \<Longrightarrow> obs_run cfg (begin_initialize cfg s) F"
| "obs_run cfg s F \<Longrightarrow> obs_run cfg (end_initialize cfg d x s) F"
| "obs_run cfg s F \<Longrightarrow> obs_run cfg (begin_start cfg s) F"
| "obs_run cfg s F \<Longrightarrow> obs_run cfg (end_start cfg x s) F"
| "obs_run cfg s F \<Longrightarrow> obs_run cfg (begin_stop cfg s) F"
| "obs_run cfg s F \<Longrightarrow> obs_run cfg (end_stop cfg x s) F"

text \<open>The accounts of one kind of traffic, when \<open>f\<close> operations are in flight for each method.\<close>

definition settled :: "counts \<Rightarrow> (string \<Rightarrow> nat) \<Rightarrow> bool" where
  "settled c f \<longleftrightarrow>
     (\<forall>m. counter (ct_total c) m = wrap64 (counter (ct_success c) m + counter (ct_errors c) m + int (f m)))"

definition timed :: "counts \<Rightarrow> (string \<Rightarrow> nat) \<Rightarrow> bool" where
  "timed c f \<longleftrightarrow> (\<forall>m. counter (ct_total c) m = wrap64 (tk_count (tracked (ct_durations c) m) + int (f m)))"

lemma counter_add_one: "counter (add_one m cs) x = (if x = m then wrap64 (counter cs m + 1) else counter cs x)"
  by (auto simp: counter_def add_one_def getOrCreateInt64Counter_def map_of_put_assoc map_add_def split: option.splits)

lemma tracked_add_duration:
  "tracked (add_duration m d ts) x = (if x = m then observe d (tracked ts m) else tracked ts x)"
  by (auto simp: tracked_def add_duration_def getOrCreateDurationTracker_def map_of_put_assoc map_add_def split: option.splits)

lemma wrap64_add_inner: "wrap64 (x + (y + wrap64 z)) = wrap64 (x + (y + z))"
  using wrap64_add(2) [of "x + y" z] by (simp only: add.assoc)

lemma accounts_new: "settled new_counts (\<lambda>m. 0)" "timed new_counts (\<lambda>m. 0)"
  by (simp_all add: settled_def timed_def new_counts_def counter_def tracked_def new_tracker_def in_int64_def)

lemma accounts_begin:
  "settled c f \<Longrightarrow> settled (count_total m c) (\<lambda>x. if m = x then Suc (f x) else f x)"
  "timed c f \<Longrightarrow> timed (count_total m c) (\<lambda>x. if m = x then Suc (f x) else f x)"
  by (simp_all add: settled_def timed_def count_total_def counter_add_one algebra_simps)

lemma accounts_end:
  "settled c (\<lambda>x. if m = x then Suc (f x) else f x) \<Longrightarrow> settled (count_duration m d (count_success m c)) f"
  "settled c (\<lambda>x. if m = x then Suc (f x) else f x) \<Longrightarrow> settled (count_duration m d (count_error m c)) f"
  "timed c (\<lambda>x. if m = x then Suc (f x) else f x) \<Longrightarrow> timed (count_duration m d (count_success m c)) f"
  "timed c (\<lambda>x. if m = x then Suc (f x) else f x) \<Longrightarrow> timed (count_duration m d (count_error m c)) f"
  by (simp_all add: settled_def timed_def count_duration_def count_success_def count_error_def counter_add_one
      tracked_add_duration observe_def wrap64_add_inner algebra_simps)

definition accounts :: "metrics \<Rightarrow> (traffic \<times> string) multiset \<Rightarrow> bool" where
  "accounts x F \<longleftrightarrow> (\<forall>k. settled (traffic_counts k x) (\<lambda>m. count F (k, m)) \<and>
     timed (traffic_counts k x) (\<lambda>m. count F (k, m)))"

lemma in_flight: "(\<lambda>x. count (add_mset (k, m) F) (k', x)) =
    (if k' = k then (\<lambda>x. if m = x then Suc (count F (k, x)) else count F (k, x)) else (\<lambda>x. count F (k', x)))"
  by (auto simp: fun_eq_iff)

lemma all_traffic: "(\<forall>k. P k) \<longleftrightarrow> P Requests \<and> P Notifications \<and> P IncomingRequests \<and> P IncomingNotifications"
  by (metis traffic.exhaust)

lemma accounts_counted:
  assumes "accounts x F"
  shows "accounts (incRequestsTotal m x) (add_mset (Requests, m) F)"
    "accounts (incNotificationsTotal m x) (add_mset (Notifications, m) F)"
    "accounts (incIncomingRequestsTotal m x) (add_mset (IncomingRequests, m) F)"
    "accounts (incIncomingNotificationsTotal m x) (add_mset (IncomingNotifications, m) F)"
  using assms by (simp_all add: accounts_def in_flight all_traffic meter_defs accounts_begin)

lemma accounts_requests_end:
  assumes "accounts x (add_mset (Requests, m) F)"
  shows "accounts (observeRequestDuration m d (incRequestsSuccess m x)) F"
    "accounts (observeRequestDuration m d (incRequestsErrors m x)) F"
  using assms by (simp_all add: accounts_def in_flight all_traffic meter_defs accounts_end)

lemma accounts_notifications_end:
  assumes "accounts x (add_mset (Notifications, m) F)"
  shows "accounts (observeNotificationDuration m d (incNotificationsSuccess m x)) F"
    "accounts (observeNotificationDuration m d (incNotificationsErrors m x)) F"
  using assms by (simp_all add: accounts_def in_flight all_traffic meter_defs accounts_end)

lemma accounts_incoming_requests_end:
  assumes "accounts x (add_mset (IncomingRequests, m) F)"
  shows "accounts (observeIncomingRequestDuration m d (incIncomingRequestsSuccess m x)) F"
    "accounts (observeIncomingRequestDuration m d (incIncomingRequestsErrors m x)) F"
  using assms by (simp_all add: accounts_def in_flight all_traffic meter_defs accounts_end)

lemma accounts_incoming_notifications_end:
  assumes "accounts x (add_mset (IncomingNotifications, m) F)"
  shows "accounts (observeIncomingNotificationDuration m d (incIncomingNotificationsSuccess m x)) F"
    "accounts (observeIncomingNotificationDuration m d (incIncomingNotificationsErrors m x)) F"
  using assms by (simp_all add: accounts_def in_flight all_traffic meter_defs accounts_end)

lemma accounts_other:
  "accounts (incInitializationSuccess x) F = accounts x F" "accounts (incInitializationErrors x) F = accounts x F"
  "accounts (setTransportState st x) F = accounts x F"
  by (simp_all add: accounts_def all_traffic meter_defs)

lemma metrics_log_line [simp]: "ob_metrics (log_line cfg t s) = ob_metrics s"
  by (simp add: log_line_def)

lemma metrics_meter: "oc_metrics cfg \<Longrightarrow> ob_metrics (meter cfg f s) = f (ob_metrics s)"
  by (simp add: meter_def)

lemmas bracket_defs = begin_request_def end_request_def begin_notification_def end_notification_def
  begin_batch_def end_batch_def begin_incoming_def end_incoming_def begin_incoming_notification_def
  end_incoming_notification_def begin_handle_batch_def end_handle_batch_def begin_initialize_def
  end_initialize_def begin_start_def end_start_def begin_stop_def end_stop_def

lemma obs_run_accounts:
  assumes "oc_metrics cfg"
  shows "obs_run cfg s F \<Longrightarrow> accounts (ob_metrics s) F"
proof (induction rule: obs_run.induct)
  case 1
  show ?case
    by (simp add: NewObservabilityMiddleware_def newTransportMetrics_def accounts_def all_traffic accounts_new)
qed (simp_all add: bracket_defs metrics_meter assms accounts_counted accounts_other accounts_requests_end
    accounts_notifications_end accounts_incoming_requests_end accounts_incoming_notifications_end split: sum.splits option.splits)

lemma stats_count: "dm_count (stats t) = tk_count t"
  by (simp add: stats_def)

lemma snapshot_member:
  assumes "map_of (traffic_snapshot k (take_snapshot x)) m = Some y"
  shows "y = methodMetrics (traffic_counts k x) m"
proof -
  have "map_of (snapshot_counts c) m = Some y \<Longrightarrow> y = methodMetrics c m" for c
    by (drule map_of_SomeD) (auto simp: snapshot_counts_def)
  then show ?thesis using assms by (cases k) (simp_all add: take_snapshot_def)
qed

text \<open>
  C36. The accounts of the metrics balance: whatever operations began and ended, in whatever order, for
  each kind of traffic and each method of a snapshot the operations counted are, modulo 64 bits, the
  successes, the errors and the ones in flight, and one duration was recorded for each that ended.
\<close>

theorem metrics_account:
  assumes "obs_run cfg s F" "GetMetrics cfg s = Some t" "map_of (traffic_snapshot k t) m = Some x"
  shows "mm_total x = wrap64 (mm_success x + mm_errors x + int (count F (k, m))) \<and>
    mm_total x = wrap64 (dm_count (mm_duration x) + int (count F (k, m)))"
proof -
  have on: "oc_metrics cfg" "t = take_snapshot (ob_metrics s)"
    using assms(2) by (auto simp: GetMetrics_def split: if_splits)
  have "x = methodMetrics (traffic_counts k (ob_metrics s)) m"
    using assms(3) on(2) by (simp add: snapshot_member)
  moreover have "settled (traffic_counts k (ob_metrics s)) (\<lambda>m. count F (k, m))"
    "timed (traffic_counts k (ob_metrics s)) (\<lambda>m. count F (k, m))"
    using obs_run_accounts [OF on(1) assms(1)] unfolding accounts_def by blast+
  ultimately show ?thesis
    unfolding settled_def timed_def by (simp only: methodMetrics_def stats_count method_metrics.simps)
qed

definition demo_obs :: obs_config where
  "demo_obs = \<lparr>oc_metrics = True, oc_logging = False, oc_level = ''info'', oc_prefix = ''mcp''\<rparr>"

theorem metrics_account_witness:
  "\<exists>t x. GetMetrics demo_obs (end_request demo_obs ''ping'' 3 None
      (begin_request demo_obs ''ping'' (begin_request demo_obs ''ping'' (NewObservabilityMiddleware demo_obs)))) = Some t \<and>
    map_of (traffic_snapshot Requests t) ''ping'' = Some x \<and>
    mm_total x = wrap64 (mm_success x + mm_errors x + int (count {#(Requests, ''ping'')#} (Requests, ''ping'')))"
proof -
  let ?s = "end_request demo_obs ''ping'' 3 None
      (begin_request demo_obs ''ping'' (begin_request demo_obs ''ping'' (NewObservabilityMiddleware demo_obs)))"
  have run: "obs_run demo_obs ?s {#(Requests, ''ping'')#}"
    by (intro obs_run.intros(1-3))
  have t: "GetMetrics demo_obs ?s = Some (take_snapshot (ob_metrics ?s))"
    by (simp add: GetMetrics_def demo_obs_def)
  have "map fst (ct_total (mt_requests (ob_metrics ?s))) = [''ping'']"
    by (simp add: demo_obs_def bracket_defs meter_def log_line_def NewObservabilityMiddleware_def
        newTransportMetrics_def new_counts_def meter_defs count_total_def count_success_def count_duration_def
        add_one_def getOrCreateInt64Counter_def put_assoc_def)
  then obtain n where "ct_total (mt_requests (ob_metrics ?s)) = [(''ping'', n)]" by auto
  then have "map_of (traffic_snapshot Requests (take_snapshot (ob_metrics ?s))) ''ping'' =
      Some (methodMetrics (mt_requests (ob_metrics ?s)) ''ping'')"
    by (simp add: take_snapshot_def snapshot_counts_def)
  then show ?thesis using metrics_account [OF run t] t by blast
qed

end
