(* ===== verification/Middleware.thy ===== *)
theory Middleware
  imports RateLimit Reliability Metrics
begin

section \<open>Transports and their middleware\<close>

text \<open>
  The configuration of a transport and its defaults (\<open>pkg/transport/transport.go\<close>), the interface of
  transports and the chain of middleware around a base transport (\<open>pkg/transport/middleware.go\<close>), and
  the factories of the middleware that the package \<open>auth\<close> registers (\<open>pkg/auth/factory.go\<close>). The custom
  reader and writer of a stdio configuration, meant for tests, are left out.
\<close>

subsection \<open>Configuration\<close>

record feature_config =
  fc_reliability :: bool
  fc_observability :: bool
  fc_connection_pool :: bool
  fc_load_balancing :: bool
  fc_queuing :: bool
  fc_parallelism :: bool
  fc_streaming :: bool
  fc_batching :: bool
  fc_async_tools :: bool
  fc_authentication :: bool
  fc_rate_limiting :: bool

record connection_config =
  cn_timeout :: duration
  cn_keep_alive :: duration
  cn_max_idle :: int
  cn_max_per_host :: int
  cn_idle_timeout :: duration

record performance_config =
  pf_buffer_size :: int
  pf_flush_interval :: duration
  pf_max_concurrency :: int
  pf_request_timeout :: duration

record load_balancer_config =
  lb_strategy :: string
  lb_endpoints :: "string list"

record queuing_config =
  qu_max_size :: int
  qu_timeout :: duration

record parallelism_config =
  pa_max_workers :: int

record authentication_config =
  an_type :: string
  an_provider :: "(string \<times> gval) list"
  an_required :: bool
  an_anonymous :: bool
  an_expiry :: duration
  an_refresh :: duration
  an_cache :: bool
  an_ttl :: duration

record tls_config =
  tls_enabled :: bool
  tls_cert :: string
  tls_key :: string
  tls_ca :: string
  tls_insecure :: bool
  tls_ciphers :: "string list"
  tls_min_version :: string

record security_config =
  sc_authentication :: "authentication_config option"
  sc_origins :: "string list"
  sc_wildcard :: bool
  sc_tls :: "tls_config option"
  sc_rate_limit :: "rate_config option"

record transport_config =
  tc_type :: string
  tc_endpoint :: string
  tc_features :: feature_config
  tc_connection :: connection_config
  tc_reliability :: rel_config
  tc_observability :: obs_config
  tc_performance :: performance_config
  tc_security :: security_config
  tc_load_balancer :: "load_balancer_config option"
  tc_queuing :: "queuing_config option"
  tc_parallelism :: "parallelism_config option"

definition TransportTypeStdio :: string where "TransportTypeStdio = ''stdio''"
definition TransportTypeHTTP :: string where "TransportTypeHTTP = ''http''"
definition TransportTypeStreamableHTTP :: string where "TransportTypeStreamableHTTP = ''streamable_http''"

lemmas transport_types = TransportTypeStdio_def TransportTypeHTTP_def TransportTypeStreamableHTTP_def

definition DefaultTransportConfig :: "string \<Rightarrow> transport_config" where
  "DefaultTransportConfig t =
     \<lparr>tc_type = t, tc_endpoint = [],
      tc_features = \<lparr>fc_reliability = True, fc_observability = True, fc_connection_pool = False,
        fc_load_balancing = False, fc_queuing = False, fc_parallelism = False, fc_streaming = False,
        fc_batching = False, fc_async_tools = False, fc_authentication = False, fc_rate_limiting = False\<rparr>,
      tc_connection = \<lparr>cn_timeout = 30 * second, cn_keep_alive = 30 * second, cn_max_idle = 100,
        cn_max_per_host = 10, cn_idle_timeout = 90 * second\<rparr>,
      tc_reliability = \<lparr>rel_max_retries = 3, rel_initial_delay = 1 * second, rel_max_delay = 30 * second,
        rel_factor = 2,
        rel_breaker = \<lparr>brc_enabled = True, brc_failures = 5, brc_successes = 2, brc_timeout = 60 * second\<rparr>\<rparr>,
      tc_observability = \<lparr>oc_metrics = True, oc_logging = True, oc_level = ''info'', oc_prefix = ''mcp_transport''\<rparr>,
      tc_performance = \<lparr>pf_buffer_size = 8192, pf_flush_interval = 100 * millisecond, pf_max_concurrency = 100,
        pf_request_timeout = 30 * second\<rparr>,
      tc_security = \<lparr>sc_authentication = None, sc_origins = [], sc_wildcard = False, sc_tls = None, sc_rate_limit = None\<rparr>,
      tc_load_balancer = None, tc_queuing = None, tc_parallelism = None\<rparr>"

definition ErrUnsupportedTransportType :: goerr where
  "ErrUnsupportedTransportType = ErrText ''unsupported transport type''"

definition validateTransportConfig :: "transport_config \<Rightarrow> goerr option" where
  "validateTransportConfig cfg =
     (if tc_type cfg = TransportTypeStdio then None
      else if tc_type cfg \<in> {TransportTypeStreamableHTTP, TransportTypeHTTP} then
        (if tc_endpoint cfg = [] then Some (ErrText ''endpoint is required for HTTP transports'') else None)
      else Some ErrUnsupportedTransportType)"

subsection \<open>The interface of transports\<close>

text \<open>
  What an operation draws from its surroundings: the readings of the clock and the like, for each layer of
  the chain. A layer that calls the next one gives the \<open>i\<close>-th call surroundings of its own.
\<close>

datatype input_end = EndOfInput | ScanFailed goerr | Cancelled goerr

record moment =
  mo_now :: instant
  mo_attempts :: "nat \<Rightarrow> attempt_env"
  mo_spell :: "instant \<times> instant"
  mo_auth :: readings
  mo_rate :: "instant \<times> instant"
  mo_clock :: "nat \<Rightarrow> instant \<times> instant"
  mo_writer :: writer
  mo_lines :: "string list"
  mo_rounds :: "(string list \<times> string list) list"
  mo_end :: goerr
  mo_timer :: bool
  mo_input :: input_end
  mo_flush :: "goerr option"

type_synonym course = "nat list \<Rightarrow> moment"

definition inner :: "nat \<Rightarrow> course \<Rightarrow> course" where
  "inner i e = (\<lambda>path. e (i # path))"

text \<open>
  A transport on the state \<open>'s\<close>, for handlers \<open>'h\<close> of requests, \<open>'n\<close> of notifications and \<open>'p\<close> of progress.
\<close>

record ('h, 'n, 'p, 's) transport =
  tp_Initialize :: "course \<Rightarrow> 's \<Rightarrow> (goerr, unit) outcome \<times> 's"
  tp_SendRequest :: "course \<Rightarrow> call_ctx \<Rightarrow> string \<Rightarrow> gval \<Rightarrow> 's \<Rightarrow> (goerr, gval) outcome \<times> 's"
  tp_SendNotification :: "course \<Rightarrow> call_ctx \<Rightarrow> string \<Rightarrow> gval \<Rightarrow> 's \<Rightarrow> (goerr, unit) outcome \<times> 's"
  tp_SendBatchRequest :: "course \<Rightarrow> call_ctx \<Rightarrow> batch_item list \<Rightarrow> 's \<Rightarrow> (goerr, response option list) outcome \<times> 's"
  tp_HandleBatchRequest :: "course \<Rightarrow> call_ctx \<Rightarrow> batch_item list \<Rightarrow> 's \<Rightarrow> (goerr, response option list) outcome \<times> 's"
  tp_RegisterRequestHandler :: "string \<Rightarrow> 'h \<Rightarrow> 's \<Rightarrow> 's"
  tp_RegisterNotificationHandler :: "string \<Rightarrow> 'n \<Rightarrow> 's \<Rightarrow> 's"
  tp_RegisterProgressHandler :: "gval \<Rightarrow> 'p \<Rightarrow> 's \<Rightarrow> 's"
  tp_UnregisterProgressHandler :: "gval \<Rightarrow> 's \<Rightarrow> 's"
  tp_Start :: "course \<Rightarrow> 's \<Rightarrow> (goerr, unit) outcome \<times> 's"
  tp_Stop :: "course \<Rightarrow> 's \<Rightarrow> (goerr, unit) outcome \<times> 's"
  tp_HandleResponse :: "response \<Rightarrow> 's \<Rightarrow> (goerr, unit) outcome \<times> 's"
  tp_HandleRequest :: "course \<Rightarrow> call_ctx \<Rightarrow> request \<Rightarrow> 's \<Rightarrow> (goerr, response) outcome \<times> 's"
  tp_HandleNotification :: "course \<Rightarrow> call_ctx \<Rightarrow> notification \<Rightarrow> 's \<Rightarrow> (goerr, unit) outcome \<times> 's"
  tp_GenerateID :: "'s \<Rightarrow> string \<times> 's"
  tp_GetRequestIDPrefix :: "'s \<Rightarrow> string"
  tp_GetNextID :: "'s \<Rightarrow> int \<times> 's"
  tp_Cleanup :: "'s \<Rightarrow> 's"

text \<open>The base of the middleware: every operation goes to the next transport.\<close>

definition middlewareTransport :: "('h, 'n, 'p, 's) transport \<Rightarrow> ('h, 'n, 'p, 's) transport" where
  "middlewareTransport t =
     \<lparr>tp_Initialize = (\<lambda>e. tp_Initialize t (inner 0 e)),
      tp_SendRequest = (\<lambda>e. tp_SendRequest t (inner 0 e)),
      tp_SendNotification = (\<lambda>e. tp_SendNotification t (inner 0 e)),
      tp_SendBatchRequest = (\<lambda>e. tp_SendBatchRequest t (inner 0 e)),
      tp_HandleBatchRequest = (\<lambda>e. tp_HandleBatchRequest t (inner 0 e)),
      tp_RegisterRequestHandler = tp_RegisterRequestHandler t,
      tp_RegisterNotificationHandler = tp_RegisterNotificationHandler t,
      tp_RegisterProgressHandler = tp_RegisterProgressHandler t,
      tp_UnregisterProgressHandler = tp_UnregisterProgressHandler t,
      tp_Start = (\<lambda>e. tp_Start t (inner 0 e)),
      tp_Stop = (\<lambda>e. tp_Stop t (inner 0 e)),
      tp_HandleResponse = tp_HandleResponse t,
      tp_HandleRequest = (\<lambda>e. tp_HandleRequest t (inner 0 e)),
      tp_HandleNotification = (\<lambda>e. tp_HandleNotification t (inner 0 e)),
      tp_GenerateID = tp_GenerateID t,
      tp_GetRequestIDPrefix = tp_GetRequestIDPrefix t,
      tp_GetNextID = tp_GetNextID t,
      tp_Cleanup = tp_Cleanup t\<rparr>"

subsection \<open>The layers\<close>

text \<open>
  The state of a chain over a base with state \<open>'b\<close>: a circuit breaker, the metrics and the log, the cache
  of tokens, the buckets. The builder makes at most one middleware of each kind.
\<close>

record 'b stack =
  sk_breaker :: "breaker option"
  sk_obs :: obs
  sk_cache :: "token_cache option"
  sk_limiter :: limiter
  sk_base :: 'b

definition settle :: "('x \<Rightarrow> 's \<Rightarrow> 's) \<Rightarrow> 'r \<times> ('x \<times> 's) \<Rightarrow> 'r \<times> 's" where
  "settle put z = (case z of (r, (x, s)) \<Rightarrow> (r, put x s))"

definition put_breaker :: "breaker option \<Rightarrow> 'b stack \<Rightarrow> 'b stack" where
  "put_breaker b s = s\<lparr>sk_breaker := b\<rparr>"
definition put_obs :: "obs \<Rightarrow> 'b stack \<Rightarrow> 'b stack" where
  "put_obs x s = s\<lparr>sk_obs := x\<rparr>"
definition put_cache :: "token_cache option \<Rightarrow> 'b stack \<Rightarrow> 'b stack" where
  "put_cache c s = s\<lparr>sk_cache := c\<rparr>"
definition put_limiter :: "limiter \<Rightarrow> 'b stack \<Rightarrow> 'b stack" where
  "put_limiter l s = s\<lparr>sk_limiter := l\<rparr>"

lemmas put_defs = put_breaker_def put_obs_def put_cache_def put_limiter_def

definition reliabilityTransport :: "rel_config \<Rightarrow> ('h, 'n, 'p, 'b stack) transport \<Rightarrow> ('h, 'n, 'p, 'b stack) transport" where
  "reliabilityTransport cfg t = (middlewareTransport t)
     \<lparr>tp_SendRequest := (\<lambda>e cx m p s. settle put_breaker (rel_SendRequest cfg (mo_now (e [])) (mo_attempts (e [])) m
        (\<lambda>i. tp_SendRequest t (inner i e) cx m p) (sk_breaker s, s))),
      tp_SendNotification := (\<lambda>e cx m p s. settle put_breaker (rel_SendNotification cfg (mo_now (e [])) (mo_attempts (e [])) m
        (\<lambda>i. tp_SendNotification t (inner i e) cx m p) (sk_breaker s, s))),
      tp_SendBatchRequest := (\<lambda>e cx items s. settle put_breaker (rel_SendBatchRequest cfg (mo_now (e [])) (mo_attempts (e []))
        (\<lambda>i. tp_SendBatchRequest t (inner i e) cx items) (sk_breaker s, s)))\<rparr>"

definition observabilityTransport :: "obs_config \<Rightarrow> ('h, 'n, 'p, 'b stack) transport \<Rightarrow> ('h, 'n, 'p, 'b stack) transport" where
  "observabilityTransport cfg t = (middlewareTransport t)
     \<lparr>tp_SendRequest := (\<lambda>e cx m p s. settle put_obs
        (obs_SendRequest cfg (tp_SendRequest t (inner 0 e)) (mo_spell (e [])) cx m p (sk_obs s, s))),
      tp_SendNotification := (\<lambda>e cx m p s. settle put_obs
        (obs_SendNotification cfg (tp_SendNotification t (inner 0 e)) (mo_spell (e [])) cx m p (sk_obs s, s))),
      tp_SendBatchRequest := (\<lambda>e cx items s. settle put_obs
        (obs_SendBatchRequest cfg (tp_SendBatchRequest t (inner 0 e)) (mo_spell (e [])) cx items (sk_obs s, s))),
      tp_HandleBatchRequest := (\<lambda>e cx items s. settle put_obs
        (obs_HandleBatchRequest cfg (tp_HandleBatchRequest t (inner 0 e)) (mo_spell (e [])) cx items (sk_obs s, s))),
      tp_Initialize := (\<lambda>e s. settle put_obs (obs_Initialize cfg (tp_Initialize t (inner 0 e)) (mo_spell (e [])) (sk_obs s, s))),
      tp_Start := (\<lambda>e s. settle put_obs (obs_Start cfg (tp_Start t (inner 0 e)) (sk_obs s, s))),
      tp_Stop := (\<lambda>e s. settle put_obs (obs_Stop cfg (tp_Stop t (inner 0 e)) (sk_obs s, s))),
      tp_HandleRequest := (\<lambda>e cx r s. settle put_obs
        (obs_HandleRequest cfg (tp_HandleRequest t (inner 0 e)) (mo_spell (e [])) cx r (sk_obs s, s))),
      tp_HandleNotification := (\<lambda>e cx n s. settle put_obs
        (obs_HandleNotification cfg (tp_HandleNotification t (inner 0 e)) (mo_spell (e [])) cx n (sk_obs s, s)))\<rparr>"

text \<open>The other operations of these two are written out in the code; each calls the wrapped transport.\<close>

definition authTransport :: "auth_config \<Rightarrow> validator \<Rightarrow> ('h, 'n, 'p, 'b stack) transport \<Rightarrow> ('h, 'n, 'p, 'b stack) transport" where
  "authTransport cfg validate t = (middlewareTransport t)
     \<lparr>tp_SendRequest := (\<lambda>e cx m p s. settle put_cache
        (auth_SendRequest cfg validate (tp_SendRequest t (inner 0 e)) (mo_auth (e [])) cx m p (sk_cache s, s))),
      tp_SendNotification := (\<lambda>e cx m p s. settle put_cache
        (auth_SendNotification cfg validate (tp_SendNotification t (inner 0 e)) (mo_auth (e [])) cx m p (sk_cache s, s))),
      tp_SendBatchRequest := (\<lambda>e cx items s. settle put_cache
        (auth_SendBatchRequest cfg validate (tp_SendBatchRequest t (inner 0 e)) (mo_auth (e [])) cx items (sk_cache s, s))),
      tp_HandleRequest := (\<lambda>e cx r s. settle put_cache
        (auth_HandleRequest cfg validate (tp_HandleRequest t (inner 0 e)) (mo_auth (e [])) cx r (sk_cache s, s)))\<rparr>"

definition rateLimitTransport :: "rate_config \<Rightarrow> ('h, 'n, 'p, 'b stack) transport \<Rightarrow> ('h, 'n, 'p, 'b stack) transport" where
  "rateLimitTransport cfg t = (middlewareTransport t)
     \<lparr>tp_SendRequest := (\<lambda>e cx m p s. settle put_limiter
        (rate_SendRequest cfg (tp_SendRequest t (inner 0 e)) (mo_rate (e [])) cx m p (sk_limiter s, s))),
      tp_SendNotification := (\<lambda>e cx m p s. settle put_limiter
        (rate_SendNotification cfg (tp_SendNotification t (inner 0 e)) (mo_rate (e [])) cx m p (sk_limiter s, s))),
      tp_SendBatchRequest := (\<lambda>e cx items s. settle put_limiter
        (rate_SendBatchRequest cfg (tp_SendBatchRequest t (inner 0 e)) (mo_clock (e [])) cx items (sk_limiter s, s))),
      tp_HandleRequest := (\<lambda>e cx r s. settle put_limiter
        (rate_HandleRequest cfg (tp_HandleRequest t (inner 0 e)) (mo_rate (e [])) cx r (sk_limiter s, s)))\<rparr>"

datatype layer =
    ReliabilityLayer rel_config
  | ObservabilityLayer obs_config
  | AuthLayer auth_config validator "token_cache option"
  | RateLimitLayer rate_config limiter

fun Wrap :: "layer \<Rightarrow> ('h, 'n, 'p, 'b stack) transport \<Rightarrow> ('h, 'n, 'p, 'b stack) transport" where
  "Wrap (ReliabilityLayer cfg) t = reliabilityTransport cfg t"
| "Wrap (ObservabilityLayer cfg) t = observabilityTransport cfg t"
| "Wrap (AuthLayer cfg validate c) t = authTransport cfg validate t"
| "Wrap (RateLimitLayer cfg l) t = rateLimitTransport cfg t"

text \<open>The first layer is the outermost.\<close>

definition ChainMiddleware :: "layer list \<Rightarrow> ('h, 'n, 'p, 'b stack) transport \<Rightarrow> ('h, 'n, 'p, 'b stack) transport" where
  "ChainMiddleware layers t = foldr Wrap layers t"

subsection \<open>Building the chain\<close>

definition BuildMiddleware :: "(authentication_config \<Rightarrow> layer option) option \<Rightarrow> (rate_config \<Rightarrow> layer option) option \<Rightarrow>
    transport_config \<Rightarrow> layer list" where
  "BuildMiddleware auth_factory rate_factory cfg =
     (if fc_reliability (tc_features cfg) then [ReliabilityLayer (tc_reliability cfg)] else []) @
     (if fc_observability (tc_features cfg) then [ObservabilityLayer (tc_observability cfg)] else []) @
     (if fc_authentication (tc_features cfg) then
        (case sc_authentication (tc_security cfg) of
           None \<Rightarrow> []
         | Some a \<Rightarrow> (case auth_factory of None \<Rightarrow> [] | Some f \<Rightarrow> (case f a of None \<Rightarrow> [] | Some l \<Rightarrow> [l])))
      else []) @
     (if fc_rate_limiting (tc_features cfg) then
        (case sc_rate_limit (tc_security cfg) of
           None \<Rightarrow> []
         | Some r \<Rightarrow> (case rate_factory of None \<Rightarrow> [] | Some f \<Rightarrow> (case f r of None \<Rightarrow> [] | Some l \<Rightarrow> [l])))
      else [])"

definition provider_int :: "authentication_config \<Rightarrow> string \<Rightarrow> int" where
  "provider_int a k = (case map_of (an_provider a) k of Some (GInt n) \<Rightarrow> n | _ \<Rightarrow> 0)"

definition provider_str :: "authentication_config \<Rightarrow> string \<Rightarrow> string" where
  "provider_str a k = (case map_of (an_provider a) k of Some (GStr x) \<Rightarrow> x | _ \<Rightarrow> [])"

definition factory_cache :: "authentication_config \<Rightarrow> cache_config option" where
  "factory_cache a =
     (if an_cache a then
        (let ttl = (if an_ttl a = 0 then 5 * minute else an_ttl a); half = go_div (an_ttl a) 2 in
         Some \<lparr>cc_enabled = True, cc_max_size = 1000, cc_ttl = ttl,
               cc_cleanup = (if half = 0 then go_div ttl 2 else half)\<rparr>)
      else None)"

definition factory_config :: "authentication_config \<Rightarrow> auth_config" where
  "factory_config a = \<lparr>ac_required = an_required a, ac_anonymous = an_anonymous a, ac_token_expiry = an_expiry a,
     ac_refresh_threshold = an_refresh a, ac_cache = factory_cache a, ac_rbac = None\<rparr>"

definition factory_validator :: "authentication_config \<Rightarrow> validator option" where
  "factory_validator a =
     (if an_type a = ''bearer'' then
        Some (bearer_validator (NewBearerTokenProvider (Some
          \<lparr>bc_token_expiry = an_expiry a, bc_refresh_expiry = wrap64 (an_expiry a * 7),
           bc_token_length = provider_int a ''tokenLength'', bc_refreshable = True, bc_callback = None\<rparr>)))
      else if an_type a = ''apikey'' then
        Some (api_Validate (NewAPIKeyProvider (Some
          \<lparr>akc_prefix = provider_str a ''keyPrefix'', akc_length = provider_int a ''keyLength'', akc_callback = None\<rparr>)))
      else None)"

definition CreateAuthMiddleware :: "authentication_config option \<Rightarrow> layer option" where
  "CreateAuthMiddleware config =
     (case config of
        None \<Rightarrow> None
      | Some a \<Rightarrow>
          (case factory_validator a of
             None \<Rightarrow> None
           | Some validate \<Rightarrow>
               (case NewAuthMiddleware (Some (factory_config a)) of (cfg, c) \<Rightarrow> Some (AuthLayer cfg validate c))))"

definition CreateRateLimitMiddleware :: "rate_config option \<Rightarrow> layer option" where
  "CreateRateLimitMiddleware config =
     (case config of
        None \<Rightarrow> None
      | Some r \<Rightarrow> (case NewRateLimitMiddleware (Some r) of (cfg, l) \<Rightarrow> Some (RateLimitLayer cfg l)))"

text \<open>What the package \<open>auth\<close> registers when it is imported; a configuration is never nil there.\<close>

definition auth_factories :: "(authentication_config \<Rightarrow> layer option) option \<times> (rate_config \<Rightarrow> layer option) option" where
  "auth_factories = (Some (\<lambda>a. CreateAuthMiddleware (Some a)), Some (\<lambda>r. CreateRateLimitMiddleware (Some r)))"

subsection \<open>Constructing a transport\<close>

text \<open>The operations of a base transport on the state of the chain.\<close>

definition at_base :: "('b \<Rightarrow> 'r \<times> 'b) \<Rightarrow> 'b stack \<Rightarrow> 'r \<times> 'b stack" where
  "at_base f s = (case f (sk_base s) of (r, b) \<Rightarrow> (r, s\<lparr>sk_base := b\<rparr>))"

definition on_base :: "('h, 'n, 'p, 'b) transport \<Rightarrow> ('h, 'n, 'p, 'b stack) transport" where
  "on_base t =
     \<lparr>tp_Initialize = (\<lambda>e. at_base (tp_Initialize t e)),
      tp_SendRequest = (\<lambda>e cx m p. at_base (tp_SendRequest t e cx m p)),
      tp_SendNotification = (\<lambda>e cx m p. at_base (tp_SendNotification t e cx m p)),
      tp_SendBatchRequest = (\<lambda>e cx items. at_base (tp_SendBatchRequest t e cx items)),
      tp_HandleBatchRequest = (\<lambda>e cx items. at_base (tp_HandleBatchRequest t e cx items)),
      tp_RegisterRequestHandler = (\<lambda>m h s. s\<lparr>sk_base := tp_RegisterRequestHandler t m h (sk_base s)\<rparr>),
      tp_RegisterNotificationHandler = (\<lambda>m h s. s\<lparr>sk_base := tp_RegisterNotificationHandler t m h (sk_base s)\<rparr>),
      tp_RegisterProgressHandler = (\<lambda>i h s. s\<lparr>sk_base := tp_RegisterProgressHandler t i h (sk_base s)\<rparr>),
      tp_UnregisterProgressHandler = (\<lambda>i s. s\<lparr>sk_base := tp_UnregisterProgressHandler t i (sk_base s)\<rparr>),
      tp_Start = (\<lambda>e. at_base (tp_Start t e)),
      tp_Stop = (\<lambda>e. at_base (tp_Stop t e)),
      tp_HandleResponse = (\<lambda>r. at_base (tp_HandleResponse t r)),
      tp_HandleRequest = (\<lambda>e cx r. at_base (tp_HandleRequest t e cx r)),
      tp_HandleNotification = (\<lambda>e cx n. at_base (tp_HandleNotification t e cx n)),
      tp_GenerateID = at_base (tp_GenerateID t),
      tp_GetRequestIDPrefix = (\<lambda>s. tp_GetRequestIDPrefix t (sk_base s)),
      tp_GetNextID = at_base (tp_GetNextID t),
      tp_Cleanup = (\<lambda>s. s\<lparr>sk_base := tp_Cleanup t (sk_base s)\<rparr>)\<rparr>"

fun new_layer :: "instant \<Rightarrow> layer \<Rightarrow> 'b stack \<Rightarrow> 'b stack" where
  "new_layer zero (ReliabilityLayer cfg) s = put_breaker (NewReliabilityMiddleware zero cfg) s"
| "new_layer zero (ObservabilityLayer cfg) s = put_obs (NewObservabilityMiddleware cfg) s"
| "new_layer zero (AuthLayer cfg validate c) s = put_cache c s"
| "new_layer zero (RateLimitLayer cfg l) s = put_limiter l s"

definition new_stack :: "instant \<Rightarrow> transport_config \<Rightarrow> layer list \<Rightarrow> 'b \<Rightarrow> 'b stack" where
  "new_stack zero cfg layers b = fold (new_layer zero) layers
     \<lparr>sk_breaker = None, sk_obs = NewObservabilityMiddleware (tc_observability cfg), sk_cache = None,
      sk_limiter = Map.empty, sk_base = b\<rparr>"

text \<open>The two constructors of base transports are arguments; \<open>zero\<close> is the zero time.\<close>

definition NewTransport :: "instant \<Rightarrow> (authentication_config \<Rightarrow> layer option) option \<times> (rate_config \<Rightarrow> layer option) option \<Rightarrow>
    (transport_config \<Rightarrow> goerr + ('b \<times> ('h, 'n, 'p, 'b) transport)) \<Rightarrow>
    (transport_config \<Rightarrow> goerr + ('b \<times> ('h, 'n, 'p, 'b) transport)) \<Rightarrow> transport_config \<Rightarrow>
    goerr + ('b stack \<times> ('h, 'n, 'p, 'b stack) transport)" where
  "NewTransport zero factories stdio_base http_base cfg =
     (case validateTransportConfig cfg of
        Some e \<Rightarrow> Inl e
      | None \<Rightarrow>
          (case (if tc_type cfg = TransportTypeStdio then stdio_base cfg
                 else if tc_type cfg \<in> {TransportTypeStreamableHTTP, TransportTypeHTTP} then http_base cfg
                 else Inl ErrUnsupportedTransportType) of
             Inl e \<Rightarrow> Inl e
           | Inr (b, base) \<Rightarrow>
               (let layers = BuildMiddleware (fst factories) (snd factories) cfg in
                Inr (new_stack zero cfg layers b, ChainMiddleware layers (on_base base)))))"

end
