(* ===== verification/Stacks.thy ===== *)
theory Stacks
  imports Middleware EndToEnd
begin

section \<open>The stdio transport under its middleware\<close>

text \<open>
  The stdio transport as a base of the chain of middleware, what \<open>NewTransport\<close> makes of a configuration
  for it, and how the layers act on each other: what a call meets on its way through the chain, and what
  does not pass the chain at all.
\<close>

subsection \<open>Stdio as a base transport\<close>

record 'w stdio_state =
  st_io :: stdio
  st_stopped :: bool
  st_handlers :: "'w handlers"
  st_app :: 'w

definition newStdioTransport :: "'w \<Rightarrow> 'w stdio_state" where
  "newStdioTransport w = \<lparr>st_io = NewStdio, st_stopped = False, st_handlers = NewHandlers, st_app = w\<rparr>"

text \<open>
  The lines that the reader handles while an operation waits. A line that would block it for ever, which
  \<open>processMessage_returns\<close> excludes for the pools that occur, is left out.
\<close>

definition read_line :: "'w handlers \<Rightarrow> writer \<Rightarrow> string \<Rightarrow> stdio \<times> 'w \<Rightarrow> stdio \<times> 'w" where
  "read_line hs werr line sw = (case processMessage hs werr line sw of None \<Rightarrow> sw | Some sw' \<Rightarrow> sw')"

definition read_lines :: "'w handlers \<Rightarrow> writer \<Rightarrow> string list \<Rightarrow> stdio \<times> 'w \<Rightarrow> stdio \<times> 'w" where
  "read_lines hs werr = fold (read_line hs werr)"

definition put_io :: "stdio \<times> 'w \<Rightarrow> 'w stdio_state \<Rightarrow> 'w stdio_state" where
  "put_io sw s = s\<lparr>st_io := fst sw, st_app := snd sw\<rparr>"

definition stdio_SendRequest :: "moment \<Rightarrow> string \<Rightarrow> gval \<Rightarrow> 'w stdio_state \<Rightarrow> (goerr, gval) outcome \<times> 'w stdio_state" where
  "stdio_SendRequest mo m p s =
     (case send_request_line (mo_writer mo) m p (st_io s) of
        (Inl e, c) \<Rightarrow> (Err e, s\<lparr>st_io := c\<rparr>)
      | (Inr i, c) \<Rightarrow>
          (case wait_register i (sd_pool c) of (n, q) \<Rightarrow>
          (case read_lines (st_handlers s) (mo_writer mo) (mo_lines mo) (c\<lparr>sd_pool := q\<rparr>, st_app s) of (c', w) \<Rightarrow>
             (case wait_receive n (sd_pool c') of
                None \<Rightarrow> (Err (ErrWrapped (''error waiting for response: '' @ Error (mo_end mo)) (mo_end mo)),
                  put_io (c'\<lparr>sd_pool := wait_abandon i (sd_pool c')\<rparr>, w) s)
              | Some (x, q') \<Rightarrow>
                  (case finish_request x of Ok r \<Rightarrow> Ok (response_value r) | Err e \<Rightarrow> Err e | Panic t \<Rightarrow> Panic t,
                   put_io (c'\<lparr>sd_pool := q'\<rparr>, w) s)))))"

text \<open>The rounds of polling of a batch: the lines read before, and the order of the ids polled.\<close>

fun batch_rounds :: "'w handlers \<Rightarrow> writer \<Rightarrow> (string list \<times> string list) list \<Rightarrow> batch_wait \<times> (stdio \<times> 'w) \<Rightarrow>
    batch_wait \<times> (stdio \<times> 'w)" where
  "batch_rounds hs werr [] z = z"
| "batch_rounds hs werr ((lines, order) # rest) (b, sw) =
     (if batch_done b then (b, sw)
      else (case read_lines hs werr lines sw of (c, w) \<Rightarrow>
            (case fold batch_poll order (b, sd_pool c) of (b', q) \<Rightarrow>
               batch_rounds hs werr rest (b', (c\<lparr>sd_pool := q\<rparr>, w)))))"

definition batch_timeout_error :: "nat \<Rightarrow> nat \<Rightarrow> goerr" where
  "batch_timeout_error got need =
     ErrText (''timeout waiting for batch responses (got '' @ show_nat got @ '' of '' @ show_nat need @ '')'')"

text \<open>
  Leaving a batch closes its channels, which panics when one of them is closed already. When the rounds
  are over, the context has ended or, with \<open>mo_timer\<close>, the timer has run out.
\<close>

definition finish_batch :: "batch_wait \<Rightarrow> (goerr, 'r) outcome \<Rightarrow> stdio \<times> 'w \<Rightarrow> 'w stdio_state \<Rightarrow>
    (goerr, 'r) outcome \<times> 'w stdio_state" where
  "finish_batch b x cw s =
     (case batch_leave b (sd_pool (fst cw)) of
        Ok q \<Rightarrow> (x, put_io ((fst cw)\<lparr>sd_pool := q\<rparr>, snd cw) s)
      | Err e \<Rightarrow> (Err e, put_io cw s)
      | Panic t \<Rightarrow> (Panic t, put_io cw s))"

definition stdio_SendBatchRequest :: "moment \<Rightarrow> batch_item list \<Rightarrow> 'w stdio_state \<Rightarrow>
    (goerr, response option list) outcome \<times> 'w stdio_state" where
  "stdio_SendBatchRequest mo items s =
     (if items = [] then (Err (ErrText ''batch request is empty''), s)
      else (case batch_request_ToJSON (Some items) of
        Inl e \<Rightarrow> (Err (ErrText ''failed to marshal batch request''), s)
      | Inr data \<Rightarrow>
          (case batch_begin items (sd_pool (st_io s)) of (b, q) \<Rightarrow>
          (case stdio_Send (mo_writer mo) data ((st_io s)\<lparr>sd_pool := q\<rparr>) of
             (Some e, c) \<Rightarrow> finish_batch b (Err (ErrWrapped (''failed to send batch: '' @ Error e) e)) (c, st_app s) s
           | (None, c) \<Rightarrow>
               if bw_need b = 0 then finish_batch b (Ok []) (c, st_app s) s
               else (case batch_rounds (st_handlers s) (mo_writer mo) (mo_rounds mo) (b, (c, st_app s)) of (b', cw) \<Rightarrow>
                 finish_batch b' (if batch_done b' then Ok (batch_result b')
                   else if mo_timer mo then Err (batch_timeout_error (length (bw_got b')) (bw_need b'))
                   else Err (mo_end mo)) cw s)))))"

text \<open>
  \<open>Start\<close>: the reader handles lines, none after a stop, till the input ends, the scanner fails or the
  context is done.
\<close>

definition scanner_error :: "goerr \<Rightarrow> goerr" where
  "scanner_error e =
     (case StdioTransportError ''read_input'' (Some e) of
        Ok m \<Rightarrow> ErrMCP (WithContext (Some (empty_context\<lparr>ctx_component := ''StdioTransport'', ctx_operation := ''scan_input''\<rparr>)) m)
      | _ \<Rightarrow> e)"

definition stdio_Start :: "moment \<Rightarrow> 'w stdio_state \<Rightarrow> (goerr, unit) outcome \<times> 'w stdio_state" where
  "stdio_Start mo s =
     (case mo_input mo of EndOfInput \<Rightarrow> Ok () | ScanFailed e \<Rightarrow> Err (scanner_error e) | Cancelled e \<Rightarrow> Err e,
      if st_stopped s then s
      else put_io (read_lines (st_handlers s) (mo_writer mo) (mo_lines mo) (st_io s, st_app s)) s)"

definition stdio_transport ::
    "('w request_handler, 'w notification_handler, unit, 'w stdio_state) transport" where
  "stdio_transport =
     \<lparr>tp_Initialize = (\<lambda>e s. (Ok (), s)),
      tp_SendRequest = (\<lambda>e cx. stdio_SendRequest (e [])),
      tp_SendNotification = (\<lambda>e cx m p s.
        (case stdio_SendNotification (mo_writer (e [])) m p (st_io s) of
           (x, c) \<Rightarrow> (case x of None \<Rightarrow> Ok () | Some er \<Rightarrow> Err er, s\<lparr>st_io := c\<rparr>))),
      tp_SendBatchRequest = (\<lambda>e cx. stdio_SendBatchRequest (e [])),
      tp_HandleBatchRequest = (\<lambda>e cx items s.
        (case base_HandleBatchRequest (st_handlers s) cx (Some items) (st_app s) of (x, w) \<Rightarrow> (x, s\<lparr>st_app := w\<rparr>))),
      tp_RegisterRequestHandler = (\<lambda>m h s. s\<lparr>st_handlers := RegisterRequestHandler m h (st_handlers s)\<rparr>),
      tp_RegisterNotificationHandler = (\<lambda>m h s. s\<lparr>st_handlers := RegisterNotificationHandler m h (st_handlers s)\<rparr>),
      tp_RegisterProgressHandler = (\<lambda>i h s. s),
      tp_UnregisterProgressHandler = (\<lambda>i s. s),
      tp_Start = (\<lambda>e. stdio_Start (e [])),
      tp_Stop = (\<lambda>e s. (case stdio_Stop (mo_flush (e [])) (st_stopped s, st_io s) of
         (x, (b, c)) \<Rightarrow> (case x of None \<Rightarrow> Ok () | Some er \<Rightarrow> Err er, s\<lparr>st_stopped := b, st_io := c\<rparr>))),
      tp_HandleResponse = (\<lambda>r s. (case HandleResponse r (sd_pool (st_io s)) of
         Delivered q \<Rightarrow> (Ok (), s\<lparr>st_io := (st_io s)\<lparr>sd_pool := q\<rparr>\<rparr>)
       | ClosedChannel \<Rightarrow> (Panic ''send on closed channel'', s)
       | Blocked \<Rightarrow> (Ok (), s))),
      tp_HandleRequest = (\<lambda>e cx r s.
        (case base_HandleRequest (st_handlers s) cx r (st_app s) of (x, w) \<Rightarrow> (x, s\<lparr>st_app := w\<rparr>))),
      tp_HandleNotification = (\<lambda>e cx n s.
        (case base_HandleNotification (st_handlers s) cx n (st_app s) of
           (x, w) \<Rightarrow> (case x of None \<Rightarrow> Ok () | Some er \<Rightarrow> Err er, s\<lparr>st_app := w\<rparr>))),
      tp_GenerateID = (\<lambda>s. (case GenerateID (sd_ids (st_io s)) of
         (i, ids) \<Rightarrow> (i, s\<lparr>st_io := (st_io s)\<lparr>sd_ids := ids\<rparr>\<rparr>))),
      tp_GetRequestIDPrefix = (\<lambda>s. is_prefix (sd_ids (st_io s))),
      tp_GetNextID = (\<lambda>s. (case GetNextID (sd_ids (st_io s)) of
         (i, ids) \<Rightarrow> (i, s\<lparr>st_io := (st_io s)\<lparr>sd_ids := ids\<rparr>\<rparr>))),
      tp_Cleanup = (\<lambda>s. s\<lparr>st_io := (st_io s)\<lparr>sd_pool := pool_Cleanup (sd_pool (st_io s))\<rparr>\<rparr>)\<rparr>"

text \<open>What \<open>NewTransport\<close> returns for a stdio configuration, for an application in state \<open>w\<close>.\<close>

definition NewStdioStack :: "instant \<Rightarrow> 'w \<Rightarrow> transport_config \<Rightarrow>
    goerr + ('w stdio_state stack \<times>
      ('w request_handler, 'w notification_handler, unit, 'w stdio_state stack) transport)" where
  "NewStdioStack zero w cfg = NewTransport zero auth_factories (\<lambda>c. Inr (newStdioTransport w, stdio_transport))
     (\<lambda>c. Inl ErrUnsupportedTransportType) (cfg\<lparr>tc_type := TransportTypeStdio\<rparr>)"

subsection \<open>States of a chain\<close>

text \<open>The states that a transport passes through, whatever is called on it.\<close>

inductive operated :: "('h, 'n, 'p, 's) transport \<Rightarrow> 's \<Rightarrow> 's \<Rightarrow> bool" for T s0 where
  "operated T s0 s0"
| "operated T s0 s \<Longrightarrow> operated T s0 (snd (tp_Initialize T e s))"
| "operated T s0 s \<Longrightarrow> operated T s0 (snd (tp_SendRequest T e cx m p s))"
| "operated T s0 s \<Longrightarrow> operated T s0 (snd (tp_SendNotification T e cx m p s))"
| "operated T s0 s \<Longrightarrow> operated T s0 (snd (tp_SendBatchRequest T e cx items s))"
| "operated T s0 s \<Longrightarrow> operated T s0 (snd (tp_HandleBatchRequest T e cx items s))"
| "operated T s0 s \<Longrightarrow> operated T s0 (tp_RegisterRequestHandler T m h s)"
| "operated T s0 s \<Longrightarrow> operated T s0 (tp_RegisterNotificationHandler T m n s)"
| "operated T s0 s \<Longrightarrow> operated T s0 (tp_RegisterProgressHandler T i f s)"
| "operated T s0 s \<Longrightarrow> operated T s0 (tp_UnregisterProgressHandler T i s)"
| "operated T s0 s \<Longrightarrow> operated T s0 (snd (tp_Start T e s))"
| "operated T s0 s \<Longrightarrow> operated T s0 (snd (tp_Stop T e s))"
| "operated T s0 s \<Longrightarrow> operated T s0 (snd (tp_HandleResponse T x s))"
| "operated T s0 s \<Longrightarrow> operated T s0 (snd (tp_HandleRequest T e cx r s))"
| "operated T s0 s \<Longrightarrow> operated T s0 (snd (tp_HandleNotification T e cx y s))"
| "operated T s0 s \<Longrightarrow> operated T s0 (snd (tp_GenerateID T s))"
| "operated T s0 s \<Longrightarrow> operated T s0 (snd (tp_GetNextID T s))"
| "operated T s0 s \<Longrightarrow> operated T s0 (tp_Cleanup T s)"

text \<open>A property of states that every operation keeps.\<close>

definition keeps :: "('s \<Rightarrow> bool) \<Rightarrow> ('h, 'n, 'p, 's) transport \<Rightarrow> bool" where
  "keeps I T \<longleftrightarrow> (\<forall>s. I s \<longrightarrow>
     (\<forall>e. I (snd (tp_Initialize T e s))) \<and> (\<forall>e cx m p. I (snd (tp_SendRequest T e cx m p s))) \<and>
     (\<forall>e cx m p. I (snd (tp_SendNotification T e cx m p s))) \<and> (\<forall>e cx b. I (snd (tp_SendBatchRequest T e cx b s))) \<and>
     (\<forall>e cx b. I (snd (tp_HandleBatchRequest T e cx b s))) \<and> (\<forall>m h. I (tp_RegisterRequestHandler T m h s)) \<and>
     (\<forall>m n. I (tp_RegisterNotificationHandler T m n s)) \<and> (\<forall>i f. I (tp_RegisterProgressHandler T i f s)) \<and>
     (\<forall>i. I (tp_UnregisterProgressHandler T i s)) \<and> (\<forall>e. I (snd (tp_Start T e s))) \<and> (\<forall>e. I (snd (tp_Stop T e s))) \<and>
     (\<forall>x. I (snd (tp_HandleResponse T x s))) \<and> (\<forall>e cx r. I (snd (tp_HandleRequest T e cx r s))) \<and>
     (\<forall>e cx y. I (snd (tp_HandleNotification T e cx y s))) \<and> I (snd (tp_GenerateID T s)) \<and>
     I (snd (tp_GetNextID T s)) \<and> I (tp_Cleanup T s))"

lemma operated_keeps: "operated T s0 s \<Longrightarrow> keeps I T \<Longrightarrow> I s0 \<Longrightarrow> I s"
  by (induction rule: operated.induct) (auto simp: keeps_def)

text \<open>The cache of tokens holds none.\<close>

definition cache_empty :: "token_cache option \<Rightarrow> bool" where
  "cache_empty c \<longleftrightarrow> (case c of None \<Rightarrow> True | Some k \<Rightarrow> tc_entries k = [])"

definition locked :: "'b stack \<Rightarrow> bool" where
  "locked s \<longleftrightarrow> cache_empty (sk_cache s)"

lemma locked_put [simp]:
  "locked (put_breaker b s) = locked s" "locked (put_obs x s) = locked s" "locked (put_limiter l s) = locked s"
  "locked (put_cache c s) = cache_empty c" "locked (s\<lparr>sk_base := d\<rparr>) = locked s"
  by (simp_all add: locked_def put_defs)

lemma put_base [simp]:
  "sk_base (put_breaker b s) = sk_base s" "sk_base (put_obs x s) = sk_base s" "sk_base (put_limiter l s) = sk_base s"
  "sk_base (put_cache c s) = sk_base s"
  by (simp_all add: put_defs)

lemma snd_settle: "snd (settle put z) = put (fst (snd z)) (snd (snd z))"
  by (simp add: settle_def split: prod.split)

lemma fst_settle: "fst (settle put z) = fst z"
  by (simp add: settle_def split: prod.split)

lemmas settled_simps = snd_settle fst_settle

lemma at_base_locked: "locked (snd (at_base f s)) = locked s"
  by (simp add: at_base_def split: prod.split)

lemma keeps_on_base: "keeps locked (on_base t)"
  by (simp add: keeps_def on_base_def at_base_locked)

lemma retry_loop_world:
  assumes "\<And>i w. I w \<Longrightarrow> I (snd (send i w))"
  shows "I (snd s) \<Longrightarrow> I (snd (snd (retry_loop env send x rest i prev s)))"
proof (induction rest arbitrary: i prev s)
  case (Suc rest)
  obtain r w where sent: "send i (snd s) = (r, w)" by (cases "send i (snd s)")
  then have "I w" using assms [OF Suc.prems, of i] by simp
  then show ?case using Suc
    by (cases "ae_before (env i)"; cases "if 0 < i then ae_delay (env i) else None"; cases r)
      (simp_all only: retry_loop.simps(2) sent option.case prod.case outcome.case Let_def, simp_all)
qed simp

lemma rel_send_world:
  assumes "\<And>i w. I w \<Longrightarrow> I (snd (send i w))" "I w"
  shows "I (snd (snd (rel_send cfg now env what m send (b, w))))"
  using assms(2) retry_loop_world [where I = I and send = send, OF assms(1)]
  by (auto simp: rel_send_def split: prod.splits bool.splits)

lemmas rel_sends = rel_SendRequest_def rel_SendNotification_def rel_SendBatchRequest_def

lemma keeps_reliability: "keeps locked t \<Longrightarrow> keeps locked (reliabilityTransport cfg t)"
  by (simp add: keeps_def reliabilityTransport_def middlewareTransport_def snd_settle rel_sends rel_send_world)

lemma around_world: "snd (snd (around b f spell act s)) = snd (act (snd s))"
  by (simp add: around_def split: prod.split outcome.split)

lemma around_result: "fst (around b f spell act s) = fst (act (snd s))"
  by (simp add: around_def split: prod.split outcome.split)

lemmas obs_operations = obs_SendRequest_def obs_SendNotification_def obs_SendBatchRequest_def obs_HandleBatchRequest_def
  obs_Initialize_def obs_Start_def obs_Stop_def obs_HandleRequest_def obs_HandleNotification_def

lemma keeps_observability: "keeps locked t \<Longrightarrow> keeps locked (observabilityTransport cfg t)"
  by (simp add: keeps_def observabilityTransport_def middlewareTransport_def snd_settle obs_operations around_world)

text \<open>A validator that knows no token leaves an empty cache empty.\<close>

definition knows_none :: "validator \<Rightarrow> bool" where
  "knows_none validate \<longleftrightarrow> (\<forall>now t. \<exists>e. validate now t = Inl e)"

lemma validate_locked:
  assumes "knows_none validate" "cache_empty c"
  shows "\<exists>e. validateToken validate rd t c = (Inl e, c)"
proof -
  obtain e where "validate (rd_validate rd) t = Inl e" using assms(1) by (auto simp: knows_none_def)
  moreover have "(case c of None \<Rightarrow> None | Some k \<Rightarrow> cache_get k (rd_get rd) t) = None"
    using assms(2) by (simp add: cache_empty_def cache_get_def split: option.splits)
  ultimately show ?thesis by (simp add: validateToken_def)
qed

text \<open>Whom the middleware refuses then: everyone with a token, and everyone without when one is required.\<close>

definition refused :: "auth_config \<Rightarrow> string \<Rightarrow> bool" where
  "refused ac token \<longleftrightarrow> token \<noteq> [] \<or> ac_required ac \<and> \<not> ac_anonymous ac"

lemma auth_check_locked:
  assumes "knows_none validate" "cache_empty c"
  shows "snd (auth_check ac validate rd cx t m c) = c"
    "refused ac t \<Longrightarrow> \<exists>e. fst (auth_check ac validate rd cx t m c) = Err e"
    "snd (auth_batch_check ac validate rd cx items c) = c"
    "refused ac (extractToken cx) \<Longrightarrow> \<exists>e. fst (auth_batch_check ac validate rd cx items c) = Err e"
  using validate_locked [OF assms, of rd t] validate_locked [OF assms, of rd "extractToken cx"]
  by (auto simp: auth_check_def auth_batch_check_def refused_def isAnonymousAllowed_def Let_def)

lemmas auth_operations = auth_SendRequest_def auth_SendNotification_def auth_SendBatchRequest_def auth_HandleRequest_def

lemma auth_cache:
  "fst (snd (auth_SendRequest ac v send rd cx m p s)) = snd (auth_check ac v rd cx (extractToken cx) m (fst s))"
  "fst (snd (auth_SendNotification ac v announce rd cx m p s)) = snd (auth_check ac v rd cx (extractToken cx) m (fst s))"
  "fst (snd (auth_SendBatchRequest ac v batch rd cx items s)) = snd (auth_batch_check ac v rd cx items (fst s))"
  "fst (snd (auth_HandleRequest ac v handle rd cx r s)) =
     snd (auth_check ac v rd cx (extractTokenFromRequest r) (req_method r) (fst s))"
  by (simp_all add: auth_operations split: prod.split outcome.split)

lemma keeps_auth:
  assumes "knows_none validate" "keeps locked t"
  shows "keeps locked (authTransport ac validate t)"
proof -
  have "cache_empty (sk_cache s)" if "locked s" for s :: "'a stack"
    using that by (simp add: locked_def)
  then show ?thesis using assms(2)
    by (simp add: keeps_def authTransport_def middlewareTransport_def snd_settle auth_cache auth_check_locked [OF assms(1)])
qed

lemmas rate_operations = rate_SendRequest_def rate_SendNotification_def rate_SendBatchRequest_def rate_HandleRequest_def

text \<open>The wrapped transport is called once or not at all.\<close>

lemma rate_world:
  assumes "I (snd s)"
  shows "I (snd (send cx m p (snd s))) \<Longrightarrow> I (snd (snd (rate_SendRequest cfg send now cx m p s)))"
    "I (snd (announce cx m p (snd s))) \<Longrightarrow> I (snd (snd (rate_SendNotification cfg announce now cx m p s)))"
    "I (snd (batch cx items (snd s))) \<Longrightarrow> I (snd (snd (rate_SendBatchRequest cfg batch clock cx items s)))"
    "I (snd (handle cx r (snd s))) \<Longrightarrow> I (snd (snd (rate_HandleRequest cfg handle now cx r s)))"
  using assms by (auto simp: rate_operations forward_def Let_def split: prod.splits outcome.splits)

lemma keeps_rate: "keeps locked t \<Longrightarrow> keeps locked (rateLimitTransport cfg t)"
  by (simp add: keeps_def rateLimitTransport_def middlewareTransport_def snd_settle rate_world)

text \<open>Layers that know no token, and those that stand before and after the check of tokens.\<close>

fun knows_no_token :: "layer \<Rightarrow> bool" where
  "knows_no_token (AuthLayer ac validate c) \<longleftrightarrow> knows_none validate \<and> cache_empty c"
| "knows_no_token _ \<longleftrightarrow> True"

fun outside_auth :: "layer \<Rightarrow> bool" where
  "outside_auth (ReliabilityLayer cfg) \<longleftrightarrow> True"
| "outside_auth (ObservabilityLayer cfg) \<longleftrightarrow> True"
| "outside_auth _ \<longleftrightarrow> False"

lemma ChainMiddleware_simps [simp]:
  "ChainMiddleware [] t = t" "ChainMiddleware (l # ls) t = Wrap l (ChainMiddleware ls t)"
  "ChainMiddleware (ls @ ms) t = ChainMiddleware ls (ChainMiddleware ms t)"
  by (simp_all add: ChainMiddleware_def)

lemma keeps_chain: "list_all knows_no_token ls \<Longrightarrow> keeps locked (ChainMiddleware ls (on_base t))"
proof (induction ls)
  case (Cons l ls)
  then show ?case by (cases l) (simp_all add: keeps_reliability keeps_observability keeps_auth keeps_rate)
qed (simp add: keeps_on_base)

lemma new_layers_locked: "list_all knows_no_token ls \<Longrightarrow> locked s \<Longrightarrow> locked (fold (new_layer zero) ls s)"
proof (induction ls arbitrary: s)
  case (Cons l ls)
  then show ?case by (cases l) simp_all
qed simp

lemma new_stack_locked: "list_all knows_no_token ls \<Longrightarrow> locked (new_stack zero cfg ls b)"
  unfolding new_stack_def by (rule new_layers_locked) (simp_all add: locked_def cache_empty_def)

subsection \<open>Authentication built from a configuration\<close>

lemma factory_layer:
  assumes "an_type a \<in> {''bearer'', ''apikey''}"
  shows "\<exists>validate c. CreateAuthMiddleware (Some a) = Some (AuthLayer (factory_config a) validate c) \<and>
    knows_no_token (AuthLayer (factory_config a) validate c)"
proof -
  have none: "knows_none (bearer_validator (NewBearerTokenProvider (Some
      \<lparr>bc_token_expiry = x, bc_refresh_expiry = y, bc_token_length = z, bc_refreshable = True, bc_callback = None\<rparr>)))"
    "knows_none (api_Validate (NewAPIKeyProvider (Some \<lparr>akc_prefix = k, akc_length = n, akc_callback = None\<rparr>)))" for x y z k n
    by (auto simp: knows_none_def bearer_validator_def bearer_Validate_def NewBearerTokenProvider_def token_object_def
        api_Validate_def NewAPIKeyProvider_def Let_def)
  then obtain validate where v: "factory_validator a = Some validate" "knows_none validate"
    using assms by (auto simp: factory_validator_def)
  have "cache_empty (snd (NewAuthMiddleware (Some (factory_config a))))"
    by (simp add: NewAuthMiddleware_def cache_empty_def Let_def split: option.split)
  moreover have "fst (NewAuthMiddleware (Some (factory_config a))) = factory_config a"
    by (simp add: NewAuthMiddleware_def Let_def)
  ultimately show ?thesis using v
    by (cases "NewAuthMiddleware (Some (factory_config a))") (simp add: CreateAuthMiddleware_def)
qed

text \<open>A call that fails and leaves the base transport as it was.\<close>

definition turned_down :: "'b stack \<Rightarrow> (goerr, 'r) outcome \<times> 'b stack \<Rightarrow> bool" where
  "turned_down s z \<longleftrightarrow> (\<exists>e. fst z = Err e) \<and> locked (snd z) \<and> sk_base (snd z) = sk_base s"

definition refuses :: "call_ctx \<Rightarrow> ('h, 'n, 'p, 'b stack) transport \<Rightarrow> bool" where
  "refuses cx T \<longleftrightarrow> (\<forall>e s. locked s \<longrightarrow> (\<forall>m p. turned_down s (tp_SendRequest T e cx m p s)) \<and>
     (\<forall>m p. turned_down s (tp_SendNotification T e cx m p s)) \<and>
     (\<forall>items. turned_down s (tp_SendBatchRequest T e cx items s)))"

lemma auth_turned_down:
  assumes "knows_none validate" "refused ac (extractToken cx)" "locked s"
  shows "turned_down s (settle put_cache (auth_SendRequest ac validate send rd cx m p (sk_cache s, s)))"
    "turned_down s (settle put_cache (auth_SendNotification ac validate announce rd cx m p (sk_cache s, s)))"
    "turned_down s (settle put_cache (auth_SendBatchRequest ac validate batch rd cx items (sk_cache s, s)))"
proof -
  have c: "cache_empty (sk_cache s)" using assms(3) by (simp add: locked_def)
  obtain e where "auth_check ac validate rd cx (extractToken cx) m (sk_cache s) = (Err e, sk_cache s)"
    using auth_check_locked(1,2) [OF assms(1) c] assms(2) by (metis prod.collapse)
  then show "turned_down s (settle put_cache (auth_SendRequest ac validate send rd cx m p (sk_cache s, s)))"
    "turned_down s (settle put_cache (auth_SendNotification ac validate announce rd cx m p (sk_cache s, s)))"
    using c by (simp_all add: turned_down_def settle_def auth_operations)
  obtain e where "auth_batch_check ac validate rd cx items (sk_cache s) = (Err e, sk_cache s)"
    using auth_check_locked(3,4) [OF assms(1) c] assms(2) by (metis prod.collapse)
  then show "turned_down s (settle put_cache (auth_SendBatchRequest ac validate batch rd cx items (sk_cache s, s)))"
    using c by (simp add: turned_down_def settle_def auth_operations)
qed

lemma refuses_auth:
  "knows_none validate \<Longrightarrow> refused ac (extractToken cx) \<Longrightarrow> refuses cx (authTransport ac validate t)"
  by (simp add: refuses_def authTransport_def auth_turned_down)

lemma refuses_observability: "refuses cx t \<Longrightarrow> refuses cx (observabilityTransport cfg t)"
  by (simp add: refuses_def turned_down_def observabilityTransport_def settled_simps obs_operations around_world around_result)

lemma retry_refused:
  assumes "\<And>i w. locked w \<Longrightarrow> turned_down w (send i w)"
  shows "locked (snd s) \<Longrightarrow> (\<exists>e. fst (retry_loop env send x rest i prev s) = Err e) \<and>
    locked (snd (snd (retry_loop env send x rest i prev s))) \<and>
    sk_base (snd (snd (retry_loop env send x rest i prev s))) = sk_base (snd s)"
proof (induction rest arbitrary: i prev s)
  case (Suc rest)
  obtain e w where sent: "send i (snd s) = (Err e, w)" "locked w" "sk_base w = sk_base (snd s)"
    using assms [OF Suc.prems, of i] by (cases "send i (snd s)") (auto simp: turned_down_def)
  then show ?case using Suc
    by (cases "ae_before (env i)"; cases "if 0 < i then ae_delay (env i) else None")
      (simp_all only: retry_loop.simps(2) sent option.case prod.case outcome.case Let_def, simp_all add: sent(2,3))
qed simp

lemma rel_send_refused:
  assumes "\<And>i w. locked w \<Longrightarrow> turned_down w (send i w)" "locked s"
  shows "turned_down s (settle put_breaker (rel_send cfg now env what m send (b, s)))"
  using retry_refused [where send = send, OF assms(1)] assms(2)
  by (auto simp: turned_down_def settled_simps rel_send_def split: prod.splits bool.splits)

lemma refuses_reliability: "refuses cx t \<Longrightarrow> refuses cx (reliabilityTransport cfg t)"
  by (simp add: refuses_def reliabilityTransport_def rel_sends rel_send_refused)

lemma refuses_outside: "list_all outside_auth ls \<Longrightarrow> refuses cx t \<Longrightarrow> refuses cx (ChainMiddleware ls t)"
proof (induction ls)
  case (Cons l ls)
  then show ?case by (cases l) (simp_all add: refuses_reliability refuses_observability)
qed simp

text \<open>The chain that a configuration with authentication makes.\<close>

lemma configured_chain:
  assumes "NewTransport zero auth_factories sb hb cfg = Inr (s0, T)" "fc_authentication (tc_features cfg)"
    "sc_authentication (tc_security cfg) = Some a" "an_type a \<in> {''bearer'', ''apikey''}"
  shows "\<exists>b t outer validate c ls. T = ChainMiddleware (outer @ AuthLayer (factory_config a) validate c # ls) (on_base t) \<and>
    s0 = new_stack zero cfg (outer @ AuthLayer (factory_config a) validate c # ls) b \<and>
    list_all outside_auth outer \<and> list_all knows_no_token (outer @ AuthLayer (factory_config a) validate c # ls)"
proof -
  obtain validate c where l: "CreateAuthMiddleware (Some a) = Some (AuthLayer (factory_config a) validate c)"
    "knows_no_token (AuthLayer (factory_config a) validate c)" using factory_layer [OF assms(4)] by blast
  obtain b t where base: "T = ChainMiddleware (BuildMiddleware (fst auth_factories) (snd auth_factories) cfg) (on_base t)"
    "s0 = new_stack zero cfg (BuildMiddleware (fst auth_factories) (snd auth_factories) cfg) b"
    using assms(1) unfolding NewTransport_def Let_def by (auto split: option.splits sum.splits prod.splits)
  let ?outer = "(if fc_reliability (tc_features cfg) then [ReliabilityLayer (tc_reliability cfg)] else []) @
     (if fc_observability (tc_features cfg) then [ObservabilityLayer (tc_observability cfg)] else [])"
  obtain ls where ls: "BuildMiddleware (fst auth_factories) (snd auth_factories) cfg =
      ?outer @ AuthLayer (factory_config a) validate c # ls" "list_all knows_no_token ls"
  proof
    show "BuildMiddleware (fst auth_factories) (snd auth_factories) cfg = ?outer @ AuthLayer (factory_config a) validate c #
      (if fc_rate_limiting (tc_features cfg) then
        (case sc_rate_limit (tc_security cfg) of None \<Rightarrow> []
         | Some r \<Rightarrow> [RateLimitLayer (fst (NewRateLimitMiddleware (Some r))) (snd (NewRateLimitMiddleware (Some r)))])
       else [])"
      using assms(2,3) l(1) by (simp add: BuildMiddleware_def auth_factories_def CreateRateLimitMiddleware_def
          split: option.split prod.split)
  qed (simp split: option.split)
  have "list_all outside_auth ?outer" "list_all knows_no_token ?outer" by simp_all
  then show ?thesis using base ls l(2)
    by (intro exI [of _ b] exI [of _ t] exI [of _ ?outer] exI [of _ validate] exI [of _ c] exI [of _ ls])
      (simp only: list_all_append list.pred_inject simp_thms)
qed

lemma configured_refuses:
  assumes "NewTransport zero auth_factories sb hb cfg = Inr (s0, T)" "fc_authentication (tc_features cfg)"
    "sc_authentication (tc_security cfg) = Some a" "an_type a \<in> {''bearer'', ''apikey''}" "operated T s0 s"
  shows "locked s" "refused (factory_config a) (extractToken cx) \<Longrightarrow> refuses cx T"
proof -
  obtain b t outer validate c ls where T: "T = ChainMiddleware (outer @ AuthLayer (factory_config a) validate c # ls) (on_base t)"
    "s0 = new_stack zero cfg (outer @ AuthLayer (factory_config a) validate c # ls) b" "list_all outside_auth outer"
    "list_all knows_no_token (outer @ AuthLayer (factory_config a) validate c # ls)"
    using configured_chain [OF assms(1-4)] by blast
  show "locked s" using assms(5)
    by (rule operated_keeps) (use T in \<open>simp_all only: keeps_chain new_stack_locked\<close>)
  assume "refused (factory_config a) (extractToken cx)"
  then show "refuses cx T" using T(3,4) unfolding T(1)
    by (simp add: refuses_outside refuses_auth)
qed

text \<open>
  C7. Authentication that is configured locks everyone out: take the transport that \<open>NewTransport\<close> makes for a
  configuration with authentication of either type, over any base transport, and any operations on it.
  Then every request, notification and batch sent with any token, and every one sent without a token when
  one is required and anonymous calls are not allowed, fails and never reaches the base transport: the
  factory's provider has no tokens, and nothing can give it any.
\<close>

theorem configured_authentication_locks_out:
  assumes "NewTransport zero auth_factories sb hb cfg = Inr (s0, T)" "fc_authentication (tc_features cfg)"
    "sc_authentication (tc_security cfg) = Some a" "an_type a \<in> {''bearer'', ''apikey''}" "operated T s0 s"
    "extractToken cx \<noteq> [] \<or> an_required a \<and> \<not> an_anonymous a"
  shows "(\<exists>er s'. tp_SendRequest T e cx m p s = (Err er, s') \<and> sk_base s' = sk_base s)
    \<and> (\<exists>er s'. tp_SendNotification T e cx m p s = (Err er, s') \<and> sk_base s' = sk_base s)
    \<and> (\<exists>er s'. tp_SendBatchRequest T e cx items s = (Err er, s') \<and> sk_base s' = sk_base s)"
proof -
  have "locked s" "refuses cx T"
    using configured_refuses(1) [OF assms(1-5)] configured_refuses(2) [OF assms(1-5), of cx] assms(6)
    by (simp_all add: refused_def factory_config_def)
  then have "turned_down s (tp_SendRequest T e cx m p s)" "turned_down s (tp_SendNotification T e cx m p s)"
    "turned_down s (tp_SendBatchRequest T e cx items s)" by (simp_all add: refuses_def)
  then show ?thesis by (auto simp: turned_down_def prod_eq_iff)
qed

definition demo_moment :: moment where
  "demo_moment = \<lparr>mo_now = 40 * second, mo_attempts = (\<lambda>i. \<lparr>ae_before = None, ae_delay = None, ae_now = 10 * second\<rparr>),
     mo_spell = (0, 0), mo_auth = \<lparr>rd_get = 0, rd_validate = 0, rd_set = 0, rd_pick = 0\<rparr>, mo_rate = (0, 0),
     mo_clock = (\<lambda>i. (0, 0)), mo_writer = (\<lambda>line. None), mo_lines = [], mo_rounds = [], mo_end = ErrDeadline, mo_timer = False,
     mo_input = EndOfInput, mo_flush = None\<rparr>"

definition demo_authentication :: authentication_config where
  "demo_authentication = \<lparr>an_type = ''bearer'', an_provider = [], an_required = True, an_anonymous = False,
     an_expiry = hour, an_refresh = 0, an_cache = False, an_ttl = 0\<rparr>"

definition demo_secured :: transport_config where
  "demo_secured = (let d = DefaultTransportConfig TransportTypeStdio in
     d\<lparr>tc_features := (tc_features d)\<lparr>fc_authentication := True\<rparr>,
       tc_security := (tc_security d)\<lparr>sc_authentication := Some demo_authentication\<rparr>\<rparr>)"

lemma demo_secured_simps:
  "fc_authentication (tc_features demo_secured)" "sc_authentication (tc_security demo_secured) = Some demo_authentication"
  "an_type demo_authentication \<in> {''bearer'', ''apikey''}"
  by (simp_all add: demo_secured_def DefaultTransportConfig_def demo_authentication_def Let_def)

lemma NewStdioStack_returns: "\<exists>s0 T. NewStdioStack zero w cfg = Inr (s0, T)"
  by (simp add: NewStdioStack_def NewTransport_def validateTransportConfig_def Let_def)

theorem configured_authentication_locks_out_witness:
  "\<exists>s0 T er. NewStdioStack 0 () demo_secured = Inr (s0, T) \<and>
    fst (tp_SendRequest T (\<lambda>path. demo_moment) \<lparr>cx_token = Some ''good'', cx_user = None\<rparr> ''ping'' GNil s0) = Err er"
proof -
  obtain s0 T where new: "NewStdioStack 0 () demo_secured = Inr (s0, T)" using NewStdioStack_returns [of 0 "()" demo_secured] by blast
  then have "NewTransport 0 auth_factories (\<lambda>c. Inr (newStdioTransport (), stdio_transport))
      (\<lambda>c. Inl ErrUnsupportedTransportType) (demo_secured\<lparr>tc_type := TransportTypeStdio\<rparr>) = Inr (s0, T)"
    by (simp add: NewStdioStack_def)
  from configured_authentication_locks_out [OF this, where a = demo_authentication and s = s0 and e = "\<lambda>path. demo_moment"
      and cx = "\<lparr>cx_token = Some ''good'', cx_user = None\<rparr>"]
  have "\<exists>er s'. tp_SendRequest T (\<lambda>path. demo_moment) \<lparr>cx_token = Some ''good'', cx_user = None\<rparr> ''ping'' GNil s0 = (Err er, s')"
    using demo_secured_simps by (simp add: operated.intros(1) extractToken_def) blast
  then show ?thesis using new by auto
qed

subsection \<open>What does not pass the chain\<close>

definition refuses_incoming :: "request \<Rightarrow> ('h, 'n, 'p, 'b stack) transport \<Rightarrow> bool" where
  "refuses_incoming r T \<longleftrightarrow> (\<forall>e cx s. locked s \<longrightarrow>
     (\<exists>m s'. tp_HandleRequest T e cx r s = (Ok (auth_refusal (req_id r) m), s') \<and> locked s' \<and> sk_base s' = sk_base s))"

lemma refuses_incoming_auth:
  assumes "knows_none validate" "refused ac (extractTokenFromRequest r)"
  shows "refuses_incoming r (authTransport ac validate t)"
  unfolding refuses_incoming_def
proof (intro allI impI)
  fix e :: course and cx and s :: "'d stack"
  assume "locked s"
  then have c: "cache_empty (sk_cache s)" by (simp add: locked_def)
  obtain er where "auth_check ac validate (mo_auth (e [])) cx (extractTokenFromRequest r) (req_method r) (sk_cache s) =
      (Err er, sk_cache s)"
    using auth_check_locked(1,2) [OF assms(1) c] assms(2) by (metis prod.collapse)
  then show "\<exists>m s'. tp_HandleRequest (authTransport ac validate t) e cx r s = (Ok (auth_refusal (req_id r) m), s') \<and>
      locked s' \<and> sk_base s' = sk_base s"
    using c by (auto simp: authTransport_def settle_def auth_operations)
qed

lemma refuses_incoming_outside:
  assumes "list_all outside_auth ls" "refuses_incoming r t"
  shows "refuses_incoming r (ChainMiddleware ls t)"
  using assms(1)
proof (induction ls)
  case (Cons l ls)
  then have next_one: "refuses_incoming r (ChainMiddleware ls t)" by simp
  have "refuses_incoming r (observabilityTransport oc (ChainMiddleware ls t))" for oc
    unfolding refuses_incoming_def
  proof (intro allI impI)
    fix e :: course and cx and s :: "'d stack"
    assume "locked s"
    then obtain m s' where "tp_HandleRequest (ChainMiddleware ls t) (inner 0 e) cx r s = (Ok (auth_refusal (req_id r) m), s')"
      "locked s'" "sk_base s' = sk_base s" using next_one unfolding refuses_incoming_def by blast
    then show "\<exists>m s'. tp_HandleRequest (observabilityTransport oc (ChainMiddleware ls t)) e cx r s =
        (Ok (auth_refusal (req_id r) m), s') \<and> locked s' \<and> sk_base s' = sk_base s"
      by (auto simp: observabilityTransport_def obs_HandleRequest_def around_def settle_def)
  qed
  moreover have "refuses_incoming r (reliabilityTransport rc (ChainMiddleware ls t))" for rc
    using next_one by (simp add: refuses_incoming_def reliabilityTransport_def middlewareTransport_def)
  ultimately show ?case using Cons.prems by (cases l) simp_all
qed (use assms(2) in simp)

text \<open>
  C8. Incoming messages do not pass the middleware: take the stdio transport that \<open>NewTransport\<close> makes for a
  configuration that requires authentication, after any operations. Handed to the transport's own
  \<open>HandleRequest\<close>, any request is refused and the application is not reached; but the line of the same
  request, read from the standard input, is answered by the handler of its method, whose work on the
  application is done, whatever token the request carries or lacks.
\<close>

theorem incoming_requests_bypass_middleware:
  assumes "NewStdioStack zero w cfg = Inr (s0, T)" "fc_authentication (tc_features cfg)"
    "sc_authentication (tc_security cfg) = Some a" "an_type a \<in> {''bearer'', ''apikey''}"
    "an_required a" "\<not> an_anonymous a" "operated T s0 s"
    "good_item (BReq r)" "hs_requests (st_handlers (sk_base s)) (req_method r) \<noteq> None"
  shows "(\<exists>m s'. tp_HandleRequest T e cx r s = (Ok (auth_refusal (req_id r) m), s') \<and> sk_base s' = sk_base s)
    \<and> (\<exists>x w'. base_HandleRequest (st_handlers (sk_base s)) background (r\<lparr>req_id := wire_id (req_id r)\<rparr>)
          (st_app (sk_base s)) = (Ok x, w') \<and>
        read_line (st_handlers (sk_base s)) (\<lambda>line. None) (json_print (enc_request r))
          (st_io (sk_base s), st_app (sk_base s)) =
        ((st_io (sk_base s))\<lparr>sd_out := sd_out (st_io (sk_base s)) @ [json_print (enc_response x)]\<rparr>, w'))"
proof
  let ?cfg = "cfg\<lparr>tc_type := TransportTypeStdio\<rparr>"
  have new: "NewTransport zero auth_factories (\<lambda>c. Inr (newStdioTransport w, stdio_transport))
      (\<lambda>c. Inl ErrUnsupportedTransportType) ?cfg = Inr (s0, T)"
    using assms(1) by (simp add: NewStdioStack_def)
  have auth: "fc_authentication (tc_features ?cfg)" "sc_authentication (tc_security ?cfg) = Some a"
    using assms(2,3) by simp_all
  obtain t outer validate c ls where T: "T = ChainMiddleware (outer @ AuthLayer (factory_config a) validate c # ls) (on_base t)"
    "list_all outside_auth outer" "list_all knows_no_token (outer @ AuthLayer (factory_config a) validate c # ls)"
    using configured_chain [OF new auth assms(4)] by blast
  have "refused (factory_config a) (extractTokenFromRequest r)"
    using assms(5,6) by (simp add: refused_def factory_config_def)
  then have "refuses_incoming r T" using T(2,3) unfolding T(1)
    by (simp add: refuses_incoming_outside refuses_incoming_auth)
  then show "\<exists>m s'. tp_HandleRequest T e cx r s = (Ok (auth_refusal (req_id r) m), s') \<and> sk_base s' = sk_base s"
    using configured_refuses(1) [OF new auth assms(4,7)] unfolding refuses_incoming_def by blast
  show "\<exists>x w'. base_HandleRequest (st_handlers (sk_base s)) background (r\<lparr>req_id := wire_id (req_id r)\<rparr>)
          (st_app (sk_base s)) = (Ok x, w') \<and>
        read_line (st_handlers (sk_base s)) (\<lambda>line. None) (json_print (enc_request r))
          (st_io (sk_base s), st_app (sk_base s)) =
        ((st_io (sk_base s))\<lparr>sd_out := sd_out (st_io (sk_base s)) @ [json_print (enc_response x)]\<rparr>, w')"
    using stdio_answers_request_aux [OF assms(8), of "\<lambda>line. None" "st_handlers (sk_base s)" "st_io (sk_base s)" "st_app (sk_base s)"]
      assms(9)
    by (cases "base_HandleRequest (st_handlers (sk_base s)) background (r\<lparr>req_id := wire_id (req_id r)\<rparr>) (st_app (sk_base s))")
      (auto simp: read_line_def split: outcome.splits)
qed

lemma chain_registers:
  "tp_RegisterRequestHandler (ChainMiddleware ls (on_base t)) m h s =
     s\<lparr>sk_base := tp_RegisterRequestHandler t m h (sk_base s)\<rparr>"
proof (induction ls)
  case (Cons l ls)
  then show ?case by (cases l) (simp_all add: reliabilityTransport_def observabilityTransport_def authTransport_def
    rateLimitTransport_def middlewareTransport_def)
qed (simp add: on_base_def)

lemma new_stack_base [simp]: "sk_base (new_stack zero cfg ls b) = b"
proof -
  have "sk_base (fold (new_layer zero) ls s) = sk_base s" for s :: "'a stack"
  proof (induction ls arbitrary: s)
    case (Cons l ls)
    then show ?case by (cases l) (simp_all add: put_defs)
  qed simp
  then show ?thesis by (simp add: new_stack_def)
qed

lemma NewStdioStack_shape:
  "NewStdioStack zero w cfg = Inr (s0, T) \<Longrightarrow> sk_base s0 = newStdioTransport w \<and>
     (\<exists>ls. T = ChainMiddleware ls (on_base stdio_transport))"
  by (auto simp: NewStdioStack_def NewTransport_def validateTransportConfig_def Let_def)

theorem incoming_requests_bypass_middleware_witness:
  "\<exists>s0 T. NewStdioStack 0 (0 :: nat) demo_secured = Inr (s0, T) \<and>
    (let s = tp_RegisterRequestHandler T ''ping'' (\<lambda>cx p w. (Ok (Marshals (JBool True)), Suc w)) s0 in
     (\<exists>m s'. tp_HandleRequest T (\<lambda>path. demo_moment) background ping_request s = (Ok (auth_refusal (GStr ''req_1'') m), s')) \<and>
     snd (read_line (st_handlers (sk_base s)) (\<lambda>line. None) (json_print (enc_request ping_request))
       (st_io (sk_base s), st_app (sk_base s))) = 1)"
proof -
  obtain s0 T where new: "NewStdioStack 0 (0 :: nat) demo_secured = Inr (s0, T)"
    using NewStdioStack_returns [of 0 "0 :: nat" demo_secured] by blast
  let ?h = "\<lambda>cx p w. (Ok (Marshals (JBool True)), Suc w)"
  let ?s = "tp_RegisterRequestHandler T ''ping'' ?h s0"
  obtain ls where "T = ChainMiddleware ls (on_base stdio_transport)" "sk_base s0 = newStdioTransport (0 :: nat)"
    using NewStdioStack_shape [OF new] by blast
  then have base: "sk_base ?s = (newStdioTransport 0)\<lparr>st_handlers := RegisterRequestHandler ''ping'' ?h NewHandlers\<rparr>"
    by (simp add: chain_registers stdio_transport_def newStdioTransport_def)
  have "operated T s0 ?s" by (intro operated.intros(1,7))
  from incoming_requests_bypass_middleware [OF new demo_secured_simps _ _ this ping_request_good, where cx = background and e = "\<lambda>path. demo_moment"]
  have "(\<exists>m s'. tp_HandleRequest T (\<lambda>path. demo_moment) background ping_request ?s = (Ok (auth_refusal (req_id ping_request) m), s') \<and>
      sk_base s' = sk_base ?s) \<and>
    (\<exists>x w'. base_HandleRequest (st_handlers (sk_base ?s)) background (ping_request\<lparr>req_id := wire_id (req_id ping_request)\<rparr>)
          (st_app (sk_base ?s)) = (Ok x, w') \<and>
        read_line (st_handlers (sk_base ?s)) (\<lambda>line. None) (json_print (enc_request ping_request))
          (st_io (sk_base ?s), st_app (sk_base ?s)) =
        ((st_io (sk_base ?s))\<lparr>sd_out := sd_out (st_io (sk_base ?s)) @ [json_print (enc_response x)]\<rparr>, w'))"
    by (simp add: demo_authentication_def base RegisterRequestHandler_def ping_request_def NewRequest_def)
  then show ?thesis using new
    by (auto simp: Let_def base base_HandleRequest_def RegisterRequestHandler_def ping_request_def NewRequest_def
        newStdioTransport_def)
qed

subsection \<open>Refusals against the circuit breaker\<close>

lemma retry_refusals:
  assumes "undisturbed env" "\<And>i w. \<exists>w'. send i w = (Err er, w') \<and> sk_base w' = sk_base w" "isRetryableSend (Some er)"
  shows "\<exists>w'. retry_loop env send x rest i prev (b, w) =
      (Err (x (if rest = 0 then prev else Some er)),
       (map_option (fold recordFailure (map (\<lambda>i. ae_now (env i)) [i..<i + rest])) b, w')) \<and> sk_base w' = sk_base w"
proof (induction rest arbitrary: i prev b w)
  case (Suc rest)
  obtain w1 where w1: "send i w = (Err er, w1)" "sk_base w1 = sk_base w" using assms(2) by blast
  have quiet: "ae_before (env i) = None" "(if 0 < i then ae_delay (env i) else None) = None"
    using assms(1) by (auto simp: undisturbed_def)
  have step: "retry_loop env send x (Suc rest) i prev (b, w) =
      retry_loop env send x rest (Suc i) (Some er) (map_option (recordFailure (ae_now (env i))) b, w1)"
    using w1(1) assms(3) quiet by (simp only: retry_loop.simps(2) Let_def) simp
  have "[i..<i + Suc rest] = i # [Suc i..<Suc i + rest]" by (simp add: upt_rec)
  then show ?case using Suc.IH [of "Suc i" "Some er" "map_option (recordFailure (ae_now (env i))) b" w1] w1(2)
    unfolding step by (auto simp: option.map_comp comp_def)
qed (simp add: option.map_id)

text \<open>A call: its surroundings, its context, the method and the parameters. When its attempts end.\<close>

type_synonym outgoing = "course \<times> call_ctx \<times> string \<times> gval"

fun send_call :: "('h, 'n, 'p, 's) transport \<Rightarrow> outgoing \<Rightarrow> 's \<Rightarrow> 's" where
  "send_call T (e, cx, m, p) s = snd (tp_SendRequest T e cx m p s)"

definition attempt_ends :: "nat \<Rightarrow> outgoing \<Rightarrow> instant list" where
  "attempt_ends n call = map (\<lambda>i. ae_now (mo_attempts (fst call []) i)) [0..<n]"

text \<open>A call without a token, whose context stays alive.\<close>

definition without_token :: "outgoing \<Rightarrow> bool" where
  "without_token call \<longleftrightarrow> undisturbed (mo_attempts (fst call [])) \<and> extractToken (fst (snd call)) = []"

lemma unauthenticated_attempt:
  assumes "extractToken cx = []" "ac_required ac" "\<not> ac_anonymous ac"
  shows "\<exists>w'. tp_SendRequest (observabilityTransport oc (authTransport ac validate t)) e cx m p w =
      (Err (NewAuthError ErrAuthRequired ''authentication required''), w') \<and> sk_base w' = sk_base w"
  using assms by (simp add: observabilityTransport_def authTransport_def obs_SendRequest_def around_def settle_def
      auth_SendRequest_def auth_check_def isAnonymousAllowed_def)

lemma unauthenticated_call:
  assumes "without_token call" "ac_required ac" "\<not> ac_anonymous ac" "sk_breaker s = Some b" "br_state b = CircuitClosed"
    and "max_attempts rc = int n"
  shows "sk_breaker (send_call (reliabilityTransport rc (observabilityTransport oc (authTransport ac validate t))) call s) =
      Some (fold recordFailure (attempt_ends n call) b) \<and>
    sk_base (send_call (reliabilityTransport rc (observabilityTransport oc (authTransport ac validate t))) call s) = sk_base s"
proof -
  obtain e cx m p where call: "call = (e, cx, m, p)" by (cases call)
  let ?er = "NewAuthError ErrAuthRequired ''authentication required''"
  let ?send = "\<lambda>i. tp_SendRequest (observabilityTransport oc (authTransport ac validate t)) (inner i e) cx m p"
  have worth: "isRetryableSend (Some ?er)" by (simp add: isRetryableSend_def NewAuthError_def)
  have quiet: "undisturbed (mo_attempts (e []))" "extractToken cx = []"
    using assms(1) by (simp_all add: without_token_def call)
  obtain w' where "retry_loop (mo_attempts (e [])) ?send (exhausted_error ''Request'' m (max_attempts rc)) n 0 None (Some b, s) =
      (Err (exhausted_error ''Request'' m (max_attempts rc) (if n = 0 then None else Some ?er)),
       (map_option (fold recordFailure (map (\<lambda>i. ae_now (mo_attempts (e []) i)) [0..<0 + n])) (Some b), w'))"
      "sk_base w' = sk_base s"
    using retry_refusals [where send = ?send and i = 0 and rest = n and x = "exhausted_error ''Request'' m (max_attempts rc)"
        and prev = None and b = "Some b" and w = s, OF quiet(1) unauthenticated_attempt [OF quiet(2) assms(2,3)] worth] by blast
  then show ?thesis using assms(4-6)
    by (simp add: call reliabilityTransport_def rel_SendRequest_def rel_send_def canMakeCall_def settle_def attempt_ends_def put_defs)
qed

lemma attempt_ends_length [simp]: "length (attempt_ends n call) = n"
  by (simp add: attempt_ends_def)

lemma all_attempts_length: "length (concat (map (attempt_ends n) calls)) = length calls * n"
  by (induction calls) simp_all

lemma unauthenticated_calls:
  assumes "list_all without_token calls" "ac_required ac" "\<not> ac_anonymous ac" "sk_breaker s = Some (new_breaker zero bc)"
    and "max_attempts rc = int n" "calls \<noteq> []" "int ((length calls - 1) * n) < brc_failures bc"
  shows "sk_breaker (fold (send_call (reliabilityTransport rc (observabilityTransport oc (authTransport ac validate t)))) calls s) =
      Some (fold recordFailure (concat (map (attempt_ends n) calls)) (new_breaker zero bc)) \<and>
    sk_base (fold (send_call (reliabilityTransport rc (observabilityTransport oc (authTransport ac validate t)))) calls s) = sk_base s"
  using assms(6,1,7)
proof (induction calls rule: rev_nonempty_induct)
  case (single call)
  then show ?case using unauthenticated_call [OF _ assms(2-4) _ assms(5), of call] by (simp add: new_breaker_def)
next
  case (snoc call calls)
  let ?T = "reliabilityTransport rc (observabilityTransport oc (authTransport ac validate t))"
  let ?b = "fold recordFailure (concat (map (attempt_ends n) calls)) (new_breaker zero bc)"
  have fewer: "int (length calls * n) < brc_failures bc" using snoc.prems by simp
  moreover have "(length calls - 1) * n \<le> length calls * n" by simp
  ultimately have "int ((length calls - 1) * n) < brc_failures bc" by linarith
  then have ih: "sk_breaker (fold (send_call ?T) calls s) = Some ?b" "sk_base (fold (send_call ?T) calls s) = sk_base s"
    using snoc.IH snoc.prems by simp_all
  have "br_state ?b = CircuitClosed"
    using fold_failures [of "new_breaker zero bc" 0 "concat (map (attempt_ends n) calls)"] fewer
    by (simp add: new_breaker_def all_attempts_length)
  then show ?case
    using unauthenticated_call [OF _ assms(2,3) ih(1) _ assms(5), of call] snoc.prems(1) ih(2) by simp
qed

text \<open>
  C9. Refusals open the breaker for everyone: in a chain with the reliability, observability and
  authentication layers, each call without a token is an error worth retrying, so it counts as many
  failures as it has attempts. As soon as such calls make up the failure threshold, the breaker is open:
  up to its timeout after the last attempt every call, with whatever token, fails with the breaker's
  error. None of these calls reaches the base transport, whose health the breaker is meant to watch.
\<close>

theorem refusals_open_the_breaker:
  assumes "T = ChainMiddleware (ReliabilityLayer rc # ObservabilityLayer oc # AuthLayer ac validate c # ls) t"
    and "ac_required ac" "\<not> ac_anonymous ac" "brc_enabled (rel_breaker rc)" "sk_breaker s0 = NewReliabilityMiddleware zero rc"
    and "max_attempts rc = int n" "list_all without_token calls"
    and "int ((length calls - 1) * n) < brc_failures (rel_breaker rc)" "brc_failures (rel_breaker rc) \<le> int (length calls * n)"
    and "1 \<le> brc_failures (rel_breaker rc)" "s = fold (send_call T) calls s0"
    and "time_sub (mo_now (e [])) (last (attempt_ends n (last calls))) \<le> brc_timeout (rel_breaker rc)"
  shows "tp_SendRequest T e cx m p s = (Err (breaker_open_error m), s) \<and> sk_base s = sk_base s0"
proof -
  have n: "calls \<noteq> []" "0 < n" using assms(9,10) by (cases "calls = []"; cases n; simp)+
  have T: "T = reliabilityTransport rc (observabilityTransport oc (authTransport ac validate (ChainMiddleware ls t)))"
    using assms(1) by simp
  have "sk_breaker s0 = Some (new_breaker zero (rel_breaker rc))" using assms(4,5) by (simp add: NewReliabilityMiddleware_def)
  note run = unauthenticated_calls [OF assms(7,2,3) this assms(6) n(1) assms(8), of oc validate "ChainMiddleware ls t", folded T assms(11)]
  let ?ts = "concat (map (attempt_ends n) calls)" and ?new = "new_breaker zero (rel_breaker rc)"
  have "concat (map (attempt_ends n) (butlast calls @ [last calls])) =
      concat (map (attempt_ends n) (butlast calls)) @ attempt_ends n (last calls)" by simp
  then have "?ts = concat (map (attempt_ends n) (butlast calls)) @ attempt_ends n (last calls)"
    by (simp only: append_butlast_last_id [OF n(1)])
  moreover have "attempt_ends n (last calls) \<noteq> []" using n(2) by (simp add: attempt_ends_def)
  ultimately have last: "last ?ts = last (attempt_ends n (last calls))" "?ts \<noteq> []" by auto
  have "br_state (fold recordFailure ?ts ?new) = CircuitOpen" "br_config (fold recordFailure ?ts ?new) = rel_breaker rc"
    "br_last_error (fold recordFailure ?ts ?new) = last ?ts"
    using fold_failures [of ?new 0 ?ts] assms(9,10) last(2) by (simp_all add: new_breaker_def all_attempts_length)
  then have "tp_SendRequest T e cx m p s = (Err (breaker_open_error m), put_breaker (sk_breaker s) s)"
    using run assms(12) last(1)
    by (simp add: T reliabilityTransport_def rel_SendRequest_def rel_send_def canMakeCall_def settle_def)
  then show ?thesis using run by (simp add: put_defs)
qed

definition demo_call :: outgoing where
  "demo_call = (\<lambda>path. demo_moment, background, ''ping'', GNil)"

text \<open>The default layers and a provider that knows one token.\<close>

definition demo_layers :: "layer list" where
  "demo_layers =
     [ReliabilityLayer (tc_reliability (DefaultTransportConfig TransportTypeStdio)),
      ObservabilityLayer (tc_observability (DefaultTransportConfig TransportTypeStdio)),
      AuthLayer (factory_config demo_authentication)
        (\<lambda>now t. if t = ''good'' then Inr (Some demo_user) else Inl (NewAuthError ErrTokenInvalid ''token not found'')) None]"

theorem refusals_open_the_breaker_witness:
  "let T = ChainMiddleware demo_layers (on_base stdio_transport);
       s = fold (send_call T) [demo_call, demo_call]
         (new_stack 0 (DefaultTransportConfig TransportTypeStdio) demo_layers (newStdioTransport ())) in
     tp_SendRequest T (\<lambda>path. demo_moment) \<lparr>cx_token = Some ''good'', cx_user = None\<rparr> ''ping'' GNil s =
       (Err (breaker_open_error ''ping''), s)"
proof -
  let ?rc = "tc_reliability (DefaultTransportConfig TransportTypeStdio)"
  let ?s0 = "new_stack 0 (DefaultTransportConfig TransportTypeStdio) demo_layers (newStdioTransport ())"
  have config: "ac_required (factory_config demo_authentication)" "\<not> ac_anonymous (factory_config demo_authentication)"
    "brc_enabled (rel_breaker ?rc)" "max_attempts ?rc = int 4"
    by (simp_all add: factory_config_def demo_authentication_def DefaultTransportConfig_def max_attempts_def in_int64_def)
  have breaker: "sk_breaker ?s0 = NewReliabilityMiddleware 0 ?rc"
    by (simp add: demo_layers_def new_stack_def put_defs)
  have calls: "list_all without_token [demo_call, demo_call]"
    by (simp add: without_token_def demo_call_def demo_moment_def undisturbed_def extractToken_def background_def)
  have time: "time_sub (mo_now demo_moment) (last (attempt_ends 4 (last [demo_call, demo_call]))) \<le> brc_timeout (rel_breaker ?rc)"
    by (simp add: attempt_ends_def demo_call_def demo_moment_def DefaultTransportConfig_def time_sub_def second_def upt_rec)
  note T = arg_cong [OF demo_layers_def, of "\<lambda>ls. ChainMiddleware ls (on_base stdio_transport)"]
  show ?thesis unfolding Let_def
    by (rule refusals_open_the_breaker [THEN conjunct1, OF T config(1-3) breaker config(4) calls _ _ _ refl time])
      (simp_all add: DefaultTransportConfig_def)
qed

subsection \<open>What the chain adds to a call that works\<close>

text \<open>The surroundings that the base transport has in a chain of so many layers, when its first attempt decides.\<close>

definition base_course :: "transport_config \<Rightarrow> course \<Rightarrow> course" where
  "base_course cfg e =
     (let e1 = (if fc_reliability (tc_features cfg) then inner 0 e else e) in
      if fc_observability (tc_features cfg) then inner 0 e1 else e1)"

definition decisive :: "(goerr, 'r) outcome \<Rightarrow> bool" where
  "decisive x \<longleftrightarrow> (case x of Ok _ \<Rightarrow> True | Err e \<Rightarrow> \<not> isRetryableSend (Some e) | Panic _ \<Rightarrow> False)"

definition admits :: "breaker option \<Rightarrow> bool" where
  "admits b \<longleftrightarrow> (case b of None \<Rightarrow> True | Some b \<Rightarrow> br_state b = CircuitClosed)"

lemma decisive_send:
  assumes "undisturbed env" "decisive x" "send 0 w = (x, w')" "admits b" "1 \<le> max_attempts rc"
  shows "\<exists>b'. rel_send rc now env what m send (b, w) = (x, (b', w'))"
proof -
  obtain k where k: "nat (max_attempts rc) = Suc k" using assms(5) by (cases "nat (max_attempts rc)") auto
  have quiet: "ae_before (env 0) = None" using assms(1) by (simp add: undisturbed_def)
  have "\<exists>b'. retry_loop env send f (Suc k) 0 None (c, w) = (x, (b', w'))" for f c
    using assms(2,3) quiet by (cases x) (simp_all add: decisive_def Let_def)
  then show ?thesis using assms(4)
    by (cases b) (simp_all add: rel_send_def k admits_def canMakeCall_def)
qed


lemma answered_request:
  assumes "GenerateID (sd_ids (st_io s)) = (i, ids)" "mo_writer mo = (\<lambda>line. None)"
    and "mo_lines mo = [json_print (enc_response (answer_to i (Ok (Some v))))]" "wire_json v" "v \<noteq> JNull"
  shows "\<exists>s'. stdio_SendRequest mo m p s = (Ok (response_value (answer_to i (Ok (Some v)))), s')"
proof -
  obtain c where sent: "send_request_line (mo_writer mo) m p (st_io s) = (Inr i, c)"
    using assms(1,2) by (simp add: send_request_line_def stdio_Send_def)
  obtain n q where reg: "wait_register i (sd_pool c) = (n, q)" by (cases "wait_register i (sd_pool c)")
  let ?x = "answer_to i (Ok (Some v))"
  obtain q2 q3 where deliver: "HandleResponse ?x q = Delivered q2" "wait_receive n q2 = Some (Some ?x, q3)"
    using deliver_registered [OF reg answer_to_id] by blast
  have "read_lines (st_handlers s) (mo_writer mo) (mo_lines mo) (c\<lparr>sd_pool := q\<rparr>, st_app s) = (c\<lparr>sd_pool := q2\<rparr>, st_app s)"
    using process_answer [of "(Ok (Some v), ())" v "[]" "st_handlers s" "mo_writer mo" i "c\<lparr>sd_pool := q\<rparr>" "st_app s"]
      assms(4,5) deliver(1)
    by (simp add: read_lines_def read_line_def assms(3))
  then show ?thesis using deliver(2)
    by (simp add: stdio_SendRequest_def sent reg finish_request_def answer_to_def)
qed


subsection \<open>Failing calls over stdio\<close>

text \<open>
  C10. A call that the server refuses is run again: over a stdio session under the reliability layer, the
  error with which the server's handler answers is worth a retry whatever it says (its Go type is none that
  the layer knows), so a handler that keeps failing is run as often as there are attempts, each run with
  its effect on the application, and the caller gets the error of the exhausted retries.
\<close>

theorem failing_call_runs_again:
  assumes "hs_requests shs m = Some h" "m \<noteq> []" "wire_json params"
    and "\<And>w. \<exists>e w'. h background (Some params) w = (Err e, w')"
    and "undisturbed env" "admits b" "max_attempts rc = int n" "0 < n"
  shows "\<exists>er b' z'. rel_SendRequest rc now env m (\<lambda>i. ln_request (session_link chs shs) m params) (b, z) =
      (Err (exhausted_error ''Request'' m (int n) (Some er)), (b', z')) \<and>
    ss_app z' = ((\<lambda>w. snd (h background (Some params) w)) ^^ n) (ss_app z)"
proof -
  let ?send = "\<lambda>i :: nat. ln_request (session_link chs shs) m params"
  have one: "\<exists>t z'. ?send i z = (Err (rpc_failure t), z') \<and> ss_app z' = snd (h background (Some params) (ss_app z))" for i z
  proof -
    obtain e w' where h: "h background (Some params) (ss_app z) = (Err e, w')" using assms(4) by blast
    then have d: "direct_call shs m params (ss_app z) = (Err (rpc_failure (Error e)), w')"
      using assms(1) by (simp add: direct_call_def)
    obtain i' z' where "stdio_call chs shs m params z = Some (Err (rpc_failure (Error e)), z')" "ss_app z' = w'"
      using stdio_call_answered [of shs m params z chs] assms(1-3) by (auto simp: d usable_def returned_def)
    then show ?thesis using h by (auto simp: session_link_def)
  qed
  have app: "ss_app (after_sends ?send k z) = ((\<lambda>w. snd (h background (Some params) w)) ^^ k) (ss_app z)" for k
  proof (induction k)
    case (Suc k)
    then show ?case using one [of "after_sends ?send k z"] by (auto simp: after_sends_Suc)
  qed (simp add: after_sends_def)
  have zero: "after_sends ?send 0 z = z" by (simp add: after_sends_def)
  have "fails_first ?send n z"
    unfolding fails_first_def
  proof (intro allI impI)
    fix i
    obtain t z' where "?send i (after_sends ?send i z) = (Err (rpc_failure t), z')"
      using one [of "after_sends ?send i z"] by blast
    then show "\<exists>e. fst (?send i (after_sends ?send i z)) = Err e \<and> isRetryableSend (Some e)"
      by (simp add: isRetryableSend_def rpc_failure_def)
  qed
  from retry_loop_fails [where i = 0 and rest = n and x = "exhausted_error ''Request'' m (int n)" and prev = None, OF assms(5) this]
  obtain b' er where run: "retry_loop env ?send (exhausted_error ''Request'' m (int n)) n 0 None (b, z) =
      (Err (exhausted_error ''Request'' m (int n) (Some er)), (b', after_sends ?send n z))"
    using assms(8) zero by fastforce
  have "rel_SendRequest rc now env m ?send (b, z) = (Err (exhausted_error ''Request'' m (int n) (Some er)), (b', after_sends ?send n z))"
    using assms(6,7) run by (cases b) (simp_all add: rel_SendRequest_def rel_send_def admits_def canMakeCall_def)
  then show ?thesis using app by blast
qed

theorem failing_call_runs_again_witness:
  "\<exists>er b' z'. rel_SendRequest demo_retry 0 demo_env ''run'' (\<lambda>i. ln_request (session_link NewHandlers
        (RegisterRequestHandler ''run'' (\<lambda>cx p w. (Err (ErrText ''no''), Suc w)) NewHandlers)) ''run'' (JObj []))
        (None, \<lparr>ss_client = NewStdio, ss_capp = (), ss_server = NewStdio, ss_app = 0 :: nat\<rparr>) = (Err er, (b', z')) \<and>
    ss_app z' = 3"
proof -
  let ?shs = "RegisterRequestHandler ''run'' (\<lambda>cx p w. (Err (ErrText ''no''), Suc w)) (NewHandlers :: nat handlers)"
  have attempts: "max_attempts demo_retry = int 3" "undisturbed demo_env"
    by (simp_all add: demo_retry_def demo_env_def max_attempts_def in_int64_def undisturbed_def)
  have "((\<lambda>w. snd (Err (ErrText ''no'') :: (goerr, handler_value) outcome, Suc w)) ^^ 3) 0 = 3"
    by (simp add: numeral_3_eq_3)
  then show ?thesis
    using failing_call_runs_again [where shs = ?shs and m = "''run''" and params = "JObj []" and chs = NewHandlers
        and h = "\<lambda>cx p w. (Err (ErrText ''no''), Suc w)" and rc = demo_retry and env = demo_env and now = 0
        and b = None and n = 3 and z = "\<lparr>ss_client = NewStdio, ss_capp = (), ss_server = NewStdio, ss_app = 0 :: nat\<rparr>"] attempts
    by (simp add: RegisterRequestHandler_def wire_json_def admits_def all_some_def) blast
qed

end
