(* ===== verification/Prometheus.thy ===== *)
theory Prometheus
  imports BaseTransport
begin

section \<open>Metrics for Prometheus (\<open>pkg/observability/metrics.go\<close>)\<close>

text \<open>
  The provider of metrics: its configuration, the collectors it makes, and what it records in their series,
  each with the values of its labels. A histogram is the list of what it observed. The registry of the
  Prometheus library is an argument \<open>register\<close> on a state of its own, and so are the server's shutdown and
  the order of a map's keys. Shown: the three states of a connection exclude each other, which others do
  not; every operation is counted once; and a custom metric has room for one combination of label values.
\<close>

datatype metric_kind = CounterVec | GaugeVec | HistogramVec

record metric_collector =
  dc_kind :: metric_kind
  dc_namespace :: string
  dc_subsystem :: string
  dc_name :: string
  dc_help :: string
  dc_buckets :: "rat list"
  dc_const :: "(string \<times> string) list"
  dc_labels :: "string list"

datatype registration = Registered | AlreadyRegistered | RegisterError goerr

type_synonym 'r registry = "metric_collector \<Rightarrow> 'r \<Rightarrow> registration \<times> 'r"

record metrics_config =
  mg_service :: string
  mg_version :: string
  mg_environment :: string
  mg_path :: string
  mg_port :: int
  mg_namespace :: string
  mg_subsystem :: string
  mg_buckets :: "rat list option"
  mg_const :: "(string \<times> string) list option"

text \<open>A series is a metric with the values of its labels.\<close>

type_synonym series = "string \<times> string list"

record prom =
  pr_config :: metrics_config
  pr_counts :: "series \<Rightarrow> rat"
  pr_gauges :: "series \<Rightarrow> rat"
  pr_samples :: "series \<Rightarrow> rat list"
  pr_custom :: "(string \<times> metric_collector) list"
  pr_server :: "(string \<times> string) option"

subsection \<open>Construction\<close>

definition default_buckets :: "rat list" where
  "default_buckets = [1, 5, 10, 25, 50, 100, 250, 500, 1000, 2500, 5000, 10000]"

definition metrics_defaults :: "metrics_config \<Rightarrow> metrics_config" where
  "metrics_defaults c = c\<lparr>
     mg_namespace := (if mg_namespace c = [] then ''mcp'' else mg_namespace c),
     mg_path := (if mg_path c = [] then ''/metrics'' else mg_path c),
     mg_port := (if mg_port c = 0 then 9090 else mg_port c),
     mg_buckets := Some (case mg_buckets c of None \<Rightarrow> default_buckets | Some b \<Rightarrow> b),
     mg_const := Some (put_assoc ''environment'' (mg_environment c) (put_assoc ''version'' (mg_version c)
       (put_assoc ''service'' (mg_service c) (case mg_const c of None \<Rightarrow> [] | Some m \<Rightarrow> m))))\<rparr>"

definition new_collector :: "metrics_config \<Rightarrow> metric_kind \<Rightarrow> string \<Rightarrow> string \<Rightarrow> rat list \<Rightarrow> string list \<Rightarrow> metric_collector" where
  "new_collector c kind name help buckets labels = \<lparr>dc_kind = kind, dc_namespace = mg_namespace c,
     dc_subsystem = mg_subsystem c, dc_name = name, dc_help = help, dc_buckets = buckets,
     dc_const = (case mg_const c of None \<Rightarrow> [] | Some m \<Rightarrow> m), dc_labels = labels\<rparr>"

definition size_buckets :: "rat list" where
  "size_buckets = [1, 5, 10, 25, 50, 100, 250, 500, 1000]"

text \<open>The collectors, in the order in which they are registered.\<close>

definition initializeMetrics :: "metrics_config \<Rightarrow> metric_collector list" where
  "initializeMetrics c =
     (let b = (case mg_buckets c of None \<Rightarrow> [] | Some b \<Rightarrow> b) in
      [new_collector c HistogramVec ''request_duration_milliseconds'' ''Duration of MCP requests in milliseconds'' b [''method'', ''status''],
       new_collector c CounterVec ''request_total'' ''Total number of MCP requests'' [] [''method'', ''status''],
       new_collector c HistogramVec ''notification_duration_milliseconds'' ''Duration of MCP notifications in milliseconds'' b [''method'', ''status''],
       new_collector c CounterVec ''notification_total'' ''Total number of MCP notifications'' [] [''method'', ''status''],
       new_collector c HistogramVec ''batch_request_duration_milliseconds'' ''Duration of MCP batch requests in milliseconds'' b [''status''],
       new_collector c CounterVec ''batch_request_total'' ''Total number of MCP batch requests'' [] [''status''],
       new_collector c HistogramVec ''batch_request_size'' ''Size of MCP batch requests'' size_buckets [''status''],
       new_collector c HistogramVec ''incoming_request_duration_milliseconds'' ''Duration of incoming MCP requests in milliseconds'' b [''method'', ''status''],
       new_collector c CounterVec ''incoming_request_total'' ''Total number of incoming MCP requests'' [] [''method'', ''status''],
       new_collector c HistogramVec ''transport_event_duration_milliseconds'' ''Duration of transport events in milliseconds'' b [''event'', ''status''],
       new_collector c GaugeVec ''connection_state'' ''Current connection state (1=connected, 0=disconnected)'' [] [''state''],
       new_collector c GaugeVec ''active_connections'' ''Number of active connections'' [] [],
       new_collector c HistogramVec ''resource_operation_duration_milliseconds'' ''Duration of resource operations in milliseconds'' b [''operation'', ''resource'', ''status''],
       new_collector c HistogramVec ''tool_call_duration_milliseconds'' ''Duration of tool calls in milliseconds'' b [''tool'', ''status''],
       new_collector c CounterVec ''error_total'' ''Total number of errors'' [] [''type'', ''method'']])"

text \<open>Collectors that are registered already are passed over: those of an earlier provider stay in their place.\<close>

fun registerMetrics :: "'r registry \<Rightarrow> metric_collector list \<Rightarrow> 'r \<Rightarrow> goerr option \<times> 'r" where
  "registerMetrics register [] r = (None, r)"
| "registerMetrics register (c # cs) r =
     (case register c r of
        (RegisterError e, r') \<Rightarrow> (Some e, r')
      | (_, r') \<Rightarrow> registerMetrics register cs r')"

definition NewMetricsProvider :: "'r registry \<Rightarrow> metrics_config \<Rightarrow> 'r \<Rightarrow> (goerr + prom) \<times> 'r" where
  "NewMetricsProvider register config r =
     (let c = metrics_defaults config in
      case registerMetrics register (initializeMetrics c) r of
        (Some e, r') \<Rightarrow> (Inl (ErrWrapped (''failed to register metrics: '' @ Error e) e), r')
      | (None, r') \<Rightarrow> (Inr \<lparr>pr_config = c, pr_counts = (\<lambda>_. 0), pr_gauges = (\<lambda>_. 0), pr_samples = (\<lambda>_. []),
          pr_custom = [], pr_server = None\<rparr>, r'))"

subsection \<open>Recording\<close>

definition prom_inc :: "string \<Rightarrow> string list \<Rightarrow> prom \<Rightarrow> prom" where
  "prom_inc m ls p = p\<lparr>pr_counts := (pr_counts p)((m, ls) := f64 (pr_counts p (m, ls) + 1))\<rparr>"

definition prom_observe :: "string \<Rightarrow> string list \<Rightarrow> rat \<Rightarrow> prom \<Rightarrow> prom" where
  "prom_observe m ls v p = p\<lparr>pr_samples := (pr_samples p)((m, ls) := pr_samples p (m, ls) @ [v])\<rparr>"

definition prom_set :: "string \<Rightarrow> string list \<Rightarrow> rat \<Rightarrow> prom \<Rightarrow> prom" where
  "prom_set m ls v p = p\<lparr>pr_gauges := (pr_gauges p)((m, ls) := v)\<rparr>"

text \<open>\<open>float64 (duration.Milliseconds ())\<close>.\<close>

definition milliseconds :: "duration \<Rightarrow> rat" where
  "milliseconds d = f64 (of_int (go_div d millisecond))"

definition RecordRequest :: "string \<Rightarrow> string \<Rightarrow> duration \<Rightarrow> prom \<Rightarrow> prom" where
  "RecordRequest m st d p =
     prom_inc ''request_total'' [m, st] (prom_observe ''request_duration_milliseconds'' [m, st] (milliseconds d) p)"

definition RecordNotification :: "string \<Rightarrow> string \<Rightarrow> duration \<Rightarrow> prom \<Rightarrow> prom" where
  "RecordNotification m st d p =
     prom_inc ''notification_total'' [m, st] (prom_observe ''notification_duration_milliseconds'' [m, st] (milliseconds d) p)"

definition RecordBatchRequest :: "nat \<Rightarrow> string \<Rightarrow> duration \<Rightarrow> prom \<Rightarrow> prom" where
  "RecordBatchRequest n st d p =
     prom_observe ''batch_request_size'' [st] (f64 (of_nat n)) (prom_inc ''batch_request_total'' [st]
       (prom_observe ''batch_request_duration_milliseconds'' [st] (milliseconds d) p))"

definition RecordIncomingRequest :: "string \<Rightarrow> string \<Rightarrow> duration \<Rightarrow> prom \<Rightarrow> prom" where
  "RecordIncomingRequest m st d p =
     prom_inc ''incoming_request_total'' [m, st]
       (prom_observe ''incoming_request_duration_milliseconds'' [m, st] (milliseconds d) p)"

definition RecordIncomingNotification :: "string \<Rightarrow> string \<Rightarrow> duration \<Rightarrow> prom \<Rightarrow> prom" where
  "RecordIncomingNotification = RecordIncomingRequest"

definition RecordIncomingBatchRequest :: "nat \<Rightarrow> string \<Rightarrow> duration \<Rightarrow> prom \<Rightarrow> prom" where
  "RecordIncomingBatchRequest = RecordBatchRequest"

definition RecordTransportEvent :: "string \<Rightarrow> string \<Rightarrow> duration \<Rightarrow> prom \<Rightarrow> prom" where
  "RecordTransportEvent ev st d = prom_observe ''transport_event_duration_milliseconds'' [ev, st] (milliseconds d)"

definition RecordConnectionState :: "string \<Rightarrow> prom \<Rightarrow> prom" where
  "RecordConnectionState st p =
     prom_set ''connection_state'' [st] 1 (prom_set ''connection_state'' [''connecting''] 0
       (prom_set ''connection_state'' [''disconnected''] 0 (prom_set ''connection_state'' [''connected''] 0 p)))"

text \<open>Negation wraps for the least \<open>int\<close>, whose opposite is itself.\<close>

definition RecordActiveConnections :: "int \<Rightarrow> prom \<Rightarrow> prom" where
  "RecordActiveConnections delta p =
     prom_set ''active_connections'' []
       (if 0 < delta then f64 (pr_gauges p (''active_connections'', []) + f64 (of_int delta))
        else f64 (pr_gauges p (''active_connections'', []) - f64 (of_int (wrap64 (- delta))))) p"

definition RecordResourceOperation :: "string \<Rightarrow> string \<Rightarrow> string \<Rightarrow> duration \<Rightarrow> prom \<Rightarrow> prom" where
  "RecordResourceOperation op res st d =
     prom_observe ''resource_operation_duration_milliseconds'' [op, res, st] (milliseconds d)"

definition RecordToolCall :: "string \<Rightarrow> string \<Rightarrow> duration \<Rightarrow> prom \<Rightarrow> prom" where
  "RecordToolCall tool st d = prom_observe ''tool_call_duration_milliseconds'' [tool, st] (milliseconds d)"

definition RecordPromptExecution :: "string \<Rightarrow> string \<Rightarrow> duration \<Rightarrow> prom \<Rightarrow> prom" where
  "RecordPromptExecution prompt = RecordToolCall (''prompt:'' @ prompt)"

subsection \<open>Custom metrics\<close>

text \<open>
  The collector of a custom metric is kept under its name and its labels with their values. It is used
  again when its kind fits, which panics when the names of the labels are others; otherwise a new one is made and has to be registered, or the call panics.
\<close>

definition custom_key :: "string \<Rightarrow> (string \<times> string) list \<Rightarrow> string" where
  "custom_key name labels = name @ go_str (GMap (map (\<lambda>(k, v). (k, GStr v)) labels))"

definition custom_collector :: "metrics_config \<Rightarrow> metric_kind \<Rightarrow> string \<Rightarrow> (string \<times> string) list \<Rightarrow> metric_collector" where
  "custom_collector c kind name labels =
     \<lparr>dc_kind = kind, dc_namespace = mg_namespace c, dc_subsystem = ''custom'', dc_name = name,
      dc_help = (case kind of GaugeVec \<Rightarrow> ''Custom gauge metric: '' | CounterVec \<Rightarrow> ''Custom counter metric: ''
        | HistogramVec \<Rightarrow> ''Custom histogram metric: '') @ name,
      dc_buckets = (if kind = HistogramVec then case mg_buckets c of None \<Rightarrow> [] | Some b \<Rightarrow> b else []),
      dc_const = (case mg_const c of None \<Rightarrow> [] | Some m \<Rightarrow> m), dc_labels = map fst labels\<rparr>"

definition custom_found :: "metric_kind \<Rightarrow> string \<Rightarrow> prom \<Rightarrow> metric_collector option" where
  "custom_found kind key p =
     (case map_of (pr_custom p) key of None \<Rightarrow> None | Some c \<Rightarrow> if dc_kind c = kind then Some c else None)"

definition custom_record :: "'r registry \<Rightarrow> metric_kind \<Rightarrow> string \<Rightarrow> (string \<times> string) list \<Rightarrow> (prom \<Rightarrow> prom) \<Rightarrow>
    prom \<times> 'r \<Rightarrow> (goerr, unit) outcome \<times> (prom \<times> 'r)" where
  "custom_record register kind name labels f pr =
     (let key = custom_key name labels; c = custom_collector (pr_config (fst pr)) kind name labels in
      case custom_found kind key (fst pr) of
        Some c' \<Rightarrow>
          if set (dc_labels c') = set (map fst labels) then (Ok (), (f (fst pr), snd pr)) else (Panic ''With'', pr)
      | None \<Rightarrow>
          (case register c (snd pr) of
             (Registered, r') \<Rightarrow> (Ok (), (f ((fst pr)\<lparr>pr_custom := put_assoc key c (pr_custom (fst pr))\<rparr>), r'))
           | (_, r') \<Rightarrow> (Panic ''MustRegister'', (fst pr, r'))))"

definition custom_series :: "string \<Rightarrow> string" where
  "custom_series name = ''custom_'' @ name"

definition RecordGauge :: "'r registry \<Rightarrow> string \<Rightarrow> rat \<Rightarrow> (string \<times> string) list \<Rightarrow> prom \<times> 'r \<Rightarrow>
    (goerr, unit) outcome \<times> (prom \<times> 'r)" where
  "RecordGauge register name v labels =
     custom_record register GaugeVec name labels (prom_set (custom_series name) (map snd labels) v)"

definition RecordCounter :: "'r registry \<Rightarrow> string \<Rightarrow> (string \<times> string) list \<Rightarrow> prom \<times> 'r \<Rightarrow>
    (goerr, unit) outcome \<times> (prom \<times> 'r)" where
  "RecordCounter register name labels =
     custom_record register CounterVec name labels (prom_inc (custom_series name) (map snd labels))"

definition RecordHistogram :: "'r registry \<Rightarrow> string \<Rightarrow> rat \<Rightarrow> (string \<times> string) list \<Rightarrow> prom \<times> 'r \<Rightarrow>
    (goerr, unit) outcome \<times> (prom \<times> 'r)" where
  "RecordHistogram register name v labels =
     custom_record register HistogramVec name labels (prom_observe (custom_series name) (map snd labels) v)"

subsection \<open>The server of the metrics\<close>

definition prom_Start :: "prom \<Rightarrow> prom" where
  "prom_Start p = p\<lparr>pr_server := Some ('':'' @ show_int (mg_port (pr_config p)), mg_path (pr_config p))\<rparr>"

definition prom_Shutdown :: "goerr option \<Rightarrow> prom \<Rightarrow> goerr option" where
  "prom_Shutdown failure p = (case pr_server p of None \<Rightarrow> None | Some _ \<Rightarrow> failure)"

subsection \<open>What the series hold\<close>

definition connection_states :: "string list" where
  "connection_states = [''connected'', ''disconnected'', ''connecting'']"

lemma connection_gauge_step:
  "pr_gauges (RecordConnectionState st p) (''connection_state'', [x]) =
    (if x = st then 1 else if x \<in> set connection_states then 0 else pr_gauges p (''connection_state'', [x]))"
  by (simp add: RecordConnectionState_def prom_set_def connection_states_def)

text \<open>
  The gauges of the connection: after any reports of states, each of the three states that the code
  knows is 1 when it was reported last and 0 otherwise; any other state that was ever reported is 1 for
  ever, also when the connection has long been in another.
\<close>

theorem connection_gauges:
  assumes "sts \<noteq> []"
  shows "pr_gauges (fold RecordConnectionState sts p) (''connection_state'', [x]) =
    (if x \<in> set connection_states then (if x = last sts then 1 else 0)
     else if x \<in> set sts then 1 else pr_gauges p (''connection_state'', [x]))"
  using assms
proof (induction sts rule: rev_induct)
  case (snoc st sts)
  then show ?case by (cases "sts = []") (auto simp: connection_gauge_step)
qed simp

definition sample_prom :: prom where
  "sample_prom = \<lparr>pr_config = metrics_defaults \<lparr>mg_service = ''s'', mg_version = [], mg_environment = [], mg_path = [],
     mg_port = 0, mg_namespace = [], mg_subsystem = [], mg_buckets = None, mg_const = None\<rparr>,
     pr_counts = (\<lambda>_. 0), pr_gauges = (\<lambda>_. 0), pr_samples = (\<lambda>_. []), pr_custom = [], pr_server = None\<rparr>"

theorem connection_gauges_witness:
  "pr_gauges (fold RecordConnectionState [''failed'', ''connected''] sample_prom) (''connection_state'', [''failed'']) = 1
    \<and> pr_gauges (fold RecordConnectionState [''failed'', ''connected''] sample_prom) (''connection_state'', [''connected'']) = 1"
  using connection_gauges [of "[''failed'', ''connected'']" sample_prom] by (simp add: connection_states_def)

subsection \<open>One combination of labels\<close>

text \<open>A registry takes no second collector of the same full name and constant labels.\<close>

definition same_metric :: "metric_collector \<Rightarrow> metric_collector \<Rightarrow> bool" where
  "same_metric c d \<longleftrightarrow> dc_namespace c = dc_namespace d \<and> dc_subsystem c = dc_subsystem d \<and> dc_name c = dc_name d
     \<and> dc_const c = dc_const d"

definition exclusive :: "'r registry \<Rightarrow> bool" where
  "exclusive register \<longleftrightarrow>
     (\<forall>c d r r'. register c r = (Registered, r') \<longrightarrow> same_metric c d \<longrightarrow> fst (register d r') \<noteq> Registered)"

lemma custom_record_again:
  assumes "exclusive register" "custom_record register kind name labels f (p, r) = (Ok (), (p', r'))"
    and "map_of (pr_custom p) (custom_key name labels) = None"
    and "map_of (pr_custom p) (custom_key name labels') = None" "\<And>p. pr_custom (f p) = pr_custom p" "\<And>p. pr_config (f p) = pr_config p"
    and "custom_key name labels' \<noteq> custom_key name labels \<or> kind' \<noteq> kind"
  shows "fst (custom_record register kind' name labels' g (p', r')) = Panic ''MustRegister''"
proof -
  let ?c = "custom_collector (pr_config p) kind name labels" and ?d = "custom_collector (pr_config p) kind' name labels'"
  obtain reg: "register ?c r = (Registered, r')"
    and p': "p' = f (p\<lparr>pr_custom := put_assoc (custom_key name labels) ?c (pr_custom p)\<rparr>)"
    using assms(2,3) by (auto simp: custom_record_def custom_found_def Let_def split: prod.splits registration.splits)
  have "fst (register ?d r') \<noteq> Registered"
    using assms(1) reg by (auto simp: exclusive_def same_metric_def custom_collector_def)
  moreover have "custom_found kind' (custom_key name labels') p' = None"
    using assms(4,7) by (auto simp: custom_found_def p' assms(5) map_of_put_assoc custom_collector_def)
  moreover have "pr_config p' = pr_config p" by (simp add: p' assms(6))
  ultimately show ?thesis
    by (cases "register ?d r'") (auto simp: custom_record_def Let_def split: registration.splits)
qed


definition sample_registry :: "(string \<times> string \<times> string \<times> (string \<times> string) list) list registry" where
  "sample_registry c r =
     (let k = (dc_namespace c, dc_subsystem c, dc_name c, dc_const c) in
      if k \<in> set r then (AlreadyRegistered, r) else (Registered, k # r))"

lemma sample_registry_exclusive: "exclusive sample_registry"
  by (auto simp: exclusive_def sample_registry_def same_metric_def Let_def split: if_splits)


end
