(* ===== verification/Telemetry.thy ===== *)
theory Telemetry
  imports Stacks Prometheus
begin

section \<open>Traces and the enhanced observability middleware (\<open>pkg/observability\<close>)\<close>

text \<open>
  The configuration of tracing with its sampler (\<open>tracing.go\<close>), and the middleware that records a span and
  the metrics of every operation of a transport (\<open>middleware.go\<close>). OpenTelemetry is a log of what is done
  to spans; a span that is not sampled records nothing. What its exporters return when they are made, and
  its ratio of trace ids, are arguments. Shown: what is sampled; that no operation sees the middleware; and
  that each has its own span, ended however it ends.
\<close>

subsection \<open>The configuration of tracing (\<open>tracing.go\<close>)\<close>

record tracing_config =
  tg_service :: string
  tg_version :: string
  tg_environment :: string
  tg_exporter :: string
  tg_endpoint :: string
  tg_headers :: "(string \<times> string) list"
  tg_insecure :: bool
  tg_rate :: rat
  tg_always :: "string list"
  tg_never :: "string list"
  tg_batch_timeout :: int
  tg_max_batch :: int
  tg_max_queue :: int
  tg_attributes :: "(string \<times> string) list"

definition ExporterTypeOTLPGRPC :: string where "ExporterTypeOTLPGRPC = ''otlp-grpc''"
definition ExporterTypeOTLPHTTP :: string where "ExporterTypeOTLPHTTP = ''otlp-http''"
definition ExporterTypeJaeger :: string where "ExporterTypeJaeger = ''jaeger''"
definition ExporterTypeNoop :: string where "ExporterTypeNoop = ''noop''"

lemmas exporter_types = ExporterTypeOTLPGRPC_def ExporterTypeOTLPHTTP_def ExporterTypeJaeger_def ExporterTypeNoop_def

definition tracing_defaults :: "tracing_config \<Rightarrow> tracing_config" where
  "tracing_defaults c = c\<lparr>
     tg_service := (if tg_service c = [] then ''mcp-service'' else tg_service c),
     tg_version := (if tg_version c = [] then ''unknown'' else tg_version c),
     tg_environment := (if tg_environment c = [] then ''development'' else tg_environment c),
     tg_rate := (if tg_rate c = 0 then 1 else tg_rate c),
     tg_batch_timeout := (if tg_batch_timeout c = 0 then 5 else tg_batch_timeout c),
     tg_max_batch := (if tg_max_batch c = 0 then 512 else tg_max_batch c),
     tg_max_queue := (if tg_max_queue c = 0 then 2048 else tg_max_queue c)\<rparr>"

definition createResource :: "tracing_config \<Rightarrow> (string \<times> string) list" where
  "createResource c = [(''service.name'', tg_service c), (''service.version'', tg_version c),
     (''deployment.environment'', tg_environment c)] @ tg_attributes c"

text \<open>An exporter: of OTLP with its endpoint, headers and whether it is insecure, or none.\<close>

datatype exporter = OTLP string string "(string \<times> string) list" bool | NoopExporter

definition otlp_options :: "tracing_config \<Rightarrow> exporter" where
  "otlp_options c = OTLP (tg_exporter c) (tg_endpoint c) (tg_headers c) (tg_insecure c)"

text \<open>\<open>fails\<close> says how making an exporter with these options fails, if it does.\<close>

definition createExporter :: "(exporter \<Rightarrow> goerr option) \<Rightarrow> tracing_config \<Rightarrow> goerr + exporter" where
  "createExporter fails c =
     (if tg_exporter c = ExporterTypeOTLPGRPC \<or> tg_exporter c = ExporterTypeOTLPHTTP then
        (case fails (otlp_options c) of Some e \<Rightarrow> Inl e | None \<Rightarrow> Inr (otlp_options c))
      else if tg_exporter c = ExporterTypeNoop then Inr NoopExporter
      else Inl (ErrText (''unsupported exporter type: '' @ tg_exporter c)))"

subsection \<open>Sampling\<close>

datatype sampler = AlwaysSample | NeverSample | TraceIDRatioBased rat | MethodSampler rat "string list" "string list"

definition createSampler :: "tracing_config \<Rightarrow> sampler" where
  "createSampler c =
     (if tg_always c \<noteq> [] \<or> tg_never c \<noteq> [] then MethodSampler (tg_rate c) (tg_always c) (tg_never c)
      else if 1 \<le> tg_rate c then AlwaysSample
      else if tg_rate c \<le> 0 then NeverSample
      else TraceIDRatioBased (tg_rate c))"

type_synonym attributes = "(string \<times> gval) list"

definition method_of_span :: "string \<Rightarrow> attributes \<Rightarrow> string" where
  "method_of_span name attrs = (case map_of attrs ''mcp.method'' of Some (GStr m) \<Rightarrow> m | Some _ \<Rightarrow> [] | None \<Rightarrow> name)"

text \<open>Whether a span is recorded; \<open>ratio r\<close> is what the ratio of trace ids decides for its trace.\<close>

fun ShouldSample :: "(rat \<Rightarrow> bool) \<Rightarrow> sampler \<Rightarrow> string \<Rightarrow> attributes \<Rightarrow> bool" where
  "ShouldSample ratio AlwaysSample name attrs = True"
| "ShouldSample ratio NeverSample name attrs = False"
| "ShouldSample ratio (TraceIDRatioBased r) name attrs = ratio r"
| "ShouldSample ratio (MethodSampler r always never) name attrs =
     (let m = method_of_span name attrs in
      if m \<in> set always then True
      else if m \<in> set never then False
      else if 1 \<le> r then True
      else if r \<le> 0 then False
      else ratio r)"

record tracing_provider =
  tv_config :: tracing_config
  tv_exporter :: exporter
  tv_resource :: "(string \<times> string) list"
  tv_sampler :: sampler

definition NewTracingProvider :: "(exporter \<Rightarrow> goerr option) \<Rightarrow> tracing_config \<Rightarrow> goerr + tracing_provider" where
  "NewTracingProvider fails config =
     (let c = tracing_defaults config in
      case createExporter fails c of
        Inl e \<Rightarrow> Inl (ErrWrapped (''failed to create exporter: '' @ Error e) e)
      | Inr x \<Rightarrow> Inr \<lparr>tv_config = c, tv_exporter = x, tv_resource = createResource c, tv_sampler = createSampler c\<rparr>)"

subsection \<open>Spans\<close>

text \<open>What is done to spans. A span is known by its number.\<close>

datatype span_kind = KindClient | KindServer | KindInternal

datatype span_status = StatusOk | StatusError string

datatype span_event =
    SpanStart nat string span_kind attributes
  | SpanSet nat attributes
  | SpanFailure nat string
  | SpanStatus nat span_status
  | SpanEnd nat

record tracer =
  tr_provider :: tracing_provider
  tr_next :: nat
  tr_events :: "span_event list"

definition new_tracer :: "tracing_provider \<Rightarrow> tracer" where
  "new_tracer p = \<lparr>tr_provider = p, tr_next = 0, tr_events = []\<rparr>"

text \<open>\<open>StartSpan\<close>: the number of the span, and whether it is recorded.\<close>

definition StartSpan :: "(rat \<Rightarrow> bool) \<Rightarrow> string \<Rightarrow> span_kind \<Rightarrow> attributes \<Rightarrow> tracer \<Rightarrow> (nat \<times> bool) \<times> tracer" where
  "StartSpan ratio name kind attrs t =
     (let n = tr_next t; sampled = ShouldSample ratio (tv_sampler (tr_provider t)) name attrs in
      ((n, sampled), t\<lparr>tr_next := Suc n, tr_events := tr_events t @ (if sampled then [SpanStart n name kind attrs] else [])\<rparr>))"

definition StartMethodSpan :: "(rat \<Rightarrow> bool) \<Rightarrow> string \<Rightarrow> span_kind \<Rightarrow> tracer \<Rightarrow> (nat \<times> bool) \<times> tracer" where
  "StartMethodSpan ratio m kind t =
     StartSpan ratio (''mcp.'' @ m) kind
       [(''mcp.method'', GStr m), (''mcp.service'', GStr (tg_service (tv_config (tr_provider t))))] t"

definition on_span :: "nat \<times> bool \<Rightarrow> (nat \<Rightarrow> span_event list) \<Rightarrow> tracer \<Rightarrow> tracer" where
  "on_span sp f t = (if snd sp then t\<lparr>tr_events := tr_events t @ f (fst sp)\<rparr> else t)"

definition span_RecordError :: "goerr \<Rightarrow> nat \<Rightarrow> span_event list" where
  "span_RecordError e n = [SpanFailure n (Error e), SpanStatus n (StatusError (Error e))]"

subsection \<open>The middleware (\<open>middleware.go\<close>)\<close>

record enhanced_config =
  ec_tracing :: bool
  ec_tracing_config :: tracing_config
  ec_metrics :: bool
  ec_metrics_config :: metrics_config
  ec_capture_request :: bool
  ec_capture_response :: bool
  ec_panics :: bool

text \<open>The middleware with what it has recorded: a tracer and metrics when they are enabled.\<close>

record enhanced =
  en_config :: enhanced_config
  en_tracer :: "tracer option"
  en_metrics :: "prom option"

definition NewEnhancedObservabilityMiddleware :: "(exporter \<Rightarrow> goerr option) \<Rightarrow> 'r registry \<Rightarrow> enhanced_config \<Rightarrow> 'r \<Rightarrow>
    (goerr + enhanced) \<times> 'r" where
  "NewEnhancedObservabilityMiddleware fails register cfg r =
     (case (if ec_tracing cfg then map_sum id (Some \<circ> new_tracer) (NewTracingProvider fails (ec_tracing_config cfg)) else Inr None) of
        Inl e \<Rightarrow> (Inl (ErrWrapped (''failed to create tracing provider: '' @ Error e) e), r)
      | Inr t \<Rightarrow>
          if ec_metrics cfg then
            (case NewMetricsProvider register (ec_metrics_config cfg) r of
               (Inl e, r') \<Rightarrow> (Inl (ErrWrapped (''failed to create metrics provider: '' @ Error e) e), r')
             | (Inr p, r') \<Rightarrow> (Inr \<lparr>en_config = cfg, en_tracer = t, en_metrics = Some p\<rparr>, r'))
          else (Inr \<lparr>en_config = cfg, en_tracer = t, en_metrics = None\<rparr>, r))"

text \<open>
  The steps of a span: nothing happens when tracing is not enabled. The attributes that are set before an
  operation are set at once.
\<close>

definition begin_span :: "(rat \<Rightarrow> bool) \<Rightarrow> string \<Rightarrow> span_kind \<Rightarrow> attributes \<Rightarrow> enhanced \<Rightarrow> (nat \<times> bool) option \<times> enhanced" where
  "begin_span ratio m kind attrs z =
     (case (ec_tracing (en_config z), en_tracer z) of
        (True, Some t) \<Rightarrow>
          (case StartMethodSpan ratio m kind t of
             (sp, t') \<Rightarrow> (Some sp, z\<lparr>en_tracer := Some (on_span sp (\<lambda>n. [SpanSet n attrs]) t')\<rparr>))
      | _ \<Rightarrow> (None, z))"

definition plain_span :: "(rat \<Rightarrow> bool) \<Rightarrow> string \<Rightarrow> enhanced \<Rightarrow> (nat \<times> bool) option \<times> enhanced" where
  "plain_span ratio name z =
     (case (ec_tracing (en_config z), en_tracer z) of
        (True, Some t) \<Rightarrow>
          (case StartSpan ratio name KindInternal [] t of (sp, t') \<Rightarrow> (Some sp, z\<lparr>en_tracer := Some t'\<rparr>))
      | _ \<Rightarrow> (None, z))"

definition in_span :: "(nat \<times> bool) option \<Rightarrow> (nat \<Rightarrow> span_event list) \<Rightarrow> enhanced \<Rightarrow> enhanced" where
  "in_span sp f z =
     (case (sp, en_tracer z) of (Some sp, Some t) \<Rightarrow> z\<lparr>en_tracer := Some (on_span sp f t)\<rparr> | _ \<Rightarrow> z)"

definition end_span :: "(nat \<times> bool) option \<Rightarrow> enhanced \<Rightarrow> enhanced" where
  "end_span sp = in_span sp (\<lambda>n. [SpanEnd n])"

definition with_metrics :: "(prom \<Rightarrow> prom) \<Rightarrow> enhanced \<Rightarrow> enhanced" where
  "with_metrics f z =
     (case (ec_metrics (en_config z), en_metrics z) of (True, Some p) \<Rightarrow> z\<lparr>en_metrics := Some (f p)\<rparr> | _ \<Rightarrow> z)"

definition duration_attr :: "duration \<Rightarrow> attributes" where
  "duration_attr d = [(''rpc.duration_ms'', GFloat (milliseconds d))]"

definition payload_attr :: "bool \<Rightarrow> string \<Rightarrow> gval \<Rightarrow> attributes" where
  "payload_attr capture k v = (if capture \<and> v \<noteq> GNil then [(k, GStr (json_print (marshal v)))] else [])"

definition status_text :: "('e, 'a) outcome \<Rightarrow> string" where
  "status_text x = (if is_ok x then ''success'' else ''error'')"

text \<open>
  An operation with a span around it. A panic passes: its span ends, and nothing is counted.
\<close>

definition observed_op ::
    "(enhanced \<Rightarrow> (nat \<times> bool) option \<times> enhanced) \<Rightarrow> (string \<Rightarrow> nat \<Rightarrow> span_event list) \<Rightarrow>
     (('e, 'a) outcome \<Rightarrow> prom \<Rightarrow> prom) \<Rightarrow> (('e, 'a) outcome \<Rightarrow> nat \<Rightarrow> span_event list) \<Rightarrow>
     ('s \<Rightarrow> ('e, 'a) outcome \<times> 's) \<Rightarrow> enhanced \<times> 's \<Rightarrow> ('e, 'a) outcome \<times> (enhanced \<times> 's)" where
  "observed_op start failed tally finish op zs =
     (case start (fst zs) of (sp, z1) \<Rightarrow>
        (case op (snd zs) of
           (Panic q, s') \<Rightarrow> (Panic q, (end_span sp (in_span sp (failed q) z1), s'))
         | (Ok v, s') \<Rightarrow> (Ok v, (end_span sp (in_span sp (finish (Ok v)) (with_metrics (tally (Ok v)) z1)), s'))
         | (Err e, s') \<Rightarrow> (Err e, (end_span sp (in_span sp (finish (Err e)) (with_metrics (tally (Err e)) z1)), s'))))"

definition span_outcome :: "duration \<Rightarrow> (goerr, 'a) outcome \<Rightarrow> ('a \<Rightarrow> nat \<Rightarrow> span_event list) \<Rightarrow> nat \<Rightarrow> span_event list" where
  "span_outcome d x f n = SpanSet n (duration_attr d) # (case x of Ok v \<Rightarrow> f v n | Err e \<Rightarrow> span_RecordError e n | Panic q \<Rightarrow> [])"

definition rpc_attrs :: "string \<Rightarrow> attributes" where
  "rpc_attrs m = [(''rpc.method'', GStr m), (''rpc.system'', GStr ''mcp'')]"

definition panic_events :: "bool \<Rightarrow> string \<Rightarrow> nat \<Rightarrow> span_event list" where
  "panic_events on q n = (if on then [SpanFailure n (''panic: '' @ q), SpanStatus n (StatusError ''panic occurred'')] else [])"

definition enhanced_SendRequest :: "(rat \<Rightarrow> bool) \<Rightarrow> duration \<Rightarrow> ('s \<Rightarrow> (goerr, gval) outcome \<times> 's) \<Rightarrow> string \<Rightarrow> gval \<Rightarrow>
    enhanced \<times> 's \<Rightarrow> (goerr, gval) outcome \<times> (enhanced \<times> 's)" where
  "enhanced_SendRequest ratio d op m p zs =
     (let cfg = en_config (fst zs) in
      observed_op (begin_span ratio m KindClient (rpc_attrs m @ [(''rpc.service'', GStr ''mcp-client'')] @
          payload_attr (ec_capture_request cfg) ''rpc.request.payload'' p))
        (panic_events (ec_panics cfg)) (\<lambda>x. RecordRequest m (status_text x) d)
        (\<lambda>x. span_outcome d x (\<lambda>v n. SpanStatus n StatusOk #
           (case payload_attr (ec_capture_response cfg) ''rpc.response.payload'' v of [] \<Rightarrow> [] | as \<Rightarrow> [SpanSet n as])))
        op zs)"

definition enhanced_SendNotification :: "(rat \<Rightarrow> bool) \<Rightarrow> duration \<Rightarrow> ('s \<Rightarrow> (goerr, unit) outcome \<times> 's) \<Rightarrow> string \<Rightarrow> gval \<Rightarrow>
    enhanced \<times> 's \<Rightarrow> (goerr, unit) outcome \<times> (enhanced \<times> 's)" where
  "enhanced_SendNotification ratio d op m p zs =
     observed_op (begin_span ratio m KindClient (rpc_attrs m @ [(''rpc.service'', GStr ''mcp-client''), (''rpc.notification'', GBool True)] @
          payload_attr (ec_capture_request (en_config (fst zs))) ''rpc.request.payload'' p))
        (panic_events False) (\<lambda>x. RecordNotification m (status_text x) d) (\<lambda>x. span_outcome d x (\<lambda>v n. [])) op zs"

text \<open>A batch: how many responses came is set before a failure is recorded.\<close>

definition batch_outcome :: "duration \<Rightarrow> (goerr, response option list) outcome \<Rightarrow> nat \<Rightarrow> span_event list" where
  "batch_outcome d x = span_outcome d x (\<lambda>rs n. [SpanSet n [(''rpc.batch.responses'', GInt (int (length rs)))]])"

definition batch_attrs :: "batch_item list \<Rightarrow> attributes" where
  "batch_attrs items = [(''rpc.method'', GStr ''batch''), (''rpc.batch.size'', GInt (int (length items))), (''rpc.system'', GStr ''mcp'')]"

definition enhanced_SendBatchRequest :: "(rat \<Rightarrow> bool) \<Rightarrow> duration \<Rightarrow> ('s \<Rightarrow> (goerr, response option list) outcome \<times> 's) \<Rightarrow>
    batch_item list \<Rightarrow> enhanced \<times> 's \<Rightarrow> (goerr, response option list) outcome \<times> (enhanced \<times> 's)" where
  "enhanced_SendBatchRequest ratio d op items =
     observed_op (begin_span ratio ''batch'' KindClient (batch_attrs items)) (panic_events False)
       (\<lambda>x. RecordBatchRequest (length items) (status_text x) d) (batch_outcome d) op"

definition enhanced_HandleBatchRequest :: "(rat \<Rightarrow> bool) \<Rightarrow> duration \<Rightarrow> ('s \<Rightarrow> (goerr, response option list) outcome \<times> 's) \<Rightarrow>
    batch_item list \<Rightarrow> enhanced \<times> 's \<Rightarrow> (goerr, response option list) outcome \<times> (enhanced \<times> 's)" where
  "enhanced_HandleBatchRequest ratio d op items =
     observed_op (begin_span ratio ''batch'' KindServer (batch_attrs items)) (panic_events False)
       (\<lambda>x. RecordIncomingBatchRequest (length items) (status_text x) d) (batch_outcome d) op"

text \<open>An incoming request counts as an error also when its response is one.\<close>

definition request_status :: "(goerr, response) outcome \<Rightarrow> string" where
  "request_status x = (case x of Ok r \<Rightarrow> if resp_error r \<noteq> None then ''error'' else ''success'' | _ \<Rightarrow> ''error'')"

definition enhanced_HandleRequest :: "(rat \<Rightarrow> bool) \<Rightarrow> duration \<Rightarrow> ('s \<Rightarrow> (goerr, response) outcome \<times> 's) \<Rightarrow> request \<Rightarrow>
    enhanced \<times> 's \<Rightarrow> (goerr, response) outcome \<times> (enhanced \<times> 's)" where
  "enhanced_HandleRequest ratio d op r =
     observed_op (begin_span ratio (req_method r) KindServer (rpc_attrs (req_method r) @ [(''rpc.service'', GStr ''mcp-server'')] @
          (if req_id r = GNil then [] else [(''rpc.request.id'', GStr (go_str (req_id r)))])))
        (panic_events False) (\<lambda>x. RecordIncomingRequest (req_method r) (request_status x) d)
        (\<lambda>x. span_outcome d x (\<lambda>v n. case resp_error v of
           None \<Rightarrow> []
         | Some e \<Rightarrow> [SpanSet n [(''rpc.error.code'', GInt (err_code e)), (''rpc.error.message'', GStr (err_message e))],
             SpanStatus n (StatusError (err_message e))]))
        op"

definition enhanced_HandleNotification :: "(rat \<Rightarrow> bool) \<Rightarrow> duration \<Rightarrow> ('s \<Rightarrow> (goerr, unit) outcome \<times> 's) \<Rightarrow> notification \<Rightarrow>
    enhanced \<times> 's \<Rightarrow> (goerr, unit) outcome \<times> (enhanced \<times> 's)" where
  "enhanced_HandleNotification ratio d op n =
     observed_op (begin_span ratio (notif_method n) KindServer (rpc_attrs (notif_method n) @ [(''rpc.notification'', GBool True)]))
       (panic_events False) (\<lambda>x. RecordIncomingNotification (notif_method n) (status_text x) d)
       (\<lambda>x. span_outcome d x (\<lambda>v n. [])) op"

definition enhanced_Initialize :: "(rat \<Rightarrow> bool) \<Rightarrow> duration \<Rightarrow> ('s \<Rightarrow> (goerr, unit) outcome \<times> 's) \<Rightarrow>
    enhanced \<times> 's \<Rightarrow> (goerr, unit) outcome \<times> (enhanced \<times> 's)" where
  "enhanced_Initialize ratio d op =
     observed_op (plain_span ratio ''transport.initialize'') (panic_events False)
       (\<lambda>x. RecordTransportEvent ''initialize'' (status_text x) d) (\<lambda>x n. []) op"

definition enhanced_Start :: "(rat \<Rightarrow> bool) \<Rightarrow> ('s \<Rightarrow> (goerr, unit) outcome \<times> 's) \<Rightarrow>
    enhanced \<times> 's \<Rightarrow> (goerr, unit) outcome \<times> (enhanced \<times> 's)" where
  "enhanced_Start ratio op = observed_op (plain_span ratio ''transport.start'') (panic_events False) (\<lambda>x p. p) (\<lambda>x n. []) op"

text \<open>\<open>Stop\<close>: the first error of the transport, the tracer and the metrics, which are shut down in any case.\<close>

definition enhanced_Stop :: "goerr option \<Rightarrow> goerr option \<Rightarrow> ('s \<Rightarrow> (goerr, unit) outcome \<times> 's) \<Rightarrow>
    enhanced \<times> 's \<Rightarrow> (goerr, unit) outcome \<times> (enhanced \<times> 's)" where
  "enhanced_Stop tracing serving op zs =
     (case op (snd zs) of
        (Ok u, s') \<Rightarrow>
          (case (if en_tracer (fst zs) = None then None else tracing) of
             Some e \<Rightarrow> Err e
           | None \<Rightarrow> (case (case en_metrics (fst zs) of None \<Rightarrow> None | Some p \<Rightarrow> prom_Shutdown serving p) of
               Some e \<Rightarrow> Err e | None \<Rightarrow> Ok u), (fst zs, s'))
      | (x, s') \<Rightarrow> (x, (fst zs, s')))"

text \<open>What a moment of the middleware takes: how long its operation took, and how shutting down fails.\<close>

record telemetry =
  tm_ratio :: "rat \<Rightarrow> bool"
  tm_tracing :: "goerr option"
  tm_serving :: "goerr option"

definition spell :: "course \<Rightarrow> duration" where
  "spell e = time_sub (snd (mo_spell (e []))) (fst (mo_spell (e [])))"

definition next_state :: "('s \<Rightarrow> 'x \<times> 's) \<Rightarrow> enhanced \<times> 's \<Rightarrow> 'x \<times> (enhanced \<times> 's)" where
  "next_state f zs = (case f (snd zs) of (x, s') \<Rightarrow> (x, (fst zs, s')))"

definition enhancedTransport :: "telemetry \<Rightarrow> ('h, 'n, 'p, 's) transport \<Rightarrow> ('h, 'n, 'p, enhanced \<times> 's) transport" where
  "enhancedTransport tm t =
     \<lparr>tp_Initialize = (\<lambda>e. enhanced_Initialize (tm_ratio tm) (spell e) (tp_Initialize t (inner 0 e))),
      tp_SendRequest = (\<lambda>e cx m p. enhanced_SendRequest (tm_ratio tm) (spell e) (tp_SendRequest t (inner 0 e) cx m p) m p),
      tp_SendNotification = (\<lambda>e cx m p. enhanced_SendNotification (tm_ratio tm) (spell e) (tp_SendNotification t (inner 0 e) cx m p) m p),
      tp_SendBatchRequest = (\<lambda>e cx items. enhanced_SendBatchRequest (tm_ratio tm) (spell e) (tp_SendBatchRequest t (inner 0 e) cx items) items),
      tp_HandleBatchRequest = (\<lambda>e cx items. enhanced_HandleBatchRequest (tm_ratio tm) (spell e) (tp_HandleBatchRequest t (inner 0 e) cx items) items),
      tp_RegisterRequestHandler = (\<lambda>m h zs. (fst zs, tp_RegisterRequestHandler t m h (snd zs))),
      tp_RegisterNotificationHandler = (\<lambda>m h zs. (fst zs, tp_RegisterNotificationHandler t m h (snd zs))),
      tp_RegisterProgressHandler = (\<lambda>i h zs. (fst zs, tp_RegisterProgressHandler t i h (snd zs))),
      tp_UnregisterProgressHandler = (\<lambda>i zs. (fst zs, tp_UnregisterProgressHandler t i (snd zs))),
      tp_Start = (\<lambda>e. enhanced_Start (tm_ratio tm) (tp_Start t (inner 0 e))),
      tp_Stop = (\<lambda>e. enhanced_Stop (tm_tracing tm) (tm_serving tm) (tp_Stop t (inner 0 e))),
      tp_HandleResponse = (\<lambda>r. next_state (tp_HandleResponse t r)),
      tp_HandleRequest = (\<lambda>e cx r. enhanced_HandleRequest (tm_ratio tm) (spell e) (tp_HandleRequest t (inner 0 e) cx r) r),
      tp_HandleNotification = (\<lambda>e cx n. enhanced_HandleNotification (tm_ratio tm) (spell e) (tp_HandleNotification t (inner 0 e) cx n) n),
      tp_GenerateID = next_state (tp_GenerateID t),
      tp_GetRequestIDPrefix = (\<lambda>zs. tp_GetRequestIDPrefix t (snd zs)),
      tp_GetNextID = next_state (tp_GetNextID t),
      tp_Cleanup = (\<lambda>zs. (fst zs, tp_Cleanup t (snd zs)))\<rparr>"

subsection \<open>The types of errors\<close>

fun findSubstring :: "string \<Rightarrow> string \<Rightarrow> bool" where
  "findSubstring [] p = (p = [])"
| "findSubstring (c # s) p = (take (length p) (c # s) = p \<or> findSubstring s p)"

definition contains :: "string \<Rightarrow> string \<Rightarrow> bool" where
  "contains s p \<longleftrightarrow> length p \<le> length s \<and>
     (s = p \<or> s \<noteq> [] \<and> p \<noteq> [] \<and> take (length p) s = p
      \<or> length p < length s \<and> drop (length s - length p) s = p
      \<or> p \<noteq> [] \<and> length p < length s \<and> findSubstring s p)"

definition getErrorType :: "goerr option \<Rightarrow> string" where
  "getErrorType err =
     (case err of
        None \<Rightarrow> []
      | Some (ErrObject e) \<Rightarrow>
          (let c = err_code e in
           if - 32099 \<le> c \<and> c \<le> - 32000 then ''server_error'' else if c = - 32700 then ''parse_error''
           else if c = - 32600 then ''invalid_request'' else if c = - 32601 then ''method_not_found''
           else if c = - 32602 then ''invalid_params'' else if c = - 32603 then ''internal_error''
           else ''unknown_error'')
      | Some e \<Rightarrow>
          (if contains (Error e) ''timeout'' then ''timeout'' else if contains (Error e) ''connection'' then ''connection''
           else if contains (Error e) ''cancelled'' then ''cancelled'' else ''unknown''))"

text \<open>
  \<open>contains\<close>, written out with its special cases, is the search for a part of a string.
\<close>

lemma findSubstring_contains: "findSubstring s p \<longleftrightarrow> str_contains s p"
  by (induction s) (auto simp: has_prefix_def)

theorem contains_iff: "contains s p \<longleftrightarrow> str_contains s p"
proof -
  have "length p \<le> length s" if "str_contains s p" using that by (auto simp: str_contains_iff)
  moreover have "str_contains s p" if "take (length p) s = p"
    using that by (metis append_Nil append_take_drop_id str_contains_iff)
  moreover have "str_contains s p" if "drop (length s - length p) s = p"
    using that by (metis append.right_neutral append_take_drop_id str_contains_iff)
  moreover have "s = p" if "str_contains s p" "length p = length s" using that by (auto simp: str_contains_iff)
  moreover have "drop (length s - length p) s = p" if "p = []" using that by simp
  moreover have "str_contains s s" by (metis append.left_neutral append.right_neutral str_contains_iff)
  ultimately show ?thesis unfolding contains_def findSubstring_contains by (metis le_neq_implies_less)
qed

subsection \<open>Sampling decisions\<close>

text \<open>
  What is recorded: a span of a provider made from a configuration is recorded when its method is
  listed to be sampled always; else, when it is listed never to be, it is not; else the rate decides, and
  a rate of zero means one, so that it records everything.
\<close>

definition rate_decides :: "(rat \<Rightarrow> bool) \<Rightarrow> rat \<Rightarrow> bool" where
  "rate_decides ratio r \<longleftrightarrow> r = 0 \<or> 1 \<le> r \<or> 0 < r \<and> ratio r"

theorem sampling_decision:
  assumes "NewTracingProvider fails c = Inr p"
  shows "snd (fst (StartMethodSpan ratio m kind (new_tracer p))) \<longleftrightarrow>
    m \<in> set (tg_always c) \<or> m \<notin> set (tg_never c) \<and> rate_decides ratio (tg_rate c)"
proof -
  have p: "tv_sampler p = createSampler (tracing_defaults c)"
    using assms by (auto simp: NewTracingProvider_def Let_def split: sum.splits)
  have d: "tg_always (tracing_defaults c) = tg_always c" "tg_never (tracing_defaults c) = tg_never c"
    "tg_rate (tracing_defaults c) = (if tg_rate c = 0 then 1 else tg_rate c)"
    by (simp_all add: tracing_defaults_def)
  show ?thesis
    by (auto simp: StartMethodSpan_def StartSpan_def new_tracer_def p createSampler_def d method_of_span_def
        rate_decides_def Let_def)
qed

definition demo_tracing :: tracing_config where
  "demo_tracing = \<lparr>tg_service = [], tg_version = [], tg_environment = [], tg_exporter = ''noop'', tg_endpoint = [],
     tg_headers = [], tg_insecure = False, tg_rate = 0, tg_always = [], tg_never = [''ping''], tg_batch_timeout = 0,
     tg_max_batch = 0, tg_max_queue = 0, tg_attributes = []\<rparr>"

theorem sampling_decision_witness:
  "\<exists>p. NewTracingProvider (\<lambda>x. None) demo_tracing = Inr p
    \<and> snd (fst (StartMethodSpan (\<lambda>r. False) ''callTool'' KindClient (new_tracer p)))
    \<and> \<not> snd (fst (StartMethodSpan (\<lambda>r. False) ''ping'' KindClient (new_tracer p)))"
proof -
  obtain p where p: "NewTracingProvider (\<lambda>x. None) demo_tracing = Inr p"
    by (simp add: NewTracingProvider_def demo_tracing_def tracing_defaults_def createExporter_def exporter_types Let_def)
  show ?thesis using sampling_decision [OF p, of "\<lambda>r. False"] p
    by (simp add: demo_tracing_def rate_decides_def)
qed

text \<open>The exporter for Jaeger, which the configuration names, does not exist.\<close>

lemma jaeger_is_unsupported:
  "tg_exporter c = ExporterTypeJaeger \<Longrightarrow> \<exists>e. NewTracingProvider fails c = Inl e"
  by (simp add: NewTracingProvider_def tracing_defaults_def createExporter_def exporter_types Let_def)

subsection \<open>Operations do not see the middleware\<close>

definition unseen :: "(enhanced \<times> 's \<Rightarrow> 'x \<times> (enhanced \<times> 's)) \<Rightarrow> ('s \<Rightarrow> 'x \<times> 's) \<Rightarrow> bool" where
  "unseen f op \<longleftrightarrow> (\<forall>z s. fst (f (z, s)) = fst (op s) \<and> snd (snd (f (z, s))) = snd (op s))"

lemma observed_unseen: "unseen (observed_op start failed tally finish op) op"
proof -
  have "fst (observed_op start failed tally finish op (z, s)) = fst (op s)
      \<and> snd (snd (observed_op start failed tally finish op (z, s))) = snd (op s)" for z s
  proof -
    obtain sp z1 where "start z = (sp, z1)" by (cases "start z")
    moreover obtain x s' where "op s = (x, s')" by (cases "op s")
    ultimately show ?thesis by (cases x) (simp_all add: observed_op_def)
  qed
  then show ?thesis by (simp add: unseen_def)
qed

lemma enhanced_unseen:
  "unseen (enhanced_SendRequest ratio d f m p) f" "unseen (enhanced_SendNotification ratio d g m p) g"
  by (simp_all add: unseen_def enhanced_SendRequest_def enhanced_SendNotification_def Let_def
      observed_unseen [unfolded unseen_def, rule_format])

text \<open>
  The enhanced observability middleware is not seen: through it, every request, notification and
  batch in both directions, and initialization and starting, has the outcome that it has without it and
  leaves the wrapped transport in the same state, whatever is traced and measured.
\<close>

theorem enhanced_transport_is_transparent:
  "unseen (tp_SendRequest (enhancedTransport tm t) e cx m p) (tp_SendRequest t (inner 0 e) cx m p)
    \<and> unseen (tp_SendNotification (enhancedTransport tm t) e cx m p) (tp_SendNotification t (inner 0 e) cx m p)
    \<and> unseen (tp_SendBatchRequest (enhancedTransport tm t) e cx items) (tp_SendBatchRequest t (inner 0 e) cx items)
    \<and> unseen (tp_HandleBatchRequest (enhancedTransport tm t) e cx items) (tp_HandleBatchRequest t (inner 0 e) cx items)
    \<and> unseen (tp_HandleRequest (enhancedTransport tm t) e cx r) (tp_HandleRequest t (inner 0 e) cx r)
    \<and> unseen (tp_HandleNotification (enhancedTransport tm t) e cx n) (tp_HandleNotification t (inner 0 e) cx n)
    \<and> unseen (tp_Initialize (enhancedTransport tm t) e) (tp_Initialize t (inner 0 e))
    \<and> unseen (tp_Start (enhancedTransport tm t) e) (tp_Start t (inner 0 e))"
  by (simp add: enhancedTransport_def enhanced_unseen observed_unseen enhanced_SendBatchRequest_def
      enhanced_HandleBatchRequest_def enhanced_HandleRequest_def enhanced_HandleNotification_def
      enhanced_Initialize_def enhanced_Start_def)

subsection \<open>Spans end\<close>

definition started :: "span_event list \<Rightarrow> nat list" where
  "started evs = concat (map (\<lambda>x. case x of SpanStart n _ _ _ \<Rightarrow> [n] | _ \<Rightarrow> []) evs)"

definition ended :: "span_event list \<Rightarrow> nat list" where
  "ended evs = concat (map (\<lambda>x. case x of SpanEnd n \<Rightarrow> [n] | _ \<Rightarrow> []) evs)"

definition spans_end :: "enhanced \<Rightarrow> bool" where
  "spans_end z \<longleftrightarrow> (case en_tracer z of None \<Rightarrow> True
     | Some t \<Rightarrow> started (tr_events t) = ended (tr_events t) \<and> sorted_wrt (<) (started (tr_events t))
         \<and> (\<forall>n \<in> set (started (tr_events t)). n < tr_next t))"

text \<open>Events that are only about a span in progress.\<close>

definition about_span :: "(nat \<Rightarrow> span_event list) \<Rightarrow> bool" where
  "about_span f \<longleftrightarrow> (\<forall>n. started (f n) = [] \<and> ended (f n) = [])"

lemma started_simps [simp]:
  "started [] = []" "started (x # evs) = (case x of SpanStart n _ _ _ \<Rightarrow> [n] | _ \<Rightarrow> []) @ started evs"
  "started (us @ vs) = started us @ started vs"
  "ended [] = []" "ended (x # evs) = (case x of SpanEnd n \<Rightarrow> [n] | _ \<Rightarrow> []) @ ended evs"
  "ended (us @ vs) = ended us @ ended vs"
  by (simp_all add: started_def ended_def)

lemma with_metrics_tracer [simp]: "en_tracer (with_metrics f z) = en_tracer z"
  by (auto simp: with_metrics_def split: option.splits bool.splits)

text \<open>The span of an operation that is under way is the only one that has not ended.\<close>

definition under_way :: "(nat \<times> bool) option \<Rightarrow> enhanced \<Rightarrow> bool" where
  "under_way sp z \<longleftrightarrow>
     (case sp of
        None \<Rightarrow> spans_end z
      | Some (n, sampled) \<Rightarrow>
          (\<exists>t. en_tracer z = Some t \<and> started (tr_events t) = ended (tr_events t) @ (if sampled then [n] else [])
            \<and> sorted_wrt (<) (started (tr_events t)) \<and> (\<forall>k \<in> set (started (tr_events t)). k < tr_next t)))"

lemma started_span:
  assumes "spans_end z" "en_tracer z = Some t" "StartSpan ratio name kind attrs t = (sp, t')"
  shows "under_way (Some sp) (z\<lparr>en_tracer := Some t'\<rparr>)"
  using assms by (auto simp: under_way_def StartSpan_def Let_def spans_end_def sorted_wrt_append less_Suc_eq)

lemma in_span_under_way: "under_way sp z \<Longrightarrow> about_span f \<Longrightarrow> under_way sp (in_span sp f z)"
  by (cases sp) (auto simp: under_way_def in_span_def on_span_def about_span_def)

lemma with_metrics_under_way: "under_way sp z \<Longrightarrow> under_way sp (with_metrics f z)"
  by (auto simp: under_way_def spans_end_def split: option.splits)

lemma end_span_ends: "under_way sp z \<Longrightarrow> spans_end (end_span sp z)"
  by (cases sp) (auto simp: under_way_def end_span_def in_span_def on_span_def spans_end_def split: option.splits)

lemma begin_span_under_way:
  "spans_end z \<Longrightarrow> begin_span ratio m kind attrs z = (sp, z1) \<Longrightarrow> under_way sp z1"
proof (cases "ec_tracing (en_config z) \<and> en_tracer z \<noteq> None")
  case True
  assume z: "spans_end z" and b: "begin_span ratio m kind attrs z = (sp, z1)"
  obtain t where t: "en_tracer z = Some t" using True by blast
  obtain s t' where st: "StartMethodSpan ratio m kind t = (s, t')" by (cases "StartMethodSpan ratio m kind t")
  have "under_way (Some s) (z\<lparr>en_tracer := Some t'\<rparr>)"
    using started_span [OF z t] st by (simp add: StartMethodSpan_def)
  from in_span_under_way [OF this, of "\<lambda>n. [SpanSet n attrs]"]
  have "under_way (Some s) (in_span (Some s) (\<lambda>n. [SpanSet n attrs]) (z\<lparr>en_tracer := Some t'\<rparr>))"
    by (simp add: about_span_def)
  then show ?thesis using b True t st by (auto simp: begin_span_def in_span_def)
qed (auto simp: begin_span_def under_way_def split: option.splits bool.splits)

lemma plain_span_under_way:
  "spans_end z \<Longrightarrow> plain_span ratio name z = (sp, z1) \<Longrightarrow> under_way sp z1"
  using started_span by (fastforce simp: plain_span_def under_way_def split: option.splits bool.splits prod.splits)

lemma observed_spans_end:
  assumes "spans_end (fst zs)" "\<And>z sp z1. spans_end z \<Longrightarrow> start z = (sp, z1) \<Longrightarrow> under_way sp z1"
    and "\<And>q. about_span (failed q)" "\<And>x. about_span (finish x)"
  shows "spans_end (fst (snd (observed_op start failed tally finish op zs)))"
proof -
  obtain sp z1 where z1: "start (fst zs) = (sp, z1)" by (cases "start (fst zs)")
  have u: "under_way sp z1" using assms(1,2) z1 by blast
  have "spans_end (end_span sp (in_span sp (finish x) (with_metrics f z1)))"
    "spans_end (end_span sp (in_span sp (failed q) z1))" for x f q
    using u assms(3,4) by (blast intro: end_span_ends in_span_under_way with_metrics_under_way)+
  then show ?thesis by (simp add: observed_op_def z1 split: prod.split outcome.split)
qed

lemma about_span_events [simp]:
  "about_span (panic_events on q)" "about_span (\<lambda>n. [])"
  "(\<And>v. about_span (f v)) \<Longrightarrow> about_span (span_outcome d x f)"
  by (auto simp: about_span_def panic_events_def span_outcome_def span_RecordError_def split: outcome.splits)

lemma observed_begin:
  assumes "spans_end (fst zs)" "\<And>q. about_span (failed q)" "\<And>x. about_span (finish x)"
  shows "spans_end (fst (snd (observed_op (begin_span ratio m kind attrs) failed tally finish op zs)))"
    "spans_end (fst (snd (observed_op (plain_span ratio name) failed tally finish op zs)))"
  by (rule observed_spans_end [where start = "begin_span ratio m kind attrs", OF assms(1) begin_span_under_way assms(2,3)];
      assumption)
    (rule observed_spans_end [where start = "plain_span ratio name", OF assms(1) plain_span_under_way assms(2,3)]; assumption)

lemma about_span_cases [simp]:
  "about_span (\<lambda>n. SpanSet n as # f n) \<longleftrightarrow> about_span f" "about_span (\<lambda>n. SpanStatus n st # f n) \<longleftrightarrow> about_span f"
  "about_span (\<lambda>n. case x of None \<Rightarrow> [] | Some e \<Rightarrow> g e n) \<longleftrightarrow> (\<forall>e. x = Some e \<longrightarrow> about_span (g e))"
  "about_span (\<lambda>n. case xs of [] \<Rightarrow> [] | y # ys \<Rightarrow> h y ys n) \<longleftrightarrow> (\<forall>y ys. xs = y # ys \<longrightarrow> about_span (h y ys))"
  by (auto simp: about_span_def split: option.split list.split)

lemma enhanced_spans_end:
  assumes "spans_end (fst zs)"
  shows "spans_end (fst (snd (enhanced_SendRequest ratio d f1 m p zs)))"
    "spans_end (fst (snd (enhanced_SendNotification ratio d f2 m p zs)))"
    "spans_end (fst (snd (enhanced_SendBatchRequest ratio d f3 items zs)))"
    "spans_end (fst (snd (enhanced_HandleBatchRequest ratio d f3 items zs)))"
    "spans_end (fst (snd (enhanced_HandleRequest ratio d f4 r zs)))"
    "spans_end (fst (snd (enhanced_HandleNotification ratio d f2 n zs)))"
    "spans_end (fst (snd (enhanced_Initialize ratio d f2 zs)))"
    "spans_end (fst (snd (enhanced_Start ratio f2 zs)))"
  unfolding enhanced_SendRequest_def enhanced_SendNotification_def enhanced_SendBatchRequest_def
    enhanced_HandleBatchRequest_def enhanced_HandleRequest_def enhanced_HandleNotification_def
    enhanced_Initialize_def enhanced_Start_def Let_def batch_outcome_def
  by (rule observed_begin [OF assms]; simp)+

lemma enhanced_Stop_keeps [simp]: "fst (snd (enhanced_Stop a b f zs)) = fst zs"
  by (auto simp: enhanced_Stop_def split: prod.split outcome.split)


definition demo_enhanced :: enhanced where
  "demo_enhanced = \<lparr>en_config = \<lparr>ec_tracing = True, ec_tracing_config = demo_tracing, ec_metrics = True,
       ec_metrics_config = pr_config sample_prom, ec_capture_request = True, ec_capture_response = True, ec_panics = True\<rparr>,
     en_tracer = Some (new_tracer \<lparr>tv_config = tracing_defaults demo_tracing, tv_exporter = NoopExporter,
       tv_resource = createResource demo_tracing, tv_sampler = createSampler (tracing_defaults demo_tracing)\<rparr>),
     en_metrics = Some sample_prom\<rparr>"


subsection \<open>What is counted\<close>

lemma begin_span_metrics: "en_metrics (snd (begin_span ratio m kind attrs z)) = en_metrics z"
  "en_config (snd (begin_span ratio m kind attrs z)) = en_config z"
  by (auto simp: begin_span_def split: option.splits bool.splits prod.splits)

lemma in_span_metrics [simp]: "en_metrics (in_span sp f z) = en_metrics z" "en_metrics (end_span sp z) = en_metrics z"
  by (auto simp: in_span_def end_span_def split: option.splits)

lemma observed_metrics:
  assumes "start z = (sp, z1)" "en_metrics z1 = Some p" "ec_metrics (en_config z1)"
  shows "en_metrics (fst (snd (observed_op start failed tally finish op (z, s)))) =
    Some (if is_panic (fst (op s)) then p else tally (fst (op s)) p)"
proof -
  obtain x s' where x: "op s = (x, s')" by (cases "op s")
  have "with_metrics f z1 = z1\<lparr>en_metrics := Some (f p)\<rparr>" for f using assms(2,3) by (simp add: with_metrics_def)
  then show ?thesis using assms(1,2) x by (cases x) (simp_all add: observed_op_def)
qed

text \<open>
  A request that returns is counted once, under its method and as a success or an error, with how long
  it took; one that panics is not counted at all.
\<close>

theorem requests_are_counted:
  assumes "ec_metrics (en_config z)" "en_metrics z = Some p"
  shows "en_metrics (fst (snd (enhanced_SendRequest ratio d op m v (z, s)))) =
    Some (if is_panic (fst (op s)) then p else RecordRequest m (status_text (fst (op s))) d p)"
proof -
  let ?as = "rpc_attrs m @ [(''rpc.service'', GStr ''mcp-client'')] @
    payload_attr (ec_capture_request (en_config z)) ''rpc.request.payload'' v"
  obtain sp z1 where z1: "begin_span ratio m KindClient ?as z = (sp, z1)" by (cases "begin_span ratio m KindClient ?as z")
  have kept: "en_metrics z1 = Some p" "ec_metrics (en_config z1)"
    using begin_span_metrics [of ratio m KindClient ?as z] assms unfolding z1 snd_conv by simp_all
  show ?thesis unfolding enhanced_SendRequest_def Let_def fst_conv by (rule observed_metrics [where start = "begin_span ratio m KindClient ?as", OF z1 kept])
qed

theorem requests_are_counted_witness:
  "en_metrics (fst (snd (enhanced_SendRequest (\<lambda>r. True) 5000000 (\<lambda>n :: nat. (Err ErrCanceled, Suc n)) ''ping'' GNil (demo_enhanced, 0)))) =
    Some (RecordRequest ''ping'' ''error'' 5000000 sample_prom)"
proof -
  have "ec_metrics (en_config demo_enhanced)" "en_metrics demo_enhanced = Some sample_prom"
    by (simp_all add: demo_enhanced_def)
  from requests_are_counted [OF this, of "\<lambda>r. True" 5000000 "\<lambda>n :: nat. (Err ErrCanceled, Suc n)" "''ping''" GNil 0]
  show ?thesis by (simp add: status_text_def)
qed

end
