(* ===== verification/Framing.thy ===== *)
theory Framing
  imports Stacks Base64
begin

section \<open>Lines on the byte stream of stdio\<close>

text \<open>
  What lies between the writer of one side and the reader of the other: \<open>Send\<close> ends each message with a
  newline, and \<open>Start\<close> splits its input with a \<open>bufio.Scanner\<close> in its default configuration, which gives
  up on a line of 64 KiB. The messages are shown to come out as they were sent up to that size, and what
  happens to a session at the first larger one is worked out.
\<close>

subsection \<open>The scanner\<close>

definition line_feed :: char where
  "line_feed = CHR 0x0A"

text \<open>\<open>bufio.MaxScanTokenSize\<close>: \<open>Start\<close> does not call \<open>Buffer\<close>.\<close>

definition max_line :: nat where
  "max_line = 65536"

definition ErrTooLong :: goerr where
  "ErrTooLong = ErrText ''bufio.Scanner: token too long''"

definition drop_cr :: "string \<Rightarrow> string" where
  "drop_cr l = (if l \<noteq> [] \<and> last l = CHR 0x0D then butlast l else l)"

text \<open>
  The lines that \<open>Scan\<close> yields from the bytes of a reader that then ends, with an error or at the end of
  the file, and what \<open>Err\<close> returns afterwards. The buffer holds \<open>max_line\<close> bytes, so a line has to be
  shorter for its end to be seen. The reader reports its end apart from its last bytes, as files and
  pipes do.
\<close>

definition scan_end :: "goerr option \<Rightarrow> input_end" where
  "scan_end err = (case err of None \<Rightarrow> EndOfInput | Some e \<Rightarrow> ScanFailed e)"

function scan_input :: "goerr option \<Rightarrow> string \<Rightarrow> string list \<times> input_end" where
  "scan_input err input =
     (let line = takeWhile (\<lambda>c. c \<noteq> line_feed) input in
      if input = [] then ([], scan_end err)
      else if max_line \<le> length line then ([], ScanFailed ErrTooLong)
      else (case drop (length line) input of
              [] \<Rightarrow> ([drop_cr line], scan_end err)
            | _ # rest \<Rightarrow> (case scan_input err rest of (lines, e) \<Rightarrow> (drop_cr line # lines, e))))"
  by pat_completeness auto
termination
proof (relation "measure (\<lambda>(err, input). length input)", goal_cases)
  case (2 err input line c rest)
  have "length (c # rest) \<le> length input" unfolding 2(4) [symmetric] by simp
  then show ?case by simp
qed simp

declare scan_input.simps [simp del]

text \<open>What \<open>Send\<close> has written of the messages of a list.\<close>

definition wire_bytes :: "string list \<Rightarrow> string" where
  "wire_bytes lines = concat (map (\<lambda>l. l @ [line_feed]) lines)"

text \<open>A moment of a transport whose reader is given these bytes.\<close>

definition reading :: "goerr option \<Rightarrow> string \<Rightarrow> moment \<Rightarrow> moment" where
  "reading err bytes mo =
     (case scan_input err bytes of (lines, e) \<Rightarrow> mo\<lparr>mo_lines := lines, mo_input := e\<rparr>)"

subsection \<open>Scanning what was sent\<close>

definition one_line :: "string \<Rightarrow> bool" where
  "one_line l \<longleftrightarrow> list_all (\<lambda>c. 32 \<le> (of_char c :: nat)) l"

lemma one_line_simps [simp]:
  "one_line []" "one_line (c # l) \<longleftrightarrow> 32 \<le> (of_char c :: nat) \<and> one_line l"
  "one_line (k @ l) \<longleftrightarrow> one_line k \<and> one_line l"
  by (simp_all add: one_line_def)

lemma one_line_newline: "one_line l \<Longrightarrow> line_feed \<notin> set l"
  by (auto simp: one_line_def list_all_iff line_feed_def)

lemma one_line_cr: "one_line l \<Longrightarrow> drop_cr l = l"
  by (cases l rule: rev_cases) (auto simp: drop_cr_def)

lemma takeWhile_line:
  assumes "line_feed \<notin> set l"
  shows "takeWhile (\<lambda>c. c \<noteq> line_feed) (l @ line_feed # r) = l"
proof -
  have "\<forall>x\<in>set l. x \<noteq> line_feed" using assms by blast
  then show ?thesis by (simp add: takeWhile_append2 takeWhile_tail)
qed

lemma scan_line:
  assumes "one_line l"
  shows "scan_input err (l @ line_feed # r) =
    (if max_line \<le> length l then ([], ScanFailed ErrTooLong)
     else case scan_input err r of (lines, e) \<Rightarrow> (l # lines, e))"
  using takeWhile_line [OF one_line_newline [OF assms]]
  by (subst scan_input.simps) (simp add: Let_def one_line_cr [OF assms])

lemma wire_bytes_simps [simp]:
  "wire_bytes [] = []" "wire_bytes (l # ls) = l @ line_feed # wire_bytes ls"
  "wire_bytes (ks @ ls) = wire_bytes ks @ wire_bytes ls"
  by (simp_all add: wire_bytes_def)

lemma scan_empty [simp]: "scan_input err [] = ([], scan_end err)"
  by (simp add: scan_input.simps)

text \<open>Lines that are short enough pass the scanner, whatever comes after them.\<close>

definition passes :: "string \<Rightarrow> bool" where
  "passes l \<longleftrightarrow> one_line l \<and> length l < max_line"

lemma scan_passing:
  "list_all passes ls \<Longrightarrow> scan_input err (wire_bytes ls @ r) =
    (ls @ fst (scan_input err r), snd (scan_input err r))"
proof (induction ls)
  case (Cons l ls)
  then have l: "one_line l" "\<not> max_line \<le> length l" by (simp_all add: passes_def)
  have "scan_input err (wire_bytes (l # ls) @ r) = (case scan_input err (wire_bytes ls @ r) of (lines, e) \<Rightarrow> (l # lines, e))"
    using scan_line [OF l(1), of err "wire_bytes ls @ r"] l(2) by simp
  then show ?case using Cons by simp
qed simp

subsection \<open>Printed messages are lines\<close>

lemma digit_line: "is_digit c \<Longrightarrow> 32 \<le> (of_char c :: nat)"
  by (auto simp: is_digit_def)

lemma one_line_digits: "list_all is_digit l \<Longrightarrow> one_line l"
  by (induction l) (simp_all add: digit_line)

lemma one_line_takeWhile: "one_line (takeWhile is_digit l)"
  by (rule one_line_digits) (auto simp: list_all_iff dest: set_takeWhileD)

lemma one_line_number:
  assumes "lex_number l = Some (l, [])"
  shows "one_line l"
proof -
  let ?s = "snd (lex_sign l)"
  obtain f s3 e where f: "lex_frac (dropWhile is_digit ?s) = Some (f, s3)" and e: "lex_exp s3 = Some (e, [])"
    and l: "l = fst (lex_sign l) @ takeWhile is_digit ?s @ f @ e"
    using assms by (auto simp: lex_number_def Let_def split: if_splits option.splits)
  have "one_line (fst (lex_sign l))" by (auto simp: lex_sign_def split: list.splits)
  moreover have "one_line f"
    using f by (auto simp: lex_frac_def one_line_takeWhile split: list.splits if_splits)
  moreover have "one_line e"
    using e by (auto simp: lex_exp_def Let_def one_line_takeWhile digit_line split: list.splits if_splits)
  ultimately show ?thesis by (subst l) (simp add: one_line_takeWhile)
qed

lemma hex_char_line: "n < 16 \<Longrightarrow> 32 \<le> (of_char (hex_char n) :: nat)"
proof -
  have "list_all (\<lambda>n. 32 \<le> (of_char (hex_char n) :: nat)) [0..<16]" by code_simp
  then show "n < 16 \<Longrightarrow> ?thesis" by (simp add: list_all_iff)
qed

lemma one_line_escaped: "one_line (esc_char c)"
proof -
  have "(of_char c :: nat) div 16 < 16" by (intro less_mult_imp_div_less) simp
  then show ?thesis by (auto simp: esc_char_def hex_char_line)
qed

lemma one_line_string: "one_line (concat (map esc_char s))"
  by (induction s) (simp_all add: one_line_escaped)

text \<open>The tokens of a tree print no control character.\<close>

lemma one_line_tokens: "list_all (\<lambda>t. one_line (tok_text t)) ts \<Longrightarrow> one_line (toks_text ts)"
  by (induction ts) simp_all

lemma comma_sep_all: "P TComma \<Longrightarrow> list_all (list_all P) xs \<Longrightarrow> list_all P (comma_sep xs)"
  by (induction xs rule: comma_sep.induct) simp_all

lemma json_tokens_lines: "wf_json v \<Longrightarrow> list_all (\<lambda>t. one_line (tok_text t)) (json_tokens v)"
proof (induction v)
  case (JArr vs)
  then have "list_all (list_all (\<lambda>t. one_line (tok_text t))) (map json_tokens vs)"
    by (auto simp: list_all_iff)
  then show ?case by (simp add: comma_sep_all tok_text.simps)
next
  case (JObj kvs)
  have "list_all (\<lambda>t. one_line (tok_text t)) (json_tokens v)" if "(k, v) \<in> set kvs" for k v
    using JObj that by (force simp: list_all_iff snds.simps)
  then have "list_all (list_all (\<lambda>t. one_line (tok_text t)))
      (map (\<lambda>(k, v). TStr k # TColon # json_tokens v) kvs)"
    by (auto simp: list_all_iff tok_text.simps one_line_string)
  then show ?case by (simp add: comma_sep_all tok_text.simps)
qed (simp_all add: tok_text.simps one_line_string one_line_number)

lemma one_line_print [simp]: "wf_json v \<Longrightarrow> one_line (json_print v)"
  by (simp add: json_print_def one_line_tokens json_tokens_lines)

definition fits :: "json \<Rightarrow> bool" where
  "fits v \<longleftrightarrow> wf_json v \<and> length (json_print v) < max_line"

lemma fits_passes: "list_all fits vs \<Longrightarrow> list_all passes (map json_print vs)"
  by (simp add: list_all_iff fits_def passes_def)

text \<open>
  C4. Messages shorter than 64 KiB come out of the byte stream as they were sent: the scanner splits the
  bytes that \<open>Send\<close> wrote for a list of JSON values into exactly their texts, and each text parses back
  to its value.
\<close>

theorem framing_roundtrip:
  assumes "list_all fits vs"
  shows "scan_input err (wire_bytes (map json_print vs)) = (map json_print vs, scan_end err)
    \<and> map json_parse (fst (scan_input err (wire_bytes (map json_print vs)))) = map Some vs"
proof -
  have scan: "scan_input err (wire_bytes (map json_print vs)) = (map json_print vs, scan_end err)"
    using scan_passing [OF fits_passes [OF assms], of err "[]"] by simp
  moreover have "map json_parse (map json_print vs) = map Some vs"
    using assms by (induction vs) (simp_all add: fits_def json_parse_print)
  ultimately show ?thesis by simp
qed

theorem framing_roundtrip_witness:
  "fst (scan_input None (wire_bytes (map json_print [JObj [(''a'', JStr [line_feed])], JNull]))) =
    map json_print [JObj [(''a'', JStr [line_feed])], JNull]"
proof -
  have "list_all fits [JObj [(''a'', JStr [line_feed])], JNull]"
    by (simp add: fits_def json_print_def line_feed_def max_line_def tok_text.simps esc_char_def)
  from framing_roundtrip [OF this, of None] show ?thesis by simp
qed


subsection \<open>The first larger message\<close>

lemma scan_oversized:
  assumes "list_all passes ls" "one_line l" "max_line \<le> length l"
  shows "scan_input err (wire_bytes (ls @ l # rest)) = (ls, ScanFailed ErrTooLong)"
  using scan_passing [OF assms(1), of err "wire_bytes (l # rest)"]
    scan_line [OF assms(2), of err "wire_bytes rest"] assms(3) by simp

text \<open>
  A message of 64 KiB ends the session: of the messages that the peer sent, \<open>Start\<close> handles those
  before the first one whose text has 65536 bytes or more, and returns the error of the scanner; neither
  that message nor any later one is looked at.
\<close>

theorem oversized_message_stops_the_reader:
  assumes "list_all fits vs" "wf_json v" "max_line \<le> length (json_print v)" "\<not> st_stopped s"
  shows "stdio_Start (reading err (wire_bytes (map json_print vs @ json_print v # rest)) mo) s =
    (Err (scanner_error ErrTooLong),
     put_io (read_lines (st_handlers s) (mo_writer mo) (map json_print vs) (st_io s, st_app s)) s)"
  using scan_oversized [OF fits_passes [OF assms(1)] one_line_print [OF assms(2)] assms(3), of err rest] assms(4)
  by (simp add: stdio_Start_def reading_def)

lemma big_string: "n \<le> length (json_print (JStr (replicate n c)))"
proof -
  have "k \<le> length (concat (map esc_char (replicate k c)))" for k
  proof (induction k)
    case (Suc k)
    moreover have "esc_char c \<noteq> []" by (simp add: esc_char_def)
    ultimately show ?case by (cases "esc_char c") simp_all
  qed simp
  from this [of n] show ?thesis
    by (simp add: json_print_def tok_text.simps)
qed

theorem oversized_message_stops_the_reader_witness:
  "fst (stdio_Start (reading None (wire_bytes (map json_print [JNull] @
      json_print (JStr (replicate (max_line) (CHR ''x''))) # [''{}''])) demo_moment) (newStdioTransport ())) =
    Err (scanner_error ErrTooLong)"
proof -
  have "list_all fits [JNull]" "wf_json (JStr (replicate (max_line) (CHR ''x'')))"
    "\<not> st_stopped (newStdioTransport ())"
    by (simp_all add: fits_def json_print_def max_line_def tok_text.simps newStdioTransport_def)
  from oversized_message_stops_the_reader [OF this(1,2) big_string this(3), of None "[''{}'']" demo_moment]
  show ?thesis by simp
qed

subsection \<open>A call over the bytes\<close>

text \<open>
  A call whose request reaches the server, and whose answer reaches the client, as bytes. \<open>sv\<close> is the
  server's side; the caller waits until \<open>mo\<close> ends its context.
\<close>

definition new_lines :: "stdio \<Rightarrow> stdio \<Rightarrow> string list" where
  "new_lines s s' = drop (length (sd_out s)) (sd_out s')"

definition piped_call :: "moment \<Rightarrow> 'w handlers \<Rightarrow> string \<Rightarrow> json \<Rightarrow> 'c stdio_state \<times> (stdio \<times> 'w) \<Rightarrow>
    (goerr, gval) outcome \<times> ('c stdio_state \<times> (stdio \<times> 'w))" where
  "piped_call mo shs m params z =
     (let request = new_lines (st_io (fst z)) (snd (send_request_line (mo_writer mo) m (GRaw (Some params)) (st_io (fst z))));
          sv = read_lines shs sure (fst (scan_input None (wire_bytes request))) (snd z);
          answer = new_lines (fst (snd z)) (fst sv)
      in case stdio_SendRequest (reading None (wire_bytes answer) mo) m (GRaw (Some params)) (fst z) of
           (x, c) \<Rightarrow> (x, (c, sv)))"

definition request_text :: "string \<Rightarrow> string \<Rightarrow> json \<Rightarrow> string" where
  "request_text i m params = json_print (enc_request (NewRequest (GStr i) m (GRaw (Some params))))"

definition answer_text :: "string \<Rightarrow> (goerr, json option) outcome \<Rightarrow> string" where
  "answer_text i x = json_print (enc_response (answer_to i x))"

lemma request_line_text:
  assumes "m \<noteq> []" "wire_json params"
  shows "one_line (request_text i m params)"
proof -
  have "good_item (BReq (NewRequest (GStr i) m (GRaw (Some params))))"
    using assms by (auto simp: NewRequest_def raw_of_def good_id_def good_raw_def wire_json_def)
  from good_item_wf [OF this] have "wf_json (enc_request (NewRequest (GStr i) m (GRaw (Some params))))"
    by (simp add: enc_batch_item_def)
  then show ?thesis by (simp add: request_text_def)
qed

lemma answer_line_text:
  assumes "fst d = Ok (Some v) \<and> wire_json v \<or> fst d = Err (rpc_failure t)"
  shows "one_line (answer_text i (fst d))"
proof -
  have "wf_json (enc_response (answer_to i (fst d)))"
    using assms
    by (auto simp: answer_to_def enc_response_def omit_raw_def wire_json_def rpc_failure_def error_response_def
        enc_rpc_error_def omit_any_def InternalError_def)
  then show ?thesis by (simp add: answer_text_def)
qed

text \<open>The server's side of a call whose request passes the scanner.\<close>

lemma piped_server:
  assumes "hs_requests shs m \<noteq> None" "m \<noteq> []" "wire_json params" "length (request_text i m params) < max_line"
  shows "read_lines shs sure (fst (scan_input None (wire_bytes [request_text i m params]))) (sv, w) =
    (sv\<lparr>sd_out := sd_out sv @ [answer_text i (fst (direct_call shs m params w))]\<rparr>, snd (direct_call shs m params w))"
  using scan_passing [of "[request_text i m params]" None "[]"] request_line_text [OF assms(2,3), of i] assms(4)
    server_answers [OF assms(1-3), of i sv w]
  by (simp add: passes_def read_lines_def read_line_def request_text_def answer_text_def)

lemma request_sent_text:
  assumes "GenerateID (sd_ids s) = (i, ids)" "mo_writer mo = sure"
  shows "send_request_line (mo_writer mo) m (GRaw (Some params)) s =
    (Inr i, s\<lparr>sd_ids := ids, sd_out := sd_out s @ [request_text i m params]\<rparr>)"
  using assms by (simp add: send_request_line_def stdio_Send_def sure_def request_text_def)

lemma piped_call_unfold:
  assumes "GenerateID (sd_ids (st_io c)) = (i, ids)" "mo_writer mo = sure"
    and "hs_requests shs m \<noteq> None" "m \<noteq> []" "wire_json params" "length (request_text i m params) < max_line"
  shows "piped_call mo shs m params (c, (sv, w)) =
    (case stdio_SendRequest (reading None (wire_bytes [answer_text i (fst (direct_call shs m params w))]) mo) m
        (GRaw (Some params)) c of
       (x, c') \<Rightarrow> (x, (c', (sv\<lparr>sd_out := sd_out sv @ [answer_text i (fst (direct_call shs m params w))]\<rparr>,
         snd (direct_call shs m params w)))))"
  using request_sent_text [OF assms(1,2), of m params] piped_server [OF assms(3-6), of sv w]
  by (simp add: piped_call_def Let_def new_lines_def)

lemma waits_in_vain:
  assumes "GenerateID (sd_ids (st_io c)) = (i, ids)" "mo_writer mo = sure" "mo_lines mo = []"
  shows "\<exists>c'. stdio_SendRequest mo m (GRaw (Some params)) c =
    (Err (ErrWrapped (''error waiting for response: '' @ Error (mo_end mo)) (mo_end mo)), c')"
proof -
  let ?c = "(st_io c)\<lparr>sd_ids := ids, sd_out := sd_out (st_io c) @ [request_text i m params]\<rparr>"
  obtain n q where reg: "wait_register i (sd_pool ?c) = (n, q)" by (cases "wait_register i (sd_pool ?c)")
  then have "wait_receive n q = None" by (auto simp: wait_register_def wait_receive_def)
  then show ?thesis
    using reg request_sent_text [OF assms(1,2), of m params] assms(3)
    by (simp add: stdio_SendRequest_def read_lines_def)
qed

lemma is_answered:
  assumes "GenerateID (sd_ids (st_io c)) = (i, ids)" "mo_writer mo = sure"
    and "mo_lines mo = [answer_text i (fst d)]" "fst d = Ok (Some v) \<and> wire_json v \<and> v \<noteq> JNull \<or> fst d = Err (rpc_failure t)"
  shows "\<exists>c'. stdio_SendRequest mo m (GRaw (Some params)) c =
    (case returned i (fst d) of Ok r \<Rightarrow> Ok (response_value r) | Err e \<Rightarrow> Err e | Panic q \<Rightarrow> Panic q, c')"
proof -
  let ?x = "answer_to i (fst d)"
  let ?c = "(st_io c)\<lparr>sd_ids := ids, sd_out := sd_out (st_io c) @ [request_text i m params]\<rparr>"
  obtain n q where reg: "wait_register i (sd_pool ?c) = (n, q)" by (cases "wait_register i (sd_pool ?c)")
  obtain q2 q3 where deliver: "HandleResponse ?x q = Delivered q2" "wait_receive n q2 = Some (Some ?x, q3)"
    using deliver_registered [OF reg answer_to_id] by blast
  have "read_lines (st_handlers c) (mo_writer mo) (mo_lines mo) (?c\<lparr>sd_pool := q\<rparr>, st_app c) = (?c\<lparr>sd_pool := q2\<rparr>, st_app c)"
    using process_answer [OF assms(4), of "st_handlers c" "mo_writer mo" i "?c\<lparr>sd_pool := q\<rparr>" "st_app c"] deliver(1)
    by (simp add: read_lines_def read_line_def assms(3) answer_text_def)
  moreover have "finish_request (Some ?x) = returned i (fst d)" using assms(4) by (intro finish_answer) blast
  ultimately show ?thesis using deliver(2) reg request_sent_text [OF assms(1,2), of m params]
    by (simp add: stdio_SendRequest_def)
qed


definition large_server :: "nat handlers" where
  "large_server = RegisterRequestHandler ''dump''
     (\<lambda>cx p w. (Ok (Marshals (JStr (replicate (max_line) (CHR ''x'')))), Suc w)) NewHandlers"


end
