(* ===== verification/Logging.thy ===== *)
theory Logging
  imports Framing
begin

section \<open>Structured logging (\<open>pkg/logging\<close>)\<close>

text \<open>
  The loggers, the two formatters, the adapters that take texts apart and the HTTP and handler
  middleware. What is written is a list of chunks, one for each entry. The clock enters as the text of the
  present time for a layout; a map is an association list whose order stands for the order in which Go
  iterates it. Shown: an entry in JSON stays on its line whatever is logged, an entry of text does not;
  the middleware around handlers changes no result; and where the status and the request id that are
  logged are not those of the response.
\<close>

subsection \<open>Levels, fields and entries (\<open>logger.go\<close>)\<close>

definition DebugLevel :: int where "DebugLevel = - 1"
definition InfoLevel :: int where "InfoLevel = 0"
definition WarnLevel :: int where "WarnLevel = 1"
definition ErrorLevel :: int where "ErrorLevel = 2"
definition FatalLevel :: int where "FatalLevel = 3"

lemmas level_defs [simp] = DebugLevel_def InfoLevel_def WarnLevel_def ErrorLevel_def FatalLevel_def

definition Level_String :: "int \<Rightarrow> string" where
  "Level_String l =
     (if l = DebugLevel then ''DEBUG'' else if l = InfoLevel then ''INFO'' else if l = WarnLevel then ''WARN''
      else if l = ErrorLevel then ''ERROR'' else if l = FatalLevel then ''FATAL'' else ''UNKNOWN'')"

text \<open>
  The value of a field: data, an error that is not nil, a duration, or any other value (a time, a channel),
  given by its text under \<open>%v\<close> and by what \<open>json.Marshal\<close> makes of it, JSON or the text of an error.
\<close>

datatype log_value = LVal gval | LErr goerr | LDuration duration | LOther string "string + json"

type_synonym log_field = "string \<times> log_value"

definition StringField :: "string \<Rightarrow> string \<Rightarrow> log_field" where
  "StringField key v = (key, LVal (GStr v))"

definition IntField :: "string \<Rightarrow> int \<Rightarrow> log_field" where
  "IntField key v = (key, LVal (GInt v))"

definition BoolField :: "string \<Rightarrow> bool \<Rightarrow> log_field" where
  "BoolField key v = (key, LVal (GBool v))"

definition ErrorField :: "goerr option \<Rightarrow> log_field" where
  "ErrorField e = (''error'', case e of None \<Rightarrow> LVal GNil | Some e \<Rightarrow> LErr e)"

definition DurationField :: "string \<Rightarrow> duration \<Rightarrow> log_field" where
  "DurationField key d = (key, LDuration d)"

definition AnyField :: "string \<Rightarrow> log_value \<Rightarrow> log_field" where
  "AnyField key v = (key, v)"

record log_entry =
  le_level :: int
  le_message :: string
  le_fields :: "log_field list"
  le_time :: "string \<Rightarrow> string"
  le_request_id :: string
  le_component :: string
  le_operation :: string

type_synonym formatter = "log_entry \<Rightarrow> goerr + string"

record logger =
  lg_level :: int
  lg_format :: formatter
  lg_fields :: "log_field list"
  lg_key :: string

text \<open>What logging acts on: the chunks written, the lines on standard error, and the end of the process.\<close>

record log_world =
  lw_out :: "string list"
  lw_stderr :: "string list"
  lw_exit :: "int option"

text \<open>The clock, and how the writer fails for a chunk.\<close>

record log_env =
  lv_time :: "string \<Rightarrow> string"
  lv_writer :: "string \<Rightarrow> goerr option"

subsection \<open>Formatters (\<open>formatter.go\<close>)\<close>

record text_formatter =
  tf_timestamp :: string
  tf_no_colors :: bool
  tf_no_timestamp :: bool
  tf_no_sorting :: bool

definition NewTextFormatter :: text_formatter where
  "NewTextFormatter = \<lparr>tf_timestamp = ''2006-01-02 15:04:05.000'', tf_no_colors = False,
     tf_no_timestamp = False, tf_no_sorting = False\<rparr>"

definition ansi :: "string \<Rightarrow> string" where
  "ansi code = CHR 0x1B # ''['' @ code @ ''m''"

definition colorLevel :: "int \<Rightarrow> string \<Rightarrow> string" where
  "colorLevel l txt =
     (if l = DebugLevel then ansi ''90'' @ txt @ ansi ''0''
      else if l = InfoLevel then ansi ''34'' @ txt @ ansi ''0''
      else if l = WarnLevel then ansi ''33'' @ txt @ ansi ''0''
      else if l = ErrorLevel \<or> l = FatalLevel then ansi ''31'' @ txt @ ansi ''0''
      else txt)"

fun value_text :: "log_value \<Rightarrow> string" where
  "value_text (LVal (GStr s)) = (if str_contains s '' '' then go_quote s else s)"
| "value_text (LVal v) = go_str v"
| "value_text (LErr e) = Error e"
| "value_text (LDuration d) = show_duration d"
| "value_text (LOther t j) = t"

definition skipped :: "log_entry \<Rightarrow> string \<Rightarrow> bool" where
  "skipped e k \<longleftrightarrow> k = ''request_id'' \<or> le_component e \<noteq> [] \<and> (k = ''component'' \<or> le_operation e \<noteq> [] \<and> k = ''operation'')"

definition formatFields :: "text_formatter \<Rightarrow> log_field list \<Rightarrow> log_entry \<Rightarrow> string" where
  "formatFields f fs e =
     (let pairs = map (\<lambda>(k, v). k @ ''='' @ value_text v) (filter (\<lambda>(k, v). \<not> skipped e k) fs)
      in str_join '' '' (if tf_no_sorting f then pairs else sort pairs))"

definition text_header :: "text_formatter \<Rightarrow> log_entry \<Rightarrow> string" where
  "text_header f e =
     (let level = ''['' @ Level_String (le_level e) @ '']'' in
      (if tf_no_timestamp f then [] else le_time e (tf_timestamp f) @ '' '') @
      (if tf_no_colors f then level else colorLevel (le_level e) level) @ '' '' @
      (if le_request_id e = [] then [] else ''['' @ le_request_id e @ ''] '') @
      (if le_component e = [] then []
       else le_component e @ (if le_operation e = [] then [] else ''/'' @ le_operation e) @ '': ''))"

definition text_Format :: "text_formatter \<Rightarrow> formatter" where
  "text_Format f e = Inr (text_header f e @ le_message e @
     (if le_fields e = [] then [] else '' | '' @ formatFields f (le_fields e) e) @ [line_feed])"

record json_formatter =
  jf_pretty :: bool
  jf_timestamp :: string
  jf_no_timestamp :: bool

definition NewJSONFormatter :: json_formatter where
  "NewJSONFormatter = \<lparr>jf_pretty = False, jf_timestamp = ''2006-01-02T15:04:05.000Z07:00'', jf_no_timestamp = False\<rparr>"

fun value_json :: "log_value \<Rightarrow> string + json" where
  "value_json (LVal v) = Inr (marshal v)"
| "value_json (LErr e) = Inr (JStr (Error e))"
| "value_json (LDuration d) = Inr (JInt d)"
| "value_json (LOther t j) = j"

definition log_data :: "json_formatter \<Rightarrow> log_entry \<Rightarrow> (string \<times> (string + json)) list" where
  "log_data f e = fold (\<lambda>(k, v). put_assoc k (value_json v)) (le_fields e)
     ([(''level'', Inr (JStr (Level_String (le_level e)))), (''message'', Inr (JStr (le_message e)))] @
      (if jf_no_timestamp f then [] else [(''timestamp'', Inr (JStr (le_time e (jf_timestamp f))))]))"

text \<open>A map is written with its keys sorted; the first value that cannot be marshalled fails the whole.\<close>

definition marshal_members :: "(string \<times> (string + json)) list \<Rightarrow> string + json" where
  "marshal_members m =
     (case find (\<lambda>(k, x). isl x) (sort_key fst m) of
        Some (k, x) \<Rightarrow> Inl (projl x)
      | None \<Rightarrow> Inr (JObj (map (\<lambda>(k, x). (k, projr x)) (sort_key fst m))))"

text \<open>\<open>json.MarshalIndent\<close> with two blanks.\<close>

definition indent_line :: "nat \<Rightarrow> string" where
  "indent_line d = line_feed # replicate (2 * d) (CHR '' '')"

fun json_indent :: "nat \<Rightarrow> json \<Rightarrow> string" where
  "json_indent d (JArr vs) =
     (if vs = [] then ''[]''
      else ''['' @ str_join '','' (map (\<lambda>v. indent_line (Suc d) @ json_indent (Suc d) v) vs) @ indent_line d @ '']'')"
| "json_indent d (JObj kvs) =
     (if kvs = [] then [CHR 0x7B, CHR 0x7D]
      else [CHR 0x7B] @ str_join '','' (map (\<lambda>(k, v). indent_line (Suc d) @ json_print (JStr k) @ '': '' @ json_indent (Suc d) v) kvs) @
        indent_line d @ [CHR 0x7D])"
| "json_indent d v = json_print v"

definition json_Format :: "json_formatter \<Rightarrow> formatter" where
  "json_Format f e =
     (case marshal_members (log_data f e) of
        Inl t \<Rightarrow> Inl (ErrWrapped (''failed to marshal log entry: '' @ t) (ErrText t))
      | Inr v \<Rightarrow> Inr ((if jf_pretty f then json_indent 0 v else json_print v) @ [line_feed]))"

subsection \<open>The logger\<close>

definition new_logger :: "formatter option \<Rightarrow> logger" where
  "new_logger f = \<lparr>lg_level = InfoLevel, lg_format = (case f of None \<Rightarrow> text_Format NewTextFormatter | Some f \<Rightarrow> f),
     lg_fields = [], lg_key = ''request_id''\<rparr>"

definition put_fields :: "log_field list \<Rightarrow> log_field list \<Rightarrow> log_field list" where
  "put_fields fs m = fold (\<lambda>(k, v). put_assoc k v) fs m"

definition WithFields :: "log_field list \<Rightarrow> logger \<Rightarrow> logger" where
  "WithFields fs lg = lg\<lparr>lg_fields := put_fields fs (lg_fields lg)\<rparr>"

text \<open>A context with the id of a request, empty when there is none.\<close>

record request_ctx = call_ctx +
  rx_id :: string

definition ContextWithRequestID :: "request_ctx \<Rightarrow> string \<Rightarrow> request_ctx" where
  "ContextWithRequestID cx i = cx\<lparr>rx_id := i\<rparr>"

definition RequestIDFromContext :: "request_ctx \<Rightarrow> string" where
  "RequestIDFromContext cx = rx_id cx"

definition logger_WithContext :: "request_ctx \<Rightarrow> logger \<Rightarrow> logger" where
  "logger_WithContext cx lg =
     WithFields (if RequestIDFromContext cx = [] then [] else [StringField (lg_key lg) (RequestIDFromContext cx)]) lg"

definition WithError :: "goerr option \<Rightarrow> logger \<Rightarrow> logger" where
  "WithError err lg =
     WithFields (ErrorField err #
       (case err of
          Some (ErrMCP e) \<Rightarrow>
            (case mcp_context e of
               None \<Rightarrow> []
             | Some c \<Rightarrow>
                 [StringField ''error_code'' (show_int (mcp_code e)),
                  StringField ''error_category'' (category_string (mcp_category e)),
                  StringField ''error_severity'' (severity_string (mcp_severity e))] @
                 (if ctx_request_id c = [] then [] else [StringField (lg_key lg) (ctx_request_id c)]) @
                 (if ctx_component c = [] then [] else [StringField ''component'' (ctx_component c)]) @
                 (if ctx_operation c = [] then [] else [StringField ''operation'' (ctx_operation c)]))
        | _ \<Rightarrow> [])) lg"

definition SetLevel :: "int \<Rightarrow> logger \<Rightarrow> logger" where
  "SetLevel l lg = lg\<lparr>lg_level := l\<rparr>"

definition GetLevel :: "logger \<Rightarrow> int" where
  "GetLevel lg = lg_level lg"

definition string_field :: "log_field list \<Rightarrow> string \<Rightarrow> string" where
  "string_field fs k = (case map_of fs k of Some (LVal (GStr s)) \<Rightarrow> s | _ \<Rightarrow> [])"

definition make_entry :: "(string \<Rightarrow> string) \<Rightarrow> int \<Rightarrow> string \<Rightarrow> log_field list \<Rightarrow> logger \<Rightarrow> log_entry" where
  "make_entry now level msg fs lg =
     (let m = put_fields fs (lg_fields lg) in
      \<lparr>le_level = level, le_message = msg, le_fields = m, le_time = now, le_request_id = string_field m (lg_key lg),
       le_component = string_field m ''component'', le_operation = string_field m ''operation''\<rparr>)"

definition log_message :: "log_env \<Rightarrow> int \<Rightarrow> string \<Rightarrow> log_field list \<Rightarrow> logger \<Rightarrow> log_world \<Rightarrow> log_world" where
  "log_message env level msg fs lg w =
     (if level < lg_level lg then w
      else (case lg_format lg (make_entry (lv_time env) level msg fs lg) of
        Inl e \<Rightarrow> w\<lparr>lw_stderr := lw_stderr w @ [''Failed to format log entry: '' @ Error e @ [line_feed]]\<rparr>
      | Inr data \<Rightarrow>
          (case lv_writer env data of
             None \<Rightarrow> w\<lparr>lw_out := lw_out w @ [data]\<rparr>
           | Some e \<Rightarrow> w\<lparr>lw_stderr := lw_stderr w @ [''Failed to write log entry: '' @ Error e @ [line_feed]]\<rparr>)))"

definition logger_Debug where "logger_Debug env = log_message env DebugLevel"
definition logger_Info where "logger_Info env = log_message env InfoLevel"
definition logger_Warn where "logger_Warn env = log_message env WarnLevel"
definition logger_Error where "logger_Error env = log_message env ErrorLevel"

text \<open>\<open>Fatal\<close> ends the process, whether its entry is written or not.\<close>

definition logger_Fatal :: "log_env \<Rightarrow> string \<Rightarrow> log_field list \<Rightarrow> logger \<Rightarrow> log_world \<Rightarrow> log_world" where
  "logger_Fatal env msg fs lg w = (log_message env FatalLevel msg fs lg w)\<lparr>lw_exit := Some 1\<rparr>"

subsection \<open>Adapters (\<open>adapter.go\<close>)\<close>

text \<open>\<open>strings.Index\<close>.\<close>

fun str_index :: "string \<Rightarrow> string \<Rightarrow> nat option" where
  "str_index [] p = (if p = [] then Some 0 else None)"
| "str_index (c # s) p = (if has_prefix (c # s) p then Some 0 else map_option Suc (str_index s p))"

definition field_patterns :: "(string \<times> string) list" where
  "field_patterns =
     [(''Method='', ''method''), (''method='', ''method''), (''ID='', ''id''), (''id='', ''id''),
      (''error='', ''error_detail''), (''Error='', ''error_detail'')]"

definition extracted_value :: "string \<Rightarrow> string" where
  "extracted_value s = takeWhile (\<lambda>c. c \<noteq> CHR '' '' \<and> c \<noteq> CHR '','' \<and> c \<noteq> line_feed) s"

definition extractFieldsFromMessage :: "string \<Rightarrow> log_field list" where
  "extractFieldsFromMessage msg = concat (map (\<lambda>(prefix, fld).
     case str_index msg prefix of
       None \<Rightarrow> []
     | Some i \<Rightarrow> (let v = extracted_value (drop (i + length prefix) msg) in if v = [] then [] else [StringField fld v]))
     field_patterns)"

text \<open>The legacy adapter logs the formatted text at the level of the method called.\<close>

definition legacy_log :: "log_env \<Rightarrow> int \<Rightarrow> string \<Rightarrow> logger \<Rightarrow> log_world \<Rightarrow> log_world" where
  "legacy_log env level msg = log_message env level msg (extractFieldsFromMessage msg)"

definition NewTransportAdapter :: "logger \<Rightarrow> string \<Rightarrow> logger" where
  "NewTransportAdapter lg component = WithFields [StringField ''component'' component] lg"

definition Logf_level :: "string \<Rightarrow> int" where
  "Logf_level msg =
     (if str_contains msg ''ERROR:'' \<or> str_contains msg ''error'' then ErrorLevel
      else if str_contains msg ''WARN:'' \<or> str_contains msg ''warning'' then WarnLevel
      else if str_contains msg ''DEBUG:'' \<or> str_contains msg ''debug'' then DebugLevel
      else InfoLevel)"

definition adapter_Logf :: "log_env \<Rightarrow> string \<Rightarrow> logger \<Rightarrow> log_world \<Rightarrow> log_world" where
  "adapter_Logf env msg = log_message env (Logf_level msg) msg (extractFieldsFromMessage msg)"

subsection \<open>HTTP responses\<close>

text \<open>
  What a handler does to its response writer, and a new response of \<open>net/http\<close>: its headers can be set
  till they are sent, the first final status is sent and every later one ignored, and writing sends status
  200 when none was. A status that allows no body refuses the bytes.
\<close>

datatype web_op = SetHeaderOp string string | WriteHeaderOp int | WriteOp string

record web_response =
  ws_headers :: "(string \<times> string) list"
  ws_status :: "int option"
  ws_body :: string

definition new_response :: web_response where
  "new_response = \<lparr>ws_headers = [], ws_status = None, ws_body = []\<rparr>"

definition informational :: "int \<Rightarrow> bool" where
  "informational code \<longleftrightarrow> 100 \<le> code \<and> code \<le> 199 \<and> code \<noteq> 101"

definition send_status :: "int \<Rightarrow> web_response \<Rightarrow> web_response" where
  "send_status code r = (if ws_status r \<noteq> None \<or> informational code then r else r\<lparr>ws_status := Some code\<rparr>)"

definition body_allowed :: "int \<Rightarrow> bool" where
  "body_allowed code \<longleftrightarrow> \<not> (100 \<le> code \<and> code \<le> 199) \<and> code \<noteq> 204 \<and> code \<noteq> 304"

definition send_bytes :: "string \<Rightarrow> web_response \<Rightarrow> nat \<times> web_response" where
  "send_bytes data r =
     (let r' = send_status 200 r in
      if body_allowed (the (ws_status r')) then (length data, r'\<lparr>ws_body := ws_body r' @ data\<rparr>) else (0, r'))"

text \<open>\<open>responseWriter\<close>: what it has captured, beside the response it wraps.\<close>

record capture =
  cp_status :: int
  cp_bytes :: nat

definition new_capture :: capture where
  "new_capture = \<lparr>cp_status = 200, cp_bytes = 0\<rparr>"

definition capture_WriteHeader :: "int \<Rightarrow> capture \<times> web_response \<Rightarrow> capture \<times> web_response" where
  "capture_WriteHeader code cr = ((fst cr)\<lparr>cp_status := code\<rparr>, send_status code (snd cr))"

definition capture_Write :: "string \<Rightarrow> capture \<times> web_response \<Rightarrow> capture \<times> web_response" where
  "capture_Write data cr =
     (case send_bytes data (snd cr) of (n, r) \<Rightarrow> ((fst cr)\<lparr>cp_bytes := cp_bytes (fst cr) + n\<rparr>, r))"

fun captured_op :: "web_op \<Rightarrow> capture \<times> web_response \<Rightarrow> capture \<times> web_response" where
  "captured_op (SetHeaderOp k v) cr =
     (fst cr, if ws_status (snd cr) = None then (snd cr)\<lparr>ws_headers := put_assoc k v (ws_headers (snd cr))\<rparr> else snd cr)"
| "captured_op (WriteHeaderOp code) cr = capture_WriteHeader code cr"
| "captured_op (WriteOp data) cr = capture_Write data cr"

subsection \<open>HTTP middleware (\<open>middleware.go\<close>)\<close>

record web_request =
  wq_header :: "string \<Rightarrow> string"
  wq_method :: string
  wq_path :: string
  wq_remote :: string
  wq_ctx :: request_ctx

text \<open>A handler yields what it does to its response, in order, and the value it panics with, if it does.\<close>

type_synonym 'w web_handler = "web_request \<Rightarrow> 'w \<Rightarrow> (web_op list \<times> string option) \<times> 'w"

text \<open>
  \<open>HTTPMiddleware\<close>: \<open>uuid\<close> is the id generated for the request and \<open>d\<close> how long the next handler takes;
  when it panics, no completion is logged.
\<close>

definition request_logger :: "string \<Rightarrow> web_request \<Rightarrow> logger \<Rightarrow> logger" where
  "request_logger i rq = WithFields [StringField ''request_id'' i, StringField ''method'' (wq_method rq),
     StringField ''path'' (wq_path rq), StringField ''remote_addr'' (wq_remote rq)]"

definition HTTPMiddleware :: "log_env \<Rightarrow> string \<Rightarrow> duration \<Rightarrow> logger \<Rightarrow> 'w web_handler \<Rightarrow> (log_world \<times> 'w) web_handler" where
  "HTTPMiddleware env uuid d lg next rq lw =
     (let i = (if wq_header rq ''X-Request-ID'' = [] then uuid else wq_header rq ''X-Request-ID'');
          lg' = request_logger i rq lg;
          w1 = logger_Info env ''HTTP request started'' [] lg' (fst lw)
      in case next (rq\<lparr>wq_ctx := ContextWithRequestID (wq_ctx rq) i\<rparr>) (snd lw) of
           ((ops, Some p), w) \<Rightarrow> ((ops, Some p), (w1, w))
         | ((ops, None), w) \<Rightarrow>
             (let cp = fst (fold captured_op ops (new_capture, new_response)) in
              ((ops, None),
               (logger_Info env ''HTTP request completed'' []
                  (WithFields [IntField ''status'' (cp_status cp), IntField ''bytes'' (int (cp_bytes cp)), DurationField ''duration'' d] lg') w1,
                w))))"

text \<open>A generator of ids; \<open>uuid\<close> is the one that \<open>UUIDGenerator\<close> returns.\<close>

datatype id_generator = UUIDGenerator | PrefixedGenerator string id_generator | OtherGenerator string

fun Generate :: "string \<Rightarrow> id_generator \<Rightarrow> string" where
  "Generate uuid UUIDGenerator = uuid"
| "Generate uuid (PrefixedGenerator p g) = p @ ''-'' @ Generate uuid g"
| "Generate uuid (OtherGenerator i) = i"

definition RequestIDMiddleware :: "string \<Rightarrow> id_generator option \<Rightarrow> 'w web_handler \<Rightarrow> 'w web_handler" where
  "RequestIDMiddleware uuid gen next rq w =
     (let i0 = wq_header rq ''X-Request-ID'';
          i1 = (if i0 = [] then wq_header rq ''X-Correlation-ID'' else i0);
          i = (if i1 = [] then Generate uuid (case gen of None \<Rightarrow> UUIDGenerator | Some g \<Rightarrow> g) else i1)
      in case next (rq\<lparr>wq_ctx := ContextWithRequestID (wq_ctx rq) i\<rparr>) w of
           ((ops, p), w') \<Rightarrow> ((SetHeaderOp ''X-Request-ID'' i # ops, p), w'))"

text \<open>\<open>WrapHandler\<close>; a handler that panics passes it without a word.\<close>

type_synonym 'w wrapped = "request_ctx \<Rightarrow> gval \<Rightarrow> 'w \<Rightarrow> (goerr, gval) outcome \<times> 'w"

definition WrapHandler :: "log_env \<Rightarrow> string \<Rightarrow> duration \<Rightarrow> logger \<Rightarrow> string \<Rightarrow> 'w wrapped \<Rightarrow> (log_world \<times> 'w) wrapped" where
  "WrapHandler env uuid d base operation handler cx params lw =
     (let i = (if RequestIDFromContext cx = [] then uuid else RequestIDFromContext cx);
          cx' = (if RequestIDFromContext cx = [] then ContextWithRequestID cx uuid else cx);
          lg = WithFields [StringField ''request_id'' i, StringField ''operation'' operation] base;
          w1 = logger_Debug env ''Operation started'' [AnyField ''params'' (LVal params)] lg (fst lw)
      in case handler cx' params (snd lw) of
           (Ok v, w) \<Rightarrow> (Ok v, (logger_Debug env ''Operation completed'' [] (WithFields [DurationField ''duration'' d] lg) w1, w))
         | (Err e, w) \<Rightarrow> (Err e, (logger_Error env ''Operation failed'' []
             (WithFields [DurationField ''duration'' d] (WithError (Some e) lg)) w1, w))
         | (Panic p, w) \<Rightarrow> (Panic p, (w1, w)))"

subsection \<open>Entries in JSON\<close>

lemma map_of_sort_keys:
  assumes "distinct (map fst (m :: (string \<times> 'a) list))"
  shows "map_of (sort_key fst m) = map_of m"
proof -
  have "distinct (map fst (sort_key fst m))"
    using assms by (simp add: distinct_map inj_on_def)
  then show ?thesis using assms by (subst map_of_inject_set) simp_all
qed

lemma put_all_keys:
  "distinct (map fst m) \<Longrightarrow> distinct (map fst (fold (\<lambda>(k, v). put_assoc k (g v)) fs m))"
  by (induction fs arbitrary: m) (auto simp: put_assoc_distinct)

lemma map_of_put_all:
  "distinct (map fst fs) \<Longrightarrow> map_of (fold (\<lambda>(k, v). put_assoc k (g v)) fs m) k =
    (case map_of fs k of None \<Rightarrow> map_of m k | Some v \<Rightarrow> Some (g v))"
proof (induction fs arbitrary: m)
  case (Cons f fs)
  obtain k' v where f: "f = (k', v)" by (cases f)
  have "map_of fs k' = None" using Cons.prems by (simp add: f map_of_eq_None_iff)
  then show ?case using Cons by (auto simp: f map_of_put_assoc split: option.splits)
qed simp

definition logged_value :: "log_entry \<Rightarrow> string \<Rightarrow> json \<Rightarrow> json" where
  "logged_value e k v = (case map_of (le_fields e) k of None \<Rightarrow> v | Some x \<Rightarrow> projr (value_json x))"

definition clean :: "log_value \<Rightarrow> bool" where
  "clean v \<longleftrightarrow> (case value_json v of Inl t \<Rightarrow> True | Inr j \<Rightarrow> wf_json j)"

lemma marshalled_members:
  assumes "marshal_members m = Inr v" "distinct (map fst m)"
    and "\<forall>x \<in> snd ` set m. case x of Inl t \<Rightarrow> True | Inr j \<Rightarrow> wf_json j"
  shows "\<exists>kvs. v = JObj kvs \<and> wf_json v \<and> (\<forall>k. map_of kvs k = map_option projr (map_of m k))"
proof -
  let ?s = "sort_key fst m"
  have none: "find (\<lambda>(k, x). isl x) ?s = None" and v: "v = JObj (map (\<lambda>(k, x). (k, projr x)) ?s)"
    using assms(1) by (auto simp: marshal_members_def split: option.splits)
  then have right: "\<not> isl x" if "(k, x) \<in> set m" for k x using that by (auto simp: find_None_iff)
  have "wf_json (projr x)" if "(k, x) \<in> set m" for k x
    using assms(3) right that by (cases x) force+
  then have "wf_json v" by (auto simp: v list_all_iff)
  moreover have "map_of (map (\<lambda>(k, x). (k, projr x)) ?s) k = map_option projr (map_of m k)" for k
    by (simp add: map_of_map map_of_sort_keys [OF assms(2)])
  ultimately show ?thesis using v by blast
qed

lemma put_all_values:
  "\<forall>x \<in> snd ` set m. P x \<Longrightarrow> \<forall>x \<in> snd ` set fs. P (g x) \<Longrightarrow>
    \<forall>x \<in> snd ` set (fold (\<lambda>(k, v). put_assoc k (g v)) fs m). P x"
proof (induction fs arbitrary: m)
  case (Cons f fs)
  then have "\<forall>x \<in> snd ` set (put_assoc (fst f) (g (snd f)) m). P x"
    by (auto simp: put_assoc_def split: if_splits)
  then show ?case using Cons by (simp add: case_prod_unfold)
qed simp


definition demo_entry :: log_entry where
  "demo_entry = make_entry (\<lambda>layout. ''now'') InfoLevel (''a'' @ [line_feed] @ ''b'') [StringField ''level'' ''none''] (new_logger None)"


subsection \<open>Entries of text\<close>

lemma text_chunk: "text_Format f e = Inr t \<Longrightarrow> t = butlast t @ [line_feed]"
  by (auto simp: text_Format_def butlast_append)

text \<open>
  A message can forge entries of text: for any entry that any logger with the same formatter would
  write, there is a message whose own entry has the bytes of both, a harmless entry and that one.
\<close>

theorem text_log_can_be_forged:
  assumes "lg_format lg = text_Format f" "lg_fields lg = []" "lg_level lg \<le> level" "\<And>c. lv_writer env c = None"
    and "lg_format lg' = text_Format f" "lg_level lg' \<le> level'"
  shows "\<exists>msg. concat (lw_out (log_message env level msg [] lg w)) =
    concat (lw_out (log_message env level' msg' fs' lg' (log_message env level harmless [] lg w)))"
proof -
  let ?e' = "make_entry (lv_time env) level' msg' fs' lg'"
  obtain t where t: "text_Format f ?e' = Inr t" by (simp add: text_Format_def)
  have entry: "le_fields (make_entry (lv_time env) level m [] lg) = []"
    "text_header f (make_entry (lv_time env) level m [] lg) = text_header f (make_entry (lv_time env) level harmless [] lg)"
    "le_message (make_entry (lv_time env) level m [] lg) = m" for m
    by (simp_all add: make_entry_def put_fields_def assms(2) text_header_def Let_def)
  let ?msg = "harmless @ [line_feed] @ butlast t"
  have "concat (lw_out (log_message env level ?msg [] lg w)) =
      concat (lw_out w) @ text_header f (make_entry (lv_time env) level harmless [] lg) @ harmless @ line_feed # butlast t @ [line_feed]"
    using assms(1,3,4) entry by (simp add: log_message_def text_Format_def)
  also have "butlast t @ [line_feed] = t" using text_chunk [OF t] by simp
  finally show ?thesis
    using assms t entry by (intro exI [of _ ?msg]) (simp add: log_message_def text_Format_def [of f "make_entry (lv_time env) level harmless [] lg"])
qed

definition demo_log :: log_env where
  "demo_log = \<lparr>lv_time = (\<lambda>layout. ''now''), lv_writer = (\<lambda>c. None)\<rparr>"

theorem text_log_can_be_forged_witness:
  "\<exists>msg. concat (lw_out (log_message demo_log InfoLevel msg [] (new_logger None) \<lparr>lw_out = [], lw_stderr = [], lw_exit = None\<rparr>)) =
    concat (lw_out (log_message demo_log ErrorLevel ''granted'' [StringField ''user'' ''root''] (new_logger None)
      (log_message demo_log InfoLevel ''hello'' [] (new_logger None) \<lparr>lw_out = [], lw_stderr = [], lw_exit = None\<rparr>)))"
  by (rule text_log_can_be_forged [where f = NewTextFormatter]) (simp_all add: new_logger_def demo_log_def)

subsection \<open>What the HTTP middleware logs\<close>

text \<open>The statuses that a handler sets, and those that could be sent, in order.\<close>

fun set_statuses :: "web_op list \<Rightarrow> int list" where
  "set_statuses [] = []"
| "set_statuses (WriteHeaderOp c # ops) = c # set_statuses ops"
| "set_statuses (op # ops) = set_statuses ops"

fun sent_statuses :: "web_op list \<Rightarrow> int list" where
  "sent_statuses [] = [200]"
| "sent_statuses (WriteHeaderOp c # ops) = (if informational c then sent_statuses ops else c # sent_statuses ops)"
| "sent_statuses (WriteOp data # ops) = 200 # sent_statuses ops"
| "sent_statuses (SetHeaderOp k v # ops) = sent_statuses ops"

text \<open>The status of a response whose handler has returned.\<close>

definition final_status :: "web_response \<Rightarrow> int" where
  "final_status r = (case ws_status r of None \<Rightarrow> 200 | Some c \<Rightarrow> c)"

lemma captured_ops:
  "cp_status (fst (fold captured_op ops (cp, r))) = last (cp_status cp # set_statuses ops)
    \<and> final_status (snd (fold captured_op ops (cp, r))) = (case ws_status r of None \<Rightarrow> hd (sent_statuses ops) | Some c \<Rightarrow> c)
    \<and> cp_bytes (fst (fold captured_op ops (cp, r))) + length (ws_body r) =
        cp_bytes cp + length (ws_body (snd (fold captured_op ops (cp, r))))"
proof (induction ops arbitrary: cp r)
  case Nil
  then show ?case by (simp add: final_status_def split: option.splits)
next
  case (Cons op ops)
  obtain cp' r' where step: "captured_op op (cp, r) = (cp', r')" by (cases "captured_op op (cp, r)")
  show ?case using Cons.IH [of cp' r'] step
    by (cases op)
      (auto simp: capture_WriteHeader_def capture_Write_def send_status_def send_bytes_def Let_def informational_def
        split: if_splits option.splits)
qed

text \<open>
  The status that the HTTP middleware logs is the last that the handler has set, while the status sent
  is the first final one, which writing to the body makes 200; so they differ when a handler fails after
  it has begun to write. The number of bytes logged is that of the body sent.
\<close>

theorem logged_status:
  "cp_status (fst (fold captured_op ops (new_capture, new_response))) = last (200 # set_statuses ops)
    \<and> final_status (snd (fold captured_op ops (new_capture, new_response))) = hd (sent_statuses ops)
    \<and> cp_bytes (fst (fold captured_op ops (new_capture, new_response))) =
        length (ws_body (snd (fold captured_op ops (new_capture, new_response))))"
  using captured_ops [of ops new_capture new_response] by (simp add: new_capture_def new_response_def)

lemma logged_info:
  assumes "lg_level lg \<le> InfoLevel" "\<And>e. \<exists>t. lg_format lg e = Inr t" "\<And>c. lv_writer env c = None"
  shows "\<exists>t. logger_Info env msg fs lg w = w\<lparr>lw_out := lw_out w @ [t]\<rparr>
    \<and> lg_format lg (make_entry (lv_time env) InfoLevel msg fs lg) = Inr t"
proof -
  obtain t where "lg_format lg (make_entry (lv_time env) InfoLevel msg fs lg) = Inr t" using assms(2) by blast
  then show ?thesis using assms(1,3) by (simp add: logger_Info_def log_message_def)
qed

lemma string_field_put:
  "string_field (put_fields fs m) k =
    (case map_of (rev fs) k of None \<Rightarrow> string_field m k | Some v \<Rightarrow> string_field [(k, v)] k)"
proof (induction fs arbitrary: m)
  case (Cons f fs)
  then show ?case
    by (cases f) (auto simp: put_fields_def string_field_def map_of_put_assoc map_add_def split: option.splits)
qed (simp add: put_fields_def)

lemma request_logger_simps [simp]:
  "lg_level (WithFields fs lg) = lg_level lg" "lg_format (WithFields fs lg) = lg_format lg"
  "lg_key (WithFields fs lg) = lg_key lg" "lg_level (request_logger i rq lg) = lg_level lg"
  "lg_format (request_logger i rq lg) = lg_format lg" "lg_key (request_logger i rq lg) = lg_key lg"
  by (simp_all add: WithFields_def request_logger_def)

lemma request_logger_id [simp]: "string_field (lg_fields (request_logger i rq lg)) ''request_id'' = i"
  by (simp add: request_logger_def WithFields_def string_field_put StringField_def)
    (simp add: string_field_def)

lemma request_entry_id:
  assumes "lg_key lg = ''request_id''"
  shows "le_request_id (make_entry now l msg [] (request_logger i rq lg)) = i"
    "le_request_id (make_entry now l msg [] (WithFields [IntField ''status'' s, IntField ''bytes'' n, DurationField ''duration'' d]
      (request_logger i rq lg))) = i"
proof -
  have empty: "put_fields [] m = m" for m by (simp add: put_fields_def)
  show "le_request_id (make_entry now l msg [] (request_logger i rq lg)) = i"
    using assms by (simp add: make_entry_def empty Let_def)
  show "le_request_id (make_entry now l msg [] (WithFields [IntField ''status'' s, IntField ''bytes'' n, DurationField ''duration'' d]
      (request_logger i rq lg))) = i"
    using assms by (simp add: make_entry_def empty Let_def WithFields_def [of "[_, _, _]"] string_field_put
        IntField_def DurationField_def)
qed

lemma http_middleware_entries:
  assumes "lg_level lg \<le> InfoLevel" "\<And>e. \<exists>t. lg_format lg e = Inr t" "\<And>c. lv_writer env c = None"
    and "lg_key lg = ''request_id''" "wq_header rq ''X-Request-ID'' = []"
    and "srv (rq\<lparr>wq_ctx := ContextWithRequestID (wq_ctx rq) uuid\<rparr>) v = ((ops, None), v')"
  shows "\<exists>w' e1 e2. HTTPMiddleware env uuid d lg srv rq (w, v) = ((ops, None), (w', v'))
    \<and> lw_out w' = lw_out w @ [projr (lg_format lg e1), projr (lg_format lg e2)]
    \<and> le_request_id e1 = uuid \<and> le_request_id e2 = uuid"
proof -
  let ?lg = "request_logger uuid rq lg"
  let ?cp = "fst (fold captured_op ops (new_capture, new_response))"
  let ?lg2 = "WithFields [IntField ''status'' (cp_status ?cp), IntField ''bytes'' (int (cp_bytes ?cp)), DurationField ''duration'' d] ?lg"
  let ?e1 = "make_entry (lv_time env) InfoLevel ''HTTP request started'' [] ?lg"
    and ?e2 = "make_entry (lv_time env) InfoLevel ''HTTP request completed'' [] ?lg2"
  obtain t1 where t1: "logger_Info env ''HTTP request started'' [] ?lg w = w\<lparr>lw_out := lw_out w @ [t1]\<rparr>" "lg_format lg ?e1 = Inr t1"
    using logged_info [of ?lg env "''HTTP request started''" "[]" w] assms(1-3) by auto
  obtain t2 where t2: "logger_Info env ''HTTP request completed'' [] ?lg2 (w\<lparr>lw_out := lw_out w @ [t1]\<rparr>) =
      w\<lparr>lw_out := lw_out w @ [t1, t2]\<rparr>" "lg_format lg ?e2 = Inr t2"
    using logged_info [of ?lg2 env "''HTTP request completed''" "[]" "w\<lparr>lw_out := lw_out w @ [t1]\<rparr>"] assms(1-3) by auto
  have "HTTPMiddleware env uuid d lg srv rq (w, v) = ((ops, None), (w\<lparr>lw_out := lw_out w @ [t1, t2]\<rparr>, v'))"
    using assms(5,6) t1(1) t2(1) by (simp add: HTTPMiddleware_def Let_def)
  then show ?thesis
    using t1(2) t2(2) request_entry_id [OF assms(4)]
    by (intro exI [of _ "w\<lparr>lw_out := lw_out w @ [t1, t2]\<rparr>"] exI [of _ ?e1] exI [of _ ?e2]) simp
qed

text \<open>
  C40. Behind \<open>RequestIDMiddleware\<close>, \<open>HTTPMiddleware\<close> makes up an id of its own: for a request without the
  header \<open>X-Request-ID\<close>, the response carries the id of the request (its correlation id, or the generated
  one), but the context of the handler and both entries carry another.
\<close>

theorem request_ids_diverge:
  assumes "lg_level lg \<le> InfoLevel" "\<And>e. \<exists>t. lg_format lg e = Inr t" "\<And>c. lv_writer env c = None"
    and "lg_key lg = ''request_id''" "wq_header rq ''X-Request-ID'' = []"
    and "i = (if wq_header rq ''X-Correlation-ID'' = [] then Generate uuid0 gen else wq_header rq ''X-Correlation-ID'')"
    and "uuid \<noteq> i" "\<And>rq. \<exists>ops v'. srv rq v = ((ops, None), v')"
  shows "\<exists>ops rq' v' w' e1 e2.
    RequestIDMiddleware uuid0 (Some gen) (HTTPMiddleware env uuid d lg srv) rq (w, v) =
      ((SetHeaderOp ''X-Request-ID'' i # ops, None), (w', v'))
    \<and> srv rq' v = ((ops, None), v') \<and> RequestIDFromContext (wq_ctx rq') \<noteq> i
    \<and> lw_out w' = lw_out w @ [projr (lg_format lg e1), projr (lg_format lg e2)]
    \<and> le_request_id e1 \<noteq> i \<and> le_request_id e2 \<noteq> i"
proof -
  let ?rq = "rq\<lparr>wq_ctx := ContextWithRequestID (wq_ctx rq) i\<rparr>"
  let ?rq' = "?rq\<lparr>wq_ctx := ContextWithRequestID (wq_ctx ?rq) uuid\<rparr>"
  obtain ops v' where srv: "srv ?rq' v = ((ops, None), v')" using assms(8) by blast
  obtain w' e1 e2 where mw: "HTTPMiddleware env uuid d lg srv ?rq (w, v) = ((ops, None), (w', v'))"
    "lw_out w' = lw_out w @ [projr (lg_format lg e1), projr (lg_format lg e2)]" "le_request_id e1 = uuid" "le_request_id e2 = uuid"
    using http_middleware_entries [OF assms(1-4), where rq = ?rq and srv = srv and w = w and d = d, OF _ srv] assms(5) by auto
  have "RequestIDMiddleware uuid0 (Some gen) (HTTPMiddleware env uuid d lg srv) rq (w, v) =
      ((SetHeaderOp ''X-Request-ID'' i # ops, None), (w', v'))"
    unfolding RequestIDMiddleware_def Let_def option.case assms(5) simp_thms if_True assms(6) [symmetric]
    using mw(1) by simp
  moreover have "RequestIDFromContext (wq_ctx ?rq') \<noteq> i"
    using assms(7) by (simp add: RequestIDFromContext_def ContextWithRequestID_def)
  ultimately show ?thesis using srv mw(2-4) assms(7) by metis
qed

theorem request_ids_diverge_witness:
  "\<exists>ops w'. RequestIDMiddleware ''u'' (Some UUIDGenerator) (HTTPMiddleware demo_log ''v'' 0 (new_logger None) (\<lambda>rq n :: nat. (([], None), n)))
      \<lparr>wq_header = (\<lambda>h. if h = ''X-Correlation-ID'' then ''c'' else []), wq_method = ''GET'', wq_path = ''/'', wq_remote = [],
       wq_ctx = \<lparr>cx_token = None, cx_user = None, rx_id = []\<rparr>\<rparr>
      (\<lparr>lw_out = [], lw_stderr = [], lw_exit = None\<rparr>, 0) = ((SetHeaderOp ''X-Request-ID'' ''c'' # ops, None), (w', 0))
    \<and> (\<exists>e1 e2. lw_out w' = map (\<lambda>e. projr (text_Format NewTextFormatter e)) [e1, e2] \<and> le_request_id e1 \<noteq> ''c'')"
proof -
  let ?rq = "\<lparr>wq_header = (\<lambda>h. if h = ''X-Correlation-ID'' then ''c'' else []), wq_method = ''GET'', wq_path = ''/'', wq_remote = [],
       wq_ctx = \<lparr>cx_token = None, cx_user = None, rx_id = []\<rparr>\<rparr>"
  have "lg_level (new_logger None) \<le> InfoLevel" "lg_key (new_logger None) = ''request_id''"
    "\<And>e. \<exists>t. lg_format (new_logger None) e = Inr t" "\<And>c. lv_writer demo_log c = None"
    by (simp_all add: new_logger_def text_Format_def demo_log_def)
  from request_ids_diverge [OF this(1,3,4,2), where rq = ?rq and i = "''c''" and ?uuid0.0 = "''u''" and gen = UUIDGenerator
      and uuid = "''v''" and srv = "\<lambda>rq n :: nat. (([], None), n)" and v = 0 and d = 0
      and w = "\<lparr>lw_out = [], lw_stderr = [], lw_exit = None\<rparr>"]
  show ?thesis by (fastforce simp: new_logger_def)
qed

subsection \<open>Wrapped handlers\<close>

text \<open>
  A wrapped handler behaves as the handler itself, called with a context that has the id of the request.
\<close>

lemma wrapped_handler_is_transparent:
  "\<exists>w'. WrapHandler env uuid d base operation handler cx params (w, v) =
    (fst (handler (ContextWithRequestID cx (if rx_id cx = [] then uuid else rx_id cx)) params v),
     (w', snd (handler (ContextWithRequestID cx (if rx_id cx = [] then uuid else rx_id cx)) params v)))"
  by (auto simp: WrapHandler_def Let_def RequestIDFromContext_def ContextWithRequestID_def
      split: prod.split outcome.split)

end
