(* ===== verification/Utils.thy ===== *)
theory Utils
  imports Logging
begin

section \<open>Utilities (\<open>pkg/utils\<close>) and the loggers of the server\<close>

text \<open>
  The helpers for JSON, the detector of goroutine leaks, and the logger that a server has by default.
  The texts of \<open>encoding/json\<close> errors are left out of the errors. Shown: merging objects lets later members win.
\<close>

subsection \<open>JSON (\<open>jsonschema.go\<close>)\<close>

text \<open>The value is given as its marshalled JSON, or the text of the error.\<close>

definition schema_text :: "json \<Rightarrow> string" where
  "schema_text v =
     [CHR 0x7B, CHR 0x0A, CHR 0x09, CHR 0x09] @ json_print (JStr ''type'') @ '': '' @ json_print (JStr ''object'') @
     [CHR '','', CHR 0x0A, CHR 0x09, CHR 0x09] @ json_print (JStr ''example'') @ '': '' @ json_print v @
     [CHR 0x0A, CHR 0x09, CHR 0x7D]"

definition GenerateJSONSchema :: "string + json \<Rightarrow> goerr + string" where
  "GenerateJSONSchema x =
     (case x of
        Inl t \<Rightarrow> Inl (ErrWrapped (''failed to marshal example: '' @ t) (ErrText t))
      | Inr v \<Rightarrow> Inr (schema_text v))"

text \<open>The schema is not looked at. A number that does not fit into a float is an error as well.\<close>

definition ValidateAgainstSchema :: "string \<Rightarrow> string \<Rightarrow> goerr option" where
  "ValidateAgainstSchema data schema =
     (case (case json_parse data of None \<Rightarrow> None | Some v \<Rightarrow> decode_any v) of
        None \<Rightarrow> Some (ErrText ''invalid JSON'')
      | Some _ \<Rightarrow> None)"

definition object_of :: "string \<Rightarrow> (string \<times> gval) list option" where
  "object_of text = (case json_parse text of None \<Rightarrow> None | Some v \<Rightarrow> generic_map v)"

definition merge_into :: "(string \<times> gval) list \<Rightarrow> (string \<times> gval) list \<Rightarrow> (string \<times> gval) list" where
  "merge_into result cur = fold (\<lambda>(k, v). put_assoc k v) cur result"

fun merge_all :: "string list \<Rightarrow> (string \<times> gval) list \<Rightarrow> (string \<times> gval) list option" where
  "merge_all [] result = Some result"
| "merge_all (text # rest) result =
     (case object_of text of None \<Rightarrow> None | Some cur \<Rightarrow> merge_all rest (merge_into result cur))"

text \<open>One object is returned as it is, whatever it is.\<close>

definition MergeJSONObjects :: "string list \<Rightarrow> goerr + string" where
  "MergeJSONObjects objects =
     (case objects of
        [] \<Rightarrow> Inr [CHR 0x7B, CHR 0x7D]
      | [x] \<Rightarrow> Inr x
      | _ \<Rightarrow> (case merge_all objects [] of
          None \<Rightarrow> Inl (ErrText ''failed to unmarshal object'')
        | Some m \<Rightarrow> Inr (json_print (marshal (GMap m)))))"

text \<open>What a member becomes: the last object that has it decides.\<close>

definition last_member :: "(string \<times> gval) list list \<Rightarrow> string \<Rightarrow> gval option" where
  "last_member ms k = fold (\<lambda>m acc. case map_of m k of None \<Rightarrow> acc | Some v \<Rightarrow> Some v) ms None"

lemma merge_into_member:
  "distinct (map fst cur) \<Longrightarrow> map_of (merge_into result cur) k =
    (case map_of cur k of None \<Rightarrow> map_of result k | Some v \<Rightarrow> Some v)"
  unfolding merge_into_def by (rule map_of_put_all [where g = "\<lambda>v. v"])

lemma merge_all_members:
  assumes "map object_of texts = map Some ms" "\<forall>m \<in> set ms. distinct (map fst m)"
  shows "\<exists>r. merge_all texts result = Some r
    \<and> (\<forall>k. map_of r k = fold (\<lambda>m acc. case map_of m k of None \<Rightarrow> acc | Some v \<Rightarrow> Some v) ms (map_of result k))"
  using assms
proof (induction texts arbitrary: ms result)
  case (Cons t texts)
  obtain m ms' where ms: "ms = m # ms'" "object_of t = Some m" "map object_of texts = map Some ms'"
    using Cons.prems(1) by (cases ms) auto
  have "distinct (map fst m)" using Cons.prems(2) ms(1) by simp
  with Cons.IH [OF ms(3), of "merge_into result m"] Cons.prems(2) show ?case
    by (simp add: ms(1,2) merge_into_member)
qed simp

text \<open>
  Merging two or more texts of objects gives the text of an object whose members are, for each key,
  the value of the last text that has it.
\<close>

theorem merged_members:
  assumes "map object_of texts = map Some ms" "\<forall>m \<in> set ms. distinct (map fst m)" "2 \<le> length texts"
  shows "\<exists>r. MergeJSONObjects texts = Inr (json_print (marshal (GMap r))) \<and> (\<forall>k. map_of r k = last_member ms k)"
proof -
  obtain x y rest where texts: "texts = x # y # rest"
    using assms(3) by (cases texts; cases "tl texts") auto
  show ?thesis using merge_all_members [OF assms(1,2), of "[]"]
    by (auto simp: MergeJSONObjects_def last_member_def texts simp del: merge_all.simps)
qed

theorem merged_members_witness:
  "\<exists>r. MergeJSONObjects (map json_print [JObj [(''a'', JBool True)], JObj [(''a'', JStr ''x''), (''b'', JNull)]]) =
      Inr (json_print (marshal (GMap r))) \<and> map_of r ''a'' = Some (GStr ''x'')"
proof -
  let ?vs = "[JObj [(''a'', JBool True)], JObj [(''a'', JStr ''x''), (''b'', JNull)]]"
  have "map object_of (map json_print ?vs) = map Some [[(''a'', GBool True)], [(''a'', GStr ''x''), (''b'', GNil)]]"
    by (simp add: object_of_def json_parse_print generic_map_def all_some_def put_assoc_def)
  from merged_members [OF this] show ?thesis by (auto simp: last_member_def)
qed

definition JSONToStruct :: "(json \<Rightarrow> 'a option) \<Rightarrow> string \<Rightarrow> goerr + 'a" where
  "JSONToStruct dec data =
     (case (case json_parse data of None \<Rightarrow> None | Some v \<Rightarrow> dec v) of
        None \<Rightarrow> Inl (ErrText (''failed to unmarshal JSON (data: '' @ data @ '')''))
      | Some x \<Rightarrow> Inr x)"

subsection \<open>The detector of goroutine leaks (\<open>goroutine.go\<close>)\<close>

text \<open>The numbers of goroutines are readings; a test fails when it has called \<open>Errorf\<close>.\<close>

record leak_detector =
  gl_initial :: int
  gl_allowed :: int
  gl_interval :: duration
  gl_delay :: duration

definition NewGoroutineLeakDetector :: leak_detector where
  "NewGoroutineLeakDetector = \<lparr>gl_initial = 0, gl_allowed = 0, gl_interval = 100 * millisecond, gl_delay = 200 * millisecond\<rparr>"

definition detector_Start :: "int \<Rightarrow> leak_detector \<Rightarrow> leak_detector" where
  "detector_Start now d = d\<lparr>gl_initial := now\<rparr>"

definition SetAllowedGrowth :: "int \<Rightarrow> leak_detector \<Rightarrow> leak_detector" where
  "SetAllowedGrowth n d = d\<lparr>gl_allowed := n\<rparr>"

definition SetStabilizeDelay :: "duration \<Rightarrow> leak_detector \<Rightarrow> leak_detector" where
  "SetStabilizeDelay t d = d\<lparr>gl_delay := t\<rparr>"

fun lowest :: "int \<Rightarrow> int list \<Rightarrow> int" where
  "lowest m [] = m"
| "lowest m (c # cs) = lowest (if c < m then c else m) cs"

text \<open>Whether the test fails, for three readings.\<close>

definition detector_Check :: "int \<times> int \<times> int \<Rightarrow> leak_detector \<Rightarrow> bool" where
  "detector_Check counts d =
     (case counts of (a, b, c) \<Rightarrow> gl_allowed d < lowest a [a, b, c] - gl_initial d)"

lemma lowest_le: "lowest m cs \<le> x \<longleftrightarrow> m \<le> x \<or> (\<exists>c \<in> set cs. c \<le> x)"
  by (induction cs arbitrary: m) auto

lemma detector_reports_iff:
  "detector_Check (a, b, c) d \<longleftrightarrow> (\<forall>n \<in> {a, b, c}. gl_initial d + gl_allowed d < n)"
proof -
  have "detector_Check (a, b, c) d \<longleftrightarrow> \<not> lowest a [a, b, c] \<le> gl_initial d + gl_allowed d"
    by (auto simp: detector_Check_def simp del: lowest.simps)
  also have "\<dots> \<longleftrightarrow> (\<forall>n \<in> {a, b, c}. gl_initial d + gl_allowed d < n)"
    unfolding lowest_le by auto
  finally show ?thesis .
qed

subsection \<open>The default logger of a server (\<open>pkg/server/server.go\<close>)\<close>

definition NewDefaultLogger :: logger where
  "NewDefaultLogger = SetLevel InfoLevel
     (WithFields [StringField ''component'' ''mcp-server''] (new_logger (Some (text_Format NewTextFormatter))))"

definition default_log :: "log_env \<Rightarrow> int \<Rightarrow> string \<Rightarrow> logger \<Rightarrow> log_world \<Rightarrow> log_world" where
  "default_log = legacy_log"

end
