(* ===== verification/Spec2Isabelle.thy ===== *)
theory Spec2Isabelle
  imports Notifications Rbac Subscriptions HttpExchange Streaming Telemetry Utils
begin

text \<open>
  The MCP SDK for Go. A server offers tools, resources, prompts, completions and roots to a client; the two
  exchange JSON-RPC messages over a transport, lines of text on standard streams or HTTP with event
  streams. The SDK holds both sides. This development models its packages and proves what they promise
  to each other, from the text of a message to a listing fetched over a whole session; where the code
  does not keep a promise, the theorem says what it does in its place.

  \<^bold>\<open>How the parts work together.\<close> The client (\<open>pkg/client\<close>) marshals the parameters of a call and hands
  it to its transport, which gives it an identifier, writes the request, registers a channel for the
  response and waits. The peer's transport reads the message, tells requests, responses and
  notifications apart, and calls the handler that the server (\<open>pkg/server\<close>) registered for the method.
  The handler decodes the parameters, asks a provider, pages and filters, and its result or error goes
  back to the waiting channel. Middleware (reliability, observability, \<open>pkg/auth\<close>) wraps a transport and has
  its interface; \<open>NewTransport\<close> builds the chain from a configuration. Over HTTP the server side is the
  handler of \<open>http_handler.go\<close>, which keeps sessions and event streams and calls a transport of its own.

  \<^bold>\<open>Foundations.\<close> \<open>Prelude\<close>: Go's 64 bit integers, instants and durations in nanoseconds, strings as
  bytes, outcomes of calls (a value, an error, a panic). \<open>Json\<close>, \<open>Decode\<close>: the JSON texts, their scanner
  and printer, and marshalling between trees and Go values as \<open>encoding/json\<close> does it (members matched
  without regard to case, later ones overwriting). \<open>Float64\<close>: binary64 numbers as rationals with a
  rounding after every operation, without overflow and underflow, and their shortest texts. \<open>Base64\<close>: the
  standard encoding. These are the parts of Go's standard library that the code relies on.

  \<^bold>\<open>The protocol\<close> (\<open>pkg/protocol\<close>, \<open>pkg/errors\<close>, \<open>pkg/pagination\<close>). \<open>Protocol\<close>: the messages and batches of
  \<open>jsonrpc.go\<close>, their classification, parsing and printing. \<open>Messages\<close>, \<open>Notifications\<close>, \<open>Calls\<close>: a record
  for every struct of parameters and results with its JSON form and decoder, the methods and what is
  sent under each. \<open>Errors\<close>, \<open>ErrorCodes\<close>, \<open>Conversion\<close>: the structured error, its registry and
  constructors, its conversions to and from JSON-RPC. \<open>Pagination\<close>: the page parameters and the loop that
  fetches all pages. The lemmas are round trips: what one side prints the other parses to the same value,
  under stated conditions where the code loses something.

  \<^bold>\<open>The server\<close> (\<open>pkg/server\<close>). \<open>Providers\<close>: the base providers of \<open>providers.go\<close> with their cursors.
  \<open>Subscriptions\<close>: the manager of \<open>subscriptions.go\<close>, its queue and its batches. \<open>Server\<close>: options,
  construction, handlers and notifications of \<open>server.go\<close>. \<open>Serving\<close>, \<open>Results\<close>: which methods are served,
  what initialization changes, and that every result reaches the client's decoder whole. \<open>Sse\<close>,
  \<open>HttpHandler\<close>, \<open>HttpSessions\<close>: event streams from both ends and the handler of \<open>http_handler.go\<close>, a
  record updated by \<open>ServeHTTP\<close> and by the steps of its streams, with the life of a session.

  \<^bold>\<open>Transports\<close> (\<open>pkg/transport\<close>). \<open>BaseTransport\<close>: handler tables, dispatch, identifiers, the table of
  pending responses with its channels, whose steps interleave freely (\<open>wait_step\<close>). \<open>Stdio\<close>: lines, from
  \<open>stdio.go\<close>. \<open>Reliability\<close>: retries and the circuit breaker of \<open>reliability_middleware.go\<close>.
  \<open>HttpReconnect\<close>, \<open>HttpClient\<close>, \<open>HttpStreams\<close>: the transport of \<open>streamable_http.go\<close>: its own breaker and
  backoff; posting and handling messages; event streams, batches, origins and life cycle.
  \<open>HttpDelivery\<close>, \<open>HttpAnswers\<close>, \<open>HttpInvariant\<close>: which answers reach their callers, what becomes of lost
  streams, and the invariant of the response channels over every order of steps (\<open>call_step\<close>).
  \<open>Metrics\<close>: the counters, durations and log of \<open>observability_middleware.go\<close>, whose accounts balance over any
  interleaving of operations (\<open>obs_run\<close>). \<open>Middleware\<close>: configurations, the interface of transports as a
  record of functions, the four layers on a common state, the builder and the chain of \<open>middleware.go\<close>, the
  factories of \<open>pkg/auth/factory.go\<close> and \<open>NewTransport\<close>. \<open>Stacks\<close>: stdio as a base of the chain, and how the
  layers act on each other: when the chain is transparent, what refusals do to the breaker, what configured
  authentication lets through, what does not pass the chain. \<open>Framing\<close>: the bytes between a writer and a
  reader of stdio; messages below 64 KiB come out as they went in, the first larger one ends the reader.

  \<^bold>\<open>Access control\<close> (\<open>pkg/auth\<close>). \<open>Auth\<close>: requests, results and the contract of a provider, the locale
  that \<open>Bearer\<close> (tokens as shared objects in a heap) and \<open>ApiKey\<close> are interpretations of. \<open>Rbac\<close>: roles
  and permissions. \<open>AuthMiddleware\<close>, \<open>RateLimit\<close>: the two middlewares with the token cache and the token
  buckets. The lemmas are about revocation, the gate before a handler, and bounds on admissions.

  \<^bold>\<open>Sessions.\<close> \<open>Client\<close>: the client of \<open>client.go\<close> over any transport, a record of functions. \<open>Session\<close>: client
  and server with their stdio transports, where a call by lines equals a direct call of the handler and
  returns its response. \<open>EndToEnd\<close>: the client decodes that response object in place of the result, so over
  stdio every result is lost; over a transport that hands over results as the client expects, the listing
  of all tools returns the provider's tools. \<open>Streaming\<close>: the streaming tool call of \<open>streaming.go\<close>, the steps of its goroutines
  as a relation (\<open>streaming_step\<close>). \<open>HttpExchange\<close>: the HTTP transport with the HTTP handler behind
  its network.

  \<^bold>\<open>Logs, metrics and traces.\<close> \<open>Logging\<close> (\<open>pkg/logging\<close>): loggers, formatters, adapters and the HTTP middleware,
  over the chunks that are written; an entry in JSON is one line that parses back, one of text can be
  forged. \<open>Prometheus\<close>, \<open>Telemetry\<close> (\<open>pkg/observability\<close>): the metrics with their series, over a registry that
  is an argument, and the sampler and the middleware, which records spans as a log of events: every span
  ends, and no operation sees the middleware. \<open>Utils\<close> (\<open>pkg/utils\<close>): the helpers for JSON and goroutines.

  \<^bold>\<open>Modelling.\<close> A struct is a record, its methods are functions on it; mutable objects that are shared
  (tokens, channels, connections of a stream) live in a heap by address. A critical section is one step;
  interleavings are inductive relations over the steps or lists of operations. A panic is a value of the
  outcome. The clock, random numbers, errors of the operating system and texts of the standard library's
  errors are arguments, taken in the order of the calls. An application is a type parameter and its
  handlers are functions on it. Where the code ranges over a map, the order is an argument.

  \<^bold>\<open>Bounds and termination.\<close> Loops that the code bounds are structural recursions: the retry loop on the
  attempts that are left, polling on the list of its rounds. The search of roles is bounded by the roles
  not yet visited. The loop over pages and posting over HTTP, whose answers can make the transport post
  again, are partial functions, which are undefined when the code does not return: the theorems about
  listings prove that they return, and \<open>posting_returns\<close> gives a
  condition under which it does. Integers wrap at 64 bits where a value from outside reaches them (page
  limits, identifiers, counters); lengths and attempts are natural numbers.

  \<^bold>\<open>Not modelled.\<close> The goroutines as such and their locks: each is its step functions. Reads that race
  without a lock, and a response that arrives between the lookup of its handler and the call, are not
  shown. TLS, the HTTP client and server of the standard library beyond what a handler does to its
  response; the Prometheus and OpenTelemetry libraries, of which only the calls are recorded; the calls
  that the other packages make to their loggers. The mock servers and pipes of \<open>test_helpers.go\<close>, which serve
  the tests only, the facade \<open>mcp.go\<close>, which names what other packages export, the examples and the
  benchmarks, which are programs around the SDK.
\<close>

end
